(* ===== verification/Prelude.thy ===== *)
theory Prelude
  imports Main "HOL-Library.Sublist" "HOL-Library.List_Lexorder" "HOL-Library.Char_ord"
begin

text \<open>
  What the components share: strings with the operations of the JavaScript standard library
  the code uses, optional values with JavaScript's nullish and truthiness tests, the
  insertion-ordered grouping of a list (the \<open>new Map\<close> and \<open>push\<close> loop that several modules
  contain), a stable sort by a comparator, results, and effectful programs.

  A string is a list of characters; a character stands for one code unit. All the strings the
  modelled code inspects (addresses, keys, ISO timestamps, header names) are ASCII, and case
  conversion and white space are modelled on that range.
\<close>

named_theorems js_simps \<open>unfolding of the string and option operations\<close>
named_theorems prog_simps \<open>evaluation of effectful programs\<close>
named_theorems trace_intros \<open>which events a program appends to the history\<close>

type_synonym str = string

section \<open>Optional values\<close>

text \<open>\<open>a ?? b\<close>\<close>

definition nullish :: "'a option \<Rightarrow> 'a \<Rightarrow> 'a" where
  "nullish x d = (case x of None \<Rightarrow> d | Some v \<Rightarrow> v)"

definition nullish_opt :: "'a option \<Rightarrow> 'a option \<Rightarrow> 'a option" where
  "nullish_opt x y = (case x of None \<Rightarrow> y | Some v \<Rightarrow> Some v)"

text \<open>The truth value of an optional string: \<open>undefined\<close> and the empty string are falsy.\<close>

definition truthy :: "str option \<Rightarrow> bool" where
  "truthy x = (case x of None \<Rightarrow> False | Some s \<Rightarrow> s \<noteq> [])"

lemma nullish_simps [simp]: "nullish None d = d" "nullish (Some v) d = v"
  by (simp_all add: nullish_def)

lemma nullish_opt_simps [simp]: "nullish_opt None y = y" "nullish_opt (Some v) y = Some v"
  by (simp_all add: nullish_opt_def)

lemma truthy_simps [simp]: "truthy None = False" "truthy (Some s) = (s \<noteq> [])"
  by (simp_all add: truthy_def)

lemma truthyE:
  assumes "truthy x" obtains s where "x = Some s" "s \<noteq> []"
  using assms by (auto simp: truthy_def split: option.splits)

lemma nullish_opt_None_iff [simp]: "nullish_opt x y = None \<longleftrightarrow> x = None \<and> y = None"
  by (simp add: nullish_opt_def split: option.splits)

section \<open>Strings\<close>

definition starts_with :: "str \<Rightarrow> str \<Rightarrow> bool" where
  "starts_with s p = prefix p s"

definition ends_with :: "str \<Rightarrow> str \<Rightarrow> bool" where
  "ends_with s p = suffix p s"

definition str_includes :: "str \<Rightarrow> str \<Rightarrow> bool" where
  "str_includes s t = sublist t s"

text \<open>\<open>s.slice(0, -k)\<close> and \<open>s.slice(-k)\<close>, for \<open>0 < k\<close>\<close>

definition slice_drop_last :: "nat \<Rightarrow> 'a list \<Rightarrow> 'a list" where
  "slice_drop_last k s = take (length s - k) s"

definition slice_last :: "nat \<Rightarrow> 'a list \<Rightarrow> 'a list" where
  "slice_last k s = drop (length s - k) s"

text \<open>\<open>s.indexOf(c)\<close> and \<open>s.lastIndexOf(c)\<close> for one character, \<open>None\<close> for \<open>-1\<close>\<close>

fun index_of :: "'a \<Rightarrow> 'a list \<Rightarrow> nat option" where
  "index_of c [] = None"
| "index_of c (x # xs) = (if x = c then Some 0 else map_option Suc (index_of c xs))"

fun last_index_of :: "'a \<Rightarrow> 'a list \<Rightarrow> nat option" where
  "last_index_of c [] = None"
| "last_index_of c (x # xs) =
     (case last_index_of c xs of
        Some i \<Rightarrow> Some (Suc i)
      | None \<Rightarrow> (if x = c then Some 0 else None))"

text \<open>\<open>s.split(c)\<close> for one character: never empty\<close>

fun split_on :: "'a \<Rightarrow> 'a list \<Rightarrow> 'a list list" where
  "split_on c [] = [[]]"
| "split_on c (x # xs) =
     (if x = c then [] # split_on c xs
      else (case split_on c xs of [] \<Rightarrow> [[x]] | y # ys \<Rightarrow> (x # y) # ys))"

definition lower_char :: "char \<Rightarrow> char" where
  "lower_char c =
     (if 65 \<le> (of_char c :: nat) \<and> (of_char c :: nat) \<le> 90
      then char_of ((of_char c :: nat) + 32) else c)"

definition to_lower :: "str \<Rightarrow> str" where
  "to_lower s = map lower_char s"

definition upper_char :: "char \<Rightarrow> char" where
  "upper_char c =
     (if 97 \<le> (of_char c :: nat) \<and> (of_char c :: nat) \<le> 122
      then char_of ((of_char c :: nat) - 32) else c)"

definition to_upper :: "str \<Rightarrow> str" where
  "to_upper s = map upper_char s"

text \<open>White space as \<open>trim\<close> sees it, within Latin-1: tab to carriage return, space, no-break space\<close>

definition is_space :: "char \<Rightarrow> bool" where
  "is_space c =
     (let n = (of_char c :: nat) in (9 \<le> n \<and> n \<le> 13) \<or> n = 32 \<or> n = 160)"

definition is_letter :: "char \<Rightarrow> bool" where
  "is_letter c \<longleftrightarrow> (let n = (of_char c :: nat) in (65 \<le> n \<and> n \<le> 90) \<or> (97 \<le> n \<and> n \<le> 122))"

definition trim :: "str \<Rightarrow> str" where
  "trim s = rev (dropWhile is_space (rev (dropWhile is_space s)))"

text \<open>The decimal text of a number, as string interpolation writes it\<close>

fun show_nat :: "nat \<Rightarrow> str" where
  "show_nat n =
     (if n < 10 then [char_of (48 + n)] else show_nat (n div 10) @ [char_of (48 + n mod 10)])"

declare show_nat.simps [simp del]

lemma index_of_None [simp]: "c \<notin> set xs \<Longrightarrow> index_of c xs = None"
  by (induction xs) auto

lemma index_of_NoneD: "index_of c xs = None \<Longrightarrow> c \<notin> set xs"
  by (induction xs) (auto split: if_splits)

lemma index_of_Some:
  "index_of c xs = Some i \<Longrightarrow> i < length xs \<and> xs ! i = c \<and> c \<notin> set (take i xs)"
  by (induction xs arbitrary: i) (auto split: if_splits)

lemma index_of_append [simp]: "c \<notin> set xs \<Longrightarrow> index_of c (xs @ c # ys) = Some (length xs)"
  by (induction xs) auto

lemma last_index_of_None [simp]: "c \<notin> set xs \<Longrightarrow> last_index_of c xs = None"
  by (induction xs) auto

lemma last_index_of_NoneD: "last_index_of c xs = None \<Longrightarrow> c \<notin> set xs"
  by (induction xs) (auto split: option.splits if_splits)

lemma last_index_of_append [simp]:
  "c \<notin> set ys \<Longrightarrow> last_index_of c (xs @ c # ys) = Some (length xs)"
  by (induction xs) auto

lemma last_index_of_Some:
  assumes "last_index_of c xs = Some i"
  shows "\<exists>ys zs. xs = ys @ c # zs \<and> length ys = i \<and> c \<notin> set zs"
proof -
  have "c \<in> set xs"
    using assms by (metis last_index_of_None option.distinct(1))
  then obtain ys zs where "xs = ys @ c # zs" "c \<notin> set zs"
    by (metis split_list_last)
  with assms show ?thesis by auto
qed

lemma split_on_ne [simp]: "split_on c xs \<noteq> []"
  by (induction xs) (auto split: list.splits)

lemma split_on_no_sep: "c \<notin> set xs \<Longrightarrow> split_on c xs = [xs]"
  by (induction xs) auto

lemma split_on_append:
  "c \<notin> set xs \<Longrightarrow> split_on c (xs @ c # ys) = xs # split_on c ys"
  by (induction xs) auto

lemma last_split_on:
  "c \<notin> set ys \<Longrightarrow> last (split_on c (xs @ c # ys)) = ys"
proof (induction xs)
  case Nil
  then show ?case by (simp add: split_on_no_sep)
next
  case (Cons x xs)
  have "2 \<le> length (split_on c (xs @ c # ys))" for xs
    by (induction xs) (auto simp: Suc_le_eq split: list.splits)
  from this [of xs] Cons show ?case
    by (auto split: list.splits)
qed

lemma lower_char_lower: "lower_char (lower_char c) = lower_char c"
  by (simp add: lower_char_def of_char_of of_char_def[symmetric])

lemma to_lower_to_lower [simp]: "to_lower (to_lower s) = to_lower s"
  by (simp add: to_lower_def lower_char_lower)

lemma to_lower_append [simp]: "to_lower (s @ t) = to_lower s @ to_lower t"
  by (simp add: to_lower_def)

lemma to_lower_Nil [simp]: "to_lower [] = []"
  by (simp add: to_lower_def)

lemma starts_with_append [simp]: "starts_with (p @ s) p"
  by (simp add: starts_with_def)

lemma slice_drop_last_append [simp]: "length t = k \<Longrightarrow> slice_drop_last k (s @ t) = s"
  by (simp add: slice_drop_last_def)

lemma slice_last_append [simp]: "length t = k \<Longrightarrow> slice_last k (s @ t) = t"
  by (simp add: slice_last_def)

lemma slice_partition: "slice_drop_last k s @ slice_last k s = s"
  by (simp add: slice_drop_last_def slice_last_def)


section \<open>Mapping and filtering at once\<close>

lemma mem_map_filter: "y \<in> set (List.map_filter f xs) \<longleftrightarrow> (\<exists>x \<in> set xs. f x = Some y)"
  by (force simp: List.map_filter_def)

section \<open>Insertion-ordered grouping\<close>

text \<open>
  \<open>const groups = new Map(); for (const x of xs) { push x to groups.get(key(x)) or set it }\<close>:
  the keys appear in the order of their first occurrence, each group in list order.
\<close>

fun group_insert :: "'k \<Rightarrow> 'a \<Rightarrow> ('k \<times> 'a list) list \<Rightarrow> ('k \<times> 'a list) list" where
  "group_insert k x [] = [(k, [x])]"
| "group_insert k x ((k', g) # gs) =
     (if k = k' then (k', g @ [x]) # gs else (k', g) # group_insert k x gs)"

fun group_from :: "('a \<Rightarrow> 'k) \<Rightarrow> ('k \<times> 'a list) list \<Rightarrow> 'a list \<Rightarrow> ('k \<times> 'a list) list" where
  "group_from key gs [] = gs"
| "group_from key gs (x # xs) = group_from key (group_insert (key x) x gs) xs"

definition group_by :: "('a \<Rightarrow> 'k) \<Rightarrow> 'a list \<Rightarrow> ('k \<times> 'a list) list" where
  "group_by key xs = group_from key [] xs"

definition grouped :: "('a \<Rightarrow> 'k) \<Rightarrow> 'a list \<Rightarrow> ('k \<times> 'a list) list \<Rightarrow> bool" where
  "grouped key xs gs \<longleftrightarrow>
     distinct (map fst gs) \<and> set (map fst gs) = key ` set xs \<and>
     (\<forall>(k, g) \<in> set gs. g = filter (\<lambda>x. key x = k) xs)"

lemma keys_group_insert: "set (map fst (group_insert k x gs)) = insert k (set (map fst gs))"
  by (induction k x gs rule: group_insert.induct) auto

lemma distinct_group_insert:
  "distinct (map fst gs) \<Longrightarrow> distinct (map fst (group_insert k x gs))"
proof (induction k x gs rule: group_insert.induct)
  case (2 k x k' g gs)
  then show ?case using keys_group_insert [of k x gs] by auto
qed simp

lemma group_insert_memD:
  "(k', g) \<in> set (group_insert k x gs) \<Longrightarrow> distinct (map fst gs) \<Longrightarrow>
    (k' \<noteq> k \<and> (k', g) \<in> set gs) \<or>
    (k' = k \<and> ((\<exists>g0. (k, g0) \<in> set gs \<and> g = g0 @ [x]) \<or> (k \<notin> fst ` set gs \<and> g = [x])))"
proof (induction k x gs rule: group_insert.induct)
  case (1 k x)
  then show ?case by auto
next
  case (2 k x k'' g'' gs)
  show ?case
  proof (cases "k = k''")
    case True
    with "2.prems" show ?thesis by (auto simp: image_iff)
  next
    case False
    with "2.prems" consider "k' = k''" "g = g''" | "(k', g) \<in> set (group_insert k x gs)"
      by auto
    then show ?thesis using False 2 by cases auto
  qed
qed

lemma grouped_insert:
  assumes "grouped key xs gs"
  shows "grouped key (xs @ [x]) (group_insert (key x) x gs)"
proof -
  have d: "distinct (map fst gs)" and k: "fst ` set gs = key ` set xs"
    and g: "\<And>k g. (k, g) \<in> set gs \<Longrightarrow> g = filter (\<lambda>x. key x = k) xs"
    using assms by (auto simp: grouped_def)
  have fresh: "filter (\<lambda>y. key y = key x) xs = []" if "key x \<notin> key ` set xs"
    using that by (auto simp: filter_empty_conv image_iff)
  have "g' = filter (\<lambda>y. key y = k') (xs @ [x])"
    if m: "(k', g') \<in> set (group_insert (key x) x gs)" for k' g'
    using group_insert_memD [OF m d] g fresh k by auto
  then show ?thesis
    using d k keys_group_insert [of "key x" x gs] distinct_group_insert [OF d]
    by (auto simp: grouped_def)
qed

lemma grouped_group_from:
  "grouped key ys gs \<Longrightarrow> grouped key (ys @ xs) (group_from key gs xs)"
proof (induction xs arbitrary: gs ys)
  case (Cons x xs)
  from Cons.IH [OF grouped_insert [OF Cons.prems]] show ?case by simp
qed simp

text \<open>The specification of the loop: one group per key, each the sublist of that key.\<close>

lemma grouped_group_by: "grouped key xs (group_by key xs)"
  using grouped_group_from [of key "[]" "[]" xs] by (simp add: group_by_def grouped_def)

lemma group_by_keys:
  "distinct (map fst (group_by key xs))" "fst ` set (group_by key xs) = key ` set xs"
  using grouped_group_by [of key xs] by (auto simp: grouped_def)

lemma group_by_group:
  "(k, g) \<in> set (group_by key xs) \<Longrightarrow> g = filter (\<lambda>x. key x = k) xs"
  using grouped_group_by [of key xs] by (auto simp: grouped_def)

lemma group_by_nonempty: "(k, g) \<in> set (group_by key xs) \<Longrightarrow> g \<noteq> []"
proof -
  assume a: "(k, g) \<in> set (group_by key xs)"
  then have "k \<in> key ` set xs" using group_by_keys(2) [of key xs] by (force simp: image_iff)
  with group_by_group [OF a] show "g \<noteq> []" by (auto simp: filter_empty_conv)
qed

lemma group_by_cover:
  assumes "x \<in> set xs"
  obtains g where "(key x, g) \<in> set (group_by key xs)" "x \<in> set g"
proof -
  from assms have "key x \<in> fst ` set (group_by key xs)" using group_by_keys(2) [of key xs] by auto
  then obtain g where g: "(key x, g) \<in> set (group_by key xs)" by auto
  with group_by_group [OF g] assms that show thesis by auto
qed

lemma group_by_Nil [simp]: "group_by key [] = []"
  by (simp add: group_by_def)

lemma sum_length_group_insert:
  "(\<Sum>p\<leftarrow>group_insert k x gs. length (snd p)) = Suc (\<Sum>p\<leftarrow>gs. length (snd p))"
  by (induction k x gs rule: group_insert.induct) auto

lemma sum_length_group_from:
  "(\<Sum>p\<leftarrow>group_from key gs xs. length (snd p)) = (\<Sum>p\<leftarrow>gs. length (snd p)) + length xs"
  by (induction xs arbitrary: gs) (simp_all add: sum_length_group_insert)

lemma sum_length_groups: "(\<Sum>p\<leftarrow>group_by key xs. length (snd p)) = length xs"
  by (simp add: group_by_def sum_length_group_from)

section \<open>Stable sorting by a comparator\<close>

text \<open>
  \<open>Array.prototype.sort(cmp)\<close> is stable. Here \<open>le a b\<close> is \<open>cmp(a, b) \<le> 0\<close>. An insertion from
  the left keeps equal elements in list order.
\<close>

fun insert_by :: "('a \<Rightarrow> 'a \<Rightarrow> bool) \<Rightarrow> 'a \<Rightarrow> 'a list \<Rightarrow> 'a list" where
  "insert_by le x [] = [x]"
| "insert_by le x (y # ys) = (if le x y then x # y # ys else y # insert_by le x ys)"

definition sort_by :: "('a \<Rightarrow> 'a \<Rightarrow> bool) \<Rightarrow> 'a list \<Rightarrow> 'a list" where
  "sort_by le xs = foldr (insert_by le) xs []"

lemma sort_by_simps [simp]:
  "sort_by le [] = []" "sort_by le (x # xs) = insert_by le x (sort_by le xs)"
  by (simp_all add: sort_by_def)

lemma set_insert_by [simp]: "set (insert_by le x ys) = insert x (set ys)"
  by (induction ys) auto

lemma set_sort_by [simp]: "set (sort_by le xs) = set xs"
  by (induction xs) auto

lemma length_insert_by [simp]: "length (insert_by le x ys) = Suc (length ys)"
  by (induction ys) auto

lemma length_sort_by [simp]: "length (sort_by le xs) = length xs"
  by (induction xs) auto

lemma sort_by_Nil_iff [simp]: "sort_by le xs = [] \<longleftrightarrow> xs = []"
  by (metis length_0_conv length_sort_by)

lemma sum_list_insert_by:
  "(\<Sum>z\<leftarrow>insert_by le x ys. f z) = f x + (\<Sum>z\<leftarrow>ys. f z :: 'b :: comm_monoid_add)"
  by (induction ys) (auto simp: ac_simps)

lemma sum_list_sort_by:
  "(\<Sum>z\<leftarrow>sort_by le xs. f z) = (\<Sum>z\<leftarrow>xs. f z :: 'b :: comm_monoid_add)"
  by (induction xs) (auto simp: sum_list_insert_by)

lemma distinct_insert_by [simp]: "distinct (insert_by le x ys) \<longleftrightarrow> x \<notin> set ys \<and> distinct ys"
  by (induction ys) auto

lemma distinct_sort_by [simp]: "distinct (sort_by le xs) \<longleftrightarrow> distinct xs"
  by (induction xs) auto

text \<open>What a comparator owes the sort: it is total and transitive.\<close>

locale comparator_order =
  fixes le :: "'a \<Rightarrow> 'a \<Rightarrow> bool"
  assumes le_total: "le x y \<or> le y x"
    and le_trans: "le x y \<Longrightarrow> le y z \<Longrightarrow> le x z"
begin

lemma le_refl: "le x x"
  using le_total by blast

lemma insert_by_sorted: "sorted_wrt le ys \<Longrightarrow> sorted_wrt le (insert_by le x ys)"
proof (induction ys)
  case (Cons y ys)
  then show ?case using le_total le_trans by (auto split: if_splits)
qed simp

lemma sort_by_sorted: "sorted_wrt le (sort_by le xs)"
  by (induction xs) (auto intro: insert_by_sorted)

lemma last_greatest: "x \<in> set xs \<Longrightarrow> le x (last (sort_by le xs))"
proof -
  assume x: "x \<in> set xs"
  have "le y (last ys)" if "sorted_wrt le ys" "y \<in> set ys" for y ys
    using that by (induction ys) (auto simp: le_refl)
  from this [OF sort_by_sorted, of x xs] x show ?thesis by simp
qed

lemma insert_by_below: "\<forall>y\<in>set ys. le x y \<Longrightarrow> insert_by le x ys = x # ys"
  by (cases ys) auto

lemma sort_by_id: "sorted_wrt le xs \<Longrightarrow> sort_by le xs = xs"
  by (induction xs) (auto simp: insert_by_below)

lemma sort_by_idem: "sort_by le (sort_by le xs) = sort_by le xs"
  by (simp add: sort_by_id sort_by_sorted)

lemma filter_insert_by:
  assumes "\<And>a b. P a \<Longrightarrow> P b \<Longrightarrow> le a b"
  shows "filter P (insert_by le x ys) = (if P x then x # filter P ys else filter P ys)"
proof (induction ys)
  case (Cons y ys)
  then show ?case using assms by auto
qed simp

lemma sort_by_stable:
  assumes "\<And>a b. P a \<Longrightarrow> P b \<Longrightarrow> le a b"
  shows "filter P (sort_by le xs) = filter P xs"
  by (induction xs) (simp_all add: filter_insert_by [OF assms])

end

text \<open>An order by a key, the commonest comparator of the code.\<close>

definition le_by :: "('a \<Rightarrow> 'b :: linorder) \<Rightarrow> 'a \<Rightarrow> 'a \<Rightarrow> bool" where
  "le_by f a b \<longleftrightarrow> f a \<le> f b"

definition ge_by :: "('a \<Rightarrow> 'b :: linorder) \<Rightarrow> 'a \<Rightarrow> 'a \<Rightarrow> bool" where
  "ge_by f a b \<longleftrightarrow> f b \<le> f a"

interpretation key_order: comparator_order "le_by f" for f :: "'a \<Rightarrow> 'b :: linorder"
  by unfold_locales (auto simp: le_by_def)

interpretation key_order_desc: comparator_order "ge_by f" for f :: "'a \<Rightarrow> 'b :: linorder"
  by unfold_locales (auto simp: ge_by_def)

end
