(* ===== verification/Programs.thy ===== *)
theory Programs
  imports Prelude
begin

text \<open>
  Effectful programs. The services the code calls (DynamoDB tables, SQS, SES, the classifier,
  the clock, the id generator) are not modelled: every theorem holds for all of them. A service
  is a function from the history of events so far (and the call's arguments) to an outcome, so
  that it may answer the same call differently each time; the call appends one event to the
  history. A program maps a history to an outcome and the extended history.

  An \<open>async\<close> function of the code that returns a \<open>neverthrow\<close> result is a program over
  \<open>'e + 'a\<close>, \<open>Inl\<close> being \<open>err\<close> and \<open>Inr\<close> being \<open>ok\<close>; an exception is the outcome \<open>Threw\<close>.
\<close>

datatype 'a outcome = Done 'a | Threw str

type_synonym ('ev, 'a) prog = "'ev list \<Rightarrow> 'a outcome \<times> 'ev list"

section \<open>Combinators\<close>

definition ret :: "'a \<Rightarrow> ('ev, 'a) prog" where
  "ret x h = (Done x, h)"

definition throw :: "str \<Rightarrow> ('ev, 'a) prog" where
  "throw e h = (Threw e, h)"

text \<open>\<open>const x = await m; k(x)\<close>\<close>

definition bind :: "('ev, 'a) prog \<Rightarrow> ('a \<Rightarrow> ('ev, 'b) prog) \<Rightarrow> ('ev, 'b) prog" where
  "bind m k h = (case m h of (Done x, h') \<Rightarrow> k x h' | (Threw e, h') \<Rightarrow> (Threw e, h'))"

text \<open>\<open>const r = await m; if (r.isErr()) return err(f(r.error)); k(r.value)\<close>\<close>

definition bind_ok :: "('e \<Rightarrow> 'f) \<Rightarrow> ('ev, 'e + 'a) prog \<Rightarrow> ('a \<Rightarrow> ('ev, 'f + 'b) prog) \<Rightarrow> ('ev, 'f + 'b) prog" where
  "bind_ok f m k = bind m (\<lambda>r. case r of Inl e \<Rightarrow> ret (Inl (f e)) | Inr x \<Rightarrow> k x)"

text \<open>\<open>try { m } catch (e) { c(e) }\<close>\<close>

definition try_catch :: "('ev, 'a) prog \<Rightarrow> (str \<Rightarrow> ('ev, 'a) prog) \<Rightarrow> ('ev, 'a) prog" where
  "try_catch m c h = (case m h of (Done x, h') \<Rightarrow> (Done x, h') | (Threw e, h') \<Rightarrow> c e h')"

text \<open>One call of a service: its answer depends on the history, and the event is appended.\<close>

definition call :: "('ev list \<Rightarrow> 'a outcome) \<Rightarrow> ('a outcome \<Rightarrow> 'ev) \<Rightarrow> ('ev, 'a) prog" where
  "call svc ev h = (svc h, h @ [ev (svc h)])"

text \<open>\<open>for (const x of xs) { s = await body(s, x) }\<close>, and the version that may return early
  with an error, as a loop body with \<open>return err(...)\<close> does\<close>

primrec for_fold :: "'a list \<Rightarrow> ('s \<Rightarrow> 'a \<Rightarrow> ('ev, 's) prog) \<Rightarrow> 's \<Rightarrow> ('ev, 's) prog" where
  "for_fold [] body s = ret s"
| "for_fold (x # xs) body s = bind (body s x) (for_fold xs body)"

primrec for_ok :: "'a list \<Rightarrow> ('s \<Rightarrow> 'a \<Rightarrow> ('ev, 'e + 's) prog) \<Rightarrow> 's \<Rightarrow> ('ev, 'e + 's) prog" where
  "for_ok [] body s = ret (Inr s)"
| "for_ok (x # xs) body s = bind_ok (\<lambda>e. e) (body s x) (for_ok xs body)"

text \<open>\<open>await Promise.all(xs.map(f))\<close>: every call is made; the model makes them in list order.\<close>

primrec for_map :: "'a list \<Rightarrow> ('a \<Rightarrow> ('ev, 'b) prog) \<Rightarrow> ('ev, 'b list) prog" where
  "for_map [] f = ret []"
| "for_map (x # xs) f = bind (f x) (\<lambda>y. bind (for_map xs f) (\<lambda>ys. ret (y # ys)))"

lemma ret_apply [prog_simps]: "ret x h = (Done x, h)"
  by (simp add: ret_def)

lemma throw_apply [prog_simps]: "throw e h = (Threw e, h)"
  by (simp add: throw_def)

lemma call_apply [prog_simps]: "call svc ev h = (svc h, h @ [ev (svc h)])"
  by (simp add: call_def)

lemma bind_ret [simp]: "bind (ret x) k = k x"
  by (simp add: bind_def fun_eq_iff ret_apply)

lemma bind_throw [simp]: "bind (throw e) k = throw e"
  by (simp add: bind_def fun_eq_iff throw_def)

lemma ret_bind [simp]: "bind m ret = m"
  by (simp add: bind_def fun_eq_iff ret_apply split: prod.splits outcome.splits)

lemma bind_assoc: "bind (bind m k) l = bind m (\<lambda>x. bind (k x) l)"
  by (simp add: bind_def fun_eq_iff split: prod.splits outcome.splits)

lemma bind_ok_ret [simp]: "bind_ok f (ret r) k = (case r of Inl e \<Rightarrow> ret (Inl (f e)) | Inr x \<Rightarrow> k x)"
  by (simp add: bind_ok_def)

lemmas prog_defs = bind_def bind_ok_def try_catch_def call_def ret_def throw_def

section \<open>What a program does to the history\<close>

text \<open>
  \<open>spec m Q\<close>: from every history, \<open>m\<close> only appends events, and the outcome and the appended
  events satisfy \<open>Q\<close>. The rules below are compositional, one per combinator; \<open>emits\<close> is the
  special case of a property that every appended event has.
\<close>

definition spec :: "('ev, 'a) prog \<Rightarrow> ('a outcome \<Rightarrow> 'ev list \<Rightarrow> bool) \<Rightarrow> bool" where
  "spec m Q \<longleftrightarrow> (\<forall>h. \<exists>es. snd (m h) = h @ es \<and> Q (fst (m h)) es)"

definition emits :: "('ev, 'a) prog \<Rightarrow> ('ev \<Rightarrow> bool) \<Rightarrow> bool" where
  "emits m P \<longleftrightarrow> spec m (\<lambda>_ es. \<forall>e \<in> set es. P e)"

lemma specI: "(\<And>h. \<exists>es. snd (m h) = h @ es \<and> Q (fst (m h)) es) \<Longrightarrow> spec m Q"
  by (simp add: spec_def)

lemma specD: "spec m Q \<Longrightarrow> m h = (r, h') \<Longrightarrow> \<exists>es. h' = h @ es \<and> Q r es"
  unfolding spec_def by (metis fst_conv snd_conv)

lemma spec_mono: "spec m Q \<Longrightarrow> (\<And>r es. Q r es \<Longrightarrow> R r es) \<Longrightarrow> spec m R"
  unfolding spec_def by blast

lemma spec_conj: "spec m Q \<Longrightarrow> spec m R \<Longrightarrow> spec m (\<lambda>r es. Q r es \<and> R r es)"
  unfolding spec_def by (metis same_append_eq)

lemma spec_ret: "Q (Done x) [] \<Longrightarrow> spec (ret x) Q"
  by (simp add: spec_def ret_apply)

lemma spec_throw: "Q (Threw e) [] \<Longrightarrow> spec (throw e) Q"
  by (simp add: spec_def throw_apply)

lemma spec_call: "(\<And>r. Q r [ev r]) \<Longrightarrow> spec (call svc ev) Q"
  by (simp add: spec_def call_def)

lemma spec_bind:
  assumes m: "spec m Q"
    and k: "\<And>x es. Q (Done x) es \<Longrightarrow> spec (k x) (\<lambda>r es'. R r (es @ es'))"
    and t: "\<And>e es. Q (Threw e) es \<Longrightarrow> R (Threw e) es"
  shows "spec (bind m k) R"
proof (rule specI)
  fix h
  obtain r h' where mh: "m h = (r, h')" by fastforce
  obtain es where es: "h' = h @ es" "Q r es" using specD [OF m mh] by blast
  show "\<exists>es. snd (bind m k h) = h @ es \<and> R (fst (bind m k h)) es"
  proof (cases r)
    case (Done x)
    obtain r2 h2 where kh: "k x h' = (r2, h2)" by fastforce
    from es Done have "spec (k x) (\<lambda>r es'. R r (es @ es'))" by (intro k) simp
    from specD [OF this kh] obtain es' where "h2 = h' @ es'" "R r2 (es @ es')" by blast
    with es mh Done kh show ?thesis by (auto simp: bind_def)
  next
    case (Threw e)
    with es mh t show ?thesis by (auto simp: bind_def)
  qed
qed

lemma spec_try_catch:
  assumes m: "spec m Q"
    and d: "\<And>x es. Q (Done x) es \<Longrightarrow> R (Done x) es"
    and c: "\<And>e es. Q (Threw e) es \<Longrightarrow> spec (c e) (\<lambda>r es'. R r (es @ es'))"
  shows "spec (try_catch m c) R"
proof (rule specI)
  fix h
  obtain r h' where mh: "m h = (r, h')" by fastforce
  obtain es where es: "h' = h @ es" "Q r es" using specD [OF m mh] by blast
  show "\<exists>es. snd (try_catch m c h) = h @ es \<and> R (fst (try_catch m c h)) es"
  proof (cases r)
    case (Done x)
    with es mh d show ?thesis by (auto simp: try_catch_def)
  next
    case (Threw e)
    obtain r2 h2 where kh: "c e h' = (r2, h2)" by fastforce
    from es Threw have "spec (c e) (\<lambda>r es'. R r (es @ es'))" by (intro c) simp
    from specD [OF this kh] obtain es' where "h2 = h' @ es'" "R r2 (es @ es')" by blast
    with es mh Threw kh show ?thesis by (auto simp: try_catch_def)
  qed
qed

lemma spec_case_sum:
  "(\<And>e. x = Inl e \<Longrightarrow> spec (f e) Q) \<Longrightarrow> (\<And>v. x = Inr v \<Longrightarrow> spec (g v) Q) \<Longrightarrow> spec (case_sum f g x) Q"
  by (cases x) auto

lemma spec_case_option:
  "(x = None \<Longrightarrow> spec f Q) \<Longrightarrow> (\<And>v. x = Some v \<Longrightarrow> spec (g v) Q) \<Longrightarrow> spec (case_option f g x) Q"
  by (cases x) auto

lemma spec_if: "(b \<Longrightarrow> spec f Q) \<Longrightarrow> (\<not> b \<Longrightarrow> spec g Q) \<Longrightarrow> spec (if b then f else g) Q"
  by simp

section \<open>Every appended event has a property\<close>

lemma emits_ret [trace_intros]: "emits (ret x) P"
  by (simp add: emits_def spec_ret)

lemma emits_throw [trace_intros]: "emits (throw e) P"
  by (simp add: emits_def spec_throw)

lemma emits_call [trace_intros]: "(\<And>r. P (ev r)) \<Longrightarrow> emits (call svc ev) P"
  by (simp add: emits_def spec_call)

lemma emits_bind [trace_intros]:
  assumes "emits m P" "\<And>x. emits (k x) P"
  shows "emits (bind m k) P"
  unfolding emits_def
  by (rule spec_bind [OF assms(1) [unfolded emits_def]])
     (auto intro: spec_mono [OF assms(2) [unfolded emits_def]])

lemma emits_case_sum [trace_intros]:
  "(\<And>e. x = Inl e \<Longrightarrow> emits (f e) P) \<Longrightarrow> (\<And>v. x = Inr v \<Longrightarrow> emits (g v) P) \<Longrightarrow> emits (case_sum f g x) P"
  by (cases x) auto

lemma emits_case_option [trace_intros]:
  "(x = None \<Longrightarrow> emits f P) \<Longrightarrow> (\<And>v. x = Some v \<Longrightarrow> emits (g v) P) \<Longrightarrow> emits (case_option f g x) P"
  by (cases x) auto

lemma emits_case_prod [trace_intros]:
  "(\<And>a b. x = (a, b) \<Longrightarrow> emits (f a b) P) \<Longrightarrow> emits (case_prod f x) P"
  by (cases x) auto

lemma emits_if [trace_intros]:
  "(b \<Longrightarrow> emits f P) \<Longrightarrow> (\<not> b \<Longrightarrow> emits g P) \<Longrightarrow> emits (if b then f else g) P"
  by simp

lemma emits_let [trace_intros]: "emits (f x) P \<Longrightarrow> emits (Let x f) P"
  by simp

lemma emits_bind_ok [trace_intros]:
  "emits m P \<Longrightarrow> (\<And>x. emits (k x) P) \<Longrightarrow> emits (bind_ok f m k) P"
  unfolding bind_ok_def by (intro trace_intros)

lemma emits_try_catch [trace_intros]:
  assumes "emits m P" "\<And>e. emits (c e) P"
  shows "emits (try_catch m c) P"
  unfolding emits_def
  by (rule spec_try_catch [OF assms(1) [unfolded emits_def]])
     (auto intro: spec_mono [OF assms(2) [unfolded emits_def]])

lemma emits_for_fold [trace_intros]:
  "(\<And>s x. x \<in> set xs \<Longrightarrow> emits (body s x) P) \<Longrightarrow> emits (for_fold xs body s) P"
proof (induction xs arbitrary: s)
  case Nil
  then show ?case by (simp add: emits_ret)
next
  case (Cons x xs)
  have "emits (for_fold xs body s') P" for s' by (rule Cons.IH) (simp add: Cons.prems)
  then show ?case using Cons.prems by (simp add: emits_bind)
qed

lemma emits_for_ok [trace_intros]:
  "(\<And>s x. x \<in> set xs \<Longrightarrow> emits (body s x) P) \<Longrightarrow> emits (for_ok xs body s) P"
proof (induction xs arbitrary: s)
  case Nil
  then show ?case by (simp add: emits_ret)
next
  case (Cons x xs)
  have "emits (for_ok xs body s') P" for s' by (rule Cons.IH) (simp add: Cons.prems)
  then show ?case using Cons.prems by (simp add: emits_bind_ok)
qed

lemma emits_for_map [trace_intros]:
  "(\<And>x. x \<in> set xs \<Longrightarrow> emits (f x) P) \<Longrightarrow> emits (for_map xs f) P"
  by (induction xs) (auto intro!: trace_intros)

lemma emitsD: "emits m P \<Longrightarrow> m h = (r, h') \<Longrightarrow> \<exists>es. h' = h @ es \<and> (\<forall>e \<in> set es. P e)"
  unfolding emits_def by (auto dest: specD)

lemma emits_mono: "emits m P \<Longrightarrow> (\<And>e. P e \<Longrightarrow> Q e) \<Longrightarrow> emits m Q"
  unfolding emits_def by (erule spec_mono) auto

lemma emits_new:
  assumes "emits m P" "m h = (r, h')" "e \<in> set h'" "\<not> P e"
  shows "e \<in> set h"
  using emitsD [OF assms(1,2)] assms(3,4) by auto

section \<open>Loops that collect\<close>

lemma spec_bind_ok:
  assumes "spec m Q"
    and "\<And>x es. Q (Done (Inr x)) es \<Longrightarrow> spec (k x) (\<lambda>r es'. R r (es @ es'))"
    and "\<And>err es. Q (Done (Inl err)) es \<Longrightarrow> R (Done (Inl (f err))) es"
    and "\<And>t es. Q (Threw t) es \<Longrightarrow> R (Threw t) es"
  shows "spec (bind_ok f m k) R"
  unfolding bind_ok_def
  by (rule spec_bind [OF assms(1)]) (auto split: sum.splits intro!: spec_ret assms)

text \<open>A loop with early return that finished made every step's contribution, in order.\<close>

lemma spec_for_ok_collect:
  assumes "\<And>s x. x \<in> set xs \<Longrightarrow> spec (body s x) (\<lambda>r es. (\<exists>s'. r = Done (Inr s')) \<longrightarrow> g es = [h x])"
    and "g [] = []" "\<And>as bs. g (as @ bs) = g as @ g bs"
  shows "spec (for_ok xs body s) (\<lambda>r es. (\<exists>s'. r = Done (Inr s')) \<longrightarrow> g es = map h xs)"
  using assms(1)
proof (induction xs arbitrary: s)
  case Nil
  show ?case by (simp add: spec_ret assms(2))
next
  case (Cons x xs)
  have IH: "spec (for_ok xs body s') (\<lambda>r es. (\<exists>s'. r = Done (Inr s')) \<longrightarrow> g es = map h xs)" for s'
    by (rule Cons.IH) (simp add: Cons.prems)
  have "spec (body s x) (\<lambda>r es. (\<exists>s'. r = Done (Inr s')) \<longrightarrow> g es = [h x])"
    by (rule Cons.prems) simp
  from this show ?case
    unfolding for_ok.simps
    by (rule spec_bind_ok) (auto intro!: spec_mono [OF IH] simp: assms(3))
qed

end
