(* ===== verification/Types.thy ===== *)
theory Types
  imports Prelude
begin

text \<open>
  The data model of \<open>src/src/types/index.ts\<close> and \<open>src/src/types/calendar.ts\<close>: enumerations as
  datatypes, interfaces as records (one prefix per interface, since record fields are global),
  optional fields as options.

  Two kinds of values are strings in the model because the code puts unchecked strings into
  them: a workflow (\<open>action.value as Workflow\<close> in the rule engine) and an urgency
  (\<open>action.value as ThreadUrgency\<close>). A \<open>WorkflowData\<close> is the JavaScript object the code
  manipulates, fields by name, because the code reads it through casts and iterates over it.
  A timestamp is an ISO string; a missing and an \<open>undefined\<close> field are both \<open>None\<close>.
\<close>

section \<open>JSON values\<close>

datatype json =
    JUndefined
  | JNull
  | JBool bool
  | JNum int
  | JStr str
  | JArr "json list"
  | JObj "(str \<times> json) list"

type_synonym jobj = "(str \<times> json) list"

definition jfield :: "jobj \<Rightarrow> str \<Rightarrow> json" where
  "jfield obj k = (case map_of obj k of None \<Rightarrow> JUndefined | Some v \<Rightarrow> v)"

text \<open>\<open>obj[k] = v\<close>\<close>

primrec jset :: "str \<Rightarrow> json \<Rightarrow> jobj \<Rightarrow> jobj" where
  "jset k v [] = [(k, v)]"
| "jset k v (p # ps) = (if fst p = k then (k, v) # ps else p # jset k v ps)"

lemma map_of_jset: "map_of (jset k v obj) = (map_of obj)(k \<mapsto> v)"
  by (induction obj) auto

lemma jfield_jset: "jfield (jset k v obj) k' = (if k' = k then v else jfield obj k')"
  by (simp add: jfield_def map_of_jset)

text \<open>A field that the code treats as an optional string\<close>

definition jstr :: "jobj \<Rightarrow> str \<Rightarrow> str option" where
  "jstr obj k = (case jfield obj k of JStr s \<Rightarrow> Some s | _ \<Rightarrow> None)"

section \<open>Enumerations\<close>

datatype unknown_sender_policy =
  USAllowAll | USQuarantineVisible | USQuarantineHidden | USBlockHidden | USBlockReject | USReportViolation

datatype sender_policy = SPAllow | SPBlockHidden | SPBlockReject | SPReportViolation

datatype signal_status =
    SActive | SBlockHidden | SBlockReject | SReportViolation
  | SQuarantineVisible | SQuarantineHidden | SDraft | SPendingSend | SSent

datatype signal_source = SrcEmail | SrcUser | SrcSesFeedback | SrcSignal

datatype signal_type =
    TyEmail | TyDeliverability | TyInvalidRuleFunction | TyInvalidTemplateFunction
  | TyAutoSendBlocked | TyCalendarEvent | TyCalendarInviteInvalid | TyDomainMisconfiguration

datatype push_priority = PPInterrupt | PPAmbient | PPSilent

datatype thread_status = ThActive | ThArchived | ThDeleted | ThReportViolation

datatype rule_action_type =
    RAssignLabel | RAssignWorkflow | RArchive | RForward
  | RBlockHidden | RBlockReject | RQuarantineVisible | RQuarantineHidden
  | RSetUrgency | RSuppressNotification | RApproveSender
  | RAutoDraft | RForwardCalendarInvite

datatype suppression_reason =
  HardBounce | SoftBounce | Complaint | Manual | ExternalBounce

datatype resource_status = RsActive | RsComplete

datatype asset_type = QrCode | Barcode | Pkpass

datatype status_change =
    ScBlockHidden | ScBlockReject | ScReportViolation
  | ScQuarantineVisible | ScQuarantineHidden | ScArchived | ScDeleted

datatype unsubscribe_method = UnsubServer | UnsubWebsite | UnsubMailto

datatype billing_plan = Trial | Free | Beta | Paid | Lifetime | Premium | Internal | Enterprise

datatype ambiguous_date_format = MonthThenDay | DayThenMonth | SkipAmbiguous

datatype rsvp_decision = Accepted | Declined | Tentative

definition DEFAULT_UNKNOWN_SENDER_POLICY :: unknown_sender_policy where
  "DEFAULT_UNKNOWN_SENDER_POLICY = USQuarantineVisible"

definition THREAD_URGENCIES :: "str list" where
  "THREAD_URGENCIES = [''critical'', ''high'', ''normal'', ''low'', ''silent'']"

definition WORKFLOWS :: "str list" where
  "WORKFLOWS =
     [''auth'', ''conversation'', ''crm'', ''package'', ''travel'', ''payments'', ''content'',
      ''onboarding'', ''notice'', ''healthcare'', ''job'', ''support'', ''events'',
      ''healthcheck'', ''test'', ''unspecified'']"

definition RESOURCE_WORKFLOWS :: "str list" where
  "RESOURCE_WORKFLOWS =
     [''package'', ''travel'', ''payments'', ''healthcare'', ''job'', ''events'']"

section \<open>Email primitives\<close>

record email_address =
  ea_address :: str
  ea_name :: "str option"

record attachment =
  at_filename :: str
  at_mimeType :: str
  at_sizeBytes :: nat
  at_s3Key :: str

record inline_image_ref =
  ii_contentId :: str
  ii_mimeType :: str
  ii_sizeBytes :: nat
  ii_s3Key :: str
  ii_filename :: "str option"

record signal_action =
  sa_url :: str
  sa_text :: "str option"

record unsubscribe_info =
  un_type :: unsubscribe_method
  un_url :: str

section \<open>Rules\<close>

record rule_action =
  ra_type :: rule_action_type
  ra_value :: "str option"

record matched_rule_result =
  mr_ruleId :: str
  mr_actions :: "rule_action list"
  mr_labelsAdded :: "str list"
  mr_statusChange :: "status_change option"
  mr_text :: "str option"

datatype condition_type = CtJsonLogic | CtJs

record rule =
  ru_id :: str
  ru_accountId :: str
  ru_name :: str
  ru_condition :: str
  ru_conditionType :: "condition_type option"
  ru_actions :: "rule_action list"
  ru_enabled :: bool
  ru_priorityOrder :: int
  ru_lastError :: "str option"
  ru_createdAt :: str
  ru_updatedAt :: str

section \<open>Signals\<close>

text \<open>An embedding vector is opaque to the code: it is stored, looked up and passed on.\<close>

type_synonym embedding = "int list"
type_synonym headers = "(str \<times> str) list"

record email_base =
  eb_receivedAt :: str
  eb_summary :: str
  eb_urgency :: "str option"
  eb_actions :: "signal_action list"
  eb_embeddings :: "(str \<times> embedding) list option"
  eb_from :: email_address
  eb_to :: "email_address list"
  eb_cc :: "email_address list"
  eb_replyTo :: "email_address option"
  eb_subject :: str
  eb_sentAt :: "str option"
  eb_attachments :: "attachment list"
  eb_headers :: headers
  eb_recipientAddress :: str
  eb_tags :: "str list"
  eb_s3Key :: str
  eb_matchedRules :: "matched_rule_result list option"
  eb_unsubscribe :: "unsubscribe_info option"

record inbound_data = email_base +
  ib_workflow :: str
  ib_workflowData :: jobj
  ib_htmlBody :: "str option"
  ib_htmlBodyTruncated :: "bool option"
  ib_inlineImages :: "inline_image_ref list option"

record outbound_data = email_base +
  ob_sesMessageId :: "str option"
  ob_bcc :: "email_address list"
  ob_textBody :: "str option"
  ob_htmlBody :: "str option"
  ob_sendInitiatedAt :: "str option"
  ob_sendFailureReason :: "str option"
  ob_linkedSignalId :: "str option"

datatype email_data = Inbound inbound_data | Outbound outbound_data

record bounced_recipient =
  br_address :: str
  br_permanent :: bool
  br_reason :: "str option"

record deliverability_data =
  dl_linkedSignalId :: str
  dl_bouncedRecipients :: "bounced_recipient list"
  dl_subject :: str

record invalid_rule_function_data =
  irf_resourceName :: str
  irf_issue :: str

record invalid_template_function_data =
  itf_resourceName :: str
  itf_functionName :: str
  itf_issue :: str

record auto_send_blocked_data =
  asb_recipientAddress :: str
  asb_reason :: "str option"

record calendar_attendee =
  ca_address :: str
  ca_cn :: "str option"
  ca_partstat :: "str option"
  ca_role :: "str option"

record calendar_rsvp_response =
  rr_decision :: rsvp_decision
  rr_respondedAt :: str

record calendar_event_data =
  ce_title :: str
  ce_description :: "str option"
  ce_startTime :: str
  ce_endTime :: "str option"
  ce_location :: "str option"
  ce_url :: "str option"
  ce_organizer :: str
  ce_organizerCn :: "str option"
  ce_attendees :: "calendar_attendee list"
  ce_veventUid :: str
  ce_method :: str
  ce_sequence :: int
  ce_status :: "str option"
  ce_transparency :: "str option"
  ce_created :: "str option"
  ce_lastModified :: "str option"
  ce_recurrenceRule :: "str option"
  ce_recurrenceId :: "str option"
  ce_xProperties :: "(str \<times> str) list option"
  ce_proxyUid :: "str option"
  ce_originalVeventUid :: str
  ce_linkedSignalId :: str
  ce_rsvpResponse :: "calendar_rsvp_response option"
  ce_sesMessageId :: "str option"

record calendar_invite_invalid_data =
  cii_reason :: str
  cii_linkedSignalId :: str

record domain_misconfiguration_data =
  dm_reason :: str
  dm_linkedSignalId :: str
  dm_aliasAddress :: str
  dm_domain :: str

datatype any_data =
    DEmail email_data
  | DDeliverability deliverability_data
  | DInvalidRule invalid_rule_function_data
  | DInvalidTemplate invalid_template_function_data
  | DAutoSendBlocked auto_send_blocked_data
  | DCalendarEvent calendar_event_data
  | DCalendarInviteInvalid calendar_invite_invalid_data
  | DDomainMisconfiguration domain_misconfiguration_data

text \<open>\<open>threadId\<close> is \<open>null\<close> or absent (both \<open>None\<close>) while a signal belongs to no thread.\<close>

record 'd signal =
  sg_id :: str
  sg_signalLookupId :: str
  sg_threadId :: "str option"
  sg_gsi3pk :: "str option"
  sg_accountId :: str
  sg_source :: signal_source
  sg_type :: signal_type
  sg_status :: signal_status
  sg_labels :: "str list"
  sg_createdAt :: str
  sg_retentionDuration :: "str option"
  sg_data :: 'd

type_synonym email_signal = "email_data signal"
type_synonym inbound_signal = "inbound_data signal"
type_synonym any_signal = "any_data signal"

definition isEmailSignal :: "any_signal \<Rightarrow> bool" where
  "isEmailSignal s \<longleftrightarrow> sg_type s = TyEmail"

fun isInboundEmailSignalData :: "email_data \<Rightarrow> bool" where
  "isInboundEmailSignalData (Inbound _) = True"
| "isInboundEmailSignalData (Outbound _) = False"

definition isDeliverabilitySignal :: "any_signal \<Rightarrow> bool" where
  "isDeliverabilitySignal s \<longleftrightarrow> sg_type s = TyDeliverability"

definition isInvalidRuleFunctionSignal :: "any_signal \<Rightarrow> bool" where
  "isInvalidRuleFunctionSignal s \<longleftrightarrow> sg_type s = TyInvalidRuleFunction"

definition isInvalidTemplateFunctionSignal :: "any_signal \<Rightarrow> bool" where
  "isInvalidTemplateFunctionSignal s \<longleftrightarrow> sg_type s = TyInvalidTemplateFunction"

definition isAutoSendBlockedSignal :: "any_signal \<Rightarrow> bool" where
  "isAutoSendBlockedSignal s \<longleftrightarrow> sg_type s = TyAutoSendBlocked"

definition isCalendarEventSignal :: "any_signal \<Rightarrow> bool" where
  "isCalendarEventSignal s \<longleftrightarrow> sg_type s = TyCalendarEvent"

definition isCalendarInviteInvalidSignal :: "any_signal \<Rightarrow> bool" where
  "isCalendarInviteInvalidSignal s \<longleftrightarrow> sg_type s = TyCalendarInviteInvalid"

definition isDomainMisconfigurationSignal :: "any_signal \<Rightarrow> bool" where
  "isDomainMisconfigurationSignal s \<longleftrightarrow> sg_type s = TyDomainMisconfiguration"

text \<open>The fields shared by inbound and outbound email data, read from either.\<close>

fun base_of :: "email_data \<Rightarrow> email_base" where
  "base_of (Inbound d) = email_base.truncate d"
| "base_of (Outbound d) = email_base.truncate d"

text \<open>The type of a signal's data for each value of its \<open>type\<close> field (the union \<open>AnySignal\<close>).\<close>

fun data_type :: "any_data \<Rightarrow> signal_type" where
  "data_type (DEmail _) = TyEmail"
| "data_type (DDeliverability _) = TyDeliverability"
| "data_type (DInvalidRule _) = TyInvalidRuleFunction"
| "data_type (DInvalidTemplate _) = TyInvalidTemplateFunction"
| "data_type (DAutoSendBlocked _) = TyAutoSendBlocked"
| "data_type (DCalendarEvent _) = TyCalendarEvent"
| "data_type (DCalendarInviteInvalid _) = TyCalendarInviteInvalid"
| "data_type (DDomainMisconfiguration _) = TyDomainMisconfiguration"

definition any_signal_ok :: "any_signal \<Rightarrow> bool" where
  "any_signal_ok s \<longleftrightarrow> data_type (sg_data s) = sg_type s"

text \<open>A signal seen with its data injected into the union\<close>

definition with_data :: "('a \<Rightarrow> 'b) \<Rightarrow> 'a signal \<Rightarrow> 'b signal" where
  "with_data f s =
     \<lparr>sg_id = sg_id s, sg_signalLookupId = sg_signalLookupId s, sg_threadId = sg_threadId s,
      sg_gsi3pk = sg_gsi3pk s, sg_accountId = sg_accountId s, sg_source = sg_source s,
      sg_type = sg_type s, sg_status = sg_status s, sg_labels = sg_labels s,
      sg_createdAt = sg_createdAt s, sg_retentionDuration = sg_retentionDuration s,
      sg_data = f (sg_data s)\<rparr>"

lemma with_data_simps [simp]:
  "sg_id (with_data f s) = sg_id s" "sg_signalLookupId (with_data f s) = sg_signalLookupId s"
  "sg_threadId (with_data f s) = sg_threadId s" "sg_accountId (with_data f s) = sg_accountId s"
  "sg_type (with_data f s) = sg_type s" "sg_status (with_data f s) = sg_status s"
  "sg_retentionDuration (with_data f s) = sg_retentionDuration s"
  "sg_data (with_data f s) = f (sg_data s)" "sg_source (with_data f s) = sg_source s"
  "sg_createdAt (with_data f s) = sg_createdAt s" "sg_gsi3pk (with_data f s) = sg_gsi3pk s"
  by (simp_all add: with_data_def)

section \<open>Threads\<close>

record thread =
  th_id :: str
  th_accountId :: str
  th_groupingKey :: "str option"
  th_workflow :: str
  th_labels :: "str list"
  th_status :: thread_status
  th_summary :: str
  th_lastSignalAt :: str
  th_deletedAt :: "str option"
  th_createdAt :: str
  th_updatedAt :: str
  th_retentionDuration :: "str option"
  th_sentMessageIds :: "str list option"
  th_urgency :: "str option"
  th_followupAt :: "str option"
  th_sender :: email_address
  th_recipientAddress :: str
  th_subject :: str

section \<open>Resources\<close>

record resource_asset =
  as_type :: asset_type
  as_label :: str
  as_rawValue :: str
  as_sourceSignalId :: str
  as_s3Key :: "str option"
  as_extractedAt :: str

record resource =
  rs_accountId :: str
  rs_threadId :: str
  rs_workflow :: str
  rs_resourceKey :: str
  rs_status :: resource_status
  rs_expectedResolutionDate :: str
  rs_displayDate :: "str option"
  rs_displayDateEnd :: "str option"
  rs_title :: "str option"
  rs_description :: "str option"
  rs_resolvedAt :: "str option"
  rs_assets :: "resource_asset list"
  rs_createdAt :: str
  rs_updatedAt :: str
  rs_ttl :: "int option"

section \<open>Accounts, aliases, domains\<close>

record alias_rec =
  al_id :: str
  al_accountId :: str
  al_aliasAddress :: str
  al_domain :: str
  al_aliasName :: str
  al_unknownSenderPolicy :: unknown_sender_policy
  al_name :: "str option"
  al_createdForOrigin :: "str option"
  al_emxId :: "str option"
  al_createdAt :: str
  al_updatedAt :: str

record alias_sender =
  se_accountId :: str
  se_aliasAddress :: str
  se_domain :: str
  se_aliasName :: str
  se_senderDomain :: str
  se_policy :: sender_policy
  se_addedAt :: str

record account_onboarding =
  on_completed :: bool
  on_completedAt :: "str option"
  on_testEmailReceived :: "bool option"
  on_testEmailReceivedAt :: "str option"

record account =
  ac_id :: str
  ac_name :: str
  ac_timezone :: str
  ac_ambiguousDateFormat :: "ambiguous_date_format option"
  ac_retentionDuration :: "str option"
  ac_filtering :: "unknown_sender_policy option"
  ac_onboarding :: "account_onboarding option"
  ac_billingPlan :: "billing_plan option"
  ac_defaultCalendarInviteForwardingTargetId :: "str option"
  ac_createdAt :: str
  ac_updatedAt :: str

record domain_rec =
  do_accountId :: str
  do_domain :: str
  do_deleted :: bool
  do_receivingSetupComplete :: bool
  do_senderSetupComplete :: bool
  do_createdAt :: str
  do_updatedAt :: str

record label_rec =
  la_id :: str
  la_accountId :: str
  la_name :: str
  la_applyInstruction :: str
  la_createdAt :: str

record template_function =
  tf_name :: str
  tf_code :: str
  tf_lastError :: "str option"

record email_template =
  et_id :: str
  et_accountId :: str
  et_name :: str
  et_subject :: str
  et_body :: str
  et_functions :: "template_function list option"
  et_createdAt :: str
  et_updatedAt :: str

section \<open>Suppression list and SES feedback\<close>

record suppressed_address =
  su_address :: str
  su_reason :: suppression_reason
  su_suppressedAt :: str
  su_ttl :: "int option"
  su_bounceCount :: "int option"
  su_feedback :: "json option"
  su_linkedSignalId :: "str option"
  su_sesMessageId :: "str option"

record ses_recipient =
  sr_emailAddress :: str
  sr_status :: "str option"
  sr_action :: "str option"

datatype bounce_type = BtPermanent | BtTransient | BtUndetermined

record ses_bounce =
  sb_bounceType :: bounce_type
  sb_bounceSubType :: str
  sb_bouncedRecipients :: "ses_recipient list"
  sb_timestamp :: str

record ses_complaint =
  sc_complainedRecipients :: "str list"
  sc_complaintFeedbackType :: "str option"
  sc_timestamp :: str

record ses_mail =
  sm_messageId :: str
  sm_source :: str
  sm_tags :: "(str \<times> str) list option"

record ses_feedback =
  sf_eventType :: "str option"
  sf_notificationType :: "str option"
  sf_bounce :: "ses_bounce option"
  sf_complaint :: "ses_complaint option"
  sf_mail :: ses_mail

definition resolveSesEventType :: "ses_feedback \<Rightarrow> str option" where
  "resolveSesEventType f = nullish_opt (sf_eventType f) (sf_notificationType f)"

section \<open>Errors\<close>

text \<open>
  The error kinds of \<open>src/src/errors.ts\<close>. Of a cause the model keeps the message; the
  \<open>AggregateError\<close> of the side-effect handler is a list of errors.
\<close>

datatype app_error =
    DbError str bool
  | NotFoundError str str
  | InvalidResponseError
  | AuthressServiceError str
  | BedrockError str str
  | AuthError str
  | ProcessorError str
  | NoAccountError str str "str option"
  | TransientSesError str int
  | PermanentSesError str int str
  | InvalidArgumentError str str
  | UnknownSignalTypeError str str
  | ReindexSegmentProcessingError nat "str list"
  | ThreadIdCollisionError str "str \<times> str" "str \<times> str"
  | LoopGuardTripped int
  | FromAddressUnsendable str
  | AggregateError "app_error list"

end
