(* ===== verification/Policy.thy ===== *)
theory Policy
  imports Types
begin

text \<open>
  Who an address belongs to and how a sender is judged: alias addresses and the sender-policy
  resolution of \<open>types/index.ts\<close>, the registrable-domain helper and the system labels of
  \<open>processor/filter.ts\<close>, the urgency tables of \<open>processor/priority.ts\<close>, the grouping key of
  \<open>grouping-key.ts\<close> and the reply-target gate of \<open>processor/reply-target-validator.ts\<close>.

  Parameters: \<open>getDomain\<close> is the function of the package \<open>tldts\<close> (registrable domain of a host
  name, if it has one); \<open>url_protocol\<close> is the \<open>protocol\<close> of the runtime's URL parser (\<open>None\<close>
  where \<open>new URL\<close> throws).
\<close>

section \<open>Alias addresses\<close>

record alias_key =
  ak_domain :: str
  ak_aliasName :: str

record sender_key = alias_key +
  sk_senderDomain :: str

definition aliasAddress :: "alias_key \<Rightarrow> str" where
  "aliasAddress key = ak_aliasName key @ ''@'' @ ak_domain key"

text \<open>\<open>lastIndexOf\<close> gives \<open>-1\<close> or an index; anything below 1 throws.\<close>

definition parseAliasAddress :: "str \<Rightarrow> str + alias_key" where
  "parseAliasAddress address =
     (case last_index_of CHR ''@'' address of
        None \<Rightarrow> Inl (''Invalid email address: '' @ address)
      | Some atIdx \<Rightarrow>
          if atIdx < 1 then Inl (''Invalid email address: '' @ address)
          else Inr \<lparr>ak_domain = drop (Suc atIdx) address, ak_aliasName = take atIdx address\<rparr>)"

datatype platform_alias = PaNotifications | PaDigest

fun PLATFORM_ALIASES :: "platform_alias \<Rightarrow> str \<times> str" where
  "PLATFORM_ALIASES PaNotifications = (''noreply'', ''Numaeel'')"
| "PLATFORM_ALIASES PaDigest = (''digest'', ''Numaeel Digest'')"

definition platformFromAddress :: "platform_alias \<Rightarrow> str \<Rightarrow> str" where
  "platformFromAddress key domain =
     (case PLATFORM_ALIASES key of (localPart, name) \<Rightarrow>
        [CHR 0x22] @ name @ [CHR 0x22] @ '' <'' @ localPart @ ''@'' @ domain @ ''>'')"

section \<open>Sender policies\<close>

definition resolveUnknownSenderPolicy ::
  "alias_rec option \<Rightarrow> unknown_sender_policy option \<Rightarrow> unknown_sender_policy" where
  "resolveUnknownSenderPolicy alias accountFiltering =
     (case alias of
        Some a \<Rightarrow> al_unknownSenderPolicy a
      | None \<Rightarrow> nullish accountFiltering DEFAULT_UNKNOWN_SENDER_POLICY)"

datatype effective_policy = ExplicitPolicy sender_policy | FallbackPolicy unknown_sender_policy

text \<open>The policy, and whether it comes from an explicit sender record.\<close>

definition resolveEffectiveSenderPolicy ::
  "alias_rec option \<Rightarrow> alias_sender option \<Rightarrow> unknown_sender_policy option \<Rightarrow> effective_policy \<times> bool" where
  "resolveEffectiveSenderPolicy alias explicitSender accountFiltering =
     (let effectiveSender = (case alias of Some _ \<Rightarrow> explicitSender | None \<Rightarrow> None)
      in case effectiveSender of
           Some s \<Rightarrow> (ExplicitPolicy (se_policy s), True)
         | None \<Rightarrow> (FallbackPolicy (resolveUnknownSenderPolicy alias accountFiltering), False))"

section \<open>Registrable domains and system labels\<close>

definition getETLD1 :: "(str \<Rightarrow> str option) \<Rightarrow> str \<Rightarrow> str" where
  "getETLD1 getDomain emailOrDomain =
     (let domain = (if CHR ''@'' \<in> set emailOrDomain
                    then last (split_on CHR ''@'' emailOrDomain) else emailOrDomain)
      in nullish (getDomain domain) domain)"

datatype system_label =
  LSenderUntrusted | LReplied | LAuthSecurityAlert | LAction | LCalendar

fun label_name :: "system_label \<Rightarrow> str" where
  "label_name LSenderUntrusted = ''system:sender:untrusted''"
| "label_name LReplied = ''system:replied''"
| "label_name LAuthSecurityAlert = ''system:auth:security_alert''"
| "label_name LAction = ''system:action''"
| "label_name LCalendar = ''system:calendar''"

record system_label_context =
  lc_workflow :: str
  lc_workflowData :: jobj
  lc_actions :: "signal_action list"
  lc_senderETLD1 :: str
  lc_aliasSenderConfig :: "alias_sender option"
  lc_unknownSenderPolicy :: unknown_sender_policy
  lc_hasSentMessages :: bool

definition isUrl :: "(str \<Rightarrow> str option) \<Rightarrow> str \<Rightarrow> bool" where
  "isUrl url_protocol v =
     (case url_protocol v of None \<Rightarrow> False | Some p \<Rightarrow> p = ''http:'' \<or> p = ''https:'')"

definition senderTrusted :: "system_label_context \<Rightarrow> bool" where
  "senderTrusted ctx \<longleftrightarrow>
     map_option se_policy (lc_aliasSenderConfig ctx) = Some SPAllow \<or>
     lc_unknownSenderPolicy ctx = USAllowAll"

definition hasActionableUrl :: "(str \<Rightarrow> str option) \<Rightarrow> system_label_context \<Rightarrow> bool" where
  "hasActionableUrl url_protocol ctx \<longleftrightarrow>
     0 < length (lc_actions ctx) \<or>
     list_ex (\<lambda>v. case v of JStr s \<Rightarrow> isUrl url_protocol s | _ \<Rightarrow> False)
       (map snd (lc_workflowData ctx))"

definition assignSystemLabels :: "(str \<Rightarrow> str option) \<Rightarrow> system_label_context \<Rightarrow> system_label list" where
  "assignSystemLabels url_protocol ctx =
     (if \<not> senderTrusted ctx then [LSenderUntrusted] else []) @
     (if lc_hasSentMessages ctx then [LReplied] else []) @
     (if lc_workflow ctx = ''auth'' \<and>
         jstr (lc_workflowData ctx) ''authType'' = Some ''security_alert''
      then [LAuthSecurityAlert] else []) @
     (if hasActionableUrl url_protocol ctx then [LAction] else [])"

section \<open>Urgency\<close>

definition baseUrgency :: "str \<Rightarrow> jobj \<Rightarrow> str" where
  "baseUrgency workflow data =
     (if workflow = ''auth'' then ''critical''
      else if workflow = ''payments'' then
        (if jstr data ''paymentType'' = Some ''payment_failed'' then ''critical'' else ''normal'')
      else if workflow = ''content'' then ''low''
      else if workflow = ''onboarding'' \<or> workflow = ''notice'' then ''silent''
      else if workflow = ''test'' then ''high''
      else ''normal'')"

definition urgencyToPushPriority :: "str \<Rightarrow> push_priority" where
  "urgencyToPushPriority urgency =
     (if urgency = ''critical'' \<or> urgency = ''high'' then PPInterrupt
      else if urgency = ''normal'' \<or> urgency = ''low'' then PPAmbient
      else PPSilent)"

section \<open>Grouping keys\<close>

definition deriveGroupingKey :: "str \<Rightarrow> jobj \<Rightarrow> str \<Rightarrow> str \<Rightarrow> str option" where
  "deriveGroupingKey workflow workflowData recipientAddress senderETLD1 =
     (let base = recipientAddress @ '':'' @ workflow
      in if workflow \<in> {''auth'', ''content'', ''onboarding'', ''notice'', ''payments'', ''test''}
         then Some (base @ '':'' @ senderETLD1)
         else if workflow = ''package'' then
           (let orderNumber = jstr workflowData ''orderNumber''
            in if truthy orderNumber then Some (base @ '':'' @ the orderNumber) else None)
         else if workflow = ''support'' then
           (let ticketId = jstr workflowData ''ticketId''
            in if truthy ticketId then Some (base @ '':'' @ the ticketId) else None)
         else None)"

section \<open>The reply-target gate\<close>

definition isReplyTargetSafe :: "(str \<Rightarrow> str option) \<Rightarrow> email_data signal \<Rightarrow> str list \<Rightarrow> bool \<times> str option" where
  "isReplyTargetSafe getDomain signal approvedDomains =
     (case eb_replyTo (base_of (sg_data signal)) of
        None \<Rightarrow> (True, None)
      | Some replyTo \<Rightarrow>
          let replyToETLD1 = getETLD1 getDomain (ea_address replyTo);
              fromAddress = ea_address (eb_from (base_of (sg_data signal)));
              fromETLD1 = getETLD1 getDomain fromAddress
          in if replyToETLD1 = fromETLD1 then (True, None)
             else if replyToETLD1 \<in> set approvedDomains then (True, None)
             else (False, Some (''Reply-To '' @ ea_address replyTo @ '' ('' @ replyToETLD1 @
               '') does not match From '' @ fromAddress @ '' ('' @ fromETLD1 @
               '') and is not in approved senders'')))"

section \<open>Lemmas\<close>

lemma parseAliasAddress_ok:
  assumes "parseAliasAddress a = Inr k"
  shows "aliasAddress k = a \<and> ak_aliasName k \<noteq> [] \<and> CHR ''@'' \<notin> set (ak_domain k)"
proof -
  obtain i where i: "last_index_of CHR ''@'' a = Some i" "1 \<le> i"
    and k: "k = \<lparr>ak_domain = drop (Suc i) a, ak_aliasName = take i a\<rparr>"
    using assms by (auto simp: parseAliasAddress_def not_less split: option.splits if_splits)
  obtain ys zs where "a = ys @ CHR ''@'' # zs" "length ys = i" "CHR ''@'' \<notin> set zs"
    using last_index_of_Some [OF i(1)] by blast
  with i(2) k show ?thesis by (auto simp: aliasAddress_def)
qed

lemma aliasAddress_parse:
  "ak_aliasName k \<noteq> [] \<Longrightarrow> CHR ''@'' \<notin> set (ak_domain k) \<Longrightarrow>
    parseAliasAddress (aliasAddress k) = Inr \<lparr>ak_domain = ak_domain k, ak_aliasName = ak_aliasName k\<rparr>"
  by (auto simp: parseAliasAddress_def aliasAddress_def)

lemma getETLD1_address:
  "CHR ''@'' \<notin> set d \<Longrightarrow> getETLD1 gd (n @ CHR ''@'' # d) = getETLD1 gd d"
  by (simp add: getETLD1_def last_split_on)

lemma colon_split:
  "CHR '':'' \<notin> set r \<Longrightarrow> CHR '':'' \<notin> set r' \<Longrightarrow>
    r @ CHR '':'' # x = r' @ CHR '':'' # x' \<longleftrightarrow> r = r' \<and> x = x'"
  by (metis index_of_append append_eq_append_conv list.inject option.inject)

lemma grouping_workflow_no_colon:
  "deriveGroupingKey w wd r s = Some k \<Longrightarrow> CHR '':'' \<notin> set w"
  by (auto simp: deriveGroupingKey_def Let_def split: if_splits)

lemma grouping_key_shape:
  "deriveGroupingKey w wd r s = Some k \<Longrightarrow> \<exists>d. k = r @ CHR '':'' # w @ CHR '':'' # d"
  by (auto simp: deriveGroupingKey_def Let_def split: if_splits)


text \<open>What tells two conversations of one recipient and workflow apart\<close>

definition grouping_discriminator :: "str \<Rightarrow> jobj \<Rightarrow> str \<Rightarrow> str" where
  "grouping_discriminator workflow workflowData senderETLD1 =
     (if workflow = ''package'' then nullish (jstr workflowData ''orderNumber'') []
      else if workflow = ''support'' then nullish (jstr workflowData ''ticketId'') []
      else senderETLD1)"

lemma grouping_key_eq:
  assumes "deriveGroupingKey w wd r s = Some k"
  shows "k = r @ CHR '':'' # w @ CHR '':'' # grouping_discriminator w wd s"
  using assms
  by (auto simp: deriveGroupingKey_def grouping_discriminator_def Let_def
           split: if_splits elim!: truthyE)

section \<open>Properties\<close>

text \<open>
  An alias address parses back to the key it was built from, and only such addresses parse:
  \<open>parseAliasAddress\<close> is the exact inverse of \<open>aliasAddress\<close> on the keys with a non-empty
  local part and a domain without \<open>@\<close>; every other input is an error.
\<close>

theorem parse_alias_address_inverse:
  "parseAliasAddress a = Inr k \<longleftrightarrow>
     aliasAddress k = a \<and> ak_aliasName k \<noteq> [] \<and> CHR ''@'' \<notin> set (ak_domain k)"
proof
  assume "parseAliasAddress a = Inr k"
  then show "aliasAddress k = a \<and> ak_aliasName k \<noteq> [] \<and> CHR ''@'' \<notin> set (ak_domain k)"
    by (rule parseAliasAddress_ok)
next
  assume "aliasAddress k = a \<and> ak_aliasName k \<noteq> [] \<and> CHR ''@'' \<notin> set (ak_domain k)"
  then show "parseAliasAddress a = Inr k"
    using aliasAddress_parse [of k] by (cases k) auto
qed

text \<open>
  Grouping keys do not collide: two signals with the same key were sent to the same
  recipient, have the same workflow, and agree on what identifies the conversation (the order
  number, the ticket, or the sender's registrable domain).
\<close>

theorem grouping_key_injective:
  assumes k: "deriveGroupingKey w wd r s = Some k" "deriveGroupingKey w' wd' r' s' = Some k"
    and r: "CHR '':'' \<notin> set r" "CHR '':'' \<notin> set r'"
  shows "r = r' \<and> w = w' \<and> grouping_discriminator w wd s = grouping_discriminator w' wd' s'"
proof -
  have "r @ CHR '':'' # w @ CHR '':'' # grouping_discriminator w wd s =
        r' @ CHR '':'' # w' @ CHR '':'' # grouping_discriminator w' wd' s'"
    using grouping_key_eq [OF k(1)] grouping_key_eq [OF k(2)] by simp
  then show ?thesis
    using r grouping_workflow_no_colon [OF k(1)] grouping_workflow_no_colon [OF k(2)]
    by (auto simp: colon_split)
qed

theorem grouping_key_injective_witness:
  "deriveGroupingKey ''package'' [(''orderNumber'', JStr ''7'')] ''a@b.c'' ''x.y'' = Some ''a@b.c:package:7'' \<and>
   grouping_discriminator ''package'' [(''orderNumber'', JStr ''7'')] ''x.y'' =
   grouping_discriminator ''package'' [(''orderNumber'', JStr ''7'')] ''z.y''"
proof -
  have k: "deriveGroupingKey ''package'' [(''orderNumber'', JStr ''7'')] ''a@b.c'' ''x.y'' = Some ''a@b.c:package:7''"
    "deriveGroupingKey ''package'' [(''orderNumber'', JStr ''7'')] ''a@b.c'' ''z.y'' = Some ''a@b.c:package:7''"
    by (simp_all add: deriveGroupingKey_def jstr_def jfield_def)
  show ?thesis using k grouping_key_injective [OF k] by simp
qed

end
