(* ===== verification/Ids.thy ===== *)
theory Ids
  imports Prelude
begin

text \<open>
  Entity ids (\<open>utils/id.ts\<close>): a prefix, a base58 body and three check characters taken from
  the SHA-256 of the body; and account ids, with a fixed-length body and check characters from
  the base64 form of the digest.

  Parameters: \<open>sha256hex\<close> and \<open>sha256b64\<close> are the digests of Node's \<open>crypto\<close> as hex and base64
  text; \<open>fromUUID\<close>/\<open>uuid\<close> are the translator and generator of the packages \<open>short-uuid\<close> and
  \<open>uuid\<close>. What the code relies on is that a digest has at least three characters of the
  alphabet: a hypothesis of the theorems that need it.
\<close>

definition BASE58_ALPHABET :: str where
  "BASE58_ALPHABET = ''123456789ABCDEFGHJKLMNPQRSTUVWXYZabcdefghijkmnopqrstuvwxyz''"

definition checkCharsFor :: "(str \<Rightarrow> str) \<Rightarrow> str \<Rightarrow> str" where
  "checkCharsFor sha256hex encoded =
     take 3 (filter (\<lambda>c. c \<in> set BASE58_ALPHABET) (sha256hex encoded))"

definition generateId :: "(str \<Rightarrow> str) \<Rightarrow> (str \<Rightarrow> str) \<Rightarrow> str \<Rightarrow> str \<Rightarrow> str" where
  "generateId sha256hex fromUUID uuid idPrefix =
     (let encoded = fromUUID uuid in idPrefix @ encoded @ checkCharsFor sha256hex encoded)"

text \<open>\<open>signalId.slice("sgn-".length, -3)\<close>: empty when the two ends cross\<close>

definition id_body :: "nat \<Rightarrow> str \<Rightarrow> str" where
  "id_body n signalId = drop n (slice_drop_last 3 signalId)"

definition deriveThreadIdFromSignalId :: "(str \<Rightarrow> str) \<Rightarrow> str \<Rightarrow> str" where
  "deriveThreadIdFromSignalId sha256hex signalId =
     (let encoded = id_body (length ''sgn-'') signalId
      in ''thr-'' @ encoded @ checkCharsFor sha256hex encoded)"

definition validateId :: "(str \<Rightarrow> str) \<Rightarrow> str \<Rightarrow> str \<Rightarrow> bool" where
  "validateId sha256hex eid idPrefix =
     (if \<not> starts_with eid idPrefix then False
      else let body = drop (length idPrefix) eid
           in if length body \<le> 3 then False
              else let encoded = slice_drop_last 3 body; checkChars = slice_last 3 body;
                       expectedCheckChars = take 3 (filter (\<lambda>c. c \<in> set BASE58_ALPHABET) (sha256hex encoded))
                   in checkChars = expectedCheckChars)"

section \<open>Account ids\<close>

definition ACCOUNT_ID_ALPHABET :: str where
  "ACCOUNT_ID_ALPHABET = ''abcdefghijklmnopqrstuvwxyz0123456789''"

definition account_check :: "(str \<Rightarrow> str) \<Rightarrow> str \<Rightarrow> str" where
  "account_check sha256b64 rawId =
     take 3 (filter (\<lambda>c. c \<in> set ACCOUNT_ID_ALPHABET) (sha256b64 rawId))"

text \<open>The ten random bytes are the argument.\<close>

definition account_raw :: "nat list \<Rightarrow> str" where
  "account_raw bytes =
     map (\<lambda>b. ACCOUNT_ID_ALPHABET ! (b mod length ACCOUNT_ID_ALPHABET)) (take 10 bytes)"

definition generateAccountId :: "(str \<Rightarrow> str) \<Rightarrow> nat list \<Rightarrow> str" where
  "generateAccountId sha256b64 bytes =
     (let rawId = account_raw bytes in ''acc-'' @ rawId @ account_check sha256b64 rawId)"

definition validateAccountId :: "(str \<Rightarrow> str) \<Rightarrow> str \<Rightarrow> bool" where
  "validateAccountId sha256b64 eid =
     (if \<not> starts_with eid ''acc-'' then False
      else let body = drop (length ''acc-'') eid
           in if length body \<noteq> 13 then False
              else if \<not> list_all (\<lambda>c. c \<in> set ACCOUNT_ID_ALPHABET) body then False
              else let rawId = take 10 body; checkBits = drop 10 body
                   in checkBits = account_check sha256b64 rawId)"

section \<open>The contract of a checked id\<close>

text \<open>
  Both schemes build \<open>prefix @ body @ check body\<close>, with a check of a fixed length and some
  condition on the body, and both validators accept exactly the ids of that shape.
\<close>

locale checked_id =
  fixes valid :: "str \<Rightarrow> bool"
    and idPrefix :: str
    and check :: "str \<Rightarrow> str"
    and body_ok :: "str \<Rightarrow> bool"
  assumes valid_iff: "valid eid \<longleftrightarrow>
    (\<exists>body. eid = idPrefix @ body @ check body \<and> length (check body) = 3 \<and> body_ok body)"
begin

lemma built_valid: "length (check body) = 3 \<Longrightarrow> body_ok body \<Longrightarrow> valid (idPrefix @ body @ check body)"
  using valid_iff by blast

lemma body_unique:
  assumes "valid eid" "eid = idPrefix @ b @ c" "length c = 3"
  shows "c = check b"
  using assms valid_iff [of eid] by (metis append_eq_append_conv same_append_eq)

text \<open>A corrupted check is rejected: at most one check fits a body.\<close>

lemma wrong_check_invalid: "length c = 3 \<Longrightarrow> c \<noteq> check b \<Longrightarrow> \<not> valid (idPrefix @ b @ c)"
  using body_unique by blast

end

lemma slice_split: "3 < length b \<Longrightarrow> b = slice_drop_last 3 b @ slice_last 3 b \<and> length (slice_last 3 b) = 3
    \<and> slice_drop_last 3 b \<noteq> []"
  by (auto simp: slice_partition slice_last_def slice_drop_last_def)

lemma validateId_iff:
  "validateId sha eid p \<longleftrightarrow>
     (\<exists>body. eid = p @ body @ checkCharsFor sha body \<and> length (checkCharsFor sha body) = 3 \<and> body \<noteq> [])"
proof
  assume v: "validateId sha eid p"
  then obtain b where eid: "eid = p @ b"
    by (auto simp: validateId_def starts_with_def prefix_def split: if_splits)
  with v have len: "3 < length b" and c: "slice_last 3 b = checkCharsFor sha (slice_drop_last 3 b)"
    by (auto simp: validateId_def checkCharsFor_def Let_def split: if_splits)
  have "eid = p @ slice_drop_last 3 b @ checkCharsFor sha (slice_drop_last 3 b)"
    using eid c slice_partition [of 3 b] by simp
  with slice_split [OF len] c
  show "\<exists>body. eid = p @ body @ checkCharsFor sha body \<and> length (checkCharsFor sha body) = 3 \<and> body \<noteq> []"
    by metis
next
  assume "\<exists>body. eid = p @ body @ checkCharsFor sha body \<and> length (checkCharsFor sha body) = 3 \<and> body \<noteq> []"
  then obtain body where b: "eid = p @ body @ checkCharsFor sha body"
    "length (checkCharsFor sha body) = 3" "body \<noteq> []" by blast
  then show "validateId sha eid p"
    by (simp add: validateId_def checkCharsFor_def [symmetric])
qed

lemma account_check_chars: "list_all (\<lambda>c. c \<in> set ACCOUNT_ID_ALPHABET) (account_check sha r)"
  by (auto simp: account_check_def list_all_iff dest: in_set_takeD)

lemma validateAccountId_iff:
  "validateAccountId sha eid \<longleftrightarrow>
     (\<exists>body. eid = ''acc-'' @ body @ account_check sha body \<and> length (account_check sha body) = 3 \<and>
        (length body = 10 \<and> list_all (\<lambda>c. c \<in> set ACCOUNT_ID_ALPHABET) body))"
proof
  assume v: "validateAccountId sha eid"
  then obtain b where eid: "eid = ''acc-'' @ b"
    by (auto simp: validateAccountId_def starts_with_def prefix_def split: if_splits)
  with v have len: "length b = 13" and a: "list_all (\<lambda>c. c \<in> set ACCOUNT_ID_ALPHABET) b"
    and c: "drop 10 b = account_check sha (take 10 b)"
    by (auto simp: validateAccountId_def Let_def split: if_splits)
  have "eid = ''acc-'' @ take 10 b @ account_check sha (take 10 b)"
    using eid c by (metis append_take_drop_id)
  moreover have "length (account_check sha (take 10 b)) = 3"
    using len by (simp flip: c)
  moreover have "length (take 10 b) = 10 \<and> list_all (\<lambda>c. c \<in> set ACCOUNT_ID_ALPHABET) (take 10 b)"
    using len a by (auto simp: list_all_iff dest: in_set_takeD)
  ultimately show "\<exists>body. eid = ''acc-'' @ body @ account_check sha body \<and> length (account_check sha body) = 3 \<and>
        (length body = 10 \<and> list_all (\<lambda>c. c \<in> set ACCOUNT_ID_ALPHABET) body)"
    by blast
next
  assume "\<exists>body. eid = ''acc-'' @ body @ account_check sha body \<and> length (account_check sha body) = 3 \<and>
        (length body = 10 \<and> list_all (\<lambda>c. c \<in> set ACCOUNT_ID_ALPHABET) body)"
  then obtain body where b: "eid = ''acc-'' @ body @ account_check sha body"
    "length (account_check sha body) = 3" "length body = 10"
    "list_all (\<lambda>c. c \<in> set ACCOUNT_ID_ALPHABET) body" by blast
  then show "validateAccountId sha eid"
    using account_check_chars [of sha body] by (simp add: validateAccountId_def starts_with_def)
qed

interpretation entity_id: checked_id "\<lambda>eid. validateId sha eid p" p "checkCharsFor sha" "\<lambda>b. b \<noteq> []"
  for sha p by unfold_locales (rule validateId_iff)

interpretation account_id: checked_id "validateAccountId sha" "''acc-''" "account_check sha"
  "\<lambda>b. length b = 10 \<and> list_all (\<lambda>c. c \<in> set ACCOUNT_ID_ALPHABET) b"
  for sha by unfold_locales (rule validateAccountId_iff)

lemma account_raw_ok:
  assumes "10 \<le> length bytes"
  shows "length (account_raw bytes) = 10"
    "list_all (\<lambda>c. c \<in> set ACCOUNT_ID_ALPHABET) (account_raw bytes)"
proof -
  have "ACCOUNT_ID_ALPHABET \<noteq> []" by (simp add: ACCOUNT_ID_ALPHABET_def)
  then have "ACCOUNT_ID_ALPHABET ! (b mod length ACCOUNT_ID_ALPHABET) \<in> set ACCOUNT_ID_ALPHABET" for b
    by (intro nth_mem) simp
  then show "list_all (\<lambda>c. c \<in> set ACCOUNT_ID_ALPHABET) (account_raw bytes)"
    by (auto simp: account_raw_def list_all_iff)
  show "length (account_raw bytes) = 10"
    using assms by (simp add: account_raw_def)
qed

lemma derive_of_built:
  "length (checkCharsFor sha e) = 3 \<Longrightarrow>
    deriveThreadIdFromSignalId sha (''sgn-'' @ e @ checkCharsFor sha e) = ''thr-'' @ e @ checkCharsFor sha e"
  using slice_drop_last_append [of "checkCharsFor sha e" 3 "''sgn-'' @ e"]
  by (simp add: deriveThreadIdFromSignalId_def id_body_def)

section \<open>Properties\<close>

text \<open>
  Deriving a thread id from a valid signal id always gives a valid thread id, and distinct
  valid signal ids give distinct thread ids: reprocessing a signal lands on its own thread and
  on no other's.
\<close>

theorem derived_thread_id:
  assumes "validateId sha s ''sgn-''"
  shows "validateId sha (deriveThreadIdFromSignalId sha s) ''thr-'' \<and>
    (\<forall>s'. validateId sha s' ''sgn-'' \<longrightarrow>
       deriveThreadIdFromSignalId sha s = deriveThreadIdFromSignalId sha s' \<longrightarrow> s = s')"
proof -
  obtain e where e: "s = ''sgn-'' @ e @ checkCharsFor sha e" "length (checkCharsFor sha e) = 3" "e \<noteq> []"
    using assms validateId_iff by blast
  have "validateId sha (deriveThreadIdFromSignalId sha s) ''thr-''"
    using entity_id.built_valid [OF e(2,3), of "''thr-''"] derive_of_built [OF e(2)] e(1) by simp
  moreover have "s = s'" if s': "validateId sha s' ''sgn-''"
    and eq: "deriveThreadIdFromSignalId sha s = deriveThreadIdFromSignalId sha s'" for s'
  proof -
    obtain e' where e': "s' = ''sgn-'' @ e' @ checkCharsFor sha e'" "length (checkCharsFor sha e') = 3"
      using s' validateId_iff by blast
    from eq have "e @ checkCharsFor sha e = e' @ checkCharsFor sha e'"
      using derive_of_built [OF e(2)] derive_of_built [OF e'(2)] e(1) e'(1) by simp
    with e(1) e'(1) show ?thesis by simp
  qed
  ultimately show ?thesis by blast
qed

theorem derived_thread_id_witness:
  "validateId (\<lambda>_. ''abcdef'') ''sgn-1Xabc'' ''sgn-'' \<and>
   deriveThreadIdFromSignalId (\<lambda>_. ''abcdef'') ''sgn-1Xabc'' = ''thr-1Xabc'' \<and>
   validateId (\<lambda>_. ''abcdef'') ''thr-1Xabc'' ''thr-''"
proof -
  have v: "validateId (\<lambda>_. ''abcdef'') ''sgn-1Xabc'' ''sgn-''" by code_simp
  have d: "deriveThreadIdFromSignalId (\<lambda>_. ''abcdef'') ''sgn-1Xabc'' = ''thr-1Xabc''" by code_simp
  show ?thesis using v d derived_thread_id [OF v, THEN conjunct1] by (simp only: d simp_thms)
qed

text \<open>
  A generated id of either scheme is accepted by its validator, and an id whose check
  characters do not belong to its body is rejected, provided the digest has three characters of
  the alphabet.
\<close>

theorem generated_ids_valid:
  assumes "length (checkCharsFor sha (fromUUID uuid)) = 3" "fromUUID uuid \<noteq> []"
    and "length (account_check hb (account_raw bytes)) = 3" "10 \<le> length bytes"
  shows "validateId sha (generateId sha fromUUID uuid p) p \<and>
    validateAccountId hb (generateAccountId hb bytes) \<and>
    (\<forall>body c. length c = 3 \<and> c \<noteq> checkCharsFor sha body \<longrightarrow> \<not> validateId sha (p @ body @ c) p) \<and>
    (\<forall>body c. length c = 3 \<and> c \<noteq> account_check hb body \<longrightarrow> \<not> validateAccountId hb (''acc-'' @ body @ c))"
proof (intro conjI allI impI)
  show "validateId sha (generateId sha fromUUID uuid p) p"
    using entity_id.built_valid [OF assms(1,2)] by (simp add: generateId_def Let_def)
  show "validateAccountId hb (generateAccountId hb bytes)"
    using account_id.built_valid [OF assms(3)] account_raw_ok [OF assms(4)]
    by (simp add: generateAccountId_def Let_def)
next
  fix body c assume "length c = 3 \<and> c \<noteq> checkCharsFor sha body"
  then show "\<not> validateId sha (p @ body @ c) p"
    using entity_id.wrong_check_invalid [of c sha body p] by blast
next
  fix body c assume "length c = 3 \<and> c \<noteq> account_check hb body"
  then show "\<not> validateAccountId hb (''acc-'' @ body @ c)"
    using account_id.wrong_check_invalid [of c hb body] by blast
qed

theorem generated_ids_valid_witness:
  "validateId (\<lambda>_. ''0abc'') (generateId (\<lambda>_. ''0abc'') (\<lambda>u. u) ''Zz9'' ''sgn-'') ''sgn-'' \<and>
   generateId (\<lambda>_. ''0abc'') (\<lambda>u. u) ''Zz9'' ''sgn-'' = ''sgn-Zz9abc'' \<and>
   \<not> validateId (\<lambda>_. ''0abc'') ''sgn-Zz9abd'' ''sgn-'' \<and>
   validateAccountId (\<lambda>_. ''=/xyz'') (generateAccountId (\<lambda>_. ''=/xyz'') (replicate 10 0))"
proof -
  have h: "length (checkCharsFor (\<lambda>_. ''0abc'') ((\<lambda>u. u) ''Zz9'')) = 3" "(\<lambda>u. u) ''Zz9'' \<noteq> []"
    "length (account_check (\<lambda>_. ''=/xyz'') (account_raw (replicate 10 0))) = 3"
    "10 \<le> length (replicate 10 (0::nat))"
    by (code_simp, simp, simp add: account_check_def ACCOUNT_ID_ALPHABET_def, simp)
  have g: "generateId (\<lambda>_. ''0abc'') (\<lambda>u. u) ''Zz9'' ''sgn-'' = ''sgn-Zz9abc''" by code_simp
  have n: "length ''abd'' = 3 \<and> ''abd'' \<noteq> checkCharsFor (\<lambda>_. ''0abc'') ''Zz9''" by code_simp
  note t = generated_ids_valid [where sha = "\<lambda>_. ''0abc''" and fromUUID = "\<lambda>u. u" and uuid = "''Zz9''"
      and hb = "\<lambda>_. ''=/xyz''" and bytes = "replicate 10 0" and p = "''sgn-''", OF h]
  from t n have "\<not> validateId (\<lambda>_. ''0abc'') (''sgn-'' @ ''Zz9'' @ ''abd'') ''sgn-''" by blast
  with t g show ?thesis by simp
qed

end
