(* ===== verification/Mailbox.thy ===== *)
theory Mailbox
  imports Types
begin

text \<open>
  RFC 5322 mailboxes (\<open>email/address.ts\<close>): formatting a display name and an address as one
  header value, splitting an address list, and taking the address out of a mailbox.

  Parameter: \<open>b64utf8\<close> is \<open>Buffer.from(value, "utf8").toString("base64")\<close> of Node.
\<close>

definition encodeWord :: "(str \<Rightarrow> str) \<Rightarrow> str \<Rightarrow> str" where
  "encodeWord b64utf8 v = ''=?UTF-8?B?'' @ b64utf8 v @ ''?=''"

definition ascii_printable :: "str \<Rightarrow> bool" where
  "ascii_printable s = list_all (\<lambda>c. 32 \<le> (of_char c :: nat) \<and> (of_char c :: nat) \<le> 126) s"

definition name_char :: "char \<Rightarrow> bool" where
  "name_char c \<longleftrightarrow>
     (let n = (of_char c :: nat) in
       (65 \<le> n \<and> n \<le> 90) \<or> (97 \<le> n \<and> n \<le> 122) \<or> (48 \<le> n \<and> n \<le> 57) \<or>
       n = 32 \<or> n = 39 \<or> n = 46 \<or> n = 45)"

definition safe_unquoted_name :: "str \<Rightarrow> bool" where
  "safe_unquoted_name s \<longleftrightarrow> s \<noteq> [] \<and> list_all name_char s"

abbreviation QUOTE :: char where "QUOTE \<equiv> CHR 0x22"
abbreviation BACKSLASH :: char where "BACKSLASH \<equiv> CHR 0x5C"
abbreviation CR :: char where "CR \<equiv> CHR 0x0D"
abbreviation LF :: char where "LF \<equiv> CHR 0x0A"

definition is_break :: "char \<Rightarrow> bool" where
  "is_break c \<longleftrightarrow> c = CR \<or> c = LF"

text \<open>\<open>replace(/[\r\n]+/g, " ")\<close>: each maximal run of line breaks becomes one space.\<close>

fun strip_breaks :: "str \<Rightarrow> str" where
  "strip_breaks [] = []"
| "strip_breaks (c # cs) =
     (if is_break c then
        (case cs of [] \<Rightarrow> '' ''
         | d # ds \<Rightarrow> if is_break d then strip_breaks cs else CHR '' '' # strip_breaks cs)
      else c # strip_breaks cs)"

text \<open>\<open>replace(/(["\\])/g, "\\$1")\<close>\<close>

fun escape_name :: "str \<Rightarrow> str" where
  "escape_name [] = []"
| "escape_name (c # cs) =
     (if c = QUOTE \<or> c = BACKSLASH then BACKSLASH # c # escape_name cs else c # escape_name cs)"

definition formatAddress :: "(str \<Rightarrow> str) \<Rightarrow> email_address \<Rightarrow> str" where
  "formatAddress b64utf8 a =
     (let address = trim (ea_address a);
          name = map_option (\<lambda>n. trim (strip_breaks n)) (ea_name a)
      in if \<not> truthy name then address
         else let name = the name
              in if \<not> ascii_printable name then encodeWord b64utf8 name @ '' <'' @ address @ ''>''
                 else if safe_unquoted_name name then name @ '' <'' @ address @ ''>''
                 else let escaped = escape_name name
                      in [QUOTE] @ escaped @ [QUOTE] @ '' <'' @ address @ ''>'')"

fun join :: "str \<Rightarrow> str list \<Rightarrow> str" where
  "join sep [] = []"
| "join sep [x] = x"
| "join sep (x # y # ys) = x @ sep @ join sep (y # ys)"

definition formatAddressList :: "(str \<Rightarrow> str) \<Rightarrow> email_address list \<Rightarrow> str" where
  "formatAddressList b64utf8 xs = join '', '' (map (formatAddress b64utf8) xs)"

text \<open>
  The loop of \<open>splitAddressList\<close>: the entry read so far, and whether the scan is inside quotes
  or inside brackets. A backslash in quotes takes the next character with it.
\<close>

definition quote_state :: "char \<Rightarrow> bool \<Rightarrow> bool \<Rightarrow> bool \<times> bool" where
  "quote_state ch inQuotes inBrackets =
     (if ch = QUOTE then (\<not> inQuotes, inBrackets)
      else if ch = CHR ''<'' \<and> \<not> inQuotes then (inQuotes, True)
      else if ch = CHR ''>'' \<and> \<not> inQuotes then (inQuotes, False)
      else (inQuotes, inBrackets))"

fun split_go :: "str \<Rightarrow> str \<Rightarrow> bool \<Rightarrow> bool \<Rightarrow> str list" where
  "split_go [] current inQuotes inBrackets = (if trim current \<noteq> [] then [trim current] else [])"
| "split_go (ch # rest) current inQuotes inBrackets =
     (if ch = BACKSLASH \<and> inQuotes then
        (case rest of
           [] \<Rightarrow> split_go [] (current @ [ch]) inQuotes inBrackets
         | c2 # rest' \<Rightarrow> split_go rest' (current @ [ch, c2]) inQuotes inBrackets)
      else (case quote_state ch inQuotes inBrackets of (q, b) \<Rightarrow>
        if ch = CHR '','' \<and> \<not> q \<and> \<not> b
        then trim current # split_go rest [] q b
        else split_go rest (current @ [ch]) q b))"

definition splitAddressList :: "str \<Rightarrow> str list" where
  "splitAddressList v = split_go v [] False False"

text \<open>The leftmost match of \<open>/<([^>]+)>\s*$/\<close>\<close>

fun tail_bracket :: "str \<Rightarrow> str option" where
  "tail_bracket [] = None"
| "tail_bracket (c # cs) =
     (if c = CHR ''<'' then
        (let body = takeWhile (\<lambda>x. x \<noteq> CHR ''>'') cs; rest = dropWhile (\<lambda>x. x \<noteq> CHR ''>'') cs
         in if body \<noteq> [] \<and> rest \<noteq> [] \<and> list_all is_space (tl rest) then Some body
            else tail_bracket cs)
      else tail_bracket cs)"

definition extractAddress :: "str \<Rightarrow> str" where
  "extractAddress v =
     to_lower (trim (case tail_bracket (trim v) of Some m \<Rightarrow> m | None \<Rightarrow> v))"

definition addressDomain :: "str \<Rightarrow> str" where
  "addressDomain v = last (split_on CHR ''@'' (extractAddress v))"

section \<open>Trimming\<close>

definition trimmed :: "str \<Rightarrow> bool" where
  "trimmed s \<longleftrightarrow> s \<noteq> [] \<and> \<not> is_space (hd s) \<and> \<not> is_space (last s)"

lemma dropWhile_id: "xs \<noteq> [] \<Longrightarrow> \<not> P (hd xs) \<Longrightarrow> dropWhile P xs = xs"
  by (cases xs) auto

lemma trim_trimmed: "trimmed s \<Longrightarrow> trim s = s"
  by (simp add: trimmed_def trim_def dropWhile_id hd_rev)

lemma trim_space: "trim (CHR '' '' # s) = trim s"
  by (simp add: trim_def is_space_def)

lemma trim_Nil [simp]: "trim [] = []"
  by (simp add: trim_def)

lemma dropWhile_hd: "dropWhile P xs \<noteq> [] \<Longrightarrow> \<not> P (hd (dropWhile P xs))"
  by (rule hd_dropWhile)

lemma trim_trimmedI:
  assumes ne: "trim s \<noteq> []"
  shows "trimmed (trim s)"
proof -
  let ?d = "dropWhile is_space s"
  let ?e = "dropWhile is_space (rev ?d)"
  have tr: "trim s = rev ?e" by (simp add: trim_def)
  have ene: "?e \<noteq> []" using ne tr by simp
  then have l: "\<not> is_space (last (trim s))"
    using dropWhile_hd [OF ene] by (simp only: tr last_rev simp_thms)
  have dne: "?d \<noteq> []" using ene by (cases "?d") simp_all
  have "rev ?d = takeWhile is_space (rev ?d) @ ?e" by simp
  then have "?d = trim s @ rev (takeWhile is_space (rev ?d))"
    unfolding tr by (metis rev_append rev_rev_ident)
  with ne have "hd (trim s) = hd ?d" by (metis hd_append2)
  with dropWhile_hd [OF dne] have "\<not> is_space (hd (trim s))" by simp
  with l ne show ?thesis by (simp add: trimmed_def)
qed

section \<open>Scanning a segment without a split\<close>

text \<open>
  \<open>scan s q b\<close> is the scanner's state after \<open>s\<close> when no top-level comma and no dangling
  backslash occurs in it.
\<close>

fun scan :: "str \<Rightarrow> bool \<Rightarrow> bool \<Rightarrow> (bool \<times> bool) option" where
  "scan [] q b = Some (q, b)"
| "scan (ch # rest) q b =
     (if ch = BACKSLASH \<and> q then (case rest of [] \<Rightarrow> None | c2 # rest' \<Rightarrow> scan rest' q b)
      else (case quote_state ch q b of (q', b') \<Rightarrow>
        if ch = CHR '','' \<and> \<not> q' \<and> \<not> b' then None else scan rest q' b'))"

lemma split_go_scan:
  "scan s q b = Some (q', b') \<Longrightarrow> split_go (s @ rest) cur q b = split_go rest (cur @ s) q' b'"
proof (induction s q b arbitrary: cur rule: scan.induct)
  case (2 ch xs q b)
  obtain q1 b1 where st: "quote_state ch q b = (q1, b1)" by fastforce
  show ?case
  proof (cases "ch = BACKSLASH \<and> q")
    case True
    with "2.prems" obtain c2 ys where xs: "xs = c2 # ys" "scan ys q b = Some (q', b')"
      by (cases xs) simp_all
    from "2.IH"(1) [OF True xs] True xs(1) show ?thesis by simp
  next
    case False
    with "2.prems" st have c: "\<not> (ch = CHR '','' \<and> \<not> q1 \<and> \<not> b1)" "scan xs q1 b1 = Some (q', b')"
      by (simp_all split: if_splits)
    have "split_go (xs @ rest) (cur @ [ch]) q1 b1 = split_go rest ((cur @ [ch]) @ xs) q' b'"
      using "2.IH"(2) [OF False st [symmetric] c(1,2)] .
    with False st c(1) show ?thesis by (auto split: if_splits)
  qed
qed simp

lemma scan_append:
  "scan s q b = Some (q', b') \<Longrightarrow> scan (s @ t) q b = scan t q' b'"
proof (induction s q b rule: scan.induct)
  case (2 ch xs q b)
  obtain q1 b1 where st: "quote_state ch q b = (q1, b1)" by fastforce
  show ?case
  proof (cases "ch = BACKSLASH \<and> q")
    case True
    with "2.prems" obtain c2 ys where xs: "xs = c2 # ys" "scan ys q b = Some (q', b')"
      by (cases xs) simp_all
    from "2.IH"(1) [OF True xs] True xs(1) show ?thesis by simp
  next
    case False
    with "2.prems" st have c: "\<not> (ch = CHR '','' \<and> \<not> q1 \<and> \<not> b1)" "scan xs q1 b1 = Some (q', b')"
      by (simp_all split: if_splits)
    from "2.IH"(2) [OF False st [symmetric] c(1,2)] False st c(1) show ?thesis by (auto split: if_splits)
  qed
qed simp

definition plain_char :: "char \<Rightarrow> bool" where
  "plain_char c \<longleftrightarrow> c \<noteq> QUOTE \<and> c \<noteq> BACKSLASH \<and> c \<noteq> CHR ''<'' \<and> c \<noteq> CHR ''>'' \<and> c \<noteq> CHR '',''"

lemma quote_state_plain: "plain_char c \<Longrightarrow> quote_state c q b = (q, b)"
  by (simp add: quote_state_def plain_char_def)

lemma scan_plain: "list_all plain_char s \<Longrightarrow> scan s q b = Some (q, b)"
proof (induction s)
  case (Cons c s)
  then have c: "plain_char c" "list_all plain_char s" by simp_all
  then have "c \<noteq> BACKSLASH" "c \<noteq> CHR '',''" by (simp_all add: plain_char_def)
  with c Cons.IH show ?case by (simp add: quote_state_plain)
qed simp

lemma quote_state_quoted: "c \<noteq> QUOTE \<Longrightarrow> quote_state c True b = (True, b)"
  by (simp add: quote_state_def)

lemma scan_escaped: "scan (escape_name s) True b = Some (True, b)"
proof (induction s)
  case (Cons c s)
  then show ?case
    by (cases "c = QUOTE \<or> c = BACKSLASH") (simp_all add: quote_state_quoted)
qed simp

lemma scan_single: "ch \<noteq> BACKSLASH \<Longrightarrow> quote_state ch q b = (q', b') \<Longrightarrow> ch \<noteq> CHR '','' \<Longrightarrow>
    scan (ch # s) q b = scan s q' b'"
  by simp

lemma scan_bracketed:
  assumes "list_all plain_char a"
  shows "scan ('' <'' @ a @ ''>'') False False = Some (False, False)"
proof -
  have "scan ('' <'' @ a @ ''>'') False False = scan (a @ ''>'') False True"
    by (simp add: quote_state_def)
  also have "\<dots> = scan ''>'' False True" by (rule scan_append [OF scan_plain [OF assms]])
  also have "\<dots> = Some (False, False)" by (simp add: quote_state_def)
  finally show ?thesis .
qed

lemma name_char_plain: "name_char c \<Longrightarrow> plain_char c"
  by (auto simp: name_char_def plain_char_def Let_def)


section \<open>Formatted mailboxes\<close>

text \<open>An address the formatter can put between brackets: no space at its ends, none of
  the characters that delimit mailboxes.\<close>

definition addr_ok :: "str \<Rightarrow> bool" where
  "addr_ok a \<longleftrightarrow> trimmed a \<and> list_all plain_char a"

lemma trimmed_bracketed: "n \<noteq> [] \<Longrightarrow> \<not> is_space (hd n) \<Longrightarrow> trimmed (n @ '' <'' @ a @ ''>'')"
  by (simp add: trimmed_def is_space_def)

text \<open>The four shapes of a formatted mailbox\<close>

lemma formatAddress_cases:
  obtains (bare) "formatAddress b64 a = trim (ea_address a)"
  | (encoded) n where "formatAddress b64 a = encodeWord b64 n @ '' <'' @ trim (ea_address a) @ ''>''"
  | (plain) n where "formatAddress b64 a = n @ '' <'' @ trim (ea_address a) @ ''>''"
      "safe_unquoted_name n" "trimmed n"
  | (quoted) n where "formatAddress b64 a = QUOTE # escape_name n @ QUOTE # '' <'' @ trim (ea_address a) @ ''>''"
      "n = trim (strip_breaks (the (ea_name a)))" "ea_name a \<noteq> None"
proof (cases "truthy (map_option (\<lambda>n. trim (strip_breaks n)) (ea_name a))")
  case False
  then show thesis using bare by (simp add: formatAddress_def Let_def)
next
  case True
  then obtain v where v: "ea_name a = Some v" "trim (strip_breaks v) \<noteq> []"
    by (auto elim!: truthyE)
  let ?n = "trim (strip_breaks v)"
  consider "\<not> ascii_printable ?n" | "ascii_printable ?n" "safe_unquoted_name ?n"
    | "ascii_printable ?n" "\<not> safe_unquoted_name ?n" by blast
  then show thesis
  proof cases
    case 1
    with v show thesis by (intro encoded [of ?n]) (simp add: formatAddress_def Let_def)
  next
    case 2
    with v trim_trimmedI show thesis by (intro plain [of ?n]) (simp_all add: formatAddress_def Let_def)
  next
    case 3
    with v show thesis by (intro quoted [of ?n]) (simp_all add: formatAddress_def Let_def)
  qed
qed

lemma plain_bracketed_scan:
  "list_all plain_char n \<Longrightarrow> list_all plain_char a \<Longrightarrow>
    scan (n @ '' <'' @ a @ ''>'') False False = Some (False, False)"
  using scan_append [OF scan_plain] scan_bracketed by metis

lemma scan_quoted:
  assumes "list_all plain_char a"
  shows "scan (QUOTE # escape_name n @ QUOTE # '' <'' @ a @ ''>'') False False = Some (False, False)"
proof -
  have "scan (QUOTE # escape_name n @ QUOTE # '' <'' @ a @ ''>'') False False =
        scan (escape_name n @ QUOTE # '' <'' @ a @ ''>'') True False"
    by (simp add: quote_state_def)
  also have "\<dots> = scan (QUOTE # '' <'' @ a @ ''>'') True False"
    by (rule scan_append [OF scan_escaped])
  also have "\<dots> = scan ('' <'' @ a @ ''>'') False False"
    by (rule scan_single) (simp_all add: quote_state_def)
  finally show ?thesis using scan_bracketed [OF assms] by simp
qed

lemma formatted_scan:
  assumes a: "addr_ok (trim (ea_address a))" and b64: "\<And>v. list_all plain_char (b64 v)"
  shows "scan (formatAddress b64 a) False False = Some (False, False)"
    and "trimmed (formatAddress b64 a)"
proof -
  have p: "list_all plain_char (trim (ea_address a))" and t: "trimmed (trim (ea_address a))"
    using a by (simp_all add: addr_ok_def)
  have e: "list_all plain_char (encodeWord b64 n)" "encodeWord b64 n \<noteq> []"
      "\<not> is_space (hd (encodeWord b64 n))" for n
    using b64 by (simp_all add: encodeWord_def plain_char_def is_space_def)
  have q: "\<not> is_space QUOTE" by (simp add: is_space_def)
  show "scan (formatAddress b64 a) False False = Some (False, False)"
  proof (cases rule: formatAddress_cases [of b64 a])
    case bare
    with p show ?thesis by (simp add: scan_plain)
  next
    case (encoded n)
    with e(1) p show ?thesis by (simp only: plain_bracketed_scan)
  next
    case (plain n)
    then have "list_all plain_char n"
      by (auto simp: safe_unquoted_name_def list_all_iff intro: name_char_plain)
    with plain p show ?thesis by (simp only: plain_bracketed_scan)
  next
    case (quoted n)
    with p show ?thesis by (simp only: scan_quoted)
  qed
  show "trimmed (formatAddress b64 a)"
  proof (cases rule: formatAddress_cases [of b64 a])
    case bare
    with t show ?thesis by simp
  next
    case (encoded n)
    show ?thesis by (simp only: encoded trimmed_bracketed [OF e(2,3)])
  next
    case (plain n)
    then have "n \<noteq> []" "\<not> is_space (hd n)" by (simp_all add: trimmed_def)
    from trimmed_bracketed [OF this] show ?thesis by (simp only: plain(1))
  next
    case (quoted n)
    with q trimmed_bracketed [of "QUOTE # escape_name n @ [QUOTE]"] show ?thesis by simp
  qed
qed

text \<open>Splitting a joined list of well-formed entries gives the entries back.\<close>

lemma split_comma: "split_go (CHR '','' # rest) cur False False = trim cur # split_go rest [] False False"
  by (simp add: quote_state_def)

lemma split_space: "split_go (CHR '' '' # rest) cur False False = split_go rest (cur @ '' '') False False"
  by (simp add: quote_state_def)

lemma split_join:
  assumes "\<forall>e \<in> set es. scan e False False = Some (False, False) \<and> trimmed e"
    and "trim cur = []" "set cur \<subseteq> {CHR '' ''}"
  shows "split_go (join '', '' es) cur False False = es"
  using assms
proof (induction es arbitrary: cur rule: induct_list012)
  case 1
  then show ?case by simp
next
  case (2 e)
  have tc: "trim (cur @ e) = e" using "2.prems"
    by (induction cur) (auto simp: trim_space trim_trimmed)
  from "2.prems"(1) have s: "scan e False False = Some (False, False)" "e \<noteq> []"
    by (auto simp: trimmed_def)
  have "split_go (e @ []) cur False False = split_go [] (cur @ e) False False"
    by (rule split_go_scan [OF s(1)])
  with tc s(2) show ?case by simp
next
  case (3 x y zs)
  have tc: "trim (cur @ x) = x" using "3.prems"
    by (induction cur) (auto simp: trim_space trim_trimmed)
  have s: "scan x False False = Some (False, False)" using "3.prems"(1) by simp
  have "split_go (join '', '' (x # y # zs)) cur False False =
        split_go ('', '' @ join '', '' (y # zs)) (cur @ x) False False"
    using split_go_scan [OF s, of "'', '' @ join '', '' (y # zs)" cur] by simp
  also have "\<dots> = x # split_go (join '', '' (y # zs)) '' '' False False"
    by (simp only: append.simps split_comma split_space tc append_Nil)
  also have "\<dots> = x # y # zs"
  proof -
    have "split_go (join '', '' (y # zs)) '' '' False False = y # zs"
      using "3.prems"(1) by (intro "3.IH"(2)) (simp_all add: trim_space)
    then show ?thesis by simp
  qed
  finally show ?case .
qed

lemma tail_bracket_skip: "CHR ''<'' \<notin> set p \<Longrightarrow> tail_bracket (p @ s) = tail_bracket s"
  by (induction p) auto

lemma tail_bracket_addr:
  assumes "CHR ''<'' \<notin> set p" "a \<noteq> []" "CHR ''>'' \<notin> set a"
  shows "tail_bracket (p @ CHR ''<'' # a @ '' >'') = tail_bracket (CHR ''<'' # a @ '' >'')"
    "tail_bracket (p @ CHR ''<'' # a @ ''>'') = Some a"
proof -
  have "takeWhile (\<lambda>x. x \<noteq> CHR ''>'') (a @ ''>'') = a" "dropWhile (\<lambda>x. x \<noteq> CHR ''>'') (a @ ''>'') = ''>''"
    using assms(3) by (auto simp: takeWhile_append dropWhile_append)
  then show "tail_bracket (p @ CHR ''<'' # a @ ''>'') = Some a"
    using assms(1,2) by (simp add: tail_bracket_skip)
  show "tail_bracket (p @ CHR ''<'' # a @ '' >'') = tail_bracket (CHR ''<'' # a @ '' >'')"
    using assms(1) by (rule tail_bracket_skip)
qed

lemma tail_bracket_None: "CHR ''<'' \<notin> set s \<Longrightarrow> tail_bracket s = None"
  by (induction s) auto

lemma set_escape_name: "CHR ''<'' \<in> set (escape_name n) \<longleftrightarrow> CHR ''<'' \<in> set n"
  by (induction n) auto

lemma set_trim: "set (trim s) \<subseteq> set s"
  by (auto simp: trim_def dest!: set_dropWhileD)

lemma set_strip_breaks: "set (strip_breaks s) \<subseteq> insert (CHR '' '') (set s)"
proof (induction s)
  case (Cons c cs)
  then show ?case by (cases "is_break c"; cases cs) auto
qed simp


text \<open>No display name of a mailbox without \<open><\<close> puts one before the address's bracket.\<close>

lemma formatted_extract:
  assumes a: "addr_ok (trim (ea_address a))"
    and n: "\<And>n. ea_name a = Some n \<Longrightarrow> CHR ''<'' \<notin> set n"
    and b64: "\<And>v. CHR ''<'' \<notin> set (b64 v)"
  shows "(case tail_bracket (formatAddress b64 a) of Some m \<Rightarrow> m | None \<Rightarrow> formatAddress b64 a) =
    trim (ea_address a)"
proof -
  let ?a = "trim (ea_address a)"
  have p: "?a \<noteq> []" "CHR ''<'' \<notin> set ?a" "CHR ''>'' \<notin> set ?a"
    using a by (auto simp: addr_ok_def trimmed_def list_all_iff plain_char_def)
  have br: "tail_bracket (q @ '' <'' @ ?a @ ''>'') = Some ?a" if "CHR ''<'' \<notin> set q" for q
    using tail_bracket_addr(2) [of "q @ '' ''" ?a] that p by simp
  show ?thesis
  proof (cases rule: formatAddress_cases [of b64 a])
    case bare
    with p show ?thesis by (simp add: tail_bracket_None)
  next
    case (encoded n)
    with b64 br [of "encodeWord b64 n"] show ?thesis by (simp add: encodeWord_def)
  next
    case (plain n)
    then have "CHR ''<'' \<notin> set n"
      using name_char_plain by (auto simp: safe_unquoted_name_def list_all_iff plain_char_def)
    with plain br [of n] show ?thesis by simp
  next
    case (quoted m)
    then obtain v where v: "ea_name a = Some v" by blast
    then have "m = trim (strip_breaks v)" using quoted(2) by simp
    then have "CHR ''<'' \<notin> set m"
      using n [OF v] set_trim [of "strip_breaks v"] set_strip_breaks [of v] by auto
    with quoted br [of "QUOTE # escape_name m @ [QUOTE]"] show ?thesis
      by (simp add: set_escape_name)
  qed
qed

section \<open>Properties\<close>

text \<open>
  C40. A display name cannot inject a recipient: splitting the header built from a list of
  mailboxes gives back exactly the formatted mailboxes, one per recipient, whatever the
  display names contain (commas, quotes, brackets, line breaks, non-ASCII text).
\<close>

theorem split_formatted_list:
  assumes "\<forall>a \<in> set xs. addr_ok (trim (ea_address a))" and "\<forall>v. list_all plain_char (b64 v)"
  shows "splitAddressList (formatAddressList b64 xs) = map (formatAddress b64) xs"
  unfolding splitAddressList_def formatAddressList_def
  by (rule split_join) (use assms formatted_scan in \<open>auto\<close>)

theorem split_formatted_list_witness:
  "splitAddressList (formatAddressList (\<lambda>_. ''QQ'')
     [\<lparr>ea_address = ''j@x.y'', ea_name = Some ''D, <evil@z.z>,''\<rparr>, \<lparr>ea_address = ''b@x.y'', ea_name = None\<rparr>]) =
   [[QUOTE] @ ''D, <evil@z.z>,'' @ [QUOTE] @ '' <j@x.y>'', ''b@x.y'']"
proof -
  let ?xs = "[\<lparr>ea_address = ''j@x.y'', ea_name = Some ''D, <evil@z.z>,''\<rparr>, \<lparr>ea_address = ''b@x.y'', ea_name = None\<rparr>]"
  have h: "\<forall>a \<in> set ?xs. addr_ok (trim (ea_address a))" "\<forall>v. list_all plain_char ((\<lambda>_. ''QQ'') v)"
    by (simp_all add: addr_ok_def trimmed_def plain_char_def trim_def is_space_def)
  have "map (formatAddress (\<lambda>_. ''QQ'')) ?xs = [[QUOTE] @ ''D, <evil@z.z>,'' @ [QUOTE] @ '' <j@x.y>'', ''b@x.y'']"
    by code_simp
  with split_formatted_list [OF h] show ?thesis by simp
qed

text \<open>
  The address comes back out of a formatted mailbox, lowercased, when the display name has
  no opening angle bracket.
\<close>

theorem extract_formatted:
  assumes "addr_ok (trim (ea_address a))"
    and "\<forall>n. ea_name a = Some n \<longrightarrow> CHR ''<'' \<notin> set n"
    and "\<forall>v. list_all plain_char (b64 v)"
  shows "extractAddress (formatAddress b64 a) = to_lower (trim (ea_address a))"
proof -
  have b: "CHR ''<'' \<notin> set (b64 v)" for v
    using assms(3) by (auto simp: list_all_iff plain_char_def)
  have t: "trim (formatAddress b64 a) = formatAddress b64 a"
    using formatted_scan(2) [of a b64] assms(1,3) by (simp add: trim_trimmed)
  have "trim (trim (ea_address a)) = trim (ea_address a)"
    using assms(1) by (simp add: addr_ok_def trim_trimmed)
  with formatted_extract [of a b64] assms(1,2) b t show ?thesis
    by (simp add: extractAddress_def)
qed

theorem extract_formatted_witness:
  "extractAddress (formatAddress (\<lambda>_. ''QQ'') \<lparr>ea_address = '' Me@X.y'', ea_name = Some ''D, J''\<rparr>) = ''me@x.y''"
proof -
  let ?a = "\<lparr>ea_address = '' Me@X.y'', ea_name = Some ''D, J''\<rparr>"
  have t: "trim (ea_address ?a) = ''Me@X.y''" by (simp add: trim_def is_space_def)
  have h: "addr_ok (trim (ea_address ?a))" "\<forall>n. ea_name ?a = Some n \<longrightarrow> CHR ''<'' \<notin> set n"
    "\<forall>v. list_all plain_char ((\<lambda>_. ''QQ'') v)"
    unfolding t by (simp_all add: addr_ok_def trimmed_def plain_char_def is_space_def)
  have "to_lower ''Me@X.y'' = ''me@x.y''" by code_simp
  with extract_formatted [OF h] t show ?thesis by simp
qed

text \<open>
  The side condition is needed: for a display name with an opening angle bracket,
  which \<open>formatAddress\<close> quotes correctly, \<open>extractAddress\<close> returns a piece of the name together
  with the address instead of the address.
\<close>

theorem extract_bracket_name_wrong:
  "extractAddress (formatAddress b64 \<lparr>ea_address = ''j@x.y'', ea_name = Some ''a<b''\<rparr>) =
     ''b'' @ [QUOTE] @ '' <j@x.y''"
proof -
  have "formatAddress b64 \<lparr>ea_address = ''j@x.y'', ea_name = Some ''a<b''\<rparr> =
      [QUOTE] @ ''a<b'' @ [QUOTE] @ '' <j@x.y>''"
    by (simp add: formatAddress_def trim_def is_space_def is_break_def ascii_printable_def
        safe_unquoted_name_def name_char_def Let_def)
  moreover have "extractAddress ([QUOTE] @ ''a<b'' @ [QUOTE] @ '' <j@x.y>'') = ''b'' @ [QUOTE] @ '' <j@x.y''"
    by code_simp
  ultimately show ?thesis by simp
qed

end
