(* ===== verification/Regex.thy ===== *)
theory Regex
  imports Prelude
begin

text \<open>
  The part of JavaScript's regular expressions the code uses: character classes, sequence,
  alternation, greedy and lazy repetition, capture groups, and assertions about the text that follows
  (look-ahead, \<open>$\<close>, \<open>\b\<close> behind a word character). The matcher backtracks in the order
  of the ECMAScript specification: \<open>matches\<close> lists all the ways to match at a position, the
  preferred one first, and a repetition whose body consumed nothing stops. Over it stand
  \<open>exec\<close> (leftmost match), \<open>matchAll\<close> and \<open>replace\<close> with the global flag.
\<close>

datatype re =
    Cls "char \<Rightarrow> bool"
  | Eps
  | Seq re re
  | Alt re re
  | Star bool re
  | Cap nat re
  | Ahead "str \<Rightarrow> bool"

type_synonym caps = "(nat \<times> str) list"

primrec star_iter :: "(str \<times> caps \<Rightarrow> (str \<times> caps) list) \<Rightarrow> bool \<Rightarrow> nat \<Rightarrow> str \<times> caps \<Rightarrow> (str \<times> caps) list" where
  "star_iter f greedy 0 p = [p]"
| "star_iter f greedy (Suc n) p =
     (let more = concat (map (star_iter f greedy n) (filter (\<lambda>q. length (fst q) < length (fst p)) (f p)))
      in if greedy then more @ [p] else p # more)"

primrec matches :: "re \<Rightarrow> str \<times> caps \<Rightarrow> (str \<times> caps) list" where
  "matches (Cls P) = (\<lambda>p. case fst p of [] \<Rightarrow> [] | x # xs \<Rightarrow> if P x then [(xs, snd p)] else [])"
| "matches Eps = (\<lambda>p. [p])"
| "matches (Seq r1 r2) = (\<lambda>p. concat (map (matches r2) (matches r1 p)))"
| "matches (Alt r1 r2) = (\<lambda>p. matches r1 p @ matches r2 p)"
| "matches (Star greedy r) = (\<lambda>p. star_iter (matches r) greedy (length (fst p)) p)"
| "matches (Cap n r) =
     (\<lambda>p. map (\<lambda>q. (fst q, (n, take (length (fst p) - length (fst q)) (fst p)) # snd q)) (matches r p))"
| "matches (Ahead P) = (\<lambda>p. if P (fst p) then [p] else [])"

text \<open>The building blocks of the patterns\<close>

definition lit :: "str \<Rightarrow> re" where
  "lit s = foldr (\<lambda>c r. Seq (Cls (\<lambda>x. x = c)) r) s Eps"

text \<open>With the \<open>i\<close> flag; the text of the pattern is in lower case.\<close>

definition lit_i :: "str \<Rightarrow> re" where
  "lit_i s = foldr (\<lambda>c r. Seq (Cls (\<lambda>x. x = c \<or> lower_char x = c)) r) s Eps"

definition plus_re :: "re \<Rightarrow> re" where
  "plus_re r = Seq r (Star True r)"

definition alts :: "re list \<Rightarrow> re" where
  "alts rs = (case rs of [] \<Rightarrow> Cls (\<lambda>_. False) | r # rs' \<Rightarrow> foldl Alt r rs')"

section \<open>Search\<close>

text \<open>The leftmost match: the text before it, the match, its groups and the text after it\<close>

primrec search_from :: "re \<Rightarrow> nat \<Rightarrow> str \<Rightarrow> (str \<times> str \<times> caps \<times> str) option" where
  "search_from r 0 s =
     (case matches r (s, []) of
        [] \<Rightarrow> None
      | (q, c) # _ \<Rightarrow> Some ([], take (length s - length q) s, c, q))"
| "search_from r (Suc n) s =
     (case matches r (s, []) of
        [] \<Rightarrow> (case s of [] \<Rightarrow> None
                | x # xs \<Rightarrow> map_option (\<lambda>(p, t, c, q). (x # p, t, c, q)) (search_from r n xs))
      | (q, c) # _ \<Rightarrow> Some ([], take (length s - length q) s, c, q))"

definition search :: "re \<Rightarrow> str \<Rightarrow> (str \<times> str \<times> caps \<times> str) option" where
  "search r s = search_from r (length s) s"

text \<open>\<open>s.match(r)?.[n]\<close>\<close>

definition exec_group :: "re \<Rightarrow> nat \<Rightarrow> str \<Rightarrow> str option" where
  "exec_group r n s = (case search r s of None \<Rightarrow> None | Some (_, _, c, _) \<Rightarrow> map_of c n)"

text \<open>\<open>s.matchAll(r)\<close>: each match with its groups; an empty match advances by one character. The
  bound is the number of positions of the string.\<close>

primrec match_all_from :: "re \<Rightarrow> nat \<Rightarrow> str \<Rightarrow> (str \<times> caps) list" where
  "match_all_from r 0 s = []"
| "match_all_from r (Suc n) s =
     (case search r s of
        None \<Rightarrow> []
      | Some (p, t, c, q) \<Rightarrow>
          (t, c) # (if t = [] then (case q of [] \<Rightarrow> [] | _ # q' \<Rightarrow> match_all_from r n q')
                    else match_all_from r n q))"

definition match_all :: "re \<Rightarrow> str \<Rightarrow> (str \<times> caps) list" where
  "match_all r s = match_all_from r (Suc (length s)) s"

text \<open>\<open>s.replace(r, f)\<close> with the global flag\<close>

primrec replace_from :: "re \<Rightarrow> (str \<Rightarrow> caps \<Rightarrow> str) \<Rightarrow> nat \<Rightarrow> str \<Rightarrow> str" where
  "replace_from r f 0 s = s"
| "replace_from r f (Suc n) s =
     (case search r s of
        None \<Rightarrow> s
      | Some (p, t, c, q) \<Rightarrow>
          p @ f t c @
          (if t = [] then (case q of [] \<Rightarrow> [] | x # q' \<Rightarrow> x # replace_from r f n q')
           else replace_from r f n q))"

definition replace_all :: "re \<Rightarrow> (str \<Rightarrow> caps \<Rightarrow> str) \<Rightarrow> str \<Rightarrow> str" where
  "replace_all r f s = replace_from r f (Suc (length s)) s"

text \<open>The end positions of the successive matches of \<open>while ((m = r.exec(s)) !== null)\<close>, for a
  pattern that never matches the empty string\<close>

primrec match_ends_from :: "re \<Rightarrow> nat \<Rightarrow> nat \<Rightarrow> str \<Rightarrow> nat list" where
  "match_ends_from r 0 off s = []"
| "match_ends_from r (Suc n) off s =
     (case search r s of
        None \<Rightarrow> []
      | Some (p, t, c, q) \<Rightarrow>
          (let e = off + length p + length t in e # match_ends_from r n e q))"

definition match_ends :: "re \<Rightarrow> str \<Rightarrow> nat list" where
  "match_ends r s = match_ends_from r (length s) 0 s"

section \<open>Facts about the matcher\<close>

lemma star_iter_suffix:
  assumes "\<And>p q. q \<in> set (f p) \<Longrightarrow> suffix (fst q) (fst p)"
  shows "q \<in> set (star_iter f g n p) \<Longrightarrow> suffix (fst q) (fst p)"
proof (induction n arbitrary: p)
  case (Suc n)
  from Suc.prems consider "q = p"
    | r where "r \<in> set (f p)" "q \<in> set (star_iter f g n r)"
    by (auto simp: Let_def split: if_splits)
  then show ?case
  proof cases
    case 2
    from assms [OF 2(1)] Suc.IH [OF 2(2)] show ?thesis by (rule suffix_order.trans [rotated])
  qed simp
qed simp

text \<open>A match consumes a prefix of the text.\<close>

lemma matches_suffix: "q \<in> set (matches r p) \<Longrightarrow> suffix (fst q) (fst p)"
proof (induction r arbitrary: p q)
  case (Cls P)
  then show ?case by (cases "fst p") (auto simp: suffix_def split: if_splits)
next
  case (Seq r1 r2)
  from Seq.prems obtain u where "u \<in> set (matches r1 p)" "q \<in> set (matches r2 u)" by auto
  from Seq.IH(1) [OF this(1)] Seq.IH(2) [OF this(2)] show ?case
    by (rule suffix_order.trans [rotated])
next
  case (Star g r)
  from Star.prems have q: "q \<in> set (star_iter (matches r) g (length (fst p)) p)" by simp
  show ?case by (rule star_iter_suffix [OF Star.IH q]) simp
qed auto

lemma take_of_suffix: "suffix q s \<Longrightarrow> take (length s - length q) s @ q = s"
  by (auto simp: suffix_def)

lemma search_from_append: "search_from r n s = Some (p, t, c, q) \<Longrightarrow> p @ t @ q = s"
proof (induction n arbitrary: s p)
  case 0
  then show ?case
    using matches_suffix [of _ r "(s, [])"]
    by (force split: list.splits simp: take_of_suffix)
next
  case (Suc n)
  show ?case
  proof (cases "matches r (s, [])")
    case Nil
    with Suc.prems obtain x xs p' where "s = x # xs" "p = x # p'" "search_from r n xs = Some (p', t, c, q)"
      by (auto split: list.splits)
    with Suc.IH [of xs p'] show ?thesis by simp
  next
    case (Cons a as)
    obtain u c' where a: "a = (u, c')" by fastforce
    have "suffix u s" using matches_suffix [of a r "(s, [])"] Cons a by simp
    with Suc.prems Cons a show ?thesis by (auto intro: take_of_suffix)
  qed
qed

lemma search_append: "search r s = Some (p, t, c, q) \<Longrightarrow> p @ t @ q = s"
  unfolding search_def by (rule search_from_append)

lemma search_from_None:
  "search_from r n s = None \<Longrightarrow> length s \<le> n \<Longrightarrow> i \<le> length s \<Longrightarrow> matches r (drop i s, []) = []"
proof (induction n arbitrary: s i)
  case 0
  then show ?case by (auto split: list.splits)
next
  case (Suc n)
  have none: "matches r (s, []) = []" using Suc.prems(1) by (auto split: list.splits)
  show ?case
  proof (cases i)
    case 0
    with none show ?thesis by simp
  next
    case (Suc j)
    with Suc.prems obtain x xs where s: "s = x # xs" by (cases s) auto
    with Suc.prems none have "search_from r n xs = None" by simp
    from Suc.IH [OF this, of j] s Suc Suc.prems show ?thesis by simp
  qed
qed

text \<open>No position of a string that \<open>search\<close> rejects starts a match.\<close>

lemma search_None: "search r s = None \<Longrightarrow> i \<le> length s \<Longrightarrow> matches r (drop i s, []) = []"
  unfolding search_def by (rule search_from_None [OF _ le_refl])

lemma replace_all_no_match: "search r s = None \<Longrightarrow> replace_all r f s = s"
  by (simp add: replace_all_def)

lemma match_all_no_match: "search r s = None \<Longrightarrow> match_all r s = []"
  by (simp add: match_all_def)

end
