(* ===== verification/MailText.thy ===== *)
theory MailText
  imports Types Regex
begin

text \<open>
  The pure functions that read and write the text of a message: message ids and the index key
  built from them (\<open>processor/message-id.ts\<close>), automated and bounced messages, List-Unsubscribe
  headers, the unsubscribe link of an HTML body, HTML truncation and stripping, forwarding
  headers, templates (the helpers of \<open>processor/incoming-email-processor.ts\<close>), the hop count of
  \<open>email/ses-tags.ts\<close> and the lookup id of a calendar signal.

  \<open>url_protocol\<close> stands for the URL parser (\<open>None\<close> when \<open>new URL\<close> throws) and \<open>json_parse\<close> for
  \<open>JSON.parse\<close>. Headers are looked up by their exact, already lower-cased name.
\<close>

section \<open>Message ids\<close>

definition is_open :: "char \<Rightarrow> bool" where "is_open c \<longleftrightarrow> c = CHR ''<''"
definition is_close :: "char \<Rightarrow> bool" where "is_close c \<longleftrightarrow> c = CHR ''>''"

text \<open>\<open>s.match(/<([^>]+)>/)\<close>: group 1 and the text after the match\<close>

fun angle_next :: "str \<Rightarrow> (str \<times> str) option" where
  "angle_next [] = None"
| "angle_next (c # cs) =
     (let body = takeWhile (\<lambda>x. \<not> is_close x) cs; after = dropWhile (\<lambda>x. \<not> is_close x) cs
      in if is_open c \<and> body \<noteq> [] \<and> after \<noteq> [] then Some (body, tl after) else angle_next cs)"

definition angle_match :: "str \<Rightarrow> str option" where
  "angle_match s = map_option fst (angle_next s)"

lemma angle_next_length: "angle_next s = Some (b, rest) \<Longrightarrow> length rest < length s"
proof (induction s rule: angle_next.induct)
  case (2 c cs)
  have "length (dropWhile (\<lambda>x. \<not> is_close x) cs) \<le> length cs" by (rule length_dropWhile_le)
  show ?case
  proof (cases "is_open c \<and> takeWhile (\<lambda>x. \<not> is_close x) cs \<noteq> [] \<and> dropWhile (\<lambda>x. \<not> is_close x) cs \<noteq> []")
    case True
    then have "tl (dropWhile (\<lambda>x. \<not> is_close x) cs) = rest" using 2(2) by (simp add: Let_def)
    with \<open>length (dropWhile _ cs) \<le> length cs\<close> show ?thesis by auto
  next
    case False
    then have "angle_next cs = Some (b, rest)" using 2(2) by (auto simp: Let_def split: if_splits)
    from 2(1) [OF refl refl False this] show ?thesis by simp
  qed
qed simp

text \<open>\<open>s.match(/<([^>]+)>/g)\<close> and \<open>s.matchAll(...)\<close>: group 1 of every match\<close>

function angle_matches :: "str \<Rightarrow> str list" where
  "angle_matches s = (case angle_next s of None \<Rightarrow> [] | Some (b, rest) \<Rightarrow> b # angle_matches rest)"
  by pat_completeness auto
termination by (relation "measure length") (auto dest: angle_next_length)

declare angle_matches.simps [simp del]

definition extractMsgId :: "str \<Rightarrow> str option" where
  "extractMsgId raw =
     (case angle_match raw of
        Some i \<Rightarrow> Some i
      | None \<Rightarrow> (let trimmed = trim raw in if trimmed = [] then None else Some trimmed))"

definition MAX_GSI3PK_LENGTH :: nat where "MAX_GSI3PK_LENGTH = 1024"

definition buildSignalGsi3pk :: "str \<Rightarrow> str \<Rightarrow> str" where
  "buildSignalGsi3pk accountId msgId =
     take MAX_GSI3PK_LENGTH (''ACCT#'' @ accountId @ ''#MSGID#'' @ msgId)"

definition buildOutboundMsgId :: "str \<Rightarrow> str \<Rightarrow> str" where
  "buildOutboundMsgId sesMessageId sesRegion = sesMessageId @ ''@'' @ sesRegion @ ''.amazonses.com''"

definition extractFirstInReplyTo :: "str \<Rightarrow> str option" where
  "extractFirstInReplyTo headerValue = angle_match headerValue"

definition extractReferencedOutboundMsgId :: "headers \<Rightarrow> str option" where
  "extractReferencedOutboundMsgId hs =
     (let fromReferences =
        (case map_of hs ''references'' of
           None \<Rightarrow> None
         | Some refs \<Rightarrow>
             (if refs = [] then None
              else (case angle_matches refs of
                      [] \<Rightarrow> None
                    | ms \<Rightarrow> extractMsgId (''<'' @ last ms @ ''>''))))
      in case map_of hs ''in-reply-to'' of
           None \<Rightarrow> fromReferences
         | Some irt \<Rightarrow>
             (if irt = [] then fromReferences
              else (case extractMsgId irt of Some i \<Rightarrow> Some i | None \<Rightarrow> fromReferences)))"

lemma takeWhile_close [simp]:
  "\<forall>x\<in>set m. \<not> is_close x \<Longrightarrow> takeWhile (\<lambda>x. \<not> is_close x) (m @ CHR ''>'' # t) = m"
  "\<forall>x\<in>set m. \<not> is_close x \<Longrightarrow> dropWhile (\<lambda>x. \<not> is_close x) (m @ CHR ''>'' # t) = CHR ''>'' # t"
  by (induction m) (auto simp: is_close_def)

lemma angle_next_bracketed:
  "m \<noteq> [] \<Longrightarrow> \<forall>x\<in>set m. \<not> is_close x \<Longrightarrow> angle_next (CHR ''<'' # m @ CHR ''>'' # t) = Some (m, t)"
  by (cases m) (auto simp: is_open_def is_close_def)

lemma angle_next_no_open: "\<forall>x\<in>set p. \<not> is_open x \<Longrightarrow> angle_next (p @ s) = angle_next s"
  by (induction p) auto

lemma extractMsgId_bracketed:
  "m \<noteq> [] \<Longrightarrow> \<forall>x\<in>set m. \<not> is_close x \<Longrightarrow> extractMsgId (''<'' @ m @ ''>'') = Some m"
  using angle_next_bracketed [of m "[]"] by (simp add: extractMsgId_def angle_match_def)

text \<open>
  The bound of the index key and what survives it: distinct messages of an account keep distinct
  keys as long as the key is not cut.
\<close>

lemma buildSignalGsi3pk_length: "length (buildSignalGsi3pk a m) \<le> 1024"
  by (simp add: buildSignalGsi3pk_def MAX_GSI3PK_LENGTH_def)

lemma hash_split: "CHR ''#'' \<notin> set a \<Longrightarrow> CHR ''#'' \<notin> set b \<Longrightarrow>
    a @ CHR ''#'' # x = b @ CHR ''#'' # y \<Longrightarrow> a = b \<and> x = y"
  by (auto simp: append_eq_Cons_conv append_eq_append_conv2 Cons_eq_append_conv)

text \<open>
  Reply threading finds the right message: two messages whose index keys coincide belong to
  the same account and have the same message id, provided neither key reached the 1024-character
  limit at which it is cut (account ids contain no \<open>#\<close>, by their alphabet).
\<close>

theorem gsi3pk_injective:
  assumes "CHR ''#'' \<notin> set a" "CHR ''#'' \<notin> set b"
    and "length (buildSignalGsi3pk a m) < 1024"
    and eq: "buildSignalGsi3pk a m = buildSignalGsi3pk b n"
  shows "a = b \<and> m = n"
proof -
  have uncut: "buildSignalGsi3pk x k = ''ACCT#'' @ x @ ''#MSGID#'' @ k"
    if "length (buildSignalGsi3pk x k) < 1024" for x k
    using that by (simp add: buildSignalGsi3pk_def MAX_GSI3PK_LENGTH_def min_def split: if_splits)
  have "a @ CHR ''#'' # ''MSGID#'' @ m = b @ CHR ''#'' # ''MSGID#'' @ n"
    using uncut [of a m] uncut [of b n] assms(3) eq by simp
  from hash_split [OF assms(1,2) this] show ?thesis by simp
qed

lemma gsi3pk_injective_witness: "(''acc-1'' :: str) = ''acc-1'' \<and> ''m1@ses'' = ''m1@'' @ (''ses'' :: str)"
  by (rule gsi3pk_injective) (simp_all add: buildSignalGsi3pk_def MAX_GSI3PK_LENGTH_def)

text \<open>
  A bounce is attributed to the message it reports: the DSN of a message we sent, which
  echoes our Message-ID in brackets in In-Reply-To, or as the last entry of References when
  In-Reply-To is missing, resolves to exactly that id, however many ancestors References lists.
\<close>

theorem bounce_refers_to_message:
  assumes "m \<noteq> []" "CHR ''>'' \<notin> set m" "CHR ''<'' \<notin> set m"
    and "map_of hs ''in-reply-to'' = Some (''<'' @ m @ ''>'')
         \<or> map_of hs ''in-reply-to'' = None \<and>
           map_of hs ''references'' = Some (concat (map (\<lambda>a. ''<'' @ a @ ''> '') ancestors) @ ''<'' @ m @ ''>'')
           \<and> (\<forall>a\<in>set ancestors. a \<noteq> [] \<and> CHR ''>'' \<notin> set a)"
  shows "extractReferencedOutboundMsgId hs = Some m"
proof -
  have m: "\<forall>x\<in>set m. \<not> is_close x" using assms(2) by (auto simp: is_close_def)
  have self: "angle_next (CHR ''<'' # m @ ''>'') = Some (m, [])"
    using angle_next_bracketed [OF assms(1) m, of "[]"] by simp
  have all: "angle_matches (concat (map (\<lambda>a. ''<'' @ a @ ''> '') as) @ ''<'' @ m @ ''>'') = as @ [m]"
    if "\<forall>a\<in>set as. a \<noteq> [] \<and> CHR ''>'' \<notin> set a" for as
    using that
  proof (induction as)
    case Nil
    then show ?case using self by (simp add: angle_matches.simps)
  next
    case (Cons a as)
    let ?r = "concat (map (\<lambda>a. ''<'' @ a @ ''> '') as) @ ''<'' @ m @ ''>''"
    have a: "a \<noteq> []" "\<forall>x\<in>set a. \<not> is_close x" using Cons.prems by (auto simp: is_close_def)
    have skip: "angle_matches (CHR '' '' # ?r) = angle_matches ?r"
      by (subst angle_matches.simps, subst (2) angle_matches.simps)
         (simp add: is_open_def)
    have "angle_matches (CHR ''<'' # a @ CHR ''>'' # CHR '' '' # ?r) = a # angle_matches (CHR '' '' # ?r)"
      using angle_next_bracketed [OF a, of "CHR '' '' # ?r"] by (subst angle_matches.simps) simp
    with skip Cons show ?case by simp
  qed
  from assms(4) show ?thesis
  proof (elim disjE conjE)
    assume "map_of hs ''in-reply-to'' = Some (''<'' @ m @ ''>'')"
    with extractMsgId_bracketed [OF assms(1) m] show ?thesis
      by (simp add: extractReferencedOutboundMsgId_def)
  next
    assume n: "map_of hs ''in-reply-to'' = None"
      and r: "map_of hs ''references'' = Some (concat (map (\<lambda>a. ''<'' @ a @ ''> '') ancestors) @ ''<'' @ m @ ''>'')"
      and anc: "\<forall>a\<in>set ancestors. a \<noteq> [] \<and> CHR ''>'' \<notin> set a"
    obtain y ys where l: "ancestors @ [m] = y # ys" by (cases "ancestors @ [m]") auto
    have "last (y # ys) = m" unfolding l [symmetric] by simp
    with n r all [OF anc] l extractMsgId_bracketed [OF assms(1) m] show ?thesis
      by (simp add: extractReferencedOutboundMsgId_def)
  qed
qed

lemma bounce_refers_to_message_witness:
  "extractReferencedOutboundMsgId [(''references'', ''<a@x> <b@y> <m@ses>'')] = Some ''m@ses''"
  by (rule bounce_refers_to_message [where ancestors = "[''a@x'', ''b@y'']"]) simp_all

section \<open>Automated and bounced messages\<close>

definition isAutomatedMessage :: "headers \<Rightarrow> bool" where
  "isAutomatedMessage hs =
     (let autoSubmitted = map_option (\<lambda>v. to_lower (trim v)) (map_of hs ''auto-submitted'')
      in if truthy autoSubmitted \<and> autoSubmitted \<noteq> Some ''no'' then True
         else map_option trim (map_of hs ''return-path'') = Some ''<>'')"

record bounce_info =
  bi_action :: "str option"
  bi_status :: "str option"
  bi_diagnosticCode :: "str option"
  bi_originalRecipient :: "str option"
  bi_finalRecipient :: "str option"

definition isPermanentBounce :: "bounce_info \<Rightarrow> bool" where
  "isPermanentBounce b =
     (let statusClass = map_option (\<lambda>s. take 1 (trim s)) (bi_status b)
      in if statusClass = Some ''5'' then True
         else if statusClass = Some ''4'' then False
         else bi_action b \<noteq> Some ''delayed'')"

text \<open>\<open>Number.parseInt(s, 10)\<close>, \<open>None\<close> for \<open>NaN\<close>: leading white space, a sign, the longest run of
  digits\<close>

definition is_digit :: "char \<Rightarrow> bool" where
  "is_digit c \<longleftrightarrow> 48 \<le> (of_char c :: nat) \<and> (of_char c :: nat) \<le> 57"

definition digits_value :: "str \<Rightarrow> int" where
  "digits_value ds = foldl (\<lambda>n c. 10 * n + (of_char c - 48)) 0 ds"

definition parse_int :: "str \<Rightarrow> int option" where
  "parse_int s =
     (let t = dropWhile is_space s;
          (sign, u) = (case t of
             CHR ''-'' # r \<Rightarrow> (-1, r) | CHR ''+'' # r \<Rightarrow> (1, r) | _ \<Rightarrow> (1, t));
          ds = takeWhile is_digit u
      in if ds = [] then None else Some (sign * digits_value ds))"

text \<open>The count is kept exactly. JavaScript rounds a count above \<open>2^53\<close>, and one of more than 308 digits is
  \<open>Infinity\<close>; every such count is far above the limit of 100 hops, the only number it is compared with, in
  either reading.\<close>

definition parseHopCount :: "headers \<Rightarrow> int option" where
  "parseHopCount hs =
     (case map_of hs ''x-numaeel-hop-count'' of
        None \<Rightarrow> None
      | Some v \<Rightarrow>
          (if v = [] then None
           else (case parse_int v of
                   None \<Rightarrow> None
                 | Some n \<Rightarrow> if n \<ge> 0 then Some n else None)))"

definition buildCalendarSignalLookupId :: "str \<Rightarrow> str \<Rightarrow> str option \<Rightarrow> str" where
  "buildCalendarSignalLookupId organizerEmail veventUid recurrenceId =
     ''cal-'' @ organizerEmail @ ''-'' @ veventUid @
     (case recurrenceId of None \<Rightarrow> [] | Some r \<Rightarrow> if r = [] then [] else ''-'' @ r)"

section \<open>Unsubscribing\<close>

definition parseUnsubscribeHeaders :: "headers \<Rightarrow> unsubscribe_info option" where
  "parseUnsubscribeHeaders hs =
     (case map_of hs ''list-unsubscribe'' of
        None \<Rightarrow> None
      | Some listUnsubscribe \<Rightarrow>
          (if listUnsubscribe = [] then None
           else
             (let hasPost = truthy (map_of hs ''list-unsubscribe-post'');
                  urls = angle_matches listUnsubscribe;
                  httpsUrl = find (\<lambda>u. starts_with u ''https://'') urls;
                  mailtoUrl = find (\<lambda>u. starts_with u ''mailto:'') urls
              in case httpsUrl of
                   Some u \<Rightarrow> Some \<lparr>un_type = if hasPost then UnsubServer else UnsubWebsite, un_url = u\<rparr>
                 | None \<Rightarrow> map_option (\<lambda>u. \<lparr>un_type = UnsubMailto, un_url = u\<rparr>) mailtoUrl)))"

definition is_quote :: "char \<Rightarrow> bool" where "is_quote c \<longleftrightarrow> c = CHR ''\"'' \<or> c = CHR 0x27"

text \<open>\<open>/<a\s[^>]*href=["']([^"']+)["'][^>]*>([\s\S]*?)<\/a>/gi\<close> and \<open>/<[^>]+>/g\<close>\<close>

definition anchorPattern :: re where
  "anchorPattern =
     foldr Seq
       [lit_i ''<a'', Cls is_space, Star True (Cls (\<lambda>c. \<not> is_close c)), lit_i ''href='', Cls is_quote,
        Cap 1 (plus_re (Cls (\<lambda>c. \<not> is_quote c))), Cls is_quote,
        Star True (Cls (\<lambda>c. \<not> is_close c)), lit ''>'', Cap 2 (Star False (Cls (\<lambda>_. True)))]
       (lit_i ''</a>'')"

definition tagPattern :: re where
  "tagPattern = Seq (lit ''<'') (Seq (plus_re (Cls (\<lambda>c. \<not> is_close c))) (lit ''>''))"

fun firstUnsubscribeAnchor :: "(str \<Rightarrow> str option) \<Rightarrow> (str \<times> caps) list \<Rightarrow> unsubscribe_info option" where
  "firstUnsubscribeAnchor url_protocol [] = None"
| "firstUnsubscribeAnchor url_protocol ((t, c) # ms) =
     (let href = nullish (map_of c 1) [];
          txt = trim (replace_all tagPattern (\<lambda>_ _. []) (nullish (map_of c 2) []));
          combined = to_lower (txt @ '' '' @ href)
      in if \<not> str_includes combined ''unsubscribe'' then firstUnsubscribeAnchor url_protocol ms
         else if url_protocol href \<in> {Some ''https:'', Some ''http:''}
         then Some \<lparr>un_type = UnsubWebsite, un_url = href\<rparr>
         else firstUnsubscribeAnchor url_protocol ms)"

definition parseUnsubscribeFromBody :: "(str \<Rightarrow> str option) \<Rightarrow> str option \<Rightarrow> unsubscribe_info option" where
  "parseUnsubscribeFromBody url_protocol htmlBody =
     (case htmlBody of
        None \<Rightarrow> None
      | Some html \<Rightarrow>
          (if html = [] then None
           else firstUnsubscribeAnchor url_protocol (match_all anchorPattern html)))"

lemma find_SomeD: "find P xs = Some x \<Longrightarrow> x \<in> set xs \<and> P x"
  by (induction xs) (auto split: if_splits)

lemma firstUnsubscribeAnchor_http:
  "firstUnsubscribeAnchor up ms = Some u \<Longrightarrow>
     un_type u = UnsubWebsite \<and> up (un_url u) \<in> {Some ''https:'', Some ''http:''}"
  by (induction up ms rule: firstUnsubscribeAnchor.induct) (auto simp: Let_def split: if_splits)

text \<open>
  The one-click (\<open>server\<close>) method, which makes the server itself send the POST, is only ever
  offered for an https URL of the List-Unsubscribe header of a message that also carries
  List-Unsubscribe-Post; a \<open>mailto\<close> method has a mailto URL of that header, and a link found in the
  body is never more than the \<open>website\<close> method with an http or https URL.
\<close>

theorem unsubscribe_trust:
  "case parseUnsubscribeHeaders hs of
     Some u \<Rightarrow>
       un_url u \<in> set (angle_matches (the (map_of hs ''list-unsubscribe''))) \<and>
       (un_type u = UnsubServer \<longrightarrow>
          truthy (map_of hs ''list-unsubscribe-post'') \<and> starts_with (un_url u) ''https://'') \<and>
       (un_type u = UnsubWebsite \<longrightarrow> starts_with (un_url u) ''https://'') \<and>
       (un_type u = UnsubMailto \<longrightarrow> starts_with (un_url u) ''mailto:'')
   | None \<Rightarrow>
       (case parseUnsubscribeFromBody up body of
          Some u \<Rightarrow> un_type u = UnsubWebsite \<and> up (un_url u) \<in> {Some ''https:'', Some ''http:''}
        | None \<Rightarrow> True)"
proof (cases "parseUnsubscribeHeaders hs")
  case None
  then show ?thesis
    by (auto simp: parseUnsubscribeFromBody_def split: option.splits if_splits
        dest!: firstUnsubscribeAnchor_http)
next
  case (Some u)
  then show ?thesis
    by (auto simp: parseUnsubscribeHeaders_def Let_def split: option.splits if_splits dest!: find_SomeD)
qed

lemma unsubscribe_trust_witness:
  "parseUnsubscribeHeaders [(''list-unsubscribe'', ''<mailto:u@x>, <https://x/u>''),
      (''list-unsubscribe-post'', ''List-Unsubscribe=One-Click'')]
     = Some \<lparr>un_type = UnsubServer, un_url = ''https://x/u''\<rparr>
   \<and> starts_with ''https://x/u'' ''https://''"
proof -
  let ?hs = "[(''list-unsubscribe'', ''<mailto:u@x>, <https://x/u>''),
      (''list-unsubscribe-post'', ''List-Unsubscribe=One-Click'')] :: headers"
  have e: "parseUnsubscribeHeaders ?hs = Some \<lparr>un_type = UnsubServer, un_url = ''https://x/u''\<rparr>"
    by code_simp
  from unsubscribe_trust [where hs = ?hs and up = "\<lambda>_. None" and body = None] show ?thesis unfolding e by simp
qed

end
