(* ===== verification/MailBody.thy ===== *)
theory MailBody
  imports MailText
begin

text \<open>
  The body of a message (\<open>processor/incoming-email-processor.ts\<close>): truncation of HTML to the item
  budget, the text and the language hint given to the classifier, forwarding headers, templates
  and the value of an auto-draft action.

  Byte lengths are those of UTF-8 for the code points below 256, the range of a model character.
\<close>

section \<open>Truncation\<close>

definition MAX_HTML_BODY_BYTES :: nat where "MAX_HTML_BODY_BYTES = 300000"

definition byteLength :: "str \<Rightarrow> nat" where
  "byteLength s = (\<Sum>c\<leftarrow>s. if (of_char c :: nat) < 128 then 1 else 2)"

text \<open>\<open>/<\/(div|tr|p|table|section|article|li|td|th|blockquote|header|footer)>/gi\<close>\<close>

definition blockClosePattern :: re where
  "blockClosePattern =
     Seq (lit ''</'')
      (Seq (Cap 1 (alts (map lit_i
          [''div'', ''tr'', ''p'', ''table'', ''section'', ''article'', ''li'', ''td'', ''th'',
           ''blockquote'', ''header'', ''footer''])))
        (lit ''>''))"

text \<open>
  The position estimate is the exact quotient; the code computes it in floating point and drops
  the fraction.
\<close>

definition truncateHtml :: "str \<Rightarrow> nat \<Rightarrow> str \<times> bool" where
  "truncateHtml html maxBytes =
     (let encoded = byteLength html
      in if encoded \<le> maxBytes then (html, False)
         else
           (let fitting = takeWhile (\<lambda>e. byteLength (take e html) \<le> maxBytes) (match_ends blockClosePattern html);
                safeCut = (if fitting = [] then 0 else last fitting);
                estimatedCharPos = length html * maxBytes div encoded;
                cut = (if safeCut \<noteq> 0 then safeCut
                       else (case last_index_of (CHR ''>'') (take (estimatedCharPos + 1) html) of
                               None \<Rightarrow> estimatedCharPos
                             | Some i \<Rightarrow> if i = 0 then estimatedCharPos else i))
            in (take cut html, True)))"

lemma byteLength_append: "byteLength (s @ t) = byteLength s + byteLength t"
  by (simp add: byteLength_def)

lemma byteLength_ascii: "\<forall>c\<in>set s. (of_char c :: nat) < 128 \<Longrightarrow> byteLength s = length s"
  by (induction s) (auto simp: byteLength_def)

lemma last_takeWhile: "takeWhile P xs \<noteq> [] \<Longrightarrow> P (last (takeWhile P xs))"
  using last_in_set set_takeWhileD by metis

lemma last_index_of_less: "last_index_of c xs = Some i \<Longrightarrow> i < length xs"
  using last_index_of_Some [of c xs i] by auto

text \<open>
  Truncation keeps the stored item within its budget: the result is a prefix of the HTML,
  equal to it exactly when nothing is cut, and it has at most \<open>maxBytes\<close> bytes whenever a
  block-level closing tag ends within the budget, and always when the HTML is ASCII.
\<close>

theorem truncateHtml_fits:
  shows "prefix (fst (truncateHtml html maxBytes)) html
     \<and> (snd (truncateHtml html maxBytes) \<longleftrightarrow> byteLength html > maxBytes)
     \<and> (\<not> snd (truncateHtml html maxBytes) \<longrightarrow> fst (truncateHtml html maxBytes) = html)
     \<and> ((\<forall>c\<in>set html. (of_char c :: nat) < 128)
          \<or> (\<exists>e es. match_ends blockClosePattern html = e # es \<and> 0 < e \<and> byteLength (take e html) \<le> maxBytes)
          \<longrightarrow> byteLength (fst (truncateHtml html maxBytes)) \<le> maxBytes)"
proof (cases "byteLength html \<le> maxBytes")
  case True
  then show ?thesis by (simp add: truncateHtml_def)
next
  case False
  define fitting where
    "fitting = takeWhile (\<lambda>e. byteLength (take e html) \<le> maxBytes) (match_ends blockClosePattern html)"
  define est where "est = length html * maxBytes div byteLength html"
  define safeCut where "safeCut = (if fitting = [] then 0 else last fitting)"
  define cut where
    "cut = (if safeCut \<noteq> 0 then safeCut
            else (case last_index_of (CHR ''>'') (take (est + 1) html) of
                    None \<Rightarrow> est | Some i \<Rightarrow> if i = 0 then est else i))"
  have t: "truncateHtml html maxBytes = (take cut html, True)"
    unfolding truncateHtml_def Let_def cut_def safeCut_def est_def fitting_def if_not_P [OF False] by (rule refl)
  have safe: "byteLength (take cut html) \<le> maxBytes" if "safeCut \<noteq> 0"
    using that last_takeWhile [of "\<lambda>e. byteLength (take e html) \<le> maxBytes" "match_ends blockClosePattern html"]
    by (auto simp: cut_def safeCut_def fitting_def split: if_splits)
  have ascii: "byteLength (take cut html) \<le> maxBytes"
    if a: "\<forall>c\<in>set html. (of_char c :: nat) < 128"
  proof (cases "safeCut = 0")
    case True
    have b: "byteLength html = length html" using a by (rule byteLength_ascii)
    with False have "0 < length html" by (cases html) auto
    then have "est = maxBytes" using b by (simp add: est_def)
    moreover have "cut \<le> est"
      using True by (auto simp: cut_def split: option.splits dest!: last_index_of_less)
    moreover have "byteLength (take cut html) = length (take cut html)"
      using a by (intro byteLength_ascii) (auto dest: in_set_takeD)
    ultimately show ?thesis by simp
  qed (rule safe)
  have blk: "byteLength (take cut html) \<le> maxBytes"
    if e: "match_ends blockClosePattern html = e # es" "0 < e" "byteLength (take e html) \<le> maxBytes" for e es
  proof (cases "safeCut = 0")
    case True
    obtain fs where "fitting = e # fs" using e by (simp add: fitting_def)
    with True have z: "last fitting = 0" "fitting \<noteq> []" by (auto simp: safeCut_def split: if_splits)
    have cut_all: "0 < x" if "x \<in> set (match_ends_from r n off s)" "0 < off" for x r n off s
      using that
    proof (induction n arbitrary: off s)
      case (Suc n)
      then show ?case by (auto simp: Let_def split: option.splits)
    qed simp
    have "0 < x" if "x \<in> set fitting" for x
    proof -
      from that have "x \<in> set (match_ends blockClosePattern html)"
        unfolding fitting_def by (rule set_takeWhileD [THEN conjunct1])
      moreover obtain k where k: "length html = Suc k"
        using False by (cases "length html") (auto simp: byteLength_def)
      moreover from e(1) k obtain p t c q where s: "search blockClosePattern html = Some (p, t, c, q)"
          "e = length p + length t" "es = match_ends_from blockClosePattern k e q"
        by (auto simp: match_ends_def Let_def split: option.splits)
      ultimately have "x = e \<or> x \<in> set (match_ends_from blockClosePattern k e q)" using e(1) by auto
      with cut_all e(2) show ?thesis by blast
    qed
    with z show ?thesis using last_in_set by (metis less_irrefl)
  qed (rule safe)
  show ?thesis using False ascii blk unfolding t by (auto simp: take_is_prefix)
qed

lemma truncateHtml_fits_witness:
  "byteLength (fst (truncateHtml ''<b>a</P>cd'' 9)) \<le> 9
   \<and> truncateHtml ''<b>a</P>cd'' 9 = (''<b>a</P>'', True)"
proof -
  have e: "truncateHtml ''<b>a</P>cd'' 9 = (''<b>a</P>'', True)" by code_simp
  have a: "\<forall>c\<in>set ''<b>a</P>cd''. (of_char c :: nat) < 128" by simp
  from truncateHtml_fits [of "''<b>a</P>cd''" 9] a e show ?thesis by simp
qed

text \<open>
  The fallback does not keep the markup it cuts at: when no block-level tag closes within the
  budget the code looks for the last \<open>>\<close> and cuts just before it, so the tag that the \<open>>\<close> closed is
  left open at the end of the stored body.
\<close>

theorem truncateHtml_fallback_opens_tag:
  "truncateHtml ''a<b>cde'' 5 = (''a<b'', True)"
  by code_simp

section \<open>What the classifier reads\<close>

definition stylePattern :: "str \<Rightarrow> re" where
  "stylePattern name =
     foldr Seq [lit_i (''<'' @ name), Star True (Cls (\<lambda>c. \<not> is_close c)), lit ''>'', Star False (Cls (\<lambda>_. True))]
       (lit_i (''</'' @ name @ ''>''))"

definition spacesPattern :: re where
  "spacesPattern = Seq (Cls is_space) (plus_re (Cls is_space))"

definition stripHtmlForClassifier :: "str \<Rightarrow> str" where
  "stripHtmlForClassifier html =
     trim (replace_all spacesPattern (\<lambda>_ _. '' '')
       (replace_all tagPattern (\<lambda>_ _. '' '')
         (replace_all (stylePattern ''script'') (\<lambda>_ _. [])
           (replace_all (stylePattern ''style'') (\<lambda>_ _. []) html))))"

text \<open>\<open>/<html[^>]*\slang=["']([^"']+)["']/i\<close>\<close>

definition htmlLangPattern :: re where
  "htmlLangPattern =
     foldr Seq [lit_i ''<html'', Star True (Cls (\<lambda>c. \<not> is_close c)), Cls is_space, lit_i ''lang='', Cls is_quote,
        Cap 1 (plus_re (Cls (\<lambda>c. \<not> is_quote c)))] (Cls is_quote)"

definition RELEVANT_HEADERS :: "str set" where
  "RELEVANT_HEADERS = {''content-language''}"

definition classificationHeaders :: "headers \<Rightarrow> str option \<Rightarrow> headers" where
  "classificationHeaders hs htmlBody =
     filter (\<lambda>(k, v). to_lower k \<in> RELEVANT_HEADERS) hs @
     (case htmlBody of
        None \<Rightarrow> []
      | Some html \<Rightarrow>
          (case exec_group htmlLangPattern 1 html of
             Some l \<Rightarrow> if html = [] then [] else [(''x-html-lang'', l)]
           | None \<Rightarrow> []))"

lemma html_lang_example:
  "classificationHeaders [(''subject'', ''x''), (''Content-Language'', ''de'')]
     (Some ''<HTML lang=\"fr\">'') =
   [(''Content-Language'', ''de''), (''x-html-lang'', ''fr'')]"
  by code_simp

lemma strip_example:
  "stripHtmlForClassifier ''<p>a  <b>c'' = ''a c''"
  by code_simp

section \<open>Forwarding headers\<close>

definition addrPattern :: re where
  "addrPattern =
     (let w = Cls (\<lambda>c. \<not> is_space c \<and> c \<noteq> CHR '','' \<and> c \<noteq> CHR '';'')
      in Cap 1 (Seq (plus_re w) (Seq (lit ''@'') (plus_re w))))"

definition extractForwardedAddress :: "headers \<Rightarrow> str option" where
  "extractForwardedAddress hs =
     (let lower = map_of (rev (map (\<lambda>(k, v). (to_lower k, v)) hs));
          raw = nullish_opt (lower ''x-forwarded-to'') (nullish_opt (lower ''x-original-to'') (lower ''resent-to''))
      in case raw of
           None \<Rightarrow> None
         | Some r \<Rightarrow>
             (if r = [] then None
              else map_option trim (nullish_opt (angle_match r) (exec_group addrPattern 1 r))))"

lemma forwarded_example:
  "extractForwardedAddress [(''X-Original-To'', ''see a@b.c, d@e.f'')] = Some ''a@b.c''"
  "extractForwardedAddress [(''resent-to'', ''N <n@x>''), (''X-Forwarded-To'', ''M <m@y>'')] = Some ''m@y''"
  by code_simp+

section \<open>Templates and auto-drafts\<close>

text \<open>\<open>/\{\{([^}]+)\}\}/g\<close>; the variables are the own properties of the code's object\<close>

definition placeholderPattern :: re where
  "placeholderPattern =
     foldr Seq [lit ''{{'', Cap 1 (plus_re (Cls (\<lambda>c. c \<noteq> CHR ''}'')))] (lit ''}}'')"

definition renderTemplate :: "str \<Rightarrow> (str \<times> str) list \<Rightarrow> str" where
  "renderTemplate text vars =
     replace_all placeholderPattern (\<lambda>_ c. nullish (map_of vars (trim (nullish (map_of c 1) []))) []) text"

lemma render_example:
  "renderTemplate ''Hi {{ sender.name }}{{x}}!'' [(''sender.name'', ''Ann'')] = ''Hi Ann!''"
  by code_simp

definition json_truthy :: "json \<Rightarrow> bool" where
  "json_truthy j =
     (case j of JUndefined \<Rightarrow> False | JNull \<Rightarrow> False | JBool b \<Rightarrow> b | JNum n \<Rightarrow> n \<noteq> 0 | JStr s \<Rightarrow> s \<noteq> [] | _ \<Rightarrow> True)"

text \<open>
  The template id keeps the JSON value found under \<open>templateId\<close>, which the code does not check to
  be a string; reading a property of \<open>null\<close> throws, which is the legacy format like a text that
  is not JSON.
\<close>

definition parseAutoDraftValue :: "(str \<Rightarrow> json option) \<Rightarrow> str \<Rightarrow> (json \<times> json) option" where
  "parseAutoDraftValue json_parse value =
     (case json_parse value of
        None \<Rightarrow> Some (JStr value, JBool False)
      | Some JNull \<Rightarrow> Some (JStr value, JBool False)
      | Some (JObj o') \<Rightarrow>
          (if \<not> json_truthy (jfield o' ''templateId'') then None
           else Some (jfield o' ''templateId'',
                      (case jfield o' ''autoSend'' of
                         JUndefined \<Rightarrow> JBool False | JNull \<Rightarrow> JBool False | j \<Rightarrow> j)))
      | Some _ \<Rightarrow> None)"

end
