(* ===== verification/Retention.thy ===== *)
theory Retention
  imports Types
begin

text \<open>
  How long things are kept: retention durations of records and of the extracted content
  (\<open>retention.ts\<close>), the plan tiers of the stored mail (\<open>embedding/retention-tier.ts\<close>), what the
  S3 service does for a plan (\<open>embedding/s3-retention-service.ts\<close>) and the features of a plan
  (\<open>billing/billing-handler.ts\<close>).

  \<open>isoSeconds\<close> stands for luxon: the whole seconds of an ISO 8601 duration, \<open>None\<close> when it does
  not parse. \<open>dateSeconds\<close> is the epoch second of a timestamp, \<open>age_ms\<close> an age in milliseconds.
\<close>

section \<open>Durations\<close>

definition durationToSeconds :: "(str \<Rightarrow> int option) \<Rightarrow> str \<Rightarrow> int option" where
  "durationToSeconds isoSeconds duration =
     (if duration = ''Infinity'' then None else isoSeconds duration)"

definition retentionTtl :: "(str \<Rightarrow> int option) \<Rightarrow> (str \<Rightarrow> int) \<Rightarrow> str option \<Rightarrow> str \<Rightarrow> int option" where
  "retentionTtl isoSeconds dateSeconds retentionDuration createdAt =
     (case retentionDuration of
        None \<Rightarrow> None
      | Some d \<Rightarrow> map_option (\<lambda>s. dateSeconds createdAt + s) (durationToSeconds isoSeconds d))"

datatype s3_retention_tag = Tag365 | Tag3650

definition retentionToS3Tag :: "(str \<Rightarrow> int option) \<Rightarrow> str \<Rightarrow> s3_retention_tag option" where
  "retentionToS3Tag isoSeconds duration =
     (if duration = ''Infinity'' then None
      else (case durationToSeconds isoSeconds duration of
              None \<Rightarrow> None
            | Some seconds \<Rightarrow>
                (let oneYear = 365 * 24 * 60 * 60; tenYears = 10 * oneYear
                 in if seconds \<le> oneYear then Some Tag365
                    else if seconds \<le> tenYears then Some Tag3650
                    else None)))"

text \<open>The three arguments are the account's duration, the alias's (absent without an alias
  configuration) and the rule's; an empty string is falsy.\<close>

definition resolveRetention :: "str option \<Rightarrow> str option \<Rightarrow> str option \<Rightarrow> str" where
  "resolveRetention account alias_duration ruleOverride =
     (if truthy ruleOverride then the ruleOverride
      else if truthy alias_duration then the alias_duration
      else if truthy account then the account
      else ''P3M'')"

definition tag_seconds :: "s3_retention_tag \<Rightarrow> int" where
  "tag_seconds t = (case t of Tag365 \<Rightarrow> 365 * 86400 | Tag3650 \<Rightarrow> 3650 * 86400)"

text \<open>
  Extracted content is never expired before the record that refers to it: when a record
  created at \<open>c\<close> has an expiry, the lifecycle tag of its duration, counted from \<open>c\<close>, does not fire
  earlier, and a record that lives forever gets content that lives forever.
\<close>

theorem content_outlives_record:
  "case retentionTtl isoSeconds dateSeconds (Some d) c of
     None \<Rightarrow> retentionToS3Tag isoSeconds d = None
   | Some ttl \<Rightarrow>
       (case retentionToS3Tag isoSeconds d of
          None \<Rightarrow> ttl > dateSeconds c + tag_seconds Tag3650
        | Some t \<Rightarrow> ttl \<le> dateSeconds c + tag_seconds t)"
  by (auto simp: retentionTtl_def retentionToS3Tag_def durationToSeconds_def tag_seconds_def Let_def
      split: option.splits if_splits)

lemma resolveRetention_nonempty: "resolveRetention a b c \<noteq> []"
  by (auto simp: resolveRetention_def truthy_def split: option.splits)

section \<open>Plan tiers\<close>

datatype retention_tier = P1Y | P5Y | P1000Y

fun tierIndex :: "retention_tier \<Rightarrow> nat" where
  "tierIndex P1Y = 0"
| "tierIndex P5Y = 1"
| "tierIndex P1000Y = 2"

text \<open>Tiers are ordered by how long they keep.\<close>

instantiation retention_tier :: linorder
begin

definition less_eq_retention_tier :: "retention_tier \<Rightarrow> retention_tier \<Rightarrow> bool" where
  "less_eq_retention_tier a b \<longleftrightarrow> tierIndex a \<le> tierIndex b"

definition less_retention_tier :: "retention_tier \<Rightarrow> retention_tier \<Rightarrow> bool" where
  "less_retention_tier a b \<longleftrightarrow> tierIndex a < tierIndex b"

instance
proof
  fix x y :: retention_tier
  show "x \<le> y \<Longrightarrow> y \<le> x \<Longrightarrow> x = y"
    by (cases x; cases y) (simp_all add: less_eq_retention_tier_def)
qed (auto simp: less_eq_retention_tier_def less_retention_tier_def)

end

record retention_for_plan =
  rp_s3Tag :: "str option"
  rp_retentionDuration :: retention_tier
  rp_copyToSaved :: bool

definition RETENTION_TAG_P1Y :: str where "RETENTION_TAG_P1Y = ''retention-tier=P1Y''"
definition PREFIX_EMAILS :: str where "PREFIX_EMAILS = ''emails/''"
definition PREFIX_SAVED :: str where "PREFIX_SAVED = ''saved/''"
definition LIFECYCLE_EXPIRY_DAYS :: int where "LIFECYCLE_EXPIRY_DAYS = 1825"

fun getRetentionForPlan :: "billing_plan \<Rightarrow> retention_for_plan" where
  "getRetentionForPlan plan =
     (if plan \<in> {Trial, Free, Beta} then
        \<lparr>rp_s3Tag = Some RETENTION_TAG_P1Y, rp_retentionDuration = P1Y, rp_copyToSaved = False\<rparr>
      else if plan \<in> {Paid, Lifetime} then
        \<lparr>rp_s3Tag = None, rp_retentionDuration = P5Y, rp_copyToSaved = False\<rparr>
      else
        \<lparr>rp_s3Tag = None, rp_retentionDuration = P1000Y, rp_copyToSaved = True\<rparr>)"

fun getUserDisplayedRetention :: "retention_tier \<Rightarrow> str" where
  "getUserDisplayedRetention P1Y = ''1 year''"
| "getUserDisplayedRetention P5Y = ''5 years''"
| "getUserDisplayedRetention P1000Y = ''forever''"

fun PLAN_MAX_TIER :: "billing_plan \<Rightarrow> retention_tier" where
  "PLAN_MAX_TIER Trial = P1Y"
| "PLAN_MAX_TIER Free = P1Y"
| "PLAN_MAX_TIER Beta = P1Y"
| "PLAN_MAX_TIER Paid = P5Y"
| "PLAN_MAX_TIER Lifetime = P5Y"
| "PLAN_MAX_TIER Premium = P1000Y"
| "PLAN_MAX_TIER Internal = P1000Y"
| "PLAN_MAX_TIER Enterprise = P1000Y"

definition isWithinPlanLimit :: "retention_tier \<Rightarrow> billing_plan \<Rightarrow> bool" where
  "isWithinPlanLimit requested plan \<longleftrightarrow> tierIndex requested \<le> tierIndex (PLAN_MAX_TIER plan)"

definition toSavedKey :: "str \<Rightarrow> str" where
  "toSavedKey s3Key =
     (let objectName = (if starts_with s3Key PREFIX_EMAILS then drop (length PREFIX_EMAILS) s3Key else s3Key)
      in PREFIX_SAVED @ objectName)"

definition effectiveEmailKey :: "str \<Rightarrow> int \<Rightarrow> str" where
  "effectiveEmailKey s3Key age_ms =
     (if age_ms > LIFECYCLE_EXPIRY_DAYS * 86400000 then toSavedKey s3Key else s3Key)"

text \<open>The two tables of the code agree: a plan may request exactly the tiers up to its own.\<close>

lemma isWithinPlanLimit_iff:
  "isWithinPlanLimit d plan \<longleftrightarrow> d \<le> rp_retentionDuration (getRetentionForPlan plan)"
  by (cases plan; cases d) (simp_all add: isWithinPlanLimit_def less_eq_retention_tier_def)

section \<open>What the S3 service does\<close>

datatype s3_op =
    PutObjectTagging str str str
  | CopyObject str str

text \<open>\<open>applyPlanRetention\<close>: the requests it makes, and the key it returns\<close>

definition applyPlanRetention :: "str \<Rightarrow> str option \<Rightarrow> bool \<Rightarrow> s3_op list \<times> str" where
  "applyPlanRetention s3Key s3Tag copyToSaved =
     (case s3Tag of
        Some t \<Rightarrow> ([PutObjectTagging s3Key (split_on (CHR ''='') t ! 0) (split_on (CHR ''='') t ! 1)], s3Key)
      | None \<Rightarrow> (if copyToSaved then ([CopyObject s3Key (toSavedKey s3Key)], s3Key) else ([], s3Key)))"

text \<open>
  Mail of a plan is readable for as long as the plan promises: whatever the age, the key a
  reader resolves is the stored object while the lifecycle rule keeps it (at most 1825 days), and
  after that the copy which the S3 service made, for exactly the plans that promise more than five
  years; the key stored with the signal is never rewritten, and only one-year plans are tagged.
\<close>

theorem plan_mail_readable:
  "let r = getRetentionForPlan plan;
       (ops, stored) = applyPlanRetention key (rp_s3Tag r) (rp_copyToSaved r)
   in stored = key
      \<and> (age_ms \<le> 1825 * 86400000 \<longrightarrow> effectiveEmailKey stored age_ms = key)
      \<and> (age_ms > 1825 * 86400000 \<longrightarrow>
           (CopyObject key (effectiveEmailKey stored age_ms) \<in> set ops
              \<longleftrightarrow> rp_retentionDuration r > P5Y))
      \<and> ((\<exists>k v. PutObjectTagging key k v \<in> set ops) \<longleftrightarrow> rp_retentionDuration r = P1Y)
      \<and> (\<forall>k v. PutObjectTagging key k v \<in> set ops \<longrightarrow> k = ''retention-tier'' \<and> v = ''P1Y'')"
  by (cases plan)
     (simp_all add: applyPlanRetention_def effectiveEmailKey_def LIFECYCLE_EXPIRY_DAYS_def
        RETENTION_TAG_P1Y_def less_retention_tier_def)

lemma plan_mail_readable_witness:
  "CopyObject ''emails/x'' (effectiveEmailKey ''emails/x'' (2000 * 86400000))
     \<in> set (fst (applyPlanRetention ''emails/x'' None True))
   \<and> effectiveEmailKey ''emails/x'' (2000 * 86400000) = ''saved/x''"
  using plan_mail_readable [of Premium "''emails/x''" "2000 * 86400000"]
  by (simp add: less_retention_tier_def Let_def applyPlanRetention_def effectiveEmailKey_def
      LIFECYCLE_EXPIRY_DAYS_def toSavedKey_def starts_with_def PREFIX_EMAILS_def PREFIX_SAVED_def)

section \<open>Features of a plan\<close>

datatype feature = Webhook

fun isFeatureEnabled :: "billing_plan \<Rightarrow> feature \<Rightarrow> bool" where
  "isFeatureEnabled Trial f = False"
| "isFeatureEnabled Free f = False"
| "isFeatureEnabled Beta f = (f = Webhook)"
| "isFeatureEnabled Paid f = (f = Webhook)"
| "isFeatureEnabled Lifetime f = (f = Webhook)"
| "isFeatureEnabled Premium f = (f = Webhook)"
| "isFeatureEnabled Internal f = (f = Webhook)"
| "isFeatureEnabled Enterprise f = (f = Webhook)"

end
