(* ===== verification/Services.thy ===== *)
theory Services
  imports Types Programs MailText
begin

text \<open>
  The services the processors call, as records of oracles: DynamoDB tables
  (\<open>database/thread-database.ts\<close>, \<open>database/account-database.ts\<close>,
  \<open>database/processing-database.ts\<close>, \<open>resource/resource-database.ts\<close>), the isolated sanitizer and
  user code, the classifier, embeddings and Aurora, notifications, mail, queues and the scheduler.
  Every answer may depend on the history, so a table may change between two reads; what is known
  of a service is only what the history says it was asked to do.

  A call that changes something appends an event with its arguments and whether it succeeded; any
  other call appends \<open>Read\<close> with its name.
\<close>

section \<open>Data exchanged with the services\<close>

record parsed_mime =
  pm_from :: email_address
  pm_to :: "email_address list"
  pm_cc :: "email_address list"
  pm_replyTo :: "email_address option"
  pm_subject :: str
  pm_textBody :: "str option"
  pm_htmlBody :: "str option"
  pm_attachments :: "attachment list"
  pm_headers :: headers
  pm_sentAt :: "str option"
  pm_inlineImages :: "inline_image_ref list option"

record extracted_asset =
  ea_type :: asset_type
  ea_label :: str
  ea_rawValue :: str
  ea_s3Key :: "str option"

record sanitized =
  sz_parsed :: parsed_mime
  sz_assets :: "extracted_asset list option"
  sz_links :: "(str \<times> str option) list option"
  sz_bounce :: "bounce_info option"

record classification_output =
  cl_workflow :: str
  cl_workflowData :: jobj
  cl_tags :: "str list"
  cl_summary :: str
  cl_labels :: "str list"
  cl_actions :: "signal_action list"

record classify_request =
  cr_from :: str
  cr_to :: "str list"
  cr_subject :: str
  cr_body :: str
  cr_headers :: headers
  cr_receivedAt :: str
  cr_allowedLabels :: "str list"
  cr_labelInstructions :: "(str \<times> str) list"
  cr_links :: "(str \<times> str option) list"
  cr_signalId :: str
  cr_accountId :: str
  cr_timezone :: str
  cr_ambiguousDateFormat :: ambiguous_date_format

record threaded_ref =
  tr_id :: str
  tr_signalLookupId :: str
  tr_threadId :: "str option"
  tr_source :: signal_source
  tr_type :: signal_type

record update_thread_fields =
  uf_urgency :: "str option"
  uf_labels :: "str list option"
  uf_summary :: "str option"
  uf_workflow :: "str option"
  uf_retentionDuration :: "str option"
  uf_sentMessageIds :: "str list option"
  uf_sender :: "email_address option"
  uf_recipientAddress :: "str option"
  uf_subject :: "str option"
  uf_followupAt :: "str option"

text \<open>An update of a signal's send state; \<open>su_sendInitiatedAt = Some None\<close> is an explicit \<open>null\<close>\<close>

record send_status_update =
  ss_status :: signal_status
  ss_sendInitiatedAt :: "str option option"
  ss_sentAt :: "str option"
  ss_sesMessageId :: "str option"
  ss_sendFailureReason :: "str option"
  ss_gsi3pk :: "str option"
  ss_threadId :: "str option"

datatype stats_metric = MAllowed | MBlocked | MQuarantined | MReported | MTotalAliases

record save_resource_params =
  sv_accountId :: str
  sv_threadId :: str
  sv_workflow :: str
  sv_resourceKey :: str
  sv_expectedResolutionDate :: str
  sv_displayDate :: "str option"
  sv_displayDateEnd :: "str option"
  sv_title :: "str option"
  sv_description :: "str option"
  sv_ttl :: "int option"
  sv_assets :: "resource_asset list option"

record upsert_embedding =
  ue_registryId :: str
  ue_threadId :: str
  ue_accountId :: str
  ue_recipientAddress :: str
  ue_embedding :: embedding
  ue_signalId :: str
  ue_retentionDuration :: "str option"
  ue_createdAt :: str

datatype send_type = StPong | StDraftSend | StReply

record send_reply =
  sp_sendType :: send_type
  sp_to :: "email_address list"
  sp_cc :: "email_address list"
  sp_bcc :: "email_address list"
  sp_from :: email_address
  sp_subject :: str
  sp_body :: str
  sp_attachments :: "(str \<times> str \<times> str) list"
  sp_inReplyTo :: "str option"
  sp_accountId :: str
  sp_signalId :: str
  sp_threadId :: str
  sp_hopCount :: "int option"
  sp_autoSubmitted :: bool
  sp_allowFallback :: bool

datatype send_error =
    TransientSes | PermanentSes str | ProviderRejected str | ProviderScopeMissing
  | ProviderOther | SendDb app_error | LoopGuard int | Unsendable str | InvalidArgument

record draft_send_payload =
  dp_signalId :: str
  dp_accountId :: str
  dp_threadId :: str
  dp_sendInitiatedAt :: str

record user_code_error =
  uc_errorType :: str
  uc_message :: str

section \<open>Events\<close>

datatype event =
    Read str
  | Clock
  | FreshId
  | SaveSignal any_signal bool
  | SaveCalendarEventSignal "calendar_event_data signal" bool
  | CreateThread thread bool
  | UpdateThread str str thread_status str update_thread_fields bool
  | SetThreadTtlFallback str str int bool
  | UpdateSignalSendStatus str str send_status_update bool
  | IncrementStat str stats_metric int str bool
  | EnsureAlias str str unknown_sender_policy bool
  | SaveSender str str str sender_policy bool
  | UpdateOnboarding str account_onboarding bool
  | AnnotateRuleError str str str bool
  | AnnotateTemplateError str str str str bool
  | DisableRulesForwardingTo str str bool
  | SuppressAddress suppressed_address bool
  | UpdateGlobalReputation str signal_status bool
  | SaveResource save_resource_params bool
  | SetResourceStatus str str str resource_status bool
  | UpsertEmbedding upsert_embedding bool
  | DeleteEmbeddings str str bool
  | Sanitize str bool
  | Classify classify_request bool
  | Embed str bool
  | UserCode str str bool
  | NotifySignal str "str option" any_signal str bool
  | ForwardSignal str str bool
  | ApplyRetention str "str option" bool bool
  | SendReply send_reply bool
  | DispatchSideEffects email_signal thread bool bool
  | DispatchDraftSend draft_send_payload nat bool
  | WorkflowDispatch str str bool
  | ForwardInvite str str bool
  | ScheduleFollowup str str str str str bool
  | ScheduleRsvpReminder str str str str str bool
  | SaveIcs str str bool

type_synonym 'a io = "(event, 'a) prog"
type_synonym 'a result = "app_error + 'a"
type_synonym 'a answer = "event list \<Rightarrow> 'a result outcome"

definition succeeded :: "('e + 'a) outcome \<Rightarrow> bool" where
  "succeeded r = (case r of Done (Inr _) \<Rightarrow> True | _ \<Rightarrow> False)"

definition returned :: "'a outcome \<Rightarrow> bool" where
  "returned r = (case r of Done _ \<Rightarrow> True | Threw _ \<Rightarrow> False)"

lemma succeeded_simps [simp]:
  "succeeded (Done (Inr x))" "\<not> succeeded (Done (Inl e))" "\<not> succeeded (Threw t)"
  by (simp_all add: succeeded_def)

lemma succeededE: assumes "succeeded r" obtains x where "r = Done (Inr x)"
  using assms by (auto simp: succeeded_def split: outcome.splits sum.splits)

definition call_read :: "str \<Rightarrow> (event list \<Rightarrow> 'a outcome) \<Rightarrow> 'a io" where
  "call_read m svc = call svc (\<lambda>_. Read m)"

definition call_write :: "(bool \<Rightarrow> event) \<Rightarrow> (event list \<Rightarrow> ('e + 'a) outcome) \<Rightarrow> ('e + 'a) io" where
  "call_write ev svc = call svc (\<lambda>r. ev (succeeded r))"

lemma emits_read [trace_intros]: "P (Read m) \<Longrightarrow> emits (call_read m svc) P"
  unfolding call_read_def by (intro trace_intros)

lemma emits_write [trace_intros]: "(\<And>b. P (ev b)) \<Longrightarrow> emits (call_write ev svc) P"
  unfolding call_write_def by (intro trace_intros)

lemma spec_read: "(\<And>r. Q r [Read m]) \<Longrightarrow> spec (call_read m svc) Q"
  unfolding call_read_def by (rule spec_call)

lemma spec_write: "(\<And>r. Q r [ev (succeeded r)]) \<Longrightarrow> spec (call_write ev svc) Q"
  unfolding call_write_def by (rule spec_call)

text \<open>The events that change nothing outside\<close>

fun is_read :: "event \<Rightarrow> bool" where
  "is_read (Read _) = True"
| "is_read Clock = True"
| "is_read FreshId = True"
| "is_read (Sanitize _ _) = True"
| "is_read (Classify _ _) = True"
| "is_read (Embed _ _) = True"
| "is_read (UserCode _ _ _) = True"
| "is_read _ = False"

section \<open>The services\<close>

record thread_db =
  getSignalByMessageId :: "str \<Rightarrow> str \<Rightarrow> email_signal option answer"
  getSignalById :: "str \<Rightarrow> str \<Rightarrow> str \<Rightarrow> any_signal option answer"
  getThread :: "str \<Rightarrow> str \<Rightarrow> thread option answer"
  svcSaveSignal :: "any_signal \<Rightarrow> unit answer"
  svcSaveCalendarEventSignal :: "calendar_event_data signal \<Rightarrow> unit answer"
  svcCreateThread :: "thread \<Rightarrow> unit answer"
  svcUpdateThread :: "str \<Rightarrow> str \<Rightarrow> thread_status \<Rightarrow> str \<Rightarrow> update_thread_fields \<Rightarrow> unit answer"
  findThreadByGroupingKey :: "str \<Rightarrow> str \<Rightarrow> thread option answer"
  findSignalByEmailMessageId :: "str \<Rightarrow> threaded_ref option answer"
  listSignals :: "str \<Rightarrow> str \<Rightarrow> nat \<Rightarrow> any_signal list answer"
  svcSetThreadTtlFallback :: "str \<Rightarrow> str \<Rightarrow> int \<Rightarrow> unit answer"
  listActiveThreads :: "str \<Rightarrow> nat \<Rightarrow> thread list answer"
  getLinkedCalendarSignal :: "str \<Rightarrow> str \<Rightarrow> str \<Rightarrow> calendar_event_data signal option answer"
  svcUpdateSignalSendStatus :: "str \<Rightarrow> str \<Rightarrow> send_status_update \<Rightarrow> unit answer"

record account_db =
  getAliasByGlobalAddress :: "str \<Rightarrow> alias_rec option answer"
  getDomainOwner :: "str \<Rightarrow> domain_rec option answer"
  getAccount :: "str \<Rightarrow> account option answer"
  svcEnsureAlias :: "str \<Rightarrow> str \<Rightarrow> unknown_sender_policy \<Rightarrow> bool answer"
  svcIncrementStat :: "str \<Rightarrow> stats_metric \<Rightarrow> int \<Rightarrow> str \<Rightarrow> unit answer"
  getSender :: "str \<Rightarrow> str \<Rightarrow> str \<Rightarrow> alias_sender option answer"
  svcSaveSender :: "str \<Rightarrow> str \<Rightarrow> str \<Rightarrow> sender_policy \<Rightarrow> unit answer"
  listLabels :: "str \<Rightarrow> label_rec list answer"
  listEnabledRules :: "str \<Rightarrow> rule list answer"
  listDomains :: "str \<Rightarrow> domain_rec list answer"
  svcUpdateOnboarding :: "str \<Rightarrow> account_onboarding \<Rightarrow> unit answer"
  getDomainByName :: "str \<Rightarrow> str \<Rightarrow> domain_rec option answer"
  getTemplate :: "str \<Rightarrow> json \<Rightarrow> email_template option answer"
  svcAnnotateRuleError :: "str \<Rightarrow> str \<Rightarrow> str \<Rightarrow> unit answer"
  svcAnnotateTemplateError :: "str \<Rightarrow> str \<Rightarrow> str \<Rightarrow> str \<Rightarrow> unit answer"
  svcDisableRulesForwardingTo :: "str \<Rightarrow> str \<Rightarrow> str list answer"
  listUsers :: "str \<Rightarrow> str list answer"
  getUserProfileEmail :: "str \<Rightarrow> str option answer"

record infra =
  utcNow :: "event list \<Rightarrow> str"
  nowSeconds :: "event list \<Rightarrow> int"
  freshUuid :: "event list \<Rightarrow> str"
  svcSetResourceStatus :: "str \<Rightarrow> str \<Rightarrow> str \<Rightarrow> resource_status \<Rightarrow> resource option answer"
  getResource :: "str \<Rightarrow> str \<Rightarrow> str \<Rightarrow> resource option answer"
  listResourcesByThread :: "str \<Rightarrow> str \<Rightarrow> resource list answer"
  svcSuppressAddress :: "suppressed_address \<Rightarrow> nat answer"
  svcUpdateGlobalReputation :: "str \<Rightarrow> signal_status \<Rightarrow> unit answer"
  svcSaveResource :: "save_resource_params \<Rightarrow> unit answer"
  presign :: "str \<Rightarrow> str \<Rightarrow> event list \<Rightarrow> unit outcome"
  svcSanitize :: "str \<Rightarrow> str \<Rightarrow> sanitized answer"
  svcClassify :: "classify_request \<Rightarrow> classification_output answer"
  generateForModel :: "str \<Rightarrow> str \<Rightarrow> (str \<times> embedding) answer"
  generateForSecondaryClusters :: "str \<Rightarrow> event list \<Rightarrow> (app_error + str \<times> embedding) list outcome"
  findMatch :: "str \<Rightarrow> str \<Rightarrow> embedding \<Rightarrow> thread option answer"
  svcUpsertEmbedding :: "upsert_embedding \<Rightarrow> unit answer"
  svcDeleteEmbeddings :: "str \<Rightarrow> str \<Rightarrow> unit answer"
  getContent :: "str \<Rightarrow> event list \<Rightarrow> str outcome"
  svcSaveIcs :: "str \<Rightarrow> str \<Rightarrow> event list \<Rightarrow> unit outcome"

record delivery =
  svcUserCode :: "str \<Rightarrow> str \<Rightarrow> str \<Rightarrow> json \<Rightarrow> event list \<Rightarrow> (user_code_error + json) outcome"
  svcNotifySignal :: "str \<Rightarrow> thread option \<Rightarrow> any_signal \<Rightarrow> str \<Rightarrow> unit answer"
  svcForward :: "str \<Rightarrow> email_signal \<Rightarrow> thread \<Rightarrow> unit answer"
  svcApplyRetention :: "str \<Rightarrow> str option \<Rightarrow> bool \<Rightarrow> event list \<Rightarrow> unit outcome"
  svcSendReply :: "send_reply \<Rightarrow> event list \<Rightarrow> (send_error + str \<times> str option) outcome"
  svcSendMessage :: "email_signal \<Rightarrow> thread \<Rightarrow> bool \<Rightarrow> unit answer"
  svcDispatchDraft :: "draft_send_payload \<Rightarrow> nat \<Rightarrow> unit answer"
  workflowHandlers :: "(str \<times> (email_signal \<Rightarrow> thread \<Rightarrow> str \<Rightarrow> unit answer)) list"
  svcForwardInvite :: "calendar_event_data signal \<Rightarrow> str \<Rightarrow> str \<Rightarrow> str \<Rightarrow> str \<Rightarrow> unit answer"
  svcScheduleFollowup :: "str \<Rightarrow> str \<Rightarrow> str \<Rightarrow> str \<Rightarrow> str \<Rightarrow> unit answer"
  svcScheduleRsvp :: "str \<Rightarrow> str \<Rightarrow> str \<Rightarrow> str \<Rightarrow> str \<Rightarrow> unit answer"

text \<open>
  The libraries the code imports (\<open>tldts\<close>, \<open>luxon\<close>, \<open>json-logic-js\<close> and QuickJS, \<open>ical.js\<close>,
  \<open>short-uuid\<close>, Node's \<open>crypto\<close> and URL parser), as pure functions.
\<close>

record libs =
  getDomain :: "str \<Rightarrow> str option"
  url_protocol :: "str \<Rightarrow> str option"
  json_parse :: "str \<Rightarrow> json option"
  evalCondition :: "str \<Rightarrow> json \<Rightarrow> bool outcome"
  isoSeconds :: "str \<Rightarrow> int option"
  dateSeconds :: "str \<Rightarrow> int"
  dateTime :: "str \<Rightarrow> int option"
  dayAtEight :: "int \<Rightarrow> str"
  dayStamp :: "int \<Rightarrow> str"
  isoOfInstant :: "int \<Rightarrow> str"
  sha256hex :: "str \<Rightarrow> str"
  fromUUID :: "str \<Rightarrow> str"
  parseIcs :: "str \<Rightarrow> str + calendar_event_data list"

record env =
  tdb :: thread_db
  adb :: account_db
  inf :: infra
  dlv :: delivery
  lib :: libs

end
