(* ===== verification/Store.thy ===== *)
theory Store
  imports Services Ids
begin

text \<open>
  The calls of the services as programs: each writes one event. A definition here has the name
  of the method the code calls; its arguments are the method's, after the environment.
\<close>

definition now_iso :: "env \<Rightarrow> str io" where
  "now_iso e = call (\<lambda>h. Done (utcNow (inf e) h)) (\<lambda>_. Clock)"

definition now_seconds :: "env \<Rightarrow> int io" where
  "now_seconds e = call (\<lambda>h. Done (nowSeconds (inf e) h)) (\<lambda>_. Clock)"

text \<open>\<open>generateId("sgn-")\<close>\<close>

definition new_signal_id :: "env \<Rightarrow> str io" where
  "new_signal_id e =
     call (\<lambda>h. Done (generateId (sha256hex (lib e)) (fromUUID (lib e)) (freshUuid (inf e) h) ''sgn-''))
       (\<lambda>_. FreshId)"

section \<open>Threads and signals\<close>

definition saveSignal :: "env \<Rightarrow> any_signal \<Rightarrow> unit result io" where
  "saveSignal e s = call_write (SaveSignal s) (svcSaveSignal (tdb e) s)"

definition saveCalendarEventSignal :: "env \<Rightarrow> calendar_event_data signal \<Rightarrow> unit result io" where
  "saveCalendarEventSignal e s = call_write (SaveCalendarEventSignal s) (svcSaveCalendarEventSignal (tdb e) s)"

definition createThread :: "env \<Rightarrow> thread \<Rightarrow> unit result io" where
  "createThread e t = call_write (CreateThread t) (svcCreateThread (tdb e) t)"

definition updateThread ::
  "env \<Rightarrow> str \<Rightarrow> str \<Rightarrow> thread_status \<Rightarrow> str \<Rightarrow> update_thread_fields \<Rightarrow> unit result io" where
  "updateThread e a t st lastAt fs =
     call_write (UpdateThread a t st lastAt fs) (svcUpdateThread (tdb e) a t st lastAt fs)"

definition setThreadTtlFallback :: "env \<Rightarrow> str \<Rightarrow> str \<Rightarrow> int \<Rightarrow> unit result io" where
  "setThreadTtlFallback e a t ttl = call_write (SetThreadTtlFallback a t ttl) (svcSetThreadTtlFallback (tdb e) a t ttl)"

definition updateSignalSendStatus :: "env \<Rightarrow> str \<Rightarrow> str \<Rightarrow> send_status_update \<Rightarrow> unit result io" where
  "updateSignalSendStatus e a i u =
     call_write (UpdateSignalSendStatus a i u) (svcUpdateSignalSendStatus (tdb e) a i u)"

section \<open>Accounts\<close>

definition ensureAlias :: "env \<Rightarrow> str \<Rightarrow> str \<Rightarrow> unknown_sender_policy \<Rightarrow> bool result io" where
  "ensureAlias e a addr p = call_write (EnsureAlias a addr p) (svcEnsureAlias (adb e) a addr p)"

definition incrementStatMetric :: "env \<Rightarrow> str \<Rightarrow> stats_metric \<Rightarrow> int \<Rightarrow> str \<Rightarrow> unit result io" where
  "incrementStatMetric e a m d k = call_write (IncrementStat a m d k) (svcIncrementStat (adb e) a m d k)"

definition saveSender :: "env \<Rightarrow> str \<Rightarrow> str \<Rightarrow> str \<Rightarrow> sender_policy \<Rightarrow> unit result io" where
  "saveSender e a addr d p = call_write (SaveSender a addr d p) (svcSaveSender (adb e) a addr d p)"

definition updateOnboarding :: "env \<Rightarrow> str \<Rightarrow> account_onboarding \<Rightarrow> unit result io" where
  "updateOnboarding e a ob = call_write (UpdateOnboarding a ob) (svcUpdateOnboarding (adb e) a ob)"

definition annotateRuleErrorDb :: "env \<Rightarrow> str \<Rightarrow> str \<Rightarrow> str \<Rightarrow> unit result io" where
  "annotateRuleErrorDb e a r m = call_write (AnnotateRuleError a r m) (svcAnnotateRuleError (adb e) a r m)"

definition annotateTemplateErrorDb :: "env \<Rightarrow> str \<Rightarrow> str \<Rightarrow> str \<Rightarrow> str \<Rightarrow> unit result io" where
  "annotateTemplateErrorDb e a t f m =
     call_write (AnnotateTemplateError a t f m) (svcAnnotateTemplateError (adb e) a t f m)"

definition disableRulesForwardingTo :: "env \<Rightarrow> str \<Rightarrow> str \<Rightarrow> str list result io" where
  "disableRulesForwardingTo e a addr =
     call_write (DisableRulesForwardingTo a addr) (svcDisableRulesForwardingTo (adb e) a addr)"

section \<open>Processing table, resources, content\<close>

definition suppressAddress :: "env \<Rightarrow> suppressed_address \<Rightarrow> nat result io" where
  "suppressAddress e s = call_write (SuppressAddress s) (svcSuppressAddress (inf e) s)"

definition updateGlobalReputation :: "env \<Rightarrow> str \<Rightarrow> signal_status \<Rightarrow> unit result io" where
  "updateGlobalReputation e d st = call_write (UpdateGlobalReputation d st) (svcUpdateGlobalReputation (inf e) d st)"

definition saveResource :: "env \<Rightarrow> save_resource_params \<Rightarrow> unit result io" where
  "saveResource e p = call_write (SaveResource p) (svcSaveResource (inf e) p)"

definition setResourceStatus :: "env \<Rightarrow> str \<Rightarrow> str \<Rightarrow> str \<Rightarrow> resource_status \<Rightarrow> resource option result io" where
  "setResourceStatus e a t sk st =
     call_write (SetResourceStatus a t sk st) (svcSetResourceStatus (inf e) a t sk st)"

definition sanitizeContent :: "env \<Rightarrow> str \<Rightarrow> str \<Rightarrow> sanitized result io" where
  "sanitizeContent e s3Key keyPrefix = call_write (Sanitize s3Key) (svcSanitize (inf e) s3Key keyPrefix)"

definition classifySignal :: "env \<Rightarrow> classify_request \<Rightarrow> classification_output result io" where
  "classifySignal e r = call_write (Classify r) (svcClassify (inf e) r)"

definition embedPrimary :: "env \<Rightarrow> str \<Rightarrow> str \<Rightarrow> (str \<times> embedding) result io" where
  "embedPrimary e text modelId = call_write (Embed modelId) (generateForModel (inf e) text modelId)"

definition upsertEmbedding :: "env \<Rightarrow> upsert_embedding \<Rightarrow> unit result io" where
  "upsertEmbedding e u = call_write (UpsertEmbedding u) (svcUpsertEmbedding (inf e) u)"

definition deleteEmbeddingsForThread :: "env \<Rightarrow> str \<Rightarrow> str \<Rightarrow> unit result io" where
  "deleteEmbeddingsForThread e a t = call_write (DeleteEmbeddings a t) (svcDeleteEmbeddings (inf e) a t)"

definition saveIcsContentAsCalendar :: "env \<Rightarrow> str \<Rightarrow> str \<Rightarrow> unit io" where
  "saveIcsContentAsCalendar e key content =
     call (svcSaveIcs (inf e) key content) (\<lambda>r. SaveIcs key content (returned r))"

section \<open>Delivery\<close>

definition invokeUserCode :: "env \<Rightarrow> str \<Rightarrow> str \<Rightarrow> str \<Rightarrow> json \<Rightarrow> (user_code_error + json) io" where
  "invokeUserCode e tenant purpose code ctx =
     call_write (UserCode tenant code) (svcUserCode (dlv e) tenant purpose code ctx)"

definition notifySignal :: "env \<Rightarrow> str \<Rightarrow> thread option \<Rightarrow> any_signal \<Rightarrow> str \<Rightarrow> unit result io" where
  "notifySignal e a t s urgency =
     call_write (NotifySignal a (map_option th_id t) s urgency) (svcNotifySignal (dlv e) a t s urgency)"

definition forwardSignal :: "env \<Rightarrow> str \<Rightarrow> email_signal \<Rightarrow> thread \<Rightarrow> unit result io" where
  "forwardSignal e to s t = call_write (ForwardSignal to (sg_id s)) (svcForward (dlv e) to s t)"

definition applyPlanRetentionSvc :: "env \<Rightarrow> str \<Rightarrow> str option \<Rightarrow> bool \<Rightarrow> unit io" where
  "applyPlanRetentionSvc e key tag cp =
     call (svcApplyRetention (dlv e) key tag cp) (\<lambda>r. ApplyRetention key tag cp (returned r))"

definition sendReply :: "env \<Rightarrow> send_reply \<Rightarrow> (send_error + str \<times> str option) io" where
  "sendReply e r = call_write (SendReply r) (svcSendReply (dlv e) r)"

definition sendSideEffectMessage :: "env \<Rightarrow> email_signal \<Rightarrow> thread \<Rightarrow> bool \<Rightarrow> unit result io" where
  "sendSideEffectMessage e s t skip =
     call_write (DispatchSideEffects s t skip) (svcSendMessage (dlv e) s t skip)"

definition dispatchDraftSend :: "env \<Rightarrow> draft_send_payload \<Rightarrow> nat \<Rightarrow> unit result io" where
  "dispatchDraftSend e p delay = call_write (DispatchDraftSend p delay) (svcDispatchDraft (dlv e) p delay)"

definition forwardInvite ::
  "env \<Rightarrow> calendar_event_data signal \<Rightarrow> str \<Rightarrow> str \<Rightarrow> str \<Rightarrow> str \<Rightarrow> unit result io" where
  "forwardInvite e s target a t alias_address =
     call_write (ForwardInvite (sg_id s) target) (svcForwardInvite (dlv e) s target a t alias_address)"

definition createFollowupSchedule :: "env \<Rightarrow> str \<Rightarrow> str \<Rightarrow> str \<Rightarrow> str \<Rightarrow> str \<Rightarrow> unit result io" where
  "createFollowupSchedule e a t key fireAt suf =
     call_write (ScheduleFollowup a t key fireAt suf) (svcScheduleFollowup (dlv e) a t key fireAt suf)"

definition createRsvpReminderSchedule :: "env \<Rightarrow> str \<Rightarrow> str \<Rightarrow> str \<Rightarrow> str \<Rightarrow> str \<Rightarrow> unit result io" where
  "createRsvpReminderSchedule e a t key fireAt suf =
     call_write (ScheduleRsvpReminder a t key fireAt suf) (svcScheduleRsvp (dlv e) a t key fireAt suf)"

text \<open>\<open>HandlerRegistry.dispatch\<close> (\<open>workflow/registry.ts\<close>): the handler of the thread's workflow, if
  one is registered; a later registration of a workflow replaces an earlier one.\<close>

definition dispatchWorkflow :: "env \<Rightarrow> email_signal \<Rightarrow> thread \<Rightarrow> str \<Rightarrow> unit result io" where
  "dispatchWorkflow e s t a =
     (case map_of (rev (workflowHandlers (dlv e))) (th_workflow t) of
        None \<Rightarrow> ret (Inr ())
      | Some handler \<Rightarrow> call_write (WorkflowDispatch (th_workflow t) (sg_id s)) (handler s t a))"

lemmas store_defs =
  now_iso_def now_seconds_def new_signal_id_def saveSignal_def saveCalendarEventSignal_def
  createThread_def updateThread_def setThreadTtlFallback_def updateSignalSendStatus_def
  ensureAlias_def incrementStatMetric_def saveSender_def updateOnboarding_def
  annotateRuleErrorDb_def annotateTemplateErrorDb_def disableRulesForwardingTo_def
  suppressAddress_def updateGlobalReputation_def saveResource_def setResourceStatus_def
  sanitizeContent_def classifySignal_def embedPrimary_def upsertEmbedding_def
  deleteEmbeddingsForThread_def saveIcsContentAsCalendar_def invokeUserCode_def notifySignal_def
  forwardSignal_def applyPlanRetentionSvc_def sendReply_def sendSideEffectMessage_def
  dispatchDraftSend_def forwardInvite_def createFollowupSchedule_def
  createRsvpReminderSchedule_def dispatchWorkflow_def

end
