(* ===== verification/Rules.thy ===== *)
theory Rules
  imports Store MailBody
begin

text \<open>
  User and system rules: the interpretation of what a rule's code returns
  (\<open>processor/interpret-rule-result.ts\<close>), the evaluator (\<open>processor/rule-evaluator.ts\<close>,
  \<open>processor/rule-context.ts\<close>), the loop over the rules and the outcome derived from their
  actions (\<open>applyRules\<close> and \<open>deriveOutcome\<close> of \<open>processor/incoming-email-processor.ts\<close>).

  \<open>zod_issue\<close> is the message the schema library gives for a rejected value; it only ends up in
  the text of a warning.
\<close>

section \<open>What a rule's code returns\<close>

definition RULE_ACTION_TYPES :: "(str \<times> rule_action_type) list" where
  "RULE_ACTION_TYPES =
     [(''assign_label'', RAssignLabel), (''assign_workflow'', RAssignWorkflow), (''archive'', RArchive),
      (''forward'', RForward), (''block_hidden'', RBlockHidden), (''block_reject'', RBlockReject),
      (''quarantine_visible'', RQuarantineVisible), (''quarantine_hidden'', RQuarantineHidden),
      (''set_urgency'', RSetUrgency), (''suppress_notification'', RSuppressNotification),
      (''approve_sender'', RApproveSender), (''auto_draft'', RAutoDraft),
      (''forwardCalendarInvite'', RForwardCalendarInvite)]"

text \<open>\<open>RuleActionSchema.safeParse\<close>: unknown fields are dropped, \<open>disabled\<close> must be a boolean\<close>

definition RuleActionSchema :: "json \<Rightarrow> rule_action option" where
  "RuleActionSchema j =
     (case j of
        JObj o' \<Rightarrow>
          (case jfield o' ''type'' of
             JStr t \<Rightarrow>
               (case map_of RULE_ACTION_TYPES t of
                  Some ty \<Rightarrow>
                    (if (case jfield o' ''disabled'' of JUndefined \<Rightarrow> True | JBool _ \<Rightarrow> True | _ \<Rightarrow> False)
                     then (case jfield o' ''value'' of
                             JUndefined \<Rightarrow> Some \<lparr>ra_type = ty, ra_value = None\<rparr>
                           | JStr v \<Rightarrow> Some \<lparr>ra_type = ty, ra_value = Some v\<rparr>
                           | _ \<Rightarrow> None)
                     else None)
                | None \<Rightarrow> None)
           | _ \<Rightarrow> None)
      | _ \<Rightarrow> None)"

record rule_eval_result =
  re_matched :: bool
  re_dynamicActions :: "rule_action list"
  re_warnings :: "str list"

definition no_match :: rule_eval_result where
  "no_match = \<lparr>re_matched = False, re_dynamicActions = [], re_warnings = []\<rparr>"

definition match_with :: "rule_action list \<Rightarrow> str list \<Rightarrow> rule_eval_result" where
  "match_with as ws = \<lparr>re_matched = True, re_dynamicActions = as, re_warnings = ws\<rparr>"

fun interpretElements :: "(json \<Rightarrow> str) \<Rightarrow> nat \<Rightarrow> json list \<Rightarrow> rule_action list \<times> str list" where
  "interpretElements zod_issue i [] = ([], [])"
| "interpretElements zod_issue i (x # xs) =
     (let (as, ws) = interpretElements zod_issue (Suc i) xs
      in case RuleActionSchema x of
           Some a \<Rightarrow> (a # as, ws)
         | None \<Rightarrow> (as, (''Element ['' @ show_nat i @ ''] is not a valid RuleAction: '' @ zod_issue x) # ws))"

definition interpretRuleResult :: "(json \<Rightarrow> str) \<Rightarrow> json \<Rightarrow> rule_eval_result" where
  "interpretRuleResult zod_issue raw =
     (case raw of
        JNull \<Rightarrow> no_match
      | JUndefined \<Rightarrow> no_match
      | JArr xs \<Rightarrow> (let (as, ws) = interpretElements zod_issue 0 xs in match_with as ws)
      | JObj o' \<Rightarrow>
          (case jfield o' ''type'' of
             JStr t \<Rightarrow>
               (if map_of RULE_ACTION_TYPES t \<noteq> None then
                  (case RuleActionSchema raw of
                     Some a \<Rightarrow> match_with [a] []
                   | None \<Rightarrow> match_with [] [''RuleAction validation failed: '' @ zod_issue raw])
                else match_with [] [])
           | _ \<Rightarrow> match_with [] [])
      | _ \<Rightarrow> match_with [] [])"

lemma interpretElements_length:
  "length (fst (interpretElements z i xs)) + length (snd (interpretElements z i xs)) = length xs"
  by (induction z i xs rule: interpretElements.induct) (auto split: option.splits prod.splits)

lemma interpretElements_actions: "fst (interpretElements z i xs) = List.map_filter RuleActionSchema xs"
  by (induction z i xs rule: interpretElements.induct)
     (auto simp: List.map_filter_simps split: option.splits prod.splits)


text \<open>
  A rule whose code returns \<open>false\<close> (or 0, or the empty string) matches, and its static
  actions run, although the code's comment and its requirements reserve this case for truthy
  values: the last case does not test the value.
\<close>

theorem falsy_result_matches:
  assumes "raw = JBool False \<or> raw = JNum 0 \<or> raw = JStr []"
  shows "interpretRuleResult z raw = match_with [] []"
  using assms by (auto simp: interpretRuleResult_def)

lemma falsy_result_matches_witness:
  "re_matched (interpretRuleResult (\<lambda>_. ''issue'') (JBool False))"
  using falsy_result_matches [of "JBool False" "\<lambda>_. ''issue''"] by (simp add: match_with_def)

section \<open>Evaluating one rule\<close>

definition isCalendarAttachment :: "attachment \<Rightarrow> bool" where
  "isCalendarAttachment a \<longleftrightarrow>
     starts_with (at_mimeType a) ''text/calendar'' \<or> ends_with (to_lower (at_filename a)) ''.ics''"

definition hasCalendarAttachment :: "attachment list \<Rightarrow> bool" where
  "hasCalendarAttachment as = list_ex isCalendarAttachment as"

definition json_address :: "email_address \<Rightarrow> json" where
  "json_address a = JObj ((''address'', JStr (ea_address a)) #
     (case ea_name a of None \<Rightarrow> [] | Some n \<Rightarrow> [(''name'', JStr n)]))"

definition toRuleSignalContext :: "email_signal \<Rightarrow> json" where
  "toRuleSignalContext s =
     (let b = base_of (sg_data s);
          body = (case sg_data s of Inbound d \<Rightarrow> ib_htmlBody d | Outbound d \<Rightarrow> ob_textBody d)
      in JObj
        ([(''id'', JStr (sg_id s)), (''from'', json_address (eb_from b)), (''subject'', JStr (eb_subject b)),
          (''summary'', JStr (eb_summary b))] @
         (case body of None \<Rightarrow> [] | Some t \<Rightarrow> [(''body'', JStr t)]) @
         [(''recipientAddress'', JStr (eb_recipientAddress b)),
          (''hasCalendarInvite'', JBool (hasCalendarAttachment (eb_attachments b)))] @
         (case sg_data s of
            Inbound d \<Rightarrow> [(''workflow'', JStr (ib_workflow d)), (''workflowData'', JObj (ib_workflowData d))]
          | Outbound _ \<Rightarrow> [])))"

fun thread_status_name :: "thread_status \<Rightarrow> str" where
  "thread_status_name ThActive = ''active''"
| "thread_status_name ThArchived = ''archived''"
| "thread_status_name ThDeleted = ''deleted''"
| "thread_status_name ThReportViolation = ''report_violation''"

definition toRuleThreadContext :: "thread \<Rightarrow> json" where
  "toRuleThreadContext t =
     JObj
       ([(''id'', JStr (th_id t)), (''labels'', JArr (map JStr (th_labels t)))] @
        (case th_urgency t of None \<Rightarrow> [] | Some u \<Rightarrow> [(''urgency'', JStr u)]) @
        [(''summary'', JStr (th_summary t)), (''workflow'', JStr (th_workflow t)),
         (''status'', JStr (thread_status_name (th_status t)))])"

definition annotateRuleError :: "env \<Rightarrow> rule \<Rightarrow> user_code_error \<Rightarrow> unit io" where
  "annotateRuleError e r er =
     try_catch
       (bind (annotateRuleErrorDb e (ru_accountId r) (ru_id r)
          (''['' @ uc_errorType er @ ''] '' @ uc_message er)) (\<lambda>_. ret ()))
       (\<lambda>_. ret ())"

definition evaluateJsCondition :: "env \<Rightarrow> (json \<Rightarrow> str) \<Rightarrow> rule \<Rightarrow> email_signal \<Rightarrow> thread \<Rightarrow> rule_eval_result io" where
  "evaluateJsCondition e z r s t =
     try_catch
       (bind (invokeUserCode e (sg_accountId s) ''rule_condition'' (ru_condition r)
          (JObj [(''signal'', toRuleSignalContext s), (''thread'', toRuleThreadContext t)]))
        (\<lambda>response. case response of
           Inl er \<Rightarrow> bind (annotateRuleError e r er) (\<lambda>_. ret no_match)
         | Inr v \<Rightarrow> ret (interpretRuleResult z v)))
       (\<lambda>_. ret no_match)"

definition evaluate :: "env \<Rightarrow> (json \<Rightarrow> str) \<Rightarrow> rule \<Rightarrow> email_signal \<Rightarrow> thread \<Rightarrow> bool \<Rightarrow> rule_eval_result io" where
  "evaluate e z r s t isMatchedThread =
     (if ru_conditionType r = Some CtJs then evaluateJsCondition e z r s t
      else (case evalCondition (lib e) (ru_condition r)
              (JObj [(''signal'', toRuleSignalContext s), (''thread'', toRuleThreadContext t),
                     (''isMatchedThread'', JBool isMatchedThread)]) of
              Done b \<Rightarrow> ret \<lparr>re_matched = b, re_dynamicActions = [], re_warnings = []\<rparr>
            | Threw _ \<Rightarrow> ret no_match))"

text \<open>Evaluating a rule never throws, and at most runs its code and annotates the rule.\<close>

fun rule_event :: "event \<Rightarrow> bool" where
  "rule_event (UserCode _ _ _) = True"
| "rule_event (AnnotateRuleError _ _ _ _) = True"
| "rule_event _ = False"

lemma evaluate_emits: "emits (evaluate e z r s t m) rule_event"
  unfolding evaluate_def evaluateJsCondition_def annotateRuleError_def store_defs
  by (auto intro!: trace_intros split: outcome.splits)

lemma annotateRuleError_returns: "\<exists>h'. annotateRuleError e r er h = (Done (), h')"
  by (simp add: annotateRuleError_def try_catch_def bind_def ret_apply split: prod.splits outcome.splits)

lemma evaluate_returns: "\<exists>x h'. evaluate e z r s t m h = (Done x, h')"
proof (cases "ru_conditionType r = Some CtJs")
  case True
  show ?thesis
    using True annotateRuleError_returns [of e r]
    by (auto simp: evaluate_def evaluateJsCondition_def try_catch_def bind_def ret_apply
        split: prod.splits outcome.splits sum.splits)
next
  case False
  then show ?thesis by (auto simp: evaluate_def ret_apply split: outcome.splits)
qed

end
