(* ===== verification/Outcome.thy ===== *)
theory Outcome
  imports Rules
begin

text \<open>
  The outcome of the rules (\<open>processor/incoming-email-processor.ts\<close>): the loop that evaluates the
  rules in order and records the matches (\<open>applyRules\<close>), and the fold of the recorded actions into
  what happens to the message (\<open>deriveOutcome\<close>).
\<close>

section \<open>Recording a match\<close>

definition labels_added :: "rule_action list \<Rightarrow> str list" where
  "labels_added as = List.map_filter (\<lambda>a. if ra_type a = RAssignLabel \<and> truthy (ra_value a) then ra_value a else None) as"

definition has_action :: "rule_action_type \<Rightarrow> rule_action list \<Rightarrow> bool" where
  "has_action ty as = list_ex (\<lambda>a. ra_type a = ty) as"

definition statusChange_of :: "rule_action list \<Rightarrow> status_change option" where
  "statusChange_of as =
     (if has_action RBlockReject as then Some ScBlockReject
      else if has_action RBlockHidden as then Some ScBlockHidden
      else if has_action RQuarantineHidden as then Some ScQuarantineHidden
      else if has_action RQuarantineVisible as then Some ScQuarantineVisible
      else if has_action RArchive as then Some ScArchived
      else None)"

definition STATUS_ACTION_TYPES :: "rule_action_type set" where
  "STATUS_ACTION_TYPES = {RBlockReject, RBlockHidden, RQuarantineHidden, RQuarantineVisible, RArchive}"

definition all_actions :: "rule \<Rightarrow> rule_eval_result \<Rightarrow> rule_action list" where
  "all_actions r er = ru_actions r @ re_dynamicActions er"

definition redundant_match :: "matched_rule_result list \<Rightarrow> rule_action list \<Rightarrow> bool" where
  "redundant_match matched as \<longleftrightarrow>
     list_ex (\<lambda>m. mr_statusChange m \<noteq> None) matched \<and> statusChange_of as \<noteq> None \<and>
     labels_added as = [] \<and> \<not> list_ex (\<lambda>a. ra_type a \<notin> STATUS_ACTION_TYPES) as"

definition matched_result :: "rule \<Rightarrow> rule_action list \<Rightarrow> matched_rule_result" where
  "matched_result r as =
     \<lparr>mr_ruleId = ru_id r, mr_actions = as, mr_labelsAdded = labels_added as,
      mr_statusChange = statusChange_of as, mr_text = None\<rparr>"

text \<open>The first \<open>assign_workflow\<close> action decides, if it has a value.\<close>

definition assign_workflow :: "rule_action list \<Rightarrow> thread \<Rightarrow> thread" where
  "assign_workflow as t =
     (case find (\<lambda>a. ra_type a = RAssignWorkflow) as of
        Some a \<Rightarrow> (if truthy (ra_value a) then t\<lparr>th_workflow := the (ra_value a)\<rparr> else t)
      | None \<Rightarrow> t)"

definition record_match ::
  "rule \<Rightarrow> rule_eval_result \<Rightarrow> matched_rule_result list \<times> thread \<Rightarrow> matched_rule_result list \<times> thread" where
  "record_match r er st =
     (let as = all_actions r er
      in if redundant_match (fst st) as then st
         else (fst st @ [matched_result r as], assign_workflow as (snd st)))"

section \<open>The loop\<close>

definition SYSTEM_SIGNAL_RETENTION :: str where "SYSTEM_SIGNAL_RETENTION = ''P90D''"

text \<open>A system-generated notice: an active signal of its own id that expires after 90 days\<close>

definition notice_signal :: "str \<Rightarrow> str option \<Rightarrow> str \<Rightarrow> signal_type \<Rightarrow> str \<Rightarrow> any_data \<Rightarrow> any_signal" where
  "notice_signal sid tid accountId ty createdAt d =
     \<lparr>sg_id = sid, sg_signalLookupId = sid, sg_threadId = tid, sg_gsi3pk = None, sg_accountId = accountId,
      sg_source = SrcEmail, sg_type = ty, sg_status = SActive, sg_labels = [], sg_createdAt = createdAt,
      sg_retentionDuration = Some SYSTEM_SIGNAL_RETENTION, sg_data = d\<rparr>"

text \<open>\<open>parts.join("; ")\<close>\<close>

fun join_semi :: "str list \<Rightarrow> str" where
  "join_semi [] = []"
| "join_semi [x] = x"
| "join_semi (x # xs) = x @ ''; '' @ join_semi xs"

definition reportWarnings :: "env \<Rightarrow> rule \<Rightarrow> str list \<Rightarrow> thread \<Rightarrow> unit io" where
  "reportWarnings e r warnings t =
     (if warnings = [] then ret ()
      else bind (new_signal_id e) (\<lambda>sid.
           bind (now_iso e) (\<lambda>ts.
           bind (saveSignal e (notice_signal sid (Some (th_id t)) (ru_accountId r) TyInvalidRuleFunction ts
              (DInvalidRule \<lparr>irf_resourceName = ru_name r, irf_issue = join_semi warnings\<rparr>)))
             (\<lambda>_. ret ()))))"

definition applyRules ::
  "env \<Rightarrow> (json \<Rightarrow> str) \<Rightarrow> rule list \<Rightarrow> email_signal \<Rightarrow> thread \<Rightarrow> bool \<Rightarrow> (matched_rule_result list \<times> thread) io" where
  "applyRules e z rules s t0 isMatchedThread =
     for_fold rules
       (\<lambda>st r.
          bind (evaluate e z r s (snd st) isMatchedThread) (\<lambda>er.
            if \<not> re_matched er then ret st
            else bind (reportWarnings e r (re_warnings er) (snd st)) (\<lambda>_. ret (record_match r er st))))
       ([], t0)"

section \<open>The outcome\<close>

text \<open>\<open>oc_blockDisposition\<close> is one of the three block statuses.\<close>

record outcome_rec =
  oc_blockDisposition :: "signal_status option"
  oc_quarantine :: bool
  oc_quarantineHidden :: bool
  oc_approveSender :: bool
  oc_archive :: bool
  oc_urgency :: "str option"
  oc_suppressNotification :: bool
  oc_forwardAddresses :: "str list"
  oc_additionalLabels :: "str list"

definition emptyOutcome :: outcome_rec where
  "emptyOutcome =
     \<lparr>oc_blockDisposition = None, oc_quarantine = False, oc_quarantineHidden = False, oc_approveSender = False,
      oc_archive = False, oc_urgency = None, oc_suppressNotification = False, oc_forwardAddresses = [],
      oc_additionalLabels = []\<rparr>"

text \<open>The loop state: the outcome, \<open>statusSet\<close> and \<open>urgencySet\<close>\<close>

type_synonym outcome_state = "outcome_rec \<times> bool \<times> bool"

fun outcome_step :: "outcome_state \<Rightarrow> rule_action \<Rightarrow> outcome_state" where
  "outcome_step (oc, statusSet, urgencySet) a =
     (case ra_type a of
        RBlockHidden \<Rightarrow>
          (if statusSet then (oc, statusSet, urgencySet)
           else (oc\<lparr>oc_blockDisposition := Some SBlockHidden\<rparr>, True, urgencySet))
      | RBlockReject \<Rightarrow>
          (if statusSet then (oc, statusSet, urgencySet)
           else (oc\<lparr>oc_blockDisposition := Some SBlockReject\<rparr>, True, urgencySet))
      | RQuarantineVisible \<Rightarrow>
          (if statusSet then (oc, statusSet, urgencySet) else (oc\<lparr>oc_quarantine := True\<rparr>, True, urgencySet))
      | RQuarantineHidden \<Rightarrow>
          (if statusSet then (oc, statusSet, urgencySet)
           else (oc\<lparr>oc_quarantine := True, oc_quarantineHidden := True\<rparr>, True, urgencySet))
      | RArchive \<Rightarrow>
          (if statusSet then (oc, statusSet, urgencySet) else (oc\<lparr>oc_archive := True\<rparr>, True, urgencySet))
      | RApproveSender \<Rightarrow> (oc\<lparr>oc_approveSender := True\<rparr>, statusSet, urgencySet)
      | RSuppressNotification \<Rightarrow> (oc\<lparr>oc_suppressNotification := True\<rparr>, statusSet, urgencySet)
      | RSetUrgency \<Rightarrow>
          (if \<not> urgencySet \<and> truthy (ra_value a)
           then (oc\<lparr>oc_urgency := ra_value a\<rparr>, statusSet, True) else (oc, statusSet, urgencySet))
      | RAssignLabel \<Rightarrow>
          (if truthy (ra_value a)
           then (oc\<lparr>oc_additionalLabels := oc_additionalLabels oc @ [the (ra_value a)]\<rparr>, statusSet, urgencySet)
           else (oc, statusSet, urgencySet))
      | RForward \<Rightarrow>
          (if truthy (ra_value a)
           then (oc\<lparr>oc_forwardAddresses := oc_forwardAddresses oc @ [the (ra_value a)]\<rparr>, statusSet, urgencySet)
           else (oc, statusSet, urgencySet))
      | _ \<Rightarrow> (oc, statusSet, urgencySet))"

definition deriveOutcome :: "matched_rule_result list \<Rightarrow> outcome_rec" where
  "deriveOutcome matched =
     fst (foldl (\<lambda>st m. foldl outcome_step st (mr_actions m)) (emptyOutcome, False, False) matched)"

section \<open>The outcome as a function of all the actions\<close>

definition flat_actions :: "matched_rule_result list \<Rightarrow> rule_action list" where
  "flat_actions matched = concat (map mr_actions matched)"

definition values_of :: "rule_action_type \<Rightarrow> rule_action list \<Rightarrow> str list" where
  "values_of ty as = List.map_filter (\<lambda>a. if ra_type a = ty \<and> truthy (ra_value a) then ra_value a else None) as"

definition first_status :: "rule_action list \<Rightarrow> rule_action_type option" where
  "first_status as = map_option ra_type (find (\<lambda>a. ra_type a \<in> STATUS_ACTION_TYPES) as)"

text \<open>What the first status action of all the matched rules decides, and what accumulates\<close>

definition outcome_of :: "rule_action list \<Rightarrow> outcome_rec" where
  "outcome_of as =
     \<lparr>oc_blockDisposition =
        (case first_status as of
           Some RBlockReject \<Rightarrow> Some SBlockReject | Some RBlockHidden \<Rightarrow> Some SBlockHidden | _ \<Rightarrow> None),
      oc_quarantine = (first_status as \<in> {Some RQuarantineVisible, Some RQuarantineHidden}),
      oc_quarantineHidden = (first_status as = Some RQuarantineHidden),
      oc_approveSender = has_action RApproveSender as,
      oc_archive = (first_status as = Some RArchive),
      oc_urgency = (case values_of RSetUrgency as of [] \<Rightarrow> None | u # _ \<Rightarrow> Some u),
      oc_suppressNotification = has_action RSuppressNotification as,
      oc_forwardAddresses = values_of RForward as,
      oc_additionalLabels = values_of RAssignLabel as\<rparr>"

lemma values_of_Nil [simp]: "values_of ty [] = []"
  by (simp add: values_of_def List.map_filter_simps)

lemma values_of_snoc:
  "values_of ty (as @ [a]) = values_of ty as @ (if ra_type a = ty \<and> truthy (ra_value a) then [the (ra_value a)] else [])"
  by (induction as) (auto simp: values_of_def List.map_filter_simps elim!: truthyE)

lemma has_action_snoc: "has_action ty (as @ [a]) \<longleftrightarrow> has_action ty as \<or> ra_type a = ty"
  by (auto simp: has_action_def)

lemma first_status_snoc:
  "first_status (as @ [a]) =
     (case first_status as of Some s \<Rightarrow> Some s
      | None \<Rightarrow> if ra_type a \<in> STATUS_ACTION_TYPES then Some (ra_type a) else None)"
  by (induction as) (auto simp: first_status_def)

lemma first_status_Nil [simp]: "first_status [] = None"
  by (simp add: first_status_def)

lemma first_status_in: "first_status as = Some s \<Longrightarrow> s \<in> STATUS_ACTION_TYPES"
  by (induction as) (auto simp: first_status_def split: if_splits)

text \<open>The loop invariant: after any prefix of the actions the state is what the specification says.\<close>

definition outcome_inv :: "rule_action list \<Rightarrow> outcome_state" where
  "outcome_inv as = (outcome_of as, first_status as \<noteq> None, values_of RSetUrgency as \<noteq> [])"

lemma outcome_inv_step: "outcome_step (outcome_inv as) a = outcome_inv (as @ [a])"
proof (cases "first_status as")
  case None
  then show ?thesis
    by (cases "ra_type a")
       (auto simp: outcome_inv_def outcome_of_def first_status_snoc has_action_snoc values_of_snoc
          STATUS_ACTION_TYPES_def split: list.splits elim!: truthyE)
next
  case (Some s)
  then show ?thesis
    by (cases "ra_type a")
       (auto simp: outcome_inv_def outcome_of_def first_status_snoc has_action_snoc values_of_snoc
          STATUS_ACTION_TYPES_def split: list.splits elim!: truthyE)
qed

lemma outcome_inv_Nil: "(emptyOutcome, False, False) = outcome_inv []"
  by (simp add: outcome_inv_def outcome_of_def emptyOutcome_def first_status_def has_action_def)

lemma foldl_outcome_step: "foldl outcome_step (outcome_inv as) bs = outcome_inv (as @ bs)"
  by (induction bs arbitrary: as) (simp_all add: outcome_inv_step del: outcome_step.simps)

lemma foldl_outcome:
  "foldl (\<lambda>st m. foldl outcome_step st (mr_actions m)) (outcome_inv as) ms = outcome_inv (as @ flat_actions ms)"
  by (induction ms arbitrary: as) (simp_all add: foldl_outcome_step flat_actions_def)

lemma deriveOutcome_outcome_of: "deriveOutcome matched = outcome_of (flat_actions matched)"
  by (simp add: deriveOutcome_def outcome_inv_Nil foldl_outcome) (simp add: outcome_inv_def)

text \<open>
  C30. The first status-changing action of all the matched rules, in the order of the rules and
  their actions, alone decides between blocking, quarantine and archiving; the first non-empty
  urgency wins; labels and forward addresses accumulate in order without loss.
\<close>

theorem derive_outcome_spec: "deriveOutcome matched = outcome_of (flat_actions matched)"
  by (rule deriveOutcome_outcome_of)

section \<open>Redundant matches\<close>

lemma foldl_status_actions:
  assumes "\<forall>a\<in>set as. ra_type a \<in> STATUS_ACTION_TYPES"
  shows "foldl outcome_step (oc, True, u) as = (oc, True, u)"
  using assms by (induction as) (auto simp: STATUS_ACTION_TYPES_def)

lemma statusChange_None_iff: "statusChange_of as = None \<longleftrightarrow> first_status as = None"
  by (auto simp: statusChange_of_def has_action_def first_status_def list_ex_iff find_None_iff
      STATUS_ACTION_TYPES_def)

lemma first_status_append:
  "first_status (as @ bs) = (case first_status as of Some s \<Rightarrow> Some s | None \<Rightarrow> first_status bs)"
  by (induction as) (auto simp: first_status_def)

lemma first_status_flat_None:
  "first_status (flat_actions ms) = None \<longleftrightarrow> (\<forall>m\<in>set ms. first_status (mr_actions m) = None)"
  by (induction ms) (auto simp: flat_actions_def first_status_append first_status_Nil split: option.splits)

text \<open>Every recorded match carries the status change of its own actions.\<close>

definition recorded :: "matched_rule_result list \<Rightarrow> bool" where
  "recorded ms \<longleftrightarrow> (\<forall>m\<in>set ms. mr_statusChange m = statusChange_of (mr_actions m))"

lemma recorded_record_match: "recorded (fst st) \<Longrightarrow> recorded (fst (record_match r er st))"
  by (auto simp: recorded_def record_match_def matched_result_def Let_def)

lemma redundant_outcome:
  assumes "recorded ms" "redundant_match ms as"
  shows "outcome_inv (flat_actions ms @ as) = outcome_inv (flat_actions ms)"
    and "assign_workflow as t = t"
proof -
  have st: "\<forall>a\<in>set as. ra_type a \<in> STATUS_ACTION_TYPES"
    using assms(2) by (auto simp: redundant_match_def list_ex_iff)
  obtain m where "m \<in> set ms" "mr_statusChange m \<noteq> None"
    using assms(2) by (auto simp: redundant_match_def list_ex_iff)
  then have "first_status (mr_actions m) \<noteq> None"
    using assms(1) by (simp add: recorded_def flip: statusChange_None_iff)
  with \<open>m \<in> set ms\<close> have "first_status (flat_actions ms) \<noteq> None"
    by (auto simp: first_status_flat_None)
  then show "outcome_inv (flat_actions ms @ as) = outcome_inv (flat_actions ms)"
    using foldl_status_actions [OF st] unfolding foldl_outcome_step [symmetric]
    by (simp add: outcome_inv_def)
  show "assign_workflow as t = t"
    using st by (auto simp: assign_workflow_def STATUS_ACTION_TYPES_def split: option.splits
        dest!: find_SomeD)
qed

text \<open>The loop without the test for redundant matches\<close>

definition record_all ::
  "rule \<Rightarrow> rule_eval_result \<Rightarrow> matched_rule_result list \<times> thread \<Rightarrow> matched_rule_result list \<times> thread" where
  "record_all r er st =
     (let as = all_actions r er in (fst st @ [matched_result r as], assign_workflow as (snd st)))"

definition applyRulesAll ::
  "env \<Rightarrow> (json \<Rightarrow> str) \<Rightarrow> rule list \<Rightarrow> email_signal \<Rightarrow> thread \<Rightarrow> bool \<Rightarrow> (matched_rule_result list \<times> thread) io" where
  "applyRulesAll e z rules s t0 isMatchedThread =
     for_fold rules
       (\<lambda>st r.
          bind (evaluate e z r s (snd st) isMatchedThread) (\<lambda>er.
            if \<not> re_matched er then ret st
            else bind (reportWarnings e r (re_warnings er) (snd st)) (\<lambda>_. ret (record_all r er st))))
       ([], t0)"

definition same_outcome :: "matched_rule_result list \<times> thread \<Rightarrow> matched_rule_result list \<times> thread \<Rightarrow> bool" where
  "same_outcome st st' \<longleftrightarrow> snd st = snd st' \<and> recorded (fst st) \<and>
     outcome_inv (flat_actions (fst st)) = outcome_inv (flat_actions (fst st'))"

lemma same_outcome_step:
  assumes "same_outcome st st'"
  shows "same_outcome (record_match r er st) (record_all r er st')"
proof -
  let ?as = "all_actions r er"
  have eq: "outcome_inv (flat_actions (fst st) @ ?as) = outcome_inv (flat_actions (fst st') @ ?as)"
    using assms unfolding foldl_outcome_step [symmetric] by (simp add: same_outcome_def)
  have "recorded (fst (record_match r er st))"
    using assms recorded_record_match by (simp add: same_outcome_def)
  with eq assms redundant_outcome [of "fst st" ?as] show ?thesis
    by (auto simp: same_outcome_def record_match_def record_all_def Let_def flat_actions_def matched_result_def)
qed

lemma for_fold_sim:
  assumes step: "\<And>s s' x h. R s s' \<Longrightarrow>
      rel_outcome R (fst (b s x h)) (fst (b' s' x h)) \<and> snd (b s x h) = snd (b' s' x h)"
    and init: "R s s'"
  shows "rel_outcome R (fst (for_fold xs b s h)) (fst (for_fold xs b' s' h)) \<and>
         snd (for_fold xs b s h) = snd (for_fold xs b' s' h)"
  using init
proof (induction xs arbitrary: s s' h)
  case Nil
  then show ?case by (simp add: ret_apply)
next
  case (Cons x xs)
  obtain r1 h1 where 1: "b s x h = (r1, h1)" by fastforce
  obtain r2 h2 where 2: "b' s' x h = (r2, h2)" by fastforce
  from step [OF Cons.prems, of x h] 1 2 have "rel_outcome R r1 r2" "h2 = h1" by auto
  then show ?case
    using Cons.IH 1 2 by (cases r1; cases r2) (auto simp: bind_def)
qed

text \<open>
  Dropping redundant matches is only cosmetic: with and without the test, from the same
  history, the rules are evaluated alike, the same events happen, the thread ends with the same
  workflow and the derived outcome is the same.
\<close>

theorem redundant_matches_cosmetic:
  "snd (applyRules e z rules s t m h) = snd (applyRulesAll e z rules s t m h) \<and>
   (case (fst (applyRules e z rules s t m h), fst (applyRulesAll e z rules s t m h)) of
      (Done (ms, t1), Done (ms', t2)) \<Rightarrow> deriveOutcome ms = deriveOutcome ms' \<and> t1 = t2
    | (Threw e1, Threw e2) \<Rightarrow> e1 = e2
    | _ \<Rightarrow> False)"
proof -
  have "rel_outcome same_outcome (fst (applyRules e z rules s t m h)) (fst (applyRulesAll e z rules s t m h)) \<and>
        snd (applyRules e z rules s t m h) = snd (applyRulesAll e z rules s t m h)"
    unfolding applyRules_def applyRulesAll_def
  proof (rule for_fold_sim)
    fix st st' :: "matched_rule_result list \<times> thread" and r h
    assume st: "same_outcome st st'"
    then have t: "snd st' = snd st" by (simp add: same_outcome_def)
    show "rel_outcome same_outcome
        (fst (bind (evaluate e z r s (snd st) m)
          (\<lambda>er. if \<not> re_matched er then ret st
                else bind (reportWarnings e r (re_warnings er) (snd st)) (\<lambda>_. ret (record_match r er st))) h))
        (fst (bind (evaluate e z r s (snd st') m)
          (\<lambda>er. if \<not> re_matched er then ret st'
                else bind (reportWarnings e r (re_warnings er) (snd st')) (\<lambda>_. ret (record_all r er st'))) h))
      \<and> snd (bind (evaluate e z r s (snd st) m)
          (\<lambda>er. if \<not> re_matched er then ret st
                else bind (reportWarnings e r (re_warnings er) (snd st)) (\<lambda>_. ret (record_match r er st))) h)
        = snd (bind (evaluate e z r s (snd st') m)
          (\<lambda>er. if \<not> re_matched er then ret st'
                else bind (reportWarnings e r (re_warnings er) (snd st')) (\<lambda>_. ret (record_all r er st'))) h)"
      unfolding t using st same_outcome_step [OF st]
      by (auto simp: bind_def ret_apply split: prod.splits outcome.splits)
  qed (simp add: same_outcome_def recorded_def)
  then show ?thesis
    by (cases "fst (applyRules e z rules s t m h)"; cases "fst (applyRulesAll e z rules s t m h)")
       (auto simp: deriveOutcome_outcome_of same_outcome_def outcome_inv_def)
qed

section \<open>The recorded status and the outcome\<close>

text \<open>The status the outcome gives the message, in the vocabulary of the audit trail\<close>

definition outcome_status :: "outcome_rec \<Rightarrow> status_change option" where
  "outcome_status oc =
     (case oc_blockDisposition oc of
        Some SBlockReject \<Rightarrow> Some ScBlockReject
      | Some SBlockHidden \<Rightarrow> Some ScBlockHidden
      | _ \<Rightarrow> (if oc_quarantineHidden oc then Some ScQuarantineHidden
             else if oc_quarantine oc then Some ScQuarantineVisible
             else if oc_archive oc then Some ScArchived else None))"

definition recorded_status :: "matched_rule_result list \<Rightarrow> status_change option" where
  "recorded_status ms = (case find (\<lambda>m. mr_statusChange m \<noteq> None) ms of None \<Rightarrow> None | Some m \<Rightarrow> mr_statusChange m)"

lemma outcome_status_first:
  "outcome_status (outcome_of as) =
     (case first_status as of
        Some RBlockReject \<Rightarrow> Some ScBlockReject | Some RBlockHidden \<Rightarrow> Some ScBlockHidden
      | Some RQuarantineHidden \<Rightarrow> Some ScQuarantineHidden | Some RQuarantineVisible \<Rightarrow> Some ScQuarantineVisible
      | Some RArchive \<Rightarrow> Some ScArchived | _ \<Rightarrow> None)"
  by (auto simp: outcome_status_def outcome_of_def split: option.splits rule_action_type.splits)

lemma single_status:
  assumes "length (filter (\<lambda>a. ra_type a \<in> STATUS_ACTION_TYPES) as) \<le> 1" "first_status as = Some s"
  shows "has_action ty as \<and> ty \<in> STATUS_ACTION_TYPES \<longleftrightarrow> ty = s"
  using assms
proof (induction as)
  case (Cons a as)
  show ?case
  proof (cases "ra_type a \<in> STATUS_ACTION_TYPES")
    case True
    with Cons.prems(1) have "\<forall>b\<in>set as. ra_type b \<notin> STATUS_ACTION_TYPES" by (auto simp: filter_empty_conv)
    with True Cons.prems(2) show ?thesis by (auto simp: first_status_def has_action_def list_ex_iff)
  next
    case False
    with Cons show ?thesis by (auto simp: first_status_def has_action_def)
  qed
qed (simp add: first_status_def)

lemma statusChange_single:
  assumes "length (filter (\<lambda>a. ra_type a \<in> STATUS_ACTION_TYPES) as) \<le> 1"
  shows "statusChange_of as = outcome_status (outcome_of as)"
proof (cases "first_status as")
  case None
  then show ?thesis using statusChange_None_iff [of as] by (simp add: outcome_status_first)
next
  case (Some s)
  note h = single_status [OF assms Some]
  have "s \<in> STATUS_ACTION_TYPES" by (rule first_status_in [OF Some])
  then show ?thesis
    using h [of RBlockReject] h [of RBlockHidden] h [of RQuarantineHidden] h [of RQuarantineVisible] h [of RArchive]
    by (auto simp: STATUS_ACTION_TYPES_def statusChange_of_def outcome_status_first Some)
qed

text \<open>
  The audit trail tells the truth when no rule carries more than one status action: the
  first status change it records is the status the message gets.
\<close>

theorem recorded_status_is_outcome:
  assumes "recorded ms" "\<forall>m\<in>set ms. length (filter (\<lambda>a. ra_type a \<in> STATUS_ACTION_TYPES) (mr_actions m)) \<le> 1"
  shows "recorded_status ms = outcome_status (deriveOutcome ms)"
  using assms
proof (induction ms)
  case Nil
  then show ?case
    by (simp add: recorded_status_def deriveOutcome_outcome_of flat_actions_def outcome_status_first first_status_def)
next
  case (Cons m ms)
  have m: "mr_statusChange m = outcome_status (outcome_of (mr_actions m))"
    using Cons.prems statusChange_single by (simp add: recorded_def)
  have n: "mr_statusChange m = None \<longleftrightarrow> first_status (mr_actions m) = None"
    using Cons.prems(1) statusChange_None_iff by (simp add: recorded_def)
  have f: "first_status (flat_actions (m # ms)) =
      (case first_status (mr_actions m) of Some s \<Rightarrow> Some s | None \<Rightarrow> first_status (flat_actions ms))"
    by (simp add: flat_actions_def first_status_append split: option.splits)
  have "recorded_status ms = outcome_status (deriveOutcome ms)"
    using Cons.prems by (intro Cons.IH) (auto simp: recorded_def)
  then show ?case
    using m n f
    by (auto simp: recorded_status_def deriveOutcome_outcome_of outcome_status_first split: option.splits)
qed

lemma recorded_status_is_outcome_witness:
  "recorded_status [matched_result \<lparr>ru_id = ''r'', ru_accountId = ''a'', ru_name = ''n'', ru_condition = [],
       ru_conditionType = None, ru_actions = [], ru_enabled = True, ru_priorityOrder = 1, ru_lastError = None,
       ru_createdAt = [], ru_updatedAt = []\<rparr> [\<lparr>ra_type = RArchive, ra_value = None\<rparr>]] =
   outcome_status (deriveOutcome [matched_result \<lparr>ru_id = ''r'', ru_accountId = ''a'', ru_name = ''n'', ru_condition = [],
       ru_conditionType = None, ru_actions = [], ru_enabled = True, ru_priorityOrder = 1, ru_lastError = None,
       ru_createdAt = [], ru_updatedAt = []\<rparr> [\<lparr>ra_type = RArchive, ra_value = None\<rparr>]])"
  by (rule recorded_status_is_outcome) (simp_all add: recorded_def matched_result_def)

text \<open>
  With two status actions in one rule it does not: a rule that archives and then rejects is
  recorded as a rejection (the record takes the severest action), while the message is archived
  (the outcome takes the first).
\<close>

theorem recorded_status_differs:
  "let m = matched_result r [\<lparr>ra_type = RArchive, ra_value = None\<rparr>, \<lparr>ra_type = RBlockReject, ra_value = None\<rparr>]
   in mr_statusChange m = Some ScBlockReject \<and> outcome_status (deriveOutcome [m]) = Some ScArchived"
  by (simp add: matched_result_def statusChange_of_def has_action_def deriveOutcome_outcome_of flat_actions_def
      outcome_status_first first_status_def STATUS_ACTION_TYPES_def)

section \<open>What the loop does\<close>

text \<open>The only record the rules themselves save is a notice about invalid actions.\<close>

fun rules_event :: "event \<Rightarrow> bool" where
  "rules_event (SaveSignal s _) = (sg_type s = TyInvalidRuleFunction)"
| "rules_event Clock = True"
| "rules_event FreshId = True"
| "rules_event ev = rule_event ev"

lemma rule_event_rules_event: "rule_event ev \<Longrightarrow> rules_event ev"
  by (cases ev) auto

lemma reportWarnings_emits: "emits (reportWarnings e r ws t) rules_event"
  unfolding reportWarnings_def store_defs by (intro trace_intros) (auto simp: notice_signal_def intro: trace_intros)

lemma applyRules_emits: "emits (applyRules e z rules s t m) rules_event"
  unfolding applyRules_def
  by (intro trace_intros reportWarnings_emits emits_mono [OF evaluate_emits] rule_event_rules_event)

end
