(* ===== verification/Stats.thy ===== *)
theory Stats
  imports Services
begin

text \<open>
  Usage statistics (\<open>database/stats-writer.ts\<close>): one row of differences per day, one snapshot row
  per month with the totals up to the end of the month before, and their aggregation; and the
  monthly job that writes the snapshots (\<open>ensureStatsSnapshot\<close> of \<open>jobs/domain-health-job.ts\<close>).

  The metrics of a row are a partial function, as the code's partial record. Sort keys and dates
  are compared by their characters, which is the order of \<open>localeCompare\<close> on the digits, hyphens
  and upper-case letters they are made of.
\<close>

definition STATS_METRICS :: "stats_metric list" where
  "STATS_METRICS = [MAllowed, MBlocked, MQuarantined, MReported, MTotalAliases]"

fun statusToMetric :: "signal_status \<Rightarrow> stats_metric option" where
  "statusToMetric SActive = Some MAllowed"
| "statusToMetric SBlockHidden = Some MBlocked"
| "statusToMetric SBlockReject = Some MBlocked"
| "statusToMetric SReportViolation = Some MReported"
| "statusToMetric SQuarantineVisible = Some MQuarantined"
| "statusToMetric SQuarantineHidden = Some MQuarantined"
| "statusToMetric _ = None"

type_synonym metrics = "stats_metric \<Rightarrow> int option"

record stats_row =
  sr_sk :: str
  sr_metrics :: metrics

definition buildDiffSk :: "str \<Rightarrow> str" where
  "buildDiffSk d = ''STATS#'' @ d"

definition buildSnapshotSk :: "str \<Rightarrow> str" where
  "buildSnapshotSk yearMonth = ''STATS#'' @ yearMonth @ ''-00-SNAPSHOT''"

definition isSnapshotRow :: "stats_row \<Rightarrow> bool" where
  "isSnapshotRow r \<longleftrightarrow> ends_with (sr_sk r) ''-SNAPSHOT''"

definition isDiffRow :: "stats_row \<Rightarrow> bool" where
  "isDiffRow r \<longleftrightarrow> \<not> ends_with (sr_sk r) ''-SNAPSHOT''"

definition dateFromDiffSk :: "str \<Rightarrow> str" where
  "dateFromDiffSk sk = drop 6 sk"

definition monthFromSnapshotSk :: "str \<Rightarrow> str" where
  "monthFromSnapshotSk sk = take 7 (drop 6 sk)"

definition emptyMetrics :: metrics where
  "emptyMetrics = (\<lambda>_. Some 0)"

definition apply_diff :: "metrics \<Rightarrow> metrics \<Rightarrow> metrics" where
  "apply_diff result diff =
     (\<lambda>m. case diff m of None \<Rightarrow> result m | Some d \<Rightarrow> Some (nullish (result m) 0 + d))"

definition computeSnapshot :: "metrics option \<Rightarrow> metrics list \<Rightarrow> metrics" where
  "computeSnapshot baseSnapshot diffs =
     (let result = (case baseSnapshot of Some b \<Rightarrow> b | None \<Rightarrow> emptyMetrics);
          full = (\<lambda>m. Some (nullish (result m) 0))
      in foldl apply_diff full diffs)"

record api_bucket =
  bk_date :: str
  bk_allowed :: int
  bk_quarantined :: int
  bk_blocked :: int
  bk_aliases :: int

record api_stats =
  st_allowed :: int
  st_quarantined :: int
  st_blocked :: int
  st_aliases :: int
  st_daily :: "api_bucket list"
  st_monthly :: "api_bucket list"

definition le_sk :: "stats_row \<Rightarrow> stats_row \<Rightarrow> bool" where
  "le_sk a b \<longleftrightarrow> sr_sk a \<le> sr_sk b"

definition sorted_rows :: "stats_row list \<Rightarrow> stats_row list" where
  "sorted_rows rows = sort_by le_sk rows"

definition latest_snapshot :: "stats_row list \<Rightarrow> stats_row option" where
  "latest_snapshot srt = (case filter isSnapshotRow srt of [] \<Rightarrow> None | rs \<Rightarrow> Some (last rs))"

definition diff_rows :: "stats_row list \<Rightarrow> (str \<times> metrics) list" where
  "diff_rows srt = map (\<lambda>r. (dateFromDiffSk (sr_sk r), sr_metrics r)) (filter (\<lambda>r. \<not> isSnapshotRow r) srt)"

definition bucket_of :: "str \<times> metrics \<Rightarrow> api_bucket" where
  "bucket_of d =
     \<lparr>bk_date = fst d, bk_allowed = nullish (snd d MAllowed) 0, bk_quarantined = nullish (snd d MQuarantined) 0,
      bk_blocked = nullish (snd d MBlocked) 0, bk_aliases = nullish (snd d MTotalAliases) 0\<rparr>"

definition month_bucket :: "str \<times> (str \<times> metrics) list \<Rightarrow> api_bucket" where
  "month_bucket g =
     (let bs = map bucket_of (snd g)
      in \<lparr>bk_date = fst g, bk_allowed = sum_list (map bk_allowed bs), bk_quarantined = sum_list (map bk_quarantined bs),
          bk_blocked = sum_list (map bk_blocked bs), bk_aliases = sum_list (map bk_aliases bs)\<rparr>)"

definition total_metrics :: "stats_row list \<Rightarrow> metrics" where
  "total_metrics rows =
     (let srt = sorted_rows rows; diffs = diff_rows srt; snapshot = latest_snapshot srt;
          diffsAfterSnapshot =
            (case snapshot of
               None \<Rightarrow> diffs
             | Some s \<Rightarrow>
                 (if monthFromSnapshotSk (sr_sk s) = [] then diffs
                  else filter (\<lambda>d. take 7 (fst d) \<ge> monthFromSnapshotSk (sr_sk s)) diffs))
      in computeSnapshot (map_option sr_metrics snapshot) (map snd diffsAfterSnapshot))"

definition aggregateStatsRows :: "stats_row list \<Rightarrow> api_stats" where
  "aggregateStatsRows rows =
     (let diffs = diff_rows (sorted_rows rows);
          totals = total_metrics rows
      in \<lparr>st_allowed = nullish (totals MAllowed) 0, st_quarantined = nullish (totals MQuarantined) 0,
          st_blocked = nullish (totals MBlocked) 0, st_aliases = nullish (totals MTotalAliases) 0,
          st_daily = sort_by (ge_by bk_date) (map bucket_of diffs),
          st_monthly = map month_bucket (sort_by (ge_by fst) (group_by (\<lambda>d. take 7 (fst d)) diffs))\<rparr>)"

section \<open>Sums\<close>

definition metric_sum :: "stats_metric \<Rightarrow> metrics list \<Rightarrow> int" where
  "metric_sum m diffs = (\<Sum>d\<leftarrow>diffs. nullish (d m) 0)"

lemma apply_diff_total: "nullish (apply_diff r d m) 0 = nullish (r m) 0 + nullish (d m) 0"
  by (simp add: apply_diff_def split: option.splits)

lemma foldl_apply_diff: "nullish (foldl apply_diff r ds m) 0 = nullish (r m) 0 + metric_sum m ds"
  by (induction ds arbitrary: r) (simp_all add: metric_sum_def apply_diff_total)

lemma foldl_apply_diff_Some: "r m \<noteq> None \<Longrightarrow> foldl apply_diff r ds m \<noteq> None"
  by (induction ds arbitrary: r) (auto simp: apply_diff_def split: option.splits)

text \<open>A snapshot is its base plus the sum of the differences, for every metric.\<close>

lemma computeSnapshot_value:
  "computeSnapshot b ds m = Some ((case b of None \<Rightarrow> 0 | Some x \<Rightarrow> nullish (x m) 0) + metric_sum m ds)"
proof -
  let ?full = "\<lambda>m. Some (nullish ((case b of Some b \<Rightarrow> b | None \<Rightarrow> emptyMetrics) m) 0)"
  have "foldl apply_diff ?full ds m \<noteq> None" by (rule foldl_apply_diff_Some) simp
  moreover have "nullish (foldl apply_diff ?full ds m) 0 =
      (case b of None \<Rightarrow> 0 | Some x \<Rightarrow> nullish (x m) 0) + metric_sum m ds"
    by (subst foldl_apply_diff) (simp add: emptyMetrics_def split: option.splits)
  ultimately show ?thesis by (auto simp: computeSnapshot_def Let_def)
qed

lemma metric_sum_append [simp]: "metric_sum m (xs @ ys) = metric_sum m xs + metric_sum m ys"
  by (simp add: metric_sum_def)

lemma metric_sum_partition:
  "metric_sum m (map snd xs) =
     metric_sum m (map snd (filter P xs)) + metric_sum m (map snd (filter (\<lambda>d. \<not> P d) xs))"
  by (induction xs) (auto simp: metric_sum_def)

interpretation sk_order: comparator_order le_sk
  by unfold_locales (auto simp: le_sk_def)

lemma sum_filter_insert_by:
  "(\<Sum>r\<leftarrow>filter P (insert_by le x ys). f r) = (if P x then f x else 0) + (\<Sum>r\<leftarrow>filter P ys. f r :: int)"
  by (induction ys) auto

lemma sum_filter_sort_by: "(\<Sum>r\<leftarrow>filter P (sort_by le xs). f r) = (\<Sum>r\<leftarrow>filter P xs. f r :: int)"
  by (induction xs) (auto simp: sum_filter_insert_by)

lemma metric_sum_diff_rows:
  "metric_sum m (map snd (filter (\<lambda>d. P (fst d)) (diff_rows (sorted_rows rows)))) =
     (\<Sum>r\<leftarrow>filter (\<lambda>r. P (dateFromDiffSk (sr_sk r)) \<and> \<not> isSnapshotRow r) rows. nullish (sr_metrics r m) 0)"
  by (simp add: metric_sum_def diff_rows_def filter_map comp_def sorted_rows_def filter_filter sum_filter_sort_by conj_commute)

lemma filter_one_snapshot:
  assumes "filter isSnapshotRow rows = [s]"
  shows "latest_snapshot (sorted_rows rows) = Some s"
proof -
  have "filter isSnapshotRow (insert_by le_sk x ys) = (if isSnapshotRow x then [x] else filter isSnapshotRow ys)"
    if "isSnapshotRow x \<longrightarrow> filter isSnapshotRow ys = []" for x ys
    using that by (induction ys) (auto split: if_splits)
  moreover have none: "filter isSnapshotRow (sort_by le_sk xs) = [] \<longleftrightarrow> filter isSnapshotRow xs = []" for xs
    by (auto simp: filter_empty_conv)
  ultimately have "filter isSnapshotRow (sort_by le_sk rows) = filter isSnapshotRow rows"
    using assms
  proof (induction rows arbitrary: s)
    case (Cons x xs)
    show ?case
    proof (cases "isSnapshotRow x")
      case True
      with Cons.prems(3) have "filter isSnapshotRow xs = []" by simp
      then show ?thesis using True Cons.prems(1) [of x "sort_by le_sk xs"] none [of xs] by simp
    next
      case False
      with Cons show ?thesis by simp
    qed
  qed simp
  with assms show ?thesis by (simp add: latest_snapshot_def sorted_rows_def)
qed

text \<open>
  A correct snapshot is invisible: when the month's snapshot holds, for every metric, the sum
  of all the differences of earlier months, the totals computed from it and the later rows are the
  sums of all the differences ever recorded, in whatever order the rows arrive.
\<close>

theorem snapshot_checkpoint:
  assumes one: "filter isSnapshotRow rows = [s]" and month: "monthFromSnapshotSk (sr_sk s) \<noteq> []"
    and correct: "\<And>m. nullish (sr_metrics s m) 0 =
      (\<Sum>r\<leftarrow>filter (\<lambda>r. take 7 (dateFromDiffSk (sr_sk r)) < monthFromSnapshotSk (sr_sk s) \<and> \<not> isSnapshotRow r) rows.
         nullish (sr_metrics r m) 0)"
  shows "total_metrics rows m = Some (\<Sum>r\<leftarrow>filter (\<lambda>r. \<not> isSnapshotRow r) rows. nullish (sr_metrics r m) 0)"
proof -
  let ?M = "monthFromSnapshotSk (sr_sk s)" and ?d = "diff_rows (sorted_rows rows)"
  have "metric_sum m (map snd ?d) =
      metric_sum m (map snd (filter (\<lambda>d. take 7 (fst d) \<ge> ?M) ?d)) +
      metric_sum m (map snd (filter (\<lambda>d. \<not> take 7 (fst d) \<ge> ?M) ?d))"
    by (rule metric_sum_partition)
  moreover have "metric_sum m (map snd ?d) =
      (\<Sum>r\<leftarrow>filter (\<lambda>r. \<not> isSnapshotRow r) rows. nullish (sr_metrics r m) 0)"
    using metric_sum_diff_rows [of m "\<lambda>_. True" rows] by simp
  moreover have "metric_sum m (map snd (filter (\<lambda>d. \<not> take 7 (fst d) \<ge> ?M) ?d)) = nullish (sr_metrics s m) 0"
    using metric_sum_diff_rows [of m "\<lambda>d. \<not> take 7 d \<ge> ?M" rows] correct [of m] by (simp add: not_le)
  moreover have "total_metrics rows m =
      Some (nullish (sr_metrics s m) 0 + metric_sum m (map snd (filter (\<lambda>d. take 7 (fst d) \<ge> ?M) ?d)))"
    using filter_one_snapshot [OF one] month
    by (simp add: total_metrics_def Let_def computeSnapshot_value)
  ultimately show ?thesis by simp
qed

definition example_rows :: "stats_row list" where
  "example_rows =
     [\<lparr>sr_sk = ''STATS#2026-02-03'', sr_metrics = [MAllowed \<mapsto> 3]\<rparr>,
      \<lparr>sr_sk = ''STATS#2026-01-31'', sr_metrics = [MAllowed \<mapsto> 4]\<rparr>,
      \<lparr>sr_sk = ''STATS#2026-02-00-SNAPSHOT'',
       sr_metrics = [MAllowed \<mapsto> 4, MBlocked \<mapsto> 0, MQuarantined \<mapsto> 0, MReported \<mapsto> 0, MTotalAliases \<mapsto> 0]\<rparr>]"

lemma snapshot_checkpoint_witness: "total_metrics example_rows MAllowed = Some 7"
proof -
  let ?s = "\<lparr>sr_sk = ''STATS#2026-02-00-SNAPSHOT'',
       sr_metrics = [MAllowed \<mapsto> 4, MBlocked \<mapsto> 0, MQuarantined \<mapsto> 0, MReported \<mapsto> 0, MTotalAliases \<mapsto> 0]\<rparr>"
  have one: "filter isSnapshotRow example_rows = [?s]"
    by (simp add: example_rows_def isSnapshotRow_def ends_with_def suffix_def Cons_eq_append_conv)
  have c: "nullish (sr_metrics ?s m) 0 =
      (\<Sum>r\<leftarrow>filter (\<lambda>r. take 7 (dateFromDiffSk (sr_sk r)) < monthFromSnapshotSk (sr_sk ?s) \<and> \<not> isSnapshotRow r) example_rows.
         nullish (sr_metrics r m) 0)" for m
    by (cases m) (simp_all add: example_rows_def isSnapshotRow_def ends_with_def suffix_def Cons_eq_append_conv
        dateFromDiffSk_def monthFromSnapshotSk_def less_char_def)
  show ?thesis
    using snapshot_checkpoint [OF one _ c, of MAllowed]
    by (simp add: monthFromSnapshotSk_def example_rows_def isSnapshotRow_def ends_with_def suffix_def Cons_eq_append_conv)
qed

lemma sum_groups:
  fixes f :: "'a \<Rightarrow> int"
  shows "(\<Sum>g\<leftarrow>group_insert k x gs. \<Sum>y\<leftarrow>snd g. f y) = f x + (\<Sum>g\<leftarrow>gs. \<Sum>y\<leftarrow>snd g. f y)"
  by (induction k x gs rule: group_insert.induct) auto

lemma sum_group_by:
  fixes f :: "'a \<Rightarrow> int"
  shows "(\<Sum>g\<leftarrow>group_by key xs. \<Sum>y\<leftarrow>snd g. f y) = (\<Sum>y\<leftarrow>xs. f y)"
proof -
  have "(\<Sum>g\<leftarrow>group_from key gs xs. \<Sum>y\<leftarrow>snd g. f y) = (\<Sum>g\<leftarrow>gs. \<Sum>y\<leftarrow>snd g. f y) + (\<Sum>y\<leftarrow>xs. f y)" for gs
    by (induction xs arbitrary: gs) (simp_all add: sum_groups)
  then show ?thesis by (simp add: group_by_def)
qed

text \<open>
  The monthly view is a rollup of the daily view: there is one bucket per month, in
  descending order, and for every column the sums of the two views agree.
\<close>

theorem monthly_rollup:
  "sorted_wrt (\<lambda>a b. bk_date b < bk_date a) (st_monthly (aggregateStatsRows rows))
   \<and> set (map bk_date (st_monthly (aggregateStatsRows rows)))
       = (\<lambda>b. take 7 (bk_date b)) ` set (st_daily (aggregateStatsRows rows))
   \<and> (\<forall>col \<in> {bk_allowed, bk_quarantined, bk_blocked, bk_aliases}.
        (\<Sum>b\<leftarrow>st_monthly (aggregateStatsRows rows). col b) = (\<Sum>b\<leftarrow>st_daily (aggregateStatsRows rows). col b))"
proof -
  define diffs where "diffs = diff_rows (sorted_rows rows)"
  define gs where "gs = group_by (\<lambda>d. take 7 (fst d)) diffs"
  have monthly: "st_monthly (aggregateStatsRows rows) = map month_bucket (sort_by (ge_by fst) gs)"
    and daily: "st_daily (aggregateStatsRows rows) = sort_by (ge_by bk_date) (map bucket_of diffs)"
    by (simp_all add: aggregateStatsRows_def Let_def diffs_def gs_def)
  have dist: "distinct (map fst gs)" and keys: "fst ` set gs = (\<lambda>d. take 7 (fst d)) ` set diffs"
    unfolding gs_def by (rule group_by_keys)+
  have "sorted_wrt (ge_by fst) (sort_by (ge_by fst) gs)" by (rule key_order_desc.sort_by_sorted)
  moreover have "distinct (map fst (sort_by (ge_by fst) gs))"
  proof -
    have "distinct (map fst (insert_by (ge_by fst) x ys)) \<longleftrightarrow> fst x \<notin> fst ` set ys \<and> distinct (map fst ys)"
      for x :: "str \<times> (str \<times> metrics) list" and ys
      by (induction ys) auto
    then have "distinct (map fst (sort_by (ge_by fst) zs)) \<longleftrightarrow> distinct (map fst zs)"
      for zs :: "(str \<times> (str \<times> metrics) list) list"
      by (induction zs) auto
    with dist show ?thesis by simp
  qed
  moreover have "sorted_wrt (\<lambda>a b. fst b < fst a) ys" if "sorted_wrt (ge_by fst) ys" "distinct (map fst ys)"
    for ys :: "(str \<times> (str \<times> metrics) list) list"
    using that by (induction ys) (force simp: ge_by_def less_le)+
  ultimately have "sorted_wrt (\<lambda>a b. fst b < fst a) (sort_by (ge_by fst) gs)" by blast
  then have s: "sorted_wrt (\<lambda>a b. bk_date b < bk_date a) (st_monthly (aggregateStatsRows rows))"
    by (simp add: monthly sorted_wrt_map month_bucket_def Let_def)
  have d: "set (map bk_date (st_monthly (aggregateStatsRows rows))) =
      (\<lambda>b. take 7 (bk_date b)) ` set (st_daily (aggregateStatsRows rows))"
    using keys by (simp add: monthly daily image_image month_bucket_def Let_def bucket_of_def)
  have c: "(\<Sum>b\<leftarrow>st_monthly (aggregateStatsRows rows). col b) = (\<Sum>b\<leftarrow>st_daily (aggregateStatsRows rows). col b)"
    if "\<And>g. col (month_bucket g) = (\<Sum>x\<leftarrow>snd g. col (bucket_of x))" for col :: "api_bucket \<Rightarrow> int"
  proof -
    have "(\<Sum>b\<leftarrow>st_monthly (aggregateStatsRows rows). col b) = (\<Sum>g\<leftarrow>gs. \<Sum>x\<leftarrow>snd g. col (bucket_of x))"
      unfolding monthly map_map comp_def that by (rule sum_list_sort_by)
    then show ?thesis
      by (simp add: gs_def sum_group_by daily sum_list_sort_by comp_def)
  qed
  show ?thesis using s d c by (auto simp: month_bucket_def Let_def comp_def)
qed

lemma monthly_rollup_witness:
  "(\<Sum>b\<leftarrow>st_monthly (aggregateStatsRows example_rows). bk_allowed b) = 7"
proof -
  have "(\<Sum>b\<leftarrow>st_monthly (aggregateStatsRows example_rows). bk_allowed b) =
        (\<Sum>b\<leftarrow>st_daily (aggregateStatsRows example_rows). bk_allowed b)"
    using monthly_rollup [of example_rows] by blast
  then show ?thesis
    by (simp add: aggregateStatsRows_def Let_def sum_list_sort_by comp_def bucket_of_def diff_rows_def
        sorted_rows_def sum_filter_sort_by)
       (simp add: example_rows_def isSnapshotRow_def ends_with_def suffix_def Cons_eq_append_conv)
qed

end
