(* ===== verification/StatsJob.thy ===== *)
theory StatsJob
  imports Stats
begin

text \<open>
  The monthly snapshot job (\<open>ensureStatsSnapshot\<close> of \<open>jobs/domain-health-job.ts\<close>, with the ranged
  \<open>getStats\<close> of \<open>database/account-database.ts\<close>): the table is the list of the account's rows, and
  the job returns the row it writes, if any. That a snapshot so written is correct is what
  \<open>snapshot_checkpoint\<close> asks for.
\<close>

definition getStatsFrom :: "stats_row list \<Rightarrow> str \<Rightarrow> stats_row list" where
  "getStatsFrom table fromSk = sort_by le_sk (filter (\<lambda>r. fromSk \<le> sr_sk r) table)"

type_synonym job_state = "metrics option \<times> str option \<times> metrics list"

definition job_step :: "str \<Rightarrow> job_state \<Rightarrow> stats_row \<Rightarrow> job_state" where
  "job_step currentMonth st row =
     (case st of (latestSnapshot, snapshotMonth, diffs) \<Rightarrow>
        if isSnapshotRow row then (Some (sr_metrics row), Some (monthFromSnapshotSk (sr_sk row)), diffs)
        else (let diffMonth = take 7 (dateFromDiffSk (sr_sk row))
              in if diffMonth < currentMonth \<and>
                    (case snapshotMonth of None \<Rightarrow> True | Some M \<Rightarrow> M = [] \<or> diffMonth \<ge> M)
                 then (latestSnapshot, snapshotMonth, diffs @ [sr_metrics row])
                 else (latestSnapshot, snapshotMonth, diffs)))"

definition ensureStatsSnapshot :: "stats_row list \<Rightarrow> str \<Rightarrow> str \<Rightarrow> stats_row option" where
  "ensureStatsSnapshot table currentMonth previousMonth =
     (let rows = getStatsFrom table (buildSnapshotSk previousMonth)
      in if list_ex (\<lambda>r. sr_sk r = buildSnapshotSk currentMonth) rows then None
         else (case foldl (job_step currentMonth) (None, None, []) rows of
                 (latestSnapshot, _, diffs) \<Rightarrow>
                   Some \<lparr>sr_sk = buildSnapshotSk currentMonth, sr_metrics = computeSnapshot latestSnapshot diffs\<rparr>))"

section \<open>Order of the keys\<close>

lemma append_le_iff:
  fixes a b x y :: str
  assumes "length a = length b"
  shows "a @ x \<le> b @ y \<longleftrightarrow> a < b \<or> (a = b \<and> x \<le> y)"
  using assms
proof (induction a arbitrary: b)
  case (Cons c a)
  then obtain d b' where "b = d # b'" "length a = length b'" by (cases b) auto
  with Cons.IH [of b'] show ?case by auto
qed simp

definition diff_key :: "str \<Rightarrow> bool" where
  "diff_key sk \<longleftrightarrow> (\<exists>mon day. sk = ''STATS#'' @ mon @ ''-'' @ day \<and> length mon = 7 \<and> length day = 2 \<and> ''00'' < day)"

lemma diff_key_facts:
  assumes "diff_key sk" "length prev = 7"
  shows "\<not> ends_with sk ''-SNAPSHOT''"
    and "buildSnapshotSk prev \<le> sk \<longleftrightarrow> prev \<le> take 7 (dateFromDiffSk sk)"
    and "sk \<noteq> buildSnapshotSk m"
proof -
  obtain mon day where sk: "sk = ''STATS#'' @ mon @ ''-'' @ day" and l: "length mon = 7" "length day = 2" "''00'' < day"
    using assms(1) by (auto simp: diff_key_def)
  have len: "length sk = 16" using sk l by simp
  show no: "\<not> ends_with sk ''-SNAPSHOT''"
  proof
    assume "ends_with sk ''-SNAPSHOT''"
    then obtain p where p: "sk = p @ ''-SNAPSHOT''" by (auto simp: ends_with_def suffix_def)
    then have "length p = 7" using len by simp
    then have "drop 7 sk = ''-SNAPSHOT''" using p by simp
    moreover have "drop 7 sk = drop 1 mon @ ''-'' @ day" using sk l by (simp add: numeral_eq_Suc)
    ultimately have e: "drop 1 mon @ ''-'' @ day = ''-SNAPSHOT''" by simp
    have "length (drop 1 mon) = 6" using l by simp
    with e have "''-'' @ day = drop 6 ''-SNAPSHOT''" by (metis append_eq_conv_conj)
    then show False by simp
  qed
  have "take 7 (dateFromDiffSk sk) = mon" using sk l by (simp add: dateFromDiffSk_def)
  moreover have "buildSnapshotSk prev \<le> sk \<longleftrightarrow> prev < mon \<or> (prev = mon \<and> ''-00-SNAPSHOT'' \<le> ''-'' @ day)"
    using append_le_iff [of prev mon "''-00-SNAPSHOT''" "''-'' @ day"] l assms(2)
    by (simp add: buildSnapshotSk_def sk)
  moreover have "''-00-SNAPSHOT'' \<le> ''-'' @ day"
  proof -
    obtain c d where "day = [c, d]" using l(2) by (auto simp: length_Suc_conv numeral_eq_Suc)
    with l(3) show ?thesis by auto
  qed
  ultimately show "buildSnapshotSk prev \<le> sk \<longleftrightarrow> prev \<le> take 7 (dateFromDiffSk sk)"
    by (auto simp: le_less)
  have "ends_with (buildSnapshotSk m) ''-SNAPSHOT''"
    by (simp add: ends_with_def buildSnapshotSk_def suffix_def)
  with no show "sk \<noteq> buildSnapshotSk m" by auto
qed

lemma foldl_job_diffs:
  assumes "\<forall>r\<in>set ds. \<not> isSnapshotRow r \<and> M \<le> take 7 (dateFromDiffSk (sr_sk r))"
  shows "foldl (job_step cur) (b, Some M, acc) ds =
    (b, Some M, acc @ map sr_metrics (filter (\<lambda>r. take 7 (dateFromDiffSk (sr_sk r)) < cur) ds))"
  using assms by (induction ds arbitrary: acc) (auto simp: job_step_def Let_def)

lemma sorted_min_first:
  assumes "sorted_wrt le_sk xs" "s \<in> set xs" "\<forall>x\<in>set xs. x = s \<or> sr_sk s < sr_sk x" "distinct xs"
  shows "\<exists>ds. xs = s # ds \<and> s \<notin> set ds"
proof (cases xs)
  case (Cons x ds)
  with assms have "x = s" by (force simp: le_sk_def)
  with Cons assms(4) show ?thesis by auto
qed (use assms in simp)

lemma sort_by_filter_order: "sum_list (map f (filter P (sort_by le_sk xs))) = (sum_list (map f (filter P xs)) :: int)"
  by (rule sum_filter_sort_by)

definition all_before :: "stats_row list \<Rightarrow> str \<Rightarrow> stats_metric \<Rightarrow> int" where
  "all_before table month m =
     (\<Sum>r\<leftarrow>filter (\<lambda>r. take 7 (dateFromDiffSk (sr_sk r)) < month \<and> \<not> isSnapshotRow r) table. nullish (sr_metrics r m) 0)"

text \<open>
  Snapshots chain: if last month's snapshot exists and holds the sums of all the earlier
  differences, the job writes a snapshot for this month that holds the sums of all the differences
  before this month.
\<close>

theorem snapshot_chain:
  assumes s: "s \<in> set table" "sr_sk s = buildSnapshotSk prev" "length prev = 7"
    and correct: "nullish (sr_metrics s m) 0 = all_before table prev m"
    and rows: "\<forall>r\<in>set table. r = s \<or> diff_key (sr_sk r) \<or> (isSnapshotRow r \<and> sr_sk r < sr_sk s)"
    and later: "prev < cur" and dist: "distinct table"
  shows "\<exists>r. ensureStatsSnapshot table cur prev = Some r \<and> sr_sk r = buildSnapshotSk cur
           \<and> sr_metrics r m = Some (all_before table cur m)"
proof -
  let ?rows = "getStatsFrom table (buildSnapshotSk prev)"
  have snap: "isSnapshotRow s" by (simp add: isSnapshotRow_def s(2) ends_with_def buildSnapshotSk_def suffix_def)
  have mon: "monthFromSnapshotSk (sr_sk s) = prev" using s(2,3) by (simp add: monthFromSnapshotSk_def buildSnapshotSk_def)
  have dk: "\<not> isSnapshotRow r \<and> (sr_sk s \<le> sr_sk r \<longleftrightarrow> prev \<le> take 7 (dateFromDiffSk (sr_sk r))) \<and> sr_sk r \<noteq> buildSnapshotSk k"
    if "diff_key (sr_sk r)" for r k
    using diff_key_facts [OF that s(3)] s(2) by (simp add: isSnapshotRow_def)
  have rows_cases: "r = s \<or> (diff_key (sr_sk r) \<and> sr_sk s < sr_sk r \<and> prev \<le> take 7 (dateFromDiffSk (sr_sk r)))"
    if "r \<in> set ?rows" for r
  proof -
    from that have r: "r \<in> set table" "sr_sk s \<le> sr_sk r" by (auto simp: getStatsFrom_def s(2))
    with rows consider "r = s" | "diff_key (sr_sk r)" | "sr_sk r < sr_sk s" by blast
    then show ?thesis
    proof cases
      case 2
      then have "sr_sk r \<noteq> sr_sk s" using dk [of r prev] s(2) by simp
      with 2 dk [of r prev] r show ?thesis by auto
    qed (use r in auto)
  qed
  have "\<exists>ds. ?rows = s # ds \<and> s \<notin> set ds"
  proof (rule sorted_min_first)
    show "sorted_wrt le_sk ?rows" unfolding getStatsFrom_def by (rule sk_order.sort_by_sorted)
    show "s \<in> set ?rows" using s by (simp add: getStatsFrom_def)
    show "\<forall>x\<in>set ?rows. x = s \<or> sr_sk s < sr_sk x" using rows_cases by blast
    show "distinct ?rows" using dist by (simp add: getStatsFrom_def)
  qed
  then obtain ds where ds: "?rows = s # ds" "s \<notin> set ds" by blast
  have dsr: "\<forall>r\<in>set ds. diff_key (sr_sk r) \<and> prev \<le> take 7 (dateFromDiffSk (sr_sk r))"
    using rows_cases ds by auto
  have nocur: "\<not> list_ex (\<lambda>r. sr_sk r = buildSnapshotSk cur) ?rows"
  proof
    assume "list_ex (\<lambda>r. sr_sk r = buildSnapshotSk cur) ?rows"
    then obtain r where r: "r \<in> set ?rows" "sr_sk r = buildSnapshotSk cur" by (auto simp: list_ex_iff)
    from rows_cases [OF r(1)] dk [of r cur] r(2) have "r = s" by blast
    with r(2) s(2) have "prev = cur" by (simp add: buildSnapshotSk_def)
    with later show False by simp
  qed
  have f: "foldl (job_step cur) (None, None, []) ?rows =
      (Some (sr_metrics s), Some prev, map sr_metrics (filter (\<lambda>r. take 7 (dateFromDiffSk (sr_sk r)) < cur) ds))"
    using foldl_job_diffs [of ds prev cur "Some (sr_metrics s)" "[]"] dsr dk [of _ prev] snap mon
    by (simp add: ds(1) job_step_def)
  have sum: "metric_sum m (map sr_metrics (filter (\<lambda>r. take 7 (dateFromDiffSk (sr_sk r)) < cur) ds)) =
      (\<Sum>r\<leftarrow>filter (\<lambda>r. take 7 (dateFromDiffSk (sr_sk r)) < cur \<and> \<not> isSnapshotRow r \<and> sr_sk s \<le> sr_sk r) table.
         nullish (sr_metrics r m) 0)"
  proof -
    have "filter (\<lambda>r. take 7 (dateFromDiffSk (sr_sk r)) < cur) ds =
          filter (\<lambda>r. take 7 (dateFromDiffSk (sr_sk r)) < cur \<and> \<not> isSnapshotRow r) ?rows"
      using dsr dk [of _ prev] snap by (auto simp: ds(1) intro!: filter_cong)
    then show ?thesis
      by (simp add: metric_sum_def comp_def getStatsFrom_def sort_by_filter_order filter_filter s(2)
          conj_commute conj_left_commute)
  qed
  have split: "all_before table cur m = all_before table prev m +
      (\<Sum>r\<leftarrow>filter (\<lambda>r. take 7 (dateFromDiffSk (sr_sk r)) < cur \<and> \<not> isSnapshotRow r \<and> sr_sk s \<le> sr_sk r) table.
         nullish (sr_metrics r m) 0)"
  proof -
    have part: "(\<Sum>r\<leftarrow>filter P xs. g r) = (\<Sum>r\<leftarrow>filter Q xs. g r) + (\<Sum>r\<leftarrow>filter R xs. g r :: int)"
      if "\<forall>r\<in>set xs. (P r \<longleftrightarrow> Q r \<or> R r) \<and> \<not> (Q r \<and> R r)" for P Q R g and xs :: "stats_row list"
      using that by (induction xs) auto
    show ?thesis unfolding all_before_def
    proof (rule part, intro ballI)
      fix r assume r: "r \<in> set table"
      show "(take 7 (dateFromDiffSk (sr_sk r)) < cur \<and> \<not> isSnapshotRow r \<longleftrightarrow>
             (take 7 (dateFromDiffSk (sr_sk r)) < prev \<and> \<not> isSnapshotRow r) \<or>
             (take 7 (dateFromDiffSk (sr_sk r)) < cur \<and> \<not> isSnapshotRow r \<and> sr_sk s \<le> sr_sk r)) \<and>
            \<not> ((take 7 (dateFromDiffSk (sr_sk r)) < prev \<and> \<not> isSnapshotRow r) \<and>
               (take 7 (dateFromDiffSk (sr_sk r)) < cur \<and> \<not> isSnapshotRow r \<and> sr_sk s \<le> sr_sk r))"
      proof (cases "isSnapshotRow r")
        case False
        with rows r snap have "diff_key (sr_sk r)" by auto
        with dk [of r prev] later False show ?thesis by auto
      qed simp
    qed
  qed
  show ?thesis
    using nocur f sum split correct
    by (simp add: ensureStatsSnapshot_def Let_def computeSnapshot_value)
qed

lemma snapshot_chain_witness:
  "\<exists>r. ensureStatsSnapshot
      [\<lparr>sr_sk = ''STATS#2026-03-00-SNAPSHOT'', sr_metrics = [MAllowed \<mapsto> 4]\<rparr>,
       \<lparr>sr_sk = ''STATS#2026-02-07'', sr_metrics = [MAllowed \<mapsto> 4]\<rparr>,
       \<lparr>sr_sk = ''STATS#2026-03-02'', sr_metrics = [MAllowed \<mapsto> 5]\<rparr>] ''2026-04'' ''2026-03'' = Some r
    \<and> sr_sk r = buildSnapshotSk ''2026-04'' \<and> sr_metrics r MAllowed = Some 9"
proof -
  let ?t = "[\<lparr>sr_sk = ''STATS#2026-03-00-SNAPSHOT'', sr_metrics = [MAllowed \<mapsto> 4]\<rparr>,
       \<lparr>sr_sk = ''STATS#2026-02-07'', sr_metrics = [MAllowed \<mapsto> 4]\<rparr>,
       \<lparr>sr_sk = ''STATS#2026-03-02'', sr_metrics = [MAllowed \<mapsto> 5]\<rparr>]"
  have d: "diff_key ''STATS#2026-02-07''" "diff_key ''STATS#2026-03-02''"
    unfolding diff_key_def
    by (rule exI [of _ "''2026-02''"], rule exI [of _ "''07''"], simp add: less_char_def)
       (rule exI [of _ "''2026-03''"], rule exI [of _ "''02''"], simp add: less_char_def)
  have "\<exists>r. ensureStatsSnapshot ?t ''2026-04'' ''2026-03'' = Some r \<and> sr_sk r = buildSnapshotSk ''2026-04''
      \<and> sr_metrics r MAllowed = Some (all_before ?t ''2026-04'' MAllowed)"
    by (rule snapshot_chain [where s = "\<lparr>sr_sk = ''STATS#2026-03-00-SNAPSHOT'', sr_metrics = [MAllowed \<mapsto> 4]\<rparr>"])
       (use d in \<open>simp_all add: buildSnapshotSk_def all_before_def dateFromDiffSk_def isSnapshotRow_def ends_with_def
          suffix_def Cons_eq_append_conv less_char_def\<close>)
  moreover have "all_before ?t ''2026-04'' MAllowed = 9"
    by (simp add: all_before_def dateFromDiffSk_def isSnapshotRow_def ends_with_def suffix_def
        Cons_eq_append_conv less_char_def)
  ultimately show ?thesis by simp
qed

definition gap_table :: "stats_row list" where
  "gap_table =
     [\<lparr>sr_sk = ''STATS#2026-03-00-SNAPSHOT'', sr_metrics = [MAllowed \<mapsto> 10]\<rparr>,
      \<lparr>sr_sk = ''STATS#2026-04-02'', sr_metrics = [MAllowed \<mapsto> 1]\<rparr>]"

text \<open>
  A missed month loses the history: the job reads only from the position of last month's
  snapshot, so when that snapshot was never written it starts from zero. Here the totals are 11
  before the job and 1 after it.
\<close>

theorem snapshot_gap_loses_totals:
  "total_metrics gap_table MAllowed = Some 11
   \<and> (case ensureStatsSnapshot gap_table ''2026-05'' ''2026-04'' of
        Some r \<Rightarrow> total_metrics (gap_table @ [r]) MAllowed = Some 1
      | None \<Rightarrow> False)"
  by code_simp

end
