(* ===== verification/Counters.thy ===== *)
theory Counters
  imports Stats "HOL-Library.Multiset"
begin

text \<open>
  The counter write of the statistics (\<open>writeDiffMetric\<close> and \<open>trimHistory\<close> of
  \<open>database/account-database.ts\<close>) as a concurrent system: any number of workers, each somewhere in
  the sequence of DynamoDB requests of the method, on the one row of an account and a day. A step
  is one request of one worker. A request may fail without effect, take effect and lose its
  answer, and a read may be stale.

  A worker is a call of the method; a message that is delivered again is another worker with the
  same idempotency key. \<open>cs_log\<close> and \<open>cs_trimmed\<close> are ghosts: the increments that took effect and the
  keys removed from the row's history.
\<close>

section \<open>The row and the requests\<close>

record counter_row =
  cw_metrics :: metrics
  cw_history :: "str list"

text \<open>\<open>ADD #metrics.#metricName :delta SET history = list_append(history, :keyList)\<close> under
  \<open>attribute_exists(pk) AND NOT contains(history, :key)\<close>; \<open>None\<close> when the condition fails\<close>

definition do_update :: "stats_metric \<Rightarrow> int \<Rightarrow> str \<Rightarrow> counter_row option \<Rightarrow> counter_row option" where
  "do_update m d k row =
     (case row of
        None \<Rightarrow> None
      | Some r \<Rightarrow>
          (if k \<in> set (cw_history r) then None
           else Some \<lparr>cw_metrics = (cw_metrics r)(m := Some (nullish (cw_metrics r m) 0 + d)),
                      cw_history = cw_history r @ [k]\<rparr>))"

text \<open>\<open>PutItem\<close> of the row under \<open>attribute_not_exists(pk)\<close>\<close>

definition do_put :: "stats_metric \<Rightarrow> int \<Rightarrow> str \<Rightarrow> counter_row option \<Rightarrow> counter_row option" where
  "do_put m d k row =
     (case row of None \<Rightarrow> Some \<lparr>cw_metrics = [m \<mapsto> d], cw_history = [k]\<rparr> | Some _ \<Rightarrow> None)"

text \<open>\<open>REMOVE history[0], ..., history[9]\<close>\<close>

definition do_trim :: "counter_row \<Rightarrow> counter_row" where
  "do_trim r = r\<lparr>cw_history := drop 10 (cw_history r)\<rparr>"

section \<open>The method\<close>

datatype pc = PcUpdate | PcGet | PcRetry | PcPut | PcRace | PcTrimGet | PcTrim | PcOk | PcErr

datatype db_answer = Applied | CondFailed | Failed | HistoryIs "str list option"

fun next_pc :: "str \<Rightarrow> pc \<Rightarrow> db_answer \<Rightarrow> pc" where
  "next_pc k PcUpdate Applied = PcTrimGet"
| "next_pc k PcUpdate CondFailed = PcGet"
| "next_pc k PcGet (HistoryIs (Some h)) = (if k \<in> set h then PcOk else PcRetry)"
| "next_pc k PcGet (HistoryIs None) = PcPut"
| "next_pc k PcRetry Applied = PcTrimGet"
| "next_pc k PcRetry CondFailed = PcOk"
| "next_pc k PcPut Applied = PcOk"
| "next_pc k PcPut CondFailed = PcRace"
| "next_pc k PcRace Applied = PcTrimGet"
| "next_pc k PcRace CondFailed = PcOk"
| "next_pc k PcTrimGet (HistoryIs h) = (if length (nullish h []) \<le> 100 then PcOk else PcTrim)"
| "next_pc k PcTrimGet _ = PcOk"
| "next_pc k PcTrim _ = PcOk"
| "next_pc k PcOk _ = PcOk"
| "next_pc k _ _ = PcErr"

record worker =
  wk_metric :: stats_metric
  wk_delta :: int
  wk_key :: str
  wk_pc :: pc

type_synonym log_entry = "stats_metric \<times> int \<times> str"

definition log_key :: "log_entry \<Rightarrow> str" where
  "log_key x = snd (snd x)"

record counter_state =
  cs_row :: "counter_row option"
  cs_workers :: "worker list"
  cs_log :: "log_entry list"
  cs_trimmed :: "str list"

definition entry :: "worker \<Rightarrow> log_entry" where
  "entry w = (wk_metric w, wk_delta w, wk_key w)"

definition advance :: "nat \<Rightarrow> db_answer \<Rightarrow> counter_state \<Rightarrow> counter_state" where
  "advance i ans s =
     s\<lparr>cs_workers := (cs_workers s)[i := (cs_workers s ! i)
        \<lparr>wk_pc := next_pc (wk_key (cs_workers s ! i)) (wk_pc (cs_workers s ! i)) ans\<rparr>]\<rparr>"

text \<open>A possibly stale read: no row, or the history of some earlier state of the row\<close>

definition may_read :: "counter_state \<Rightarrow> str list option \<Rightarrow> bool" where
  "may_read s h \<longleftrightarrow>
     (case h of None \<Rightarrow> True
      | Some ks \<Rightarrow> cs_row s \<noteq> None \<and> distinct ks \<and> set ks \<subseteq> log_key ` set (cs_log s))"

inductive cstep :: "counter_state \<Rightarrow> counter_state \<Rightarrow> bool" where
  arrive: "cstep s (s\<lparr>cs_workers := cs_workers s @ [\<lparr>wk_metric = m, wk_delta = d, wk_key = k, wk_pc = PcUpdate\<rparr>]\<rparr>)"
| update: "i < length (cs_workers s) \<Longrightarrow> w = cs_workers s ! i \<Longrightarrow> wk_pc w \<in> {PcUpdate, PcRetry, PcRace} \<Longrightarrow>
    do_update (wk_metric w) (wk_delta w) (wk_key w) (cs_row s) = Some r \<Longrightarrow> ans \<in> {Applied, Failed} \<Longrightarrow>
    cstep s (advance i ans (s\<lparr>cs_row := Some r, cs_log := cs_log s @ [entry w]\<rparr>))"
| update_cond: "i < length (cs_workers s) \<Longrightarrow> w = cs_workers s ! i \<Longrightarrow> wk_pc w \<in> {PcUpdate, PcRetry, PcRace} \<Longrightarrow>
    do_update (wk_metric w) (wk_delta w) (wk_key w) (cs_row s) = None \<Longrightarrow>
    cstep s (advance i CondFailed s)"
| put: "i < length (cs_workers s) \<Longrightarrow> w = cs_workers s ! i \<Longrightarrow> wk_pc w = PcPut \<Longrightarrow>
    do_put (wk_metric w) (wk_delta w) (wk_key w) (cs_row s) = Some r \<Longrightarrow> ans \<in> {Applied, Failed} \<Longrightarrow>
    cstep s (advance i ans (s\<lparr>cs_row := Some r, cs_log := cs_log s @ [entry w]\<rparr>))"
| put_cond: "i < length (cs_workers s) \<Longrightarrow> w = cs_workers s ! i \<Longrightarrow> wk_pc w = PcPut \<Longrightarrow>
    do_put (wk_metric w) (wk_delta w) (wk_key w) (cs_row s) = None \<Longrightarrow>
    cstep s (advance i CondFailed s)"
| read: "i < length (cs_workers s) \<Longrightarrow> wk_pc (cs_workers s ! i) \<in> {PcGet, PcTrimGet} \<Longrightarrow> may_read s h \<Longrightarrow>
    cstep s (advance i (HistoryIs h) s)"
| trim: "i < length (cs_workers s) \<Longrightarrow> wk_pc (cs_workers s ! i) = PcTrim \<Longrightarrow> cs_row s = Some r \<Longrightarrow>
    ans \<in> {Applied, Failed} \<Longrightarrow>
    cstep s (advance i ans (s\<lparr>cs_row := Some (do_trim r), cs_trimmed := cs_trimmed s @ take 10 (cw_history r)\<rparr>))"
| fail: "i < length (cs_workers s) \<Longrightarrow> cstep s (advance i Failed s)"

inductive creachable :: "counter_state \<Rightarrow> bool" where
  start: "creachable \<lparr>cs_row = None, cs_workers = [], cs_log = [], cs_trimmed = []\<rparr>"
| step: "creachable s \<Longrightarrow> cstep s s' \<Longrightarrow> creachable s'"

section \<open>The invariant\<close>

definition log_sum :: "stats_metric \<Rightarrow> log_entry list \<Rightarrow> int" where
  "log_sum m lg = (\<Sum>x\<leftarrow>lg. if fst x = m then fst (snd x) else 0)"

definition row_value :: "counter_row option \<Rightarrow> stats_metric \<Rightarrow> int" where
  "row_value row m = (case row of None \<Rightarrow> 0 | Some r \<Rightarrow> nullish (cw_metrics r m) 0)"

definition row_history :: "counter_row option \<Rightarrow> str list" where
  "row_history row = (case row of None \<Rightarrow> [] | Some r \<Rightarrow> cw_history r)"

definition row_inv :: "counter_state \<Rightarrow> bool" where
  "row_inv s \<longleftrightarrow>
     (cs_row s = None \<longrightarrow> cs_log s = []) \<and>
     (\<forall>m. row_value (cs_row s) m = log_sum m (cs_log s)) \<and>
     distinct (row_history (cs_row s)) \<and>
     mset (row_history (cs_row s)) + mset (cs_trimmed s) = mset (map log_key (cs_log s)) \<and>
     (cs_trimmed s \<noteq> [] \<longrightarrow> card (log_key ` set (cs_log s)) > 100)"

definition worker_inv :: "counter_state \<Rightarrow> worker \<Rightarrow> bool" where
  "worker_inv s w \<longleftrightarrow>
     (wk_pc w \<in> {PcOk, PcTrimGet, PcTrim} \<longrightarrow> wk_key w \<in> log_key ` set (cs_log s)) \<and>
     (wk_pc w \<in> {PcRetry, PcRace} \<longrightarrow> cs_row s \<noteq> None) \<and>
     (wk_pc w = PcTrim \<longrightarrow> card (log_key ` set (cs_log s)) > 100)"

definition counter_inv :: "counter_state \<Rightarrow> bool" where
  "counter_inv s \<longleftrightarrow> row_inv s \<and> (\<forall>w\<in>set (cs_workers s). worker_inv s w)"

lemma log_sum_snoc [simp]: "log_sum m (lg @ [x]) = log_sum m lg + (if fst x = m then fst (snd x) else 0)"
  by (simp add: log_sum_def)

lemma log_sum_Nil [simp]: "log_sum m [] = 0"
  by (simp add: log_sum_def)

lemma set_history_log:
  "row_inv s \<Longrightarrow> set (row_history (cs_row s)) \<union> set (cs_trimmed s) = log_key ` set (cs_log s)"
  unfolding row_inv_def by (metis set_mset_mset set_mset_union list.set_map)

lemma card_grows: "card (log_key ` set lg) > n \<Longrightarrow> card (log_key ` set (lg @ [x])) > n"
  by (rule less_le_trans [of n "card (log_key ` set lg)"]) (auto intro: card_mono)

lemma row_inv_update:
  assumes "row_inv s" "do_update (wk_metric w) (wk_delta w) (wk_key w) (cs_row s) = Some r"
  shows "row_inv (s\<lparr>cs_row := Some r, cs_log := cs_log s @ [entry w]\<rparr>)"
proof -
  obtain r0 where r0: "cs_row s = Some r0" "wk_key w \<notin> set (cw_history r0)"
    and r: "r = \<lparr>cw_metrics = (cw_metrics r0)(wk_metric w := Some (nullish (cw_metrics r0 (wk_metric w)) 0 + wk_delta w)),
               cw_history = cw_history r0 @ [wk_key w]\<rparr>"
    using assms(2) by (auto simp: do_update_def split: option.splits if_splits)
  have k: "log_key (entry w) = wk_key w" by (simp add: log_key_def entry_def)
  have v: "row_value (Some r) m = log_sum m (cs_log s @ [entry w])" for m
    using assms(1) r0(1) by (simp add: row_inv_def row_value_def r entry_def)
  have h: "row_history (Some r) = row_history (cs_row s) @ [wk_key w]"
    using r0(1) by (simp add: row_history_def r)
  have d: "distinct (row_history (Some r))"
    using assms(1) r0 unfolding h by (simp add: row_inv_def row_history_def)
  have m: "mset (row_history (Some r)) + mset (cs_trimmed s) = mset (map log_key (cs_log s @ [entry w]))"
    using assms(1) unfolding h by (simp add: row_inv_def k)
  have c: "cs_trimmed s \<noteq> [] \<longrightarrow> card (log_key ` set (cs_log s @ [entry w])) > 100"
  proof
    assume "cs_trimmed s \<noteq> []"
    with assms(1) have "card (log_key ` set (cs_log s)) > 100" by (simp add: row_inv_def)
    then show "card (log_key ` set (cs_log s @ [entry w])) > 100" by (rule card_grows)
  qed
  show ?thesis
    unfolding row_inv_def using v d m c by simp
qed

lemma row_inv_put:
  assumes "row_inv s" "do_put (wk_metric w) (wk_delta w) (wk_key w) (cs_row s) = Some r"
  shows "row_inv (s\<lparr>cs_row := Some r, cs_log := cs_log s @ [entry w]\<rparr>)"
  using assms
  by (auto simp: row_inv_def do_put_def row_value_def row_history_def entry_def log_key_def
      split: option.splits if_splits)

lemma row_inv_trim:
  assumes "row_inv s" "cs_row s = Some r" "card (log_key ` set (cs_log s)) > 100"
  shows "row_inv (s\<lparr>cs_row := Some (do_trim r), cs_trimmed := cs_trimmed s @ take 10 (cw_history r)\<rparr>)"
proof -
  have "mset (cw_history r) = mset (take 10 (cw_history r)) + mset (drop 10 (cw_history r))"
    by (metis append_take_drop_id mset_append)
  with assms show ?thesis
    by (auto simp: row_inv_def row_value_def row_history_def do_trim_def ac_simps)
qed

lemma advance_simps [simp]:
  "cs_row (advance i ans s) = cs_row s" "cs_log (advance i ans s) = cs_log s"
  "cs_trimmed (advance i ans s) = cs_trimmed s"
  by (simp_all add: advance_def)

lemma row_inv_advance [simp]: "row_inv (advance i ans s) = row_inv s"
  by (simp add: row_inv_def)

lemma worker_inv_mono:
  assumes "worker_inv s w" "set (cs_log s) \<subseteq> set (cs_log s')" "cs_row s \<noteq> None \<longrightarrow> cs_row s' \<noteq> None"
  shows "worker_inv s' w"
proof -
  have "log_key ` set (cs_log s) \<subseteq> log_key ` set (cs_log s')" using assms(2) by auto
  moreover from this have "card (log_key ` set (cs_log s)) \<le> card (log_key ` set (cs_log s'))"
    by (intro card_mono) auto
  ultimately show ?thesis using assms(1,3) by (auto simp: worker_inv_def)
qed

text \<open>One step of one worker keeps the invariant if the row part does and the worker's own does.\<close>

lemma advance_inv:
  assumes "\<forall>w\<in>set (cs_workers s). worker_inv s w" "i < length (cs_workers s)"
    and "row_inv s'" "cs_workers s' = cs_workers s" "set (cs_log s) \<subseteq> set (cs_log s')"
    and "cs_row s \<noteq> None \<longrightarrow> cs_row s' \<noteq> None"
    and "worker_inv s' ((cs_workers s ! i)\<lparr>wk_pc := next_pc (wk_key (cs_workers s ! i)) (wk_pc (cs_workers s ! i)) ans\<rparr>)"
  shows "counter_inv (advance i ans s')"
proof -
  have same: "worker_inv (advance i ans s') w \<longleftrightarrow> worker_inv s' w" for w by (simp add: worker_inv_def)
  have "worker_inv s' w" if "w \<in> set (cs_workers s)" for w
    using assms(1,5,6) that worker_inv_mono by blast
  then have "\<forall>w\<in>set (cs_workers (advance i ans s')). worker_inv s' w"
    using assms(4,7) set_update_subset_insert [of "cs_workers s" i] by (auto simp: advance_def)
  with assms(3) same show ?thesis by (simp add: counter_inv_def)
qed

lemma cstep_inv: "cstep s s' \<Longrightarrow> counter_inv s \<Longrightarrow> counter_inv s'"
proof (induction rule: cstep.induct)
  case (arrive s m d k)
  then show ?case by (auto simp: counter_inv_def worker_inv_def row_inv_def)
next
  case (update i s w r ans)
  let ?s' = "s\<lparr>cs_row := Some r, cs_log := cs_log s @ [entry w]\<rparr>"
  show ?case
  proof (rule advance_inv [of s])
    show "row_inv ?s'" using update row_inv_update by (simp add: counter_inv_def)
    have "log_key (entry w) = wk_key w" by (simp add: log_key_def entry_def)
    then show "worker_inv ?s' ((cs_workers s ! i)\<lparr>wk_pc := next_pc (wk_key (cs_workers s ! i)) (wk_pc (cs_workers s ! i)) ans\<rparr>)"
      using update by (auto simp: worker_inv_def)
  qed (use update in \<open>auto simp: counter_inv_def\<close>)
next
  case (update_cond i s w)
  show ?case
  proof (rule advance_inv [of s])
    have hist: "cs_row s \<noteq> None \<Longrightarrow> wk_key w \<in> log_key ` set (cs_log s)"
      using update_cond(4,5) set_history_log [of s]
      by (auto simp: do_update_def row_history_def counter_inv_def split: if_splits)
    have w: "worker_inv s w" using update_cond(1,2,5) by (simp add: counter_inv_def)
    have row: "wk_pc w \<in> {PcRetry, PcRace} \<Longrightarrow> cs_row s \<noteq> None" using w unfolding worker_inv_def by blast
    from update_cond(3) consider "wk_pc w = PcUpdate" | "wk_pc w = PcRetry" | "wk_pc w = PcRace" by blast
    then show "worker_inv s ((cs_workers s ! i)\<lparr>wk_pc := next_pc (wk_key (cs_workers s ! i)) (wk_pc (cs_workers s ! i)) CondFailed\<rparr>)"
      unfolding update_cond(2) [symmetric]
      by cases (simp_all add: worker_inv_def hist row)
  qed (use update_cond in \<open>auto simp: counter_inv_def\<close>)
next
  case (put i s w r ans)
  let ?s' = "s\<lparr>cs_row := Some r, cs_log := cs_log s @ [entry w]\<rparr>"
  show ?case
  proof (rule advance_inv [of s])
    show "row_inv ?s'" using put row_inv_put by (simp add: counter_inv_def)
    have "log_key (entry w) = wk_key w" by (simp add: log_key_def entry_def)
    then show "worker_inv ?s' ((cs_workers s ! i)\<lparr>wk_pc := next_pc (wk_key (cs_workers s ! i)) (wk_pc (cs_workers s ! i)) ans\<rparr>)"
      using put by (auto simp: worker_inv_def)
  qed (use put in \<open>auto simp: counter_inv_def\<close>)
next
  case (put_cond i s w)
  show ?case
  proof (rule advance_inv [of s])
    show "worker_inv s ((cs_workers s ! i)\<lparr>wk_pc := next_pc (wk_key (cs_workers s ! i)) (wk_pc (cs_workers s ! i)) CondFailed\<rparr>)"
      using put_cond by (auto simp: worker_inv_def do_put_def split: option.splits)
  qed (use put_cond in \<open>auto simp: counter_inv_def\<close>)
next
  case (read i s h)
  show ?case
  proof (rule advance_inv [of s])
    have w: "worker_inv s (cs_workers s ! i)" using read by (auto simp: counter_inv_def)
    have len: "length (nullish h []) \<le> card (log_key ` set (cs_log s))"
    proof (cases h)
      case (Some ks)
      then have "distinct ks" "set ks \<subseteq> log_key ` set (cs_log s)" using read(3) by (simp_all add: may_read_def)
      then show ?thesis using Some card_mono [of "log_key ` set (cs_log s)" "set ks"] by (simp add: distinct_card)
    qed simp
    have hist: "h = Some ks \<Longrightarrow> k \<in> set ks \<Longrightarrow> k \<in> log_key ` set (cs_log s)" "h = Some ks \<Longrightarrow> cs_row s \<noteq> None" for ks k
      using read(3) by (auto simp: may_read_def)
    have key: "wk_pc (cs_workers s ! i) = PcTrimGet \<Longrightarrow> wk_key (cs_workers s ! i) \<in> log_key ` set (cs_log s)"
      using w unfolding worker_inv_def by blast
    from read(2) consider "wk_pc (cs_workers s ! i) = PcGet" | "wk_pc (cs_workers s ! i) = PcTrimGet" by blast
    then show "worker_inv s ((cs_workers s ! i)\<lparr>wk_pc := next_pc (wk_key (cs_workers s ! i)) (wk_pc (cs_workers s ! i)) (HistoryIs h)\<rparr>)"
    proof cases
      case 1
      then show ?thesis using hist by (cases h) (simp_all add: worker_inv_def)
    next
      case 2
      then show ?thesis using key len by (simp add: worker_inv_def)
    qed
  qed (use read in \<open>auto simp: counter_inv_def\<close>)
next
  case (trim i s r ans)
  let ?s' = "s\<lparr>cs_row := Some (do_trim r), cs_trimmed := cs_trimmed s @ take 10 (cw_history r)\<rparr>"
  have w: "worker_inv s (cs_workers s ! i)" using trim by (auto simp: counter_inv_def)
  show ?case
  proof (rule advance_inv [of s])
    show "row_inv ?s'" using trim w row_inv_trim by (simp add: counter_inv_def worker_inv_def)
    show "worker_inv ?s' ((cs_workers s ! i)\<lparr>wk_pc := next_pc (wk_key (cs_workers s ! i)) (wk_pc (cs_workers s ! i)) ans\<rparr>)"
      using trim w by (auto simp: worker_inv_def)
  qed (use trim in \<open>auto simp: counter_inv_def\<close>)
next
  case (fail i s)
  have w: "worker_inv s (cs_workers s ! i)" using fail by (auto simp: counter_inv_def)
  show ?case
  proof (rule advance_inv [of s])
    show "worker_inv s ((cs_workers s ! i)\<lparr>wk_pc := next_pc (wk_key (cs_workers s ! i)) (wk_pc (cs_workers s ! i)) Failed\<rparr>)"
      using w by (cases "wk_pc (cs_workers s ! i)") (auto simp: worker_inv_def)
  qed (use fail in \<open>auto simp: counter_inv_def\<close>)
qed

lemma creachable_inv: "creachable s \<Longrightarrow> counter_inv s"
proof (induction rule: creachable.induct)
  case start
  show ?case by (simp add: counter_inv_def row_inv_def row_value_def row_history_def)
next
  case (step s s')
  then show ?case by (simp add: cstep_inv)
qed

text \<open>Every increment that took effect was asked for by a worker.\<close>

lemma entries_advance [simp]: "map entry (cs_workers (advance i ans s)) = map entry (cs_workers s)"
proof (cases "i < length (cs_workers s)")
  case True
  then show ?thesis by (auto simp: advance_def map_update entry_def list_update_same_conv)
qed (simp add: advance_def list_update_beyond)

definition asked_for :: "counter_state \<Rightarrow> bool" where
  "asked_for s \<longleftrightarrow> set (cs_log s) \<subseteq> set (map entry (cs_workers s))"

lemma asked_for_advance [simp]: "asked_for (advance i ans s) \<longleftrightarrow> asked_for s"
  unfolding asked_for_def entries_advance by simp

lemma creachable_asked_for: "creachable s \<Longrightarrow> asked_for s"
proof (induction rule: creachable.induct)
  case (step s s')
  from step.hyps(2) step.IH show ?case
    by (induction rule: cstep.induct) (auto simp: asked_for_def)
qed (simp add: asked_for_def)

text \<open>
  C32. Counters are exact under concurrency, lost answers, stale reads and redelivery: in every reachable
  state the row holds, for every metric, the sum of the increments that took effect, and as long as at most
  100 different keys were applied that day no key was applied twice. When a worker returned success, an
  increment with its key took effect, and it is its own, of its metric and amount, unless another worker came
  with the same key for another metric or amount. That is possible, because one row remembers the keys of
  all metrics: when a redelivered message ends otherwise than before, the second outcome is taken for a
  repetition and is not counted.
\<close>

theorem counter_exactly_once:
  assumes "creachable s"
  shows "(\<forall>m. row_value (cs_row s) m = log_sum m (cs_log s))
     \<and> (\<forall>w\<in>set (cs_workers s). wk_pc w = PcOk \<longrightarrow> wk_key w \<in> log_key ` set (cs_log s) \<and>
          ((\<forall>w'\<in>set (cs_workers s). wk_key w' = wk_key w \<longrightarrow> entry w' = entry w) \<longrightarrow> entry w \<in> set (cs_log s)))
     \<and> (card (log_key ` set (cs_log s)) \<le> 100 \<longrightarrow> distinct (map log_key (cs_log s)))"
proof -
  have inv: "counter_inv s" by (rule creachable_inv [OF assms])
  have "distinct (map log_key (cs_log s))" if "card (log_key ` set (cs_log s)) \<le> 100"
  proof -
    from inv that have "cs_trimmed s = []" by (auto simp: counter_inv_def row_inv_def)
    with inv have "mset (map log_key (cs_log s)) = mset (row_history (cs_row s))" "distinct (row_history (cs_row s))"
      by (auto simp: counter_inv_def row_inv_def)
    then show ?thesis by (metis mset_eq_imp_distinct_iff)
  qed
  moreover have "entry w \<in> set (cs_log s)"
    if k: "wk_key w \<in> log_key ` set (cs_log s)" and same: "\<forall>w'\<in>set (cs_workers s). wk_key w' = wk_key w \<longrightarrow> entry w' = entry w"
    for w
  proof -
    from k obtain x where x: "x \<in> set (cs_log s)" "log_key x = wk_key w" by auto
    then obtain w' where "w' \<in> set (cs_workers s)" "x = entry w'"
      using creachable_asked_for [OF assms] by (auto simp: asked_for_def)
    with x same show ?thesis by (auto simp: entry_def log_key_def)
  qed
  moreover have "row_value (cs_row s) m = log_sum m (cs_log s)" for m
    using inv by (simp add: counter_inv_def row_inv_def)
  moreover have "wk_key w \<in> log_key ` set (cs_log s)" if "w \<in> set (cs_workers s)" "wk_pc w = PcOk" for w
    using inv that by (simp add: counter_inv_def worker_inv_def)
  ultimately show ?thesis by (intro conjI allI ballI impI) blast+
qed

definition example_state :: counter_state where
  "example_state =
     \<lparr>cs_row = Some \<lparr>cw_metrics = [MAllowed \<mapsto> 1], cw_history = [''k'']\<rparr>,
      cs_workers = [\<lparr>wk_metric = MAllowed, wk_delta = 1, wk_key = ''k'', wk_pc = PcOk\<rparr>],
      cs_log = [(MAllowed, 1, ''k'')], cs_trimmed = []\<rparr>"

lemma example_reachable: "creachable example_state"
proof -
  let ?w = "\<lambda>p. \<lparr>wk_metric = MAllowed, wk_delta = 1, wk_key = ''k'', wk_pc = p\<rparr>"
  let ?s = "\<lambda>p. \<lparr>cs_row = None, cs_workers = [?w p], cs_log = [], cs_trimmed = []\<rparr>"
  have 1: "creachable (?s PcUpdate)"
    using creachable.step [OF creachable.start cstep.arrive [of _ MAllowed 1 "''k''"]] by simp
  have 2: "creachable (?s PcGet)"
    using creachable.step [OF 1 cstep.update_cond [of 0 _ "?w PcUpdate"]] by (simp add: do_update_def advance_def)
  have 3: "creachable (?s PcPut)"
    using creachable.step [OF 2 cstep.read [of 0 _ None]] by (simp add: may_read_def advance_def)
  show ?thesis
    using creachable.step [OF 3 cstep.put [of 0 _ "?w PcPut" _ Applied]]
    by (simp add: do_put_def advance_def example_state_def entry_def)
qed

lemma counter_exactly_once_witness: "row_value (cs_row example_state) MAllowed = log_sum MAllowed (cs_log example_state)"
  by (rule spec [OF conjunct1 [OF counter_exactly_once [OF example_reachable]]])

end
