(* ===== verification/Resources.thy ===== *)
theory Resources
  imports Store Policy "HOL-Library.Multiset"
begin

text \<open>
  Resources, the forward-looking records derived from signals (\<open>resource/resource-info.ts\<close>), their
  collapse into what the API shows (\<open>resource/resource-collapse.ts\<close>), their table
  (\<open>resource/resource-database.ts\<close>) and the ids and status changes of the API
  (\<open>resource/resource-api.ts\<close>).

  \<open>utcDay\<close> is luxon's day of a timestamp, \<open>b64enc\<close> and \<open>b64dec\<close> the base64url coding of \<open>Buffer\<close>.
  The fields of a workflow's data that the code reads here are strings or absent.
\<close>

section \<open>What a signal says about a resource\<close>

record resource_info =
  ri_expectedResolutionDate :: str
  ri_displayDate :: str
  ri_displayDateEnd :: "str option"
  ri_resourceKey :: str
  ri_title :: "str option"
  ri_description :: "str option"

definition plain_info :: "str option \<Rightarrow> str option \<Rightarrow> str option \<Rightarrow> resource_info option" where
  "plain_info date instant key =
     (if \<not> truthy date \<or> \<not> truthy instant \<or> \<not> truthy key then None
      else Some \<lparr>ri_expectedResolutionDate = the instant, ri_displayDate = the date, ri_displayDateEnd = None,
                 ri_resourceKey = the key, ri_title = None, ri_description = None\<rparr>)"

definition events_info :: "jobj \<Rightarrow> resource_info option" where
  "events_info d =
     (let key = nullish_opt (jstr d ''ticketReference'') (jstr d ''eventName'');
          display = nullish_opt (jstr d ''eventStartDatetime'') (jstr d ''eventDate'');
          endDisplay = nullish_opt (jstr d ''eventEndDatetime'') (jstr d ''eventEndDate'');
          instant =
            (if truthy (jstr d ''eventEndDatetime'') then jstr d ''eventEndDatetimeInstant''
             else if truthy (jstr d ''eventEndDate'') then jstr d ''eventEndDateInstant''
             else if truthy (jstr d ''eventStartDatetime'') then jstr d ''eventStartDatetimeInstant''
             else jstr d ''eventDateInstant'')
      in if \<not> truthy display \<or> \<not> truthy instant \<or> \<not> truthy key then None
         else Some \<lparr>ri_expectedResolutionDate = the instant, ri_displayDate = the display,
                    ri_displayDateEnd = (if truthy endDisplay then endDisplay else None),
                    ri_resourceKey = the key, ri_title = jstr d ''eventName'',
                    ri_description = (if truthy (jstr d ''description'') then jstr d ''description'' else None)\<rparr>)"

definition deriveResourceInfo :: "str \<Rightarrow> jobj \<Rightarrow> resource_info option" where
  "deriveResourceInfo workflow d =
     (if workflow = ''package'' then
        plain_info (jstr d ''estimatedDelivery'') (jstr d ''estimatedDeliveryInstant'') (jstr d ''orderNumber'')
      else if workflow = ''travel'' then
        plain_info (nullish_opt (jstr d ''returnDate'') (jstr d ''departureDate''))
          (if truthy (jstr d ''returnDate'') then jstr d ''returnDateInstant'' else jstr d ''departureDateInstant'')
          (nullish_opt (jstr d ''flightNumber'') (jstr d ''confirmationNumber''))
      else if workflow = ''payments'' then
        plain_info (jstr d ''dueDate'') (jstr d ''dueDateInstant'') (jstr d ''invoiceNumber'')
      else if workflow = ''healthcare'' then
        plain_info (jstr d ''appointmentDate'') (jstr d ''appointmentDateInstant'') (jstr d ''provider'')
      else if workflow = ''job'' then
        (if \<not> truthy (jstr d ''company'') \<or> \<not> truthy (jstr d ''role'') then None
         else plain_info (jstr d ''interviewDate'') (jstr d ''interviewDateInstant'')
                (Some (the (jstr d ''company'') @ '':'' @ the (jstr d ''role''))))
      else if workflow = ''events'' then events_info d
      else None)"

text \<open>
  A derived resource is never poisoned: it has a non-empty instant, date and key, and only the
  workflows the API lists as resource workflows derive one.
\<close>

lemma plain_info_ok:
  "plain_info a b c = Some i \<Longrightarrow> ri_expectedResolutionDate i \<noteq> [] \<and> ri_displayDate i \<noteq> [] \<and> ri_resourceKey i \<noteq> []"
  by (auto simp: plain_info_def split: if_splits elim!: truthyE)

lemma guarded_Some:
  "(if b then None else Some x) = Some y \<Longrightarrow> (\<not> b \<Longrightarrow> P x) \<Longrightarrow> P y"
  by (simp split: if_splits)

lemma events_info_ok:
  "events_info d = Some i \<Longrightarrow> ri_expectedResolutionDate i \<noteq> [] \<and> ri_displayDate i \<noteq> [] \<and> ri_resourceKey i \<noteq> []"
  unfolding events_info_def Let_def
  by (rule guarded_Some) (auto elim!: truthyE)

text \<open>
  A derived resource is complete: only resource workflows give one, and then its resolution
  instant (from which its expiry is computed), its display date and its key are non-empty; without
  a precomputed instant there is no resource.
\<close>

theorem derive_resource_complete:
  "case deriveResourceInfo w d of
     None \<Rightarrow> True
   | Some i \<Rightarrow> w \<in> set RESOURCE_WORKFLOWS \<and> ri_expectedResolutionDate i \<noteq> [] \<and> ri_displayDate i \<noteq> []
             \<and> ri_resourceKey i \<noteq> []
             \<and> (\<exists>k. jstr d k = Some (ri_expectedResolutionDate i))"
proof (cases "deriveResourceInfo w d")
  case (Some i)
  have "\<exists>k. jstr d k = Some (ri_expectedResolutionDate i)"
    using Some by (auto simp: deriveResourceInfo_def plain_info_def events_info_def Let_def split: if_splits elim!: truthyE)
  moreover have "ri_expectedResolutionDate i \<noteq> [] \<and> ri_displayDate i \<noteq> [] \<and> ri_resourceKey i \<noteq> []"
    using Some by (auto simp: deriveResourceInfo_def split: if_splits dest: plain_info_ok events_info_ok)
  moreover have "w \<in> set RESOURCE_WORKFLOWS"
    using Some by (auto simp: deriveResourceInfo_def RESOURCE_WORKFLOWS_def split: if_splits)
  ultimately show ?thesis using Some by simp
qed simp

section \<open>Collapsing\<close>

definition isSubstringMatch :: "str \<Rightarrow> str \<Rightarrow> bool" where
  "isSubstringMatch a b \<longleftrightarrow> str_includes (to_lower a) (to_lower b) \<or> str_includes (to_lower b) (to_lower a)"

definition sameDay :: "(str \<Rightarrow> str) \<Rightarrow> str option \<Rightarrow> str option \<Rightarrow> bool" where
  "sameDay utcDay a b \<longleftrightarrow> \<not> truthy a \<or> \<not> truthy b \<or> utcDay (the a) = utcDay (the b)"

definition titlesMatch :: "str option \<Rightarrow> str option \<Rightarrow> bool" where
  "titlesMatch a b \<longleftrightarrow> truthy a \<and> truthy b \<and> isSubstringMatch (the a) (the b)"

definition same_asset :: "resource_asset \<Rightarrow> resource_asset \<Rightarrow> bool" where
  "same_asset a b \<longleftrightarrow> as_type a = as_type b \<and> as_rawValue a = as_rawValue b"

definition add_asset :: "resource_asset list \<Rightarrow> resource_asset \<Rightarrow> resource_asset list" where
  "add_asset xs a = (if list_ex (\<lambda>b. same_asset b a) xs then xs else xs @ [a])"

definition mergeInto :: "resource \<Rightarrow> resource \<Rightarrow> resource" where
  "mergeInto target other =
     (let t1 = target\<lparr>rs_assets := foldl add_asset (rs_assets target) (rs_assets other)\<rparr>;
          t2 = (if rs_updatedAt other > rs_updatedAt target then
                  t1\<lparr>rs_resourceKey := rs_resourceKey other, rs_status := rs_status other,
                     rs_expectedResolutionDate := rs_expectedResolutionDate other,
                     rs_displayDate := nullish_opt (rs_displayDate other) (rs_displayDate t1),
                     rs_title := nullish_opt (rs_title other) (rs_title t1),
                     rs_description := nullish_opt (rs_description other) (rs_description t1),
                     rs_resolvedAt := nullish_opt (rs_resolvedAt other) (rs_resolvedAt t1),
                     rs_updatedAt := rs_updatedAt other\<rparr>
                else t1)
      in if rs_createdAt other < rs_createdAt target then t2\<lparr>rs_createdAt := rs_createdAt other\<rparr> else t2)"

type_synonym collapsed = "resource \<times> str list"

fun merge_step :: "(str \<Rightarrow> str) \<Rightarrow> collapsed list \<Rightarrow> resource \<Rightarrow> collapsed list" where
  "merge_step utcDay [] r = [(r, [rs_resourceKey r])]"
| "merge_step utcDay (m # ms) r =
     (if titlesMatch (rs_title (fst m)) (rs_title r) \<and> sameDay utcDay (rs_displayDate (fst m)) (rs_displayDate r)
      then (mergeInto (fst m) r, snd m @ [rs_resourceKey r]) # ms
      else m # merge_step utcDay ms r)"

definition collapse_group :: "(str \<Rightarrow> str) \<Rightarrow> resource list \<Rightarrow> collapsed list" where
  "collapse_group utcDay rs = foldl (merge_step utcDay) [] rs"

definition group_key :: "resource \<Rightarrow> str" where
  "group_key r = rs_threadId r @ ''#'' @ rs_workflow r"

definition collapseResources :: "(str \<Rightarrow> str) \<Rightarrow> resource list \<Rightarrow> collapsed list" where
  "collapseResources utcDay rs = concat (map (\<lambda>g. collapse_group utcDay (snd g)) (group_by group_key rs))"

lemma mergeInto_simps [simp]:
  "rs_threadId (mergeInto t r) = rs_threadId t" "rs_workflow (mergeInto t r) = rs_workflow t"
  "rs_assets (mergeInto t r) = foldl add_asset (rs_assets t) (rs_assets r)"
  "rs_resourceKey (mergeInto t r) = (if rs_updatedAt r > rs_updatedAt t then rs_resourceKey r else rs_resourceKey t)"
  "rs_updatedAt (mergeInto t r) = max (rs_updatedAt t) (rs_updatedAt r)"
  "rs_createdAt (mergeInto t r) = min (rs_createdAt t) (rs_createdAt r)"
  "rs_status (mergeInto t r) = (if rs_updatedAt r > rs_updatedAt t then rs_status r else rs_status t)"
  by (auto simp: mergeInto_def Let_def max_def min_def)

text \<open>The merged groups account for every input, and each survivor is one of its members.\<close>

definition merged_ok :: "resource list \<Rightarrow> collapsed list \<Rightarrow> bool" where
  "merged_ok rs ms \<longleftrightarrow>
     mset (concat (map snd ms)) = mset (map rs_resourceKey rs) \<and>
     (\<forall>(r, ks) \<in> set ms. rs_resourceKey r \<in> set ks \<and> rs_updatedAt r \<in> rs_updatedAt ` set rs \<and>
        (\<exists>r0 \<in> set rs. rs_threadId r0 = rs_threadId r \<and> rs_workflow r0 = rs_workflow r))"

lemma merge_step_keys: "mset (concat (map snd (merge_step u ms r))) = add_mset (rs_resourceKey r) (mset (concat (map snd ms)))"
  by (induction u ms r rule: merge_step.induct) (auto simp: ac_simps)

lemma merge_step_cases:
  assumes "(r', ks) \<in> set (merge_step u ms r)"
  shows "(r', ks) \<in> set ms \<or> (r' = r \<and> ks = [rs_resourceKey r]) \<or>
         (\<exists>t ts. (t, ts) \<in> set ms \<and> r' = mergeInto t r \<and> ks = ts @ [rs_resourceKey r])"
  using assms by (induction u ms r rule: merge_step.induct) (auto split: if_splits)

lemma merge_step_ok: "merged_ok rs ms \<Longrightarrow> merged_ok (rs @ [r]) (merge_step u ms r)"
proof -
  assume ok: "merged_ok rs ms"
  have "rs_resourceKey r' \<in> set ks \<and> rs_updatedAt r' \<in> rs_updatedAt ` set (rs @ [r]) \<and>
        (\<exists>r0 \<in> set (rs @ [r]). rs_threadId r0 = rs_threadId r' \<and> rs_workflow r0 = rs_workflow r')"
    if "(r', ks) \<in> set (merge_step u ms r)" for r' ks
  proof -
    from merge_step_cases [OF that] consider "(r', ks) \<in> set ms" | "r' = r" "ks = [rs_resourceKey r]"
      | t ts where "(t, ts) \<in> set ms" "r' = mergeInto t r" "ks = ts @ [rs_resourceKey r]" by blast
    then show ?thesis
    proof cases
      case 1
      with ok show ?thesis by (auto simp: merged_ok_def)
    next
      case 3
      with ok have "rs_resourceKey t \<in> set ts" "rs_updatedAt t \<in> rs_updatedAt ` set rs"
        "\<exists>r0 \<in> set rs. rs_threadId r0 = rs_threadId t \<and> rs_workflow r0 = rs_workflow t"
        by (auto simp: merged_ok_def)
      with 3 show ?thesis by (auto simp: max_def)
    qed simp
  qed
  with ok show ?thesis by (auto simp: merged_ok_def merge_step_keys)
qed

lemma collapse_group_ok: "merged_ok rs (collapse_group u rs)"
proof -
  have "merged_ok (qs @ rs) (foldl (merge_step u) ms rs)" if "merged_ok qs ms" for qs ms
    using that
  proof (induction rs arbitrary: qs ms)
    case (Cons r rs)
    from Cons.IH [OF merge_step_ok [OF Cons.prems, of r u]] show ?case by simp
  qed simp
  from this [of "[]" "[]"] show ?thesis by (simp add: collapse_group_def merged_ok_def)
qed

lemma mset_groups: "mset (concat (map snd (group_by key xs))) = mset xs"
proof -
  have i: "mset (concat (map snd (group_insert k x gs))) = add_mset x (mset (concat (map snd gs)))" for k x gs
    by (induction k x gs rule: group_insert.induct) auto
  have "mset (concat (map snd (group_from key gs xs))) = mset (concat (map snd gs)) + mset xs" for gs
    by (induction xs arbitrary: gs) (simp_all add: i)
  from this [of "[]"] show ?thesis by (simp add: group_by_def)
qed

text \<open>
  Collapsing loses nothing: every resource key of the input appears, as often as it did, among
  the members of exactly the collapsed resources; each collapsed resource carries the key of one
  of its own members (so the public id built from it leads back to its group) and belongs to a
  thread and workflow of the input.
\<close>

theorem collapse_accounts_for_all:
  "mset (concat (map snd (collapseResources u rs))) = mset (map rs_resourceKey rs)
   \<and> (\<forall>(r, ks) \<in> set (collapseResources u rs).
        rs_resourceKey r \<in> set ks \<and>
        (\<exists>r0 \<in> set rs. rs_threadId r0 = rs_threadId r \<and> rs_workflow r0 = rs_workflow r))"
proof
  have g: "mset (concat (map snd (collapse_group u g))) = mset (map rs_resourceKey g)" for g
    using collapse_group_ok [of g u] by (simp add: merged_ok_def)
  have m: "mset (concat (map snd (concat (map (\<lambda>g. collapse_group u (snd g)) gs)))) =
        image_mset rs_resourceKey (mset (concat (map snd gs)))" for gs :: "(str \<times> resource list) list"
    by (induction gs) (use g in auto)
  then show "mset (concat (map snd (collapseResources u rs))) = mset (map rs_resourceKey rs)"
    using mset_groups [of group_key rs] by (simp add: collapseResources_def)
  show "\<forall>(r, ks) \<in> set (collapseResources u rs). rs_resourceKey r \<in> set ks \<and>
        (\<exists>r0 \<in> set rs. rs_threadId r0 = rs_threadId r \<and> rs_workflow r0 = rs_workflow r)"
  proof clarify
    fix r ks assume "(r, ks) \<in> set (collapseResources u rs)"
    then obtain k g where k: "(k, g) \<in> set (group_by group_key rs)" "(r, ks) \<in> set (collapse_group u g)"
      by (auto simp: collapseResources_def)
    have "set g \<subseteq> set rs" using group_by_group [OF k(1)] by auto
    with k(2) collapse_group_ok [of g u]
    show "rs_resourceKey r \<in> set ks \<and> (\<exists>r0 \<in> set rs. rs_threadId r0 = rs_threadId r \<and> rs_workflow r0 = rs_workflow r)"
      by (force simp: merged_ok_def)
  qed
qed

text \<open>
  Merging forgets the end of an event: when the merged-in resource is the newer one, its start
  date, title and resolution date replace the older ones, but its end date (\<open>displayDateEnd\<close>) does
  not, so the merged resource shows the new start with the old end.
\<close>

theorem merge_keeps_stale_end:
  assumes "rs_updatedAt other > rs_updatedAt target" "rs_displayDate other = Some start"
  shows "rs_displayDate (mergeInto target other) = Some start \<and>
         rs_displayDateEnd (mergeInto target other) = rs_displayDateEnd target"
  using assms by (simp add: mergeInto_def Let_def)

definition sample_resource :: resource where
  "sample_resource =
     \<lparr>rs_accountId = ''a'', rs_threadId = ''thr-1'', rs_workflow = ''events'', rs_resourceKey = ''Fest'',
      rs_status = RsActive, rs_expectedResolutionDate = ''2026-07-01'', rs_displayDate = Some ''2026-06-30'',
      rs_displayDateEnd = Some ''2026-07-01'', rs_title = Some ''Fest'', rs_description = None,
      rs_resolvedAt = None, rs_assets = [], rs_createdAt = ''1'', rs_updatedAt = ''1'', rs_ttl = None\<rparr>"

lemma collapse_accounts_for_all_witness:
  "mset (concat (map snd (collapseResources (\<lambda>d. d) [sample_resource, sample_resource]))) = {#''Fest'', ''Fest''#}"
  using collapse_accounts_for_all [of "\<lambda>d. d" "[sample_resource, sample_resource]"] by (simp add: sample_resource_def)

lemma merge_keeps_stale_end_witness:
  "rs_displayDateEnd (mergeInto sample_resource
      (sample_resource\<lparr>rs_updatedAt := ''2'', rs_displayDate := Some ''2026-08-01'', rs_displayDateEnd := Some ''2026-08-03''\<rparr>))
   = Some ''2026-07-01''"
  using merge_keeps_stale_end [of sample_resource
      "sample_resource\<lparr>rs_updatedAt := ''2'', rs_displayDate := Some ''2026-08-01'', rs_displayDateEnd := Some ''2026-08-03''\<rparr>"
      "''2026-08-01''"]
  by (simp add: sample_resource_def less_char_def)

section \<open>The table\<close>

text \<open>The table of an account and thread, by sort key\<close>

type_synonym resource_store = "str \<Rightarrow> resource option"

definition resource_sk :: "str \<Rightarrow> str \<Rightarrow> str" where
  "resource_sk workflow key = workflow @ ''#'' @ key"

text \<open>\<open>saveResource\<close>: the update expression with its \<open>if_not_exists\<close> guards\<close>

definition store_save :: "str \<Rightarrow> save_resource_params \<Rightarrow> resource_store \<Rightarrow> resource_store" where
  "store_save now p st =
     (let sk = resource_sk (sv_workflow p) (sv_resourceKey p); old = st sk
      in st(sk \<mapsto>
        \<lparr>rs_accountId = sv_accountId p, rs_threadId = sv_threadId p, rs_workflow = sv_workflow p,
         rs_resourceKey = sv_resourceKey p,
         rs_status = (case old of Some r \<Rightarrow> rs_status r | None \<Rightarrow> RsActive),
         rs_expectedResolutionDate = sv_expectedResolutionDate p,
         rs_displayDate = nullish_opt (sv_displayDate p) (Option.bind old rs_displayDate),
         rs_displayDateEnd = nullish_opt (sv_displayDateEnd p) (Option.bind old rs_displayDateEnd),
         rs_title = nullish_opt (sv_title p) (Option.bind old rs_title),
         rs_description = nullish_opt (sv_description p) (Option.bind old rs_description),
         rs_resolvedAt = Option.bind old rs_resolvedAt,
         rs_assets = (case old of Some r \<Rightarrow> rs_assets r | None \<Rightarrow> []) @ nullish (sv_assets p) [],
         rs_createdAt = (case old of Some r \<Rightarrow> rs_createdAt r | None \<Rightarrow> now),
         rs_updatedAt = now,
         rs_ttl = nullish_opt (sv_ttl p) (Option.bind old rs_ttl)\<rparr>))"

text \<open>\<open>setResourceStatus\<close>: conditional on the row's existence, \<open>None\<close> when it is gone\<close>

definition store_set_status :: "str \<Rightarrow> str \<Rightarrow> resource_status \<Rightarrow> resource_store \<Rightarrow> resource_store \<times> resource option" where
  "store_set_status now sk status st =
     (case st sk of
        None \<Rightarrow> (st, None)
      | Some r \<Rightarrow>
          (let r' = r\<lparr>rs_status := status, rs_updatedAt := now,
                      rs_resolvedAt := (if status = RsComplete then Some now else None)\<rparr>
           in (st(sk \<mapsto> r'), Some r')))"

datatype store_op = OpSave str save_resource_params | OpStatus str str resource_status | OpExpire str

fun run_op :: "resource_store \<Rightarrow> store_op \<Rightarrow> resource_store" where
  "run_op st (OpSave now p) = store_save now p st"
| "run_op st (OpStatus now sk status) = fst (store_set_status now sk status st)"
| "run_op st (OpExpire sk) = st(sk := None)"

text \<open>The last status a user set on a key since the row last expired, over an initial one\<close>

fun user_status :: "str \<Rightarrow> resource_status \<Rightarrow> store_op list \<Rightarrow> resource_status" where
  "user_status sk s [] = s"
| "user_status sk s (OpStatus now sk' s' # ops) = user_status sk (if sk' = sk then s' else s) ops"
| "user_status sk s (OpSave now p # ops) = user_status sk s ops"
| "user_status sk s (OpExpire sk' # ops) = user_status sk s ops"

text \<open>What one operation other than the expiry of the key does to a row\<close>

definition row_step :: "str \<Rightarrow> store_op \<Rightarrow> resource \<Rightarrow> resource \<Rightarrow> bool" where
  "row_step sk op r r' =
     ((rs_resolvedAt r = None) = (rs_status r \<noteq> RsComplete) \<longrightarrow>
        (rs_resolvedAt r' = None) = (rs_status r' \<noteq> RsComplete)
        \<and> (\<forall>ops. user_status sk (rs_status r) (op # ops) = user_status sk (rs_status r') ops)
        \<and> rs_createdAt r' = rs_createdAt r)"

lemma run_save: "st sk = Some r \<Longrightarrow> \<exists>r'. run_op st (OpSave now p) sk = Some r' \<and> row_step sk (OpSave now p) r r'"
  by (cases "sk = resource_sk (sv_workflow p) (sv_resourceKey p)")
     (simp_all add: store_save_def Let_def row_step_def)

lemma run_status: "st sk = Some r \<Longrightarrow>
    \<exists>r'. run_op st (OpStatus now sk' s) sk = Some r' \<and> row_step sk (OpStatus now sk' s) r r'"
  by (cases "sk' = sk"; cases "st sk'") (simp_all add: store_set_status_def Let_def row_step_def)

lemma run_op_row: "st sk = Some r \<Longrightarrow> op \<noteq> OpExpire sk \<Longrightarrow>
    \<exists>r'. run_op st op sk = Some r' \<and> row_step sk op r r'"
  by (cases op) (use run_save run_status in \<open>simp_all add: row_step_def\<close>)

text \<open>
  Only the user closes a resource: from an existing row, after any sequence of signal writes
  and status changes in which the row does not expire, its status is the last one a user set (the
  initial one if none), it records a resolution time exactly when complete, and it keeps its
  creation time.
\<close>

theorem resource_status_user_owned:
  assumes "st sk = Some r" "(rs_resolvedAt r = None) = (rs_status r \<noteq> RsComplete)" "OpExpire sk \<notin> set ops"
  shows "\<exists>r'. foldl run_op st ops sk = Some r' \<and> rs_status r' = user_status sk (rs_status r) ops
           \<and> (rs_resolvedAt r' = None) = (rs_status r' \<noteq> RsComplete) \<and> rs_createdAt r' = rs_createdAt r"
  using assms
proof (induction ops arbitrary: st r)
  case (Cons op ops)
  from Cons.prems obtain r1 where r1: "run_op st op sk = Some r1" "row_step sk op r r1"
    using run_op_row [of st sk r op] by auto
  with Cons.prems(2) have "(rs_resolvedAt r1 = None) = (rs_status r1 \<noteq> RsComplete)"
    "user_status sk (rs_status r) (op # ops) = user_status sk (rs_status r1) ops" "rs_createdAt r1 = rs_createdAt r"
    by (simp_all add: row_step_def)
  with Cons.IH [of "run_op st op" r1] Cons.prems(3) r1(1) show ?case by simp
qed simp

lemma resource_status_user_owned_witness:
  "\<exists>r'. foldl run_op [''events#Fest'' \<mapsto> sample_resource]
      [OpStatus ''2'' ''events#Fest'' RsComplete] ''events#Fest'' = Some r'
    \<and> rs_status r' = RsComplete \<and> (rs_resolvedAt r' = None) = (rs_status r' \<noteq> RsComplete)
    \<and> rs_createdAt r' = rs_createdAt sample_resource"
  using resource_status_user_owned [of "[''events#Fest'' \<mapsto> sample_resource]" "''events#Fest''" sample_resource
      "[OpStatus ''2'' ''events#Fest'' RsComplete]"]
  by (simp add: sample_resource_def)

end
