(* ===== verification/Paging.thy ===== *)
theory Paging
  imports Types
begin

text \<open>
  Listing by pages (\<open>database/thread-database.ts\<close>: \<open>listSignals\<close>, \<open>listPreThreadSignals\<close>,
  \<open>listThreads\<close>; \<open>database/audit-database.ts\<close>: \<open>listAuditEvents\<close>;
  \<open>resource/resource-database.ts\<close>: \<open>listResources\<close>). A DynamoDB query is a parameter: it takes the
  partition, the \<open>Limit\<close> and the \<open>ExclusiveStartKey\<close> and gives the \<open>Items\<close> and the
  \<open>LastEvaluatedKey\<close>, or throws. A cursor stands for the key it encodes (\<open>encodeCursor\<close> and
  \<open>decodeCursor\<close> are JSON in base64).
\<close>

type_synonym ('a, 'k) page_query = "int \<Rightarrow> 'k option \<Rightarrow> str + 'a list \<times> 'k option"

record 'k page_params =
  pp_limit :: "int option"
  pp_cursor :: "'k option"

record ('a, 'k) page =
  pg_items :: "'a list"
  pg_nextCursor :: "'k option"

section \<open>The code\<close>

text \<open>What the five listings do with the answer of a query\<close>

definition slice_upto :: "int \<Rightarrow> 'a list \<Rightarrow> 'a list" where
  "slice_upto limit items = (if limit < 0 then slice_drop_last (nat (- limit)) items else take (nat limit) items)"

definition next_key :: "int \<Rightarrow> 'a list \<Rightarrow> 'k option \<Rightarrow> 'k option" where
  "next_key limit items lastKey = (if int (length items) > limit then lastKey else None)"

definition list_page ::
  "int \<Rightarrow> int \<Rightarrow> ('a, 'k) page_query \<Rightarrow> 'k page_params \<Rightarrow> str + ('a, 'k) page" where
  "list_page dflt cap query params =
     (let limit = min (nullish (pp_limit params) dflt) cap
      in case query (limit + 1) (pp_cursor params) of
           Inl e \<Rightarrow> Inl e
         | Inr (items, lastKey) \<Rightarrow>
             Inr \<lparr>pg_items = slice_upto limit items, pg_nextCursor = next_key limit items lastKey\<rparr>)"

definition listSignals ::
  "(str \<Rightarrow> ('s, 'k) page_query) \<Rightarrow> str \<Rightarrow> str \<Rightarrow> 'k page_params \<Rightarrow> str + ('s, 'k) page" where
  "listSignals query accountId threadId =
     list_page 20 100 (query (''ACCT#'' @ accountId @ ''#ARC#'' @ threadId))"

definition listPreThreadSignals ::
  "(str \<Rightarrow> ('s, 'k) page_query) \<Rightarrow> str \<Rightarrow> bool \<Rightarrow> 'k page_params \<Rightarrow> str + ('s, 'k) page" where
  "listPreThreadSignals query accountId blocked =
     list_page 20 100
       (query (if blocked then ''ACCT#'' @ accountId @ ''#BLOCKED'' else ''ACCT#'' @ accountId @ ''#QUARANTINED''))"

definition listAuditEvents ::
  "(str \<Rightarrow> ('s, 'k) page_query) \<Rightarrow> str \<Rightarrow> 'k page_params \<Rightarrow> str + ('s, 'k) page" where
  "listAuditEvents query accountId = list_page 50 200 (query (''AUDIT#'' @ accountId))"

text \<open>\<open>listThreads\<close>: one page of one status, filtered after the query; without a status, the first
  rows of each status, merged\<close>

record list_threads_params =
  lp_status :: "thread_status option"
  lp_workflow :: "str option"
  lp_label :: "str option"

definition MIN_LAST_SIGNAL_AT :: str where
  "MIN_LAST_SIGNAL_AT = ''2000-01-01T00:00:00.000Z''"

definition hasRecentSignal :: "thread \<Rightarrow> bool" where
  "hasRecentSignal t = (th_lastSignalAt t \<ge> MIN_LAST_SIGNAL_AT)"

definition keep_thread :: "list_threads_params \<Rightarrow> thread \<Rightarrow> bool" where
  "keep_thread p t =
     ((truthy (lp_workflow p) \<longrightarrow> lp_workflow p = Some (th_workflow t)) \<and>
      (truthy (lp_label p) \<longrightarrow> the (lp_label p) \<in> set (th_labels t)) \<and>
      hasRecentSignal t)"

definition fetch_threads ::
  "(thread_status \<Rightarrow> (thread, 'k) page_query) \<Rightarrow> list_threads_params \<Rightarrow> int \<Rightarrow> 'k option \<Rightarrow> str + thread list \<times> 'k option" where
  "fetch_threads query p limit cursor =
     (case lp_status p of
        Some s \<Rightarrow> query s (limit + 1) cursor
      | None \<Rightarrow>
          (case (query ThActive (limit + 1) None, query ThArchived (limit + 1) None, query ThDeleted (limit + 1) None) of
             (Inr (xs, _), Inr (ys, _), Inr (zs, _)) \<Rightarrow> Inr (sort_by (ge_by th_lastSignalAt) (xs @ ys @ zs), None)
           | (Inl e, _, _) \<Rightarrow> Inl e
           | (_, Inl e, _) \<Rightarrow> Inl e
           | (_, _, Inl e) \<Rightarrow> Inl e))"

definition listThreads ::
  "(thread_status \<Rightarrow> (thread, 'k) page_query) \<Rightarrow> list_threads_params \<Rightarrow> 'k page_params \<Rightarrow> str + (thread, 'k) page" where
  "listThreads query p params =
     (let limit = min (nullish (pp_limit params) 20) 100
      in case fetch_threads query p limit (pp_cursor params) of
           Inl e \<Rightarrow> Inl e
         | Inr (rows, lastKey) \<Rightarrow>
             (let items = filter (keep_thread p) rows
              in Inr \<lparr>pg_items = slice_upto limit items, pg_nextCursor = next_key limit items lastKey\<rparr>))"

section \<open>Reading a whole listing\<close>

text \<open>
  What DynamoDB documents of a query over an index whose rows, in index order, are \<open>rows\<close>: it
  returns the rows after the start key, at most \<open>Limit\<close> of them, and the key of the last row
  it read when it stopped at the limit.
\<close>

definition after_key :: "('a \<Rightarrow> 'k) \<Rightarrow> 'a list \<Rightarrow> 'k option \<Rightarrow> 'a list" where
  "after_key key rows cursor =
     (case cursor of None \<Rightarrow> rows | Some k \<Rightarrow> drop 1 (dropWhile (\<lambda>r. key r \<noteq> k) rows))"

definition dynamo_query :: "('a \<Rightarrow> 'k) \<Rightarrow> 'a list \<Rightarrow> ('a, 'k) page_query \<Rightarrow> bool" where
  "dynamo_query key rows query =
     (\<forall>n cursor. n > 0 \<longrightarrow>
        query n cursor =
          (let got = take (nat n) (after_key key rows cursor)
           in Inr (got, if length got = nat n then Some (key (last got)) else None)))"

text \<open>A client that follows the cursors, for at most \<open>fuel\<close> pages\<close>

fun read_pages :: "nat \<Rightarrow> ('k page_params \<Rightarrow> str + ('a, 'k) page) \<Rightarrow> 'k page_params \<Rightarrow> 'a list option" where
  "read_pages 0 listing params = None"
| "read_pages (Suc fuel) listing params =
     (case listing params of
        Inl e \<Rightarrow> None
      | Inr p \<Rightarrow>
          (case pg_nextCursor p of
             None \<Rightarrow> Some (pg_items p)
           | Some c \<Rightarrow> map_option (\<lambda>xs. pg_items p @ xs)
                           (read_pages fuel listing (params\<lparr>pp_cursor := Some c\<rparr>))))"

text \<open>Every row but each \<open>(k + 1)\<close>-th\<close>

definition all_but_every :: "nat \<Rightarrow> 'a list \<Rightarrow> 'a list" where
  "all_but_every k rows = nths rows {i. i mod (k + 1) \<noteq> k}"

lemma all_but_every_short: "length rows \<le> k \<Longrightarrow> all_but_every k rows = rows"
  unfolding all_but_every_def by (rule nths_all) auto

lemma all_but_every_step:
  assumes "length xs = k"
  shows "all_but_every k (xs @ x # ys) = xs @ all_but_every k ys"
proof -
  have m: "(j + length (xs @ [x])) mod (k + 1) = j mod (k + 1)" for j
    using assms by (metis length_append_singleton mod_add_self2 Suc_eq_plus1)
  then have s: "{j. j + length (xs @ [x]) \<in> {i. i mod (k + 1) \<noteq> k}} = {i. i mod (k + 1) \<noteq> k}"
    by (simp only: mem_Collect_eq)
  have "nths (xs @ [x]) {i. i mod (k + 1) \<noteq> k} = xs"
    using assms by (subst nths_append) (simp add: nths_all nths_singleton)
  with nths_append [of "xs @ [x]" ys "{i. i mod (k + 1) \<noteq> k}"] s show ?thesis
    by (simp add: all_but_every_def)
qed

lemma after_key_at:
  assumes "distinct (map key (xs @ x # ys))"
  shows "after_key key (xs @ x # ys) (Some (key x)) = ys"
proof -
  have "\<forall>r \<in> set xs. key r \<noteq> key x" using assms by (auto simp: rev_image_eqI)
  then have "dropWhile (\<lambda>r. key r \<noteq> key x) (xs @ x # ys) = x # ys" by (simp add: dropWhile_append)
  then show ?thesis by (simp add: after_key_def)
qed

text \<open>One request on a suffix of the index, and what the next one starts from\<close>

lemma list_page_short:
  assumes "dynamo_query key rows query" "min (nullish (pp_limit params) d) m = int k"
    "after_key key rows (pp_cursor params) = rest" "length rest \<le> k"
  shows "list_page d m query params = Inr \<lparr>pg_items = rest, pg_nextCursor = None\<rparr>"
  using assms by (simp add: list_page_def dynamo_query_def Let_def slice_upto_def next_key_def)

lemma list_page_full:
  assumes "dynamo_query key rows query" "min (nullish (pp_limit params) d) m = int k"
    "after_key key rows (pp_cursor params) = xs @ x # ys" "length xs = k"
  shows "list_page d m query params = Inr \<lparr>pg_items = xs, pg_nextCursor = Some (key x)\<rparr>"
proof -
  have "nat (int k + 1) = Suc k" by simp
  then show ?thesis
    using assms by (simp add: list_page_def dynamo_query_def Let_def slice_upto_def next_key_def)
qed

lemma read_pages_skips:
  assumes "dynamo_query key rows query" "min (nullish (pp_limit params) d) m = int k"
    "distinct (map key rows)" "rows = before @ rest"
    "after_key key rows (pp_cursor params) = rest" "length rest < fuel"
  shows "read_pages fuel (list_page d m query) params = Some (all_but_every k rest)"
  using assms
proof (induction fuel arbitrary: params before rest)
  case (Suc fuel)
  show ?case
  proof (cases "length rest \<le> k")
    case True
    from list_page_short [OF Suc.prems(1,2,5) True] True show ?thesis
      by (simp add: all_but_every_short)
  next
    case False
    define xs x ys where "xs = take k rest" and "x = rest ! k" and "ys = drop (Suc k) rest"
    have rest: "rest = xs @ x # ys" "length xs = k"
      using False by (simp_all add: xs_def x_def ys_def id_take_nth_drop)
    let ?p = "params\<lparr>pp_cursor := Some (key x)\<rparr>"
    have "after_key key rows (Some (key x)) = ys"
      using after_key_at [of key "before @ xs" x ys] Suc.prems(3,4) rest by simp
    then have "read_pages fuel (list_page d m query) ?p = Some (all_but_every k ys)"
      using Suc.IH [of ?p "before @ xs @ [x]" ys] Suc.prems rest by simp
    with list_page_full [OF Suc.prems(1,2), of xs x ys] Suc.prems(5) rest
    show ?thesis by (simp add: all_but_every_step)
  qed
qed simp

text \<open>
  Following the cursors of a listing to the end does not return the listing: the query asks
  for one row more than the page shows, and the next request starts after that extra row. Of the
  rows of the index, every \<open>(limit + 1)\<close>-th is on no page; a thread with at most \<open>limit\<close> signals is
  read completely.
\<close>

theorem paging_drops_every_limit_th:
  fixes query :: "str \<Rightarrow> ('s, 'k) page_query"
  assumes "dynamo_query key rows (query (''ACCT#'' @ a @ ''#ARC#'' @ t))" "distinct (map key rows)"
    "length rows < fuel" "0 \<le> limit" "limit \<le> 100"
  shows "read_pages fuel (listSignals query a t) \<lparr>pp_limit = Some limit, pp_cursor = None\<rparr>
           = Some (all_but_every (nat limit) rows)
         \<and> (int (length rows) \<le> limit \<longrightarrow> all_but_every (nat limit) rows = rows)
         \<and> (int (length rows) > limit \<longrightarrow>
              rows ! nat limit \<notin> set (all_but_every (nat limit) rows))"
proof (intro conjI impI)
  show "read_pages fuel (listSignals query a t) \<lparr>pp_limit = Some limit, pp_cursor = None\<rparr>
           = Some (all_but_every (nat limit) rows)"
    unfolding listSignals_def
    by (rule read_pages_skips [OF assms(1) _ assms(2), of _ _ _ _ "[]"]) (use assms in \<open>simp_all add: after_key_def\<close>)
  show "all_but_every (nat limit) rows = rows" if "int (length rows) \<le> limit"
    using that by (intro all_but_every_short) simp
  show "rows ! nat limit \<notin> set (all_but_every (nat limit) rows)" if "int (length rows) > limit"
    using that assms(2,4) by (auto simp: all_but_every_def set_nths distinct_map nth_eq_iff_index_eq)
qed

definition sample_query :: "str \<Rightarrow> (nat, nat) page_query" where
  "sample_query pk n cursor =
     (let got = take (nat n) (after_key (\<lambda>r. r) [10, 20, 30, 40, 50] cursor)
      in Inr (got, if length got = nat n then Some (last got) else None))"

lemma paging_drops_every_limit_th_witness:
  "read_pages 6 (listSignals sample_query ''a'' ''t'') \<lparr>pp_limit = Some 1, pp_cursor = None\<rparr>
     = Some (all_but_every 1 [10, 20, 30, 40, 50])"
  using paging_drops_every_limit_th [where key = "\<lambda>r. r" and rows = "[10, 20, 30, 40, 50]" and
      query = sample_query and a = "''a''" and t = "''t''" and fuel = 6 and limit = 1]
  by (simp add: dynamo_query_def sample_query_def)

text \<open>
  A page of threads holds at most the limit, only threads of the queried status that pass the
  workflow and label filters and have recent activity, in the query's order; but it offers a next
  page exactly when the query was cut at the limit and not one of the rows read was filtered out, so
  a single filtered row among them ends the listing, however many threads follow.
\<close>

theorem list_threads_page:
  fixes query :: "thread_status \<Rightarrow> (thread, 'k) page_query"
  assumes "dynamo_query key rows (query s)" "lp_status p = Some s" "0 \<le> limit" "limit \<le> 100"
  shows "\<exists>pg. listThreads query p \<lparr>pp_limit = Some limit, pp_cursor = c\<rparr> = Inr pg
    \<and> (let got = take (nat limit + 1) (after_key key rows c) in
         pg_items pg = take (nat limit) (filter (keep_thread p) got)
         \<and> (pg_nextCursor pg \<noteq> None \<longleftrightarrow> length got = nat limit + 1 \<and> (\<forall>t \<in> set got. keep_thread p t)))"
proof -
  let ?got = "take (nat limit + 1) (after_key key rows c)"
  have q: "query s (limit + 1) c = Inr (?got, if length ?got = nat limit + 1 then Some (key (last ?got)) else None)"
    using assms(1,3) by (simp add: dynamo_query_def Let_def nat_add_distrib)
  have f: "int (length (filter (keep_thread p) ?got)) > limit \<longleftrightarrow>
        length ?got = nat limit + 1 \<and> (\<forall>t \<in> set ?got. keep_thread p t)"
  proof -
    have "length (filter (keep_thread p) ?got) \<le> length ?got" "length ?got \<le> nat limit + 1"
      by (rule length_filter_le, simp)
    moreover have "length (filter (keep_thread p) ?got) = length ?got \<longleftrightarrow> (\<forall>t \<in> set ?got. keep_thread p t)"
      by (metis filter_True length_filter_less less_irrefl)
    ultimately show ?thesis using assms(3) by linarith
  qed
  show ?thesis
    using assms q f by (auto simp: listThreads_def fetch_threads_def Let_def slice_upto_def next_key_def)
qed

definition sample_thread :: "str \<Rightarrow> str \<Rightarrow> thread" where
  "sample_thread i lastAt =
     \<lparr>th_id = i, th_accountId = ''a'', th_groupingKey = None, th_workflow = ''status'', th_labels = [],
      th_status = ThActive, th_summary = [], th_lastSignalAt = lastAt, th_deletedAt = None,
      th_createdAt = lastAt, th_updatedAt = lastAt, th_retentionDuration = None, th_sentMessageIds = None,
      th_urgency = None, th_followupAt = None, th_sender = \<lparr>ea_address = [], ea_name = None\<rparr>,
      th_recipientAddress = [], th_subject = []\<rparr>"

definition sample_thread_query :: "thread_status \<Rightarrow> (thread, str) page_query" where
  "sample_thread_query s n cursor =
     (let got = take (nat n) (after_key th_id [sample_thread ''t1'' ''2026'', sample_thread ''t2'' ''0''] cursor)
      in Inr (got, if length got = nat n then Some (th_id (last got)) else None))"

lemma list_threads_page_witness:
  "\<exists>pg. listThreads sample_thread_query \<lparr>lp_status = Some ThActive, lp_workflow = None, lp_label = None\<rparr>
      \<lparr>pp_limit = Some 1, pp_cursor = None\<rparr> = Inr pg
    \<and> (let got = take 2 (after_key th_id [sample_thread ''t1'' ''2026'', sample_thread ''t2'' ''0''] None) in
         pg_items pg = take 1 (filter (keep_thread \<lparr>lp_status = Some ThActive, lp_workflow = None, lp_label = None\<rparr>) got)
         \<and> (pg_nextCursor pg \<noteq> None \<longleftrightarrow> length got = 2 \<and>
             (\<forall>t \<in> set got. keep_thread \<lparr>lp_status = Some ThActive, lp_workflow = None, lp_label = None\<rparr> t)))"
  using list_threads_page [where key = th_id and rows = "[sample_thread ''t1'' ''2026'', sample_thread ''t2'' ''0'']" and
      query = sample_thread_query and s = ThActive and limit = 1 and c = None and
      p = "\<lparr>lp_status = Some ThActive, lp_workflow = None, lp_label = None\<rparr>"]
  by (simp add: dynamo_query_def sample_thread_query_def Let_def numeral_2_eq_2)

end
