(* ===== verification/CalendarCollapse.thy ===== *)
theory CalendarCollapse
  imports Types "HOL-Library.AList"
begin

text \<open>
  One card per calendar event. \<open>processor/calendar/ics-parser.ts\<close> collapses the events of one
  message before they are stored (\<open>collapseCalendarEventsWith\<close>); \<open>api/calendar-collapse.ts\<close>
  collapses the stored events of a thread when they are read (\<open>collapseCalendarSignals\<close>). A JavaScript
  \<open>Map\<close> is an association list in insertion order; timestamps are compared as strings.
\<close>

section \<open>Before storing: the events of one message\<close>

definition REPLY_LIKE_METHODS :: "str list" where
  "REPLY_LIKE_METHODS = [''REPLY'', ''COUNTER'']"

record calendar_event_record =
  cr_event :: calendar_event_data
  cr_rawIcsContent :: str

record collapsed_calendar_event =
  cc_key :: str
  cc_data :: calendar_event_data
  cc_rawIcsContent :: str

definition eventGroupKey :: "calendar_event_data \<Rightarrow> str" where
  "eventGroupKey ev =
     (case ce_recurrenceId ev of
        Some r \<Rightarrow> if r = [] then ce_veventUid ev else ce_veventUid ev @ ''::'' @ r
      | None \<Rightarrow> ce_veventUid ev)"

definition is_reply :: "calendar_event_record \<Rightarrow> bool" where
  "is_reply r = (ce_method (cr_event r) \<in> set REPLY_LIKE_METHODS)"

text \<open>The first attendee of the address takes the reply's \<open>PARTSTAT\<close>\<close>

fun set_partstat :: "str \<Rightarrow> str \<Rightarrow> calendar_attendee list \<Rightarrow> calendar_attendee list" where
  "set_partstat addr p [] = []"
| "set_partstat addr p (a # as) =
     (if to_lower (ca_address a) = to_lower addr then a\<lparr>ca_partstat := Some p\<rparr> # as
      else a # set_partstat addr p as)"

definition overlay_attendee :: "calendar_attendee list \<Rightarrow> calendar_attendee \<Rightarrow> calendar_attendee list" where
  "overlay_attendee as incoming =
     (case ca_partstat incoming of
        Some p \<Rightarrow> if p = [] then as else set_partstat (ca_address incoming) p as
      | None \<Rightarrow> as)"

definition overlay_reply :: "calendar_attendee list \<Rightarrow> calendar_event_record \<Rightarrow> calendar_attendee list" where
  "overlay_reply as reply = foldl overlay_attendee as (ce_attendees (cr_event reply))"

definition sequence_of :: "calendar_event_record \<Rightarrow> int" where
  "sequence_of r = ce_sequence (cr_event r)"

definition collapse_records :: "str \<Rightarrow> calendar_event_record list \<Rightarrow> collapsed_calendar_event option" where
  "collapse_records key g =
     (let fullRecords = filter (\<lambda>r. \<not> is_reply r) g;
          replyRecords = filter is_reply g
      in if fullRecords = [] then None
         else
           let winnerRecord = last (sort_by (le_by sequence_of) fullRecords);
               cancelled = (\<exists>r \<in> set fullRecords. ce_method (cr_event r) = ''CANCEL'');
               attendees = foldl overlay_reply (ce_attendees (cr_event winnerRecord)) replyRecords;
               data = (cr_event winnerRecord)\<lparr>ce_attendees := attendees\<rparr>;
               data = (if cancelled then data\<lparr>ce_status := Some ''CANCELLED''\<rparr> else data)
           in Some \<lparr>cc_key = key, cc_data = data, cc_rawIcsContent = cr_rawIcsContent winnerRecord\<rparr>)"

definition collapseCalendarEventsWith ::
  "calendar_event_record list \<Rightarrow> collapsed_calendar_event list \<times> nat" where
  "collapseCalendarEventsWith records =
     (let rs = map (\<lambda>(k, g). collapse_records k g) (group_by (\<lambda>r. eventGroupKey (cr_event r)) records)
      in (List.map_filter (\<lambda>r. r) rs, length (filter (\<lambda>r. r = None) rs)))"

section \<open>When reading: the stored events of a thread\<close>

record calendar_previous_values =
  pv_changedAt :: str
  pv_values :: "(str \<times> str) list"

record calendar_enrichment =
  en_cancelledAt :: "str option"
  en_previousValues :: "calendar_previous_values option"
  en_rsvpable :: bool

datatype orphan_reason = UpdateWithoutPrior | CancellationWithoutPrior

record orphan_report =
  op_veventUid :: str
  op_signalId :: str
  op_method :: str
  op_sequence :: int
  op_reason :: orphan_reason

record calendar_collapse_result =
  co_winners :: "(str \<times> calendar_enrichment) list"
  co_superseded :: "str list"
  co_orphans :: "orphan_report list"

type_synonym cal_signal = "calendar_event_data signal"

text \<open>\<open>orderInGroup a b \<le> 0\<close>: by \<open>SEQUENCE\<close>, then by the time of arrival\<close>

definition orderInGroup :: "cal_signal \<Rightarrow> cal_signal \<Rightarrow> bool" where
  "orderInGroup a b =
     (if ce_sequence (sg_data a) \<noteq> ce_sequence (sg_data b)
      then ce_sequence (sg_data a) - ce_sequence (sg_data b) \<le> 0
      else sg_createdAt a \<le> sg_createdAt b)"

definition DIFFED_FIELDS :: "(str \<times> (calendar_event_data \<Rightarrow> str option)) list" where
  "DIFFED_FIELDS =
     [(''title'', \<lambda>d. Some (ce_title d)), (''description'', ce_description),
      (''startTime'', \<lambda>d. Some (ce_startTime d)), (''endTime'', ce_endTime), (''location'', ce_location)]"

definition diffPreviousValues ::
  "calendar_event_data \<Rightarrow> calendar_event_data \<Rightarrow> str \<Rightarrow> calendar_previous_values option" where
  "diffPreviousValues prior current changedAt =
     (let changed = List.map_filter (\<lambda>(name, f).
            case f prior of
              Some v \<Rightarrow> if f current \<noteq> Some v then Some (name, v) else None
            | None \<Rightarrow> None) DIFFED_FIELDS
      in if changed = [] then None else Some \<lparr>pv_changedAt = changedAt, pv_values = changed\<rparr>)"

definition is_cancel :: "cal_signal \<Rightarrow> bool" where
  "is_cancel s = (ce_method (sg_data s) = ''CANCEL'')"

definition enrich :: "cal_signal \<Rightarrow> cal_signal option \<Rightarrow> calendar_enrichment" where
  "enrich winner prior =
     \<lparr>en_cancelledAt = (if is_cancel winner then Some (sg_createdAt winner) else None),
      en_previousValues =
        (if \<not> is_cancel winner \<and> ce_sequence (sg_data winner) > 0
         then Option.bind prior (\<lambda>p. diffPreviousValues (sg_data p) (sg_data winner) (sg_createdAt winner))
         else None),
      en_rsvpable = (to_upper (ce_method (sg_data winner)) = ''REQUEST'' \<and> ce_organizer (sg_data winner) \<noteq> [])\<rparr>"

definition orphan_of :: "str \<Rightarrow> cal_signal \<Rightarrow> cal_signal option \<Rightarrow> orphan_report list" where
  "orphan_of uid winner prior =
     (let report = (\<lambda>reason. \<lparr>op_veventUid = uid, op_signalId = sg_id winner, op_method = ce_method (sg_data winner),
                             op_sequence = ce_sequence (sg_data winner), op_reason = reason\<rparr>)
      in if prior \<noteq> None then []
         else if is_cancel winner then [report CancellationWithoutPrior]
         else if ce_sequence (sg_data winner) > 0 then [report UpdateWithoutPrior] else [])"

definition collapse_step ::
  "calendar_collapse_result \<Rightarrow> str \<times> cal_signal list \<Rightarrow> calendar_collapse_result" where
  "collapse_step res gr =
     (let ordered = sort_by orderInGroup (snd gr);
          winner = last ordered;
          prior = (if length ordered > 1 then Some (ordered ! (length ordered - 2)) else None)
      in \<lparr>co_winners = AList.update (sg_id winner) (enrich winner prior) (co_winners res),
          co_superseded = co_superseded res @ map sg_id (filter (\<lambda>s. sg_id s \<noteq> sg_id winner) ordered),
          co_orphans = co_orphans res @ orphan_of (fst gr) winner prior\<rparr>)"

definition collapseCalendarSignals :: "cal_signal list \<Rightarrow> calendar_collapse_result" where
  "collapseCalendarSignals sigs =
     foldl collapse_step \<lparr>co_winners = [], co_superseded = [], co_orphans = []\<rparr>
       (group_by (\<lambda>s. ce_veventUid (sg_data s)) sigs)"

section \<open>The stored events of a thread\<close>

interpretation order_in_group: comparator_order orderInGroup
  by unfold_locales (auto simp: orderInGroup_def split: if_splits)

definition latest :: "cal_signal list \<Rightarrow> cal_signal" where
  "latest g = last (sort_by orderInGroup g)"

lemma latest_in: "g \<noteq> [] \<Longrightarrow> latest g \<in> set g"
  using last_in_set [of "sort_by orderInGroup g"] by (simp add: latest_def)

lemma latest_greatest: "s \<in> set g \<Longrightarrow> orderInGroup s (latest g)"
  unfolding latest_def by (rule order_in_group.last_greatest)

definition winner_ids :: "(str \<times> cal_signal list) list \<Rightarrow> str set" where
  "winner_ids gs = (\<lambda>p. sg_id (latest (snd p))) ` set gs"

text \<open>What the loop has built after some of the groups\<close>

definition collapsed_ok :: "(str \<times> cal_signal list) list \<Rightarrow> calendar_collapse_result \<Rightarrow> bool" where
  "collapsed_ok gs res \<longleftrightarrow>
     fst ` set (co_winners res) = winner_ids gs \<and> distinct (map fst (co_winners res)) \<and>
     set (co_superseded res) = {sg_id s | s p. p \<in> set gs \<and> s \<in> set (snd p) \<and> sg_id s \<noteq> sg_id (latest (snd p))} \<and>
     (\<forall>(i, en) \<in> set (co_winners res). \<exists>p \<in> set gs. \<exists>prior.
        i = sg_id (latest (snd p)) \<and> en = enrich (latest (snd p)) prior)"

lemma update_mem: "(i, v) \<in> set (AList.update k x al) \<Longrightarrow> distinct (map fst al) \<Longrightarrow>
    (i, v) \<in> set al \<or> (i = k \<and> v = x)"
  by (induction al) (auto split: if_splits)

lemma collapse_step_ok:
  assumes "collapsed_ok gs res"
  shows "collapsed_ok (gs @ [gr]) (collapse_step res gr)"
proof -
  let ?res = "collapse_step res gr"
  obtain prior where w: "co_winners ?res = AList.update (sg_id (latest (snd gr))) (enrich (latest (snd gr)) prior) (co_winners res)"
    by (auto simp: collapse_step_def Let_def latest_def)
  have d: "distinct (map fst (co_winners res))" and f: "fst ` set (co_winners res) = winner_ids gs"
    and e: "\<And>i en. (i, en) \<in> set (co_winners res) \<Longrightarrow>
        \<exists>p \<in> set gs. \<exists>prior. i = sg_id (latest (snd p)) \<and> en = enrich (latest (snd p)) prior"
    and s: "set (co_superseded res) = {sg_id s | s p. p \<in> set gs \<and> s \<in> set (snd p) \<and> sg_id s \<noteq> sg_id (latest (snd p))}"
    using assms by (auto simp: collapsed_ok_def)
  have 1: "fst ` set (co_winners ?res) = winner_ids (gs @ [gr])"
    unfolding w dom_update f by (auto simp: winner_ids_def)
  have 2: "distinct (map fst (co_winners ?res))"
    unfolding w by (rule distinct_update [OF d])
  have 3: "set (co_superseded ?res) = {sg_id s | s p. p \<in> set (gs @ [gr]) \<and> s \<in> set (snd p) \<and> sg_id s \<noteq> sg_id (latest (snd p))}"
    using s by (cases gr) (auto simp: collapse_step_def Let_def latest_def)
  have 4: "\<exists>p \<in> set (gs @ [gr]). \<exists>prior. i = sg_id (latest (snd p)) \<and> en = enrich (latest (snd p)) prior"
    if "(i, en) \<in> set (co_winners ?res)" for i en
    using update_mem [OF that [unfolded w] d]
  proof
    assume "(i, en) \<in> set (co_winners res)"
    from e [OF this] show ?thesis by auto
  qed auto
  show ?thesis unfolding collapsed_ok_def using 1 2 3 4 by blast
qed

lemma collapse_ok: "collapsed_ok gs (foldl collapse_step \<lparr>co_winners = [], co_superseded = [], co_orphans = []\<rparr> gs)"
proof (induction gs rule: rev_induct)
  case (snoc gr gs)
  from collapse_step_ok [OF this] show ?case by simp
qed (simp add: collapsed_ok_def winner_ids_def)

abbreviation uid_of :: "cal_signal \<Rightarrow> str" where
  "uid_of s \<equiv> ce_veventUid (sg_data s)"

definition latest_of :: "cal_signal list \<Rightarrow> cal_signal \<Rightarrow> cal_signal" where
  "latest_of sigs s = latest (filter (\<lambda>s'. uid_of s' = uid_of s) sigs)"

lemma collapse_result_ok: "collapsed_ok (group_by uid_of sigs) (collapseCalendarSignals sigs)"
  unfolding collapseCalendarSignals_def by (rule collapse_ok)

lemma latest_of_in: "s \<in> set sigs \<Longrightarrow> latest_of sigs s \<in> set sigs \<and> uid_of (latest_of sigs s) = uid_of s"
  using latest_in [of "filter (\<lambda>s'. uid_of s' = uid_of s) sigs"]
  by (auto simp: latest_of_def filter_empty_conv)

lemma latest_of_uid: "uid_of s = uid_of t \<Longrightarrow> latest_of sigs s = latest_of sigs t"
  by (simp add: latest_of_def)

text \<open>The groups are the latest signals: of a group, and of each signal\<close>

lemma group_latest:
  assumes "p \<in> set (group_by uid_of sigs)"
  shows "latest (snd p) \<in> set sigs \<and> latest (snd p) = latest_of sigs (latest (snd p))
    \<and> (\<forall>s \<in> set (snd p). s \<in> set sigs \<and> latest_of sigs s = latest (snd p))"
proof -
  obtain k g where p: "p = (k, g)" by fastforce
  with assms have kg: "(k, g) \<in> set (group_by uid_of sigs)" by simp
  have g: "g = filter (\<lambda>s. uid_of s = k) sigs" by (rule group_by_group [OF kg])
  have m: "latest g \<in> set g" by (rule latest_in [OF group_by_nonempty [OF kg]])
  have l: "latest_of sigs s = latest g" if "s \<in> set g" for s
    using that g by (auto simp: latest_of_def)
  have sub: "set g \<subseteq> set sigs" unfolding g by auto
  have "latest g \<in> set sigs" "latest g = latest_of sigs (latest g)" using m sub l [OF m] by auto
  moreover have "\<forall>s \<in> set g. s \<in> set sigs \<and> latest_of sigs s = latest g" using sub l by blast
  ultimately show ?thesis by (simp add: p)
qed

lemma signal_group:
  assumes "s \<in> set sigs"
  obtains p where "p \<in> set (group_by uid_of sigs)" "s \<in> set (snd p)" "latest (snd p) = latest_of sigs s"
  using group_by_cover [OF assms, of uid_of] group_latest by (metis snd_conv)

lemma shown_iff:
  assumes "distinct (map sg_id sigs)" "s \<in> set sigs"
  shows "sg_id s \<in> fst ` set (co_winners (collapseCalendarSignals sigs)) \<longleftrightarrow> s = latest_of sigs s"
    and "sg_id s \<in> set (co_superseded (collapseCalendarSignals sigs)) \<longleftrightarrow> s \<noteq> latest_of sigs s"
proof -
  let ?gs = "group_by uid_of sigs"
  have inj: "t = s" if "sg_id t = sg_id s" "t \<in> set sigs" for t
    using that assms by (auto simp: distinct_map inj_on_def)
  obtain p where p: "p \<in> set ?gs" "s \<in> set (snd p)" "latest (snd p) = latest_of sigs s"
    using signal_group [OF assms(2)] .
  have "sg_id s \<in> winner_ids ?gs \<longleftrightarrow> s = latest_of sigs s"
    using p group_latest inj by (fastforce simp: winner_ids_def)
  then show "sg_id s \<in> fst ` set (co_winners (collapseCalendarSignals sigs)) \<longleftrightarrow> s = latest_of sigs s"
    using collapse_result_ok [of sigs] by (simp add: collapsed_ok_def)
  have "(\<exists>t q. sg_id s = sg_id t \<and> q \<in> set ?gs \<and> t \<in> set (snd q) \<and> sg_id t \<noteq> sg_id (latest (snd q)))
      \<longleftrightarrow> s \<noteq> latest_of sigs s" (is "?l \<longleftrightarrow> ?r")
  proof
    assume ?l then show ?r using group_latest inj by metis
  next
    assume ?r
    with p inj [of "latest_of sigs s"] latest_of_in [OF assms(2)] show ?l by metis
  qed
  then show "sg_id s \<in> set (co_superseded (collapseCalendarSignals sigs)) \<longleftrightarrow> s \<noteq> latest_of sigs s"
    using collapse_result_ok [of sigs] by (simp add: collapsed_ok_def)
qed

lemma complementary:
  "A \<subseteq> U \<Longrightarrow> B \<subseteq> U \<Longrightarrow> (\<And>i. i \<in> U \<Longrightarrow> i \<in> A \<longleftrightarrow> i \<notin> B) \<Longrightarrow> A \<union> B = U \<and> A \<inter> B = {}"
  by blast

lemma collapsed_ids:
  "fst ` set (co_winners (collapseCalendarSignals sigs)) \<subseteq> sg_id ` set sigs"
  "set (co_superseded (collapseCalendarSignals sigs)) \<subseteq> sg_id ` set sigs"
  using collapse_result_ok [of sigs] group_latest [of _ sigs]
  by (fastforce simp: collapsed_ok_def winner_ids_def)+

lemma enrich_method:
  "(en_cancelledAt (enrich w prior) \<noteq> None \<longleftrightarrow> ce_method (sg_data w) = ''CANCEL'')
   \<and> (en_rsvpable (enrich w prior) \<longrightarrow> en_cancelledAt (enrich w prior) = None)"
proof -
  have "to_upper ''CANCEL'' \<noteq> ''REQUEST''" by code_simp
  then show ?thesis by (auto simp: enrich_def is_cancel_def)
qed

text \<open>
  One card per event: the stored events of a thread (with distinct ids) are divided into shown
  and superseded ones, every event identity has exactly one shown signal, it is the latest of that
  identity by sequence number and arrival, and it is marked cancelled or open for a reply by its own
  method alone.
\<close>

theorem one_card_per_event:
  assumes "distinct (map sg_id sigs)"
  shows "(let res = collapseCalendarSignals sigs; shown = fst ` set (co_winners res) in
      shown \<union> set (co_superseded res) = sg_id ` set sigs \<and> shown \<inter> set (co_superseded res) = {}
      \<and> (\<forall>s \<in> set sigs. \<exists>!w. w \<in> set sigs \<and> ce_veventUid (sg_data w) = ce_veventUid (sg_data s) \<and> sg_id w \<in> shown)
      \<and> (\<forall>(i, en) \<in> set (co_winners res). \<exists>w \<in> set sigs. sg_id w = i
            \<and> (\<forall>s \<in> set sigs. ce_veventUid (sg_data s) = ce_veventUid (sg_data w) \<longrightarrow> orderInGroup s w)
            \<and> (en_cancelledAt en \<noteq> None \<longleftrightarrow> ce_method (sg_data w) = ''CANCEL'')
            \<and> (en_rsvpable en \<longrightarrow> en_cancelledAt en = None)))"
  unfolding Let_def
proof (intro conjI)
  let ?res = "collapseCalendarSignals sigs"
  note iff = shown_iff [OF assms]
  have both: "i \<in> fst ` set (co_winners ?res) \<longleftrightarrow> i \<notin> set (co_superseded ?res)" if "i \<in> sg_id ` set sigs" for i
  proof -
    from that obtain t where t: "i = sg_id t" "t \<in> set sigs" by (rule imageE)
    show ?thesis unfolding t(1) iff(1) [OF t(2)] iff(2) [OF t(2)] not_not by (rule refl)
  qed
  have p: "fst ` set (co_winners ?res) \<union> set (co_superseded ?res) = sg_id ` set sigs
      \<and> fst ` set (co_winners ?res) \<inter> set (co_superseded ?res) = {}"
    by (rule complementary [OF collapsed_ids]) (rule both)
  from p show "fst ` set (co_winners ?res) \<union> set (co_superseded ?res) = sg_id ` set sigs" by (rule conjunct1)
  from p show "fst ` set (co_winners ?res) \<inter> set (co_superseded ?res) = {}" by (rule conjunct2)
  show "\<forall>s \<in> set sigs. \<exists>!w. w \<in> set sigs \<and> uid_of w = uid_of s \<and> sg_id w \<in> fst ` set (co_winners ?res)"
  proof
    fix s assume s: "s \<in> set sigs"
    let ?w = "latest_of sigs s"
    have w: "?w \<in> set sigs" "uid_of ?w = uid_of s" using latest_of_in [OF s] by auto
    show "\<exists>!w. w \<in> set sigs \<and> uid_of w = uid_of s \<and> sg_id w \<in> fst ` set (co_winners ?res)"
    proof (rule ex1I [of _ ?w])
      show "?w \<in> set sigs \<and> uid_of ?w = uid_of s \<and> sg_id ?w \<in> fst ` set (co_winners ?res)"
        using w iff(1) [OF w(1)] latest_of_uid [OF w(2), of sigs] by simp
      show "t = ?w" if "t \<in> set sigs \<and> uid_of t = uid_of s \<and> sg_id t \<in> fst ` set (co_winners ?res)" for t
        using that iff(1) [of t] latest_of_uid [of t s sigs] by simp
    qed
  qed
  show "\<forall>(i, en) \<in> set (co_winners ?res). \<exists>w \<in> set sigs. sg_id w = i
            \<and> (\<forall>s \<in> set sigs. uid_of s = uid_of w \<longrightarrow> orderInGroup s w)
            \<and> (en_cancelledAt en \<noteq> None \<longleftrightarrow> ce_method (sg_data w) = ''CANCEL'')
            \<and> (en_rsvpable en \<longrightarrow> en_cancelledAt en = None)"
  proof clarify
    fix i en assume "(i, en) \<in> set (co_winners ?res)"
    then obtain p prior where p: "p \<in> set (group_by uid_of sigs)" "i = sg_id (latest (snd p))"
      "en = enrich (latest (snd p)) prior"
      using collapse_result_ok [of sigs] by (fastforce simp: collapsed_ok_def)
    let ?w = "latest (snd p)"
    have w: "?w \<in> set sigs" "?w = latest_of sigs ?w" using group_latest [OF p(1)] by auto
    have "orderInGroup s ?w" if "s \<in> set sigs" "uid_of s = uid_of ?w" for s
      using latest_greatest [of s "filter (\<lambda>s'. uid_of s' = uid_of ?w) sigs"] that w(2)
      by (simp add: latest_of_def)
    then have "\<forall>s \<in> set sigs. uid_of s = uid_of ?w \<longrightarrow> orderInGroup s ?w" by blast
    with w(1) p(2) enrich_method [of ?w prior] p(3) show "\<exists>w \<in> set sigs. sg_id w = i
            \<and> (\<forall>s \<in> set sigs. uid_of s = uid_of w \<longrightarrow> orderInGroup s w)
            \<and> (en_cancelledAt en \<noteq> None \<longleftrightarrow> ce_method (sg_data w) = ''CANCEL'')
            \<and> (en_rsvpable en \<longrightarrow> en_cancelledAt en = None)"
      by (intro bexI [of _ ?w] conjI) simp_all
  qed
qed

definition sample_event :: "str \<Rightarrow> int \<Rightarrow> calendar_event_data" where
  "sample_event meth sequence =
     \<lparr>ce_title = ''Standup'', ce_description = None, ce_startTime = ''2026-07-01'', ce_endTime = None,
      ce_location = None, ce_url = None, ce_organizer = ''o@x.io'', ce_organizerCn = None, ce_attendees = [],
      ce_veventUid = ''u'', ce_method = meth, ce_sequence = sequence, ce_status = None, ce_transparency = None,
      ce_created = None, ce_lastModified = None, ce_recurrenceRule = None, ce_recurrenceId = None,
      ce_xProperties = None, ce_proxyUid = None, ce_originalVeventUid = ''u'', ce_linkedSignalId = ''sgn-1'',
      ce_rsvpResponse = None, ce_sesMessageId = None\<rparr>"

definition sample_cal_signal :: "str \<Rightarrow> calendar_event_data \<Rightarrow> cal_signal" where
  "sample_cal_signal i d =
     \<lparr>sg_id = i, sg_signalLookupId = i, sg_threadId = Some ''thr-1'', sg_gsi3pk = None, sg_accountId = ''a'',
      sg_source = SrcSignal, sg_type = TyCalendarEvent, sg_status = SActive, sg_labels = [], sg_createdAt = i,
      sg_retentionDuration = None, sg_data = d\<rparr>"

lemma one_card_per_event_witness:
  "(let sigs = [sample_cal_signal ''1'' (sample_event ''REQUEST'' 0), sample_cal_signal ''2'' (sample_event ''CANCEL'' 1)];
        res = collapseCalendarSignals sigs
    in fst ` set (co_winners res) \<union> set (co_superseded res) = {''1'', ''2''})"
proof -
  let ?sigs = "[sample_cal_signal ''1'' (sample_event ''REQUEST'' 0), sample_cal_signal ''2'' (sample_event ''CANCEL'' 1)]"
  have "distinct (map sg_id ?sigs)" by (simp add: sample_cal_signal_def)
  from one_card_per_event [OF this] show ?thesis by (simp add: Let_def sample_cal_signal_def)
qed

section \<open>The events of one message\<close>

lemma overlay_addresses: "map ca_address (foldl overlay_reply as rs) = map ca_address as"
proof -
  have p: "map ca_address (set_partstat addr q as) = map ca_address as" for addr q as
    by (induction as) auto
  have a: "map ca_address (foldl overlay_attendee as bs) = map ca_address as" for as bs
    by (induction bs arbitrary: as) (auto simp: overlay_attendee_def p split: option.splits)
  show ?thesis by (induction rs arbitrary: as) (simp_all add: overlay_reply_def a)
qed

definition full_of :: "str \<Rightarrow> calendar_event_record list \<Rightarrow> calendar_event_record list" where
  "full_of key records = filter (\<lambda>r. \<not> is_reply r) (filter (\<lambda>r. eventGroupKey (cr_event r) = key) records)"

lemma collapse_records_spec:
  assumes "collapse_records key (filter (\<lambda>r. eventGroupKey (cr_event r) = key) records) = Some c"
  shows "cc_key c = key \<and> (\<exists>w \<in> set (full_of key records).
      cc_rawIcsContent c = cr_rawIcsContent w \<and> (\<forall>r \<in> set (full_of key records). sequence_of r \<le> sequence_of w)
      \<and> map ca_address (ce_attendees (cc_data c)) = map ca_address (ce_attendees (cr_event w))
      \<and> ce_method (cc_data c) = ce_method (cr_event w) \<and> ce_sequence (cc_data c) = sequence_of w
      \<and> ce_status (cc_data c) =
          (if \<exists>r \<in> set (full_of key records). ce_method (cr_event r) = ''CANCEL'' then Some ''CANCELLED''
           else ce_status (cr_event w)))"
proof -
  let ?fs = "full_of key records"
  let ?w = "last (sort_by (le_by sequence_of) ?fs)"
  let ?as = "foldl overlay_reply (ce_attendees (cr_event ?w))
      (filter is_reply (filter (\<lambda>r. eventGroupKey (cr_event r) = key) records))"
  have eq: "collapse_records key (filter (\<lambda>r. eventGroupKey (cr_event r) = key) records) =
      (if ?fs = [] then None
       else Some \<lparr>cc_key = key,
         cc_data = (if \<exists>r \<in> set ?fs. ce_method (cr_event r) = ''CANCEL'' then
             (cr_event ?w)\<lparr>ce_attendees := ?as, ce_status := Some ''CANCELLED''\<rparr>
           else (cr_event ?w)\<lparr>ce_attendees := ?as\<rparr>),
         cc_rawIcsContent = cr_rawIcsContent ?w\<rparr>)"
    unfolding collapse_records_def Let_def full_of_def by (simp cong del: if_weak_cong)
  then have ne: "?fs \<noteq> []" using assms by (metis option.distinct(1))
  then have "?w \<in> set ?fs" using last_in_set [of "sort_by (le_by sequence_of) ?fs"] by simp
  moreover have "\<forall>r \<in> set ?fs. sequence_of r \<le> sequence_of ?w"
    using key_order.last_greatest [of _ ?fs sequence_of] by (auto simp: le_by_def)
  moreover have "c = \<lparr>cc_key = key,
         cc_data = (if \<exists>r \<in> set ?fs. ce_method (cr_event r) = ''CANCEL'' then
             (cr_event ?w)\<lparr>ce_attendees := ?as, ce_status := Some ''CANCELLED''\<rparr>
           else (cr_event ?w)\<lparr>ce_attendees := ?as\<rparr>),
         cc_rawIcsContent = cr_rawIcsContent ?w\<rparr>"
    using eq ne assms by simp
  ultimately show ?thesis
    by (intro conjI bexI [of _ ?w]) (simp_all add: overlay_addresses sequence_of_def)
qed

text \<open>Collapsing every group of a grouping to at most one element that remembers its key\<close>

lemma collapsed_keys_distinct:
  assumes "\<And>k g c. f (k, g) = Some c \<Longrightarrow> cc_key c = k" "distinct (map fst gs)"
  shows "distinct (map cc_key (List.map_filter f gs))"
  using assms(2)
proof (induction gs)
  case (Cons p gs)
  obtain k g where p: "p = (k, g)" by fastforce
  have "cc_key c \<noteq> k" if "c \<in> set (List.map_filter f gs)" for c
    using that Cons.prems assms(1) p unfolding mem_map_filter by force
  then have "k \<notin> cc_key ` set (List.map_filter f gs)" by blast
  with Cons p assms(1) [of k g] show ?case
    by (cases "f (k, g)") (simp_all add: List.map_filter_simps)
qed (simp add: List.map_filter_simps)

lemma collapse_records_key: "collapse_records k g = Some c \<Longrightarrow> cc_key c = k"
  by (auto simp: collapse_records_def Let_def split: if_splits)

lemma collapse_records_some: "collapse_records k g \<noteq> None \<longleftrightarrow> (\<exists>r \<in> set g. \<not> is_reply r)"
  by (auto simp: collapse_records_def Let_def filter_empty_conv)

abbreviation key_of :: "calendar_event_record \<Rightarrow> str" where
  "key_of r \<equiv> eventGroupKey (cr_event r)"

lemma collapsed_events_eq:
  "fst (collapseCalendarEventsWith records) =
     List.map_filter (\<lambda>(k, g). collapse_records k g) (group_by key_of records)"
  by (simp add: collapseCalendarEventsWith_def Let_def List.map_filter_def comp_def filter_map)

lemma collapsed_event_iff:
  "c \<in> set (fst (collapseCalendarEventsWith records)) \<longleftrightarrow>
     (\<exists>r \<in> set records. collapse_records (key_of r) (filter (\<lambda>r'. key_of r' = key_of r) records) = Some c)"
proof
  assume "c \<in> set (fst (collapseCalendarEventsWith records))"
  then obtain k g where kg: "(k, g) \<in> set (group_by key_of records)" "collapse_records k g = Some c"
    by (auto simp: collapsed_events_eq mem_map_filter)
  then obtain r where "r \<in> set records" "key_of r = k"
    using group_by_keys(2) [of key_of records] by (metis fst_conv image_eqI imageE)
  with kg group_by_group [OF kg(1)]
  show "\<exists>r \<in> set records. collapse_records (key_of r) (filter (\<lambda>r'. key_of r' = key_of r) records) = Some c"
    by blast
next
  assume "\<exists>r \<in> set records. collapse_records (key_of r) (filter (\<lambda>r'. key_of r' = key_of r) records) = Some c"
  then obtain r where r: "r \<in> set records"
    "collapse_records (key_of r) (filter (\<lambda>r'. key_of r' = key_of r) records) = Some c" by blast
  obtain g where g: "(key_of r, g) \<in> set (group_by key_of records)" using group_by_cover [OF r(1)] .
  with r(2) group_by_group [OF g] show "c \<in> set (fst (collapseCalendarEventsWith records))"
    unfolding collapsed_events_eq mem_map_filter by (intro bexI [OF _ g]) simp
qed

lemma collapsed_event_keys:
  "set (map cc_key (fst (collapseCalendarEventsWith records))) = {key_of r | r. r \<in> set records \<and> \<not> is_reply r}"
proof (intro equalityI subsetI)
  fix k assume "k \<in> set (map cc_key (fst (collapseCalendarEventsWith records)))"
  then obtain c r where c: "k = cc_key c" "r \<in> set records"
    "collapse_records (key_of r) (filter (\<lambda>r'. key_of r' = key_of r) records) = Some c"
    using collapsed_event_iff by auto
  then have "\<exists>r' \<in> set (filter (\<lambda>r'. key_of r' = key_of r) records). \<not> is_reply r'"
    using collapse_records_some by (metis option.distinct(1))
  then obtain r' where "r' \<in> set records" "key_of r' = key_of r" "\<not> is_reply r'" by auto
  moreover from this c(1) collapse_records_key [OF c(3)] have "k = key_of r'" by simp
  ultimately show "k \<in> {key_of r | r. r \<in> set records \<and> \<not> is_reply r}" by blast
next
  fix k assume "k \<in> {key_of r | r. r \<in> set records \<and> \<not> is_reply r}"
  then obtain r where r: "k = key_of r" "r \<in> set records" "\<not> is_reply r" by auto
  then have "collapse_records k (filter (\<lambda>r'. key_of r' = k) records) \<noteq> None"
    unfolding collapse_records_some by auto
  then obtain c where c: "collapse_records k (filter (\<lambda>r'. key_of r' = k) records) = Some c" by auto
  with r have "c \<in> set (fst (collapseCalendarEventsWith records))" unfolding collapsed_event_iff by auto
  with collapse_records_key [OF c] show "k \<in> set (map cc_key (fst (collapseCalendarEventsWith records)))" by auto
qed

text \<open>
  The events of one message collapse to one per identity (a recurrence exception is its own):
  every identity with an invitation, publication or cancellation gets exactly one event, it is the
  record with the highest sequence number, replies change no attendee list beyond participation
  states, and any cancellation of that identity marks it cancelled.
\<close>

theorem one_event_per_identity:
  "distinct (map cc_key (fst (collapseCalendarEventsWith records)))
   \<and> set (map cc_key (fst (collapseCalendarEventsWith records))) =
       {eventGroupKey (cr_event r) | r. r \<in> set records \<and> \<not> is_reply r}
   \<and> (\<forall>c \<in> set (fst (collapseCalendarEventsWith records)). \<exists>w \<in> set (full_of (cc_key c) records).
        (\<forall>r \<in> set (full_of (cc_key c) records). sequence_of r \<le> sequence_of w)
        \<and> map ca_address (ce_attendees (cc_data c)) = map ca_address (ce_attendees (cr_event w))
        \<and> ce_method (cc_data c) = ce_method (cr_event w)
        \<and> ce_status (cc_data c) =
            (if \<exists>r \<in> set (full_of (cc_key c) records). ce_method (cr_event r) = ''CANCEL'' then Some ''CANCELLED''
             else ce_status (cr_event w)))"
proof (intro conjI ballI)
  show "distinct (map cc_key (fst (collapseCalendarEventsWith records)))"
    unfolding collapsed_events_eq
    by (rule collapsed_keys_distinct [OF _ group_by_keys(1)]) (use collapse_records_key in simp)
  show "set (map cc_key (fst (collapseCalendarEventsWith records))) = {key_of r | r. r \<in> set records \<and> \<not> is_reply r}"
    by (rule collapsed_event_keys)
next
  fix c assume "c \<in> set (fst (collapseCalendarEventsWith records))"
  then obtain k where "collapse_records k (filter (\<lambda>r. key_of r = k) records) = Some c"
    using collapsed_event_iff by auto
  from collapse_records_spec [OF this] show "\<exists>w \<in> set (full_of (cc_key c) records).
        (\<forall>r \<in> set (full_of (cc_key c) records). sequence_of r \<le> sequence_of w)
        \<and> map ca_address (ce_attendees (cc_data c)) = map ca_address (ce_attendees (cr_event w))
        \<and> ce_method (cc_data c) = ce_method (cr_event w)
        \<and> ce_status (cc_data c) =
            (if \<exists>r \<in> set (full_of (cc_key c) records). ce_method (cr_event r) = ''CANCEL'' then Some ''CANCELLED''
             else ce_status (cr_event w))"
    by (elim conjE bexE) (intro bexI conjI, simp_all)
qed

lemma one_event_per_identity_witness:
  "set (map cc_key (fst (collapseCalendarEventsWith [\<lparr>cr_event = sample_event ''REQUEST'' 0, cr_rawIcsContent = []\<rparr>])))
   = {eventGroupKey (sample_event ''REQUEST'' 0)}"
  using one_event_per_identity [of "[\<lparr>cr_event = sample_event ''REQUEST'' 0, cr_rawIcsContent = []\<rparr>]"]
  by (simp add: is_reply_def REPLY_LIKE_METHODS_def sample_event_def)

text \<open>
  The two collapses disagree on a reinstated event: when one message carries a cancellation and
  a later revision (higher sequence number) of the same event, the stored event has status
  \<open>CANCELLED\<close>, and the thread view shows it live and open for a reply.
\<close>

theorem reinstated_event_stored_cancelled:
  assumes "ce_method c = ''CANCEL''" "ce_method r = ''REQUEST''" "ce_sequence c < ce_sequence r"
    "eventGroupKey c = eventGroupKey r" "ce_organizer r \<noteq> []"
  shows "\<exists>d. fst (collapseCalendarEventsWith [\<lparr>cr_event = c, cr_rawIcsContent = x\<rparr>, \<lparr>cr_event = r, cr_rawIcsContent = y\<rparr>]) = [d]
     \<and> ce_status (cc_data d) = Some ''CANCELLED''
     \<and> (\<forall>s. sg_data s = cc_data d \<longrightarrow>
          (\<exists>en. co_winners (collapseCalendarSignals [s]) = [(sg_id s, en)]
             \<and> en_cancelledAt en = None \<and> en_rsvpable en))"
proof -
  have u: "to_upper ''REQUEST'' = ''REQUEST''" by code_simp
  show ?thesis
    using assms u
    by (simp add: collapseCalendarEventsWith_def group_by_def collapse_records_def is_reply_def
        REPLY_LIKE_METHODS_def sort_by_def le_by_def sequence_of_def List.map_filter_def Let_def
        collapseCalendarSignals_def collapse_step_def enrich_def is_cancel_def)
qed

lemma reinstated_event_stored_cancelled_witness:
  "\<exists>d. fst (collapseCalendarEventsWith [\<lparr>cr_event = sample_event ''CANCEL'' 1, cr_rawIcsContent = []\<rparr>,
            \<lparr>cr_event = sample_event ''REQUEST'' 2, cr_rawIcsContent = []\<rparr>]) = [d]
     \<and> ce_status (cc_data d) = Some ''CANCELLED''"
  using reinstated_event_stored_cancelled [of "sample_event ''CANCEL'' 1" "sample_event ''REQUEST'' 2" "[]" "[]"]
  by (auto simp: sample_event_def eventGroupKey_def)

end
