(* ===== verification/ThreadMatch.thy ===== *)
theory ThreadMatch
  imports Types
begin

text \<open>
  The retry loop around Aurora and the thread lookup by vector
  (\<open>database/thread-matcher.ts\<close>). The statement run against the database is a parameter: its
  outcome at each attempt. The loop returns the result, and the delays it slept in milliseconds.
\<close>

section \<open>Errors of the driver\<close>

record classifiable_error =
  xe_name :: "str option"
  xe_message :: "str option"
  xe_code :: "str option"
  xe_httpStatus :: "int option"

text \<open>\<open>DrizzleQueryError\<close> wraps the driver's error in its \<open>cause\<close>.\<close>

datatype driver_error =
    PlainError classifiable_error
  | DrizzleQueryError classifiable_error "classifiable_error option"

fun classifiableError :: "driver_error \<Rightarrow> classifiable_error" where
  "classifiableError (DrizzleQueryError own (Some cause)) = cause"
| "classifiableError (DrizzleQueryError own None) = own"
| "classifiableError (PlainError e) = e"

definition message_includes :: "classifiable_error \<Rightarrow> str \<Rightarrow> bool" where
  "message_includes e t = (case xe_message e of Some m \<Rightarrow> str_includes m t | None \<Rightarrow> False)"

definition isTransientError :: "driver_error \<Rightarrow> bool" where
  "isTransientError err =
     (let e = classifiableError err in
        xe_name e = Some ''StatementTimeoutException'' \<or>
        xe_name e = Some ''ServiceUnavailableError'' \<or>
        xe_name e = Some ''InternalServerErrorException'' \<or>
        xe_code e = Some ''ThrottlingException'' \<or>
        xe_name e = Some ''ThrottlingException'' \<or>
        (case xe_httpStatus e of Some status \<Rightarrow> status \<ge> 500 \<or> status = 429 | None \<Rightarrow> False) \<or>
        xe_name e = Some ''NetworkingError'' \<or>
        message_includes e ''Connection reset'' \<or>
        message_includes e ''resuming after being auto-paused'')"

definition isAuroraResuming :: "driver_error \<Rightarrow> bool" where
  "isAuroraResuming err = message_includes (classifiableError err) ''resuming after being auto-paused''"

section \<open>The retry loop\<close>

definition MAX_ATTEMPTS :: nat where "MAX_ATTEMPTS = 3"
definition BASE_DELAY_MS :: nat where "BASE_DELAY_MS = 1000"
definition RESUME_MAX_ATTEMPTS :: nat where "RESUME_MAX_ATTEMPTS = 8"
definition RESUME_BASE_DELAY_MS :: nat where "RESUME_BASE_DELAY_MS = 2000"

definition delay_ms :: "nat \<Rightarrow> nat \<Rightarrow> nat" where
  "delay_ms baseDelay attempt = min (baseDelay * 2 ^ attempt) 8000"

text \<open>The loop from an attempt on; \<open>Inl\<close> is the error the last attempt made met\<close>

function retry_from ::
  "(nat \<Rightarrow> driver_error + 'a) \<Rightarrow> nat \<Rightarrow> nat \<Rightarrow> nat \<Rightarrow> driver_error option \<Rightarrow> nat list \<Rightarrow> (driver_error option + 'a) \<times> nat list"
where
  "retry_from fn attempt maxAttempts baseDelay lastError slept =
     (if attempt < maxAttempts then
        (case fn attempt of
           Inr v \<Rightarrow> (Inr v, slept)
         | Inl e \<Rightarrow>
             (let switch = isAuroraResuming e \<and> maxAttempts = MAX_ATTEMPTS;
                  maxAttempts' = (if switch then RESUME_MAX_ATTEMPTS else maxAttempts);
                  baseDelay' = (if switch then RESUME_BASE_DELAY_MS else baseDelay)
              in if \<not> isTransientError e then (Inl (Some e), slept)
                 else if attempt = maxAttempts' - 1 then (Inl (Some e), slept)
                 else retry_from fn (attempt + 1) maxAttempts' baseDelay' (Some e)
                        (slept @ [delay_ms baseDelay' attempt])))
      else (Inl lastError, slept))"
  by pat_completeness auto
termination
  by (relation "measure (\<lambda>(fn, attempt, m, b, e, s). max m RESUME_MAX_ATTEMPTS - attempt)")
     (auto simp: RESUME_MAX_ATTEMPTS_def MAX_ATTEMPTS_def)

declare retry_from.simps [simp del]

definition withRetry :: "(nat \<Rightarrow> driver_error + 'a) \<Rightarrow> (driver_error option + 'a) \<times> nat list" where
  "withRetry fn = retry_from fn 0 MAX_ATTEMPTS BASE_DELAY_MS None []"

lemmas retry_consts = MAX_ATTEMPTS_def BASE_DELAY_MS_def RESUME_MAX_ATTEMPTS_def RESUME_BASE_DELAY_MS_def

text \<open>A resuming cluster is a transient condition, so switching the budget never ends the loop.\<close>

lemma resuming_transient: "isAuroraResuming e \<Longrightarrow> isTransientError e"
  by (simp add: isAuroraResuming_def isTransientError_def Let_def)

text \<open>
  The two budgets the loop can be in: at attempt \<open>a\<close>, either the ordinary one, no attempt
  so far having met a resuming cluster, or the extended one, some attempt having met one.
\<close>

definition budget_ok :: "(nat \<Rightarrow> driver_error + 'a) \<Rightarrow> nat \<Rightarrow> nat \<Rightarrow> nat \<Rightarrow> bool" where
  "budget_ok fn a m b \<longleftrightarrow>
     (m = 3 \<and> b = 1000 \<and> a \<le> 2 \<and> (\<forall>i < a. \<exists>e. fn i = Inl e \<and> isTransientError e \<and> \<not> isAuroraResuming e))
   \<or> (m = 8 \<and> b = 2000 \<and> a \<le> 7 \<and> (\<forall>i < a. \<exists>e. fn i = Inl e \<and> isTransientError e) \<and>
      (\<exists>i < min a 3. \<exists>e. fn i = Inl e \<and> isAuroraResuming e))"

text \<open>What the loop has slept at attempt \<open>a\<close>, at most\<close>

fun slept_bound :: "nat \<Rightarrow> nat \<Rightarrow> nat" where
  "slept_bound b 0 = 0"
| "slept_bound b (Suc a) = slept_bound b a + delay_ms b a"

definition final_ok :: "(nat \<Rightarrow> driver_error + 'a) \<Rightarrow> (driver_error option + 'a) \<times> nat list \<Rightarrow> bool" where
  "final_ok fn res \<longleftrightarrow>
     (\<exists>n. length (snd res) = n \<and> n \<le> 7 \<and>
        (\<forall>i < n. \<exists>e. fn i = Inl e \<and> isTransientError e) \<and>
        (case fst res of
           Inr v \<Rightarrow> fn n = Inr v
         | Inl err \<Rightarrow> \<exists>e. err = Some e \<and> fn n = Inl e \<and>
             (\<not> isTransientError e
              \<or> n = (if \<exists>i < 3. \<exists>e. fn i = Inl e \<and> isAuroraResuming e then 7 else 2))))"

lemma all_less_Suc': "(\<forall>i < a + 1. P i) \<longleftrightarrow> (\<forall>i < a. P i) \<and> P (a::nat)"
  by (auto simp: less_Suc_eq)

lemma budget_step:
  assumes "budget_ok fn a m b" "fn a = Inl e" "isTransientError e"
    "m' = (if isAuroraResuming e \<and> m = MAX_ATTEMPTS then RESUME_MAX_ATTEMPTS else m)"
    "b' = (if isAuroraResuming e \<and> m = MAX_ATTEMPTS then RESUME_BASE_DELAY_MS else b)"
    "a \<noteq> m' - 1"
  shows "budget_ok fn (a + 1) m' b'"
proof (cases "isAuroraResuming e \<and> m = 3")
  case True
  then have a: "m' = 8" "b' = 2000" "a \<le> 2" using assms by (auto simp: retry_consts budget_ok_def)
  have "\<forall>i < a + 1. \<exists>e. fn i = Inl e \<and> isTransientError e"
    using assms(1-3) True unfolding all_less_Suc' by (auto simp: budget_ok_def)
  moreover have "\<exists>i < min (a + 1) 3. \<exists>e. fn i = Inl e \<and> isAuroraResuming e"
    using True a assms(2) by (intro exI [of _ a]) auto
  ultimately show ?thesis using a by (simp add: budget_ok_def)
next
  case False
  then have mb: "m' = m" "b' = b" using assms(4,5) by (auto simp: MAX_ATTEMPTS_def)
  from assms(1) show ?thesis unfolding budget_ok_def [of fn a m b]
  proof
    assume l: "m = 3 \<and> b = 1000 \<and> a \<le> 2 \<and>
        (\<forall>i < a. \<exists>e. fn i = Inl e \<and> isTransientError e \<and> \<not> isAuroraResuming e)"
    with False assms(2,3,6) mb have "\<forall>i < a + 1. \<exists>e. fn i = Inl e \<and> isTransientError e \<and> \<not> isAuroraResuming e"
      unfolding all_less_Suc' by auto
    with l assms(6) mb show ?thesis by (simp add: budget_ok_def)
  next
    assume r: "m = 8 \<and> b = 2000 \<and> a \<le> 7 \<and> (\<forall>i < a. \<exists>e. fn i = Inl e \<and> isTransientError e) \<and>
        (\<exists>i < min a 3. \<exists>e. fn i = Inl e \<and> isAuroraResuming e)"
    then have "\<exists>i < min (a + 1) 3. \<exists>e. fn i = Inl e \<and> isAuroraResuming e" by (meson min_less_iff_conj trans_less_add1)
    moreover have "\<forall>i < a + 1. \<exists>e. fn i = Inl e \<and> isTransientError e"
      unfolding all_less_Suc' using r assms(2,3) by auto
    ultimately show ?thesis using r assms(6) mb by (simp add: budget_ok_def)
  qed
qed

lemma budget_last:
  assumes "budget_ok fn a m b" "fn a = Inl e"
    "a = (if isAuroraResuming e \<and> m = MAX_ATTEMPTS then RESUME_MAX_ATTEMPTS else m) - 1"
  shows "a = (if \<exists>i < 3. \<exists>e. fn i = Inl e \<and> isAuroraResuming e then 7 else 2)"
proof (cases "m = 3")
  case True
  with assms(1) have l: "a \<le> 2" "\<forall>i < a. \<exists>e. fn i = Inl e \<and> \<not> isAuroraResuming e"
    by (auto simp: budget_ok_def)
  with True assms(3) have a: "a = 2" "\<not> isAuroraResuming e" by (auto simp: retry_consts split: if_splits)
  have "\<not> (\<exists>i < 3. \<exists>e. fn i = Inl e \<and> isAuroraResuming e)"
  proof clarify
    fix i e' assume i: "i < (3::nat)" "fn i = Inl e'" "isAuroraResuming e'"
    then consider "i < a" | "i = a" using a by linarith
    then show False by cases (use i l a assms(2) in auto)
  qed
  with a show ?thesis by simp
next
  case False
  with assms(1,3) have "a = 7" "\<exists>i < 3. \<exists>e. fn i = Inl e \<and> isAuroraResuming e"
    by (auto simp: budget_ok_def retry_consts)
  then show ?thesis by simp
qed

lemma retry_from_ok:
  "budget_ok fn a m b \<Longrightarrow> length slept = a \<Longrightarrow> final_ok fn (retry_from fn a m b le slept)"
proof (induction fn a m b le slept rule: retry_from.induct)
  case (1 fn a m b le slept)
  have am: "a < m" "a \<le> 7" using "1.prems"(1) by (auto simp: budget_ok_def)
  have t: "\<forall>i < a. \<exists>e. fn i = Inl e \<and> isTransientError e" using "1.prems"(1) by (auto simp: budget_ok_def)
  show ?case
  proof (cases "fn a")
    case (Inr v)
    with am t "1.prems"(2) show ?thesis by (subst retry_from.simps) (simp add: final_ok_def)
  next
    case (Inl e)
    define m' where "m' = (if isAuroraResuming e \<and> m = MAX_ATTEMPTS then RESUME_MAX_ATTEMPTS else m)"
    define b' where "b' = (if isAuroraResuming e \<and> m = MAX_ATTEMPTS then RESUME_BASE_DELAY_MS else b)"
    have eq: "retry_from fn a m b le slept =
        (if \<not> isTransientError e \<or> a = m' - 1 then (Inl (Some e), slept)
         else retry_from fn (a + 1) m' b' (Some e) (slept @ [delay_ms b' a]))"
      using Inl am by (subst retry_from.simps) (simp add: m'_def b'_def Let_def)
    show ?thesis
    proof (cases "\<not> isTransientError e \<or> a = m' - 1")
      case True
      with budget_last [OF "1.prems"(1) Inl] have
        "\<not> isTransientError e \<or> a = (if \<exists>i < 3. \<exists>e. fn i = Inl e \<and> isAuroraResuming e then 7 else 2)"
        unfolding m'_def by blast
      with True eq Inl t am "1.prems"(2) show ?thesis by (simp add: final_ok_def)
    next
      case False
      then have "budget_ok fn (a + 1) m' b'"
        using budget_step [OF "1.prems"(1) Inl _ m'_def b'_def] by blast
      then have "final_ok fn (retry_from fn (a + 1) m' b' (Some e) (slept @ [delay_ms b' a]))"
        using "1.IH" [OF am(1) Inl refl m'_def b'_def] False "1.prems"(2) by simp
      with False eq show ?thesis by simp
    qed
  qed
qed

text \<open>Every delay is at most eight seconds, and the whole of them at most the extended budget's.\<close>

lemma retry_from_delays:
  "budget_ok fn a m b \<Longrightarrow> sum_list slept \<le> slept_bound 2000 a \<Longrightarrow>
     sum_list (snd (retry_from fn a m b le slept)) \<le> slept_bound 2000 7"
proof (induction fn a m b le slept rule: retry_from.induct)
  case (1 fn a m b le slept)
  have am: "a < m" "a \<le> 7" using "1.prems"(1) by (auto simp: budget_ok_def)
  have mono: "slept_bound 2000 a \<le> slept_bound 2000 7"
    using am(2) by (rule lift_Suc_mono_le [rotated]) simp
  show ?case
  proof (cases "fn a")
    case (Inr v)
    with am mono "1.prems"(2) show ?thesis by (subst retry_from.simps) simp
  next
    case (Inl e)
    define m' where "m' = (if isAuroraResuming e \<and> m = MAX_ATTEMPTS then RESUME_MAX_ATTEMPTS else m)"
    define b' where "b' = (if isAuroraResuming e \<and> m = MAX_ATTEMPTS then RESUME_BASE_DELAY_MS else b)"
    have eq: "retry_from fn a m b le slept =
        (if \<not> isTransientError e \<or> a = m' - 1 then (Inl (Some e), slept)
         else retry_from fn (a + 1) m' b' (Some e) (slept @ [delay_ms b' a]))"
      using Inl am by (subst retry_from.simps) (simp add: m'_def b'_def Let_def)
    show ?thesis
    proof (cases "\<not> isTransientError e \<or> a = m' - 1")
      case True
      with eq mono "1.prems"(2) show ?thesis by simp
    next
      case False
      then have ok: "budget_ok fn (a + 1) m' b'"
        using budget_step [OF "1.prems"(1) Inl _ m'_def b'_def] by blast
      then have "b' \<le> 2000" by (auto simp: budget_ok_def)
      then have "delay_ms b' a \<le> delay_ms 2000 a" by (simp add: delay_ms_def min.coboundedI1)
      then have "sum_list (slept @ [delay_ms b' a]) \<le> slept_bound 2000 (a + 1)" using "1.prems"(2) by simp
      then have "sum_list (snd (retry_from fn (a + 1) m' b' (Some e) (slept @ [delay_ms b' a]))) \<le> slept_bound 2000 7"
        using "1.IH" [OF am(1) Inl refl m'_def b'_def] False ok by simp
      with False eq show ?thesis by simp
    qed
  qed
qed

lemma withRetry_final: "final_ok fn (withRetry fn)"
  unfolding withRetry_def by (rule retry_from_ok) (simp_all add: budget_ok_def retry_consts)

text \<open>
  The retry loop always ends, and what it returns is the outcome of the last attempt it made:
  the first success; or the first error that is not transient; or, if every attempt met a transient
  error, the error of the third attempt, or of the eighth if one of the first three met a cluster
  resuming from its pause. Before it there is one delay per earlier attempt, all of which failed with a
  transient error, and the delays add up to at most 46 seconds, within the minute the code allows.
\<close>

theorem retry_outcome:
  "\<exists>n \<le> 7. length (snd (withRetry fn)) = n
     \<and> (\<forall>i < n. \<exists>e. fn i = Inl e \<and> isTransientError e)
     \<and> (case fst (withRetry fn) of
          Inr v \<Rightarrow> fn n = Inr v
        | Inl err \<Rightarrow> \<exists>e. err = Some e \<and> fn n = Inl e \<and>
            (\<not> isTransientError e \<or> n = (if \<exists>i < 3. \<exists>e. fn i = Inl e \<and> isAuroraResuming e then 7 else 2)))
     \<and> sum_list (snd (withRetry fn)) \<le> 46000"
proof -
  have b: "budget_ok fn 0 MAX_ATTEMPTS BASE_DELAY_MS" by (simp add: budget_ok_def retry_consts)
  have "sum_list (snd (withRetry fn)) \<le> slept_bound 2000 7"
    unfolding withRetry_def by (rule retry_from_delays [OF b]) simp
  also have "slept_bound 2000 7 = 46000"
  proof -
    have seven: "(7::nat) = Suc (Suc (Suc (Suc (Suc (Suc (Suc 0))))))" by simp
    show ?thesis unfolding seven by (simp add: delay_ms_def)
  qed
  finally show ?thesis using withRetry_final [of fn] by (auto simp: final_ok_def)
qed

lemma retry_outcome_witness:
  "(let fn = (\<lambda>i. if i = 0 then Inl (PlainError \<lparr>xe_name = Some ''NetworkingError'', xe_message = None,
                                                    xe_code = None, xe_httpStatus = None\<rparr>)
                 else Inr (7::nat))
    in length (snd (withRetry fn)) \<le> 7 \<and> sum_list (snd (withRetry fn)) \<le> 46000)"
proof -
  let ?fn = "\<lambda>i. if i = 0 then Inl (PlainError \<lparr>xe_name = Some ''NetworkingError'', xe_message = None,
                                                    xe_code = None, xe_httpStatus = None\<rparr>)
                 else Inr (7::nat)"
  show ?thesis using retry_outcome [of ?fn] unfolding Let_def by metis
qed

section \<open>The nearest thread\<close>

text \<open>
  \<open>findMatchForThreadMatcher\<close>: the outcomes of the vector query and of the deletion at each
  attempt, and of the lookup of the thread's record, are parameters. The result is the thread
  matched, and the thread whose embeddings a deletion was run for, with the deletion's outcome.
\<close>

record match_world =
  mw_select :: "nat \<Rightarrow> driver_error + str option"
  mw_thread :: "str \<Rightarrow> str + thread option"
  mw_delete :: "str \<Rightarrow> nat \<Rightarrow> driver_error + unit"

datatype match_error = QueryFailed "driver_error option" | GetThreadFailed str

definition findMatchForThreadMatcher ::
  "match_world \<Rightarrow> (match_error + thread option) \<times> (str \<times> bool) option" where
  "findMatchForThreadMatcher w =
     (case fst (withRetry (mw_select w)) of
        Inl e \<Rightarrow> (Inl (QueryFailed e), None)
      | Inr threadId \<Rightarrow>
          (if \<not> truthy threadId then (Inr None, None)
           else
             let i = the threadId in
             (case mw_thread w i of
                Inl e \<Rightarrow> (Inl (GetThreadFailed e), None)
              | Inr (Some t) \<Rightarrow> (Inr (Some t), None)
              | Inr None \<Rightarrow>
                  (Inr None,
                   Some (i, case fst (withRetry (mw_delete w i)) of Inl _ \<Rightarrow> False | Inr _ \<Rightarrow> True)))))"

text \<open>
  A thread is matched only if its record exists: a result is the record stored under the
  identifier some attempt of the query returned; an identifier without a record (a ghost) gives no
  match, has its embeddings deleted, and whether that deletion fails does not change the answer.
\<close>

theorem matched_thread_exists:
  assumes "findMatchForThreadMatcher w = (Inr m, pruned)"
  shows "(\<forall>t. m = Some t \<longrightarrow> (\<exists>n \<le> 7. \<exists>i. mw_select w n = Inr (Some i) \<and> mw_thread w i = Inr (Some t)) \<and> pruned = None)
    \<and> (\<forall>i ok. pruned = Some (i, ok) \<longrightarrow> m = None \<and> mw_thread w i = Inr None
         \<and> (\<exists>n \<le> 7. mw_select w n = Inr (Some i))
         \<and> (\<forall>del. \<exists>ok'. findMatchForThreadMatcher (w\<lparr>mw_delete := del\<rparr>) = (Inr None, Some (i, ok'))))
    \<and> (\<forall>i. fst (withRetry (mw_select w)) = Inr (Some i) \<and> i \<noteq> [] \<and> mw_thread w i = Inr None \<longrightarrow> pruned \<noteq> None)"
proof -
  have sel: "\<exists>n \<le> 7. mw_select w n = Inr v" if "fst (withRetry (mw_select w)) = Inr v" for v
    using withRetry_final [of "mw_select w"] that by (auto simp: final_ok_def)
  show ?thesis
    using assms sel
    by (auto simp: findMatchForThreadMatcher_def Let_def elim!: truthyE split: sum.splits option.splits if_splits)
qed

definition ghost_world :: match_world where
  "ghost_world =
     \<lparr>mw_select = \<lambda>_. Inr (Some ''thr-1''), mw_thread = \<lambda>_. Inr None, mw_delete = \<lambda>_ _. Inr ()\<rparr>"

lemma matched_thread_exists_witness:
  "\<exists>ok'. findMatchForThreadMatcher (ghost_world\<lparr>mw_delete := \<lambda>_ _. Inl (PlainError
        \<lparr>xe_name = None, xe_message = None, xe_code = None, xe_httpStatus = None\<rparr>)\<rparr>)
     = (Inr None, Some (''thr-1'', ok'))"
proof -
  have "findMatchForThreadMatcher ghost_world = (Inr None, Some (''thr-1'', True))"
    by (simp add: ghost_world_def findMatchForThreadMatcher_def withRetry_def retry_from.simps [of _ 0] retry_consts Let_def)
  from matched_thread_exists [OF this] show ?thesis by blast
qed

end
