(* ===== verification/Samples.thy ===== *)
theory Samples
  imports Store
begin

text \<open>
  A concrete environment for the witnesses: empty tables that accept every write, a fixed clock
  and id source, a sanitizer and a classifier that fail. The other witnesses update single
  services of it.
\<close>

definition ok_write :: "event list \<Rightarrow> unit result outcome" where
  "ok_write h = Done (Inr ())"

definition not_found :: "event list \<Rightarrow> 'a option result outcome" where
  "not_found h = Done (Inr None)"

definition no_rows :: "event list \<Rightarrow> 'a list result outcome" where
  "no_rows h = Done (Inr [])"

definition broken :: "event list \<Rightarrow> 'a outcome" where
  "broken h = Threw ''unavailable''"

lemmas sample_answers = ok_write_def not_found_def no_rows_def broken_def

definition sample_thread_db :: thread_db where
  "sample_thread_db =
     \<lparr>getSignalByMessageId = (\<lambda>_ _. not_found), getSignalById = (\<lambda>_ _ _. not_found),
      getThread = (\<lambda>_ _. not_found), svcSaveSignal = (\<lambda>_. ok_write),
      svcSaveCalendarEventSignal = (\<lambda>_. ok_write), svcCreateThread = (\<lambda>_. ok_write),
      svcUpdateThread = (\<lambda>_ _ _ _ _. ok_write), findThreadByGroupingKey = (\<lambda>_ _. not_found),
      findSignalByEmailMessageId = (\<lambda>_. not_found), listSignals = (\<lambda>_ _ _. no_rows),
      svcSetThreadTtlFallback = (\<lambda>_ _ _. ok_write), listActiveThreads = (\<lambda>_ _. no_rows),
      getLinkedCalendarSignal = (\<lambda>_ _ _. not_found), svcUpdateSignalSendStatus = (\<lambda>_ _ _. ok_write)\<rparr>"

definition sample_account_db :: account_db where
  "sample_account_db =
     \<lparr>getAliasByGlobalAddress = (\<lambda>_. not_found), getDomainOwner = (\<lambda>_. not_found),
      getAccount = (\<lambda>_. not_found), svcEnsureAlias = (\<lambda>_ _ _ _. Done (Inr True)),
      svcIncrementStat = (\<lambda>_ _ _ _. ok_write), getSender = (\<lambda>_ _ _. not_found),
      svcSaveSender = (\<lambda>_ _ _ _. ok_write), listLabels = (\<lambda>_. no_rows),
      listEnabledRules = (\<lambda>_. no_rows), listDomains = (\<lambda>_. no_rows),
      svcUpdateOnboarding = (\<lambda>_ _. ok_write), getDomainByName = (\<lambda>_ _. not_found),
      getTemplate = (\<lambda>_ _. not_found), svcAnnotateRuleError = (\<lambda>_ _ _. ok_write),
      svcAnnotateTemplateError = (\<lambda>_ _ _ _. ok_write), svcDisableRulesForwardingTo = (\<lambda>_ _. no_rows),
      listUsers = (\<lambda>_. no_rows), getUserProfileEmail = (\<lambda>_. not_found)\<rparr>"

definition sample_infra :: infra where
  "sample_infra =
     \<lparr>utcNow = (\<lambda>_. ''2026-01-01T00:00:00.000Z''), nowSeconds = (\<lambda>_. 1767225600),
      freshUuid = (\<lambda>h. ''uuid''), svcSetResourceStatus = (\<lambda>_ _ _ _. not_found),
      getResource = (\<lambda>_ _ _. not_found), listResourcesByThread = (\<lambda>_ _. no_rows),
      svcSuppressAddress = (\<lambda>_ _. Done (Inr 1)), svcUpdateGlobalReputation = (\<lambda>_ _. ok_write),
      svcSaveResource = (\<lambda>_. ok_write), presign = (\<lambda>_ _. broken), svcSanitize = (\<lambda>_ _. broken),
      svcClassify = (\<lambda>_. broken), generateForModel = (\<lambda>_ _. broken),
      generateForSecondaryClusters = (\<lambda>_ _. Done []), findMatch = (\<lambda>_ _ _. not_found),
      svcUpsertEmbedding = (\<lambda>_. ok_write), svcDeleteEmbeddings = (\<lambda>_ _. ok_write),
      getContent = (\<lambda>_. broken), svcSaveIcs = (\<lambda>_ _ _. Done ())\<rparr>"

definition sample_delivery :: delivery where
  "sample_delivery =
     \<lparr>svcUserCode = (\<lambda>_ _ _ _. broken), svcNotifySignal = (\<lambda>_ _ _ _. ok_write),
      svcForward = (\<lambda>_ _ _. ok_write), svcApplyRetention = (\<lambda>_ _ _ _. Done ()),
      svcSendReply = (\<lambda>_. broken), svcSendMessage = (\<lambda>_ _ _. ok_write),
      svcDispatchDraft = (\<lambda>_ _. ok_write), workflowHandlers = [],
      svcForwardInvite = (\<lambda>_ _ _ _ _. ok_write), svcScheduleFollowup = (\<lambda>_ _ _ _ _. ok_write),
      svcScheduleRsvp = (\<lambda>_ _ _ _ _. ok_write)\<rparr>"

definition sample_libs :: libs where
  "sample_libs =
     \<lparr>getDomain = (\<lambda>d. Some d), url_protocol = (\<lambda>_. None), json_parse = (\<lambda>_. None),
      evalCondition = (\<lambda>_ _. Done False), isoSeconds = (\<lambda>_. None), dateSeconds = (\<lambda>_. 0),
      dateTime = (\<lambda>_. None), dayAtEight = (\<lambda>_. []), dayStamp = (\<lambda>_. []), isoOfInstant = (\<lambda>_. []),
      sha256hex = (\<lambda>_. ''abcdef''), fromUUID = (\<lambda>u. u), parseIcs = (\<lambda>_. Inl ''no parser'')\<rparr>"

definition sample_env :: env where
  "sample_env =
     \<lparr>tdb = sample_thread_db, adb = sample_account_db, inf = sample_infra, dlv = sample_delivery,
      lib = sample_libs\<rparr>"

lemmas sample_defs = sample_env_def sample_thread_db_def sample_account_db_def sample_infra_def
  sample_delivery_def sample_libs_def sample_answers

end
