(* ===== verification/Bounce.thy ===== *)
theory Bounce
  imports Samples
begin

text \<open>
  What a bounce leads to, on both channels: the shared consequences
  (\<open>notifier/bounce-suppression.ts\<close>, \<open>notifier/bounce-handler.ts\<close>), the feedback events of SES
  (\<open>notifier/ses-feedback-processor.ts\<close>, \<open>email/ses-tags.ts\<close>) and the suppression list they
  write (\<open>database/processing-database.ts\<close>). The raw notification is carried as JSON.
\<close>

section \<open>Suppression entries\<close>

definition SOFT_BOUNCE_TTL_SECONDS :: int where
  "SOFT_BOUNCE_TTL_SECONDS = 7 * 24 * 60 * 60"

definition falsy_none :: "str option \<Rightarrow> str option" where
  "falsy_none x = (if truthy x then x else None)"

definition buildBounceSuppressionEntry ::
  "env \<Rightarrow> str \<Rightarrow> bool \<Rightarrow> suppression_reason \<Rightarrow> json option \<Rightarrow> str option \<Rightarrow> str option \<Rightarrow> suppressed_address io" where
  "buildBounceSuppressionEntry e address isPermanent reason feedback sesMessageId linkedSignalId =
     bind (now_iso e) (\<lambda>ts.
     bind (if isPermanent then ret None
           else bind (now_seconds e) (\<lambda>n. ret (Some (n + SOFT_BOUNCE_TTL_SECONDS)))) (\<lambda>ttl.
     ret \<lparr>su_address = address, su_reason = reason, su_suppressedAt = ts, su_ttl = ttl, su_bounceCount = None,
          su_feedback = feedback, su_linkedSignalId = falsy_none linkedSignalId,
          su_sesMessageId = falsy_none sesMessageId\<rparr>))"

section \<open>The bounce handler\<close>

record linked_send =
  ls_linkedSignalId :: str
  ls_signalLookupId :: str
  ls_threadId :: "str option"

record handle_bounce_params =
  hb_accountId :: str
  hb_bouncedRecipients :: "bounced_recipient list"
  hb_isPermanent :: bool
  hb_sesMessageId :: "str option"
  hb_suppressionReason :: suppression_reason
  hb_linkedSend :: "linked_send option"
  hb_revertToDraft :: bool
  hb_disableForwardingRules :: bool
  hb_feedback :: json

definition suppress_recipient :: "env \<Rightarrow> handle_bounce_params \<Rightarrow> unit \<Rightarrow> bounced_recipient \<Rightarrow> unit result io" where
  "suppress_recipient e p u r =
     bind (buildBounceSuppressionEntry e (br_address r) (hb_isPermanent p) (hb_suppressionReason p)
             (Some (hb_feedback p)) (hb_sesMessageId p) (map_option ls_linkedSignalId (hb_linkedSend p))) (\<lambda>entry.
     bind_ok (\<lambda>err. err) (suppressAddress e entry) (\<lambda>_. ret (Inr ())))"

definition deliverability_signal :: "handle_bounce_params \<Rightarrow> linked_send \<Rightarrow> str \<Rightarrow> str \<Rightarrow> any_signal" where
  "deliverability_signal p ls sid ts =
     \<lparr>sg_id = sid, sg_signalLookupId = sid, sg_threadId = falsy_none (ls_threadId ls), sg_gsi3pk = None,
      sg_accountId = hb_accountId p, sg_source = SrcSesFeedback, sg_type = TyDeliverability,
      sg_status = SActive, sg_labels = [], sg_createdAt = ts, sg_retentionDuration = None,
      sg_data = DDeliverability
        \<lparr>dl_linkedSignalId = ls_linkedSignalId ls, dl_bouncedRecipients = hb_bouncedRecipients p,
         dl_subject = ''Delivery failure: '' @ show_nat (length (hb_bouncedRecipients p)) @ '' recipient(s) bounced''\<rparr>\<rparr>"

definition reverted_to_draft :: send_status_update where
  "reverted_to_draft =
     \<lparr>ss_status = SDraft, ss_sendInitiatedAt = Some None, ss_sentAt = None, ss_sesMessageId = None,
      ss_sendFailureReason = Some ''all_recipients_bounced'', ss_gsi3pk = None, ss_threadId = None\<rparr>"

definition surface_bounce :: "env \<Rightarrow> handle_bounce_params \<Rightarrow> linked_send \<Rightarrow> unit result io" where
  "surface_bounce e p ls =
     bind (new_signal_id e) (\<lambda>sid.
     bind (now_iso e) (\<lambda>ts.
     bind_ok (\<lambda>err. err) (saveSignal e (deliverability_signal p ls sid ts)) (\<lambda>_.
       if hb_revertToDraft p
       then bind (updateSignalSendStatus e (hb_accountId p) (ls_signalLookupId ls) reverted_to_draft) (\<lambda>_. ret (Inr ()))
       else ret (Inr ()))))"

definition handleBounce :: "env \<Rightarrow> handle_bounce_params \<Rightarrow> unit result io" where
  "handleBounce e p =
     bind_ok (\<lambda>err. err) (for_ok (hb_bouncedRecipients p) (suppress_recipient e p) ()) (\<lambda>_.
     bind (if hb_disableForwardingRules p \<and> hb_isPermanent p
           then for_fold (hb_bouncedRecipients p) (\<lambda>u r. bind (disableRulesForwardingTo e (hb_accountId p) (br_address r)) (\<lambda>_. ret ())) ()
           else ret ()) (\<lambda>_.
       case hb_linkedSend p of None \<Rightarrow> ret (Inr ()) | Some ls \<Rightarrow> surface_bounce e p ls))"

section \<open>Tags of outbound mail\<close>

definition TAG_PREFIX :: str where "TAG_PREFIX = ''X-Numaeel-''"
definition TAG_TYPE :: str where "TAG_TYPE = TAG_PREFIX @ ''Type''"
definition TAG_ACCOUNT_ID :: str where "TAG_ACCOUNT_ID = TAG_PREFIX @ ''AccountId''"
definition TAG_SIGNAL_ID :: str where "TAG_SIGNAL_ID = TAG_PREFIX @ ''SignalId''"
definition TAG_THREAD_ID :: str where "TAG_THREAD_ID = TAG_PREFIX @ ''ThreadId''"
definition TAG_PURPOSE :: str where "TAG_PURPOSE = TAG_PREFIX @ ''Purpose''"
definition TAG_HEALTHCHECK_ID :: str where "TAG_HEALTHCHECK_ID = TAG_PREFIX @ ''Healthcheck-Id''"

definition EMAIL_SEND_TYPES :: "str list" where
  "EMAIL_SEND_TYPES =
     [''healthcheck'', ''digest'', ''onboarding'', ''account-invite'', ''forward-verification'',
      ''forward'', ''reply'', ''pong'', ''draft-send'', ''calendar-forward'', ''calendar-rsvp'']"

definition isEmailSendType :: "str \<Rightarrow> bool" where
  "isEmailSendType v = (v \<in> set EMAIL_SEND_TYPES)"

definition systemResponsibleForBounces :: "str \<Rightarrow> bool" where
  "systemResponsibleForBounces ty =
     (ty \<in> {''healthcheck'', ''digest'', ''onboarding'', ''account-invite'', ''forward-verification'', ''pong'', ''calendar-forward''})"

definition buildOutboundTags :: "str \<Rightarrow> str option \<Rightarrow> str option \<Rightarrow> str option \<Rightarrow> (str \<times> str) list" where
  "buildOutboundTags ty accountId signalId threadId =
     (TAG_TYPE, ty) #
     (if truthy accountId then [(TAG_ACCOUNT_ID, the accountId)] else []) @
     (if truthy signalId then [(TAG_SIGNAL_ID, the signalId)] else []) @
     (if truthy threadId then [(TAG_THREAD_ID, the threadId)] else [])"

definition describeSendType :: "ses_feedback \<Rightarrow> str \<times> bool" where
  "describeSendType f =
     (let tags = map_of (nullish (sm_tags (sf_mail f)) []); tagType = tags TAG_TYPE; purpose = tags TAG_PURPOSE
      in if truthy tagType \<and> isEmailSendType (the tagType) then (the tagType, systemResponsibleForBounces (the tagType))
         else if truthy (tags TAG_HEALTHCHECK_ID) \<or> purpose = Some ''healthcheck'' then (''healthcheck'', True)
         else if truthy purpose then (the purpose, False)
         else (''unknown'', False))"

section \<open>The feedback processor\<close>

definition bounced_recipients_of :: "ses_bounce \<Rightarrow> bounced_recipient list" where
  "bounced_recipients_of b =
     map (\<lambda>r. \<lparr>br_address = sr_emailAddress r, br_permanent = (sb_bounceType b = BtPermanent),
              br_reason = falsy_none (sr_status r)\<rparr>) (sb_bouncedRecipients b)"

definition user_send :: "any_signal option \<Rightarrow> (any_signal \<times> email_data) option" where
  "user_send s =
     (case s of
        Some sig \<Rightarrow>
          (case sg_data sig of
             DEmail d \<Rightarrow> if sg_source sig = SrcUser \<and> isEmailSignal sig then Some (sig, d) else None
           | _ \<Rightarrow> None)
      | None \<Rightarrow> None)"

text \<open>Every recipient of the send is among the permanently bounced\<close>

definition all_bounced :: "email_data \<Rightarrow> bounced_recipient list \<Rightarrow> bool" where
  "all_bounced d bounced =
     (eb_to (base_of d) \<noteq> [] \<and>
      (\<forall>addr \<in> set (eb_to (base_of d)).
         \<exists>b \<in> set bounced. to_lower (br_address b) = to_lower (ea_address addr) \<and> br_permanent b))"

definition bounce_params :: "json \<Rightarrow> ses_feedback \<Rightarrow> ses_bounce \<Rightarrow> any_signal option \<Rightarrow> handle_bounce_params" where
  "bounce_params raw f b sentSignal =
     (let tags = map_of (nullish (sm_tags (sf_mail f)) []);
          accountId = nullish_opt (tags TAG_ACCOUNT_ID) (tags ''accountId'');
          tagThreadId = tags TAG_THREAD_ID;
          isPermanent = (sb_bounceType b = BtPermanent);
          bounced = bounced_recipients_of b;
          userSend = user_send sentSignal
      in \<lparr>hb_accountId = nullish accountId (nullish (map_option (\<lambda>u. sg_accountId (fst u)) userSend) []),
          hb_bouncedRecipients = bounced,
          hb_isPermanent = isPermanent,
          hb_sesMessageId = Some (sm_messageId (sf_mail f)),
          hb_suppressionReason = (if isPermanent then HardBounce else SoftBounce),
          hb_linkedSend = map_option (\<lambda>(s, d).
            \<lparr>ls_linkedSignalId = sg_id s, ls_signalLookupId = sg_signalLookupId s,
             ls_threadId = (if truthy tagThreadId then tagThreadId else falsy_none (sg_threadId s))\<rparr>) userSend,
          hb_revertToDraft = (isPermanent \<and> (case userSend of None \<Rightarrow> False | Some (s, d) \<Rightarrow> all_bounced d bounced)),
          hb_disableForwardingRules = (accountId \<noteq> None \<and> tags TAG_TYPE = Some ''forward''),
          hb_feedback = raw\<rparr>)"

definition find_sent_signal :: "env \<Rightarrow> ses_feedback \<Rightarrow> any_signal option result io" where
  "find_sent_signal e f =
     (let tags = map_of (nullish (sm_tags (sf_mail f)) []);
          accountId = nullish_opt (tags TAG_ACCOUNT_ID) (tags ''accountId'')
      in if truthy (tags TAG_SIGNAL_ID) \<and> truthy accountId \<and> truthy (tags TAG_THREAD_ID)
         then call_read ''getSignalById''
                (getSignalById (tdb e) (the accountId) (the (tags TAG_SIGNAL_ID)) (the (tags TAG_THREAD_ID)))
         else ret (Inr None))"

definition complaint_entry :: "str \<Rightarrow> str \<Rightarrow> suppressed_address" where
  "complaint_entry ts address =
     \<lparr>su_address = address, su_reason = Complaint, su_suppressedAt = ts, su_ttl = None, su_bounceCount = None,
      su_feedback = None, su_linkedSignalId = None, su_sesMessageId = None\<rparr>"

definition processFeedback :: "env \<Rightarrow> json \<Rightarrow> ses_feedback \<Rightarrow> unit result io" where
  "processFeedback e raw f =
     (let ty = resolveSesEventType f
      in case (ty = Some ''Bounce'', sf_bounce f) of
           (True, Some b) \<Rightarrow>
             bind_ok (\<lambda>err. err) (find_sent_signal e f) (\<lambda>sentSignal. handleBounce e (bounce_params raw f b sentSignal))
         | _ \<Rightarrow>
             (case (ty = Some ''Complaint'', sf_complaint f) of
                (True, Some c) \<Rightarrow>
                  bind (now_iso e) (\<lambda>ts.
                    for_ok (sc_complainedRecipients c) (\<lambda>u address.
                      bind_ok (\<lambda>err. err) (suppressAddress e (complaint_entry ts address)) (\<lambda>_. ret (Inr ()))) ())
              | _ \<Rightarrow> ret (Inr ())))"

section \<open>The suppression list\<close>

text \<open>\<open>ProcessingDatabase.suppressAddress\<close>: one update of the row of the address\<close>

definition suppress_row :: "suppressed_address \<Rightarrow> suppressed_address option \<Rightarrow> suppressed_address" where
  "suppress_row entry old =
     \<lparr>su_address = su_address entry, su_reason = su_reason entry, su_suppressedAt = su_suppressedAt entry,
      su_ttl = (case su_ttl entry of Some t \<Rightarrow> Some t | None \<Rightarrow> Option.bind old su_ttl),
      su_bounceCount = Some (nullish (Option.bind old su_bounceCount) 0 + 1),
      su_feedback = su_feedback entry, su_linkedSignalId = su_linkedSignalId entry,
      su_sesMessageId = su_sesMessageId entry\<rparr>"

type_synonym suppression_list = "str \<Rightarrow> suppressed_address option"

definition suppress_address :: "suppression_list \<Rightarrow> suppressed_address \<Rightarrow> suppression_list" where
  "suppress_address tab entry = tab(su_address entry \<mapsto> suppress_row entry (tab (su_address entry)))"

text \<open>\<open>isAddressSuppressed\<close>, and what the table's time to live removes by a time\<close>

definition isAddressSuppressed :: "suppression_list \<Rightarrow> str \<Rightarrow> bool" where
  "isAddressSuppressed tab address = (tab address \<noteq> None)"

definition expire_rows :: "int \<Rightarrow> suppression_list \<Rightarrow> suppression_list" where
  "expire_rows now tab =
     (\<lambda>a. case tab a of
            Some r \<Rightarrow> (case su_ttl r of Some t \<Rightarrow> if t \<le> now then None else Some r | None \<Rightarrow> Some r)
          | None \<Rightarrow> None)"

section \<open>The contract of the handler\<close>

text \<open>The addresses whose suppression was recorded, in order\<close>

fun suppressed_in :: "event list \<Rightarrow> str list" where
  "suppressed_in [] = []"
| "suppressed_in (SuppressAddress s True # es) = su_address s # suppressed_in es"
| "suppressed_in (_ # es) = suppressed_in es"

lemma suppressed_in_append: "suppressed_in (as @ bs) = suppressed_in as @ suppressed_in bs"
  by (induction as rule: suppressed_in.induct) simp_all

fun bounce_event :: "handle_bounce_params \<Rightarrow> event \<Rightarrow> bool" where
  "bounce_event p (SuppressAddress s _) =
     (su_reason s = hb_suppressionReason p \<and> (su_ttl s = None) = hb_isPermanent p)"
| "bounce_event p (DisableRulesForwardingTo a addr _) =
     (hb_disableForwardingRules p \<and> hb_isPermanent p \<and> a = hb_accountId p \<and>
      addr \<in> br_address ` set (hb_bouncedRecipients p))"
| "bounce_event p (SaveSignal s _) = (hb_linkedSend p \<noteq> None \<and> sg_type s = TyDeliverability)"
| "bounce_event p (UpdateSignalSendStatus a i u _) =
     (hb_revertToDraft p \<and> ss_status u = SDraft \<and> map_option ls_signalLookupId (hb_linkedSend p) = Some i)"
| "bounce_event p Clock = True"
| "bounce_event p FreshId = True"
| "bounce_event p _ = False"

lemma entry_spec:
  "spec (buildBounceSuppressionEntry e a perm reason fb mid lid)
     (\<lambda>r es. set es \<subseteq> {Clock} \<and>
        (\<forall>s. r = Done s \<longrightarrow> su_address s = a \<and> su_reason s = reason \<and> (su_ttl s = None) = perm))"
  unfolding buildBounceSuppressionEntry_def now_iso_def now_seconds_def
  by (rule specI) (auto simp: bind_def call_def ret_def split: outcome.splits)

lemma suppressed_clock: "set es \<subseteq> {Clock} \<Longrightarrow> suppressed_in es = [] \<and> (\<forall>ev \<in> set es. bounce_event p ev)"
  by (induction es) auto

lemma suppress_recipient_spec:
  "spec (suppress_recipient e p u r)
     (\<lambda>res es. (\<forall>ev \<in> set es. bounce_event p ev) \<and>
        ((\<exists>v. res = Done (Inr v)) \<longrightarrow> suppressed_in es = [br_address r]))"
  unfolding suppress_recipient_def
proof (rule spec_bind [OF entry_spec])
  fix s :: suppressed_address and es assume "set es \<subseteq> {Clock} \<and>
    (\<forall>s'. Done s = Done s' \<longrightarrow> su_address s' = br_address r \<and> su_reason s' = hb_suppressionReason p \<and>
       (su_ttl s' = None) = hb_isPermanent p)"
  then have c: "suppressed_in es = []" "\<forall>ev \<in> set es. bounce_event p ev"
    and s: "su_address s = br_address r" "su_reason s = hb_suppressionReason p" "(su_ttl s = None) = hb_isPermanent p"
    using suppressed_clock [of es p] by auto
  have w: "spec (suppressAddress e s) (\<lambda>res es'. es' = [SuppressAddress s (succeeded res)])"
    unfolding suppressAddress_def by (rule spec_write) simp
  show "spec (bind_ok (\<lambda>err. err) (suppressAddress e s) (\<lambda>_. ret (Inr ())))
     (\<lambda>res es'. (\<forall>ev \<in> set (es @ es'). bounce_event p ev) \<and>
        ((\<exists>v. res = Done (Inr v)) \<longrightarrow> suppressed_in (es @ es') = [br_address r]))"
    by (rule spec_bind_ok [OF w]) (use c s in \<open>auto intro!: spec_ret simp: suppressed_in_append\<close>)
next
  fix t es assume "set es \<subseteq> {Clock} \<and>
    (\<forall>s'. Threw t = Done s' \<longrightarrow> su_address s' = br_address r \<and> su_reason s' = hb_suppressionReason p \<and>
       (su_ttl s' = None) = hb_isPermanent p)"
  then show "(\<forall>ev \<in> set es. bounce_event p ev) \<and>
        ((\<exists>v. Threw t = Done (Inr v)) \<longrightarrow> suppressed_in es = [br_address r])"
    using suppressed_clock [of es p] by auto
qed

lemma suppress_loop_emits: "emits (for_ok rs (suppress_recipient e p) u) (bounce_event p)"
  by (rule emits_for_ok) (use suppress_recipient_spec [THEN spec_mono] in \<open>simp add: emits_def\<close>)

lemma surface_bounce_emits: "hb_linkedSend p = Some ls \<Longrightarrow> emits (surface_bounce e p ls) (bounce_event p)"
  unfolding surface_bounce_def store_defs
  by (intro trace_intros) (simp_all add: deliverability_signal_def reverted_to_draft_def)

lemma handle_bounce_emits: "emits (handleBounce e p) (bounce_event p)"
  unfolding handleBounce_def disableRulesForwardingTo_def
  by (intro trace_intros suppress_loop_emits surface_bounce_emits) auto

text \<open>Nothing after the first loop suppresses\<close>

fun no_suppression :: "event \<Rightarrow> bool" where
  "no_suppression (SuppressAddress _ _) = False"
| "no_suppression _ = True"

lemma no_suppression_in: "\<forall>ev \<in> set es. no_suppression ev \<Longrightarrow> suppressed_in es = []"
proof (induction es rule: suppressed_in.induct)
qed simp_all

lemma handle_bounce_tail:
  "emits (bind (if hb_disableForwardingRules p \<and> hb_isPermanent p
           then for_fold rs (\<lambda>u r. bind (disableRulesForwardingTo e a (br_address r)) (\<lambda>_. ret ())) ()
           else ret ()) (\<lambda>_. case hb_linkedSend p of None \<Rightarrow> ret (Inr ()) | Some ls \<Rightarrow> surface_bounce e p ls))
     no_suppression"
  unfolding surface_bounce_def store_defs by (intro trace_intros) simp_all

text \<open>
  C33. The consequences of a bounce, whatever the tables answer: if the handler returns success, it
  recorded the suppression of exactly the bounced recipients, in order, with the reason it was given
  and with an expiry exactly for a transient bounce; forwarding rules are disabled only for those
  addresses, on a permanent bounce of a forward; a notice is saved only for a bounce
  that resolved to a send of the user, and only that send is put back to draft, when asked to.
\<close>

theorem handle_bounce_contract:
  "spec (handleBounce e p)
     (\<lambda>r es. (\<forall>ev \<in> set es. bounce_event p ev) \<and>
        (r = Done (Inr ()) \<longrightarrow> suppressed_in es = map br_address (hb_bouncedRecipients p)))"
proof (rule spec_conj)
  show "spec (handleBounce e p) (\<lambda>r es. \<forall>ev \<in> set es. bounce_event p ev)"
    using handle_bounce_emits by (simp add: emits_def)
  have loop: "spec (for_ok (hb_bouncedRecipients p) (suppress_recipient e p) ())
      (\<lambda>r es. (\<exists>u. r = Done (Inr u)) \<longrightarrow> suppressed_in es = map br_address (hb_bouncedRecipients p))"
    by (rule spec_for_ok_collect) (auto simp: suppressed_in_append intro: spec_mono [OF suppress_recipient_spec])
  show "spec (handleBounce e p) (\<lambda>r es. r = Done (Inr ()) \<longrightarrow> suppressed_in es = map br_address (hb_bouncedRecipients p))"
    unfolding handleBounce_def
  proof (rule spec_bind_ok [OF loop])
    fix x es assume "(\<exists>u. Done (Inr x) = Done (Inr u)) \<longrightarrow> suppressed_in es = map br_address (hb_bouncedRecipients p)"
    then show "spec (bind (if hb_disableForwardingRules p \<and> hb_isPermanent p
           then for_fold (hb_bouncedRecipients p)
             (\<lambda>u r. bind (disableRulesForwardingTo e (hb_accountId p) (br_address r)) (\<lambda>_. ret ())) ()
           else ret ()) (\<lambda>_. case hb_linkedSend p of None \<Rightarrow> ret (Inr ()) | Some ls \<Rightarrow> surface_bounce e p ls))
      (\<lambda>r es'. r = Done (Inr ()) \<longrightarrow> suppressed_in (es @ es') = map br_address (hb_bouncedRecipients p))"
      by (intro spec_mono [OF handle_bounce_tail [unfolded emits_def]])
         (simp add: suppressed_in_append no_suppression_in)
  qed auto
qed

definition sample_bounce :: handle_bounce_params where
  "sample_bounce =
     \<lparr>hb_accountId = ''a'', hb_bouncedRecipients = [\<lparr>br_address = ''x@y.io'', br_permanent = True, br_reason = None\<rparr>],
      hb_isPermanent = True, hb_sesMessageId = None, hb_suppressionReason = HardBounce, hb_linkedSend = None,
      hb_revertToDraft = False, hb_disableForwardingRules = False, hb_feedback = JNull\<rparr>"

lemma handle_bounce_contract_witness:
  "suppressed_in (snd (handleBounce sample_env sample_bounce [])) = [''x@y.io'']"
proof -
  have "fst (handleBounce sample_env sample_bounce []) = Done (Inr ())"
    by (simp add: handleBounce_def sample_bounce_def suppress_recipient_def buildBounceSuppressionEntry_def
        store_defs prog_defs call_write_def sample_defs)
  moreover obtain es where "snd (handleBounce sample_env sample_bounce []) = [] @ es"
    "fst (handleBounce sample_env sample_bounce []) = Done (Inr ()) \<longrightarrow>
     suppressed_in es = map br_address (hb_bouncedRecipients sample_bounce)"
    using handle_bounce_contract [of sample_env sample_bounce] unfolding spec_def by blast
  ultimately show ?thesis by (simp add: sample_bounce_def)
qed

section \<open>How long an address stays suppressed\<close>

definition last_ttl :: "suppressed_address list \<Rightarrow> int option" where
  "last_ttl entries =
     (let ts = List.map_filter su_ttl entries in if ts = [] then None else Some (last ts))"

lemma last_ttl_snoc: "last_ttl (xs @ [x]) = (case su_ttl x of Some t \<Rightarrow> Some t | None \<Rightarrow> last_ttl xs)"
  by (simp add: last_ttl_def Let_def List.map_filter_def split: option.splits)

lemma suppress_address_at:
  "su_address x = a \<Longrightarrow> suppress_address tab x a = Some (suppress_row x (tab a))"
  by (simp add: suppress_address_def)

lemma suppress_row_simps:
  "su_ttl (suppress_row x old) = (case su_ttl x of Some t \<Rightarrow> Some t | None \<Rightarrow> Option.bind old su_ttl)"
  "su_bounceCount (suppress_row x old) = Some (nullish (Option.bind old su_bounceCount) 0 + 1)"
  by (simp_all add: suppress_row_def)

lemma suppression_row:
  assumes "\<forall>x \<in> set entries. su_address x = a" "entries \<noteq> []"
  shows "\<exists>r. foldl suppress_address Map.empty entries a = Some r \<and> su_ttl r = last_ttl entries \<and>
     su_bounceCount r = Some (int (length entries))"
  using assms
proof (induction entries rule: rev_induct)
  case (snoc x xs)
  then have x: "su_address x = a" by simp
  let ?tab = "foldl suppress_address Map.empty xs"
  have eq: "foldl suppress_address Map.empty (xs @ [x]) a = Some (suppress_row x (?tab a))"
    using suppress_address_at [OF x] by simp
  show ?case
  proof (cases "xs = []")
    case True
    then show ?thesis unfolding eq last_ttl_snoc
      by (simp add: suppress_row_simps last_ttl_def List.map_filter_def split: option.splits)
  next
    case False
    with snoc obtain r where "?tab a = Some r" "su_ttl r = last_ttl xs"
      "su_bounceCount r = Some (int (length xs))" by auto
    then show ?thesis unfolding eq last_ttl_snoc by (simp add: suppress_row_simps split: option.splits)
  qed
qed simp

text \<open>
  An address stays on the suppression list until the expiry of the last transient bounce
  recorded for it, whatever was recorded after: a permanent bounce or a complaint, which
  has no expiry, is kept for ever only if no transient bounce of the address came before or
  comes later. Every entry counts as one bounce.
\<close>

theorem suppression_lasts:
  assumes "entries \<noteq> []" "\<forall>x \<in> set entries. su_address x = a"
  shows "isAddressSuppressed (expire_rows now (foldl suppress_address Map.empty entries)) a
           = (case last_ttl entries of None \<Rightarrow> True | Some t \<Rightarrow> now < t)
         \<and> map_option su_bounceCount (foldl suppress_address Map.empty entries a) = Some (Some (int (length entries)))"
  using suppression_row [OF assms(2,1)]
  by (auto simp: isAddressSuppressed_def expire_rows_def split: option.splits)

definition hard_entry :: suppressed_address where
  "hard_entry =
     \<lparr>su_address = ''x@y.z'', su_reason = HardBounce, su_suppressedAt = ''2'', su_ttl = None, su_bounceCount = None,
      su_feedback = None, su_linkedSignalId = None, su_sesMessageId = None\<rparr>"

lemma suppression_lasts_witness:
  "\<not> isAddressSuppressed (expire_rows 604801
       (foldl suppress_address Map.empty
          [hard_entry\<lparr>su_reason := SoftBounce, su_ttl := Some 604800\<rparr>, hard_entry])) ''x@y.z''"
  using suppression_lasts [of "[hard_entry\<lparr>su_reason := SoftBounce, su_ttl := Some 604800\<rparr>, hard_entry]" "''x@y.z''" 604801]
  by (simp add: hard_entry_def last_ttl_def List.map_filter_def)

end
