(* ===== verification/Embed.thy ===== *)
theory Embed
  imports MailBody Services
begin

text \<open>
  The text whose vector finds a message's thread (\<open>embedding/embed-text.ts\<close>): from the
  classification (\<open>buildEmbedText\<close>), and from the MIME message, which the reindex worker uses
  (\<open>buildMimeEmbedText\<close>). \<open>url\<close> is the host name and path of a URL, as Node's parser gives them.
\<close>

section \<open>From the classification\<close>

text \<open>The identity fields of \<open>CLASSIFIER_WORKFLOW_REGISTRY\<close> (\<open>types/workflow-registry.ts\<close>)\<close>

definition identity_fields :: "(str \<times> str list) list" where
  "identity_fields =
     [(''auth'', [''service'']),
      (''conversation'', []),
      (''crm'', [''senderCompany'']),
      (''package'', [''retailer'', ''orderNumber'']),
      (''travel'', [''provider'', ''confirmationNumber'', ''origin'', ''destination'']),
      (''payments'', [''vendor'', ''invoiceNumber'']),
      (''content'', [''publisher'']),
      (''onboarding'', [''service'']),
      (''notice'', [''provider'', ''referenceNumber'']),
      (''healthcare'', [''provider'', ''patientName'']),
      (''job'', [''company'', ''role'']),
      (''support'', [''ticketId'', ''service'']),
      (''events'', [''eventName'', ''venueName'']),
      (''healthcheck'', []),
      (''test'', []),
      (''unspecified'', [])]"

definition identity_value :: "jobj \<Rightarrow> str \<Rightarrow> str option" where
  "identity_value data f = (case jfield data f of JStr v \<Rightarrow> if trim v \<noteq> [] then Some v else None | _ \<Rightarrow> None)"

definition getIdentityValues :: "str \<Rightarrow> jobj \<Rightarrow> str list" where
  "getIdentityValues workflow data =
     (case map_of identity_fields workflow of
        None \<Rightarrow> []
      | Some fs \<Rightarrow>
          List.map_filter (identity_value data) fs)"

fun join_with :: "str \<Rightarrow> str list \<Rightarrow> str" where
  "join_with sep [] = []"
| "join_with sep [x] = x"
| "join_with sep (x # xs) = x @ sep @ join_with sep xs"

definition newline :: str where "newline = [CHR 10]"

definition buildEmbedText :: "str \<Rightarrow> classification_output \<Rightarrow> str option \<Rightarrow> str" where
  "buildEmbedText senderDomain c subject =
     (let identityValues = getIdentityValues (cl_workflow c) (cl_workflowData c);
          identityLine = join_with '' '' identityValues
      in join_with newline
           ([senderDomain, cl_workflow c] @
            (if identityValues \<noteq> [] then [identityLine @ '' '' @ identityLine @ '' '' @ identityLine] else []) @
            (if truthy subject then [the subject] else []) @
            [cl_summary c, join_with '','' (cl_labels c)]))"

section \<open>From the MIME message\<close>

record embed_text_input =
  ei_accountId :: str
  ei_from :: str
  ei_replyTo :: "str option"
  ei_returnPath :: "str option"
  ei_recipientAddress :: str
  ei_subject :: str
  ei_rawTextBody :: str

text \<open>\<open>/<img[^>]*\/?>/gi\<close> and \<open>/https?:\/\/[^\s]+/g\<close>; the other two are those of \<open>MailBody\<close>\<close>

definition imgPattern :: re where
  "imgPattern =
     foldr Seq [lit_i ''<img'', Star True (Cls (\<lambda>c. \<not> is_close c)), Star True (lit ''/'')] (lit ''>'')"

definition urlPattern :: re where
  "urlPattern =
     foldr Seq [lit ''http'', Alt (lit ''s'') Eps, lit ''://''] (plus_re (Cls (\<lambda>c. \<not> is_space c)))"

definition reduce_url :: "(str \<Rightarrow> (str \<times> str) option) \<Rightarrow> str \<Rightarrow> str \<Rightarrow> str" where
  "reduce_url url s dflt =
     (case url s of
        None \<Rightarrow> dflt
      | Some (hostname, pathname) \<Rightarrow>
          (case filter (\<lambda>p. p \<noteq> []) (split_on CHR ''/'' pathname) of
             [] \<Rightarrow> hostname
           | p # ps \<Rightarrow> hostname @ ''/'' @ p))"

definition reduceLink :: "(str \<Rightarrow> (str \<times> str) option) \<Rightarrow> str \<Rightarrow> str" where
  "reduceLink url s = reduce_url url s []"

definition reduceLinks :: "(str \<Rightarrow> (str \<times> str) option) \<Rightarrow> str \<Rightarrow> str" where
  "reduceLinks url txt = replace_all urlPattern (\<lambda>m _. reduce_url url m m) txt"

definition sanitizeBody :: "(str \<Rightarrow> (str \<times> str) option) \<Rightarrow> str \<Rightarrow> str" where
  "sanitizeBody url raw =
     trim (replace_all (plus_re (Cls is_space)) (\<lambda>_ _. '' '')
       (reduceLinks url
         (replace_all tagPattern (\<lambda>_ _. [])
           (replace_all imgPattern (\<lambda>_ _. [])
             (replace_all (stylePattern ''script'') (\<lambda>_ _. [])
               (replace_all (stylePattern ''style'') (\<lambda>_ _. []) raw))))))"

definition buildBodyContent :: "str \<Rightarrow> str" where
  "buildBodyContent body = (if length body > 4000 then take 3000 body @ slice_last 1000 body else body)"

definition buildMimeEmbedText :: "(str \<Rightarrow> (str \<times> str) option) \<Rightarrow> embed_text_input \<Rightarrow> str" where
  "buildMimeEmbedText url i =
     join_with newline
       ([ei_accountId i, ei_from i] @
        (if truthy (ei_replyTo i) then [the (ei_replyTo i)] else []) @
        (if truthy (ei_returnPath i) then [the (ei_returnPath i)] else []) @
        [ei_recipientAddress i, ei_subject i, buildBodyContent (sanitizeBody url (ei_rawTextBody i))])"

section \<open>Properties\<close>

lemma body_bounded: "length (buildBodyContent body) \<le> 4000"
  by (simp add: buildBodyContent_def slice_last_def)

lemma identity_values_cong:
  assumes "\<And>f. f \<in> set (nullish (map_of identity_fields w) []) \<Longrightarrow> jfield d1 f = jfield d2 f"
  shows "getIdentityValues w d1 = getIdentityValues w d2"
proof (cases "map_of identity_fields w")
  case (Some fs)
  with assms have "f \<in> set fs \<Longrightarrow> identity_value d1 f = identity_value d2 f" for f by (simp add: identity_value_def)
  then have "List.map_filter (identity_value d1) fs = List.map_filter (identity_value d2) fs"
    by (induction fs) (simp_all add: List.map_filter_simps split: option.splits)
  with Some show ?thesis by (simp add: getIdentityValues_def)
qed (simp add: getIdentityValues_def)

lemma identity_value_Some: "identity_value data f = Some v \<longleftrightarrow> jfield data f = JStr v \<and> trim v \<noteq> []"
  by (auto simp: identity_value_def split: json.splits)

lemma identity_values_set:
  "set (getIdentityValues w data) =
     {v. trim v \<noteq> [] \<and> (\<exists>f \<in> set (nullish (map_of identity_fields w) []). jfield data f = JStr v)}"
  by (cases "map_of identity_fields w") (auto simp: getIdentityValues_def mem_map_filter identity_value_Some)

text \<open>
  Threads are matched on identity, not on detail: the embedded text of a classified message
  depends on nothing of the extracted data but the identity fields of its workflow, so amounts, dates
  and links of two messages about the same order or booking cannot keep them apart; and an identity
  field counts exactly when it is a non-blank string.
\<close>

theorem embed_text_identity_only:
  assumes "cl_workflow c1 = cl_workflow c2" "cl_summary c1 = cl_summary c2" "cl_labels c1 = cl_labels c2"
    "\<forall>f \<in> set (nullish (map_of identity_fields (cl_workflow c1)) []).
        jfield (cl_workflowData c1) f = jfield (cl_workflowData c2) f"
  shows "buildEmbedText d c1 subject = buildEmbedText d c2 subject
    \<and> set (getIdentityValues (cl_workflow c1) (cl_workflowData c1)) =
        {v. trim v \<noteq> [] \<and> (\<exists>f \<in> set (nullish (map_of identity_fields (cl_workflow c1)) []).
                jfield (cl_workflowData c1) f = JStr v)}"
proof
  have "getIdentityValues (cl_workflow c1) (cl_workflowData c1) = getIdentityValues (cl_workflow c2) (cl_workflowData c2)"
    unfolding assms(1) [symmetric] by (rule identity_values_cong) (use assms(4) in blast)
  with assms(1-3) show "buildEmbedText d c1 subject = buildEmbedText d c2 subject"
    by (simp add: buildEmbedText_def Let_def)
  show "set (getIdentityValues (cl_workflow c1) (cl_workflowData c1)) =
        {v. trim v \<noteq> [] \<and> (\<exists>f \<in> set (nullish (map_of identity_fields (cl_workflow c1)) []).
                jfield (cl_workflowData c1) f = JStr v)}"
    by (rule identity_values_set)
qed

definition sample_order :: "json \<Rightarrow> classification_output" where
  "sample_order price =
     \<lparr>cl_workflow = ''package'', cl_workflowData = [(''retailer'', JStr ''Acme''), (''orderNumber'', JStr ''7''), (''price'', price)],
      cl_tags = [], cl_summary = ''shipped'', cl_labels = [], cl_actions = []\<rparr>"

lemma embed_text_identity_only_witness:
  "buildEmbedText ''acme.com'' (sample_order (JNum 1)) None = buildEmbedText ''acme.com'' (sample_order (JNum 2)) None"
  using embed_text_identity_only [of "sample_order (JNum 1)" "sample_order (JNum 2)" "''acme.com''" None]
  by (simp add: sample_order_def identity_fields_def jfield_def)

end
