(* ===== verification/BuildSignal.thy ===== *)
theory BuildSignal
  imports MailBody Store
begin

text \<open>
  The stored form of an inbound message (\<open>buildSignal\<close> in
  \<open>processor/incoming-email-processor.ts\<close>): its unsubscribe link, the body cut to fit the table,
  and the links of the classification, each in one place only.
\<close>

record build_opts =
  bo_threadId :: "str option"
  bo_status :: signal_status
  bo_accountId :: str
  bo_compositeMailMessageId :: str
  bo_recipientAddress :: str
  bo_parsed :: parsed_mime
  bo_classification :: classification_output
  bo_s3Key :: str
  bo_receivedAt :: str
  bo_now :: str
  bo_retentionDuration :: "str option"
  bo_gsi3pk :: "str option"
  bo_forceSignalId :: "str option"

section \<open>Links\<close>

definition workflowDataUrlFields :: "str list" where
  "workflowDataUrlFields =
     [''trackingUrl'', ''downloadUrl'', ''managementUrl'', ''paymentUrl'', ''documentUrl'', ''portalUrl'',
      ''responseUrl'', ''ticketUrl'', ''actionUrl'', ''muteUrl'']"

text \<open>The URLs that a bucket has claimed, oldest last\<close>

definition claim_field :: "jobj \<Rightarrow> str list \<Rightarrow> str \<Rightarrow> str list" where
  "claim_field data claimed field =
     (case jfield data field of
        JStr u \<Rightarrow> if u \<in> set claimed then claimed else u # claimed
      | _ \<Rightarrow> claimed)"

fun dedup_actions :: "str list \<Rightarrow> signal_action list \<Rightarrow> signal_action list" where
  "dedup_actions claimed [] = []"
| "dedup_actions claimed (a # as) =
     (if sa_url a \<in> set claimed then dedup_actions claimed as
      else a # dedup_actions (sa_url a # claimed) as)"

definition claimed_urls :: "unsubscribe_info option \<Rightarrow> jobj \<Rightarrow> str list" where
  "claimed_urls unsubscribe data =
     foldl (claim_field data) (case unsubscribe of None \<Rightarrow> [] | Some u \<Rightarrow> [un_url u]) workflowDataUrlFields"

section \<open>The signal\<close>

definition unsubscribe_of :: "env \<Rightarrow> parsed_mime \<Rightarrow> unsubscribe_info option" where
  "unsubscribe_of e p =
     nullish_opt (parseUnsubscribeHeaders (pm_headers p))
       (parseUnsubscribeFromBody (url_protocol (lib e)) (pm_htmlBody p))"

definition stored_body :: "str option \<Rightarrow> str option \<times> bool" where
  "stored_body htmlBody =
     (case htmlBody of
        None \<Rightarrow> (None, False)
      | Some h \<Rightarrow>
          (let r = truncateHtml h MAX_HTML_BODY_BYTES in if snd r then (Some (fst r), True) else (Some h, False)))"

definition inbound_data_of :: "env \<Rightarrow> build_opts \<Rightarrow> inbound_data" where
  "inbound_data_of e opts =
     (let p = bo_parsed opts; c = bo_classification opts;
          unsubscribe = unsubscribe_of e p;
          body = stored_body (pm_htmlBody p)
      in \<lparr>eb_receivedAt = bo_receivedAt opts, eb_summary = cl_summary c, eb_urgency = None,
          eb_actions = dedup_actions (claimed_urls unsubscribe (cl_workflowData c)) (cl_actions c),
          eb_embeddings = None, eb_from = pm_from p, eb_to = pm_to p, eb_cc = pm_cc p,
          eb_replyTo = pm_replyTo p, eb_subject = pm_subject p, eb_sentAt = pm_sentAt p,
          eb_attachments = pm_attachments p, eb_headers = pm_headers p,
          eb_recipientAddress = bo_recipientAddress opts, eb_tags = take 50 (cl_tags c),
          eb_s3Key = bo_s3Key opts, eb_matchedRules = None, eb_unsubscribe = unsubscribe,
          ib_workflow = cl_workflow c, ib_workflowData = cl_workflowData c,
          ib_htmlBody = fst body, ib_htmlBodyTruncated = (if snd body then Some True else None),
          ib_inlineImages = (case pm_inlineImages p of Some ims \<Rightarrow> if ims = [] then None else Some ims | None \<Rightarrow> None)\<rparr>)"

definition buildSignal :: "env \<Rightarrow> build_opts \<Rightarrow> inbound_signal io" where
  "buildSignal e opts =
     bind (case bo_forceSignalId opts of Some i \<Rightarrow> ret i | None \<Rightarrow> new_signal_id e) (\<lambda>signalId.
     ret \<lparr>sg_id = signalId, sg_signalLookupId = bo_compositeMailMessageId opts, sg_threadId = bo_threadId opts,
          sg_gsi3pk = bo_gsi3pk opts, sg_accountId = bo_accountId opts, sg_source = SrcEmail, sg_type = TyEmail,
          sg_status = bo_status opts, sg_labels = [], sg_createdAt = bo_now opts,
          sg_retentionDuration = bo_retentionDuration opts, sg_data = inbound_data_of e opts\<rparr>)"

lemma buildSignal_emits: "P FreshId \<Longrightarrow> emits (buildSignal e opts) P"
  unfolding buildSignal_def new_signal_id_def by (intro trace_intros)

lemma buildSignal_returns:
  "buildSignal e opts h = (r, h') \<Longrightarrow> \<exists>s. r = Done s \<and> sg_status s = bo_status opts \<and> sg_type s = TyEmail
     \<and> sg_threadId s = bo_threadId opts \<and> sg_accountId s = bo_accountId opts
     \<and> sg_retentionDuration s = bo_retentionDuration opts \<and> sg_data s = inbound_data_of e opts
     \<and> sg_signalLookupId s = bo_compositeMailMessageId opts"
  by (auto simp: buildSignal_def new_signal_id_def prog_defs split: option.splits)

section \<open>Each link in one place\<close>

lemma claim_fields_set:
  "set (foldl (claim_field data) claimed fs) =
     set claimed \<union> {u. \<exists>f \<in> set fs. jfield data f = JStr u}"
  by (induction fs arbitrary: claimed) (auto simp: claim_field_def split: json.splits)

lemma claimed_urls_set:
  "set (claimed_urls unsubscribe data) =
     (case unsubscribe of None \<Rightarrow> {} | Some u \<Rightarrow> {un_url u}) \<union> {u. \<exists>f \<in> set workflowDataUrlFields. jfield data f = JStr u}"
  unfolding claimed_urls_def claim_fields_set by (simp split: option.splits)

lemma dedup_actions_spec:
  "distinct (map sa_url (dedup_actions claimed as)) \<and> sa_url ` set (dedup_actions claimed as) \<inter> set claimed = {}
   \<and> set (dedup_actions claimed as) \<subseteq> set as
   \<and> (\<forall>a \<in> set as. sa_url a \<in> set claimed \<or> sa_url a \<in> sa_url ` set (dedup_actions claimed as))"
proof (induction claimed as rule: dedup_actions.induct)
  case (2 claimed a as)
  then show ?case by (cases "sa_url a \<in> set claimed") auto
qed simp

text \<open>
  Each link of a stored message is offered in one place: the actions kept have distinct URLs, none
  of which is the unsubscribe link or a link field of the extracted data, and no link is lost (every
  action of the classifier has its URL among the kept actions or in one of those two places).
\<close>

theorem links_in_one_place:
  "(let d = inbound_data_of e opts;
        other = (case eb_unsubscribe d of None \<Rightarrow> {} | Some u \<Rightarrow> {un_url u}) \<union>
                {u. \<exists>f \<in> set workflowDataUrlFields. jfield (ib_workflowData d) f = JStr u}
    in distinct (map sa_url (eb_actions d)) \<and> sa_url ` set (eb_actions d) \<inter> other = {}
       \<and> sa_url ` set (cl_actions (bo_classification opts)) \<subseteq> sa_url ` set (eb_actions d) \<union> other)"
  using dedup_actions_spec [of "claimed_urls (unsubscribe_of e (bo_parsed opts)) (cl_workflowData (bo_classification opts))"
      "cl_actions (bo_classification opts)"]
  unfolding claimed_urls_set by (simp add: inbound_data_of_def Let_def image_subset_iff) blast

end
