(* ===== verification/Errors.thy ===== *)
theory Errors
  imports Types Regex
begin

text \<open>
  Building errors (\<open>errors.ts\<close>): the text a cause is wrapped with, the detection of schema
  mismatches and the constructors. The walk over error trees, which only serves log lines, is left out.
\<close>

section \<open>Wrapping a cause\<close>

text \<open>\<open>JSON.stringify\<close> of a string\<close>

definition hex_digit :: "nat \<Rightarrow> char" where
  "hex_digit n = ''0123456789abcdef'' ! (n mod 16)"

definition json_char :: "char \<Rightarrow> str" where
  "json_char c =
     (if c = CHR 0x22 then [CHR 0x5C, CHR 0x22]
      else if c = CHR 0x5C then [CHR 0x5C, CHR 0x5C]
      else if of_char c = (8::nat) then [CHR 0x5C, CHR ''b'']
      else if of_char c = (9::nat) then [CHR 0x5C, CHR ''t'']
      else if of_char c = (10::nat) then [CHR 0x5C, CHR ''n'']
      else if of_char c = (12::nat) then [CHR 0x5C, CHR ''f'']
      else if of_char c = (13::nat) then [CHR 0x5C, CHR ''r'']
      else if of_char c < (32::nat) then
        [CHR 0x5C, CHR ''u'', CHR ''0'', CHR ''0'', hex_digit (of_char c div 16), hex_digit (of_char c)]
      else [c])"

definition json_quote :: "str \<Rightarrow> str" where
  "json_quote s = [CHR 0x22] @ concat (map json_char s) @ [CHR 0x22]"

definition json_member :: "str \<Rightarrow> str \<Rightarrow> str" where
  "json_member k v = json_quote k @ '':'' @ json_quote v"

text \<open>
  \<open>toError(cause).message\<close> for a cause that is one of the error kinds: its \<open>message\<close> when it has
  one, and its JSON text otherwise. The kinds that carry an arbitrary \<open>cause\<close> or list and no message
  are not wrapped by the modelled code.
\<close>

fun toErrorMessage :: "app_error \<Rightarrow> str" where
  "toErrorMessage (DbError m _) = m"
| "toErrorMessage (AuthressServiceError m) = m"
| "toErrorMessage (BedrockError m _) = m"
| "toErrorMessage (AuthError m) = m"
| "toErrorMessage (ProcessorError m) = m"
| "toErrorMessage (PermanentSesError _ _ m) = m"
| "toErrorMessage (InvalidArgumentError _ m) = m"
| "toErrorMessage (UnknownSignalTypeError ty _) = ''No API transform exists for signal type '' @ [CHR 0x22] @ ty @ [CHR 0x22]"
| "toErrorMessage (ThreadIdCollisionError t _ _) =
     ''Derived thread id '' @ t @ '' already exists for a different conversation''"
| "toErrorMessage (NotFoundError r i) =
     ''{'' @ json_member ''kind'' ''not_found'' @ '','' @ json_member ''resource'' r @ '','' @ json_member ''id'' i @ ''}''"
| "toErrorMessage InvalidResponseError = ''{'' @ json_member ''kind'' ''invalid_response'' @ ''}''"
| "toErrorMessage (NoAccountError r c x) =
     ''{'' @ json_member ''kind'' ''no_account_for_recipient'' @ '','' @ json_member ''recipientAddress'' r @ '','' @
     json_member ''compositeMailMessageId'' c @
     (case x of None \<Rightarrow> [] | Some a \<Rightarrow> '','' @ json_member ''expectedAccountId'' a) @ ''}''"
| "toErrorMessage _ = []"

section \<open>Schema mismatches\<close>

definition any_chars :: re where
  "any_chars = Star True (Cls (\<lambda>c. of_char c \<noteq> (10::nat) \<and> of_char c \<noteq> (13::nat)))"

definition SCHEMA_MISMATCH_PATTERNS :: "re list" where
  "SCHEMA_MISMATCH_PATTERNS =
     [foldr Seq [lit_i ''column '', any_chars] (lit_i '' does not exist''),
      foldr Seq [lit_i ''relation '', any_chars] (lit_i '' does not exist''),
      foldr Seq [lit_i ''type '', any_chars] (lit_i '' does not exist''),
      foldr Seq [Alt (lit_i ''undefined'') (lit_i ''unknown''), lit '' ''] (Alt (lit_i ''column'') (lit_i ''table''))]"

definition isSchemaMismatchError :: "str \<Rightarrow> bool" where
  "isSchemaMismatchError message = list_ex (\<lambda>pattern. search pattern message \<noteq> None) SCHEMA_MISMATCH_PATTERNS"

lemma schema_mismatch_examples:
  "isSchemaMismatchError ''ERROR: Column signal_id does not exist''"
  "\<not> isSchemaMismatchError ''connection refused''"
  by code_simp+

section \<open>Constructors\<close>

text \<open>\<open>dbError\<close> of a string or an exception, and of another error\<close>

definition dbError :: "str \<Rightarrow> app_error" where
  "dbError message = DbError message (isSchemaMismatchError message)"

definition dbError_of :: "app_error \<Rightarrow> app_error" where
  "dbError_of cause = dbError (toErrorMessage cause)"

definition processorError :: "str \<Rightarrow> app_error" where
  "processorError message = ProcessorError message"

definition processorError_of :: "app_error \<Rightarrow> app_error" where
  "processorError_of cause = ProcessorError (toErrorMessage cause)"

end
