(* ===== verification/Phases.thy ===== *)
theory Phases
  imports Outcome
begin

text \<open>
  The life of one delivery, as a state machine over the events of the pipeline: a message is
  undecided until either its blocked or quarantined signal is stored, or its thread is written
  and then the signal itself; only a stored message touches resources, the vector store, the
  calendar and the side-effect queue, and only after the vector store. The rules of a small
  program logic carry a phase through a program.
\<close>

section \<open>The state machine\<close>

datatype phase =
    Undecided
  | Rejected
  | ThreadKept str
  | Stored str str
  | Dispatched
  | Halted

text \<open>The phases carry the id of the thread written and, once stored, of the signal.\<close>

definition gate :: "bool \<Rightarrow> phase \<Rightarrow> phase option" where
  "gate b p = Some (if b then p else Halted)"

fun neutral :: "event \<Rightarrow> bool" where
  "neutral (SaveSignal s _) = (sg_type s \<in> {TyInvalidRuleFunction, TyDeliverability})"
| "neutral (IncrementStat _ _ _ _ _) = True"
| "neutral (EnsureAlias _ _ _ _) = True"
| "neutral (SaveSender _ _ _ _ _) = True"
| "neutral (AnnotateRuleError _ _ _ _) = True"
| "neutral (DisableRulesForwardingTo _ _ _) = True"
| "neutral (SuppressAddress _ _) = True"
| "neutral (UpdateGlobalReputation _ _ _) = True"
| "neutral ev = is_read ev"

definition SPAM_QUARANTINE_RETENTION :: str where
  "SPAM_QUARANTINE_RETENTION = ''P3M''"

definition rejected_signal :: "any_signal \<Rightarrow> bool" where
  "rejected_signal s \<longleftrightarrow>
     sg_type s = TyEmail \<and> sg_threadId s = None \<and> sg_retentionDuration s = Some SPAM_QUARANTINE_RETENTION \<and>
     sg_status s \<in> {SBlockHidden, SBlockReject, SReportViolation, SQuarantineVisible, SQuarantineHidden}"

fun undecided_step :: "event \<Rightarrow> phase option" where
  "undecided_step (SaveSignal s b) =
     (if neutral (SaveSignal s b) then Some Undecided
      else if rejected_signal s then gate b Rejected else None)"
| "undecided_step (CreateThread t b) = gate b (ThreadKept (th_id t))"
| "undecided_step (UpdateThread a t st lastAt fs b) = gate b (ThreadKept t)"
| "undecided_step ev = (if neutral ev then Some Undecided else None)"

text \<open>After a refusal: counters and reputation, and the notification of a quarantined message without a thread\<close>

fun counting :: "event \<Rightarrow> bool" where
  "counting (IncrementStat _ _ _ _ _) = True"
| "counting (UpdateGlobalReputation _ _ _) = True"
| "counting ev = is_read ev"

definition quarantined_signal :: "any_signal \<Rightarrow> bool" where
  "quarantined_signal s \<longleftrightarrow> rejected_signal s \<and> sg_status s \<in> {SQuarantineVisible, SQuarantineHidden}"

fun rejected_step :: "event \<Rightarrow> phase option" where
  "rejected_step (NotifySignal a t s urgency b) = (if t = None \<and> quarantined_signal s then Some Rejected else None)"
| "rejected_step ev = (if counting ev then Some Rejected else None)"

fun kept_step :: "str \<Rightarrow> event \<Rightarrow> phase option" where
  "kept_step t (SaveSignal s b) =
     (if sg_type s = TyEmail \<and> sg_status s = SActive \<and> sg_threadId s = Some t then gate b (Stored t (sg_id s)) else None)"
| "kept_step t ev = (if is_read ev then Some (ThreadKept t) else None)"

fun stored_step :: "str \<Rightarrow> str \<Rightarrow> event \<Rightarrow> phase option" where
  "stored_step t i (SaveResource p b) = (if sv_threadId p = t then Some (Stored t i) else None)"
| "stored_step t i (IncrementStat a m d k b) = Some (Stored t i)"
| "stored_step t i (SaveSignal s b) =
     (if sg_type s = TyCalendarInviteInvalid \<and> sg_threadId s = Some t then Some (Stored t i) else None)"
| "stored_step t i (SaveCalendarEventSignal s b) =
     (if sg_threadId s = Some t \<and> ce_linkedSignalId (sg_data s) = i then Some (Stored t i) else None)"
| "stored_step t i (SaveIcs k c b) = Some (Stored t i)"
| "stored_step t i (ScheduleFollowup a th k f s b) = (if th = t then Some (Stored t i) else None)"
| "stored_step t i (ScheduleRsvpReminder a th k f s b) = (if th = t then Some (Stored t i) else None)"
| "stored_step t i (ApplyRetention k g c b) = Some (Stored t i)"
| "stored_step t i (UpsertEmbedding u b) =
     (if ue_threadId u = t \<and> ue_signalId u = i then gate b (Stored t i) else None)"
| "stored_step t i (DispatchSideEffects s th k b) =
     (if sg_id s = i \<and> th_id th = t then gate b Dispatched else None)"
| "stored_step t i ev = (if is_read ev then Some (Stored t i) else None)"

fun phase_step :: "phase \<Rightarrow> event \<Rightarrow> phase option" where
  "phase_step Undecided ev = undecided_step ev"
| "phase_step Rejected ev = rejected_step ev"
| "phase_step (ThreadKept t) ev = kept_step t ev"
| "phase_step (Stored t i) ev = stored_step t i ev"
| "phase_step Dispatched ev = None"
| "phase_step Halted ev = None"

fun run_phases :: "phase \<Rightarrow> event list \<Rightarrow> phase option" where
  "run_phases p [] = Some p"
| "run_phases p (ev # es) = (case phase_step p ev of None \<Rightarrow> None | Some q \<Rightarrow> run_phases q es)"

lemma run_phases_append:
  "run_phases p (xs @ ys) = (case run_phases p xs of None \<Rightarrow> None | Some q \<Rightarrow> run_phases q ys)"
  by (induction xs arbitrary: p) (simp_all split: option.splits)

definition open_phase :: "phase \<Rightarrow> bool" where
  "open_phase p \<longleftrightarrow> p \<noteq> Dispatched \<and> p \<noteq> Halted"

lemma phase_step_neutral: "neutral ev \<Longrightarrow> phase_step Undecided ev = Some Undecided"
  by (cases ev) auto

lemma phase_step_counting: "counting ev \<Longrightarrow> phase_step Rejected ev = Some Rejected"
  by (cases ev) auto

lemma counting_neutral: "counting ev \<Longrightarrow> neutral ev"
  by (cases ev) auto

section \<open>Programs and phases\<close>

text \<open>From phase \<open>p\<close> the program follows the state machine, and ends in a phase that fits its outcome.\<close>

definition phases :: "phase \<Rightarrow> 'a io \<Rightarrow> ('a outcome \<Rightarrow> phase \<Rightarrow> bool) \<Rightarrow> bool" where
  "phases p m Q \<longleftrightarrow> spec m (\<lambda>r es. \<exists>q. run_phases p es = Some q \<and> Q r q)"

lemma phases_mono: "phases p m Q \<Longrightarrow> (\<And>r q. Q r q \<Longrightarrow> R r q) \<Longrightarrow> phases p m R"
  unfolding phases_def by (erule spec_mono) blast

lemma phases_ret: "Q (Done x) p \<Longrightarrow> phases p (ret x) Q"
  by (simp add: phases_def spec_ret)

lemma phases_throw: "Q (Threw t) p \<Longrightarrow> phases p (throw t) Q"
  by (simp add: phases_def spec_throw)

lemma phases_bind:
  assumes "phases p m Q"
    and "\<And>x q. Q (Done x) q \<Longrightarrow> phases q (k x) R"
    and "\<And>t q. Q (Threw t) q \<Longrightarrow> R (Threw t) q"
  shows "phases p (bind m k) R"
  unfolding phases_def
proof (rule spec_bind [OF assms(1) [unfolded phases_def]])
  fix x es assume "\<exists>q. run_phases p es = Some q \<and> Q (Done x) q"
  then obtain q where q: "run_phases p es = Some q" "Q (Done x) q" by blast
  show "spec (k x) (\<lambda>r es'. \<exists>q. run_phases p (es @ es') = Some q \<and> R r q)"
    by (rule spec_mono [OF assms(2) [OF q(2), unfolded phases_def]]) (auto simp: run_phases_append q(1))
qed (use assms(3) in auto)

lemma phases_bind_ok:
  assumes "phases p m Q"
    and "\<And>x q. Q (Done (Inr x)) q \<Longrightarrow> phases q (k x) R"
    and "\<And>err q. Q (Done (Inl err)) q \<Longrightarrow> R (Done (Inl (f err))) q"
    and "\<And>t q. Q (Threw t) q \<Longrightarrow> R (Threw t) q"
  shows "phases p (bind_ok f m k) R"
  unfolding bind_ok_def
  by (rule phases_bind [OF assms(1)]) (auto split: sum.splits intro!: phases_ret assms)

lemma phases_try_catch:
  assumes "phases p m Q"
    and "\<And>x q. Q (Done x) q \<Longrightarrow> R (Done x) q"
    and "\<And>t q. Q (Threw t) q \<Longrightarrow> phases q (c t) R"
  shows "phases p (try_catch m c) R"
  unfolding phases_def
proof (rule spec_try_catch [OF assms(1) [unfolded phases_def]])
  fix t es assume "\<exists>q. run_phases p es = Some q \<and> Q (Threw t) q"
  then obtain q where q: "run_phases p es = Some q" "Q (Threw t) q" by blast
  show "spec (c t) (\<lambda>r es'. \<exists>q. run_phases p (es @ es') = Some q \<and> R r q)"
    by (rule spec_mono [OF assms(3) [OF q(2), unfolded phases_def]]) (auto simp: run_phases_append q(1))
qed (use assms(2) in auto)

lemma phases_write:
  assumes "\<And>b. phase_step p (ev b) = Some (nxt b)" "\<And>r. Q r (nxt (succeeded r))"
  shows "phases p (call_write ev svc) Q"
  unfolding phases_def by (rule spec_write) (simp add: assms)

lemma phases_call:
  assumes "\<And>r. phase_step p (ev r) = Some (nxt r)" "\<And>r. Q r (nxt r)"
  shows "phases p (call svc ev) Q"
  unfolding phases_def by (rule spec_call) (simp add: assms)

text \<open>A call that the state machine gates: it moves on when the call succeeds and halts otherwise.\<close>

lemma phases_gate:
  assumes "\<And>b. phase_step p (ev b) = gate b q"
  shows "phases p (call_write ev svc) (\<lambda>r x. x = (if succeeded r then q else Halted))"
  by (rule phases_write [where nxt = "\<lambda>b. if b then q else Halted"]) (simp_all add: assms gate_def)

lemma phases_gate_ok:
  assumes "\<And>b. phase_step p (ev b) = gate b q" "\<And>x. phases q (k x) R"
    "\<And>err. R (Done (Inl (f err))) Halted" "\<And>t. R (Threw t) Halted"
  shows "phases p (bind_ok f (call_write ev svc) k) R"
  by (rule phases_bind_ok [OF phases_gate [OF assms(1)]]) (use assms(2-4) in auto)

text \<open>A program that emits only events that keep the phase, combined with a fact about its outcome\<close>

definition keeps :: "phase \<Rightarrow> event \<Rightarrow> bool" where
  "keeps p ev \<longleftrightarrow> phase_step p ev = Some p"

lemma keeps_run: "\<forall>ev \<in> set es. keeps p ev \<Longrightarrow> run_phases p es = Some p"
  by (induction es) (simp_all add: keeps_def)

lemma phases_keeps: "emits m (keeps p) \<Longrightarrow> (\<And>r. Q r p) \<Longrightarrow> phases p m Q"
  unfolding phases_def emits_def by (erule spec_mono) (blast intro: keeps_run)

lemma phases_keeps_spec:
  assumes "spec m (\<lambda>r es. (\<forall>ev \<in> set es. keeps p ev) \<and> Q r)"
  shows "phases p m (\<lambda>r q. q = p \<and> Q r)"
  unfolding phases_def by (rule spec_mono [OF assms]) (auto intro: keeps_run)

text \<open>Sequencing after a program that keeps the phase\<close>

lemma phases_after:
  assumes "emits m (keeps p)" "\<And>x. phases p (k x) R" "\<And>t. R (Threw t) p"
  shows "phases p (bind m k) R"
  by (rule phases_bind [OF phases_keeps [OF assms(1), of "\<lambda>r q. q = p"]]) (use assms(2,3) in auto)

lemma phases_after_ok:
  assumes "emits m (keeps p)" "\<And>x. phases p (k x) R" "\<And>err. R (Done (Inl (f err))) p" "\<And>t. R (Threw t) p"
  shows "phases p (bind_ok f m k) R"
  by (rule phases_bind_ok [OF phases_keeps [OF assms(1), of "\<lambda>r q. q = p"]]) (use assms(2-4) in auto)

lemma phases_if: "(b \<Longrightarrow> phases p m Q) \<Longrightarrow> (\<not> b \<Longrightarrow> phases p n Q) \<Longrightarrow> phases p (if b then m else n) Q"
  by simp

lemma phases_option:
  "(x = None \<Longrightarrow> phases p m Q) \<Longrightarrow> (\<And>v. x = Some v \<Longrightarrow> phases p (k v) Q) \<Longrightarrow> phases p (case_option m k x) Q"
  by (cases x) auto

lemma keeps_neutral [simp]: "neutral ev \<Longrightarrow> keeps Undecided ev"
  unfolding keeps_def by (rule phase_step_neutral)

lemma keeps_counting [simp]: "counting ev \<Longrightarrow> keeps Rejected ev"
  unfolding keeps_def by (rule phase_step_counting)

lemma keeps_reads [simp]:
  "open_phase p \<Longrightarrow> keeps p (Read m)" "open_phase p \<Longrightarrow> keeps p Clock" "open_phase p \<Longrightarrow> keeps p FreshId"
  by (cases p; simp add: keeps_def open_phase_def)+

lemma open_phase_simps [simp]:
  "open_phase Undecided" "open_phase Rejected" "open_phase (ThreadKept t)" "open_phase (Stored t i)"
  "\<not> open_phase Dispatched" "\<not> open_phase Halted"
  by (simp_all add: open_phase_def)

section \<open>Facts about results\<close>

text \<open>Whatever the services answer, a value the program returns has the property.\<close>

definition yields :: "'a io \<Rightarrow> ('a \<Rightarrow> bool) \<Rightarrow> bool" where
  "yields m P \<longleftrightarrow> (\<forall>h x h'. m h = (Done x, h') \<longrightarrow> P x)"

named_theorems yields_intros

lemma yields_ret [yields_intros]: "P x \<Longrightarrow> yields (ret x) P"
  by (simp add: yields_def ret_apply)

lemma yields_bind:
  assumes "yields m P" "\<And>x. P x \<Longrightarrow> yields (k x) Q"
  shows "yields (bind m k) Q"
  unfolding yields_def
proof (intro allI impI)
  fix h y h' assume "bind m k h = (Done y, h')"
  then obtain x h1 where "m h = (Done x, h1)" "k x h1 = (Done y, h')"
    by (auto simp: bind_def split: prod.splits outcome.splits)
  with assms show "Q y" unfolding yields_def by blast
qed

lemma yields_any [yields_intros]: "(\<And>x. yields (k x) Q) \<Longrightarrow> yields (bind m k) Q"
  by (rule yields_bind [of m "\<lambda>_. True"]) (simp_all add: yields_def)

lemma yields_bind_ok:
  assumes "yields m P" "\<And>x. P (Inr x) \<Longrightarrow> yields (k x) Q" "\<And>err. Q (Inl (f err))"
  shows "yields (bind_ok f m k) Q"
  unfolding bind_ok_def
  by (rule yields_bind [OF assms(1)]) (auto split: sum.splits intro!: yields_ret assms(2,3))

lemma yields_any_ok: "(\<And>x. yields (k x) Q) \<Longrightarrow> (\<And>err. Q (Inl (f err))) \<Longrightarrow> yields (bind_ok f m k) Q"
  by (rule yields_bind_ok [of m "\<lambda>_. True"]) (simp_all add: yields_def)

lemma yields_for_fold:
  "I s \<Longrightarrow> (\<And>s x. I s \<Longrightarrow> yields (body s x) I) \<Longrightarrow> yields (for_fold xs body s) I"
  by (induction xs arbitrary: s) (auto intro: yields_ret yields_bind)

lemma phases_yields:
  assumes "emits m (keeps p)" "yields m P"
  shows "phases p m (\<lambda>r q. q = p \<and> (\<forall>x. r = Done x \<longrightarrow> P x))"
proof -
  have "spec m (\<lambda>r es. \<forall>x. r = Done x \<longrightarrow> P x)"
    using assms(1) unfolding emits_def spec_def
    using assms(2) unfolding yields_def by (metis eq_fst_iff)
  with assms(1) show ?thesis
    unfolding emits_def by (intro phases_keeps_spec spec_conj)
qed

text \<open>Sequencing after a program that keeps the phase and whose result is known\<close>

lemma phases_after_yields:
  assumes "emits m (keeps p)" "yields m P" "\<And>x. P x \<Longrightarrow> phases p (k x) R" "\<And>t. R (Threw t) p"
  shows "phases p (bind m k) R"
  by (rule phases_bind [OF phases_yields [OF assms(1,2)]]) (use assms(3,4) in auto)

lemma phases_after_ok_yields:
  assumes "emits m (keeps p)" "yields m (\<lambda>r. \<forall>x. r = Inr x \<longrightarrow> P x)" "\<And>x. P x \<Longrightarrow> phases p (k x) R"
    "\<And>err. R (Done (Inl (f err))) p" "\<And>t. R (Threw t) p"
  shows "phases p (bind_ok f m k) R"
  by (rule phases_bind_ok [OF phases_yields [OF assms(1,2)]]) (use assms(3-5) in auto)

section \<open>What the state machine guarantees\<close>

text \<open>A dispatched or halted delivery does nothing more.\<close>

lemma run_closed: "run_phases p es = Some q \<Longrightarrow> \<not> open_phase p \<Longrightarrow> es = [] \<and> q = p"
proof (cases es)
  case (Cons ev es')
  assume "run_phases p es = Some q" "\<not> open_phase p"
  then show ?thesis using Cons by (auto simp: open_phase_def)
qed simp

end
