(* ===== verification/Finish.thy ===== *)
theory Finish
  imports Phases Errors Retention
begin

text \<open>
  The last steps of an accepted message (\<open>processor/incoming-email-processor.ts\<close>): the retention
  of the raw mail, the vector store, the side-effect queue; and the retry of a message whose
  signal is already stored, which resumes there.
\<close>

definition isSystemAccount :: "str \<Rightarrow> bool" where
  "isSystemAccount accountId \<longleftrightarrow> accountId = ''SYSTEM''"

section \<open>The cluster registry\<close>

record cluster_entry =
  cg_registryId :: str
  cg_modelId :: str
  cg_dimensions :: nat
  cg_active :: bool
  cg_primary :: bool

definition CLUSTER_REGISTRY :: "cluster_entry list" where
  "CLUSTER_REGISTRY =
     [\<lparr>cg_registryId = ''aurora-prod-titan-v2'', cg_modelId = ''amazon.titan-embed-text-v2:0'',
       cg_dimensions = 1024, cg_active = True, cg_primary = True\<rparr>]"

definition getActiveClusters :: "cluster_entry list" where
  "getActiveClusters = filter cg_active CLUSTER_REGISTRY"

definition getPrimaryThreadMatcherRegistry :: cluster_entry where
  "getPrimaryThreadMatcherRegistry = hd (filter cg_primary CLUSTER_REGISTRY)"

definition getSecondaryClusters :: "cluster_entry list" where
  "getSecondaryClusters = filter (\<lambda>c. \<not> cg_primary c) getActiveClusters"

section \<open>Raw mail retention\<close>

text \<open>The service's exception is turned into an error result, and an error is only logged.\<close>

definition attemptS3Retention :: "env \<Rightarrow> email_signal \<Rightarrow> billing_plan \<Rightarrow> unit io" where
  "attemptS3Retention e s billingPlan =
     (if isSystemAccount (sg_accountId s) then ret ()
      else try_catch
        (let retention = getRetentionForPlan billingPlan
         in applyPlanRetentionSvc e (eb_s3Key (base_of (sg_data s))) (rp_s3Tag retention) (rp_copyToSaved retention))
        (\<lambda>_. ret ()))"

section \<open>Vector store\<close>

definition upsert_of :: "email_signal \<Rightarrow> thread \<Rightarrow> cluster_entry \<Rightarrow> embedding \<Rightarrow> upsert_embedding" where
  "upsert_of s t c emb =
     \<lparr>ue_registryId = cg_registryId c, ue_threadId = th_id t, ue_accountId = sg_accountId s,
      ue_recipientAddress = eb_recipientAddress (base_of (sg_data s)), ue_embedding = emb, ue_signalId = sg_id s,
      ue_retentionDuration = sg_retentionDuration s, ue_createdAt = sg_createdAt s\<rparr>"

definition upsert_cluster :: "env \<Rightarrow> email_signal \<Rightarrow> thread \<Rightarrow> cluster_entry \<Rightarrow> unit result io" where
  "upsert_cluster e s t c =
     (case Option.bind (eb_embeddings (base_of (sg_data s))) (\<lambda>m. map_of m (cg_modelId c)) of
        None \<Rightarrow> ret (Inr ())
      | Some emb \<Rightarrow> upsertEmbedding e (upsert_of s t c emb))"

definition executeAuroraUpserts :: "env \<Rightarrow> email_signal \<Rightarrow> thread \<Rightarrow> unit result io" where
  "executeAuroraUpserts e s t =
     bind (for_map getActiveClusters (upsert_cluster e s t)) (\<lambda>results.
       if list_ex (\<lambda>r. case r of Inl _ \<Rightarrow> True | Inr _ \<Rightarrow> False) results
       then ret (Inl (dbError ''Aurora upsert failed for one or more clusters''))
       else ret (Inr ()))"

section \<open>Side-effect queue\<close>

definition dispatchSideEffects :: "env \<Rightarrow> email_signal \<Rightarrow> thread \<Rightarrow> bool \<Rightarrow> unit result io" where
  "dispatchSideEffects e s t skipNotify =
     bind_ok (\<lambda>err. err) (sendSideEffectMessage e s t skipNotify) (\<lambda>_. ret (Inr ()))"

section \<open>Resuming a retry\<close>

definition resumeRetry :: "env \<Rightarrow> str \<Rightarrow> email_signal \<Rightarrow> bool \<Rightarrow> unit result io" where
  "resumeRetry e accountId existing skipNotify =
     (if \<not> truthy (sg_threadId existing) then ret (Inl (dbError ''signal missing threadId on retry''))
      else
        bind_ok (\<lambda>err. err) (call_read ''getThread'' (getThread (tdb e) accountId (the (sg_threadId existing)))) (\<lambda>found.
        case found of
          None \<Rightarrow> ret (Inl (dbError ''thread not found on retry''))
        | Some t \<Rightarrow>
            bind_ok (\<lambda>err. err) (call_read ''getAccount'' (getAccount (adb e) accountId)) (\<lambda>acc.
            bind (attemptS3Retention e existing (nullish (Option.bind acc ac_billingPlan) Paid)) (\<lambda>_.
            bind_ok (\<lambda>err. err) (executeAuroraUpserts e existing t) (\<lambda>_.
            bind_ok (\<lambda>err. err) (dispatchSideEffects e existing t skipNotify) (\<lambda>_.
            ret (Inr ())))))))"

section \<open>Phases\<close>

text \<open>There is one cluster, so one upsert decides.\<close>

lemma executeAuroraUpserts_phases:
  "phases (Stored (th_id t) (sg_id s)) (executeAuroraUpserts e s t)
     (\<lambda>r q. (r = Done (Inr ()) \<longrightarrow> q = Stored (th_id t) (sg_id s)) \<and> q \<in> {Stored (th_id t) (sg_id s), Halted})"
proof -
  let ?p = "Stored (th_id t) (sg_id s)"
  let ?Q = "\<lambda>r q. ((\<exists>v. r = Done (Inr v)) \<longrightarrow> q = ?p) \<and> q \<in> {?p, Halted}"
  have up: "phases ?p (upsert_cluster e s t c) ?Q" for c
    unfolding upsert_cluster_def upsertEmbedding_def
    by (rule phases_option)
       (auto intro!: phases_ret phases_mono [OF phases_gate] simp: upsert_of_def split: if_splits)
  have clusters: "getActiveClusters = [hd CLUSTER_REGISTRY]"
    by (simp add: getActiveClusters_def CLUSTER_REGISTRY_def)
  show ?thesis
    unfolding executeAuroraUpserts_def clusters for_map.simps bind_ret bind_assoc
    by (rule phases_bind [OF up]) (auto intro!: phases_ret split: sum.splits)
qed

lemma attemptS3Retention_keeps: "emits (attemptS3Retention e s plan) (keeps (Stored t i))"
  unfolding attemptS3Retention_def store_defs Let_def by (intro trace_intros) (simp add: keeps_def)

lemma dispatchSideEffects_phases:
  "phases (Stored (th_id t) (sg_id s)) (dispatchSideEffects e s t skip)
     (\<lambda>r q. q = (if r = Done (Inr ()) then Dispatched else Halted))"
  unfolding dispatchSideEffects_def sendSideEffectMessage_def
  by (rule phases_gate_ok) (auto intro: phases_ret)

end
