(* ===== verification/Inbound.thy ===== *)
theory Inbound
  imports Finish Bounce BuildSignal Policy Stats
begin

text \<open>
  A message up to its classification (\<open>processor/incoming-email-processor.ts\<close>): whose it is,
  whether it was seen before, the spoofing check, the alias it creates, its sanitized form, a
  bounce that arrived as mail, and the sender block that needs no classification.
\<close>

datatype ses_verdict = VPass | VFail | VGray | VProcessingFailed | VDisabled

record inbound_message =
  im_expectedAccountId :: "str option"
  im_s3Key :: str
  im_compositeMailMessageId :: str
  im_idempotencyKey :: str
  im_timestamp :: str
  im_primaryRecipient :: str
  im_dkimVerdict :: ses_verdict
  im_dmarcVerdict :: ses_verdict

record process_options =
  po_force :: bool
  po_unsafeSkipDmarc :: bool
  po_forceSignalId :: "str option"
  po_skipNotify :: bool
  po_skipStatusActions :: bool

section \<open>The account of a recipient\<close>

definition resolveAccountIdAndAlias :: "env \<Rightarrow> str \<Rightarrow> (str \<times> alias_rec option) option result io" where
  "resolveAccountIdAndAlias e recipientAddress =
     bind_ok (\<lambda>err. err) (call_read ''getAliasByGlobalAddress'' (getAliasByGlobalAddress (adb e) recipientAddress)) (\<lambda>al.
     case al of
       Some a \<Rightarrow> ret (Inr (Some (al_accountId a, Some a)))
     | None \<Rightarrow>
         (let domain = (case split_on CHR ''@'' recipientAddress of _ # d # _ \<Rightarrow> d | _ \<Rightarrow> [])
          in bind_ok (\<lambda>err. err) (call_read ''getDomainOwner'' (getDomainOwner (adb e) domain)) (\<lambda>owner.
             case owner of
               None \<Rightarrow> ret (Inr None)
             | Some d \<Rightarrow> if do_deleted d then ret (Inr None) else ret (Inr (Some (do_accountId d, None))))))"

section \<open>Signals of messages that are not classified\<close>

definition no_sender :: email_address where
  "no_sender = \<lparr>ea_address = [], ea_name = None\<rparr>"

definition notice_workflow :: jobj where
  "notice_workflow = [(''workflow'', JStr ''notice''), (''noticeType'', JStr ''other''), (''provider'', JStr [])]"

definition unclassified_data :: "inbound_message \<Rightarrow> parsed_mime option \<Rightarrow> inbound_data" where
  "unclassified_data m p =
     \<lparr>eb_receivedAt = im_timestamp m, eb_summary = [], eb_urgency = None, eb_actions = [], eb_embeddings = None,
      eb_from = (case p of None \<Rightarrow> no_sender | Some q \<Rightarrow> pm_from q),
      eb_to = (case p of None \<Rightarrow> [] | Some q \<Rightarrow> pm_to q), eb_cc = (case p of None \<Rightarrow> [] | Some q \<Rightarrow> pm_cc q),
      eb_replyTo = None, eb_subject = (case p of None \<Rightarrow> [] | Some q \<Rightarrow> pm_subject q), eb_sentAt = None,
      eb_attachments = (case p of None \<Rightarrow> [] | Some q \<Rightarrow> pm_attachments q),
      eb_headers = (case p of None \<Rightarrow> [] | Some q \<Rightarrow> pm_headers q),
      eb_recipientAddress = im_primaryRecipient m, eb_tags = [], eb_s3Key = im_s3Key m, eb_matchedRules = None,
      eb_unsubscribe = None, ib_workflow = ''notice'', ib_workflowData = notice_workflow, ib_htmlBody = None,
      ib_htmlBodyTruncated = None, ib_inlineImages = None\<rparr>"

definition unclassified_signal ::
  "inbound_message \<Rightarrow> str \<Rightarrow> signal_status \<Rightarrow> parsed_mime option \<Rightarrow> str option \<Rightarrow> str \<Rightarrow> str \<Rightarrow> any_signal" where
  "unclassified_signal m accountId st p gsi3pk sid ts =
     \<lparr>sg_id = sid, sg_signalLookupId = im_compositeMailMessageId m, sg_threadId = None, sg_gsi3pk = gsi3pk,
      sg_accountId = accountId, sg_source = SrcEmail, sg_type = TyEmail, sg_status = st, sg_labels = [],
      sg_createdAt = ts, sg_retentionDuration = Some SPAM_QUARANTINE_RETENTION,
      sg_data = DEmail (Inbound (unclassified_data m p))\<rparr>"

text \<open>A failed increment is only logged.\<close>

definition countStatus :: "env \<Rightarrow> str \<Rightarrow> signal_status \<Rightarrow> str \<Rightarrow> unit io" where
  "countStatus e accountId st key =
     (case statusToMetric st of
        None \<Rightarrow> ret ()
      | Some metric \<Rightarrow> bind (incrementStatMetric e accountId metric 1 key) (\<lambda>_. ret ()))"

section \<open>Spoofed mail\<close>

definition spoofed :: "process_options \<Rightarrow> inbound_message \<Rightarrow> bool" where
  "spoofed opts m \<longleftrightarrow> \<not> po_unsafeSkipDmarc opts \<and> (im_dkimVerdict m = VFail \<or> im_dmarcVerdict m = VFail)"

definition blockSpoofed :: "env \<Rightarrow> inbound_message \<Rightarrow> str \<Rightarrow> unit result io" where
  "blockSpoofed e m accountId =
     bind (new_signal_id e) (\<lambda>sid.
     bind (now_iso e) (\<lambda>ts.
     bind_ok (\<lambda>err. err) (saveSignal e (unclassified_signal m accountId SBlockReject None None sid ts)) (\<lambda>_.
     bind (countStatus e accountId SBlockReject (im_idempotencyKey m)) (\<lambda>_.
     ret (Inr ())))))"

section \<open>The alias of an accepted message\<close>

definition ensureAliasExists :: "env \<Rightarrow> inbound_message \<Rightarrow> str \<Rightarrow> alias_rec option \<Rightarrow> account option \<Rightarrow> unit result io" where
  "ensureAliasExists e m accountId al acc =
     (case al of
        Some _ \<Rightarrow> ret (Inr ())
      | None \<Rightarrow>
          bind_ok (\<lambda>err. err)
            (ensureAlias e accountId (im_primaryRecipient m)
               (nullish (Option.bind acc ac_filtering) DEFAULT_UNKNOWN_SENDER_POLICY)) (\<lambda>created.
          if created
          then bind (incrementStatMetric e accountId MTotalAliases 1 (im_idempotencyKey m @ ''.alias'')) (\<lambda>_. ret (Inr ()))
          else ret (Inr ())))"

section \<open>The sanitized message\<close>

text \<open>
  The upload ticket carries the lifecycle tag of a default retention; the two URLs may throw, and so
  may the sanitizer. The message that the pipeline works on is the sanitizer's.
\<close>

definition sanitizeMessage :: "env \<Rightarrow> inbound_message \<Rightarrow> str \<Rightarrow> sanitized result io" where
  "sanitizeMessage e m accountId =
     (let keyPrefix = ''content/accounts/'' @ accountId @ ''/extracted/'' @ im_compositeMailMessageId m @ ''/''
      in bind (call (presign (inf e) ''createReadUrl'' (im_s3Key m)) (\<lambda>_. Read ''createReadUrl'')) (\<lambda>_.
         bind (call (presign (inf e) ''createContentUploadTicket'' keyPrefix) (\<lambda>_. Read ''createContentUploadTicket'')) (\<lambda>_.
         bind_ok (\<lambda>err. err) (sanitizeContent e (im_s3Key m) keyPrefix) (\<lambda>s. ret (Inr s)))))"

definition gsi3pk_of :: "str \<Rightarrow> parsed_mime \<Rightarrow> str option" where
  "gsi3pk_of accountId p =
     (let rawMessageId = map_of (pm_headers p) ''message-id''
      in if truthy rawMessageId
         then (let msgId = extractMsgId (the rawMessageId)
               in if truthy msgId then Some (buildSignalGsi3pk accountId (the msgId)) else None)
         else None)"

section \<open>A bounce that arrived as mail\<close>

definition bounce_json :: "bounce_info \<Rightarrow> json" where
  "bounce_json b =
     JObj (concat (map (\<lambda>(k, v). case v of None \<Rightarrow> [] | Some s \<Rightarrow> [(k, JStr s)])
       [(''action'', bi_action b), (''status'', bi_status b), (''diagnosticCode'', bi_diagnosticCode b),
        (''originalRecipient'', bi_originalRecipient b), (''finalRecipient'', bi_finalRecipient b)]))"

definition inbound_bounce_params :: "str \<Rightarrow> bounce_info \<Rightarrow> linked_send option \<Rightarrow> handle_bounce_params" where
  "inbound_bounce_params accountId b ls =
     (let failedAddress = nullish_opt (bi_originalRecipient b) (bi_finalRecipient b);
          isPermanent = isPermanentBounce b
      in \<lparr>hb_accountId = accountId,
          hb_bouncedRecipients =
            (if truthy failedAddress
             then [\<lparr>br_address = the failedAddress, br_permanent = isPermanent, br_reason = falsy_none (bi_status b)\<rparr>]
             else []),
          hb_isPermanent = isPermanent, hb_sesMessageId = None, hb_suppressionReason = ExternalBounce,
          hb_linkedSend = ls, hb_revertToDraft = False, hb_disableForwardingRules = False,
          hb_feedback = bounce_json b\<rparr>)"

definition linked_send_of :: "threaded_ref option \<Rightarrow> linked_send option" where
  "linked_send_of matched =
     (case matched of
        Some s \<Rightarrow>
          (if tr_type s \<noteq> TyCalendarEvent \<and> tr_source s = SrcUser \<and> tr_type s = TyEmail
           then Some \<lparr>ls_linkedSignalId = tr_id s, ls_signalLookupId = tr_signalLookupId s,
                      ls_threadId = falsy_none (tr_threadId s)\<rparr>
           else None)
      | None \<Rightarrow> None)"

definition handleInboundBounce :: "env \<Rightarrow> bounce_info \<Rightarrow> headers \<Rightarrow> str \<Rightarrow> unit result io" where
  "handleInboundBounce e b hs accountId =
     (let referencedMsgId = extractReferencedOutboundMsgId hs
      in bind_ok (\<lambda>err. err)
           (if truthy referencedMsgId
            then call_read ''findSignalByEmailMessageId''
                   (findSignalByEmailMessageId (tdb e) (buildSignalGsi3pk accountId (the referencedMsgId)))
            else ret (Inr None)) (\<lambda>matched.
         handleBounce e (inbound_bounce_params accountId b (linked_send_of matched))))"

section \<open>A sender blocked on this alias\<close>

fun status_of_policy :: "sender_policy \<Rightarrow> signal_status" where
  "status_of_policy SPAllow = SActive"
| "status_of_policy SPBlockHidden = SBlockHidden"
| "status_of_policy SPBlockReject = SBlockReject"
| "status_of_policy SPReportViolation = SReportViolation"

definition blocked_policy :: "alias_sender option \<Rightarrow> sender_policy option" where
  "blocked_policy cfg =
     (case cfg of Some c \<Rightarrow> if se_policy c \<noteq> SPAllow then Some (se_policy c) else None | None \<Rightarrow> None)"

text \<open>What follows a stored block: the sender's reputation and the counters, neither of which can fail it.\<close>

definition afterBlock :: "env \<Rightarrow> inbound_message \<Rightarrow> str \<Rightarrow> str \<Rightarrow> signal_status \<Rightarrow> unit result io" where
  "afterBlock e m accountId senderETLD1 st =
     bind (updateGlobalReputation e senderETLD1 st) (\<lambda>_.
     bind (countStatus e accountId st (im_idempotencyKey m)) (\<lambda>_.
     ret (Inr ())))"

definition blockSenderEarly ::
  "env \<Rightarrow> inbound_message \<Rightarrow> str \<Rightarrow> parsed_mime \<Rightarrow> str option \<Rightarrow> str \<Rightarrow> sender_policy \<Rightarrow> unit result io" where
  "blockSenderEarly e m accountId p gsi3pk senderETLD1 policy =
     (let st = status_of_policy policy
      in bind (now_iso e) (\<lambda>ts.
         bind (new_signal_id e) (\<lambda>sid.
         bind_ok (\<lambda>err. err) (saveSignal e (unclassified_signal m accountId st (Some p) gsi3pk sid ts)) (\<lambda>_.
         afterBlock e m accountId senderETLD1 st))))"

section \<open>Phases\<close>

lemma countStatus_emits: "(\<And>me b. P (IncrementStat a me 1 k b)) \<Longrightarrow> emits (countStatus e a st k) P"
  unfolding countStatus_def store_defs by (intro trace_intros)

lemma afterBlock_counting: "emits (afterBlock e m a d st) counting"
  unfolding afterBlock_def store_defs by (intro trace_intros countStatus_emits) simp_all

lemma resolve_emits: "emits (resolveAccountIdAndAlias e a) is_read"
  unfolding resolveAccountIdAndAlias_def Let_def by (intro trace_intros) simp_all

lemma ensureAliasExists_emits: "emits (ensureAliasExists e m a al acc) neutral"
  unfolding ensureAliasExists_def store_defs by (intro trace_intros) simp_all

lemma sanitizeMessage_emits: "emits (sanitizeMessage e m a) is_read"
  unfolding sanitizeMessage_def store_defs Let_def by (intro trace_intros) simp_all

lemma bounce_event_neutral:
  "bounce_event (inbound_bounce_params a b ls) ev \<Longrightarrow> neutral ev"
  by (cases ev) (auto simp: inbound_bounce_params_def Let_def)

lemma handleInboundBounce_emits: "emits (handleInboundBounce e b hs a) neutral"
  unfolding handleInboundBounce_def Let_def
  by (intro trace_intros emits_mono [OF handle_bounce_emits bounce_event_neutral]) simp_all

end
