(* ===== verification/CalendarIngest.thy ===== *)
theory CalendarIngest
  imports Inbound CalendarCollapse
begin

text \<open>
  Calendar attachments of a message: extraction (\<open>processor/calendar/calendar-event-extraction.ts\<close>),
  the signals made of them on ingest (\<open>processCalendarAttachment\<close> in
  \<open>processor/incoming-email-processor.ts\<close>) and after the approval of a quarantined message
  (\<open>processor/calendar/post-approval-handler.ts\<close>).
\<close>

section \<open>Extraction\<close>

record calendar_extraction =
  cx_validEvents :: "collapsed_calendar_event list"
  cx_invalidAttachments :: "(attachment \<times> str) list"

definition extract_attachment ::
  "env \<Rightarrow> calendar_event_record list \<times> (attachment \<times> str) list \<Rightarrow> attachment \<Rightarrow>
   (calendar_event_record list \<times> (attachment \<times> str) list) io" where
  "extract_attachment e st a =
     bind (call (getContent (inf e) (at_s3Key a)) (\<lambda>_. Read ''getContent'')) (\<lambda>content.
     ret (case parseIcs (lib e) content of
            Inl reason \<Rightarrow> (fst st, snd st @ [(a, reason)])
          | Inr evs \<Rightarrow> (fst st @ map (\<lambda>ev. \<lparr>cr_event = ev, cr_rawIcsContent = content\<rparr>) evs, snd st)))"

definition extractCalendar :: "env \<Rightarrow> attachment list \<Rightarrow> calendar_extraction option io" where
  "extractCalendar e attachments =
     (let calendarAttachments = filter isCalendarAttachment attachments
      in if calendarAttachments = [] then ret None
         else bind (for_fold calendarAttachments (extract_attachment e) ([], [])) (\<lambda>st.
              ret (Some \<lparr>cx_validEvents = fst (collapseCalendarEventsWith (fst st)), cx_invalidAttachments = snd st\<rparr>)))"

section \<open>Signals\<close>

definition calendar_invalid_signal :: "email_signal \<Rightarrow> str \<Rightarrow> str \<Rightarrow> str option \<Rightarrow> str \<Rightarrow> str \<Rightarrow> str \<Rightarrow> any_signal" where
  "calendar_invalid_signal s threadId accountId retentionDuration reason sid ts =
     \<lparr>sg_id = sid, sg_signalLookupId = sid, sg_threadId = Some threadId, sg_gsi3pk = None, sg_accountId = accountId,
      sg_source = SrcSignal, sg_type = TyCalendarInviteInvalid, sg_status = SActive, sg_labels = [],
      sg_createdAt = ts, sg_retentionDuration = retentionDuration,
      sg_data = DCalendarInviteInvalid \<lparr>cii_reason = reason, cii_linkedSignalId = sg_id s\<rparr>\<rparr>"

definition organizer_name :: "email_signal \<Rightarrow> calendar_event_data \<Rightarrow> str option" where
  "organizer_name s d =
     (let wd = (case sg_data s of Inbound x \<Rightarrow> ib_workflowData x | Outbound _ \<Rightarrow> []);
          eventNameFallback = (if jstr wd ''workflow'' = Some ''events'' then jstr wd ''eventName'' else None)
      in nullish_opt (ce_organizerCn d) (if ce_organizer d \<noteq> [] then None else eventNameFallback))"

definition calendar_event_signal ::
  "email_signal \<Rightarrow> str \<Rightarrow> str \<Rightarrow> str option \<Rightarrow> calendar_event_data \<Rightarrow> str \<Rightarrow> str \<Rightarrow> calendar_event_data signal" where
  "calendar_event_signal s threadId accountId retentionDuration d sid ts =
     \<lparr>sg_id = sid, sg_signalLookupId = buildCalendarSignalLookupId (ce_organizer d) (ce_veventUid d) (ce_recurrenceId d),
      sg_threadId = Some threadId, sg_gsi3pk = None, sg_accountId = accountId, sg_source = SrcSignal,
      sg_type = TyCalendarEvent, sg_status = SActive, sg_labels = [], sg_createdAt = ts,
      sg_retentionDuration = retentionDuration, sg_data = d\<lparr>ce_linkedSignalId := sg_id s\<rparr>\<rparr>"

text \<open>The instant the clock shows, in milliseconds\<close>

definition now_instant :: "env \<Rightarrow> int io" where
  "now_instant e = bind (now_iso e) (\<lambda>ts. ret (nullish (dateTime (lib e) ts) 0))"

section \<open>Reminders\<close>

definition RSVP_REMINDER_HOURS_BEFORE :: int where
  "RSVP_REMINDER_HOURS_BEFORE = 24"

definition scheduleDayOf :: "env \<Rightarrow> str \<Rightarrow> str \<Rightarrow> str \<Rightarrow> calendar_event_data \<Rightarrow> unit io" where
  "scheduleDayOf e accountId threadId sid d =
     (if ce_startTime d = [] then ret ()
      else bind (now_instant e) (\<lambda>now.
        case dateTime (lib e) (ce_startTime d) of
          None \<Rightarrow> ret ()
        | Some eventStart \<Rightarrow>
            if eventStart > now
            then bind (createFollowupSchedule e accountId threadId sid (dayAtEight (lib e) eventStart)
                         (''calendar.'' @ dayStamp (lib e) eventStart)) (\<lambda>_. ret ())
            else ret ()))"

definition scheduleRsvp :: "env \<Rightarrow> str \<Rightarrow> str \<Rightarrow> str \<Rightarrow> calendar_event_data \<Rightarrow> unit io" where
  "scheduleRsvp e accountId threadId sid d =
     (if to_upper (ce_method d) \<noteq> ''REQUEST'' \<or> ce_startTime d = [] then ret ()
      else case dateTime (lib e) (ce_startTime d) of
             None \<Rightarrow> ret ()
           | Some eventStart \<Rightarrow>
               bind (now_instant e) (\<lambda>now.
               let reminderTime = eventStart - RSVP_REMINDER_HOURS_BEFORE * 3600000
               in if reminderTime > now
                  then bind (createRsvpReminderSchedule e accountId threadId sid (isoOfInstant (lib e) reminderTime)
                               (''rsvp.'' @ dayStamp (lib e) eventStart)) (\<lambda>_. ret ())
                  else ret ()))"

section \<open>On ingest\<close>

definition has_calendar_forward :: "matched_rule_result list \<Rightarrow> bool" where
  "has_calendar_forward matched \<longleftrightarrow> (\<exists>r \<in> set matched. \<exists>a \<in> set (mr_actions r). ra_type a = RForwardCalendarInvite)"

definition sr19 :: matched_rule_result where
  "sr19 =
     \<lparr>mr_ruleId = ''SR-19'', mr_actions = [\<lparr>ra_type = RForwardCalendarInvite, ra_value = None\<rparr>],
      mr_labelsAdded = [], mr_statusChange = None, mr_text = None\<rparr>"

text \<open>The rule results of the message, after the calendar events have been stored\<close>

definition ingest_event ::
  "env \<Rightarrow> email_signal \<Rightarrow> str \<Rightarrow> str \<Rightarrow> str option \<Rightarrow> matched_rule_result list \<Rightarrow> collapsed_calendar_event \<Rightarrow>
   matched_rule_result list io" where
  "ingest_event e s threadId accountId retentionDuration matched c =
     (let d = cc_data c in
      bind (new_signal_id e) (\<lambda>sid.
      bind (now_iso e) (\<lambda>ts.
      bind (saveIcsContentAsCalendar e
              (''content/accounts/'' @ accountId @ ''/calendar/'' @ sid @ ''/invite.ics'') (cc_rawIcsContent c)) (\<lambda>_.
      bind (saveCalendarEventSignal e
              (calendar_event_signal s threadId accountId retentionDuration
                 (d\<lparr>ce_organizerCn := organizer_name s d\<rparr>) sid ts)) (\<lambda>saved.
      case saved of
        Inl _ \<Rightarrow> ret matched
      | Inr _ \<Rightarrow>
          bind (scheduleDayOf e accountId threadId sid d) (\<lambda>_.
          bind (scheduleRsvp e accountId threadId sid d) (\<lambda>_.
          ret (if has_calendar_forward matched then matched else matched @ [sr19]))))))))"

definition processCalendarAttachment ::
  "env \<Rightarrow> email_signal \<Rightarrow> str \<Rightarrow> str \<Rightarrow> calendar_extraction option \<Rightarrow> str option \<Rightarrow> matched_rule_result list \<Rightarrow>
   matched_rule_result list io" where
  "processCalendarAttachment e s threadId accountId extraction retentionDuration matched =
     (case extraction of
        None \<Rightarrow> ret matched
      | Some x \<Rightarrow>
          bind (for_fold (cx_invalidAttachments x) (\<lambda>u (a, reason).
                  bind (new_signal_id e) (\<lambda>sid.
                  bind (now_iso e) (\<lambda>ts.
                  bind (saveSignal e (calendar_invalid_signal s threadId accountId retentionDuration reason sid ts)) (\<lambda>_.
                  ret ())))) ()) (\<lambda>_.
          for_fold (cx_validEvents x) (ingest_event e s threadId accountId retentionDuration) matched))"

lemma processCalendarAttachment_keeps:
  "emits (processCalendarAttachment e s t a x r matched) (keeps (Stored t (sg_id s)))"
  unfolding processCalendarAttachment_def ingest_event_def scheduleDayOf_def scheduleRsvp_def now_instant_def
    store_defs Let_def
  by (intro trace_intros) (simp_all add: keeps_def calendar_invalid_signal_def calendar_event_signal_def)

lemma extractCalendar_emits: "emits (extractCalendar e as) is_read"
  unfolding extractCalendar_def extract_attachment_def Let_def by (intro trace_intros) simp_all

section \<open>After an approval\<close>

text \<open>
  The events are forwarded before they are stored; a failure of any step only skips that event. The
  signals made here carry no retention, and their files lie outside \<open>content/\<close>.
\<close>

definition approve_event ::
  "env \<Rightarrow> email_signal \<Rightarrow> str \<Rightarrow> str \<Rightarrow> str \<Rightarrow> unit \<Rightarrow> collapsed_calendar_event \<Rightarrow> unit io" where
  "approve_event e s threadId accountId target u c =
     bind (new_signal_id e) (\<lambda>sid.
     bind (now_iso e) (\<lambda>ts.
     let cs = calendar_event_signal s threadId accountId None (cc_data c) sid ts in
     bind (try_catch
             (bind (saveIcsContentAsCalendar e
                      (''accounts/'' @ accountId @ ''/calendar/'' @ sid @ ''/invite.ics'') (cc_rawIcsContent c))
                (\<lambda>_. ret True))
             (\<lambda>_. ret False)) (\<lambda>kept.
     if \<not> kept then ret ()
     else bind (forwardInvite e cs target accountId threadId (eb_recipientAddress (base_of (sg_data s)))) (\<lambda>r.
          case r of
            Inl _ \<Rightarrow> ret ()
          | Inr _ \<Rightarrow> bind (saveCalendarEventSignal e cs) (\<lambda>_. ret ())))))"

definition handlePostApprovalCalendar ::
  "env \<Rightarrow> email_signal \<Rightarrow> thread \<Rightarrow> calendar_extraction option \<Rightarrow> unit io" where
  "handlePostApprovalCalendar e s t extraction =
     (case extraction of
        None \<Rightarrow> ret ()
      | Some x \<Rightarrow>
          (let accountId = sg_accountId s in
           bind (for_fold (cx_invalidAttachments x) (\<lambda>u (a, reason).
                   bind (new_signal_id e) (\<lambda>sid.
                   bind (now_iso e) (\<lambda>ts.
                   bind (saveSignal e (calendar_invalid_signal s (th_id t) accountId None reason sid ts)) (\<lambda>_.
                   ret ())))) ()) (\<lambda>_.
           bind (call_read ''getAccount'' (getAccount (adb e) accountId)) (\<lambda>acc.
           let target = (case acc of
                           Inr (Some a) \<Rightarrow> nullish (ac_defaultCalendarInviteForwardingTargetId a) []
                         | _ \<Rightarrow> [])
           in for_fold (cx_validEvents x) (approve_event e s (th_id t) accountId target) ()))))"

end
