(* ===== verification/Pipeline.thy ===== *)
theory Pipeline
  imports CalendarIngest Embed Resources
begin

text \<open>
  The processing of one inbound message, from delivery to the side-effect queue
  (\<open>processInbound\<close> and \<open>_processInboundUnsafe\<close> in \<open>processor/incoming-email-processor.ts\<close>,
  \<open>thread-factory.ts\<close>).
\<close>

section \<open>Classification\<close>

definition fallback_classification :: classification_output where
  "fallback_classification =
     \<lparr>cl_workflow = ''unspecified'', cl_workflowData = [(''workflow'', JStr ''unspecified'')], cl_tags = [],
      cl_summary = [], cl_labels = [], cl_actions = []\<rparr>"

definition classify_request_of ::
  "inbound_message \<Rightarrow> str \<Rightarrow> account option \<Rightarrow> sanitized \<Rightarrow> label_rec list \<Rightarrow> classify_request" where
  "classify_request_of m accountId acc s labels =
     (let p = sz_parsed s
      in \<lparr>cr_from = ea_address (pm_from p), cr_to = map ea_address (pm_to p), cr_subject = pm_subject p,
          cr_body = (case pm_htmlBody p of Some h \<Rightarrow> stripHtmlForClassifier h | None \<Rightarrow> nullish (pm_textBody p) []),
          cr_headers = classificationHeaders (pm_headers p) (pm_htmlBody p), cr_receivedAt = im_timestamp m,
          cr_allowedLabels = map la_name labels,
          cr_labelInstructions = map (\<lambda>l. (la_name l, la_applyInstruction l)) labels,
          cr_links = nullish (sz_links s) [], cr_signalId = im_compositeMailMessageId m, cr_accountId = accountId,
          cr_timezone = (case acc of Some a \<Rightarrow> ac_timezone a | None \<Rightarrow> ''UTC''),
          cr_ambiguousDateFormat = nullish (Option.bind acc ac_ambiguousDateFormat) SkipAmbiguous\<rparr>)"

text \<open>Labels that cannot be read and a classification that fails both fall back.\<close>

definition classifyMessage ::
  "env \<Rightarrow> inbound_message \<Rightarrow> str \<Rightarrow> account option \<Rightarrow> sanitized \<Rightarrow> classification_output io" where
  "classifyMessage e m accountId acc s =
     bind (call_read ''listLabels'' (listLabels (adb e) accountId)) (\<lambda>labels.
     bind (classifySignal e (classify_request_of m accountId acc s (case labels of Inr ls \<Rightarrow> ls | Inl _ \<Rightarrow> []))) (\<lambda>r.
     ret (case r of Inr c \<Rightarrow> c | Inl _ \<Rightarrow> fallback_classification)))"

text \<open>A copy does not expect a reply from the alias.\<close>

definition override_requiresReply :: "str \<Rightarrow> parsed_mime \<Rightarrow> classification_output \<Rightarrow> classification_output" where
  "override_requiresReply recipientAddress p c =
     (if cl_workflow c = ''conversation'' \<and> jfield (cl_workflowData c) ''workflow'' = JStr ''conversation'' \<and>
         json_truthy (jfield (cl_workflowData c) ''requiresReply'') \<and>
         \<not> list_ex (\<lambda>a. to_lower (ea_address a) = to_lower recipientAddress) (pm_to p)
      then c\<lparr>cl_workflowData := jset ''requiresReply'' (JBool False) (cl_workflowData c)\<rparr> else c)"

definition override_system :: "str \<Rightarrow> classification_output \<Rightarrow> classification_output" where
  "override_system accountId c =
     (if isSystemAccount accountId
      then c\<lparr>cl_workflow := ''healthcheck'', cl_workflowData := [(''workflow'', JStr ''healthcheck'')]\<rparr> else c)"

section \<open>Matching a thread\<close>

text \<open>Three lookups, each of which misses when it fails; they run in parallel in the code.\<close>

definition tier_groupingKey :: "env \<Rightarrow> str \<Rightarrow> str option \<Rightarrow> thread option io" where
  "tier_groupingKey e accountId groupingKey =
     (if \<not> truthy groupingKey then ret None
      else bind (call_read ''findThreadByGroupingKey'' (findThreadByGroupingKey (tdb e) accountId (the groupingKey))) (\<lambda>r.
        ret (case r of Inr t \<Rightarrow> t | Inl _ \<Rightarrow> None)))"

definition tier_inReplyTo :: "env \<Rightarrow> str \<Rightarrow> headers \<Rightarrow> thread option io" where
  "tier_inReplyTo e accountId hs =
     (case map_of hs ''in-reply-to'' of
        None \<Rightarrow> ret None
      | Some h \<Rightarrow>
          (if h = [] \<or> \<not> truthy (extractFirstInReplyTo h) then ret None
           else bind (call_read ''findSignalByEmailMessageId''
                        (findSignalByEmailMessageId (tdb e) (buildSignalGsi3pk accountId (the (extractFirstInReplyTo h))))) (\<lambda>r.
             case r of
               Inr (Some ref) \<Rightarrow>
                 (if \<not> truthy (tr_threadId ref) then ret None
                  else bind (call_read ''getThread'' (getThread (tdb e) accountId (the (tr_threadId ref)))) (\<lambda>t.
                    ret (case t of Inr x \<Rightarrow> x | Inl _ \<Rightarrow> None)))
             | _ \<Rightarrow> ret None)))"

definition tier_similarity :: "env \<Rightarrow> str \<Rightarrow> str \<Rightarrow> embedding \<Rightarrow> thread option io" where
  "tier_similarity e accountId recipientAddress emb =
     bind (call_read ''findMatch'' (findMatch (inf e) accountId recipientAddress emb)) (\<lambda>r.
     ret (case r of Inr t \<Rightarrow> t | Inl _ \<Rightarrow> None))"

definition matchThread ::
  "env \<Rightarrow> str \<Rightarrow> str \<Rightarrow> str option \<Rightarrow> headers \<Rightarrow> embedding \<Rightarrow> thread option io" where
  "matchThread e accountId recipientAddress groupingKey hs emb =
     bind (tier_groupingKey e accountId groupingKey) (\<lambda>t1.
     bind (tier_inReplyTo e accountId hs) (\<lambda>t15.
     bind (tier_similarity e accountId recipientAddress emb) (\<lambda>t2.
     ret (nullish_opt t1 (nullish_opt t15 t2)))))"

section \<open>The thread and the rules\<close>

text \<open>What the pipeline knows of a classified message\<close>

record inbound_context =
  ix_message :: inbound_message
  ix_options :: process_options
  ix_accountId :: str
  ix_alias :: "alias_rec option"
  ix_account :: "account option"
  ix_parsed :: parsed_mime
  ix_assets :: "extracted_asset list"
  ix_gsi3pk :: "str option"
  ix_senderETLD1 :: str
  ix_senderConfig :: "alias_sender option"
  ix_classification :: classification_output
  ix_embedText :: str
  ix_embedding :: "str \<times> embedding"
  ix_now :: str
  ix_retention :: str

definition sender_of :: "parsed_mime \<Rightarrow> email_address" where
  "sender_of p = \<lparr>ea_address = ea_address (pm_from p), ea_name = falsy_none (ea_name (pm_from p))\<rparr>"

definition buildActiveThread ::
  "env \<Rightarrow> str \<Rightarrow> str \<Rightarrow> str \<Rightarrow> str \<Rightarrow> str \<Rightarrow> email_address \<Rightarrow> str \<Rightarrow> str \<Rightarrow> str \<Rightarrow> str option \<Rightarrow> thread io" where
  "buildActiveThread e accountId signalId workflow summary lastSignalAt sender recipientAddress subject retentionDuration groupingKey =
     bind (now_iso e) (\<lambda>now.
     ret \<lparr>th_id = deriveThreadIdFromSignalId (sha256hex (lib e)) signalId, th_accountId = accountId,
          th_groupingKey = falsy_none groupingKey, th_workflow = workflow, th_labels = [], th_status = ThActive,
          th_summary = summary, th_lastSignalAt = lastSignalAt, th_deletedAt = None, th_createdAt = now,
          th_updatedAt = now, th_retentionDuration = Some retentionDuration, th_sentMessageIds = None,
          th_urgency = None, th_followupAt = None, th_sender = sender, th_recipientAddress = recipientAddress,
          th_subject = subject\<rparr>)"

definition threadShell :: "env \<Rightarrow> inbound_context \<Rightarrow> thread option \<Rightarrow> str \<Rightarrow> str option \<Rightarrow> thread io" where
  "threadShell e x matched signalId groupingKey =
     (let c = ix_classification x; p = ix_parsed x; recipient = im_primaryRecipient (ix_message x)
      in case matched of
           Some t \<Rightarrow>
             ret (t\<lparr>th_workflow := cl_workflow c, th_summary := cl_summary c, th_sender := sender_of p,
                    th_recipientAddress := recipient, th_subject := pm_subject p, th_updatedAt := ix_now x,
                    th_retentionDuration := Some (ix_retention x)\<rparr>)
         | None \<Rightarrow>
             buildActiveThread e (ix_accountId x) signalId (cl_workflow c) (cl_summary c) (im_timestamp (ix_message x))
               (sender_of p) recipient (pm_subject p) (ix_retention x) groupingKey)"

fun add_label :: "str list \<Rightarrow> str \<Rightarrow> str list" where
  "add_label ls l = (if l \<in> set ls then ls else ls @ [l])"

definition filter_mode :: "inbound_context \<Rightarrow> unknown_sender_policy" where
  "filter_mode x = resolveUnknownSenderPolicy (ix_alias x) (Option.bind (ix_account x) ac_filtering)"

definition labelThread :: "env \<Rightarrow> inbound_context \<Rightarrow> thread \<Rightarrow> thread" where
  "labelThread e x t =
     (let c = ix_classification x;
          systemLabels = assignSystemLabels (url_protocol (lib e))
            \<lparr>lc_workflow = cl_workflow c, lc_workflowData = cl_workflowData c, lc_actions = cl_actions c,
             lc_senderETLD1 = ix_senderETLD1 x, lc_aliasSenderConfig = ix_senderConfig x,
             lc_unknownSenderPolicy = filter_mode x, lc_hasSentMessages = nullish (th_sentMessageIds t) [] \<noteq> []\<rparr>;
          labels = foldl add_label (th_labels t) (map label_name systemLabels @ cl_labels c);
          forwarded = extractForwardedAddress (pm_headers (ix_parsed x))
      in t\<lparr>th_labels := (if truthy forwarded then add_label labels (''original:'' @ the forwarded) else labels)\<rparr>)"

definition signal_opts ::
  "inbound_context \<Rightarrow> signal_status \<Rightarrow> str option \<Rightarrow> str \<Rightarrow> str option \<Rightarrow> build_opts" where
  "signal_opts x st threadId retentionDuration forceSignalId =
     \<lparr>bo_threadId = threadId, bo_status = st, bo_accountId = ix_accountId x,
      bo_compositeMailMessageId = im_compositeMailMessageId (ix_message x),
      bo_recipientAddress = im_primaryRecipient (ix_message x), bo_parsed = ix_parsed x,
      bo_classification = ix_classification x, bo_s3Key = im_s3Key (ix_message x),
      bo_receivedAt = im_timestamp (ix_message x), bo_now = ix_now x, bo_retentionDuration = Some retentionDuration,
      bo_gsi3pk = ix_gsi3pk x, bo_forceSignalId = forceSignalId\<rparr>"

section \<open>The decision\<close>

record decision =
  dc_outcome :: outcome_rec
  dc_matchedRules :: "matched_rule_result list"
  dc_thread :: thread
  dc_shell :: inbound_signal

definition clear_status :: "outcome_rec \<Rightarrow> outcome_rec" where
  "clear_status oc =
     oc\<lparr>oc_blockDisposition := None, oc_quarantine := False, oc_quarantineHidden := False, oc_archive := False\<rparr>"

definition final_workflow :: "matched_rule_result list \<Rightarrow> str option" where
  "final_workflow matched =
     (case find (\<lambda>a. ra_type a = RAssignWorkflow \<and> truthy (ra_value a)) (rev (flat_actions matched)) of
        None \<Rightarrow> None
      | Some a \<Rightarrow> ra_value a)"

definition propagate_workflow :: "matched_rule_result list \<Rightarrow> inbound_signal \<Rightarrow> inbound_signal" where
  "propagate_workflow matched s =
     (case final_workflow matched of
        None \<Rightarrow> s
      | Some w \<Rightarrow> s\<lparr>sg_data := (sg_data s)\<lparr>ib_workflow := w, ib_workflowData := [(''workflow'', JStr w)]\<rparr>\<rparr>)"

fun policy_name :: "unknown_sender_policy \<Rightarrow> str" where
  "policy_name USAllowAll = ''allow_all''"
| "policy_name USQuarantineVisible = ''quarantine_visible''"
| "policy_name USQuarantineHidden = ''quarantine_hidden''"
| "policy_name USBlockHidden = ''block_hidden''"
| "policy_name USBlockReject = ''block_reject''"
| "policy_name USReportViolation = ''report_violation''"

fun apply_filter_mode :: "unknown_sender_policy \<Rightarrow> outcome_rec \<Rightarrow> outcome_rec" where
  "apply_filter_mode USBlockHidden oc = oc\<lparr>oc_blockDisposition := Some SBlockHidden\<rparr>"
| "apply_filter_mode USBlockReject oc = oc\<lparr>oc_blockDisposition := Some SBlockReject\<rparr>"
| "apply_filter_mode USReportViolation oc = oc\<lparr>oc_blockDisposition := Some SReportViolation\<rparr>"
| "apply_filter_mode USQuarantineHidden oc = oc\<lparr>oc_quarantine := True, oc_quarantineHidden := True\<rparr>"
| "apply_filter_mode USQuarantineVisible oc = oc\<lparr>oc_quarantine := True\<rparr>"
| "apply_filter_mode USAllowAll oc = oc"

text \<open>\<open>ACTION_MAP\<close>; there is no entry for \<open>allow_all\<close>, which adds no synthetic rule\<close>

fun filter_action :: "unknown_sender_policy \<Rightarrow> rule_action_type" where
  "filter_action USQuarantineVisible = RQuarantineVisible"
| "filter_action USQuarantineHidden = RQuarantineHidden"
| "filter_action USBlockHidden = RBlockHidden"
| "filter_action _ = RBlockReject"

definition sr00_status :: "outcome_rec \<Rightarrow> status_change option" where
  "sr00_status oc =
     (if oc_quarantineHidden oc then Some ScQuarantineHidden
      else if oc_quarantine oc then Some ScQuarantineVisible
      else (case oc_blockDisposition oc of
              Some SBlockHidden \<Rightarrow> Some ScBlockHidden
            | Some SBlockReject \<Rightarrow> Some ScBlockReject
            | Some SReportViolation \<Rightarrow> Some ScReportViolation
            | _ \<Rightarrow> None))"

definition sr00 :: "inbound_context \<Rightarrow> outcome_rec \<Rightarrow> matched_rule_result" where
  "sr00 x oc =
     \<lparr>mr_ruleId = ''SR-00'', mr_actions = [\<lparr>ra_type = filter_action (filter_mode x), ra_value = None\<rparr>],
      mr_labelsAdded = [], mr_statusChange = sr00_status oc,
      mr_text = Some (''Sender '' @ ix_senderETLD1 x @ '' is not in approved senders ('' @
        (case ix_alias x of Some _ \<Rightarrow> ''alias '' @ im_primaryRecipient (ix_message x) | None \<Rightarrow> ''account default'') @
        '' policy: '' @ policy_name (filter_mode x) @ '')'')\<rparr>"

definition has_status_outcome :: "outcome_rec \<Rightarrow> bool" where
  "has_status_outcome oc \<longleftrightarrow> oc_blockDisposition oc \<noteq> None \<or> oc_quarantine oc \<or> oc_archive oc"

text \<open>The unknown-sender policy applies when no rule set a status.\<close>

definition filterFallback ::
  "inbound_context \<Rightarrow> thread \<Rightarrow> outcome_rec \<Rightarrow> matched_rule_result list \<Rightarrow> outcome_rec \<times> matched_rule_result list" where
  "filterFallback x t oc matched =
     (if \<not> has_status_outcome oc \<and> \<not> po_skipStatusActions (ix_options x) \<and>
         ''system:sender:untrusted'' \<in> set (th_labels t)
      then (let oc' = apply_filter_mode (filter_mode x) oc
            in (oc', if filter_mode x = USAllowAll then matched else matched @ [sr00 x oc']))
      else (oc, matched))"

definition decide ::
  "env \<Rightarrow> (json \<Rightarrow> str) \<Rightarrow> inbound_context \<Rightarrow> thread \<Rightarrow> bool \<Rightarrow> str \<Rightarrow> decision result io" where
  "decide e z x t isMatchedThread signalId =
     bind (buildSignal e (signal_opts x SActive (Some (th_id t)) (ix_retention x) (Some signalId))) (\<lambda>shell.
     bind_ok (\<lambda>err. err) (call_read ''listEnabledRules'' (listEnabledRules (adb e) (ix_accountId x))) (\<lambda>rules.
     bind (applyRules e z rules (with_data Inbound shell) t isMatchedThread) (\<lambda>(matched, t').
     let oc = deriveOutcome matched;
         oc = (if po_skipStatusActions (ix_options x) then clear_status oc else oc);
         (oc, all_matched) = filterFallback x t' oc matched
     in ret (Inr \<lparr>dc_outcome = oc, dc_matchedRules = all_matched, dc_thread = t',
                  dc_shell = propagate_workflow matched shell\<rparr>))))"

section \<open>Blocked and quarantined messages\<close>

definition with_rules :: "matched_rule_result list \<Rightarrow> inbound_signal \<Rightarrow> inbound_signal" where
  "with_rules matched s = s\<lparr>sg_data := (sg_data s)\<lparr>eb_matchedRules := Some matched\<rparr>\<rparr>"

definition email_any :: "inbound_signal \<Rightarrow> any_signal" where
  "email_any s = with_data (\<lambda>d. DEmail (Inbound d)) s"

definition rejectMessage ::
  "env \<Rightarrow> inbound_context \<Rightarrow> decision \<Rightarrow> signal_status \<Rightarrow> bool \<Rightarrow> unit result io" where
  "rejectMessage e x d st notify =
     bind (buildSignal e (signal_opts x st None SPAM_QUARANTINE_RETENTION (po_forceSignalId (ix_options x)))) (\<lambda>base.
     let s = email_any (with_rules (dc_matchedRules d) base) in
     bind_ok (\<lambda>err. err) (saveSignal e s) (\<lambda>_.
     bind (if notify
           then try_catch (bind (notifySignal e (ix_accountId x) None s (nullish (oc_urgency (dc_outcome d)) ''normal''))
                             (\<lambda>_. ret ())) (\<lambda>_. ret ())
           else ret ()) (\<lambda>_.
     afterBlock e (ix_message x) (ix_accountId x) (ix_senderETLD1 x) st)))"

definition quarantine_status :: "outcome_rec \<Rightarrow> signal_status" where
  "quarantine_status oc = (if oc_quarantineHidden oc then SQuarantineHidden else SQuarantineVisible)"

section \<open>Accepted messages\<close>

definition approveSender :: "env \<Rightarrow> inbound_context \<Rightarrow> outcome_rec \<Rightarrow> unit result io" where
  "approveSender e x oc =
     (if (oc_approveSender oc \<or> filter_mode x = USAllowAll) \<and> ix_senderConfig x = None
      then bind_ok (\<lambda>err. err)
             (saveSender e (ix_accountId x) (im_primaryRecipient (ix_message x)) (ix_senderETLD1 x) SPAllow) (\<lambda>_. ret (Inr ()))
      else ret (Inr ()))"

text \<open>The thread as it is written; \<open>matched\<close> is the thread it was, if it existed\<close>

definition applyOutcome ::
  "inbound_context \<Rightarrow> decision \<Rightarrow> thread option \<Rightarrow> calendar_extraction option \<Rightarrow> thread" where
  "applyOutcome x d matched cal =
     (let oc = dc_outcome d; t = dc_thread d;
          labels = foldl add_label (th_labels t) (oc_additionalLabels oc);
          labels = (case cal of
                      Some c \<Rightarrow> if cx_validEvents c \<noteq> [] then add_label labels ''system:calendar'' else labels
                    | None \<Rightarrow> labels);
          urgency = nullish (nullish_opt (oc_urgency oc) (th_urgency t)) ''normal'';
          t = t\<lparr>th_lastSignalAt := im_timestamp (ix_message x), th_labels := labels\<rparr>;
          t = (if matched = None then t\<lparr>th_urgency := Some urgency\<rparr> else t\<lparr>th_status := ThActive\<rparr>)
      in if oc_archive oc then t\<lparr>th_status := ThArchived\<rparr> else t)"

definition signal_urgency :: "decision \<Rightarrow> str" where
  "signal_urgency d = nullish (nullish_opt (oc_urgency (dc_outcome d)) (th_urgency (dc_thread d))) ''normal''"

definition changed :: "'a option \<Rightarrow> 'a option \<Rightarrow> 'a option" where
  "changed new old = (if new \<noteq> None \<and> new \<noteq> old then new else None)"

definition thread_delta :: "thread \<Rightarrow> thread \<Rightarrow> update_thread_fields" where
  "thread_delta t old =
     \<lparr>uf_urgency = changed (th_urgency t) (th_urgency old),
      uf_labels = (if th_labels t \<noteq> th_labels old then Some (th_labels t) else None),
      uf_summary = (if th_summary t \<noteq> th_summary old then Some (th_summary t) else None),
      uf_workflow = (if th_workflow t \<noteq> th_workflow old then Some (th_workflow t) else None),
      uf_retentionDuration = changed (th_retentionDuration t) (th_retentionDuration old),
      uf_sentMessageIds = changed (th_sentMessageIds t) (th_sentMessageIds old),
      uf_sender = Some (th_sender t), uf_recipientAddress = Some (th_recipientAddress t),
      uf_subject = Some (th_subject t),
      uf_followupAt = (if th_status old = ThArchived \<and> th_status t = ThActive \<and> truthy (th_followupAt old)
                       then Some [] else None)\<rparr>"

definition saveThread :: "env \<Rightarrow> inbound_context \<Rightarrow> thread \<Rightarrow> thread option \<Rightarrow> unit result io" where
  "saveThread e x t matched =
     (case matched of
        Some old \<Rightarrow> updateThread e (ix_accountId x) (th_id t) (th_status t) (th_lastSignalAt t) (thread_delta t old)
      | None \<Rightarrow> createThread e t)"

definition all_embeddings :: "str \<times> embedding \<Rightarrow> (app_error + str \<times> embedding) list \<Rightarrow> (str \<times> embedding) list" where
  "all_embeddings primary secondary =
     foldl (\<lambda>m r. case r of Inr (k, v) \<Rightarrow> AList.update k v m | Inl _ \<Rightarrow> m) [primary] secondary"

definition accepted_signal ::
  "decision \<Rightarrow> str \<Rightarrow> (str \<times> embedding) list \<Rightarrow> inbound_signal" where
  "accepted_signal d threadId embs =
     (dc_shell d)\<lparr>sg_threadId := Some threadId,
       sg_data := (sg_data (dc_shell d))\<lparr>eb_matchedRules := Some (dc_matchedRules d),
                    eb_urgency := Some (signal_urgency d), eb_embeddings := Some embs\<rparr>\<rparr>"

definition resource_assets :: "env \<Rightarrow> str \<Rightarrow> extracted_asset list \<Rightarrow> resource_asset list io" where
  "resource_assets e signalId as =
     for_map as (\<lambda>a. bind (now_iso e) (\<lambda>ts.
       ret \<lparr>as_type = ea_type a, as_label = ea_label a, as_rawValue = ea_rawValue a, as_sourceSignalId = signalId,
            as_s3Key = falsy_none (ea_s3Key a), as_extractedAt = ts\<rparr>))"

text \<open>Best effort: a resource that cannot be saved does not fail the message.\<close>

definition upsertResource :: "env \<Rightarrow> inbound_context \<Rightarrow> inbound_signal \<Rightarrow> str \<Rightarrow> unit io" where
  "upsertResource e x s threadId =
     (case deriveResourceInfo (ib_workflow (sg_data s)) (ib_workflowData (sg_data s)) of
        None \<Rightarrow> ret ()
      | Some i \<Rightarrow>
          bind (resource_assets e (sg_id s) (ix_assets x)) (\<lambda>assets.
          bind (saveResource e
            \<lparr>sv_accountId = ix_accountId x, sv_threadId = threadId, sv_workflow = ib_workflow (sg_data s),
             sv_resourceKey = ri_resourceKey i, sv_expectedResolutionDate = ri_expectedResolutionDate i,
             sv_displayDate = Some (ri_displayDate i), sv_displayDateEnd = ri_displayDateEnd i, sv_title = ri_title i,
             sv_description = ri_description i,
             sv_ttl = Some (dateSeconds (lib e) (ri_expectedResolutionDate i) + 365 * 24 * 60 * 60),
             sv_assets = (if assets = [] then None else Some assets)\<rparr>) (\<lambda>_. ret ())))"

definition finishMessage ::
  "env \<Rightarrow> inbound_context \<Rightarrow> inbound_signal \<Rightarrow> thread \<Rightarrow> calendar_extraction option \<Rightarrow> unit result io" where
  "finishMessage e x s t cal =
     (let es = with_data Inbound s; matched = nullish (eb_matchedRules (sg_data s)) [] in
      bind (upsertResource e x s (th_id t)) (\<lambda>_.
      bind (countStatus e (ix_accountId x) (sg_status s) (im_idempotencyKey (ix_message x))) (\<lambda>_.
      bind (processCalendarAttachment e es (th_id t) (ix_accountId x) cal (sg_retentionDuration s) matched) (\<lambda>matched'.
      let es' = with_data Inbound (with_rules matched' s) in
      bind (attemptS3Retention e es' (nullish (Option.bind (ix_account x) ac_billingPlan) Paid)) (\<lambda>_.
      bind_ok (\<lambda>_. dbError ''Aurora upsert failed'') (executeAuroraUpserts e es' t) (\<lambda>_.
      bind_ok (\<lambda>_. dbError ''Side-effect dispatch failed'')
        (dispatchSideEffects e es' t (po_skipNotify (ix_options x))) (\<lambda>_.
      ret (Inr ()))))))))"

definition acceptMessage :: "env \<Rightarrow> inbound_context \<Rightarrow> decision \<Rightarrow> thread option \<Rightarrow> unit result io" where
  "acceptMessage e x d matched =
     bind_ok (\<lambda>err. err) (approveSender e x (dc_outcome d)) (\<lambda>_.
     bind (extractCalendar e (eb_attachments (sg_data (dc_shell d)))) (\<lambda>cal.
     bind (call (generateForSecondaryClusters (inf e) (ix_embedText x)) (\<lambda>_. Read ''generateForSecondaryClusters'')) (\<lambda>secondary.
     let t = applyOutcome x d matched cal;
         s = accepted_signal d (th_id t) (all_embeddings (ix_embedding x) secondary) in
     bind_ok (\<lambda>err. err) (saveThread e x t matched) (\<lambda>_.
     bind_ok (\<lambda>err. err) (saveSignal e (email_any s)) (\<lambda>_.
     finishMessage e x s t cal)))))"

section \<open>The whole message\<close>

definition disposeMessage :: "env \<Rightarrow> inbound_context \<Rightarrow> decision \<Rightarrow> thread option \<Rightarrow> unit result io" where
  "disposeMessage e x d matched =
     (let oc = dc_outcome d
      in case oc_blockDisposition oc of
           Some st \<Rightarrow> rejectMessage e x d st False
         | None \<Rightarrow>
             (if oc_quarantine oc \<and> \<not> oc_approveSender oc
              then rejectMessage e x d (quarantine_status oc)
                     (\<not> oc_suppressNotification oc \<and> \<not> po_skipNotify (ix_options x))
              else acceptMessage e x d matched))"

text \<open>From the classification on. A block by the sender's own record, which the code tests again here,
  cannot occur: the message was refused before its classification.\<close>

definition processClassified :: "env \<Rightarrow> (json \<Rightarrow> str) \<Rightarrow> inbound_context \<Rightarrow> unit result io" where
  "processClassified e z x =
     (let c = ix_classification x; recipient = im_primaryRecipient (ix_message x);
          groupingKey = deriveGroupingKey (cl_workflow c) (cl_workflowData c) recipient (ix_senderETLD1 x) in
      bind (matchThread e (ix_accountId x) recipient groupingKey (pm_headers (ix_parsed x)) (snd (ix_embedding x))) (\<lambda>matched.
      bind (case po_forceSignalId (ix_options x) of Some i \<Rightarrow> ret i | None \<Rightarrow> new_signal_id e) (\<lambda>signalId.
      bind (threadShell e x matched signalId groupingKey) (\<lambda>t.
      case blocked_policy (ix_senderConfig x) of
        Some policy \<Rightarrow>
          bind (buildSignal e (signal_opts x (status_of_policy policy) None SPAM_QUARANTINE_RETENTION None)) (\<lambda>s.
          bind_ok (\<lambda>err. err) (saveSignal e (email_any s)) (\<lambda>_.
          afterBlock e (ix_message x) (ix_accountId x) (ix_senderETLD1 x) (status_of_policy policy)))
      | None \<Rightarrow>
          bind_ok (\<lambda>err. err) (decide e z x (labelThread e x t) (matched \<noteq> None) signalId) (\<lambda>d.
          disposeMessage e x d matched)))))"

text \<open>From the sanitized message to its classification and embedding\<close>

definition processSanitized ::
  "env \<Rightarrow> (json \<Rightarrow> str) \<Rightarrow> inbound_message \<Rightarrow> process_options \<Rightarrow> str \<Rightarrow> alias_rec option \<Rightarrow> account option \<Rightarrow>
   sanitized \<Rightarrow> unit result io" where
  "processSanitized e z m opts accountId al acc s =
     (let p = sz_parsed s; gsi3pk = gsi3pk_of accountId p;
          senderETLD1 = getETLD1 (getDomain (lib e)) (ea_address (pm_from p)) in
      bind_ok (\<lambda>err. err) (call_read ''getSender'' (getSender (adb e) accountId (im_primaryRecipient m) senderETLD1)) (\<lambda>cfg.
      let senderConfig = (if al = None then None else cfg)
      in case blocked_policy senderConfig of
           Some policy \<Rightarrow> blockSenderEarly e m accountId p gsi3pk senderETLD1 policy
         | None \<Rightarrow>
             bind (classifyMessage e m accountId acc s) (\<lambda>c0.
             let c1 = override_requiresReply (im_primaryRecipient m) p c0;
                 senderDomain = last (split_on CHR ''@'' (ea_address (pm_from p)));
                 embedText = buildEmbedText senderDomain c1 (Some (pm_subject p)) in
             bind_ok dbError_of (embedPrimary e embedText (cg_modelId getPrimaryThreadMatcherRegistry)) (\<lambda>emb.
             bind (now_iso e) (\<lambda>now.
             processClassified e z
               \<lparr>ix_message = m, ix_options = opts, ix_accountId = accountId, ix_alias = al, ix_account = acc,
                ix_parsed = p, ix_assets = nullish (sz_assets s) [], ix_gsi3pk = gsi3pk, ix_senderETLD1 = senderETLD1,
                ix_senderConfig = senderConfig, ix_classification = override_system accountId c1,
                ix_embedText = embedText, ix_embedding = emb, ix_now = now,
                ix_retention = resolveRetention
                  (Some (nullish (Option.bind acc ac_retentionDuration) ''P3M'')) None None\<rparr>)))))"

definition processNew ::
  "env \<Rightarrow> (json \<Rightarrow> str) \<Rightarrow> inbound_message \<Rightarrow> process_options \<Rightarrow> str \<Rightarrow> alias_rec option \<Rightarrow> unit result io" where
  "processNew e z m opts accountId al =
     (if spoofed opts m then blockSpoofed e m accountId
      else
        bind_ok (\<lambda>err. err) (call_read ''getAccount'' (getAccount (adb e) accountId)) (\<lambda>acc.
        bind_ok (\<lambda>err. err) (ensureAliasExists e m accountId al acc) (\<lambda>_.
        bind_ok (\<lambda>err. err) (sanitizeMessage e m accountId) (\<lambda>s.
        case sz_bounce s of
          Some b \<Rightarrow>
            bind_ok (\<lambda>err. err) (handleInboundBounce e b (pm_headers (sz_parsed s)) accountId) (\<lambda>_. ret (Inr ()))
        | None \<Rightarrow> processSanitized e z m opts accountId al acc s))))"

definition processInboundUnsafe ::
  "env \<Rightarrow> (json \<Rightarrow> str) \<Rightarrow> inbound_message \<Rightarrow> nat \<Rightarrow> process_options \<Rightarrow> unit result io" where
  "processInboundUnsafe e z m receiveCount opts =
     bind_ok (\<lambda>err. err) (resolveAccountIdAndAlias e (im_primaryRecipient m)) (\<lambda>resolved.
     case resolved of
       None \<Rightarrow>
         ret (Inl (NoAccountError (im_primaryRecipient m) (im_compositeMailMessageId m) (im_expectedAccountId m)))
     | Some (accountId, al) \<Rightarrow>
         (if po_force opts then processNew e z m opts accountId al
          else bind_ok (\<lambda>err. err)
                 (call_read ''getSignalByMessageId''
                   (getSignalByMessageId (tdb e) accountId (im_compositeMailMessageId m))) (\<lambda>existing.
               case existing of
                 None \<Rightarrow> processNew e z m opts accountId al
               | Some s \<Rightarrow>
                   (if receiveCount > 1 then resumeRetry e accountId s (po_skipNotify opts) else ret (Inr ())))))"

definition processInbound ::
  "env \<Rightarrow> (json \<Rightarrow> str) \<Rightarrow> inbound_message \<Rightarrow> nat \<Rightarrow> process_options \<Rightarrow> unit result io" where
  "processInbound e z m receiveCount opts =
     try_catch (processInboundUnsafe e z m receiveCount opts) (\<lambda>t. ret (Inl (dbError t)))"

end
