(* ===== verification/Delivery.thy ===== *)
theory Delivery
  imports Pipeline
begin

text \<open>
  What a delivery does, whatever the services answer: it follows the state machine of \<open>Phases\<close>.
\<close>

lemma with_rules_simps [simp]:
  "sg_id (with_rules m s) = sg_id s" "sg_status (with_rules m s) = sg_status s"
  "sg_type (with_rules m s) = sg_type s" "sg_threadId (with_rules m s) = sg_threadId s"
  "sg_retentionDuration (with_rules m s) = sg_retentionDuration s"
  by (simp_all add: with_rules_def)

section \<open>The stages\<close>

text \<open>A delivery that reports success has either nothing to keep (a bounce), or a stored refusal, or it
  was handed to the side-effect queue; a delivery that was handed over reports success.\<close>

definition settled :: "unit result outcome \<Rightarrow> phase \<Rightarrow> bool" where
  "settled r q \<longleftrightarrow>
     (r = Done (Inr ()) \<longrightarrow> q \<in> {Undecided, Rejected, Dispatched}) \<and> (q = Dispatched \<longrightarrow> r = Done (Inr ()))"

lemma settled_simps [simp]:
  "settled (Threw t) q \<longleftrightarrow> q \<noteq> Dispatched" "settled (Done (Inl err)) q \<longleftrightarrow> q \<noteq> Dispatched"
  "settled (Done (Inr u)) q \<longleftrightarrow> q \<in> {Undecided, Rejected, Dispatched}"
  by (auto simp: settled_def)

lemma neutral_keeps: "emits m neutral \<Longrightarrow> emits m (keeps Undecided)"
  by (erule emits_mono) simp

lemma read_neutral: "is_read ev \<Longrightarrow> neutral ev"
  by (cases ev) auto

lemma read_counting: "is_read ev \<Longrightarrow> counting ev"
  by (cases ev) auto

lemma reads_keep: "emits m is_read \<Longrightarrow> p \<in> {Undecided, Rejected} \<Longrightarrow> emits m (keeps p)"
  by (erule emits_mono) (auto simp: read_neutral read_counting)

lemma buildSignal_yields:
  "yields (buildSignal e opts) (\<lambda>s. sg_status s = bo_status opts \<and> sg_type s = TyEmail \<and>
     sg_threadId s = bo_threadId opts \<and> sg_retentionDuration s = bo_retentionDuration opts)"
  unfolding buildSignal_def by (intro yields_intros) simp

lemma afterBlock_phases: "phases Rejected (afterBlock e m a d st) settled"
proof -
  have "emits (afterBlock e m a d st) (keeps Rejected)"
    by (rule emits_mono [OF afterBlock_counting]) simp
  then show ?thesis by (rule phases_keeps) (simp add: settled_def)
qed

lemma gate_rejected:
  "rejected_signal s \<Longrightarrow> phase_step Undecided (SaveSignal s b) = gate b Rejected"
  by (simp add: rejected_signal_def)

lemma rejectMessage_phases:
  assumes "st \<in> {SBlockHidden, SBlockReject, SReportViolation, SQuarantineVisible, SQuarantineHidden}"
    and "notify \<Longrightarrow> st \<in> {SQuarantineVisible, SQuarantineHidden}"
  shows "phases Undecided (rejectMessage e x d st notify) settled"
  unfolding rejectMessage_def Let_def
proof (rule phases_after_yields [OF buildSignal_emits buildSignal_yields])
  fix base :: inbound_signal assume b: "sg_status base = bo_status (signal_opts x st None SPAM_QUARANTINE_RETENTION (po_forceSignalId (ix_options x))) \<and>
    sg_type base = TyEmail \<and> sg_threadId base = bo_threadId (signal_opts x st None SPAM_QUARANTINE_RETENTION (po_forceSignalId (ix_options x))) \<and>
    sg_retentionDuration base = bo_retentionDuration (signal_opts x st None SPAM_QUARANTINE_RETENTION (po_forceSignalId (ix_options x)))"
  let ?s = "email_any (with_rules (dc_matchedRules d) base)"
  have "rejected_signal ?s" and "notify \<Longrightarrow> quarantined_signal ?s"
    using b assms by (auto simp: rejected_signal_def quarantined_signal_def email_any_def with_rules_def signal_opts_def)
  then show "phases Undecided (bind_ok (\<lambda>err. err) (saveSignal e ?s) (\<lambda>_.
      bind (if notify then try_catch (bind (notifySignal e (ix_accountId x) None ?s
                (nullish (oc_urgency (dc_outcome d)) ''normal'')) (\<lambda>_. ret ())) (\<lambda>_. ret ()) else ret ()) (\<lambda>_.
      afterBlock e (ix_message x) (ix_accountId x) (ix_senderETLD1 x) st))) settled"
    unfolding saveSignal_def notifySignal_def
    by (intro phases_gate_ok [where q = Rejected] phases_after trace_intros afterBlock_phases gate_rejected)
       (simp_all add: keeps_def)
qed simp_all

section \<open>An accepted message\<close>

lemma countStatus_stored: "emits (countStatus e a st k) (keeps (Stored t i))"
  by (rule countStatus_emits) (simp add: keeps_def)

lemma upsertResource_keeps: "emits (upsertResource e x s t) (keeps (Stored t i))"
  unfolding upsertResource_def resource_assets_def store_defs by (intro trace_intros) (simp_all add: keeps_def)

lemma finishMessage_phases:
  "phases (Stored (th_id t) (sg_id s)) (finishMessage e x s t cal) settled"
proof -
  have c: "emits (processCalendarAttachment e (with_data Inbound s) (th_id t) a cal r m) (keeps (Stored (th_id t) (sg_id s)))"
    for a r m
    using processCalendarAttachment_keeps [where s = "with_data Inbound s"] by simp
  have up: "phases (Stored (th_id t) (sg_id s)) (executeAuroraUpserts e (with_data Inbound (with_rules m s)) t)
     (\<lambda>r q. (r = Done (Inr ()) \<longrightarrow> q = Stored (th_id t) (sg_id s)) \<and> q \<in> {Stored (th_id t) (sg_id s), Halted})" for m
    using executeAuroraUpserts_phases [of t "with_data Inbound (with_rules m s)" e] by simp
  have dp: "phases (Stored (th_id t) (sg_id s)) (dispatchSideEffects e (with_data Inbound (with_rules m s)) t skip)
     (\<lambda>r q. q = (if r = Done (Inr ()) then Dispatched else Halted))" for m skip
    using dispatchSideEffects_phases [of t "with_data Inbound (with_rules m s)" e] by simp
  have dispatch: "phases (Stored (th_id t) (sg_id s))
     (bind_ok (\<lambda>_. err) (dispatchSideEffects e (with_data Inbound (with_rules m s)) t skip) (\<lambda>_. ret (Inr ()))) settled"
    for m err skip
    by (rule phases_bind_ok [OF dp]) (auto intro!: phases_ret)
  have tail: "phases (Stored (th_id t) (sg_id s))
     (bind_ok (\<lambda>_. err) (executeAuroraUpserts e (with_data Inbound (with_rules m s)) t)
       (\<lambda>_. bind_ok (\<lambda>_. err') (dispatchSideEffects e (with_data Inbound (with_rules m s)) t skip) (\<lambda>_. ret (Inr ()))))
     settled" for m err err' skip
    by (rule phases_bind_ok [OF up]) (auto intro: dispatch)
  show ?thesis
    unfolding finishMessage_def Let_def
    by (intro phases_after upsertResource_keeps countStatus_stored c attemptS3Retention_keeps tail) simp_all
qed

lemma applyOutcome_id [simp]: "th_id (applyOutcome x d m c) = th_id (dc_thread d)"
  by (simp add: applyOutcome_def Let_def)

lemma accepted_signal_simps [simp]:
  "sg_threadId (accepted_signal d t embs) = Some t" "sg_type (accepted_signal d t embs) = sg_type (dc_shell d)"
  "sg_status (accepted_signal d t embs) = sg_status (dc_shell d)" "sg_id (accepted_signal d t embs) = sg_id (dc_shell d)"
  by (simp_all add: accepted_signal_def)

lemma email_any_simps [simp]:
  "sg_threadId (email_any s) = sg_threadId s" "sg_type (email_any s) = sg_type s"
  "sg_status (email_any s) = sg_status s" "sg_id (email_any s) = sg_id s"
  by (simp_all add: email_any_def)

lemma saveThread_phases:
  "phases Undecided (saveThread e x t matched)
     (\<lambda>r q. q = (if succeeded r then ThreadKept (th_id t) else Halted))"
  unfolding saveThread_def store_defs by (intro phases_option phases_gate) simp_all

lemma approveSender_emits: "emits (approveSender e x oc) neutral"
  unfolding approveSender_def store_defs by (intro trace_intros) simp_all

lemma acceptMessage_phases:
  assumes "sg_status (dc_shell d) = SActive" "sg_type (dc_shell d) = TyEmail"
  shows "phases Undecided (acceptMessage e x d matched) settled"
proof -
  have kept: "phases (ThreadKept (th_id t))
      (bind_ok (\<lambda>err. err) (saveSignal e (email_any (accepted_signal d (th_id t) embs)))
        (\<lambda>_. finishMessage e x (accepted_signal d (th_id t) embs) t cal)) settled" for t embs cal
    unfolding saveSignal_def
    by (rule phases_gate_ok [where q = "Stored (th_id t) (sg_id (accepted_signal d (th_id t) embs))"])
       (use assms finishMessage_phases [of t "accepted_signal d (th_id t) embs"] in simp_all)
  have saved: "phases Undecided (bind_ok (\<lambda>err. err) (saveThread e x t matched)
      (\<lambda>_. bind_ok (\<lambda>err. err) (saveSignal e (email_any (accepted_signal d (th_id t) embs)))
        (\<lambda>_. finishMessage e x (accepted_signal d (th_id t) embs) t cal))) settled" for t embs cal
    by (rule phases_bind_ok [OF saveThread_phases]) (auto intro: kept)
  show ?thesis
    unfolding acceptMessage_def Let_def
    by (intro phases_after_ok phases_after saved neutral_keeps [OF approveSender_emits]
        reads_keep [OF extractCalendar_emits] trace_intros) simp_all
qed

section \<open>The decision\<close>

lemma rules_event_neutral: "rules_event ev \<Longrightarrow> neutral ev"
  by (cases ev) auto

definition block_statuses :: "signal_status option set" where
  "block_statuses = {None, Some SBlockHidden, Some SBlockReject, Some SReportViolation}"

definition decided :: "decision \<Rightarrow> bool" where
  "decided d \<longleftrightarrow> oc_blockDisposition (dc_outcome d) \<in> block_statuses \<and>
     sg_status (dc_shell d) = SActive \<and> sg_type (dc_shell d) = TyEmail"

lemma deriveOutcome_block: "oc_blockDisposition (deriveOutcome matched) \<in> block_statuses"
  unfolding deriveOutcome_def outcome_inv_Nil foldl_outcome
  by (simp add: outcome_inv_def outcome_of_def block_statuses_def split: option.splits rule_action_type.splits)

lemma filterFallback_block:
  "oc_blockDisposition oc \<in> block_statuses \<Longrightarrow> oc_blockDisposition (fst (filterFallback x t oc ms)) \<in> block_statuses"
  by (cases "filter_mode x") (auto simp: filterFallback_def Let_def block_statuses_def)

lemma propagate_workflow_simps [simp]:
  "sg_status (propagate_workflow m s) = sg_status s" "sg_type (propagate_workflow m s) = sg_type s"
  by (simp_all add: propagate_workflow_def split: option.splits)

lemma decide_emits: "emits (decide e z x t m sid) neutral"
  unfolding decide_def Let_def
  by (intro trace_intros buildSignal_emits emits_mono [OF applyRules_emits rules_event_neutral]) simp_all

lemma decide_yields: "yields (decide e z x t m sid) (\<lambda>r. \<forall>d. r = Inr d \<longrightarrow> decided d)"
proof -
  have clear: "oc_blockDisposition (clear_status oc) \<in> block_statuses" for oc
    by (simp add: clear_status_def block_statuses_def)
  have f: "oc_blockDisposition oc' \<in> block_statuses"
    if "filterFallback x t' oc ms = (oc', ms')" "oc_blockDisposition oc \<in> block_statuses" for t' oc ms oc' ms'
    using filterFallback_block [OF that(2), of x t' ms] that(1) by simp
  show ?thesis
    unfolding decide_def Let_def
    by (rule yields_bind [OF buildSignal_yields], rule yields_any_ok, rule yields_any)
       (auto intro!: yields_ret simp: decided_def signal_opts_def clear deriveOutcome_block dest: f split: prod.splits)
qed

lemma disposeMessage_phases:
  assumes "decided d"
  shows "phases Undecided (disposeMessage e x d matched) settled"
  unfolding disposeMessage_def Let_def using assms
  by (intro phases_option phases_if rejectMessage_phases acceptMessage_phases)
     (auto simp: decided_def block_statuses_def quarantine_status_def)

section \<open>A new message\<close>

lemma matchThread_emits: "emits (matchThread e a r g hs emb) is_read"
  unfolding matchThread_def tier_groupingKey_def tier_inReplyTo_def tier_similarity_def
  by (intro trace_intros) simp_all

lemma threadShell_emits: "emits (threadShell e x matched sid g) is_read"
  unfolding threadShell_def buildActiveThread_def store_defs Let_def by (intro trace_intros) simp_all

lemma classifyMessage_emits: "emits (classifyMessage e m a acc s) is_read"
  unfolding classifyMessage_def store_defs by (intro trace_intros) simp_all

lemma reject_tail:
  assumes "rejected_signal s" "\<And>x. phases Rejected (k x) settled"
  shows "phases Undecided (bind_ok (\<lambda>err. err) (saveSignal e s) k) settled"
  unfolding saveSignal_def
  by (rule phases_gate_ok [where q = Rejected, OF gate_rejected]) (simp_all add: assms)

lemma status_of_blocked:
  "blocked_policy cfg = Some p \<Longrightarrow> status_of_policy p \<in> {SBlockHidden, SBlockReject, SReportViolation}"
  by (cases p) (auto simp: blocked_policy_def split: option.splits if_splits)

lemma processClassified_phases: "phases Undecided (processClassified e z x) settled"
proof -
  have blocked: "phases Undecided (bind (buildSignal e (signal_opts x (status_of_policy p) None SPAM_QUARANTINE_RETENTION None))
      (\<lambda>s. bind_ok (\<lambda>err. err) (saveSignal e (email_any s))
        (\<lambda>_. afterBlock e (ix_message x) (ix_accountId x) (ix_senderETLD1 x) (status_of_policy p)))) settled"
    if "blocked_policy (ix_senderConfig x) = Some p" for p
    by (rule phases_after_yields [OF buildSignal_emits buildSignal_yields])
       (use status_of_blocked [OF that] in \<open>auto intro!: reject_tail afterBlock_phases
          simp: rejected_signal_def signal_opts_def email_any_def\<close>)
  have classified: "phases Undecided (bind_ok (\<lambda>err. err) (decide e z x t m sid) (\<lambda>d. disposeMessage e x d matched)) settled"
    for t m sid matched
    by (rule phases_after_ok_yields [OF neutral_keeps [OF decide_emits] decide_yields])
       (auto intro: disposeMessage_phases)
  show ?thesis
    unfolding processClassified_def Let_def
    by (intro phases_after phases_option classified blocked reads_keep [OF matchThread_emits]
        reads_keep [OF threadShell_emits] trace_intros)
       (auto simp: new_signal_id_def intro!: trace_intros)
qed

lemma unclassified_rejected:
  "st \<in> {SBlockHidden, SBlockReject, SReportViolation} \<Longrightarrow> rejected_signal (unclassified_signal m a st p g sid ts)"
  by (auto simp: rejected_signal_def unclassified_signal_def)

lemma blockSenderEarly_phases:
  assumes "blocked_policy cfg = Some policy"
  shows "phases Undecided (blockSenderEarly e m a p g d policy) settled"
  unfolding blockSenderEarly_def Let_def now_iso_def new_signal_id_def
  by (intro phases_after trace_intros reject_tail unclassified_rejected afterBlock_phases)
     (use status_of_blocked [OF assms] in simp_all)

lemma processSanitized_phases: "phases Undecided (processSanitized e z m opts a al acc s) settled"
  unfolding processSanitized_def Let_def embedPrimary_def now_iso_def
  by (intro phases_after_ok phases_after phases_option blockSenderEarly_phases processClassified_phases
      reads_keep [OF classifyMessage_emits] trace_intros) (assumption | simp)+

lemma blockSpoofed_phases: "phases Undecided (blockSpoofed e m a) settled"
proof -
  have c: "phases Rejected (bind (countStatus e a st k) (\<lambda>_. ret (Inr ()))) settled" for st k
    by (intro phases_after countStatus_emits phases_ret) simp_all
  show ?thesis
    unfolding blockSpoofed_def now_iso_def new_signal_id_def
    by (intro phases_after trace_intros reject_tail unclassified_rejected c) simp_all
qed

lemma processNew_phases: "phases Undecided (processNew e z m opts a al) settled"
  unfolding processNew_def
  by (intro phases_if blockSpoofed_phases phases_after_ok phases_option processSanitized_phases phases_ret
      neutral_keeps [OF ensureAliasExists_emits] neutral_keeps [OF handleInboundBounce_emits]
      reads_keep [OF sanitizeMessage_emits] trace_intros) simp_all


section \<open>A delivery\<close>

lemma processInboundUnsafe_phases:
  assumes "po_force opts \<or> receiveCount \<le> 1"
  shows "phases Undecided (processInboundUnsafe e z m receiveCount opts) settled"
  unfolding processInboundUnsafe_def using assms
  by (intro phases_after_ok phases_option phases_if reads_keep [OF resolve_emits] phases_ret trace_intros)
     (auto intro!: phases_ret phases_after_ok phases_option processNew_phases trace_intros split: prod.splits)

lemma processInbound_phases:
  assumes "po_force opts \<or> receiveCount \<le> 1"
  shows "phases Undecided (processInbound e z m receiveCount opts)
     (\<lambda>r q. settled r q \<and> (\<exists>res. r = Done res))"
  unfolding processInbound_def
  by (rule phases_try_catch [OF processInboundUnsafe_phases [OF assms]]) (auto intro!: phases_ret)

end
