(* ===== verification/SampleRun.thy ===== *)
theory SampleRun
  imports Pipeline Samples
begin

text \<open>
  A concrete message and a concrete environment in which it is delivered, for the witnesses of
  the properties of whole deliveries.
\<close>

definition sample_alias :: alias_rec where
  "sample_alias =
     \<lparr>al_id = ''shop@u.io'', al_accountId = ''acc-1'', al_aliasAddress = ''shop@u.io'', al_domain = ''u.io'',
      al_aliasName = ''shop'', al_unknownSenderPolicy = USAllowAll, al_name = None, al_createdForOrigin = None,
      al_emxId = None, al_createdAt = [], al_updatedAt = []\<rparr>"

definition sample_mime :: parsed_mime where
  "sample_mime =
     \<lparr>pm_from = \<lparr>ea_address = ''a@b.io'', ea_name = None\<rparr>, pm_to = [], pm_cc = [], pm_replyTo = None,
      pm_subject = ''hi'', pm_textBody = Some ''x'', pm_htmlBody = None, pm_attachments = [], pm_headers = [],
      pm_sentAt = None, pm_inlineImages = None\<rparr>"

text \<open>An alias that accepts every sender, a sanitizer and an embedder that work\<close>

definition working_env :: env where
  "working_env = sample_env
     \<lparr>adb := sample_account_db\<lparr>getAliasByGlobalAddress := (\<lambda>_ _. Done (Inr (Some sample_alias)))\<rparr>,
      inf := sample_infra
        \<lparr>presign := (\<lambda>_ _ _. Done ()),
         svcSanitize := (\<lambda>_ _ _. Done (Inr \<lparr>sz_parsed = sample_mime, sz_assets = None, sz_links = None, sz_bounce = None\<rparr>)),
         svcClassify := (\<lambda>_ _. Done (Inr fallback_classification)),
         generateForModel := (\<lambda>_ k _. Done (Inr (k, [1])))\<rparr>\<rparr>"

definition sample_message :: inbound_message where
  "sample_message =
     \<lparr>im_expectedAccountId = None, im_s3Key = ''k'', im_compositeMailMessageId = ''m'', im_idempotencyKey = ''i'',
      im_timestamp = ''2026-01-01T00:00:00.000Z'', im_primaryRecipient = ''shop@u.io'', im_dkimVerdict = VPass,
      im_dmarcVerdict = VPass\<rparr>"

definition plain_options :: process_options where
  "plain_options =
     \<lparr>po_force = False, po_unsafeSkipDmarc = False, po_forceSignalId = None, po_skipNotify = False,
      po_skipStatusActions = False\<rparr>"

definition sample_sanitized :: sanitized where
  "sample_sanitized = \<lparr>sz_parsed = sample_mime, sz_assets = None, sz_links = None, sz_bounce = None\<rparr>"

definition sample_context :: inbound_context where
  "sample_context =
     \<lparr>ix_message = sample_message, ix_options = plain_options, ix_accountId = ''acc-1'',
      ix_alias = Some sample_alias, ix_account = None, ix_parsed = sample_mime, ix_assets = [], ix_gsi3pk = None,
      ix_senderETLD1 = ''b.io'', ix_senderConfig = None, ix_classification = fallback_classification,
      ix_embedText = buildEmbedText ''b.io'' fallback_classification (Some ''hi''),
      ix_embedding = (''amazon.titan-embed-text-v2:0'', [1]), ix_now = ''2026-01-01T00:00:00.000Z'',
      ix_retention = ''P3M''\<rparr>"

fun queued :: "event \<Rightarrow> bool" where
  "queued (DispatchSideEffects s t k b) = b"
| "queued _ = False"

fun turned_away :: "event \<Rightarrow> bool" where
  "turned_away (SaveSignal s b) = (b \<and> sg_type s = TyEmail \<and> sg_status s = SBlockReject)"
| "turned_away _ = False"

section \<open>Stage by stage\<close>

lemma working_services:
  "getAliasByGlobalAddress (adb working_env) a h = Done (Inr (Some sample_alias))"
  "getSender (adb working_env) a b c h = Done (Inr None)"
  "getAccount (adb working_env) a h = Done (Inr None)"
  "listLabels (adb working_env) a h = Done (Inr [])"
  "getSignalByMessageId (tdb working_env) a b h = Done (Inr None)"
  "presign (inf working_env) a b h = Done ()"
  "svcSanitize (inf working_env) a b h = Done (Inr sample_sanitized)"
  "svcClassify (inf working_env) rq h = Done (Inr fallback_classification)"
  "generateForModel (inf working_env) a b h = Done (Inr (b, [1]))"
  "utcNow (inf working_env) h = ''2026-01-01T00:00:00.000Z''"
  by (simp_all add: working_env_def sample_defs sample_sanitized_def)

lemmas program_eval = bind_ok_def bind_def call_apply call_read_def call_write_def ret_apply working_services

lemma sample_values:
  "getETLD1 (getDomain (lib working_env)) ''a@b.io'' = ''b.io''" "sz_parsed sample_sanitized = sample_mime"
  "sz_bounce sample_sanitized = None" "sz_assets sample_sanitized = None"
  "gsi3pk_of a sample_mime = None" "resolveRetention (Some ''P3M'') None None = ''P3M''"
  "last (split_on CHR ''@'' ''a@b.io'') = ''b.io''"
  "cg_modelId getPrimaryThreadMatcherRegistry = ''amazon.titan-embed-text-v2:0''"
  "ea_address (pm_from sample_mime) = ''a@b.io''" "pm_subject sample_mime = ''hi''"
  by code_simp+

lemma sample_overrides:
  "override_requiresReply r p fallback_classification = fallback_classification" "override_system ''acc-1'' c = c"
  by (simp_all add: override_requiresReply_def fallback_classification_def override_system_def isSystemAccount_def)

lemma classified:
  "\<exists>h'. classifyMessage working_env m a acc s h = (Done fallback_classification, h')"
  by (simp add: classifyMessage_def classifySignal_def program_eval)

lemma sanitized_stage:
  "\<exists>h'. processSanitized working_env z sample_message plain_options ''acc-1'' (Some sample_alias) None sample_sanitized h =
     processClassified working_env z sample_context h'"
proof -
  obtain h' where c: "classifyMessage working_env sample_message ''acc-1'' None sample_sanitized (h @ [Read ''getSender'']) =
      (Done fallback_classification, h')"
    using classified by blast
  show ?thesis
    unfolding processSanitized_def Let_def sample_values
    by (simp add: program_eval c blocked_policy_def embedPrimary_def now_iso_def sample_values sample_overrides)
       (auto simp: sample_context_def)
qed

lemma new_stage:
  "\<exists>h'. processNew working_env z sample_message plain_options ''acc-1'' (Some sample_alias) h =
     processClassified working_env z sample_context h'"
proof -
  have "\<exists>h'. processNew working_env z sample_message plain_options ''acc-1'' (Some sample_alias) h =
    processSanitized working_env z sample_message plain_options ''acc-1'' (Some sample_alias) None sample_sanitized h'"
    unfolding processNew_def spoofed_def ensureAliasExists_def sanitizeMessage_def sanitizeContent_def Let_def
    by (auto simp: program_eval sample_message_def sample_values)
  then show ?thesis using sanitized_stage by metis
qed

lemma inbound_stage:
  "\<exists>h'. processInboundUnsafe working_env z sample_message 1 plain_options h =
     processClassified working_env z sample_context h'"
  unfolding processInboundUnsafe_def resolveAccountIdAndAlias_def
  using new_stage by (simp add: program_eval sample_alias_def plain_options_def)

lemma classified_done: "fst (processClassified working_env z sample_context h) = Done (Inr ())"
  by code_simp

lemma classified_queued: "list_ex queued (snd (processClassified working_env z sample_context h))"
  by (code_simp, simp)

lemma sample_delivered:
  obtains es where "processInbound working_env z sample_message 1 plain_options [] = (Done (Inr ()), es)" "list_ex queued es"
proof -
  obtain h where h: "processInboundUnsafe working_env z sample_message 1 plain_options [] =
      processClassified working_env z sample_context h"
    using inbound_stage by blast
  obtain es where es: "processClassified working_env z sample_context h = (Done (Inr ()), es)" "list_ex queued es"
    using classified_done [of z h] classified_queued [of z h] by (metis prod.collapse)
  have "processInbound working_env z sample_message 1 plain_options [] = (Done (Inr ()), es)"
    unfolding processInbound_def try_catch_def h es by simp
  with es(2) show thesis by (rule that [rotated])
qed

end
