(* ===== verification/Guarantees.thy ===== *)
theory Guarantees
  imports Delivery SampleRun
begin

text \<open>
  What the state machine of \<open>Phases\<close> means for the log of a delivery, and the properties of
  \<open>processInbound\<close> that follow from it.
\<close>

section \<open>The log behind a phase\<close>

fun thread_written :: "str \<Rightarrow> event \<Rightarrow> bool" where
  "thread_written t (CreateThread x b) = (th_id x = t \<and> b)"
| "thread_written t (UpdateThread a i st lastAt fs b) = (i = t \<and> b)"
| "thread_written t _ = False"

definition signal_stored :: "str \<Rightarrow> str \<Rightarrow> event \<Rightarrow> bool" where
  "signal_stored t i ev \<longleftrightarrow>
     (\<exists>s. ev = SaveSignal s True \<and> sg_id s = i \<and> sg_threadId s = Some t \<and> sg_type s = TyEmail \<and> sg_status s = SActive)"

definition refused :: "event \<Rightarrow> bool" where
  "refused ev \<longleftrightarrow> (\<exists>s. ev = SaveSignal s True \<and> rejected_signal s)"

text \<open>The events that put something into a thread, a resource, the vector store, a calendar or a queue\<close>

fun reaches_user :: "event \<Rightarrow> bool" where
  "reaches_user (CreateThread _ _) = True"
| "reaches_user (UpdateThread _ _ _ _ _ _) = True"
| "reaches_user (SaveResource _ _) = True"
| "reaches_user (UpsertEmbedding _ _) = True"
| "reaches_user (SaveCalendarEventSignal _ _) = True"
| "reaches_user (ScheduleFollowup _ _ _ _ _ _) = True"
| "reaches_user (ScheduleRsvpReminder _ _ _ _ _ _) = True"
| "reaches_user (SaveIcs _ _ _) = True"
| "reaches_user (DispatchSideEffects _ _ _ _) = True"
| "reaches_user (ForwardSignal _ _ _) = True"
| "reaches_user (SendReply _ _) = True"
| "reaches_user (ForwardInvite _ _ _) = True"
| "reaches_user _ = False"

text \<open>What the log of a delivery in each phase looks like\<close>

definition kept_log :: "str \<Rightarrow> event list \<Rightarrow> bool" where
  "kept_log t es \<longleftrightarrow>
     (\<exists>xs w ys. es = xs @ w # ys \<and> thread_written t w \<and> (\<forall>x \<in> set xs. neutral x) \<and> (\<forall>y \<in> set ys. is_read y))"

fun explained :: "phase \<Rightarrow> event list \<Rightarrow> bool" where
  "explained Undecided es \<longleftrightarrow> (\<forall>ev \<in> set es. neutral ev)"
| "explained Rejected es \<longleftrightarrow>
     (\<exists>xs ev ys. es = xs @ ev # ys \<and> refused ev \<and> (\<forall>x \<in> set xs. neutral x) \<and>
        (\<forall>y \<in> set ys. rejected_step y = Some Rejected))"
| "explained (ThreadKept t) es \<longleftrightarrow> kept_log t es"
| "explained (Stored t i) es \<longleftrightarrow>
     (\<exists>xs sv ys. es = xs @ sv # ys \<and> kept_log t xs \<and> signal_stored t i sv \<and>
        (\<forall>y \<in> set ys. phase_step (Stored t i) y = Some (Stored t i)))"
| "explained _ es \<longleftrightarrow> True"

lemma gate_Some: "gate b p = Some q \<longleftrightarrow> q = (if b then p else Halted)"
  by (auto simp: gate_def)

lemma log_end:
  "refused ev \<Longrightarrow> \<forall>x \<in> set es. neutral x \<Longrightarrow> explained Rejected (es @ [ev])"
  "thread_written t ev \<Longrightarrow> \<forall>x \<in> set es. neutral x \<Longrightarrow> explained (ThreadKept t) (es @ [ev])"
  unfolding explained.simps kept_log_def
  by (intro exI [of _ es] exI [of _ ev] exI [of _ "[]"]; simp)+

lemma explained_undecided:
  assumes "explained Undecided es" "phase_step Undecided ev = Some q"
  shows "explained q (es @ [ev])"
proof -
  from assms(2) consider "neutral ev" "q = Undecided" | "refused ev" "q = Rejected" | "q = Halted" |
    t where "thread_written t ev" "q = ThreadKept t"
    by (cases ev) (auto simp: gate_Some refused_def split: if_splits)
  then show ?thesis
    by cases (use assms(1) in \<open>simp_all add: log_end del: explained.simps(2,3)\<close>)
qed

lemma explained_rejected:
  assumes "explained Rejected es" "phase_step Rejected ev = Some q"
  shows "explained q (es @ [ev])"
proof -
  have "rejected_step ev = Some r \<Longrightarrow> r = Rejected" for r by (cases ev) (auto split: if_splits)
  then have q: "q = Rejected" and y: "rejected_step ev = Some Rejected" using assms(2) by auto
  from assms(1) obtain xs r ys where "es = xs @ r # ys" "refused r" "\<forall>x \<in> set xs. neutral x"
    "\<forall>y \<in> set ys. rejected_step y = Some Rejected"
    by auto
  then show ?thesis unfolding q explained.simps
    by (intro exI [of _ xs] exI [of _ r] exI [of _ "ys @ [ev]"]) (use y in auto)
qed

lemma explained_kept:
  assumes "explained (ThreadKept t) es" "phase_step (ThreadKept t) ev = Some q"
  shows "explained q (es @ [ev])"
proof -
  from assms(2) consider "is_read ev" "q = ThreadKept t" | "q = Halted" | i where "signal_stored t i ev" "q = Stored t i"
    by (cases ev) (auto simp: gate_Some signal_stored_def split: if_splits)
  then show ?thesis
  proof cases
    case 1
    from assms(1) obtain xs w ys where "es = xs @ w # ys" "thread_written t w" "\<forall>x \<in> set xs. neutral x"
      "\<forall>y \<in> set ys. is_read y" by (auto simp: kept_log_def)
    then show ?thesis unfolding 1 explained.simps kept_log_def
      by (intro exI [of _ xs] exI [of _ w] exI [of _ "ys @ [ev]"]) (use 1 in auto)
  next
    case (3 i)
    then show ?thesis unfolding 3 explained.simps(4)
      by (intro exI [of _ es] exI [of _ ev] exI [of _ "[]"]) (use assms(1) in simp)
  qed simp
qed

lemma stored_step_phase:
  "stored_step t i ev = Some q \<Longrightarrow> q \<in> {Stored t i, Dispatched, Halted}"
  by (cases ev) (auto simp: gate_Some split: if_splits)

lemma explained_stored:
  assumes "explained (Stored t i) es" "phase_step (Stored t i) ev = Some q"
  shows "explained q (es @ [ev])"
proof -
  from assms(2) have "q \<in> {Stored t i, Dispatched, Halted}" using stored_step_phase by simp
  moreover have "explained (Stored t i) (es @ [ev])" if "q = Stored t i"
  proof -
    from assms(1) obtain xs sv ys where "es = xs @ sv # ys" "kept_log t xs" "signal_stored t i sv"
      "\<forall>y \<in> set ys. phase_step (Stored t i) y = Some (Stored t i)" by auto
    then show ?thesis unfolding explained.simps(4)
      by (intro exI [of _ xs] exI [of _ sv] exI [of _ "ys @ [ev]"]) (use that assms(2) in auto)
  qed
  ultimately show ?thesis by auto
qed

lemma explained_step:
  assumes "explained p es" "phase_step p ev = Some q"
  shows "explained q (es @ [ev])"
  using assms explained_undecided explained_rejected explained_kept explained_stored
  by (cases p) (simp_all del: explained.simps)

lemma run_explained: "run_phases Undecided es = Some q \<Longrightarrow> explained q es"
proof (induction es arbitrary: q rule: rev_induct)
  case (snoc ev es)
  from snoc.prems obtain p where "run_phases Undecided es = Some p" "phase_step p ev = Some q"
    by (auto simp: run_phases_append split: option.splits)
  then show ?case using snoc.IH explained_step by blast
qed simp

section \<open>What reaches the user\<close>

lemma run_split:
  assumes "run_phases p (xs @ ev # ys) = Some q"
  obtains p1 p2 where "run_phases p xs = Some p1" "phase_step p1 ev = Some p2" "run_phases p2 ys = Some q"
  using assms by (auto simp: run_phases_append split: option.splits)

lemma dispatch_log:
  assumes "run_phases Undecided (xs @ DispatchSideEffects s t k b # ys) = Some q"
  shows "ys = []" "q = (if b then Dispatched else Halted)" "explained (Stored (th_id t) (sg_id s)) xs"
proof -
  obtain p1 p2 where p: "run_phases Undecided xs = Some p1" "phase_step p1 (DispatchSideEffects s t k b) = Some p2"
    "run_phases p2 ys = Some q" by (rule run_split [OF assms])
  then have p1: "p1 = Stored (th_id t) (sg_id s)" and p2: "p2 = (if b then Dispatched else Halted)"
    by (cases p1; auto simp: gate_Some split: if_splits)+
  show "explained (Stored (th_id t) (sg_id s)) xs" using run_explained [OF p(1)] unfolding p1 .
  have "\<not> open_phase p2" by (simp add: p2)
  from run_closed [OF p(3) this] show "ys = []" "q = (if b then Dispatched else Halted)" using p2 by auto
qed

lemma stored_upsert:
  "phase_step (Stored t i) (UpsertEmbedding u c) = Some (Stored t i) \<Longrightarrow> c \<and> ue_threadId u = t \<and> ue_signalId u = i"
  by (auto simp: gate_Some split: if_splits)

lemma delivery_run:
  assumes "po_force opts \<or> receiveCount \<le> 1" "processInbound e z m receiveCount opts h = (r, h @ es)"
  obtains q where "run_phases Undecided es = Some q" "settled r q" "\<exists>res. r = Done res"
  using specD [OF processInbound_phases [OF assms(1), unfolded phases_def] assms(2)] by auto

section \<open>Properties of a delivery\<close>

text \<open>
  C2. What a first (or forced) delivery does to the world, as the state machine of \<open>Phases\<close> has it:
  \<open>processInbound\<close> returns a result and does not throw, whatever the services answer or throw. The events it
  leaves are a run of the machine from \<open>Undecided\<close>, where it only reads, counts, keeps the rows of alias and
  sender, reports failing rules and processes a bounce report. Either the message is then refused by one stored
  signal without a thread, after which only counters and reputation change and a quarantined message may be
  notified; or its thread is written, then its active signal, then resources, calendar and vectors of that very
  thread and signal, and last the side-effect queue. Such a delivery that reports success had nothing to keep,
  or stored its refusal, or was handed to the queue, and one that was handed to the queue reports success.
\<close>

theorem delivery_follows_phases:
  assumes "po_force opts \<or> receiveCount \<le> 1"
  shows "\<exists>res es q. processInbound e z m receiveCount opts h = (Done res, h @ es) \<and>
    run_phases Undecided es = Some q \<and> settled (Done res) q"
proof -
  obtain r h' where r: "processInbound e z m receiveCount opts h = (r, h')" by fastforce
  from specD [OF processInbound_phases [OF assms, unfolded phases_def] r] show ?thesis using r by blast
qed

theorem delivery_follows_phases_witness:
  "\<exists>res es q. processInbound working_env (\<lambda>_. []) sample_message 1 plain_options [] = (Done res, [] @ es) \<and>
    run_phases Undecided es = Some q \<and> settled (Done res) q"
  using delivery_follows_phases [of plain_options 1 working_env "\<lambda>_. []" sample_message "[]"] by simp

text \<open>
  C1. Within one first (or forced) delivery the side effects of a message are started last, and once. When the
  delivery hands a signal to the side-effect queue, this is the last thing it does; before it, the thread was
  written successfully, after that the active signal itself in that thread, and every vector written after that
  was written successfully, for that thread and signal. The delivery reports success exactly when the
  queue accepted the message. (A later delivery of the same message, which the queue may make, is a retry and
  can hand the signal over again.)
\<close>

theorem handed_over_last:
  assumes "po_force opts \<or> receiveCount \<le> 1" "processInbound e z m receiveCount opts h = (r, h @ es)"
    "DispatchSideEffects s t k b \<in> set es"
  shows "\<exists>as w bs sv cs. es = as @ w # bs @ sv # cs @ [DispatchSideEffects s t k b] \<and>
    thread_written (th_id t) w \<and> signal_stored (th_id t) (sg_id s) sv \<and>
    (\<forall>u c. UpsertEmbedding u c \<in> set cs \<longrightarrow> c \<and> ue_threadId u = th_id t \<and> ue_signalId u = sg_id s) \<and>
    (b \<longleftrightarrow> r = Done (Inr ()))"
proof -
  obtain q where q: "run_phases Undecided es = Some q" "settled r q" by (rule delivery_run [OF assms(1,2)])
  obtain xs ys where es: "es = xs @ DispatchSideEffects s t k b # ys" using assms(3) by (meson split_list)
  note d = dispatch_log [OF q(1) [unfolded es]]
  from d(3) obtain us sv cs where xs: "xs = us @ sv # cs" and kept: "kept_log (th_id t) us"
    and sv: "signal_stored (th_id t) (sg_id s) sv"
    and cs: "\<forall>y \<in> set cs. phase_step (Stored (th_id t) (sg_id s)) y = Some (Stored (th_id t) (sg_id s))"
    by auto
  from kept obtain as w bs where us: "us = as @ w # bs" and w: "thread_written (th_id t) w"
    by (auto simp: kept_log_def)
  have up: "\<forall>u c. UpsertEmbedding u c \<in> set cs \<longrightarrow> c \<and> ue_threadId u = th_id t \<and> ue_signalId u = sg_id s"
    using cs stored_upsert by blast
  have log: "es = as @ w # bs @ sv # cs @ [DispatchSideEffects s t k b]" by (simp add: es d(1) xs us)
  have "b \<longleftrightarrow> r = Done (Inr ())" using q(2) d(2) by (auto simp: settled_def split: if_splits)
  with log w sv up show ?thesis by blast
qed

theorem handed_over_last_witness:
  "\<exists>es s t k. processInbound working_env (\<lambda>_. []) sample_message 1 plain_options [] = (Done (Inr ()), [] @ es) \<and>
    (\<exists>as w bs sv cs. es = as @ w # bs @ sv # cs @ [DispatchSideEffects s t k True] \<and>
       thread_written (th_id t) w \<and> signal_stored (th_id t) (sg_id s) sv)"
proof -
  obtain es where es: "processInbound working_env (\<lambda>_. []) sample_message 1 plain_options [] = (Done (Inr ()), [] @ es)"
    "list_ex queued es" using sample_delivered by auto
  from es(2) obtain s t k where d: "DispatchSideEffects s t k True \<in> set es"
    by (auto simp: list_ex_iff elim!: queued.elims)
  from handed_over_last [OF _ es(1) d] obtain as w bs sv cs where
    "es = as @ w # bs @ sv # cs @ [DispatchSideEffects s t k True]" "thread_written (th_id t) w"
    "signal_stored (th_id t) (sg_id s) sv" by (simp del: append.simps) blast
  with es(1) show ?thesis by blast
qed

lemma rejected_events:
  "rejected_step y = Some q \<Longrightarrow> q = Rejected \<and> (counting y \<or> (\<exists>a x u c. y = NotifySignal a None x u c \<and> quarantined_signal x))"
  by (cases y) (auto split: if_splits)

lemma rejected_run:
  "run_phases Rejected ys = Some q \<Longrightarrow>
   \<forall>y \<in> set ys. counting y \<or> (\<exists>a x u c. y = NotifySignal a None x u c \<and> quarantined_signal x)"
proof (induction ys)
  case (Cons y ys)
  from Cons.prems obtain p where y: "rejected_step y = Some p" and ys: "run_phases p ys = Some q"
    by (auto split: option.splits)
  have "p = Rejected" "counting y \<or> (\<exists>a x u c. y = NotifySignal a None x u c \<and> quarantined_signal x)"
    using rejected_events [OF y] by blast+
  then show ?case using Cons.IH ys by simp
qed simp

definition refusal_log :: "any_signal \<Rightarrow> bool \<Rightarrow> event list \<Rightarrow> bool" where
  "refusal_log s b es \<longleftrightarrow>
     (\<exists>xs ys. es = xs @ SaveSignal s b # ys \<and> (\<forall>x \<in> set xs. neutral x) \<and> (\<not> b \<longrightarrow> ys = []) \<and>
        (\<forall>y \<in> set ys. counting y \<or> (\<exists>a x u c. y = NotifySignal a None x u c \<and> quarantined_signal x)))"


definition spoofed_message :: inbound_message where
  "spoofed_message = sample_message\<lparr>im_dmarcVerdict := VFail\<rparr>"


text \<open>
  C7. Delivery is idempotent on the first attempt: a message whose signal is already stored is
  acknowledged, with nothing but lookups, unless the caller forces it or the queue says it is a
  retry.
\<close>

theorem duplicate_ignored:
  assumes "\<And>h. getAliasByGlobalAddress (adb e) (im_primaryRecipient m) h = Done (Inr (Some al))"
    "\<And>h. getSignalByMessageId (tdb e) (al_accountId al) (im_compositeMailMessageId m) h = Done (Inr (Some s))"
    "\<not> po_force opts" "receiveCount \<le> 1"
  shows "processInbound e z m receiveCount opts h =
    (Done (Inr ()), h @ [Read ''getAliasByGlobalAddress'', Read ''getSignalByMessageId''])"
  using assms
  by (simp add: processInbound_def processInboundUnsafe_def resolveAccountIdAndAlias_def try_catch_def bind_ok_def
      bind_def call_read_def call_apply ret_apply)

definition stored_sample :: email_signal where
  "stored_sample = \<lparr>sg_id = ''sgn-1'', sg_signalLookupId = ''m'', sg_threadId = Some ''thd-1'', sg_gsi3pk = None,
     sg_accountId = ''acc-1'', sg_source = SrcEmail, sg_type = TyEmail, sg_status = SActive, sg_labels = [],
     sg_createdAt = [], sg_retentionDuration = None, sg_data = Inbound (unclassified_data sample_message None)\<rparr>"

definition seen_env :: env where
  "seen_env = working_env\<lparr>tdb := sample_thread_db\<lparr>getSignalByMessageId := (\<lambda>_ _ _. Done (Inr (Some stored_sample)))\<rparr>\<rparr>"

theorem duplicate_ignored_witness:
  "processInbound seen_env (\<lambda>_. []) sample_message 1 plain_options [] =
    (Done (Inr ()), [] @ [Read ''getAliasByGlobalAddress'', Read ''getSignalByMessageId''])"
  by (rule duplicate_ignored [where al = sample_alias and s = stored_sample])
     (simp_all add: seen_env_def working_env_def sample_thread_db_def plain_options_def)

fun unopened :: "inbound_message \<Rightarrow> event \<Rightarrow> bool" where
  "unopened m (SaveSignal s b) =
     (sg_status s = SBlockReject \<and> sg_threadId s = None \<and> sg_data s = DEmail (Inbound (unclassified_data m None)))"
| "unopened m (IncrementStat a me d k b) = (k = im_idempotencyKey m)"
| "unopened m (Read r) = True"
| "unopened m Clock = True"
| "unopened m FreshId = True"
| "unopened m _ = False"

lemma blockSpoofed_unopened: "emits (blockSpoofed e m a) (unopened m)"
  unfolding blockSpoofed_def store_defs
  by (intro trace_intros countStatus_emits) (simp_all add: unclassified_signal_def)

lemma resolve_reads: "emits (resolveAccountIdAndAlias e a) (\<lambda>ev. \<exists>r. ev = Read r)"
  unfolding resolveAccountIdAndAlias_def Let_def by (intro trace_intros) simp_all

text \<open>
  C6. Mail that failed DKIM or DMARC is never opened: unless the caller skips the check, a first delivery
  of it neither sanitizes nor classifies nor embeds it, creates no alias for it, and the only signal
  it stores is a rejected one that carries nothing of the message itself.
\<close>

theorem spoofed_never_opened:
  assumes "spoofed opts m" "po_force opts \<or> receiveCount \<le> 1"
  shows "emits (processInbound e z m receiveCount opts) (unopened m)"
proof -
  have new: "emits (processNew e z m opts a al) (unopened m)" for a al
    unfolding processNew_def using assms(1) by (simp add: blockSpoofed_unopened)
  have "emits (processInboundUnsafe e z m receiveCount opts) (unopened m)"
    unfolding processInboundUnsafe_def using assms(2)
    by (intro trace_intros emits_mono [OF resolve_reads] new) (auto intro: trace_intros)
  then show ?thesis unfolding processInbound_def by (intro trace_intros)
qed

theorem spoofed_never_opened_witness:
  "emits (processInbound working_env (\<lambda>_. []) spoofed_message 1 plain_options) (unopened spoofed_message)"
  by (rule spoofed_never_opened) code_simp+

text \<open>After a call whose answer is known, only that answer's continuation matters.\<close>

lemma emits_known:
  assumes "\<And>h. fst (m h) = Done (Inr x)" "emits m P" "emits (k x) P"
  shows "emits (bind_ok f m k) P"
proof -
  have "spec m (\<lambda>r es. r = Done (Inr x) \<and> (\<forall>ev \<in> set es. P ev))"
    using assms(1,2) unfolding emits_def spec_def by metis
  then show ?thesis
    unfolding emits_def
    by (rule spec_bind_ok) (auto intro: spec_mono [OF assms(3) [unfolded emits_def]])
qed

fun refused_unread :: "signal_status \<Rightarrow> event \<Rightarrow> bool" where
  "refused_unread st (SaveSignal s b) =
     (sg_type s = TyDeliverability \<or> sg_type s = TyEmail \<and> sg_status s = st \<and> sg_threadId s = None)"
| "refused_unread st (Classify r b) = False"
| "refused_unread st (Embed k b) = False"
| "refused_unread st (NotifySignal a t s u b) = False"
| "refused_unread st (EnsureAlias a x p b) = False"
| "refused_unread st (SaveSender a x d p b) = False"
| "refused_unread st ev = (\<not> reaches_user ev)"

lemma blockSenderEarly_unread: "emits (blockSenderEarly e m a p g d policy) (refused_unread (status_of_policy policy))"
  unfolding blockSenderEarly_def afterBlock_def store_defs Let_def
  by (intro trace_intros countStatus_emits) (simp_all add: unclassified_signal_def)

fun personal :: "event \<Rightarrow> bool" where
  "personal (Classify r b) = True"
| "personal (Embed k b) = True"
| "personal (EnsureAlias a x p b) = True"
| "personal (SaveSender a x d p b) = True"
| "personal _ = False"

lemma neutral_unread:
  "neutral ev \<Longrightarrow> \<not> personal ev \<Longrightarrow> (\<And>s b. ev = SaveSignal s b \<Longrightarrow> sg_type s = TyDeliverability) \<Longrightarrow> refused_unread st ev"
  by (cases ev) auto

lemma bounce_unread: "bounce_event (inbound_bounce_params a b ls) ev \<Longrightarrow> refused_unread st ev"
  by (rule neutral_unread [OF bounce_event_neutral]) (assumption | (erule bounce_event.elims; auto))+

lemma handleInboundBounce_unread: "emits (handleInboundBounce e b hs a) (refused_unread st)"
  unfolding handleInboundBounce_def Let_def
  by (intro trace_intros emits_mono [OF handle_bounce_emits bounce_unread]) simp_all


definition blocked_sender :: alias_sender where
  "blocked_sender =
     \<lparr>se_accountId = ''acc-1'', se_aliasAddress = ''shop@u.io'', se_domain = ''u.io'', se_aliasName = ''shop'',
      se_senderDomain = ''b.io'', se_policy = SPBlockHidden, se_addedAt = []\<rparr>"

definition blocked_env :: env where
  "blocked_env = working_env\<lparr>adb := (adb working_env)
     \<lparr>getSender := (\<lambda>_ _ _ _. Done (Inr (Some blocked_sender)))\<rparr>\<rparr>"


fun retry_event :: "email_signal \<Rightarrow> bool \<Rightarrow> event \<Rightarrow> bool" where
  "retry_event s k (Read r) = True"
| "retry_event s k (ApplyRetention key tag cp b) = (key = eb_s3Key (base_of (sg_data s)))"
| "retry_event s k (UpsertEmbedding u b) = (ue_signalId u = sg_id s)"
| "retry_event s k (DispatchSideEffects x t k' b) = (x = s \<and> k' = k)"
| "retry_event s k ev = False"

definition resumed :: "email_signal \<Rightarrow> bool \<Rightarrow> event list \<Rightarrow> bool" where
  "resumed s k es \<longleftrightarrow>
     (\<exists>xs t. es = xs @ [DispatchSideEffects s t k True] \<and> (\<forall>u. UpsertEmbedding u False \<notin> set xs))"

lemma executeAuroraUpserts_spec:
  "spec (executeAuroraUpserts e s t) (\<lambda>r es. (\<forall>ev \<in> set es. retry_event s k ev) \<and>
     (r = Done (Inr ()) \<longrightarrow> (\<forall>u. UpsertEmbedding u False \<notin> set es)))"
proof -
  have clusters: "getActiveClusters = [hd CLUSTER_REGISTRY]"
    by (simp add: getActiveClusters_def CLUSTER_REGISTRY_def)
  have up: "spec (upsert_cluster e s t c) (\<lambda>r es. (\<forall>ev \<in> set es. retry_event s k ev) \<and>
      ((\<exists>v. r = Done (Inr v)) \<longrightarrow> (\<forall>u. UpsertEmbedding u False \<notin> set es)))" for c
    unfolding upsert_cluster_def upsertEmbedding_def
    by (intro spec_case_option spec_ret spec_write) (auto simp: upsert_of_def)
  show ?thesis
    unfolding executeAuroraUpserts_def clusters for_map.simps bind_ret bind_assoc
    by (rule spec_bind [OF up]) (auto intro!: spec_ret split: sum.splits)
qed

lemma dispatchSideEffects_spec:
  "spec (dispatchSideEffects e s t k) (\<lambda>r es. es = [DispatchSideEffects s t k (r = Done (Inr ()))])"
  unfolding dispatchSideEffects_def sendSideEffectMessage_def
proof (rule spec_bind_ok)
  show "spec (call_write (DispatchSideEffects s t k) (svcSendMessage (dlv e) s t k))
     (\<lambda>r es. es = [DispatchSideEffects s t k (succeeded r)])" 
    by (rule spec_write) simp
qed (auto intro: spec_ret)

lemma attemptS3Retention_retry: "emits (attemptS3Retention e s plan) (retry_event s k)"
  unfolding attemptS3Retention_def store_defs Let_def by (intro trace_intros) simp_all

lemma resumed_append:
  assumes "resumed s k es" "\<forall>u. UpsertEmbedding u False \<notin> set xs"
  shows "resumed s k (xs @ es)"
proof -
  from assms(1) obtain ys t where "es = ys @ [DispatchSideEffects s t k True]" "\<forall>u. UpsertEmbedding u False \<notin> set ys"
    unfolding resumed_def by blast
  with assms(2) show ?thesis unfolding resumed_def by (intro exI [of _ "xs @ ys"] exI [of _ t]) auto
qed

lemma resumeRetry_spec:
  "spec (resumeRetry e a s k) (\<lambda>r es. (\<forall>ev \<in> set es. retry_event s k ev) \<and> (r = Done (Inr ()) \<longrightarrow> resumed s k es))"
  (is "spec _ ?Q")
proof -
  have reads: "spec (call_read n svc) (\<lambda>r es. es = [Read n])" for n and svc :: "event list \<Rightarrow> 'b outcome"
    by (rule spec_read) simp
  have finish: "spec (bind_ok (\<lambda>err. err) (dispatchSideEffects e s t k) (\<lambda>_. ret (Inr ())))
      (\<lambda>r es. es = [DispatchSideEffects s t k (r = Done (Inr ()))])" for t
    by (rule spec_bind_ok [OF dispatchSideEffects_spec]) (auto intro!: spec_ret)
  have upserts: "spec (bind_ok (\<lambda>err. err) (executeAuroraUpserts e s t)
      (\<lambda>_. bind_ok (\<lambda>err. err) (dispatchSideEffects e s t k) (\<lambda>_. ret (Inr ())))) ?Q" for t
    by (rule spec_bind_ok [OF executeAuroraUpserts_spec]) (auto intro!: spec_mono [OF finish] simp: resumed_def)
  have retained: "spec (bind (attemptS3Retention e s plan) (\<lambda>_. bind_ok (\<lambda>err. err) (executeAuroraUpserts e s t)
      (\<lambda>_. bind_ok (\<lambda>err. err) (dispatchSideEffects e s t k) (\<lambda>_. ret (Inr ()))))) ?Q" for plan t
  proof (rule spec_bind)
    show "spec (attemptS3Retention e s plan) (\<lambda>r es. (\<forall>ev \<in> set es. \<exists>x y b. ev = ApplyRetention (eb_s3Key (base_of (sg_data s))) x y b))"
      unfolding emits_def [symmetric] attemptS3Retention_def store_defs Let_def by (intro trace_intros) simp_all
  qed (auto intro!: spec_mono [OF upserts] resumed_append)
  show ?thesis
    unfolding resumeRetry_def
    by (intro spec_if spec_ret spec_bind_ok [OF reads] spec_case_option)
       (auto intro!: spec_ret spec_bind_ok [OF reads] spec_mono [OF retained] resumed_append [where xs = "[_, _]", simplified])
qed

text \<open>
  C4. A retry of a message whose signal is stored resumes at its last steps. The whole retry reads,
  tags the raw mail of that signal, writes vectors of that signal and queues its side effects; it
  stores nothing a second time. It always returns, and it reports success only when the queue
  accepted the message, as its last event, and no vector failed.
\<close>

theorem retry_resumes:
  assumes "\<And>h. getAliasByGlobalAddress (adb e) (im_primaryRecipient m) h = Done (Inr (Some al))"
    "\<And>h. getSignalByMessageId (tdb e) (al_accountId al) (im_compositeMailMessageId m) h = Done (Inr (Some s))"
    "\<not> po_force opts" "receiveCount > 1"
  shows "\<exists>res es. processInbound e z m receiveCount opts h = (Done res, h @ es) \<and>
    (\<forall>ev \<in> set es. retry_event s (po_skipNotify opts) ev) \<and> (res = Inr () \<longrightarrow> resumed s (po_skipNotify opts) es)"
proof -
  let ?h = "h @ [Read ''getAliasByGlobalAddress'', Read ''getSignalByMessageId'']"
  obtain r es where r: "resumeRetry e (al_accountId al) s (po_skipNotify opts) ?h = (r, ?h @ es)"
    and es: "\<forall>ev \<in> set es. retry_event s (po_skipNotify opts) ev" "r = Done (Inr ()) \<longrightarrow> resumed s (po_skipNotify opts) es"
    using resumeRetry_spec [of e "al_accountId al" s "po_skipNotify opts"] unfolding spec_def by (metis prod.collapse)
  have "processInboundUnsafe e z m receiveCount opts h = (r, ?h @ es)"
    using assms r
    by (simp add: processInboundUnsafe_def resolveAccountIdAndAlias_def bind_ok_def bind_def call_read_def call_apply ret_apply)
  then have "processInbound e z m receiveCount opts h =
      (Done (case r of Done x \<Rightarrow> x | Threw t \<Rightarrow> Inl (dbError t)), ?h @ es)"
    by (simp add: processInbound_def try_catch_def ret_apply split: outcome.splits)
  moreover have "resumed s (po_skipNotify opts) ([Read ''getAliasByGlobalAddress'', Read ''getSignalByMessageId''] @ es)"
    if "(case r of Done x \<Rightarrow> x | Threw t \<Rightarrow> Inl (dbError t)) = Inr ()"
    using that es(2) by (intro resumed_append) (auto split: outcome.splits)
  ultimately show ?thesis using es(1)
    by (intro exI conjI) (assumption | simp)+
qed

theorem retry_resumes_witness:
  "\<exists>res es. processInbound seen_env (\<lambda>_. []) sample_message 2 plain_options [] = (Done res, [] @ es) \<and>
    list_all (retry_event stored_sample False) es"
  using retry_resumes [of seen_env sample_message sample_alias stored_sample plain_options 2 "\<lambda>_. []" "[]"]
  by (simp add: seen_env_def working_env_def sample_thread_db_def plain_options_def list_all_iff) blast

end
