(* ===== verification/SideEffects.thy ===== *)
theory SideEffects
  imports Delivery
begin

text \<open>
  The side effects of an accepted message (\<open>processSideEffect\<close> in
  \<open>processor/incoming-email-processor.ts\<close>): forwarding, notification, the workflow's handler, the
  answer to a test message, drafts made from templates and sent on their own, and the forwarding
  of a calendar invite. Each runs whether or not the others fail; the failures of the critical ones
  are counted and make the queue retry.
\<close>


abbreviation headers_of :: "email_signal \<Rightarrow> headers" where
  "headers_of s \<equiv> eb_headers (base_of (sg_data s))"

abbreviation from_of :: "email_signal \<Rightarrow> email_address" where
  "from_of s \<equiv> eb_from (base_of (sg_data s))"

abbreviation recipient_of :: "email_signal \<Rightarrow> str" where
  "recipient_of s \<equiv> eb_recipientAddress (base_of (sg_data s))"

abbreviation rules_of :: "email_signal \<Rightarrow> matched_rule_result list" where
  "rules_of s \<equiv> nullish (eb_matchedRules (base_of (sg_data s))) []"

section \<open>Answering a test message\<close>

fun match_profiles :: "str \<Rightarrow> (app_error + str option) list \<Rightarrow> app_error + bool" where
  "match_profiles target [] = Inr False"
| "match_profiles target (Inl err # ps) = Inl err"
| "match_profiles target (Inr email # ps) =
     (let email' = map_option (\<lambda>a. to_lower (trim a)) email
      in if truthy email' \<and> email' = Some target then Inr True else match_profiles target ps)"

definition senderMatchesAccountUser :: "env \<Rightarrow> str \<Rightarrow> str \<Rightarrow> bool result io" where
  "senderMatchesAccountUser e accountId fromAddress =
     bind_ok (\<lambda>err. err) (call_read ''listUsers'' (listUsers (adb e) accountId)) (\<lambda>users.
       if users = [] then ret (Inr False)
       else bind (for_map users (\<lambda>u. call_read ''getUserProfile'' (getUserProfileEmail (adb e) u))) (\<lambda>profiles.
            ret (match_profiles (to_lower (trim fromAddress)) profiles)))"

definition recently_created :: "env \<Rightarrow> account option \<Rightarrow> bool io" where
  "recently_created e acc =
     (case acc of
        None \<Rightarrow> ret False
      | Some a \<Rightarrow>
          (if ac_createdAt a = [] then ret False
           else bind (now_instant e) (\<lambda>now.
                ret (case dateTime (lib e) (ac_createdAt a) of
                       None \<Rightarrow> False | Some created \<Rightarrow> created > now - 4 * 7 * 24 * 3600000))))"

definition test_moment :: "env \<Rightarrow> str \<Rightarrow> email_signal \<Rightarrow> bool result io" where
  "test_moment e accountId s =
     (if (case sg_data s of Inbound d \<Rightarrow> ib_workflow d = ''test'' | Outbound _ \<Rightarrow> False) then ret (Inr True)
      else bind_ok (\<lambda>err. err) (call_read ''getAccount'' (getAccount (adb e) accountId)) (\<lambda>acc.
        if Option.bind (Option.bind acc ac_onboarding) on_testEmailReceived \<noteq> Some True then ret (Inr True)
        else bind (recently_created e acc) (\<lambda>recent.
          if \<not> recent then ret (Inr False)
          else bind_ok (\<lambda>err. err) (call_read ''listActiveThreads'' (listActiveThreads (tdb e) accountId 1)) (\<lambda>ts.
               ret (Inr (ts = []))))))"

definition shouldPong :: "env \<Rightarrow> str \<Rightarrow> email_signal \<Rightarrow> bool result io" where
  "shouldPong e accountId s =
     (let fromAddress = ea_address (from_of s)
      in if to_lower fromAddress = to_lower (recipient_of s) \<or> isSystemAccount accountId \<or>
            isAutomatedMessage (headers_of s)
         then ret (Inr False)
         else bind_ok (\<lambda>err. err) (call_read ''listDomains'' (listDomains (adb e) accountId)) (\<lambda>domains.
           let fromETLD1 = getETLD1 (getDomain (lib e)) fromAddress in
           bind_ok (\<lambda>err. err)
             (if list_ex (\<lambda>d. getETLD1 (getDomain (lib e)) (do_domain d) = fromETLD1) domains then ret (Inr True)
              else senderMatchesAccountUser e accountId fromAddress) (\<lambda>owned.
           if \<not> owned then ret (Inr False) else test_moment e accountId s)))"

definition markTestEmailReceived :: "env \<Rightarrow> str \<Rightarrow> unit io" where
  "markTestEmailReceived e accountId =
     bind (call_read ''getAccount'' (getAccount (adb e) accountId)) (\<lambda>acc.
     case acc of
       Inl _ \<Rightarrow> ret ()
     | Inr a \<Rightarrow>
         (let ob = Option.bind a ac_onboarding
          in if (case ob of Some x \<Rightarrow> on_completed x | None \<Rightarrow> False) then ret ()
             else if Option.bind ob on_testEmailReceived = Some True then ret ()
             else bind (now_iso e) (\<lambda>ts.
                  bind (updateOnboarding e accountId
                    \<lparr>on_completed = False, on_completedAt = None, on_testEmailReceived = Some True,
                     on_testEmailReceivedAt = Some ts\<rparr>) (\<lambda>_. ret ()))))"

definition pong_reply :: "email_signal \<Rightarrow> str \<Rightarrow> str \<Rightarrow> send_reply" where
  "pong_reply s accountId threadId =
     \<lparr>sp_sendType = StPong, sp_to = [from_of s], sp_cc = [], sp_bcc = [],
      sp_from = \<lparr>ea_address = recipient_of s, ea_name = None\<rparr>, sp_subject = eb_subject (base_of (sg_data s)),
      sp_body = (case sg_data s of Inbound _ \<Rightarrow> [] | Outbound d \<Rightarrow> nullish (ob_textBody d) []),
      sp_attachments = [], sp_inReplyTo = falsy_none (map_of (headers_of s) ''message-id''),
      sp_accountId = accountId, sp_signalId = sg_id s, sp_threadId = threadId,
      sp_hopCount = parseHopCount (headers_of s), sp_autoSubmitted = True, sp_allowFallback = True\<rparr>"

text \<open>The number of critical failures: a send that the loop guard stopped counts as handled.\<close>

definition pong :: "env \<Rightarrow> str \<Rightarrow> email_signal \<Rightarrow> str \<Rightarrow> nat io" where
  "pong e accountId s threadId =
     bind (shouldPong e accountId s) (\<lambda>r.
       if r = Inr True
       then try_catch
              (bind (sendReply e (pong_reply s accountId threadId)) (\<lambda>sent.
                 case sent of
                   Inl (LoopGuard _) \<Rightarrow> ret 0
                 | Inl _ \<Rightarrow> ret 1
                 | Inr _ \<Rightarrow> bind (markTestEmailReceived e accountId) (\<lambda>_. ret 0)))
              (\<lambda>_. ret 1)
       else ret 0)"

section \<open>Drafts made from templates\<close>

definition annotateTemplateError :: "env \<Rightarrow> str \<Rightarrow> str \<Rightarrow> str \<Rightarrow> user_code_error option \<Rightarrow> unit io" where
  "annotateTemplateError e accountId templateId functionName er =
     try_catch
       (bind (annotateTemplateErrorDb e accountId templateId functionName
          (case er of Some x \<Rightarrow> ''['' @ uc_errorType x @ ''] '' @ uc_message x
                    | None \<Rightarrow> ''Function returned no value'')) (\<lambda>_. ret ()))
       (\<lambda>_. ret ())"

definition system_signal :: "str \<Rightarrow> str \<Rightarrow> str \<Rightarrow> str \<Rightarrow> signal_type \<Rightarrow> any_data \<Rightarrow> any_signal" where
  "system_signal sid ts threadId accountId ty d =
     \<lparr>sg_id = sid, sg_signalLookupId = sid, sg_threadId = Some threadId, sg_gsi3pk = None, sg_accountId = accountId,
      sg_source = SrcEmail, sg_type = ty, sg_status = SActive, sg_labels = [], sg_createdAt = ts,
      sg_retentionDuration = Some SYSTEM_SIGNAL_RETENTION, sg_data = d\<rparr>"

text \<open>A notice in the thread; failing to save it is only logged.\<close>

definition save_system_signal :: "env \<Rightarrow> str \<Rightarrow> str \<Rightarrow> signal_type \<Rightarrow> any_data \<Rightarrow> unit io" where
  "save_system_signal e threadId accountId ty d =
     bind (new_signal_id e) (\<lambda>sid.
     bind (now_iso e) (\<lambda>ts.
     bind (saveSignal e (system_signal sid ts threadId accountId ty d)) (\<lambda>_. ret ())))"

fun json_typeof :: "json \<Rightarrow> str" where
  "json_typeof JUndefined = ''undefined''"
| "json_typeof JNull = ''object''"
| "json_typeof (JBool _) = ''boolean''"
| "json_typeof (JNum _) = ''number''"
| "json_typeof (JStr _) = ''string''"
| "json_typeof (JArr _) = ''object''"
| "json_typeof (JObj _) = ''object''"

definition invalid_return_issue :: "json \<Rightarrow> str" where
  "invalid_return_issue v =
     (if v \<in> {JUndefined, JNull} then ''Function returned no value''
      else ''Function returned non-string value (type: '' @ json_typeof v @ '')'')"

text \<open>One function of a template: the value it contributes and whether it prevents sending\<close>

definition template_function_failed ::
  "env \<Rightarrow> str \<Rightarrow> str \<Rightarrow> email_template \<Rightarrow> str \<Rightarrow> user_code_error option \<Rightarrow> str \<Rightarrow> unit io" where
  "template_function_failed e accountId threadId tmpl name er issue =
     bind (annotateTemplateError e accountId (et_id tmpl) name er) (\<lambda>_.
     save_system_signal e threadId accountId TyInvalidTemplateFunction
       (DInvalidTemplate \<lparr>itf_resourceName = et_name tmpl, itf_functionName = name, itf_issue = issue\<rparr>))"

definition run_template_function ::
  "env \<Rightarrow> str \<Rightarrow> email_signal \<Rightarrow> thread \<Rightarrow> email_template \<Rightarrow> (str \<times> str) list \<times> bool \<Rightarrow> template_function \<Rightarrow>
   ((str \<times> str) list \<times> bool) io" where
  "run_template_function e accountId s t tmpl st f =
     bind (invokeUserCode e accountId ''template_function'' (tf_code f)
             (JObj [(''signal'', toRuleSignalContext s), (''thread'', toRuleThreadContext t)])) (\<lambda>response.
     case response of
       Inl er \<Rightarrow>
         bind (template_function_failed e accountId (th_id t) tmpl (tf_name f) (Some er)
                 (''['' @ uc_errorType er @ ''] '' @ uc_message er)) (\<lambda>_.
         ret ((''fn.'' @ tf_name f, []) # fst st, True))
     | Inr (JStr v) \<Rightarrow> ret ((''fn.'' @ tf_name f, v) # fst st, snd st)
     | Inr v \<Rightarrow>
         bind (template_function_failed e accountId (th_id t) tmpl (tf_name f) None (invalid_return_issue v)) (\<lambda>_.
         ret ((''fn.'' @ tf_name f, []) # fst st, True)))"

text \<open>The two gates on sending a draft without the user\<close>

definition auto_send_blocked :: "env \<Rightarrow> str \<Rightarrow> email_signal \<Rightarrow> str \<Rightarrow> unit io" where
  "auto_send_blocked e accountId s threadId =
     save_system_signal e threadId accountId TyAutoSendBlocked
       (DAutoSendBlocked \<lparr>asb_recipientAddress = recipient_of s, asb_reason = None\<rparr>)"

definition reply_to_gate :: "env \<Rightarrow> str \<Rightarrow> email_signal \<Rightarrow> str \<Rightarrow> bool \<Rightarrow> bool io" where
  "reply_to_gate e accountId s threadId shouldAutoSend =
     (case eb_replyTo (base_of (sg_data s)) of
        None \<Rightarrow> ret shouldAutoSend
      | Some replyTo \<Rightarrow>
          (if \<not> shouldAutoSend then ret False
           else bind (call_read ''getSender'' (getSender (adb e) accountId (recipient_of s)
                        (getETLD1 (getDomain (lib e)) (ea_address replyTo)))) (\<lambda>sender.
             let approved = (case sender of
                               Inr (Some c) \<Rightarrow> if se_policy c = SPAllow then [se_senderDomain c] else []
                             | _ \<Rightarrow> [])
             in if fst (isReplyTargetSafe (getDomain (lib e)) s approved) then ret True
                else bind (auto_send_blocked e accountId s threadId) (\<lambda>_. ret False))))"

definition automated_gate :: "env \<Rightarrow> str \<Rightarrow> email_signal \<Rightarrow> str \<Rightarrow> bool \<Rightarrow> bool io" where
  "automated_gate e accountId s threadId shouldAutoSend =
     (if shouldAutoSend \<and> isAutomatedMessage (headers_of s)
      then bind (auto_send_blocked e accountId s threadId) (\<lambda>_. ret False)
      else ret shouldAutoSend)"

definition auto_draft ::
  "email_signal \<Rightarrow> str \<Rightarrow> str \<Rightarrow> str \<Rightarrow> str \<Rightarrow> str \<Rightarrow> str \<Rightarrow> bool \<Rightarrow> any_signal" where
  "auto_draft s accountId threadId subject body draftId now shouldAutoSend =
     \<lparr>sg_id = draftId, sg_signalLookupId = draftId, sg_threadId = Some threadId, sg_gsi3pk = None,
      sg_accountId = accountId, sg_source = SrcUser, sg_type = TyEmail,
      sg_status = (if shouldAutoSend then SPendingSend else SDraft), sg_labels = [], sg_createdAt = now,
      sg_retentionDuration = None,
      sg_data = DEmail (Outbound
        \<lparr>eb_receivedAt = now, eb_summary = [], eb_urgency = None, eb_actions = [], eb_embeddings = None,
         eb_from = \<lparr>ea_address = recipient_of s, ea_name = None\<rparr>, eb_to = [from_of s], eb_cc = [], eb_replyTo = None,
         eb_subject = subject, eb_sentAt = None, eb_attachments = [], eb_headers = [],
         eb_recipientAddress = ea_address (from_of s), eb_tags = [], eb_s3Key = [], eb_matchedRules = None,
         eb_unsubscribe = None, ob_sesMessageId = None, ob_bcc = [], ob_textBody = Some body, ob_htmlBody = None,
         ob_sendInitiatedAt = (if shouldAutoSend then falsy_none (Some now) else None),
         ob_sendFailureReason = None, ob_linkedSignalId = None\<rparr>)\<rparr>"

definition template_vars :: "email_signal \<Rightarrow> thread \<Rightarrow> (str \<times> str) list" where
  "template_vars s t =
     [(''signal.subject'', eb_subject (base_of (sg_data s))), (''sender.name'', nullish (ea_name (from_of s)) []),
      (''sender.address'', ea_address (from_of s)), (''thread.workflow'', th_workflow t)]"

text \<open>Saves the draft and, when it is to be sent, queues it with the undo window. One critical failure
  when the draft cannot be saved; the queue's failure is only logged.\<close>

definition save_draft :: "env \<Rightarrow> email_signal \<Rightarrow> thread \<Rightarrow> email_template \<Rightarrow> (str \<times> str) list \<Rightarrow> str \<Rightarrow> bool \<Rightarrow> nat io" where
  "save_draft e s t tmpl vars now shouldAutoSend =
     bind (new_signal_id e) (\<lambda>draftId.
     bind (saveSignal e (auto_draft s (sg_accountId s) (th_id t) (renderTemplate (et_subject tmpl) vars)
             (renderTemplate (et_body tmpl) vars) draftId now shouldAutoSend)) (\<lambda>saved.
     case saved of
       Inl _ \<Rightarrow> ret 1
     | Inr _ \<Rightarrow>
         (if shouldAutoSend
          then bind (dispatchDraftSend e
                 \<lparr>dp_signalId = draftId, dp_accountId = sg_accountId s, dp_threadId = th_id t, dp_sendInitiatedAt = now\<rparr>
                 300) (\<lambda>_. ret 0)
          else ret 0)))"

definition draft_action ::
  "env \<Rightarrow> email_signal \<Rightarrow> thread \<Rightarrow> str \<Rightarrow> bool \<Rightarrow> rule_action \<Rightarrow> nat io" where
  "draft_action e s t now senderSetupComplete a =
     (case parseAutoDraftValue (json_parse (lib e)) (nullish (ra_value a) []) of
        None \<Rightarrow> ret 0
      | Some (templateId, autoSend) \<Rightarrow>
          bind (call_read ''getTemplate'' (getTemplate (adb e) (sg_accountId s) templateId)) (\<lambda>found.
          case found of
            Inr (Some tmpl) \<Rightarrow>
              bind (for_fold (nullish (et_functions tmpl) [])
                      (run_template_function e (sg_accountId s) s t tmpl) (template_vars s t, False))
                (\<lambda>(vars, preventAutoSend).
              bind (reply_to_gate e (sg_accountId s) s (th_id t)
                      (json_truthy autoSend \<and> senderSetupComplete \<and> \<not> preventAutoSend)) (\<lambda>b.
              bind (automated_gate e (sg_accountId s) s (th_id t) b) (\<lambda>shouldAutoSend.
              save_draft e s t tmpl vars now shouldAutoSend)))
          | _ \<Rightarrow> ret 0))"

text \<open>An exception ends the drafts that are left; what was counted before it stays counted.\<close>

definition auto_drafts :: "env \<Rightarrow> email_signal \<Rightarrow> thread \<Rightarrow> rule_action list \<Rightarrow> nat io" where
  "auto_drafts e s t actions =
     (if actions = [] then ret 0
      else try_catch
        (bind (now_iso e) (\<lambda>now.
         bind (call_read ''getDomainByName'' (getDomainByName (adb e) (sg_accountId s)
                 (case split_on CHR ''@'' (recipient_of s) of _ # d # _ \<Rightarrow> d | _ \<Rightarrow> []))) (\<lambda>domain.
         let senderSetupComplete = (case domain of Inr (Some d) \<Rightarrow> do_senderSetupComplete d | _ \<Rightarrow> False) in
         bind (for_fold actions (\<lambda>(n, stopped) a.
                 if stopped then ret (n, True)
                 else try_catch (bind (draft_action e s t now senderSetupComplete a) (\<lambda>k. ret (n + k, False)))
                        (\<lambda>_. ret (n, True))) (0, False)) (\<lambda>st.
         ret (fst st)))))
        (\<lambda>_. ret 0))"

section \<open>The other effects\<close>

definition forward_one :: "env \<Rightarrow> email_signal \<Rightarrow> thread \<Rightarrow> nat \<Rightarrow> str \<Rightarrow> nat io" where
  "forward_one e s t n toAddress =
     try_catch
       (bind (forwardSignal e toAddress s t) (\<lambda>r. ret (case r of Inl _ \<Rightarrow> n + 1 | Inr _ \<Rightarrow> n)))
       (\<lambda>_. ret (n + 1))"

definition notify_user :: "env \<Rightarrow> email_signal \<Rightarrow> thread \<Rightarrow> unit io" where
  "notify_user e s t =
     try_catch
       (bind (notifySignal e (sg_accountId s) (Some t) (with_data DEmail s) (nullish (th_urgency t) ''normal''))
          (\<lambda>_. ret ()))
       (\<lambda>_. ret ())"

definition forward_calendar :: "env \<Rightarrow> email_signal \<Rightarrow> thread \<Rightarrow> nat io" where
  "forward_calendar e s t =
     (if \<not> list_ex (\<lambda>a. ra_type a = RForwardCalendarInvite) (flat_actions (rules_of s)) then ret 0
      else try_catch
        (bind (call_read ''getAccount'' (getAccount (adb e) (sg_accountId s))) (\<lambda>acc.
         let target = (case acc of
                         Inr (Some a) \<Rightarrow> nullish (ac_defaultCalendarInviteForwardingTargetId a) []
                       | _ \<Rightarrow> []) in
         bind (call_read ''getLinkedCalendarSignal''
                 (getLinkedCalendarSignal (tdb e) (sg_accountId s) (th_id t) (sg_id s))) (\<lambda>linked.
         case linked of
           Inr (Some cs) \<Rightarrow>
             bind (forwardInvite e cs target (sg_accountId s) (th_id t) (recipient_of s)) (\<lambda>r.
             ret (case r of Inl _ \<Rightarrow> 1 | Inr _ \<Rightarrow> 0))
         | _ \<Rightarrow> ret 0)))
        (\<lambda>_. ret 1))"

section \<open>All side effects\<close>

definition current_thread :: "env \<Rightarrow> email_signal \<Rightarrow> thread \<Rightarrow> nat \<Rightarrow> thread result io" where
  "current_thread e s payloadThread receiveCount =
     (if receiveCount > 1
      then bind_ok processorError_of
             (call_read ''getThread'' (getThread (tdb e) (sg_accountId s) (th_id payloadThread))) (\<lambda>found.
             ret (Inr (nullish found payloadThread)))
      else ret (Inr payloadThread))"

definition critical_error :: "nat \<Rightarrow> app_error" where
  "critical_error n =
     processorError (show_nat n @ '' critical side-effect failure'' @ (if n > 1 then ''s'' else []))"

definition auto_draft_actions :: "email_signal \<Rightarrow> rule_action list" where
  "auto_draft_actions s =
     filter (\<lambda>a. ra_type a = RAutoDraft \<and> truthy (ra_value a)) (flat_actions (rules_of s))"

definition processSideEffect ::
  "env \<Rightarrow> email_signal \<Rightarrow> thread \<Rightarrow> bool \<Rightarrow> nat \<Rightarrow> unit result io" where
  "processSideEffect e s payloadThread skipNotify receiveCount =
     bind_ok (\<lambda>err. err) (current_thread e s payloadThread receiveCount) (\<lambda>t.
     let oc = deriveOutcome (rules_of s) in
     bind (for_fold (oc_forwardAddresses oc) (forward_one e s t) 0) (\<lambda>n1.
     bind (if \<not> oc_suppressNotification oc \<and> \<not> skipNotify then notify_user e s t else ret ()) (\<lambda>_.
     bind (dispatchWorkflow e s t (sg_accountId s)) (\<lambda>dispatched.
     bind (pong e (sg_accountId s) s (th_id t)) (\<lambda>n2.
     bind (auto_drafts e s t (auto_draft_actions s)) (\<lambda>n3.
     bind (forward_calendar e s t) (\<lambda>n4.
     let failures = n1 + (case dispatched of Inl _ \<Rightarrow> 1 | Inr _ \<Rightarrow> 0) + n2 + n3 + n4
     in ret (if failures > 0 then Inl (critical_error failures) else Inr ()))))))))"

end
