(* ===== verification/Effects.thy ===== *)
theory Effects
  imports SideEffects Samples
begin

text \<open>What the side effects of a message guarantee, whatever the services answer.\<close>

section \<open>Answers and drafts\<close>

text \<open>The events that answer a sender without the user\<close>

fun answers :: "event \<Rightarrow> bool" where
  "answers (SendReply r b) = True"
| "answers (DispatchDraftSend p d b) = True"
| "answers (SaveSignal s b) = (sg_status s = SPendingSend)"
| "answers _ = False"

lemmas effect_defs =
  pong_def shouldPong_def senderMatchesAccountUser_def test_moment_def recently_created_def
  markTestEmailReceived_def annotateTemplateError_def save_system_signal_def template_function_failed_def
  run_template_function_def auto_send_blocked_def reply_to_gate_def automated_gate_def save_draft_def
  draft_action_def auto_drafts_def forward_one_def notify_user_def forward_calendar_def current_thread_def
  processSideEffect_def now_instant_def

section \<open>What each effect emits\<close>

named_theorems effect_emits

lemma emits_case_pair_fun [trace_intros]:
  "(\<And>a b. x = (a, b) \<Longrightarrow> emits (f a b y) P) \<Longrightarrow> emits ((case x of (a, b) \<Rightarrow> f a b) y) P"
  by (cases x) auto

lemma current_thread_emits [effect_emits]: "P (Read ''getThread'') \<Longrightarrow> emits (current_thread e s t n) P"
  unfolding current_thread_def by (intro trace_intros)

lemma forwards_emits [effect_emits]:
  "(\<And>a b. P (ForwardSignal a (sg_id s) b)) \<Longrightarrow> emits (for_fold as (forward_one e s t) n) P"
  unfolding forward_one_def store_defs by (intro trace_intros)

lemma notify_emits [effect_emits]:
  "(\<And>b. P (NotifySignal (sg_accountId s) (Some (th_id t)) (with_data DEmail s) (nullish (th_urgency t) ''normal'') b)) \<Longrightarrow>
    emits (notify_user e s t) P"
  unfolding notify_user_def store_defs by (intro trace_intros) simp

lemma workflow_emits [effect_emits]:
  "(\<And>b. P (WorkflowDispatch (th_workflow t) (sg_id s) b)) \<Longrightarrow> emits (dispatchWorkflow e s t a) P"
  unfolding dispatchWorkflow_def by (intro trace_intros)

lemma calendar_emits [effect_emits]:
  "(\<And>r. P (Read r)) \<Longrightarrow> (\<And>i target b. P (ForwardInvite i target b)) \<Longrightarrow> emits (forward_calendar e s t) P"
  unfolding forward_calendar_def store_defs Let_def by (intro trace_intros)

section \<open>Answering automatic mail\<close>

lemma emits_bind_yields:
  assumes "emits m P" "yields m Q" "\<And>x. Q x \<Longrightarrow> emits (k x) P"
  shows "emits (bind m k) P"
proof -
  have "spec m (\<lambda>r es. (\<forall>ev \<in> set es. P ev) \<and> (\<forall>x. r = Done x \<longrightarrow> Q x))"
    using assms(1,2) unfolding emits_def spec_def yields_def by (metis eq_fst_iff)
  then show ?thesis
    unfolding emits_def
    by (rule spec_bind) (auto intro: spec_mono [OF assms(3) [unfolded emits_def]])
qed

lemma automated_gate_closed: "isAutomatedMessage (headers_of s) \<Longrightarrow> yields (automated_gate e a s t b) (\<lambda>b'. \<not> b')"
  unfolding automated_gate_def by (auto intro: yields_ret yields_any)

lemma shouldPong_automated: "isAutomatedMessage (headers_of s) \<Longrightarrow> shouldPong e a s = ret (Inr False)"
  by (simp add: shouldPong_def)

text \<open>The functions of a template, and the gates, answer nobody.\<close>

lemma template_functions_silent:
  "emits (for_fold fs (run_template_function e a s t tmpl) st) (\<lambda>ev. \<not> answers ev)"
  unfolding run_template_function_def template_function_failed_def annotateTemplateError_def
    save_system_signal_def store_defs
  by (intro trace_intros) (auto intro!: trace_intros simp: system_signal_def split: json.splits)

lemma gates_silent:
  "emits (reply_to_gate e a s t b) (\<lambda>ev. \<not> answers ev)" "emits (automated_gate e a s t b) (\<lambda>ev. \<not> answers ev)"
  unfolding reply_to_gate_def automated_gate_def auto_send_blocked_def save_system_signal_def store_defs Let_def
  by (intro trace_intros; simp add: system_signal_def)+

lemma save_draft_silent: "emits (save_draft e s t tmpl vars now False) (\<lambda>ev. \<not> answers ev)"
  unfolding save_draft_def store_defs by (intro trace_intros) (simp_all add: auto_draft_def)

lemma auto_drafts_silent:
  assumes "isAutomatedMessage (headers_of s)"
  shows "emits (auto_drafts e s t as) (\<lambda>ev. \<not> answers ev)"
proof -
  have "emits (draft_action e s t now ok a) (\<lambda>ev. \<not> answers ev)" for now ok a
    unfolding draft_action_def
    by (intro trace_intros template_functions_silent gates_silent
          emits_bind_yields [OF gates_silent(2) automated_gate_closed [OF assms]])
       (auto intro: save_draft_silent trace_intros)
  then show ?thesis unfolding auto_drafts_def now_iso_def Let_def by (intro trace_intros) simp_all
qed

text \<open>
  C8. No automatic message is ever answered automatically: when the message carries the marks of an
  automated sender, its side effects send no reply, queue no draft and leave no draft that waits to be
  sent, whatever the rules, templates and account say.
\<close>

theorem automated_never_answered:
  assumes "isAutomatedMessage (headers_of s)"
  shows "emits (processSideEffect e s t skipNotify receiveCount) (\<lambda>ev. \<not> answers ev)"
proof -
  have "emits (pong e a s t) (\<lambda>ev. \<not> answers ev)" for a t
    by (simp add: pong_def shouldPong_automated [OF assms] emits_ret)
  then show ?thesis
    unfolding processSideEffect_def Let_def
    by (intro trace_intros effect_emits auto_drafts_silent assms) simp_all
qed

definition automated_signal :: email_signal where
  "automated_signal =
     \<lparr>sg_id = ''sgn-1'', sg_signalLookupId = ''m'', sg_threadId = Some ''thd-1'', sg_gsi3pk = None,
      sg_accountId = ''acc-1'', sg_source = SrcEmail, sg_type = TyEmail, sg_status = SActive, sg_labels = [],
      sg_createdAt = [], sg_retentionDuration = None,
      sg_data = Inbound
        \<lparr>eb_receivedAt = [], eb_summary = [], eb_urgency = None, eb_actions = [], eb_embeddings = None,
         eb_from = \<lparr>ea_address = ''a@b.io'', ea_name = None\<rparr>, eb_to = [], eb_cc = [], eb_replyTo = None,
         eb_subject = ''hi'', eb_sentAt = None, eb_attachments = [], eb_headers = [(''auto-submitted'', ''auto-replied'')],
         eb_recipientAddress = ''shop@u.io'', eb_tags = [], eb_s3Key = ''k'', eb_matchedRules = None,
         eb_unsubscribe = None, ib_workflow = ''test'', ib_workflowData = [], ib_htmlBody = None,
         ib_htmlBodyTruncated = None, ib_inlineImages = None\<rparr>\<rparr>"

definition side_thread :: thread where
  "side_thread =
     \<lparr>th_id = ''thd-1'', th_accountId = ''acc-1'', th_groupingKey = None, th_workflow = ''test'', th_labels = [],
      th_status = ThActive, th_summary = [], th_lastSignalAt = [], th_deletedAt = None, th_createdAt = [],
      th_updatedAt = [], th_retentionDuration = None, th_sentMessageIds = None, th_urgency = None,
      th_followupAt = None, th_sender = \<lparr>ea_address = ''a@b.io'', ea_name = None\<rparr>,
      th_recipientAddress = ''shop@u.io'', th_subject = ''hi''\<rparr>"

theorem automated_never_answered_witness:
  "emits (processSideEffect sample_env automated_signal side_thread False 1) (\<lambda>ev. \<not> answers ev)"
  by (rule automated_never_answered) code_simp

section \<open>What success means\<close>

fun is_forward :: "event \<Rightarrow> bool" where
  "is_forward (ForwardSignal a i b) = True"
| "is_forward _ = False"

text \<open>A failed call whose effect the user would miss\<close>

fun failed_critical :: "event \<Rightarrow> bool" where
  "failed_critical (ForwardSignal a i b) = (\<not> b)"
| "failed_critical (WorkflowDispatch w i b) = (\<not> b)"
| "failed_critical (ForwardInvite i target b) = (\<not> b)"
| "failed_critical _ = False"

definition quiet :: "event \<Rightarrow> bool" where
  "quiet ev \<longleftrightarrow> \<not> is_forward ev \<and> \<not> failed_critical ev"

lemma forward_one_spec:
  "spec (forward_one e s t n a) (\<lambda>r es. \<exists>b. es = [ForwardSignal a (sg_id s) b] \<and> r = Done (if b then n else n + 1))"
proof -
  have call: "spec (forwardSignal e a s t) (\<lambda>r es. es = [ForwardSignal a (sg_id s) (succeeded r)])"
    unfolding store_defs by (rule spec_write) simp
  have "spec (bind (forwardSignal e a s t) (\<lambda>r. ret (case r of Inl _ \<Rightarrow> n + 1 | Inr _ \<Rightarrow> n)))
     (\<lambda>r es. (\<exists>b. es = [ForwardSignal a (sg_id s) b] \<and> r = Done (if b then n else n + 1)) \<or>
        (\<exists>x. r = Threw x \<and> es = [ForwardSignal a (sg_id s) False]))"
    by (rule spec_bind [OF call]) (auto intro!: spec_ret split: sum.splits)
  then show ?thesis
    unfolding forward_one_def by (rule spec_try_catch) (auto intro!: spec_ret)
qed

lemma forwards_spec:
  "spec (for_fold as (forward_one e s t) n) (\<lambda>r es. \<exists>bs. es = map2 (\<lambda>a. ForwardSignal a (sg_id s)) as bs \<and>
     length bs = length as \<and> r = Done (n + length (filter Not bs)))"
proof (induction as arbitrary: n)
  case (Cons a as)
  show ?case
    unfolding for_fold.simps
  proof (rule spec_bind [OF forward_one_spec])
    fix k es assume "\<exists>b. es = [ForwardSignal a (sg_id s) b] \<and> Done k = Done (if b then n else n + 1)"
    then obtain b where b: "es = [ForwardSignal a (sg_id s) b]" "k = (if b then n else n + 1)" by auto
    show "spec (for_fold as (forward_one e s t) k) (\<lambda>r es'. \<exists>bs. es @ es' = map2 (\<lambda>a. ForwardSignal a (sg_id s)) (a # as) bs \<and>
        length bs = length (a # as) \<and> r = Done (n + length (filter Not bs)))"
    proof (rule spec_mono [OF Cons.IH])
      fix r es' assume "\<exists>bs. es' = map2 (\<lambda>a. ForwardSignal a (sg_id s)) as bs \<and>
        length bs = length as \<and> r = Done (k + length (filter Not bs))"
      then obtain bs where "es' = map2 (\<lambda>a. ForwardSignal a (sg_id s)) as bs" "length bs = length as"
        "r = Done (k + length (filter Not bs))" by blast
      then show "\<exists>bs. es @ es' = map2 (\<lambda>a. ForwardSignal a (sg_id s)) (a # as) bs \<and>
        length bs = length (a # as) \<and> r = Done (n + length (filter Not bs))"
        using b by (intro exI [of _ "b # bs"]) auto
    qed
  qed auto
qed (simp add: spec_ret)

lemma pong_quiet: "emits (pong e a s t) quiet"
  unfolding pong_def shouldPong_def senderMatchesAccountUser_def test_moment_def recently_created_def
    markTestEmailReceived_def now_instant_def store_defs Let_def
  by (intro trace_intros) (auto intro!: trace_intros simp: quiet_def split: send_error.splits)

lemma auto_drafts_quiet: "emits (auto_drafts e s t as) quiet"
  unfolding auto_drafts_def draft_action_def save_draft_def reply_to_gate_def automated_gate_def auto_send_blocked_def
    run_template_function_def template_function_failed_def annotateTemplateError_def save_system_signal_def store_defs Let_def
  by (intro trace_intros) (auto intro!: trace_intros simp: quiet_def split: json.splits)

lemma workflow_spec:
  "spec (dispatchWorkflow e s t a) (\<lambda>r es. (\<exists>v. r = Done (Inr v)) \<longrightarrow> (\<forall>ev \<in> set es. quiet ev))"
  unfolding dispatchWorkflow_def
  by (intro spec_case_option spec_ret spec_write) (auto simp: quiet_def)

lemma calendar_spec:
  "spec (forward_calendar e s t) (\<lambda>r es. r = Done 0 \<longrightarrow> (\<forall>ev \<in> set es. quiet ev))"
proof -
  have read: "spec (call_read n svc) (\<lambda>r es. \<forall>ev \<in> set es. quiet ev)" for n and svc :: "event list \<Rightarrow> 'b outcome"
    by (rule spec_read) (simp add: quiet_def)
  have call: "spec (forwardInvite e cs target a th al) (\<lambda>r es. (\<exists>v. r = Done (Inr v)) \<longrightarrow> (\<forall>ev \<in> set es. quiet ev))"
    for cs target a th al
    unfolding forwardInvite_def by (rule spec_write) (auto simp: quiet_def)
  have forward: "spec (bind (forwardInvite e cs target a th al) (\<lambda>r. ret (case r of Inl _ \<Rightarrow> 1 | Inr _ \<Rightarrow> 0)))
     (\<lambda>r es. r = Done (0 :: nat) \<longrightarrow> (\<forall>ev \<in> set es. quiet ev))" for cs target a th al
    by (rule spec_bind [OF call]) (auto intro!: spec_ret split: sum.splits)
  show ?thesis
    unfolding forward_calendar_def Let_def
    by (intro spec_if spec_ret spec_try_catch [where Q = "\<lambda>r es. r = Done (0 :: nat) \<longrightarrow> (\<forall>ev \<in> set es. quiet ev)"]
          spec_bind [OF read])
       (auto intro!: spec_ret spec_mono [OF forward] split: sum.splits option.splits)
qed

definition forwarded_all :: "str \<Rightarrow> str list \<Rightarrow> event list \<Rightarrow> bool" where
  "forwarded_all i as es \<longleftrightarrow>
     filter is_forward es = map (\<lambda>a. ForwardSignal a i True) as \<and> \<not> list_ex failed_critical es"

lemma filter_quiet: "\<forall>ev \<in> set es. quiet ev \<Longrightarrow> filter is_forward es = [] \<and> \<not> list_ex failed_critical es"
  by (auto simp: quiet_def filter_empty_conv list_ex_iff)

lemma forwards_all_ok:
  assumes "length bs = length as" "filter Not bs = []"
  shows "forwarded_all i as (map2 (\<lambda>a. ForwardSignal a i) as bs)"
  using assms
proof (induction as arbitrary: bs)
  case (Cons a as)
  then obtain bs' where "bs = True # bs'" "length bs' = length as" "filter Not bs' = []"
    by (cases bs) (auto split: if_splits)
  with Cons.IH [of bs'] show ?case by (simp add: forwarded_all_def)
qed (simp add: forwarded_all_def)

text \<open>What remains after the forwards succeeds only if nothing critical failed before or in it.\<close>

lemma effects_tail:
  "spec (bind (if notify then notify_user e s t else ret ()) (\<lambda>_.
     bind (dispatchWorkflow e s t a) (\<lambda>dispatched.
     bind (pong e a s th) (\<lambda>n2.
     bind (auto_drafts e s t as) (\<lambda>n3.
     bind (forward_calendar e s t) (\<lambda>n4.
     let failures = n1 + (case dispatched of Inl _ \<Rightarrow> 1 | Inr _ \<Rightarrow> 0) + n2 + n3 + n4
     in ret (if failures > 0 then Inl (critical_error failures) else Inr ())))))))
   (\<lambda>r es. r = Done (Inr ()) \<longrightarrow> n1 = 0 \<and> (\<forall>ev \<in> set es. quiet ev))"
proof -
  have last: "spec (bind (forward_calendar e s t) (\<lambda>n4.
      ret (if k + n4 > 0 then Inl (critical_error (k + n4)) else Inr ())))
     (\<lambda>r es. r = Done (Inr ()) \<longrightarrow> k = 0 \<and> (\<forall>ev \<in> set es. quiet ev))" for k
    by (rule spec_bind [OF calendar_spec]) (auto intro!: spec_ret)
  have notify: "emits (if notify then notify_user e s t else ret ()) quiet"
    by (intro trace_intros effect_emits) (simp add: quiet_def)
  have tail: "spec (bind (pong e a s th) (\<lambda>n2. bind (auto_drafts e s t as) (\<lambda>n3. bind (forward_calendar e s t) (\<lambda>n4.
      ret (if k + n2 + n3 + n4 > 0 then Inl (critical_error (k + n2 + n3 + n4)) else Inr ())))))
     (\<lambda>r es. r = Done (Inr ()) \<longrightarrow> k = 0 \<and> (\<forall>ev \<in> set es. quiet ev))" for k
    by (rule spec_bind [OF pong_quiet [unfolded emits_def]],
        rule spec_bind [OF auto_drafts_quiet [unfolded emits_def]])
       (auto simp del: add_gr_0 intro!: spec_mono [OF last])
  show ?thesis
    unfolding Let_def
    by (rule spec_bind [OF notify [unfolded emits_def]], rule spec_bind [OF workflow_spec], rule spec_mono [OF tail])
       (auto split: sum.splits)
qed


definition forwarding_signal :: email_signal where
  "forwarding_signal = automated_signal
     \<lparr>sg_data := Inbound ((case sg_data automated_signal of Inbound d \<Rightarrow> d)
        \<lparr>eb_matchedRules := Some [\<lparr>mr_ruleId = ''r'', mr_actions = [\<lparr>ra_type = RForward, ra_value = Some ''x@y.io''\<rparr>],
           mr_labelsAdded = [], mr_statusChange = None, mr_text = None\<rparr>]\<rparr>)\<rparr>"


section \<open>Drafts that send themselves\<close>

text \<open>Every draft handed to the send queue was saved before, as one that waits to be sent, in the same
  thread; the queue gets the undo window of five minutes.\<close>

definition draft_of :: "draft_send_payload \<Rightarrow> event \<Rightarrow> bool" where
  "draft_of p ev \<longleftrightarrow>
     (\<exists>x. ev = SaveSignal x True \<and> sg_id x = dp_signalId p \<and> sg_status x = SPendingSend \<and> sg_source x = SrcUser \<and>
        sg_threadId x = Some (dp_threadId p) \<and> sg_accountId x = dp_accountId p)"

definition drafts_saved_first :: "event list \<Rightarrow> bool" where
  "drafts_saved_first es \<longleftrightarrow>
     (\<forall>xs p d b ys. es = xs @ DispatchDraftSend p d b # ys \<longrightarrow> d = 300 \<and> (\<exists>ev \<in> set xs. draft_of p ev))"

text \<open>A property of logs that holds of the empty log and of two logs in a row is kept by programs.\<close>

locale closed_log =
  fixes C :: "event list \<Rightarrow> bool"
  assumes empty: "C []"
    and app: "C xs \<Longrightarrow> C ys \<Longrightarrow> C (xs @ ys)"
begin

abbreviation leaves :: "'a io \<Rightarrow> bool" where
  "leaves m \<equiv> spec m (\<lambda>_. C)"

lemma leaves_ret: "leaves (ret x)"
  by (simp add: spec_ret empty)

lemma leaves_bind: "leaves m \<Longrightarrow> (\<And>x. leaves (k x)) \<Longrightarrow> leaves (bind m k)"
  by (rule spec_bind) (auto intro: spec_mono app)

lemma leaves_bind_ok: "leaves m \<Longrightarrow> (\<And>x. leaves (k x)) \<Longrightarrow> leaves (bind_ok f m k)"
  by (rule spec_bind_ok) (auto intro: spec_mono app)

lemma leaves_try_catch: "leaves m \<Longrightarrow> (\<And>t. leaves (c t)) \<Longrightarrow> leaves (try_catch m c)"
  by (rule spec_try_catch [where Q = "\<lambda>_. C"]) (auto intro: spec_mono app)

lemma leaves_for_fold: "(\<And>s x. leaves (body s x)) \<Longrightarrow> leaves (for_fold xs body s)"
  by (induction xs arbitrary: s) (auto intro: leaves_ret leaves_bind)

lemma leaves_if: "leaves m \<Longrightarrow> leaves n \<Longrightarrow> leaves (if b then m else n)"
  by simp

lemma leaves_emits:
  assumes "emits m P" "\<And>es. \<forall>ev \<in> set es. P ev \<Longrightarrow> C es"
  shows "leaves m"
  using assms(1) unfolding emits_def by (rule spec_mono) (rule assms(2))

end

interpretation drafts: closed_log drafts_saved_first
proof
  show "drafts_saved_first []" by (simp add: drafts_saved_first_def)
  fix xs ys assume xs: "drafts_saved_first xs" and ys: "drafts_saved_first ys"
  show "drafts_saved_first (xs @ ys)"
    unfolding drafts_saved_first_def
  proof (intro allI impI)
    fix us p d b vs assume "xs @ ys = us @ DispatchDraftSend p d b # vs"
    then consider zs where "xs = us @ DispatchDraftSend p d b # zs" |
      zs where "us = xs @ zs" "ys = zs @ DispatchDraftSend p d b # vs"
      by (auto simp: append_eq_append_conv2 append_eq_Cons_conv)
    then show "d = 300 \<and> (\<exists>ev \<in> set us. draft_of p ev)"
      by cases (use xs ys in \<open>unfold drafts_saved_first_def, fastforce+\<close>)
  qed
qed

text \<open>Only a draft's own queueing needs care; everything else queues nothing.\<close>

lemma unqueued:
  assumes "\<forall>ev \<in> set es. \<not> (\<exists>p d b. ev = DispatchDraftSend p d b)"
  shows "drafts_saved_first es"
  unfolding drafts_saved_first_def using assms by fastforce

lemma save_draft_leaves: "drafts.leaves (save_draft e s t tmpl vars now b)"
proof -
  have queue: "spec (bind (dispatchDraftSend e p 300) (\<lambda>_. ret (0 :: nat)))
      (\<lambda>_ es. \<exists>b. es = [DispatchDraftSend p 300 b])" for p
    unfolding dispatchDraftSend_def by (rule spec_bind [OF spec_write]) (auto intro!: spec_ret)
  have fresh: "spec (new_signal_id e) (\<lambda>_ es. es = [FreshId])"
    unfolding new_signal_id_def by (rule spec_call) simp
  have save: "spec (saveSignal e x) (\<lambda>r es. es = [SaveSignal x (succeeded r)])" for x
    unfolding saveSignal_def by (rule spec_write) simp
  show ?thesis
    unfolding save_draft_def
    by (rule spec_bind [OF fresh], rule spec_bind [OF save])
       (auto intro!: spec_ret spec_mono [OF queue] unqueued split: sum.splits
         simp: drafts_saved_first_def Cons_eq_append_conv draft_of_def auto_draft_def)
qed

lemma auto_drafts_leaves: "drafts.leaves (auto_drafts e s t as)"
proof -
  have silent: "drafts.leaves m" if "emits m (\<lambda>ev. \<not> (\<exists>p d b. ev = DispatchDraftSend p d b))" for m :: "'b io"
    by (rule drafts.leaves_emits [OF that]) (rule unqueued)
  have funs: "drafts.leaves (for_fold fs (run_template_function e a s t tmpl) st)" for fs a tmpl st
    by (rule drafts.leaves_emits [OF template_functions_silent]) (rule unqueued, auto)
  have gates: "drafts.leaves (reply_to_gate e a s th b)" "drafts.leaves (automated_gate e a s th b)" for a th b
    by (rule drafts.leaves_emits [OF gates_silent(1)]; rule unqueued; auto)
       (rule drafts.leaves_emits [OF gates_silent(2)]; rule unqueued; auto)
  have read: "drafts.leaves (call_read n svc)" for n and svc :: "event list \<Rightarrow> 'b outcome"
    by (rule silent) (intro trace_intros, simp)
  have action: "drafts.leaves (draft_action e s t now ok a)" for now ok a
    unfolding draft_action_def
    by (auto intro!: drafts.leaves_bind drafts.leaves_ret read funs gates save_draft_leaves
        split: option.splits sum.splits prod.splits)
  have clock: "drafts.leaves (now_iso e)"
    by (rule silent) (simp add: now_iso_def emits_call)
  show ?thesis
    unfolding auto_drafts_def Let_def
    by (auto intro!: drafts.leaves_if drafts.leaves_try_catch drafts.leaves_bind drafts.leaves_ret drafts.leaves_for_fold
        read clock action split: prod.splits)
qed

text \<open>
  C10. A draft that sends itself is on record before it is on its way, and can be undone: whenever the side
  effects hand a draft to the send queue, it is with the delay of five minutes, and earlier in the
  same run that draft was saved successfully, as the user's, in the same thread and account, in the
  state that waits to be sent.
\<close>

theorem queued_drafts_saved_first:
  "\<exists>r es. processSideEffect e s t skipNotify receiveCount h = (r, h @ es) \<and> drafts_saved_first es"
proof -
  have silent: "drafts.leaves m" if "emits m (\<lambda>ev. \<not> (\<exists>p d b. ev = DispatchDraftSend p d b))" for m :: "'b io"
    by (rule drafts.leaves_emits [OF that]) (rule unqueued)
  have pong: "drafts.leaves (pong e a s th)" for a th
    by (rule silent)
       (unfold pong_def shouldPong_def senderMatchesAccountUser_def test_moment_def recently_created_def
          markTestEmailReceived_def now_instant_def store_defs Let_def,
        intro trace_intros, auto intro!: trace_intros split: send_error.splits)
  have stages: "drafts.leaves (current_thread e s t n)" "drafts.leaves (for_fold as (forward_one e s t') k)"
    "drafts.leaves (if b then notify_user e s t' else ret ())" "drafts.leaves (dispatchWorkflow e s t' a)"
    "drafts.leaves (forward_calendar e s t')" for n as t' k b a
    by (rule silent, rule effect_emits, simp, rule silent, rule effect_emits, simp, rule silent, rule emits_if,
        rule effect_emits, simp, rule emits_ret, (rule silent, rule effect_emits, simp_all)+)
  have "drafts.leaves (processSideEffect e s t skipNotify receiveCount)"
    unfolding processSideEffect_def Let_def
    by (intro drafts.leaves_bind_ok drafts.leaves_bind drafts.leaves_ret auto_drafts_leaves pong stages)
  then show ?thesis unfolding spec_def by (metis prod.collapse)
qed

end
