(* ===== verification/Reprocess.thy ===== *)
theory Reprocess
  imports Delivery Samples
begin

text \<open>
  Reprocessing a stored message (\<open>reprocessSignal\<close> and \<open>repairThreadRecency\<close> in
  \<open>processor/incoming-email-processor.ts\<close>): the thread it leaves is prepared, the message runs through
  the whole pipeline again under its own signal id, and the recency of the thread it came from is
  recomputed.
\<close>

definition EPOCH :: str where
  "EPOCH = ''1970-01-01T00:00:00.000Z''"

text \<open>The time a signal counts for; only email signals have one of their own.\<close>

definition signal_time :: "any_signal \<Rightarrow> str" where
  "signal_time s =
     (case sg_data s of DEmail d \<Rightarrow> if isEmailSignal s then eb_receivedAt (base_of d) else sg_createdAt s
      | _ \<Rightarrow> sg_createdAt s)"

definition newest_time :: "any_signal list \<Rightarrow> str" where
  "newest_time ss =
     (let m = foldl (\<lambda>mx s. if signal_time s > mx then signal_time s else mx) [] ss
      in if m = [] then EPOCH else m)"

definition no_fields :: update_thread_fields where
  "no_fields =
     \<lparr>uf_urgency = None, uf_labels = None, uf_summary = None, uf_workflow = None, uf_retentionDuration = None,
      uf_sentMessageIds = None, uf_sender = None, uf_recipientAddress = None, uf_subject = None,
      uf_followupAt = None\<rparr>"

definition repairThreadRecency :: "env \<Rightarrow> str \<Rightarrow> str \<Rightarrow> unit io" where
  "repairThreadRecency e accountId threadId =
     bind (call_read ''getThread'' (getThread (tdb e) accountId threadId)) (\<lambda>found.
     case found of
       Inr (Some t) \<Rightarrow>
         bind (call_read ''listSignals'' (listSignals (tdb e) accountId threadId 50)) (\<lambda>listed.
         case listed of
           Inl _ \<Rightarrow> ret ()
         | Inr ss \<Rightarrow>
             (if newest_time ss = th_lastSignalAt t then ret ()
              else bind (updateThread e accountId threadId (th_status t) (newest_time ss) no_fields) (\<lambda>_. ret ())))
     | _ \<Rightarrow> ret ())"

text \<open>A thread that the message leaves empty loses its vectors and gets a time to live if it has none.\<close>

definition empty_source_thread :: "env \<Rightarrow> str \<Rightarrow> str \<Rightarrow> str \<Rightarrow> unit io" where
  "empty_source_thread e accountId threadId signalId =
     bind (call_read ''listSignals'' (listSignals (tdb e) accountId threadId 2)) (\<lambda>listed.
     case listed of
       Inl _ \<Rightarrow> ret ()
     | Inr ss \<Rightarrow>
         (if filter (\<lambda>s. sg_id s \<noteq> signalId) ss \<noteq> [] then ret ()
          else bind (deleteEmbeddingsForThread e accountId threadId) (\<lambda>_.
               bind (now_seconds e) (\<lambda>now.
               bind (setThreadTtlFallback e accountId threadId (now + 5 * 365 * 24 * 60 * 60)) (\<lambda>_.
               ret ())))))"

definition reprocess_message :: "str \<Rightarrow> email_signal \<Rightarrow> inbound_message" where
  "reprocess_message accountId existing =
     \<lparr>im_expectedAccountId = Some accountId, im_s3Key = eb_s3Key (base_of (sg_data existing)),
      im_compositeMailMessageId = sg_signalLookupId existing, im_idempotencyKey = sg_id existing,
      im_timestamp = eb_receivedAt (base_of (sg_data existing)),
      im_primaryRecipient = eb_recipientAddress (base_of (sg_data existing)),
      im_dkimVerdict = VPass, im_dmarcVerdict = VPass\<rparr>"

definition reprocess_options :: "email_signal \<Rightarrow> bool \<Rightarrow> bool \<Rightarrow> process_options" where
  "reprocess_options existing skipNotify skipStatusActions =
     \<lparr>po_force = True, po_unsafeSkipDmarc = True, po_forceSignalId = Some (sg_id existing),
      po_skipNotify = skipNotify, po_skipStatusActions = skipStatusActions\<rparr>"

text \<open>The dash of an error message, in UTF-8\<close>

definition em_dash :: str where
  "em_dash = [CHR 0xE2, CHR 0x80, CHR 0x94]"

definition reprocess_error :: "app_error \<Rightarrow> app_error" where
  "reprocess_error err =
     (case err of ThreadIdCollisionError t x y \<Rightarrow> err | _ \<Rightarrow> processorError_of err)"

definition after_reprocess :: "env \<Rightarrow> str \<Rightarrow> email_signal \<Rightarrow> unit result \<Rightarrow> email_signal result io" where
  "after_reprocess e accountId existing r =
     (let repair = (case sg_threadId existing of
                      None \<Rightarrow> ret () | Some t \<Rightarrow> repairThreadRecency e accountId t)
      in case r of
           Inl err \<Rightarrow> bind repair (\<lambda>_. ret (Inl (reprocess_error err)))
         | Inr _ \<Rightarrow>
             bind_ok processorError_of
               (call_read ''getSignalByMessageId''
                 (getSignalByMessageId (tdb e) accountId (sg_signalLookupId existing))) (\<lambda>fresh.
             case fresh of
               None \<Rightarrow> ret (Inl (processorError ''Signal not found after reprocess''))
             | Some s \<Rightarrow> bind repair (\<lambda>_. ret (Inr s))))"

definition reprocessSignal ::
  "env \<Rightarrow> (json \<Rightarrow> str) \<Rightarrow> str \<Rightarrow> str \<Rightarrow> bool \<Rightarrow> bool \<Rightarrow> email_signal result io" where
  "reprocessSignal e z accountId signalLookupId skipNotify skipStatusActions =
     bind_ok processorError_of
       (call_read ''getSignalByMessageId'' (getSignalByMessageId (tdb e) accountId signalLookupId)) (\<lambda>found.
     case found of
       None \<Rightarrow> ret (Inl (NotFoundError ''signal'' signalLookupId))
     | Some existing \<Rightarrow>
         (if sg_type existing \<noteq> TyEmail then ret (Inl (processorError ''Only email signals can be reprocessed''))
          else if eb_s3Key (base_of (sg_data existing)) = []
          then ret (Inl (processorError (''Signal has no s3Key '' @ em_dash @ '' cannot reprocess'')))
          else
            bind (case sg_threadId existing of
                    None \<Rightarrow> ret ()
                  | Some t \<Rightarrow> empty_source_thread e accountId t (sg_id existing)) (\<lambda>_.
            bind (processInbound e z (reprocess_message accountId existing) 1
                    (reprocess_options existing skipNotify skipStatusActions)) (\<lambda>r.
            after_reprocess e accountId existing r))))"

section \<open>Recency\<close>

lemma foldl_newest:
  "foldl (\<lambda>mx s. if signal_time s > mx then signal_time s else mx) m ss = Max (insert m (signal_time ` set ss))"
proof (induction ss arbitrary: m)
  case (Cons s ss)
  have "(if signal_time s > m then signal_time s else m) = max m (signal_time s)"
    by (rule linorder_cases [of m "signal_time s"]) (auto simp: max_def dest: less_imp_le less_not_sym)
  with Cons.IH [of "max m (signal_time s)"] show ?case
    by (cases "ss = []") (auto simp: Max_insert max.assoc max.commute max.left_commute insert_commute)
qed simp

lemma Nil_least: "([] :: str) \<le> x"
  by (cases x) simp_all

lemma newest_time_Max:
  "newest_time ss = (if \<forall>s \<in> set ss. signal_time s = [] then EPOCH else Max (signal_time ` set ss))"
proof -
  have m: "foldl (\<lambda>mx s. if signal_time s > mx then signal_time s else mx) [] ss = Max (insert [] (signal_time ` set ss))"
    by (rule foldl_newest)
  show ?thesis
  proof (cases "\<forall>s \<in> set ss. signal_time s = []")
    case True
    then have e: "insert [] (signal_time ` set ss) = {[]}" by auto
    show ?thesis using True unfolding newest_time_def m e by simp
  next
    case False
    then obtain s where s: "s \<in> set ss" "signal_time s \<noteq> []" by blast
    then have ne: "signal_time ` set ss \<noteq> {}" by auto
    have "Max (insert [] (signal_time ` set ss)) = max [] (Max (signal_time ` set ss))"
      using ne by (simp add: Max_insert)
    also have "\<dots> = Max (signal_time ` set ss)" by (simp add: max_absorb2 Nil_least)
    finally have eq: "Max (insert [] (signal_time ` set ss)) = Max (signal_time ` set ss)" .
    have "signal_time s \<le> Max (signal_time ` set ss)" using s by simp
    then have "Max (signal_time ` set ss) \<noteq> []" using s(2) Nil_least [of "signal_time s"] by auto
    with False eq m show ?thesis by (auto simp: newest_time_def Let_def)
  qed
qed

text \<open>
  Repairing the recency of a thread makes it the latest time among its signals, or the epoch when it
  has none: with the thread and its signals readable, the repair writes the thread at most once, only
  when its recency is not already right, and changes nothing but the recency.
\<close>

theorem recency_repaired:
  assumes "\<And>h. getThread (tdb e) a t h = Done (Inr (Some th))" "\<And>h. listSignals (tdb e) a t 50 h = Done (Inr ss)"
  shows "(\<exists>b. snd (repairThreadRecency e a t h) = h @ [Read ''getThread'', Read ''listSignals''] @
      (if newest_time ss = th_lastSignalAt th then [] else [UpdateThread a t (th_status th) (newest_time ss) no_fields b])) \<and>
    newest_time ss = (if \<forall>s \<in> set ss. signal_time s = [] then EPOCH else Max (signal_time ` set ss))"
proof
  show "\<exists>b. snd (repairThreadRecency e a t h) = h @ [Read ''getThread'', Read ''listSignals''] @
      (if newest_time ss = th_lastSignalAt th then [] else [UpdateThread a t (th_status th) (newest_time ss) no_fields b])"
    by (auto simp: repairThreadRecency_def bind_def call_read_def call_apply assms ret_apply updateThread_def
        call_write_def split: outcome.splits prod.splits)
qed (rule newest_time_Max)

end
