(* ===== verification/Mime.thy ===== *)
theory Mime
  imports Mailbox Regex
begin

text \<open>
  The RFC 5322 message builder (\<open>email/mime-builder.ts\<close>) and what a reader of the message sees of
  its header block.

  Parameters: \<open>b64utf8\<close> and \<open>b64\<close> are Node's base64 of a text and of bytes, \<open>u1\<close> and \<open>u2\<close> the two
  random UUIDs of a message. The date is given as \<open>toUTCString()\<close> writes it.
\<close>

record mime_options =
  mm_from :: str
  mm_to :: str
  mm_cc :: "str option"
  mm_bcc :: "str option"
  mm_subject :: str
  mm_textBody :: str
  mm_htmlBody :: "str option"
  mm_calendarMethod :: "str option"
  mm_headers :: "(str \<times> str) list"
  mm_attachments :: "(str \<times> str \<times> str) list"
  mm_date :: str

abbreviation CRLF :: str where "CRLF \<equiv> [CR, LF]"

definition sanitizeHeaderValue :: "str \<Rightarrow> str" where
  "sanitizeHeaderValue v = trim (strip_breaks v)"

definition encodeUnstructured :: "(str \<Rightarrow> str) \<Rightarrow> str \<Rightarrow> str" where
  "encodeUnstructured b64utf8 v =
     (let clean = sanitizeHeaderValue v in if ascii_printable clean then clean else encodeWord b64utf8 clean)"

text \<open>\<open>/^(.*?)\s*<([^>]+)>$/\<close>: the preferred match that ends at the end\<close>

definition mailboxPattern :: re where
  "mailboxPattern =
     foldr Seq [Cap 1 (Star False (Cls (\<lambda>c. \<not> is_break c))), Star True (Cls is_space), lit ''<'',
                Cap 2 (plus_re (Cls (\<lambda>c. c \<noteq> CHR ''>'')))] (lit ''>'')"

definition match_mailbox :: "str \<Rightarrow> (str \<times> str) option" where
  "match_mailbox s =
     (case find (\<lambda>q. fst q = []) (matches mailboxPattern (s, [])) of
        None \<Rightarrow> None
      | Some (_, c) \<Rightarrow> Some (nullish (map_of c 1) [], nullish (map_of c 2) []))"

text \<open>\<open>replace(/^"|"$/g, "")\<close>\<close>

definition strip_quotes :: "str \<Rightarrow> str" where
  "strip_quotes s =
     (let t = (case s of c # cs \<Rightarrow> if c = QUOTE then cs else s | [] \<Rightarrow> [])
      in if t \<noteq> [] \<and> last t = QUOTE then butlast t else t)"

definition encode_entry :: "(str \<Rightarrow> str) \<Rightarrow> str \<Rightarrow> str" where
  "encode_entry b64utf8 entry =
     (let trimmed_entry = trim entry
      in case match_mailbox trimmed_entry of
           None \<Rightarrow> if ascii_printable trimmed_entry then trimmed_entry else encodeWord b64utf8 trimmed_entry
         | Some (name, address) \<Rightarrow>
             (let displayName = trim (strip_quotes name)
              in if displayName = [] then ''<'' @ address @ ''>''
                 else (if ascii_printable displayName then [QUOTE] @ displayName @ [QUOTE]
                       else encodeWord b64utf8 displayName) @ '' <'' @ address @ ''>''))"

definition encodeAddressList :: "(str \<Rightarrow> str) \<Rightarrow> str \<Rightarrow> str" where
  "encodeAddressList b64utf8 v =
     (let clean = sanitizeHeaderValue v
      in if ascii_printable clean then clean
         else join '', '' (map (encode_entry b64utf8) (splitAddressList clean)))"

text \<open>The base64 alphabet has no line breaks, so the pattern of 76 characters cuts it evenly.\<close>

fun chunks76 :: "str \<Rightarrow> str list" where
  "chunks76 [] = []"
| "chunks76 (c # cs) = take 76 (c # cs) # chunks76 (drop 76 (c # cs))"

definition encodeBody :: "(str \<Rightarrow> str) \<Rightarrow> str \<Rightarrow> str" where
  "encodeBody b64utf8 body = join CRLF (chunks76 (b64utf8 body))"

definition RESERVED_HEADERS :: "str list" where
  "RESERVED_HEADERS =
     [''from'', ''to'', ''cc'', ''bcc'', ''subject'', ''date'', ''mime-version'', ''content-type'',
      ''content-transfer-encoding'']"

definition calendar_method :: "str \<Rightarrow> str" where
  "calendar_method m =
     (let t = takeWhile is_letter (trim m) in to_upper (if t = [] then ''REQUEST'' else t))"

text \<open>\<open>replace("GMT", "+0000")\<close>: the first occurrence\<close>

definition utc_offset :: "str \<Rightarrow> str" where
  "utc_offset d = (case search (lit ''GMT'') d of None \<Rightarrow> d | Some (p, t, c, q) \<Rightarrow> p @ ''+0000'' @ q)"

section \<open>The header block\<close>

definition address_lines :: "(str \<Rightarrow> str) \<Rightarrow> mime_options \<Rightarrow> str list" where
  "address_lines b64utf8 o' =
     [''From: '' @ encodeAddressList b64utf8 (mm_from o'), ''To: '' @ encodeAddressList b64utf8 (mm_to o')] @
     (if truthy (mm_cc o') then [''Cc: '' @ encodeAddressList b64utf8 (the (mm_cc o'))] else []) @
     (if truthy (mm_bcc o') then [''Bcc: '' @ encodeAddressList b64utf8 (the (mm_bcc o'))] else []) @
     [''Subject: '' @ encodeUnstructured b64utf8 (mm_subject o'), ''Date: '' @ utc_offset (mm_date o'),
      ''MIME-Version: 1.0'']"

definition inner_lines :: "str \<Rightarrow> mime_options \<Rightarrow> str list" where
  "inner_lines u1 o' =
     (case mm_calendarMethod o' of
        Some m \<Rightarrow>
          [''Content-Type: text/calendar; method='' @ calendar_method m @ ''; charset=UTF-8'',
           ''Content-Transfer-Encoding: base64'']
      | None \<Rightarrow>
          (if truthy (mm_htmlBody o')
           then [''Content-Type: multipart/alternative; boundary='' @ [QUOTE] @ ''alt_'' @ u1 @ [QUOTE]]
           else [''Content-Type: text/plain; charset=UTF-8'', ''Content-Transfer-Encoding: base64'']))"

text \<open>The extra headers that survive, with their sanitized values\<close>

definition kept_headers :: "mime_options \<Rightarrow> (str \<times> str) list" where
  "kept_headers o' =
     filter (\<lambda>(n, v). v \<noteq> [])
       (map (\<lambda>(n, v). (n, sanitizeHeaderValue v))
         (filter (\<lambda>(n, v). to_lower n \<notin> set RESERVED_HEADERS) (mm_headers o')))"

definition extra_lines :: "(str \<Rightarrow> str) \<Rightarrow> mime_options \<Rightarrow> str list" where
  "extra_lines b64utf8 o' =
     map (\<lambda>(n, v). sanitizeHeaderValue n @ '': '' @ (if ascii_printable v then v else encodeWord b64utf8 v)) (kept_headers o')"

definition attachments_of :: "mime_options \<Rightarrow> (str \<times> str \<times> str) list" where
  "attachments_of o' = (if mm_calendarMethod o' \<noteq> None then [] else mm_attachments o')"

definition header_lines :: "(str \<Rightarrow> str) \<Rightarrow> str \<Rightarrow> str \<Rightarrow> mime_options \<Rightarrow> str list" where
  "header_lines b64utf8 u1 u2 o' =
     (if attachments_of o' = []
      then address_lines b64utf8 o' @ inner_lines u1 o' @ extra_lines b64utf8 o'
      else address_lines b64utf8 o' @
           [''Content-Type: multipart/mixed; boundary='' @ [QUOTE] @ ''mixed_'' @ u2 @ [QUOTE]] @
           extra_lines b64utf8 o')"

section \<open>The body\<close>

definition inner_body :: "(str \<Rightarrow> str) \<Rightarrow> str \<Rightarrow> mime_options \<Rightarrow> str" where
  "inner_body b64utf8 u1 o' =
     (if truthy (mm_htmlBody o') \<and> mm_calendarMethod o' = None
      then ''--alt_'' @ u1 @ CRLF @ ''Content-Type: text/plain; charset=UTF-8'' @ CRLF @
           ''Content-Transfer-Encoding: base64'' @ CRLF @ CRLF @ encodeBody b64utf8 (mm_textBody o') @ CRLF @ CRLF @
           ''--alt_'' @ u1 @ CRLF @ ''Content-Type: text/html; charset=UTF-8'' @ CRLF @
           ''Content-Transfer-Encoding: base64'' @ CRLF @ CRLF @ encodeBody b64utf8 (the (mm_htmlBody o')) @ CRLF @ CRLF @
           ''--alt_'' @ u1 @ ''--'' @ CRLF
      else encodeBody b64utf8 (mm_textBody o') @ CRLF)"

definition or_default :: "str \<Rightarrow> str \<Rightarrow> str" where
  "or_default v d = (if v = [] then d else v)"

definition attachment_part :: "(str \<Rightarrow> str) \<Rightarrow> (str \<Rightarrow> str) \<Rightarrow> str \<Rightarrow> str \<times> str \<times> str \<Rightarrow> str" where
  "attachment_part b64utf8 b64 u2 = (\<lambda>(name, mimeType, content).
     (let filename = or_default (sanitizeHeaderValue name) ''attachment'';
          encodedName = (if ascii_printable filename then [QUOTE] @ filename @ [QUOTE] else encodeWord b64utf8 filename);
          mt = or_default (sanitizeHeaderValue mimeType) ''application/octet-stream''
      in ''--mixed_'' @ u2 @ CRLF @ ''Content-Type: '' @ mt @ ''; name='' @ encodedName @ CRLF @
         ''Content-Transfer-Encoding: base64'' @ CRLF @
         ''Content-Disposition: attachment; filename='' @ encodedName @ CRLF @ CRLF @
         join CRLF (chunks76 (b64 content)) @ CRLF @ CRLF))"

definition buildMimeMessage :: "(str \<Rightarrow> str) \<Rightarrow> (str \<Rightarrow> str) \<Rightarrow> str \<Rightarrow> str \<Rightarrow> mime_options \<Rightarrow> str" where
  "buildMimeMessage b64utf8 b64 u1 u2 o' =
     (let innerBody = inner_body b64utf8 u1 o'; headerBlock = join CRLF (header_lines b64utf8 u1 u2 o')
      in if attachments_of o' = [] then headerBlock @ CRLF @ CRLF @ innerBody
         else headerBlock @ CRLF @ CRLF @
           ''--mixed_'' @ u2 @ CRLF @ join CRLF (inner_lines u1 o') @ CRLF @ CRLF @
           innerBody @ (if ends_with innerBody CRLF then [] else CRLF) @
           concat (map (attachment_part b64utf8 b64 u2) (attachments_of o')) @
           ''--mixed_'' @ u2 @ ''--'' @ CRLF)"

section \<open>What a reader sees\<close>

text \<open>The lines of a message up to its first empty line, and the name of a header field\<close>

fun read_line :: "str \<Rightarrow> str \<times> str" where
  "read_line [] = ([], [])"
| "read_line [c] = ([c], [])"
| "read_line (c # d # ds) =
     (if c = CR \<and> d = LF then ([], ds) else (c # fst (read_line (d # ds)), snd (read_line (d # ds))))"

lemma read_line_length: "length (snd (read_line s)) \<le> length s"
  by (induction s rule: read_line.induct) auto

lemma read_line_shorter: "fst (read_line s) \<noteq> [] \<Longrightarrow> length (snd (read_line s)) < length s"
proof (induction s rule: read_line.induct)
  case (3 c d ds)
  have "length (snd (read_line (d # ds))) \<le> length (d # ds)" by (rule read_line_length)
  with 3 show ?case by (auto split: if_splits)
qed simp_all

function read_headers :: "str \<Rightarrow> str list" where
  "read_headers s = (if fst (read_line s) = [] then [] else fst (read_line s) # read_headers (snd (read_line s)))"
  by pat_completeness auto
termination by (relation "measure length") (auto intro: read_line_shorter)

declare read_headers.simps [simp del]

definition field_name :: "str \<Rightarrow> str" where
  "field_name l = takeWhile (\<lambda>c. c \<noteq> CHR '':'') l"

section \<open>Text without line breaks\<close>

definition flat :: "str \<Rightarrow> bool" where
  "flat s \<longleftrightarrow> (\<forall>c \<in> set s. \<not> is_break c)"

lemma flat_simps [simp]:
  "flat []" "flat (c # cs) \<longleftrightarrow> \<not> is_break c \<and> flat cs" "flat (xs @ ys) \<longleftrightarrow> flat xs \<and> flat ys"
  by (auto simp: flat_def)

lemma flat_sub: "flat s \<Longrightarrow> set t \<subseteq> set s \<Longrightarrow> flat t"
  by (auto simp: flat_def)

lemma flat_trim: "flat s \<Longrightarrow> flat (trim s)"
  by (rule flat_sub [OF _ set_trim])

lemma flat_strip_breaks: "flat (strip_breaks s)"
proof (induction s)
  case (Cons c cs)
  have space: "\<not> is_break (CHR '' '')" by (simp add: is_break_def)
  have "strip_breaks (c # cs) \<in> {'' '', strip_breaks cs, CHR '' '' # strip_breaks cs} \<or>
    \<not> is_break c \<and> strip_breaks (c # cs) = c # strip_breaks cs"
    by (simp split: list.split)
  then show ?case using Cons space by auto
qed simp

lemma flat_sanitize [simp]: "flat (sanitizeHeaderValue v)"
  by (simp add: sanitizeHeaderValue_def flat_trim flat_strip_breaks)

lemma flat_join: "flat sep \<Longrightarrow> (\<And>x. x \<in> set xs \<Longrightarrow> flat x) \<Longrightarrow> flat (join sep xs)"
  by (induction sep xs rule: join.induct) auto

lemma set_split_go: "p \<in> set (split_go s cur q b) \<Longrightarrow> set p \<subseteq> set cur \<union> set s"
proof (induction s cur q b rule: split_go.induct)
  case (1 cur q b)
  then show ?case using set_trim [of cur] by (auto split: if_splits)
next
  case (2 ch rest cur q b)
  show ?case
  proof (cases "ch = BACKSLASH \<and> q")
    case True
    then show ?thesis using 2(1,2) 2(5) by (cases rest) auto
  next
    case False
    obtain q' b' where qb: "quote_state ch q b = (q', b')" by fastforce
    show ?thesis
    proof (cases "ch = CHR '','' \<and> \<not> q' \<and> \<not> b'")
      case True
      have "p = trim cur \<or> p \<in> set (split_go rest [] q' b')" using 2(5) False qb True by auto
      then show ?thesis using 2(3) [OF False qb [symmetric] True] set_trim [of cur] by auto
    next
      case f: False
      have "p \<in> set (split_go rest (cur @ [ch]) q' b')" using 2(5) False qb f by auto
      from 2(4) [OF False qb [symmetric] f this] show ?thesis by auto
    qed
  qed
qed

lemma flat_split: "flat s \<Longrightarrow> p \<in> set (splitAddressList s) \<Longrightarrow> flat p"
  using set_split_go [of p s "[]" False False] by (auto simp: splitAddressList_def intro: flat_sub)

text \<open>The groups of a match are pieces of the text.\<close>

definition pieces :: "str \<times> caps \<Rightarrow> char set" where
  "pieces p = set (fst p) \<union> (\<Union>(n, t) \<in> set (snd p). set t)"

lemma star_iter_pieces:
  assumes "\<And>p q. q \<in> set (f p) \<Longrightarrow> pieces q \<subseteq> pieces p"
  shows "q \<in> set (star_iter f g n p) \<Longrightarrow> pieces q \<subseteq> pieces p"
proof (induction n arbitrary: p)
  case (Suc n)
  from Suc.prems consider "q = p" | r where "r \<in> set (f p)" "q \<in> set (star_iter f g n r)"
    by (auto simp: Let_def split: if_splits)
  then show ?case by cases (use assms Suc.IH in \<open>blast+\<close>)
qed simp

lemma matches_pieces: "q \<in> set (matches r p) \<Longrightarrow> pieces q \<subseteq> pieces p"
proof (induction r arbitrary: p q)
  case (Cls P)
  then show ?case by (cases "fst p") (auto simp: pieces_def split: if_splits)
next
  case (Seq r1 r2)
  from Seq.prems obtain u where u: "u \<in> set (matches r1 p)" "q \<in> set (matches r2 u)" by auto
  from Seq.IH(1) [OF u(1)] Seq.IH(2) [OF u(2)] show ?case by blast
next
  case (Star g r)
  from Star.prems have q: "q \<in> set (star_iter (matches r) g (length (fst p)) p)" by simp
  show ?case by (rule star_iter_pieces [OF Star.IH q]) simp
next
  case (Cap n r)
  then obtain u where u: "u \<in> set (matches r p)"
    "q = (fst u, (n, take (length (fst p) - length (fst u)) (fst p)) # snd u)" by auto
  have "pieces u \<subseteq> pieces p" using Cap.IH u(1) .
  then show ?case using u(2) by (auto simp: pieces_def dest: in_set_takeD)
next
  case (Alt r1 r2)
  from Alt.prems have "q \<in> set (matches r1 p) \<or> q \<in> set (matches r2 p)" by simp
  then show ?case using Alt.IH by blast
qed simp_all

lemma flat_match:
  assumes "flat s" "match_mailbox s = Some (name, address)"
  shows "flat name \<and> flat address"
proof -
  from assms(2) obtain q c where f: "find (\<lambda>q. fst q = []) (matches mailboxPattern (s, [])) = Some (q, c)"
    and n: "name = nullish (map_of c 1) []" "address = nullish (map_of c 2) []"
    by (auto simp: match_mailbox_def split: option.splits)
  from f have "(q, c) \<in> set (matches mailboxPattern (s, []))" by (auto simp: find_Some_iff)
  then have p: "pieces (q, c) \<subseteq> set s"
    using matches_pieces [of "(q, c)" mailboxPattern "(s, [])"] by (simp add: pieces_def)
  have groups: "set t \<subseteq> set s" if "map_of c k = Some t" for k t
  proof -
    have "(k, t) \<in> set c" using that by (rule map_of_SomeD)
    then have "set t \<subseteq> pieces (q, c)" by (fastforce simp: pieces_def)
    with p show ?thesis by blast
  qed
  have "flat (nullish (map_of c k) [])" for k
    using groups [of k] assms(1) flat_sub by (cases "map_of c k") auto
  then show ?thesis using n by simp
qed

section \<open>The header lines have no line breaks\<close>

lemma flat_encodeWord [simp]: "(\<And>v. flat (b v)) \<Longrightarrow> flat (encodeWord b v)"
  by (simp add: encodeWord_def is_break_def)

lemma set_strip_quotes: "set (strip_quotes s) \<subseteq> set s"
  by (auto simp: strip_quotes_def Let_def split: list.splits dest: in_set_butlastD)

lemma flat_strip_quotes: "flat s \<Longrightarrow> flat (strip_quotes s)"
  by (rule flat_sub [OF _ set_strip_quotes])

lemma flat_encode_entry:
  assumes "\<And>v. flat (b v)" "flat s"
  shows "flat (encode_entry b s)"
  using flat_match [of "trim s"] flat_trim [OF assms(2)] assms(1)
  by (auto simp: encode_entry_def Let_def flat_trim flat_strip_quotes is_break_def split: option.splits)

lemma flat_encodeAddressList: "(\<And>v. flat (b v)) \<Longrightarrow> flat (encodeAddressList b v)"
proof -
  assume b: "\<And>v. flat (b v)"
  have "flat (encode_entry b x)" if "x \<in> set (splitAddressList (sanitizeHeaderValue v))" for x
    using b flat_split [OF flat_sanitize that] by (rule flat_encode_entry)
  then have "flat (join '', '' (map (encode_entry b) (splitAddressList (sanitizeHeaderValue v))))"
    by (intro flat_join) (auto simp: is_break_def)
  then show ?thesis by (simp add: encodeAddressList_def Let_def)
qed

lemma flat_encodeUnstructured: "(\<And>v. flat (b v)) \<Longrightarrow> flat (encodeUnstructured b v)"
  by (simp add: encodeUnstructured_def Let_def)

lemma flat_utc: "flat d \<Longrightarrow> flat (utc_offset d)"
  using search_append [of "lit ''GMT''" d]
  by (auto simp: utc_offset_def is_break_def split: option.splits)

lemma letter_unbroken: "is_letter c \<Longrightarrow> \<not> is_break (upper_char c)"
proof
  assume "is_break (upper_char c)" "is_letter c"
  then have "of_char (upper_char c) = (13 :: nat) \<or> of_char (upper_char c) = (10 :: nat)"
    by (auto simp: is_break_def)
  with \<open>is_letter c\<close> show False
    by (auto simp: upper_char_def is_letter_def Let_def split: if_splits)
qed

lemma flat_to_upper: "(\<And>c. c \<in> set t \<Longrightarrow> is_letter c) \<Longrightarrow> flat (to_upper t)"
  by (simp add: to_upper_def flat_def letter_unbroken)

lemma flat_method: "flat (calendar_method m)"
proof -
  have "flat (to_upper ''REQUEST'')"
    by (rule flat_to_upper) (auto simp: is_letter_def)
  moreover have "flat (to_upper (takeWhile is_letter (trim m)))"
    by (rule flat_to_upper) (auto dest: set_takeWhileD)
  ultimately show ?thesis unfolding calendar_method_def Let_def by (simp only: split: if_split) blast
qed

lemma flat_header_lines:
  assumes "\<And>v. flat (b v)" "flat u1" "flat u2" "flat (mm_date o')" "l \<in> set (header_lines b u1 u2 o')"
  shows "flat l"
  using assms
  by (auto simp: header_lines_def address_lines_def inner_lines_def extra_lines_def is_break_def flat_method
      flat_encodeAddressList flat_encodeUnstructured flat_utc kept_headers_def split: if_splits option.splits)

lemma header_lines_nonempty: "l \<in> set (header_lines b u1 u2 o') \<Longrightarrow> l \<noteq> []"
  by (auto simp: header_lines_def address_lines_def inner_lines_def extra_lines_def split: if_splits option.splits)

section \<open>Reading the block back\<close>

lemma read_line_flat: "flat l \<Longrightarrow> read_line (l @ CRLF @ r) = (l, r)"
proof (induction l)
  case (Cons c l)
  then have c: "c \<noteq> CR" by (auto simp: is_break_def)
  show ?case using Cons c by (cases l) auto
qed simp

lemma read_headers_line: "flat l \<Longrightarrow> l \<noteq> [] \<Longrightarrow> read_headers (l @ CRLF @ r) = l # read_headers r"
  by (subst read_headers.simps) (simp add: read_line_flat [simplified])

lemma read_headers_end: "read_headers (CRLF @ r) = []"
  by (subst read_headers.simps) simp

lemma read_headers_join:
  "(\<And>l. l \<in> set ls \<Longrightarrow> flat l \<and> l \<noteq> []) \<Longrightarrow> ls \<noteq> [] \<Longrightarrow> read_headers (join CRLF ls @ CRLF @ CRLF @ r) = ls"
proof (induction ls)
  case (Cons l ls)
  show ?case
  proof (cases ls)
    case Nil
    then show ?thesis using Cons.prems read_headers_line [of l "CRLF @ r"] read_headers_end by simp
  next
    case (Cons l' ls')
    have "join CRLF (l # ls) @ CRLF @ CRLF @ r = l @ CRLF @ (join CRLF ls @ CRLF @ CRLF @ r)"
      using Cons by simp
    then show ?thesis
      using Cons.prems Cons.IH Cons read_headers_line [of l "join CRLF ls @ CRLF @ CRLF @ r"] by auto
  qed
qed simp

lemma read_headers_message:
  assumes "\<And>v. flat (b v)" "flat u1" "flat u2" "flat (mm_date o')"
  shows "read_headers (buildMimeMessage b b' u1 u2 o') = header_lines b u1 u2 o'"
proof -
  have ls: "header_lines b u1 u2 o' \<noteq> []" by (simp add: header_lines_def address_lines_def)
  have "read_headers (join CRLF (header_lines b u1 u2 o') @ CRLF @ CRLF @ r) = header_lines b u1 u2 o'" for r
    by (rule read_headers_join [OF _ ls]) (use assms flat_header_lines header_lines_nonempty in blast)
  then show ?thesis by (simp only: buildMimeMessage_def Let_def split: if_split) simp
qed

text \<open>The fields a reader sees, in order\<close>

definition field_names :: "mime_options \<Rightarrow> str list" where
  "field_names o' =
     [''From'', ''To''] @ (if truthy (mm_cc o') then [''Cc''] else []) @ (if truthy (mm_bcc o') then [''Bcc''] else []) @
     [''Subject'', ''Date'', ''MIME-Version'', ''Content-Type''] @
     (if attachments_of o' = [] \<and> (mm_calendarMethod o' \<noteq> None \<or> \<not> truthy (mm_htmlBody o'))
      then [''Content-Transfer-Encoding''] else []) @
     map (\<lambda>(n, v). takeWhile (\<lambda>c. c \<noteq> CHR '':'') (sanitizeHeaderValue n)) (kept_headers o')"

lemma field_name_prefix: "field_name (n @ CHR '':'' # v) = takeWhile (\<lambda>c. c \<noteq> CHR '':'') n"
  by (induction n) (auto simp: field_name_def)

lemma field_names_lines: "map field_name (header_lines b u1 u2 o') = field_names o'"
proof -
  have e: "map field_name (extra_lines b o') =
      map (\<lambda>(n, v). takeWhile (\<lambda>c. c \<noteq> CHR '':'') (sanitizeHeaderValue n)) (kept_headers o')"
    by (auto simp: extra_lines_def field_name_prefix)
  have a: "map field_name (address_lines b o') =
      [''From'', ''To''] @ (if truthy (mm_cc o') then [''Cc''] else []) @ (if truthy (mm_bcc o') then [''Bcc''] else []) @
      [''Subject'', ''Date'', ''MIME-Version'']"
    by (simp add: address_lines_def field_name_def)
  have i: "map field_name (inner_lines u1 o') =
      ''Content-Type'' # (if mm_calendarMethod o' \<noteq> None \<or> \<not> truthy (mm_htmlBody o')
        then [''Content-Transfer-Encoding''] else [])"
    by (simp add: inner_lines_def field_name_def split: option.split)
  have m: "field_name (''Content-Type: multipart/mixed; boundary='' @ [QUOTE] @ ''mixed_'' @ u2 @ [QUOTE]) = ''Content-Type''"
    by (simp add: field_name_def)
  show ?thesis
    using a i e m by (simp add: header_lines_def field_names_def del: append.simps)
qed

lemma kept_nonempty: "(n, v) \<in> set (kept_headers o') \<Longrightarrow> v \<noteq> [] \<and> to_lower n \<notin> set RESERVED_HEADERS"
  by (auto simp: kept_headers_def)


definition injecting :: mime_options where
  "injecting =
     \<lparr>mm_from = ''a@x.io'', mm_to = ''b@y.io'', mm_cc = None, mm_bcc = Some [], mm_subject = ''hi'' @ CRLF @ ''Bcc: c@z.io'',
      mm_textBody = ''t'', mm_htmlBody = None, mm_calendarMethod = None,
      mm_headers = [(''X-A'', ''1'' @ [LF] @ ''To: d''), (''BCC'', ''e@z.io''), (''X-B'', [CR])],
      mm_attachments = [], mm_date = ''Thu GMT''\<rparr>"


end
