(* ===== verification/Ses.thy ===== *)
theory Ses
  imports Mime Bounce
begin

text \<open>
  Outbound mail: the data, the events and the services of every send, and the \<open>EmailService\<close>
  (\<open>email/email-service.ts\<close>, \<open>email/tag-sanitizer.ts\<close>) that turns a send into a request to SES.

  The events of outbound mail carry what a read returned, so that a property can speak of the reads a
  send was based on. A request to SES that throws is answered with the exception, because the code
  catches it on the spot.
\<close>

section \<open>Data\<close>

type_synonym tag_list = "(str \<times> str) list"

datatype email_send_type =
    StHealthcheck | StDigest | StOnboarding | StAccountInvite | StForwardVerification | StForward
  | StReplySend | StPongSend | StDraft | StCalendarForward | StCalendarRsvp

fun send_type_name :: "email_send_type \<Rightarrow> str" where
  "send_type_name StHealthcheck = ''healthcheck''"
| "send_type_name StDigest = ''digest''"
| "send_type_name StOnboarding = ''onboarding''"
| "send_type_name StAccountInvite = ''account-invite''"
| "send_type_name StForwardVerification = ''forward-verification''"
| "send_type_name StForward = ''forward''"
| "send_type_name StReplySend = ''reply''"
| "send_type_name StPongSend = ''pong''"
| "send_type_name StDraft = ''draft-send''"
| "send_type_name StCalendarForward = ''calendar-forward''"
| "send_type_name StCalendarRsvp = ''calendar-rsvp''"

record email_send_options =
  eo_to :: "str list"
  eo_cc :: "str list"
  eo_bcc :: "str list"
  eo_subject :: str
  eo_textBody :: str
  eo_htmlBody :: "str option"
  eo_sendType :: email_send_type
  eo_headers :: tag_list
  eo_tags :: tag_list
  eo_fromSender :: "str option"
  eo_accountId :: str

record email_raw_options =
  er_to :: "str list"
  er_cc :: "str list"
  er_bcc :: "str list"
  er_rawData :: str
  er_sendType :: email_send_type
  er_tags :: tag_list
  er_fromSender :: "str option"
  er_accountId :: str

datatype ses_content = Simple str str "str option" tag_list | Raw str

record ses_request =
  sr_from :: str
  sr_to :: "str list"
  sr_cc :: "str list"
  sr_bcc :: "str list"
  sr_content :: ses_content
  sr_configSet :: str
  sr_tenant :: str
  sr_tags :: "tag_list option"

record ses_exception =
  sx_name :: "str option"
  sx_message :: "str option"
  sx_httpStatus :: "int option"

datatype email_error =
    TransientSesError str int
  | PermanentSesError str int str
  | InvalidArgumentError str

datatype emx_platform = Gmail | Outlook | Imap | Jmap

datatype emx_status = EmxActive | EmxActivationFailed

record external_exchange =
  ex_id :: str
  ex_accountId :: str
  ex_platform :: emx_platform
  ex_emailAddress :: str
  ex_status :: emx_status
  ex_syncCursor :: "str option"
  ex_syncState :: "jobj option"
  ex_expiresAt :: "str option"
  ex_lastSyncAt :: "str option"
  ex_providerSubscriptionId :: "str option"
  ex_userId :: "str option"
  ex_connectionUserId :: "str option"
  ex_connectionId :: "str option"
  ex_encryptionCertificateId :: "str option"
  ex_errorReason :: "str option"
  ex_imapConfig :: "jobj option"
  ex_jmapConfig :: "jobj option"
  ex_pushSubscriptionId :: "str option"
  ex_nextSyncTime :: "str option"
  ex_consecutiveFailures :: "int option"
  ex_createdAt :: str
  ex_updatedAt :: str

datatype provider_send_error =
    ProviderSendFailed str | ProviderTokenExpired | ProviderSendScopeMissing str | ProviderSendRejected str

section \<open>Events and services\<close>

datatype mail_event =
    SuppressionCheck str
  | SesSend ses_request bool
  | ProviderSend external_exchange str bool
  | AliasRead str str "alias_rec option option"
  | ExchangeRead str str "external_exchange option option"
  | DomainRead str str "domain_rec option option"
  | SignalRead str str str "any_signal option option"
  | ContentRead str
  | ResolveMx str
  | Resolve4 str
  | StatusUpdate str str send_status_update bool
  | ClockRead

type_synonym 'a mio = "(mail_event, 'a) prog"
type_synonym 'a manswer = "mail_event list \<Rightarrow> (app_error + 'a) outcome"

definition answered :: "('e + 'a) outcome \<Rightarrow> 'a option" where
  "answered r = (case r of Done (Inr x) \<Rightarrow> Some x | _ \<Rightarrow> None)"

lemma answered_simps [simp]:
  "answered (Done (Inr x)) = Some x" "answered (Done (Inl e)) = None" "answered (Threw t) = None"
  by (simp_all add: answered_def)

record mail_env =
  sesClientSend :: "ses_request \<Rightarrow> mail_event list \<Rightarrow> ses_exception + str option"
  isAddressSuppressed :: "(str \<Rightarrow> bool manswer) option"
  adapterSendMessage :: "str \<Rightarrow> external_exchange \<Rightarrow> mail_event list \<Rightarrow> (provider_send_error + str \<times> str option) outcome"
  mailGetAlias :: "str \<Rightarrow> str \<Rightarrow> alias_rec option manswer"
  mailGetExchange :: "str \<Rightarrow> str \<Rightarrow> external_exchange option manswer"
  mailGetDomain :: "str \<Rightarrow> str \<Rightarrow> domain_rec option manswer"
  mailGetSignal :: "str \<Rightarrow> str \<Rightarrow> str \<Rightarrow> any_signal option manswer"
  mailGetContent :: "str \<Rightarrow> mail_event list \<Rightarrow> str outcome"
  mailUpdateStatus :: "str \<Rightarrow> str \<Rightarrow> send_status_update \<Rightarrow> unit manswer"
  dnsMx :: "str \<Rightarrow> mail_event list \<Rightarrow> nat outcome"
  dnsA :: "str \<Rightarrow> mail_event list \<Rightarrow> nat outcome"
  mailNow :: "mail_event list \<Rightarrow> str"
  platformFrom :: str
  platformTenant :: str
  mailDomain :: str
  configSet :: str
  envMailDomain :: "str option"
  envSesRegion :: "str option"
  renderMarkdown :: "str \<Rightarrow> str"
  base64Text :: "str \<Rightarrow> str"
  base64Bytes :: "str \<Rightarrow> str"
  boundaryIds :: "mail_event list \<Rightarrow> str \<times> str"
  mailDate :: "mail_event list \<Rightarrow> str"

section \<open>Tags\<close>

definition TAG_HOP_COUNT :: str where "TAG_HOP_COUNT = TAG_PREFIX @ ''Hop-Count''"
definition MAX_HOP_COUNT :: int where "MAX_HOP_COUNT = 100"

definition tag_char :: "char \<Rightarrow> bool" where
  "tag_char c \<longleftrightarrow>
     is_letter c \<or> (let n = (of_char c :: nat) in 48 \<le> n \<and> n \<le> 57) \<or> c = CHR ''_'' \<or> c = CHR ''-''"

definition sanitizeTagValue :: "str \<Rightarrow> str" where
  "sanitizeTagValue v = take 255 (filter tag_char v)"

definition sanitizeTagName :: "str \<Rightarrow> str" where
  "sanitizeTagName v = take 255 (filter tag_char v)"

definition sanitizeTags :: "tag_list option \<Rightarrow> tag_list option" where
  "sanitizeTags tags =
     (case tags of
        None \<Rightarrow> None
      | Some [] \<Rightarrow> None
      | Some ts \<Rightarrow>
          (let clean = filter (\<lambda>(n, v). n \<noteq> [] \<and> v \<noteq> [])
                         (map (\<lambda>(n, v). (sanitizeTagName n, sanitizeTagValue v)) ts)
           in if clean \<noteq> [] then Some clean else None))"

definition withSendTypeTag :: "email_send_type \<Rightarrow> tag_list option \<Rightarrow> tag_list" where
  "withSendTypeTag ty tags =
     (TAG_TYPE, send_type_name ty) # filter (\<lambda>(n, v). to_lower n \<noteq> to_lower TAG_TYPE) (nullish tags [])"

definition merge_tag :: "str list \<times> tag_list \<Rightarrow> str \<times> str \<Rightarrow> str list \<times> tag_list" where
  "merge_tag st h =
     (if to_lower (fst h) \<in> set (fst st) then st else (to_lower (fst h) # fst st, snd st @ [h]))"

definition mergeHeadersIntoTags :: "tag_list \<Rightarrow> tag_list \<Rightarrow> tag_list option" where
  "mergeHeadersIntoTags hs ts =
     (if hs = [] \<and> ts = [] then None
      else (let merged = snd (foldl merge_tag (foldl merge_tag ([], []) hs) ts)
            in if merged \<noteq> [] then Some merged else None))"

section \<open>Checks and errors\<close>

definition validateAccountId :: "str \<Rightarrow> email_error + unit" where
  "validateAccountId a = (if a = [] \<or> trim a = [] then Inl (InvalidArgumentError ''accountId'') else Inr ())"

definition our_domain :: "mail_env \<Rightarrow> str \<Rightarrow> bool" where
  "our_domain e d \<longleftrightarrow> d = mailDomain e \<or> ends_with d (''.'' @ mailDomain e)"

definition platform_tenant :: "mail_env \<Rightarrow> str \<Rightarrow> bool" where
  "platform_tenant e a \<longleftrightarrow> a = platformTenant e \<or> a = ''SYSTEM''"

definition validateTenantDomainAlignment :: "mail_env \<Rightarrow> str \<Rightarrow> str \<Rightarrow> email_error + unit" where
  "validateTenantDomainAlignment e accountId fromAddress =
     (let fromDomain = addressDomain fromAddress
      in if platform_tenant e accountId \<and> \<not> our_domain e fromDomain then Inl (InvalidArgumentError ''accountId'')
         else if \<not> platform_tenant e accountId \<and> our_domain e fromDomain then Inl (InvalidArgumentError ''accountId'')
         else Inr ())"

definition classifyError :: "ses_exception \<Rightarrow> str \<Rightarrow> email_error" where
  "classifyError x accountId =
     (let errorName = nullish (sx_name x) ''UnknownError'';
          errorMessage = nullish (sx_message x) ''unknown'';
          httpStatus = nullish (sx_httpStatus x) 0;
          isMalformedRequest = errorName \<in> {''BadRequestException'', ''ValidationException''};
          isPermanent =
            isMalformedRequest \<or>
            (errorName = ''MessageRejected'' \<and> str_includes errorMessage ''Email address is not verified'') \<or>
            errorName = ''ConfigurationSetSendingPausedException'' \<or>
            errorName = ''ConfigurationSetDoesNotExistException'' \<or>
            errorName = ''AccessDeniedException''
      in if str_includes errorMessage ''Tenant'' \<and> str_includes errorMessage ''not found''
         then PermanentSesError errorName httpStatus (''Tenant not found: '' @ accountId)
         else if isPermanent then PermanentSesError errorName httpStatus errorMessage
         else TransientSesError errorName httpStatus)"

section \<open>Sending\<close>

definition ses_send :: "mail_env \<Rightarrow> ses_request \<Rightarrow> (email_error + str) mio" where
  "ses_send e rq =
     bind (call (\<lambda>h. Done (sesClientSend e rq h)) (\<lambda>r. SesSend rq (succeeded r)))
       (\<lambda>r. ret (case r of Inl x \<Rightarrow> Inl (classifyError x (sr_tenant rq)) | Inr m \<Rightarrow> Inr (nullish m [])))"

definition check_suppressed :: "mail_env \<Rightarrow> str list \<Rightarrow> unit mio" where
  "check_suppressed e recipients =
     (case isAddressSuppressed e of
        None \<Rightarrow> ret ()
      | Some f \<Rightarrow>
          bind (for_map recipients (\<lambda>r. call (f r) (\<lambda>_. SuppressionCheck r))) (\<lambda>_. ret ()))"

definition email_send :: "mail_env \<Rightarrow> email_send_options \<Rightarrow> (email_error + str) mio" where
  "email_send e o' =
     (case validateAccountId (eo_accountId o') of
        Inl x \<Rightarrow> ret (Inl x)
      | Inr _ \<Rightarrow>
          (let fromAddress = nullish (eo_fromSender o') (platformFrom e)
           in case validateTenantDomainAlignment e (eo_accountId o') fromAddress of
                Inl x \<Rightarrow> ret (Inl x)
              | Inr _ \<Rightarrow>
                  bind (check_suppressed e (eo_to o' @ eo_cc o' @ eo_bcc o')) (\<lambda>_.
                  ses_send e
                    \<lparr>sr_from = fromAddress, sr_to = eo_to o', sr_cc = eo_cc o', sr_bcc = eo_bcc o',
                     sr_content = Simple (eo_subject o') (eo_textBody o')
                       (if truthy (eo_htmlBody o') then eo_htmlBody o' else None) (eo_headers o'),
                     sr_configSet = configSet e, sr_tenant = eo_accountId o',
                     sr_tags = sanitizeTags (Some (withSendTypeTag (eo_sendType o')
                       (mergeHeadersIntoTags (eo_headers o') (eo_tags o'))))\<rparr>)))"

definition sendRaw :: "mail_env \<Rightarrow> email_raw_options \<Rightarrow> (email_error + str) mio" where
  "sendRaw e o' =
     (case validateAccountId (er_accountId o') of
        Inl x \<Rightarrow> ret (Inl x)
      | Inr _ \<Rightarrow>
          (let fromAddress = nullish (er_fromSender o') (platformFrom e)
           in case validateTenantDomainAlignment e (er_accountId o') fromAddress of
                Inl x \<Rightarrow> ret (Inl x)
              | Inr _ \<Rightarrow>
                  ses_send e
                    \<lparr>sr_from = fromAddress, sr_to = er_to o', sr_cc = er_cc o', sr_bcc = er_bcc o',
                     sr_content = Raw (er_rawData o'), sr_configSet = configSet e, sr_tenant = er_accountId o',
                     sr_tags = sanitizeTags (Some (withSendTypeTag (er_sendType o') (Some (er_tags o'))))\<rparr>))"

section \<open>Order of events\<close>

text \<open>Every event is allowed by the events before it.\<close>

fun guarded :: "('ev list \<Rightarrow> 'ev \<Rightarrow> bool) \<Rightarrow> 'ev list \<Rightarrow> 'ev list \<Rightarrow> bool" where
  "guarded A seen [] \<longleftrightarrow> True"
| "guarded A seen (ev # es) \<longleftrightarrow> A seen ev \<and> guarded A (seen @ [ev]) es"

lemma guarded_append [simp]: "guarded A seen (es @ es') \<longleftrightarrow> guarded A seen es \<and> guarded A (seen @ es) es'"
  by (induction es arbitrary: seen) auto

lemma guarded_every: "guarded A seen es \<Longrightarrow> es = pre @ ev # post \<Longrightarrow> A (seen @ pre) ev"
  by simp

section \<open>What reaches SES\<close>

definition tag_ok :: "str \<times> str \<Rightarrow> bool" where
  "tag_ok t \<longleftrightarrow> (\<forall>x \<in> {fst t, snd t}. x \<noteq> [] \<and> length x \<le> 255 \<and> list_all tag_char x)"

definition aligned :: "mail_env \<Rightarrow> ses_request \<Rightarrow> bool" where
  "aligned e rq \<longleftrightarrow> trim (sr_tenant rq) \<noteq> [] \<and>
     (platform_tenant e (sr_tenant rq) \<longleftrightarrow> our_domain e (addressDomain (sr_from rq)))"

text \<open>The first tag of the request is its kind. Feedback, from which SES's record of the tags gives this value back
  under the name of the type tag, is read as this kind.\<close>

definition gives_back :: "ses_feedback \<Rightarrow> str \<times> str \<Rightarrow> bool" where
  "gives_back f t \<longleftrightarrow> map_of (nullish (sm_tags (sf_mail f)) []) (fst t) = Some (snd t)"

definition attributed :: "email_send_type \<Rightarrow> ses_request \<Rightarrow> bool" where
  "attributed ty rq \<longleftrightarrow>
     (\<exists>t r. sr_tags rq = Some (t # r) \<and> t = (TAG_TYPE, send_type_name ty) \<and>
       (\<forall>f. gives_back f t \<longrightarrow>
         describeSendType f = (send_type_name ty, systemResponsibleForBounces (send_type_name ty))))"

fun request_ok :: "mail_env \<Rightarrow> email_send_type \<Rightarrow> mail_event \<Rightarrow> bool" where
  "request_ok e ty (SesSend rq ok) \<longleftrightarrow> aligned e rq \<and> list_all tag_ok (nullish (sr_tags rq) []) \<and> attributed ty rq"
| "request_ok e ty (SuppressionCheck r) \<longleftrightarrow> True"
| "request_ok e ty _ \<longleftrightarrow> False"

lemma sanitize_type_name: "sanitizeTagName TAG_TYPE = TAG_TYPE"
  by code_simp

lemma sanitize_type_value: "sanitizeTagValue (send_type_name ty) = send_type_name ty"
  by (cases ty; simp only: send_type_name.simps; code_simp)

lemmas sanitize_type = sanitize_type_name sanitize_type_value

lemma send_type_known: "send_type_name ty \<noteq> []" "isEmailSendType (send_type_name ty)" "TAG_TYPE \<noteq> []"
  by ((cases ty; simp), (cases ty; simp add: isEmailSendType_def EMAIL_SEND_TYPES_def), simp add: TAG_TYPE_def TAG_PREFIX_def)

lemma sanitize_typed:
  "\<exists>r. sanitizeTags (Some (withSendTypeTag ty ts)) = Some ((TAG_TYPE, send_type_name ty) # r)"
  by (simp add: sanitizeTags_def withSendTypeTag_def sanitize_type send_type_known)

lemma attributed_typed: "sr_tags rq = Some ((TAG_TYPE, send_type_name ty) # r) \<Longrightarrow> attributed ty rq"
  by (simp add: attributed_def gives_back_def describeSendType_def Let_def send_type_known)

lemma sanitize_length: "length (sanitizeTagName v) \<le> 255" "length (sanitizeTagValue v) \<le> 255"
  by (simp_all add: sanitizeTagName_def sanitizeTagValue_def)

lemma sanitize_chars: "list_all tag_char (sanitizeTagName v)" "list_all tag_char (sanitizeTagValue v)"
  by (auto simp: sanitizeTagName_def sanitizeTagValue_def list_all_iff dest: in_set_takeD)

lemma sanitized_ok: "list_all tag_ok (nullish (sanitizeTags ts) [])"
  by (auto simp: sanitizeTags_def Let_def tag_ok_def list_all_iff sanitize_length
      sanitize_chars [unfolded list_all_iff] split: option.splits list.splits)

lemma alignment_checked:
  "validateAccountId a = Inr () \<Longrightarrow> validateTenantDomainAlignment e a f = Inr () \<Longrightarrow>
    trim a \<noteq> [] \<and> (platform_tenant e a \<longleftrightarrow> our_domain e (addressDomain f))"
  by (auto simp: validateAccountId_def validateTenantDomainAlignment_def Let_def split: if_splits)

lemma request_ok_send:
  assumes "validateAccountId a = Inr ()" "validateTenantDomainAlignment e a f = Inr ()"
    and "sr_tenant rq = a" "sr_from rq = f" "sr_tags rq = sanitizeTags (Some (withSendTypeTag ty ts))"
  shows "emits (ses_send e rq) (request_ok e ty)"
proof -
  obtain r where "sr_tags rq = Some ((TAG_TYPE, send_type_name ty) # r)" using sanitize_typed assms(5) by metis
  then have "request_ok e ty (SesSend rq ok)" for ok
    using alignment_checked [OF assms(1,2)] assms(3-5) sanitized_ok [of "Some (withSendTypeTag ty ts)"]
    by (auto simp: aligned_def intro: attributed_typed)
  then show ?thesis
    unfolding ses_send_def by (intro trace_intros) auto
qed

lemma emits_check_suppressed: "(\<And>r. P (SuppressionCheck r)) \<Longrightarrow> emits (check_suppressed e rs) P"
  unfolding check_suppressed_def by (cases "isAddressSuppressed e") (auto intro!: trace_intros)

text \<open>
  C24. Whatever the caller passes, every request the email service makes to SES is sent under a tenant that is
  not blank and fits its sender: a platform tenant exactly when the sender is on the platform's own domain.
  Every tag has a name and a value of 1 to 255 letters, digits, underscores and hyphens. The first tag is the
  type tag with the kind of the send; feedback in which SES gives that value back under that name is read by
  the feedback processor as that kind, with the right answer to whether the platform is responsible. Nothing
  is said of feedback that gives something else back: a caller's tag whose name becomes the type tag only by
  sanitizing stays in the request as a second one (finding email-service.ts:260).
\<close>

theorem ses_requests_ok:
  "emits (email_send e o1) (request_ok e (eo_sendType o1)) \<and> emits (sendRaw e o2) (request_ok e (er_sendType o2))"
proof
  show "emits (email_send e o1) (request_ok e (eo_sendType o1))"
  proof (cases "validateAccountId (eo_accountId o1)")
    case a: (Inr u)
    let ?f = "nullish (eo_fromSender o1) (platformFrom e)"
    show ?thesis
    proof (cases "validateTenantDomainAlignment e (eo_accountId o1) ?f")
      case (Inr v)
      with a show ?thesis
        by (auto simp: email_send_def Let_def intro!: trace_intros emits_check_suppressed request_ok_send)
    qed (use a in \<open>auto simp: email_send_def Let_def intro!: trace_intros\<close>)
  qed (auto simp: email_send_def intro!: trace_intros)
  show "emits (sendRaw e o2) (request_ok e (er_sendType o2))"
  proof (cases "validateAccountId (er_accountId o2)")
    case a: (Inr u)
    let ?f = "nullish (er_fromSender o2) (platformFrom e)"
    show ?thesis
    proof (cases "validateTenantDomainAlignment e (er_accountId o2) ?f")
      case (Inr v)
      with a show ?thesis by (auto simp: sendRaw_def Let_def intro!: request_ok_send)
    qed (use a in \<open>auto simp: sendRaw_def Let_def intro!: trace_intros\<close>)
  qed (auto simp: sendRaw_def intro!: trace_intros)
qed

end
