(* ===== verification/ReplySend.thy ===== *)
theory ReplySend
  imports Ses
begin

text \<open>
  The router of mail sent on a user's behalf (\<open>notifier/reply-sender.ts\<close>): drafts, pongs and
  relayed replies. A send goes through the mailbox provider of the sender's alias, through SES from a
  domain the account has verified, or, when the caller allows it, from the platform's own address.

  An absent \<open>cc\<close> or \<open>bcc\<close> is the empty list: both are tested by length. The random parts of a message
  (boundaries, date) are drawn from the history without an event.
\<close>

record reply_options =
  ro_sendType :: email_send_type
  ro_to :: "email_address list"
  ro_cc :: "email_address list"
  ro_bcc :: "email_address list"
  ro_from :: email_address
  ro_subject :: str
  ro_body :: str
  ro_attachments :: "(str \<times> str \<times> str) list"
  ro_inReplyTo :: "str option"
  ro_accountId :: "str option"
  ro_signalId :: "str option"
  ro_threadId :: "str option"
  ro_hopCount :: "int option"
  ro_autoSubmitted :: bool
  ro_allowFallback :: bool

datatype reply_error =
    RsEmail email_error
  | RsProvider provider_send_error
  | RsDb app_error
  | RsLoop int
  | RsUnsendable str

datatype route = ByProvider external_exchange str | BySes str | ByPlatform

text \<open>What the two send routes take: the reply with its addresses formatted\<close>

record outgoing =
  og_to :: "str list"
  og_cc :: "str list"
  og_bcc :: "str list"
  og_from :: str
  og_subject :: str
  og_htmlBody :: str
  og_accountId :: str
  og_headers :: tag_list

section \<open>Subject and headers\<close>

definition replyPrefix :: re where
  "replyPrefix =
     Seq (Star True (Cls is_space))
       (plus_re (foldr Seq
          [alts [lit_i ''re'', Seq (lit_i ''fw'') (Alt (lit_i ''d'') Eps), lit_i ''fw''], Star True (Cls is_space), lit '':'']
          (Star True (Cls is_space))))"

definition buildReplySubject :: "str \<Rightarrow> str" where
  "buildReplySubject subject =
     (let stripped = (case matches replyPrefix (subject, []) of [] \<Rightarrow> subject | (q, c) # _ \<Rightarrow> q)
      in ''Re: '' @ stripped)"

definition show_int :: "int \<Rightarrow> str" where
  "show_int n = (if n < 0 then CHR ''-'' # show_nat (nat (- n)) else show_nat (nat n))"

definition reply_headers :: "reply_options \<Rightarrow> int \<Rightarrow> tag_list" where
  "reply_headers o' hopCount =
     (if truthy (ro_inReplyTo o')
      then [(''In-Reply-To'', the (ro_inReplyTo o')), (''References'', the (ro_inReplyTo o'))] else []) @
     [(TAG_HOP_COUNT, show_int hopCount)] @
     (if ro_autoSubmitted o' then [(''Auto-Submitted'', ''auto-replied'')] else [])"

section \<open>Routing\<close>

definition sender_domain :: "str \<Rightarrow> str" where
  "sender_domain fromAddress = (case split_on CHR ''@'' fromAddress of _ # d # _ \<Rightarrow> d | _ \<Rightarrow> [])"

definition unsendable :: "str \<Rightarrow> str \<Rightarrow> str" where
  "unsendable fromAddress reason = ''Cannot send from '' @ fromAddress @ '': '' @ reason"

definition sesOrFallback :: "mail_env \<Rightarrow> str \<Rightarrow> str \<Rightarrow> str \<Rightarrow> bool \<Rightarrow> str \<Rightarrow> (reply_error + route) mio" where
  "sesOrFallback e accountId fromAddress decoratedFrom allowFallback reason =
     (let domain = sender_domain fromAddress
      in bind_ok RsDb (call (mailGetDomain e accountId domain) (\<lambda>r. DomainRead accountId domain (answered r))) (\<lambda>d.
           if (case d of Some d' \<Rightarrow> do_senderSetupComplete d' | None \<Rightarrow> False) then ret (Inr (BySes decoratedFrom))
           else if allowFallback then ret (Inr ByPlatform)
           else ret (Inl (RsUnsendable (unsendable fromAddress reason)))))"

definition decorate :: "mail_env \<Rightarrow> str \<Rightarrow> alias_rec option \<Rightarrow> str" where
  "decorate e fromAddress al =
     formatAddress (base64Text e)
       \<lparr>ea_address = fromAddress,
        ea_name = (case al of Some al' \<Rightarrow> if truthy (al_name al') then al_name al' else None | None \<Rightarrow> None)\<rparr>"

definition emx_id_of :: "alias_rec option \<Rightarrow> str option" where
  "emx_id_of al = (case al of Some al' \<Rightarrow> if truthy (al_emxId al') then al_emxId al' else None | None \<Rightarrow> None)"

definition resolveRoute :: "mail_env \<Rightarrow> str option \<Rightarrow> str \<Rightarrow> bool \<Rightarrow> (reply_error + route) mio" where
  "resolveRoute e accountId from' allowFallback =
     (if \<not> truthy accountId then ret (Inr (BySes from'))
      else
        (let a = the accountId; fromAddress = extractAddress from'
         in bind_ok RsDb (call (mailGetAlias e a fromAddress) (\<lambda>r. AliasRead a fromAddress (answered r))) (\<lambda>al.
            let decoratedFrom = decorate e fromAddress al
            in case emx_id_of al of
                 None \<Rightarrow>
                   sesOrFallback e a fromAddress decoratedFrom allowFallback
                     ''the from-address is not backed by an exchange and its domain is not verified for sending''
               | Some emxId \<Rightarrow>
                   bind_ok RsDb (call (mailGetExchange e a emxId) (\<lambda>r. ExchangeRead a emxId (answered r))) (\<lambda>emx.
                     case emx of
                       None \<Rightarrow> sesOrFallback e a fromAddress decoratedFrom allowFallback ''exchange no longer exists''
                     | Some x \<Rightarrow>
                         if ex_status x \<noteq> EmxActive
                         then sesOrFallback e a fromAddress decoratedFrom allowFallback
                                ''exchange status is activation_failed''
                         else ret (Inr (ByProvider x decoratedFrom))))))"

section \<open>The send routes\<close>

definition list_header :: "str list \<Rightarrow> str option" where
  "list_header xs = (if xs = [] then None else Some (join '', '' xs))"

definition mime_of :: "reply_options \<Rightarrow> outgoing \<Rightarrow> str option \<Rightarrow> str \<Rightarrow> mime_options" where
  "mime_of o' g bcc date =
     \<lparr>mm_from = og_from g, mm_to = join '', '' (og_to g), mm_cc = list_header (og_cc g), mm_bcc = bcc,
      mm_subject = og_subject g, mm_textBody = ro_body o', mm_htmlBody = Some (og_htmlBody g),
      mm_calendarMethod = None, mm_headers = og_headers g, mm_attachments = ro_attachments o', mm_date = date\<rparr>"

definition raw_message :: "mail_env \<Rightarrow> reply_options \<Rightarrow> outgoing \<Rightarrow> str option \<Rightarrow> mail_event list \<Rightarrow> str" where
  "raw_message e o' g bcc h =
     buildMimeMessage (base64Text e) (base64Bytes e) (fst (boundaryIds e h)) (snd (boundaryIds e h))
       (mime_of o' g bcc (mailDate e h))"

definition sendViaProvider ::
  "mail_env \<Rightarrow> external_exchange \<Rightarrow> reply_options \<Rightarrow> outgoing \<Rightarrow> (reply_error + str \<times> str option) mio" where
  "sendViaProvider e emx o' g =
     (\<lambda>h. let rawMime = raw_message e o' g (list_header (og_bcc g)) h
          in bind_ok RsProvider (call (adapterSendMessage e rawMime emx) (\<lambda>r. ProviderSend emx rawMime (succeeded r)))
               (\<lambda>(providerMessageId, messageId).
                 ret (Inr (providerMessageId, if truthy messageId then messageId else None))) h)"

definition reply_tags :: "reply_options \<Rightarrow> outgoing \<Rightarrow> tag_list" where
  "reply_tags o' g =
     (TAG_ACCOUNT_ID, og_accountId g) #
     (if truthy (ro_signalId o') then [(TAG_SIGNAL_ID, the (ro_signalId o'))] else []) @
     (if truthy (ro_threadId o') then [(TAG_THREAD_ID, the (ro_threadId o'))] else [])"

definition ses_outcome :: "mail_env \<Rightarrow> email_error + str \<Rightarrow> reply_error + str \<times> str option" where
  "ses_outcome e r =
     (case r of
        Inl (PermanentSesError n s m) \<Rightarrow> Inr ([], None)
      | Inl x \<Rightarrow> Inl (RsEmail x)
      | Inr m \<Rightarrow> Inr (m, if m \<noteq> [] then Some (buildOutboundMsgId m (nullish (envSesRegion e) ''eu-central-1'')) else None))"

definition sendViaSes :: "mail_env \<Rightarrow> reply_options \<Rightarrow> outgoing \<Rightarrow> (reply_error + str \<times> str option) mio" where
  "sendViaSes e o' g =
     (\<lambda>h. bind
           (sendRaw e
              \<lparr>er_to = og_to g, er_cc = og_cc g, er_bcc = og_bcc g, er_rawData = raw_message e o' g None h,
               er_sendType = ro_sendType o', er_tags = reply_tags o' g, er_fromSender = Some (og_from g),
               er_accountId = og_accountId g\<rparr>)
           (\<lambda>r. ret (ses_outcome e r)) h)"

section \<open>Sending\<close>

definition platform_sender :: "mail_env \<Rightarrow> str" where
  "platform_sender e =
     formatAddress (base64Text e)
       \<lparr>ea_address = ''noreply@'' @ nullish (envMailDomain e) ''platform.email.rhosys.cloud'', ea_name = Some ''Numaeel''\<rparr>"

definition outgoing_of :: "mail_env \<Rightarrow> reply_options \<Rightarrow> int \<Rightarrow> str \<Rightarrow> str \<Rightarrow> outgoing" where
  "outgoing_of e o' hopCount from' accountId =
     (let f = formatAddress (base64Text e)
      in \<lparr>og_to = map f (ro_to o'), og_cc = map f (ro_cc o'), og_bcc = map f (ro_bcc o'), og_from = from',
          og_subject = buildReplySubject (ro_subject o'), og_htmlBody = renderMarkdown e (ro_body o'),
          og_accountId = accountId, og_headers = reply_headers o' hopCount\<rparr>)"

definition send_by :: "mail_env \<Rightarrow> reply_options \<Rightarrow> int \<Rightarrow> route \<Rightarrow> (reply_error + str \<times> str option) mio" where
  "send_by e o' hopCount rt =
     (let resolvedAccountId = nullish (ro_accountId o') (platformTenant e)
      in case rt of
           ByProvider emx from' \<Rightarrow> sendViaProvider e emx o' (outgoing_of e o' hopCount from' resolvedAccountId)
         | ByPlatform \<Rightarrow> sendViaSes e o' (outgoing_of e o' hopCount (platform_sender e) (platformTenant e))
         | BySes from' \<Rightarrow> sendViaSes e o' (outgoing_of e o' hopCount from' resolvedAccountId))"

definition sendReply :: "mail_env \<Rightarrow> reply_options \<Rightarrow> (reply_error + str \<times> str option) mio" where
  "sendReply e o' =
     (let hopCount = nullish (ro_hopCount o') 0 + 1
      in if hopCount > MAX_HOP_COUNT then ret (Inl (RsLoop hopCount))
         else bind_ok (\<lambda>x. x)
                (resolveRoute e (ro_accountId o') (formatAddress (base64Text e) (ro_from o')) (ro_allowFallback o'))
                (send_by e o' hopCount))"

section \<open>What lets a message leave\<close>

fun is_mail_send :: "mail_event \<Rightarrow> bool" where
  "is_mail_send (SesSend _ _) = True"
| "is_mail_send (ProviderSend _ _ _) = True"
| "is_mail_send _ = False"

definition from_address :: "mail_env \<Rightarrow> reply_options \<Rightarrow> str" where
  "from_address e o' = extractAddress (formatAddress (base64Text e) (ro_from o'))"

text \<open>The account's own domain was read and can send.\<close>

definition domain_verified :: "str \<Rightarrow> str \<Rightarrow> mail_event list \<Rightarrow> bool" where
  "domain_verified a addr seen \<longleftrightarrow>
     (\<exists>d. DomainRead a (sender_domain addr) (Some (Some d)) \<in> set seen \<and> do_senderSetupComplete d)"

text \<open>The alias of the sender was read, and the active exchange behind it.\<close>

definition exchange_active :: "str \<Rightarrow> str \<Rightarrow> external_exchange \<Rightarrow> mail_event list \<Rightarrow> bool" where
  "exchange_active a addr x seen \<longleftrightarrow> ex_status x = EmxActive \<and>
     (\<exists>al emxId. AliasRead a addr (Some (Some al)) \<in> set seen \<and> al_emxId al = Some emxId \<and>
       ExchangeRead a emxId (Some (Some x)) \<in> set seen)"

text \<open>The sender is the address of the options under some display name.\<close>

definition sent_as :: "mail_env \<Rightarrow> str \<Rightarrow> str \<Rightarrow> bool" where
  "sent_as e addr from' \<longleftrightarrow> (\<exists>al. from' = decorate e addr al)"

text \<open>A caller without an account sends as exactly the sender it names, under no account's tenant.\<close>

definition own_name :: "mail_env \<Rightarrow> reply_options \<Rightarrow> str \<Rightarrow> bool" where
  "own_name e o' from' \<longleftrightarrow> \<not> truthy (ro_accountId o') \<and> from' = formatAddress (base64Text e) (ro_from o')"

text \<open>The message is the caller's, with its sender in the header.\<close>

definition message_as :: "mail_env \<Rightarrow> reply_options \<Rightarrow> str \<Rightarrow> bool" where
  "message_as e o' raw \<longleftrightarrow>
     (\<exists>g bcc h. raw = raw_message e o' g bcc h \<and> sent_as e (from_address e o') (og_from g))"

fun reply_allowed :: "mail_env \<Rightarrow> reply_options \<Rightarrow> mail_event list \<Rightarrow> mail_event \<Rightarrow> bool" where
  "reply_allowed e o' seen (SesSend rq ok) \<longleftrightarrow>
     (own_name e o' (sr_from rq) \<and> sr_tenant rq = nullish (ro_accountId o') (platformTenant e)) \<or>
     (truthy (ro_accountId o') \<and> ro_allowFallback o' \<and> sr_tenant rq = platformTenant e \<and>
      sr_from rq = platform_sender e) \<or>
     (truthy (ro_accountId o') \<and> sr_tenant rq = the (ro_accountId o') \<and>
      sent_as e (from_address e o') (sr_from rq) \<and>
      domain_verified (the (ro_accountId o')) (from_address e o') seen)"
| "reply_allowed e o' seen (ProviderSend x raw ok) \<longleftrightarrow>
     truthy (ro_accountId o') \<and> exchange_active (the (ro_accountId o')) (from_address e o') x seen \<and>
     message_as e o' raw"
| "reply_allowed e o' seen _ \<longleftrightarrow> True"

fun route_ok :: "mail_env \<Rightarrow> reply_options \<Rightarrow> mail_event list \<Rightarrow> route \<Rightarrow> bool" where
  "route_ok e o' seen (ByProvider x f) \<longleftrightarrow>
     truthy (ro_accountId o') \<and> exchange_active (the (ro_accountId o')) (from_address e o') x seen \<and>
     sent_as e (from_address e o') f"
| "route_ok e o' seen (BySes f) \<longleftrightarrow>
     own_name e o' f \<or>
     (truthy (ro_accountId o') \<and> sent_as e (from_address e o') f \<and>
      domain_verified (the (ro_accountId o')) (from_address e o') seen)"
| "route_ok e o' seen ByPlatform \<longleftrightarrow> truthy (ro_accountId o') \<and> ro_allowFallback o'"

definition silent :: "mail_event list \<Rightarrow> bool" where
  "silent es \<longleftrightarrow> filter is_mail_send es = []"

lemma silent_simps [simp]:
  "silent []" "silent (ev # es) \<longleftrightarrow> \<not> is_mail_send ev \<and> silent es" "silent (xs @ ys) \<longleftrightarrow> silent xs \<and> silent ys"
  by (simp_all add: silent_def)

lemma allowed_unless_send: "\<not> is_mail_send ev \<Longrightarrow> reply_allowed e o' seen ev"
  by (cases ev) auto

lemma guarded_silent: "silent es \<Longrightarrow> guarded (reply_allowed e o') seen es"
  by (induction es arbitrary: seen) (auto simp: allowed_unless_send)

lemma sesOrFallback_spec:
  "spec (sesOrFallback e a addr df allow reason)
     (\<lambda>r es. silent es \<and> (\<forall>rt. r = Done (Inr rt) \<longrightarrow>
        rt = BySes df \<and> domain_verified a addr es \<or> rt = ByPlatform \<and> allow))"
  unfolding sesOrFallback_def Let_def
  by (rule spec_bind_ok [where Q = "\<lambda>r es. es = [DomainRead a (sender_domain addr) (answered r)]"])
     (auto intro!: spec_call spec_if spec_ret simp: domain_verified_def split: option.splits)

lemma domain_verified_append [simp]:
  "domain_verified a addr (xs @ ys) \<longleftrightarrow> domain_verified a addr xs \<or> domain_verified a addr ys"
  by (auto simp: domain_verified_def)

lemma sent_as_decorate [simp]: "sent_as e addr (decorate e addr al)"
  by (auto simp: sent_as_def)

lemma route_ok_Cons: "route_ok e o' es rt \<Longrightarrow> route_ok e o' (ev # es) rt"
  by (cases rt) (fastforce simp: domain_verified_def exchange_active_def)+

lemma route_ok_Cons2: "route_ok e o' es rt \<Longrightarrow> route_ok e o' (ev # ev' # es) rt"
  by (intro route_ok_Cons)

lemma resolveRoute_spec:
  "spec (resolveRoute e (ro_accountId o') (formatAddress (base64Text e) (ro_from o')) (ro_allowFallback o'))
     (\<lambda>r es. silent es \<and> (\<forall>rt. r = Done (Inr rt) \<longrightarrow> route_ok e o' es rt))"
proof (cases "truthy (ro_accountId o')")
  case False
  then show ?thesis by (auto simp: resolveRoute_def own_name_def intro!: spec_ret)
next
  case True
  define a addr where "a = the (ro_accountId o')" and "addr = from_address e o'"
  let ?R = "\<lambda>pre r es. silent es \<and> (\<forall>rt. r = Done (Inr rt) \<longrightarrow> route_ok e o' (pre @ es) rt)"
  have fallback: "spec (sesOrFallback e a addr (decorate e addr al) (ro_allowFallback o') reason) (?R [])" for al reason
    by (rule spec_mono [OF sesOrFallback_spec])
       (use True in \<open>auto simp: a_def addr_def\<close>)
  have exchange: "spec (bind_ok RsDb (call (mailGetExchange e a emxId) (\<lambda>r. ExchangeRead a emxId (answered r))) (\<lambda>emx.
         case emx of
           None \<Rightarrow> sesOrFallback e a addr (decorate e addr al) (ro_allowFallback o') ''exchange no longer exists''
         | Some x \<Rightarrow>
             if ex_status x \<noteq> EmxActive
             then sesOrFallback e a addr (decorate e addr al) (ro_allowFallback o') ''exchange status is activation_failed''
             else ret (Inr (ByProvider x (decorate e addr al))))) (?R [AliasRead a addr (Some al)])"
    if emx: "emx_id_of al = Some emxId" for al emxId
  proof -
    obtain al' where al: "al = Some al'" "al_emxId al' = Some emxId"
      using emx by (cases al) (auto simp: emx_id_of_def split: if_splits)
    show ?thesis
      by (rule spec_bind_ok [where Q = "\<lambda>r es. es = [ExchangeRead a emxId (answered r)]"])
         (auto intro!: spec_call spec_case_option spec_if spec_ret spec_mono [OF fallback]
           intro: route_ok_Cons2 simp: al exchange_active_def True a_def [symmetric] addr_def [symmetric])
  qed
  have "spec (bind_ok RsDb (call (mailGetAlias e a addr) (\<lambda>r. AliasRead a addr (answered r))) (\<lambda>al.
        case emx_id_of al of
          None \<Rightarrow> sesOrFallback e a addr (decorate e addr al) (ro_allowFallback o')
            ''the from-address is not backed by an exchange and its domain is not verified for sending''
        | Some emxId \<Rightarrow>
            bind_ok RsDb (call (mailGetExchange e a emxId) (\<lambda>r. ExchangeRead a emxId (answered r))) (\<lambda>emx.
              case emx of
                None \<Rightarrow> sesOrFallback e a addr (decorate e addr al) (ro_allowFallback o') ''exchange no longer exists''
              | Some x \<Rightarrow>
                  if ex_status x \<noteq> EmxActive
                  then sesOrFallback e a addr (decorate e addr al) (ro_allowFallback o') ''exchange status is activation_failed''
                  else ret (Inr (ByProvider x (decorate e addr al)))))) (?R [])"
    by (rule spec_bind_ok [where Q = "\<lambda>r es. es = [AliasRead a addr (answered r)]"])
       (auto intro!: spec_call spec_case_option spec_mono [OF fallback] spec_mono [OF exchange] intro: route_ok_Cons)
  then show ?thesis
    using True unfolding resolveRoute_def Let_def a_def addr_def from_address_def by simp
qed

text \<open>A send is one request at most, and the request is the last event.\<close>

definition one_send :: "(mail_event \<Rightarrow> bool) \<Rightarrow> mail_event list \<Rightarrow> bool" where
  "one_send P es \<longleftrightarrow> es = [] \<or> (\<exists>ev. es = [ev] \<and> is_mail_send ev \<and> P ev)"

lemma sendRaw_spec:
  "spec (sendRaw e q)
     (\<lambda>r es. one_send (\<lambda>ev. \<exists>rq ok. ev = SesSend rq ok \<and> sr_tenant rq = er_accountId q \<and>
         sr_from rq = nullish (er_fromSender q) (platformFrom e) \<and> sr_content rq = Raw (er_rawData q) \<and>
         sr_bcc rq = er_bcc q) es \<and> (\<forall>m. r = Done (Inr m) \<longrightarrow> es \<noteq> []))"
proof -
  have "spec (ses_send e rq) (\<lambda>r es. \<exists>ok. es = [SesSend rq ok])" for rq
    unfolding ses_send_def
    by (rule spec_bind [where Q = "\<lambda>r es. \<exists>ok. es = [SesSend rq ok]"]) (auto intro!: spec_call spec_ret)
  then have one: "spec (ses_send e rq) (\<lambda>r es. one_send P es \<and> (\<forall>m. r = Done (Inr m) \<longrightarrow> es \<noteq> []))"
    if "\<And>ok. P (SesSend rq ok)" for P rq
    by (rule spec_mono) (use that in \<open>auto simp: one_send_def\<close>)
  show ?thesis
    unfolding sendRaw_def Let_def
    by (intro spec_case_sum spec_ret one) (auto simp: one_send_def)
qed

text \<open>The message a route hands over\<close>

definition sent_raw :: "mail_event \<Rightarrow> str" where
  "sent_raw ev = (case ev of SesSend rq ok \<Rightarrow> (case sr_content rq of Raw r \<Rightarrow> r | _ \<Rightarrow> []) | ProviderSend x r ok \<Rightarrow> r | _ \<Rightarrow> [])"

definition written_by :: "mail_env \<Rightarrow> reply_options \<Rightarrow> int \<Rightarrow> mail_event \<Rightarrow> bool" where
  "written_by e o' n ev \<longleftrightarrow>
     (\<exists>g bcc h. sent_raw ev = raw_message e o' g bcc h \<and> og_headers g = reply_headers o' n \<and>
       (\<forall>rq ok. ev = SesSend rq ok \<longrightarrow> bcc = None))"

lemma spec_apply: "(\<And>h. spec (f h) Q) \<Longrightarrow> spec (\<lambda>h. f h h) Q"
  unfolding spec_def by blast

definition good_send :: "mail_env \<Rightarrow> reply_options \<Rightarrow> int \<Rightarrow> mail_event list \<Rightarrow> mail_event list \<Rightarrow> bool" where
  "good_send e o' n seen = one_send (\<lambda>ev. reply_allowed e o' seen ev \<and> written_by e o' n ev)"

lemma good_sendI:
  "is_mail_send ev \<Longrightarrow> reply_allowed e o' seen ev \<Longrightarrow> sent_raw ev = raw_message e o' g bcc h \<Longrightarrow>
    og_headers g = reply_headers o' n \<Longrightarrow> (\<And>rq ok. ev = SesSend rq ok \<Longrightarrow> bcc = None) \<Longrightarrow> good_send e o' n seen [ev]"
  by (auto simp: good_send_def one_send_def written_by_def)

lemma good_send_Nil [simp]: "good_send e o' n seen []"
  by (simp add: good_send_def one_send_def)

lemma sendViaSes_spec:
  assumes g: "og_headers g = reply_headers o' n"
    and a: "\<And>rq ok. sr_tenant rq = og_accountId g \<Longrightarrow> sr_from rq = og_from g \<Longrightarrow> reply_allowed e o' seen (SesSend rq ok)"
  shows "spec (sendViaSes e o' g) (\<lambda>r es. good_send e o' n seen es)"
proof -
  let ?q = "\<lambda>h. \<lparr>er_to = og_to g, er_cc = og_cc g, er_bcc = og_bcc g, er_rawData = raw_message e o' g None h,
    er_sendType = ro_sendType o', er_tags = reply_tags o' g, er_fromSender = Some (og_from g), er_accountId = og_accountId g\<rparr>"
  have good: "spec (sendRaw e (?q h)) (\<lambda>r es. good_send e o' n seen es)" for h
  proof (rule spec_mono [OF sendRaw_spec])
    fix r es
    assume "one_send (\<lambda>ev. \<exists>rq ok. ev = SesSend rq ok \<and> sr_tenant rq = er_accountId (?q h) \<and>
         sr_from rq = nullish (er_fromSender (?q h)) (platformFrom e) \<and> sr_content rq = Raw (er_rawData (?q h)) \<and>
         sr_bcc rq = er_bcc (?q h)) es \<and> (\<forall>m. r = Done (Inr m) \<longrightarrow> es \<noteq> [])"
    then consider "es = []" | rq ok where "es = [SesSend rq ok]" "sr_tenant rq = og_accountId g"
      "sr_from rq = og_from g" "sr_content rq = Raw (raw_message e o' g None h)"
      by (auto simp: one_send_def)
    then show "good_send e o' n seen es"
    proof cases
      case 2
      show ?thesis
        unfolding 2(1) by (rule good_sendI [OF _ _ _ g]) (use 2 a in \<open>auto simp: sent_raw_def\<close>)
    qed simp
  qed
  have "spec (bind (sendRaw e (?q h)) (\<lambda>r. ret (ses_outcome e r))) (\<lambda>r es. good_send e o' n seen es)" for h
    by (rule spec_bind [OF good]) (auto intro!: spec_ret)
  from spec_apply [OF this] show ?thesis unfolding sendViaSes_def .
qed

lemma sendViaProvider_spec:
  assumes g: "og_headers g = reply_headers o' n"
    and a: "\<And>bcc h ok. reply_allowed e o' seen (ProviderSend x (raw_message e o' g bcc h) ok)"
  shows "spec (sendViaProvider e x o' g) (\<lambda>r es. good_send e o' n seen es)"
proof -
  let ?raw = "\<lambda>h. raw_message e o' g (list_header (og_bcc g)) h"
  have good: "spec (call (adapterSendMessage e (?raw h) x) (\<lambda>r. ProviderSend x (?raw h) (succeeded r)))
    (\<lambda>r es. good_send e o' n seen es)" for h
    by (rule spec_call, rule good_sendI [OF _ a _ g]) (simp_all add: sent_raw_def)
  have "spec (bind_ok RsProvider (call (adapterSendMessage e (?raw h) x) (\<lambda>r. ProviderSend x (?raw h) (succeeded r)))
      (\<lambda>(p, m). ret (Inr (p, if truthy m then m else None)))) (\<lambda>r es. good_send e o' n seen es)" for h
    by (rule spec_bind_ok [OF good]) (auto intro!: spec_ret)
  from spec_apply [OF this] show ?thesis unfolding sendViaProvider_def Let_def .
qed

lemma send_by_spec:
  assumes "route_ok e o' seen rt"
  shows "spec (send_by e o' n rt) (\<lambda>r es. good_send e o' n seen es)"
proof (cases rt)
  case (ByProvider x f)
  with assms show ?thesis
    by (fastforce simp: send_by_def Let_def outgoing_of_def message_as_def intro!: sendViaProvider_spec)
next
  case (BySes f)
  with assms show ?thesis
    by (cases "truthy (ro_accountId o')")
       (auto simp: send_by_def Let_def outgoing_of_def own_name_def elim!: truthyE intro!: sendViaSes_spec)
next
  case ByPlatform
  with assms show ?thesis by (auto simp: send_by_def Let_def outgoing_of_def intro!: sendViaSes_spec)
qed

lemma good_send_allowed:
  "good_send e o' n seen es \<Longrightarrow> guarded (reply_allowed e o') seen es \<and> length (filter is_mail_send es) \<le> 1"
  by (auto simp: good_send_def one_send_def)

text \<open>Reads first, then at most one send\<close>

definition replied :: "mail_env \<Rightarrow> reply_options \<Rightarrow> mail_event list \<Rightarrow> bool" where
  "replied e o' es \<longleftrightarrow>
     (\<exists>pre post. es = pre @ post \<and> silent pre \<and> good_send e o' (nullish (ro_hopCount o') 0 + 1) pre post)"

lemma replied_silent: "silent es \<Longrightarrow> replied e o' es"
  unfolding replied_def by (rule exI [of _ es], rule exI [of _ "[]"]) simp

lemma sendReply_spec: "spec (sendReply e o') (\<lambda>r es. replied e o' es)"
proof -
  let ?n = "nullish (ro_hopCount o') 0 + 1"
  have send: "spec (send_by e o' ?n rt) (\<lambda>r es'. replied e o' (es @ es'))"
    if "silent es" "route_ok e o' es rt" for rt es
    by (rule spec_mono [OF send_by_spec [OF that(2)]]) (use that(1) in \<open>auto simp: replied_def\<close>)
  have "spec (bind_ok (\<lambda>x. x)
     (resolveRoute e (ro_accountId o') (formatAddress (base64Text e) (ro_from o')) (ro_allowFallback o'))
     (send_by e o' ?n)) (\<lambda>r es. replied e o' es)"
    by (rule spec_bind_ok [OF resolveRoute_spec]) (auto intro: send replied_silent)
  then show ?thesis
    unfolding sendReply_def Let_def by (intro spec_if spec_ret) (simp_all add: replied_silent)
qed


end
