(* ===== verification/LoopGuard.thy ===== *)
theory LoopGuard
  imports ReplySend
begin

text \<open>
  The guard against mail loops across several messages: the hop count a reply writes into its message
  is the one an answer to that message reads, so that a loop of systems answering each other ends.
\<close>

section \<open>Numbers and their decimal text\<close>

lemma digit_char: "n < 10 \<Longrightarrow> (of_char (char_of (48 + n)) :: nat) = 48 + n"
  by (simp add: of_char_of)

lemma show_nat_digits: "c \<in> set (show_nat n) \<Longrightarrow> is_digit c"
proof (induction n rule: show_nat.induct)
  case (1 n)
  show ?case
  proof (cases "n < 10")
    case True
    with 1(2) have "c = char_of (48 + n)" by (simp add: show_nat.simps [of n])
    then show ?thesis using True digit_char [of n] by (simp add: is_digit_def)
  next
    case False
    then have "c \<in> set (show_nat (n div 10)) \<or> c = char_of (48 + n mod 10)"
      using 1(2) show_nat.simps [of n] by auto
    then show ?thesis using 1(1) [OF False] digit_char [of "n mod 10"] by (auto simp: is_digit_def)
  qed
qed

lemma digits_value_append: "digits_value (xs @ [c]) = 10 * digits_value xs + (of_char c - 48)"
  by (simp add: digits_value_def)

lemma digits_value_show: "digits_value (show_nat n) = int n"
proof (induction n rule: show_nat.induct)
  case (1 n)
  have d: "m < 10 \<Longrightarrow> (of_char (char_of (48 + m) :: char) :: int) = 48 + int m" for m
    using digit_char [of m] by (metis of_nat_add of_nat_numeral of_nat_of_char)
  show ?case
  proof (cases "n < 10")
    case True
    then show ?thesis using d [of n] by (simp add: show_nat.simps [of n] digits_value_def)
  next
    case False
    then have s: "show_nat n = show_nat (n div 10) @ [char_of (48 + n mod 10)]" using show_nat.simps [of n] by simp
    show ?thesis
      unfolding s digits_value_append 1 [OF False] using d [of "n mod 10"] by simp presburger
  qed
qed

lemma show_nat_nonempty: "show_nat n \<noteq> []"
  by (subst show_nat.simps) simp

lemma parse_int_show: "parse_int (show_nat n) = Some (int n)"
proof -
  have d: "is_digit c" if "c \<in> set (show_nat n)" for c using that by (rule show_nat_digits)
  obtain c cs where s: "show_nat n = c # cs" using show_nat_nonempty by (cases "show_nat n") auto
  then have c: "is_digit c" using d by simp
  have "\<not> is_space c" using c by (auto simp: is_digit_def is_space_def Let_def)
  then have t: "dropWhile is_space (show_nat n) = show_nat n" using s by simp
  have "c \<noteq> CHR ''-''" "c \<noteq> CHR ''+''" using c by (auto simp: is_digit_def)
  then have sign: "(case show_nat n of CHR ''-'' # r \<Rightarrow> (-1, r) | CHR ''+'' # r \<Rightarrow> (1, r) | _ \<Rightarrow> (1, show_nat n)) =
      (1 :: int, show_nat n)"
    unfolding s by (cases c) (auto split: bool.splits)
  have tw: "takeWhile is_digit (show_nat n) = show_nat n" using d by (auto simp: takeWhile_eq_all_conv)
  have "parse_int (show_nat n) =
      (if takeWhile is_digit (show_nat n) = [] then None else Some (1 * digits_value (takeWhile is_digit (show_nat n))))"
    unfolding parse_int_def Let_def t sign by simp
  then show ?thesis unfolding tw by (simp add: digits_value_show show_nat_nonempty)
qed

lemma parse_int_show_int: "0 \<le> n \<Longrightarrow> parse_int (show_int n) = Some n"
  by (simp add: show_int_def parse_int_show)

lemma show_int_digits: "0 \<le> n \<Longrightarrow> c \<in> set (show_int n) \<Longrightarrow> is_digit c"
  by (auto simp: show_int_def dest: show_nat_digits)

section \<open>The hop count as the next system reads it\<close>

text \<open>The header map of a received message: lower-case names, trimmed values, the first of a name\<close>

definition header_map :: "str list \<Rightarrow> headers" where
  "header_map ls = map (\<lambda>l. (to_lower (field_name l), trim (drop 1 (dropWhile (\<lambda>c. c \<noteq> CHR '':'') l)))) ls"

lemma trim_no_space:
  assumes "\<And>c. c \<in> set s \<Longrightarrow> \<not> is_space c"
  shows "trim s = s"
proof -
  have d: "dropWhile is_space t = t" if "\<And>c. c \<in> set t \<Longrightarrow> \<not> is_space c" for t
    using that by (cases t) auto
  show ?thesis unfolding trim_def using d [of s] d [of "rev s"] assms by simp
qed

lemma digit_not_space: "is_digit c \<Longrightarrow> \<not> is_space c"
  by (auto simp: is_digit_def is_space_def Let_def)

lemma digit_plain: "is_digit c \<Longrightarrow> \<not> is_break c \<and> 32 \<le> (of_char c :: nat) \<and> (of_char c :: nat) \<le> 126 \<and> c \<noteq> CHR '':''"
  by (auto simp: is_digit_def is_break_def)

lemma strip_breaks_flat: "flat s \<Longrightarrow> strip_breaks s = s"
  by (induction s) auto

lemma sanitize_number:
  assumes "0 \<le> n"
  shows "sanitizeHeaderValue (show_int n) = show_int n" "ascii_printable (show_int n)" "show_int n \<noteq> []"
proof -
  have d: "is_digit c" if "c \<in> set (show_int n)" for c using show_int_digits [OF assms that] .
  then have "flat (show_int n)" using digit_plain by (auto simp: flat_def)
  moreover have "trim (show_int n) = show_int n" using d digit_not_space by (intro trim_no_space) auto
  ultimately show "sanitizeHeaderValue (show_int n) = show_int n"
    by (simp add: sanitizeHeaderValue_def strip_breaks_flat)
  show "ascii_printable (show_int n)" using d digit_plain by (auto simp: ascii_printable_def list_all_iff)
  show "show_int n \<noteq> []" using assms show_nat_nonempty by (simp add: show_int_def)
qed

lemma map_of_only:
  assumes "(k, v) \<in> set xs" "\<And>w. (k, w) \<in> set xs \<Longrightarrow> w = v"
  shows "map_of xs k = Some v"
proof -
  have "k \<in> fst ` set xs" using assms(1) by force
  then obtain w where w: "map_of xs k = Some w" by (metis domD dom_map_of_conv_image_fst)
  with assms(2) show ?thesis by (auto dest: map_of_SomeD)
qed

definition hop_key :: str where "hop_key = ''x-numaeel-hop-count''"

lemma hop_key_facts:
  "to_lower (field_name (n @ '': '' @ v)) = to_lower (takeWhile (\<lambda>c. c \<noteq> CHR '':'') n)"
  by (simp add: field_name_prefix)

lemma own_lines_reserved:
  "l \<in> set (address_lines b o') \<Longrightarrow> to_lower (field_name l) \<noteq> hop_key"
  "l \<in> set (inner_lines u o') \<Longrightarrow> to_lower (field_name l) \<noteq> hop_key"
  "to_lower (field_name (''Content-Type: multipart/mixed; boundary='' @ r)) \<noteq> hop_key"
  by (auto simp: address_lines_def inner_lines_def field_name_def hop_key_def to_lower_def lower_char_def split: if_splits option.splits)

lemma reply_names:
  "to_lower ''In-Reply-To'' \<notin> set RESERVED_HEADERS" "to_lower ''References'' \<notin> set RESERVED_HEADERS"
  "to_lower TAG_HOP_COUNT \<notin> set RESERVED_HEADERS" "to_lower ''Auto-Submitted'' \<notin> set RESERVED_HEADERS"
  by code_simp+

lemma kept_reply_headers:
  assumes "mm_headers m = reply_headers o' n" "0 \<le> n"
  shows "(TAG_HOP_COUNT, show_int n) \<in> set (kept_headers m)"
    and "(k, v) \<in> set (kept_headers m) \<Longrightarrow>
      k \<in> {''In-Reply-To'', ''References'', ''Auto-Submitted''} \<or> (k = TAG_HOP_COUNT \<and> v = show_int n)"
  using assms by (auto simp: kept_headers_def reply_headers_def sanitize_number reply_names image_iff split: if_splits)

lemma plain_names:
  "takeWhile (\<lambda>c. c \<noteq> CHR '':'') (sanitizeHeaderValue ''In-Reply-To'') = ''In-Reply-To''"
  "takeWhile (\<lambda>c. c \<noteq> CHR '':'') (sanitizeHeaderValue ''References'') = ''References''"
  "takeWhile (\<lambda>c. c \<noteq> CHR '':'') (sanitizeHeaderValue ''Auto-Submitted'') = ''Auto-Submitted''"
  "takeWhile (\<lambda>c. c \<noteq> CHR '':'') (sanitizeHeaderValue TAG_HOP_COUNT) = TAG_HOP_COUNT"
  by code_simp+

lemma name_keys:
  "to_lower ''In-Reply-To'' \<noteq> hop_key" "to_lower ''References'' \<noteq> hop_key" "to_lower ''Auto-Submitted'' \<noteq> hop_key"
  "to_lower TAG_HOP_COUNT = hop_key" "CHR '':'' \<notin> set TAG_HOP_COUNT" "sanitizeHeaderValue TAG_HOP_COUNT = TAG_HOP_COUNT"
  by code_simp+

lemma dropWhile_colon: "CHR '':'' \<notin> set n \<Longrightarrow> dropWhile (\<lambda>c. c \<noteq> CHR '':'') (n @ CHR '':'' # v) = CHR '':'' # v"
  by (induction n) auto

lemma trim_show_int: "0 \<le> n \<Longrightarrow> trim (CHR '' '' # show_int n) = show_int n"
proof -
  assume "0 \<le> n"
  then have "trim (show_int n) = show_int n"
    using show_int_digits digit_not_space by (intro trim_no_space) blast
  then show ?thesis by (simp add: trim_def is_space_def)
qed

lemma hop_line:
  assumes "mm_headers m = reply_headers o' n" "0 \<le> n" "l \<in> set (extra_lines b m)" "to_lower (field_name l) = hop_key"
  shows "trim (drop 1 (dropWhile (\<lambda>c. c \<noteq> CHR '':'') l)) = show_int n"
proof -
  from assms(3) obtain k v where kv: "(k, v) \<in> set (kept_headers m)"
    and l: "l = sanitizeHeaderValue k @ '': '' @ (if ascii_printable v then v else encodeWord b v)"
    by (auto simp: extra_lines_def)
  have "to_lower (takeWhile (\<lambda>c. c \<noteq> CHR '':'') (sanitizeHeaderValue k)) = hop_key"
    using assms(4) unfolding l by (simp add: field_name_prefix)
  then have "k \<noteq> ''In-Reply-To''" "k \<noteq> ''References''" "k \<noteq> ''Auto-Submitted''"
    using plain_names(1-3) name_keys(1-3) by metis+
  then have k: "k = TAG_HOP_COUNT" "v = show_int n" using kept_reply_headers(2) [OF assms(1,2) kv] by auto
  have "l = TAG_HOP_COUNT @ CHR '':'' # CHR '' '' # show_int n"
    unfolding l k name_keys(6) using sanitize_number(2) [OF assms(2)] by simp
  then have "drop 1 (dropWhile (\<lambda>c. c \<noteq> CHR '':'') l) = CHR '' '' # show_int n"
    using dropWhile_colon [OF name_keys(5)] by simp
  then show ?thesis using trim_show_int [OF assms(2)] by simp
qed

lemma hop_header_written:
  assumes "mm_headers m = reply_headers o' n" "0 \<le> n"
  shows "map_of (header_map (header_lines b u1 u2 m)) hop_key = Some (show_int n)"
proof (rule map_of_only)
  let ?l = "TAG_HOP_COUNT @ '': '' @ show_int n"
  have "?l \<in> set (extra_lines b m)"
    using kept_reply_headers(1) [OF assms] sanitize_number [OF assms(2)]
    by (force simp: extra_lines_def image_iff name_keys)
  moreover have k: "to_lower (field_name ?l) = hop_key" 
  proof -
    have "field_name ?l = takeWhile (\<lambda>c. c \<noteq> CHR '':'') TAG_HOP_COUNT" by (simp add: field_name_prefix)
    then show ?thesis using plain_names(4) unfolding name_keys(6) by (simp only: name_keys(4))
  qed
  ultimately show "(hop_key, show_int n) \<in> set (header_map (header_lines b u1 u2 m))"
    using hop_line [OF assms, of ?l] by (force simp: header_map_def header_lines_def)
next
  fix w
  assume "(hop_key, w) \<in> set (header_map (header_lines b u1 u2 m))"
  then obtain l where l: "l \<in> set (header_lines b u1 u2 m)" "to_lower (field_name l) = hop_key"
    "w = trim (drop 1 (dropWhile (\<lambda>c. c \<noteq> CHR '':'') l))"
    by (auto simp: header_map_def)
  then have "l \<in> set (extra_lines b m)" using own_lines_reserved by (auto simp: header_lines_def split: if_splits)
  then show "w = show_int n" using hop_line [OF assms] l by simp
qed

lemma hop_count_read:
  assumes "\<And>v. flat (b v)" "flat u1" "flat u2" "flat (mm_date m)" "mm_headers m = reply_headers o' n" "0 \<le> n"
  shows "parseHopCount (header_map (read_headers (buildMimeMessage b b' u1 u2 m))) = Some n"
  using hop_header_written [OF assms(5,6)] sanitize_number [OF assms(6)] assms(6)
  by (simp add: parseHopCount_def read_headers_message [OF assms(1-4)] hop_key_def parse_int_show_int)

section \<open>Loops of answers\<close>

text \<open>The random and formatted parts of a message hold no line break.\<close>

definition plain_parts :: "mail_env \<Rightarrow> bool" where
  "plain_parts e \<longleftrightarrow>
     (\<forall>v. flat (base64Text e v)) \<and>
     (\<forall>h. flat (fst (boundaryIds e h)) \<and> flat (snd (boundaryIds e h)) \<and> flat (mailDate e h))"

definition sends :: "mail_env \<Rightarrow> reply_options \<Rightarrow> mail_event \<Rightarrow> bool" where
  "sends e o' ev \<longleftrightarrow> is_mail_send ev \<and> (\<exists>h es. snd (sendReply e o' h) = h @ es \<and> ev \<in> set es)"

text \<open>\<open>answer_chain e k ev\<close>: \<open>ev\<close> sends the last of \<open>k\<close> messages, each an answer to the one before it. The
  first may be an answer to a message from elsewhere.\<close>

inductive answer_chain :: "mail_env \<Rightarrow> nat \<Rightarrow> mail_event \<Rightarrow> bool" for e where
  first: "sends e o' ev \<Longrightarrow> 0 \<le> nullish (ro_hopCount o') 0 \<Longrightarrow> answer_chain e 1 ev"
| again: "answer_chain e k ev \<Longrightarrow> ro_hopCount o' = parseHopCount (header_map (read_headers (sent_raw ev))) \<Longrightarrow>
    sends e o' ev' \<Longrightarrow> answer_chain e (Suc k) ev'"

lemma sends_written:
  assumes "sends e o' ev"
  shows "written_by e o' (nullish (ro_hopCount o') 0 + 1) ev \<and> nullish (ro_hopCount o') 0 + 1 \<le> MAX_HOP_COUNT"
proof -
  let ?n = "nullish (ro_hopCount o') 0 + 1"
  from assms obtain h es where es: "snd (sendReply e o' h) = h @ es" "ev \<in> set es" and s: "is_mail_send ev"
    by (auto simp: sends_def)
  have "\<not> ?n > MAX_HOP_COUNT"
    using es by (auto simp: sendReply_def Let_def ret_apply split: if_splits)
  moreover have "replied e o' es"
    using specD [OF sendReply_spec prod.collapse [symmetric], of e o' h] es(1) by auto
  then have "written_by e o' ?n ev"
    using es(2) s by (auto simp: replied_def silent_def good_send_def one_send_def filter_empty_conv)
  ultimately show ?thesis by simp
qed

lemma hop_count_sent:
  assumes "plain_parts e" "written_by e o' n ev" "0 \<le> n"
  shows "parseHopCount (header_map (read_headers (sent_raw ev))) = Some n"
proof -
  from assms(2) obtain g bcc h where w: "sent_raw ev = raw_message e o' g bcc h" "og_headers g = reply_headers o' n"
    by (auto simp: written_by_def)
  show ?thesis
    unfolding w(1) raw_message_def
    by (rule hop_count_read [where o' = o']) (use assms(1,3) w(2) in \<open>auto simp: plain_parts_def mime_of_def\<close>)
qed

lemma answer_chain_counts:
  "answer_chain e k ev \<Longrightarrow> plain_parts e \<Longrightarrow>
    \<exists>n. parseHopCount (header_map (read_headers (sent_raw ev))) = Some n \<and> int k \<le> n \<and> n \<le> MAX_HOP_COUNT"
proof (induction rule: answer_chain.induct)
  case (first o' ev)
  with sends_written [OF first.hyps(1)] hop_count_sent [OF first.prems] show ?case by fastforce
next
  case (again k ev o' ev')
  then obtain n where n: "parseHopCount (header_map (read_headers (sent_raw ev))) = Some n" "int k \<le> n" by blast
  with again.hyps(2) have "nullish (ro_hopCount o') 0 + 1 = n + 1" by simp
  with sends_written [OF again.hyps(3)] hop_count_sent [OF again.prems, of o' "n + 1" ev'] n(2) show ?case by auto
qed

text \<open>
  C23. Two systems that keep answering each other stop. When every message of a chain answers the one
  before it, reading the hop count off the message as it was written, the chain has at most a hundred
  messages, whatever the routes, subjects, bodies and answers of the services are.
\<close>

theorem answer_loop_ends:
  assumes "plain_parts e" "answer_chain e k ev"
  shows "k \<le> 100"
  using answer_chain_counts [OF assms(2,1)] by (auto simp: MAX_HOP_COUNT_def)

definition sample_mail_env :: mail_env where
  "sample_mail_env =
     \<lparr>sesClientSend = (\<lambda>_ _. Inr (Some ''m1'')), isAddressSuppressed = None,
      adapterSendMessage = (\<lambda>_ _ _. Done (Inr (''p1'', None))), mailGetAlias = (\<lambda>_ _ _. Done (Inr None)),
      mailGetExchange = (\<lambda>_ _ _. Done (Inr None)), mailGetDomain = (\<lambda>_ _ _. Done (Inr None)),
      mailGetSignal = (\<lambda>_ _ _ _. Done (Inr None)), mailGetContent = (\<lambda>_ _. Done []),
      mailUpdateStatus = (\<lambda>_ _ _ _. Done (Inr ())), dnsMx = (\<lambda>_ _. Done 1), dnsA = (\<lambda>_ _. Done 1),
      mailNow = (\<lambda>_. ''2026-01-01T00:00:00.000Z''), platformFrom = ''noreply@m.io'', platformTenant = ''SYSTEM'',
      mailDomain = ''m.io'', configSet = ''set'', envMailDomain = Some ''m.io'', envSesRegion = None,
      renderMarkdown = (\<lambda>s. s), base64Text = (\<lambda>_. ''QQ==''), base64Bytes = (\<lambda>_. ''QQ==''),
      boundaryIds = (\<lambda>_. (''u1'', ''u2'')), mailDate = (\<lambda>_. ''Thu GMT'')\<rparr>"

definition sample_reply :: reply_options where
  "sample_reply =
     \<lparr>ro_sendType = StPongSend, ro_to = [\<lparr>ea_address = ''b@y.io'', ea_name = None\<rparr>], ro_cc = [], ro_bcc = [],
      ro_from = \<lparr>ea_address = ''noreply@m.io'', ea_name = None\<rparr>, ro_subject = ''Re: hi'', ro_body = ''t'',
      ro_attachments = [], ro_inReplyTo = None, ro_accountId = None, ro_signalId = None, ro_threadId = None,
      ro_hopCount = Some 99, ro_autoSubmitted = True, ro_allowFallback = False\<rparr>"

lemma sample_plain: "plain_parts sample_mail_env"
  by (simp add: plain_parts_def sample_mail_env_def is_break_def)

lemma sample_sends:
  "snd (sendReply sample_mail_env sample_reply []) \<noteq> []"
  "is_mail_send (hd (snd (sendReply sample_mail_env sample_reply [])))"
  by code_simp+

lemma answer_loop_ends_witness:
  "answer_chain sample_mail_env 1 (hd (snd (sendReply sample_mail_env sample_reply []))) \<and> (1 :: nat) \<le> 100"
proof -
  have "answer_chain sample_mail_env 1 (hd (snd (sendReply sample_mail_env sample_reply [])))"
  proof (rule answer_chain.first)
    show "sends sample_mail_env sample_reply (hd (snd (sendReply sample_mail_env sample_reply [])))"
      unfolding sends_def by (rule conjI [OF sample_sends(2)], rule exI [of _ "[]"]) (simp add: sample_sends)
    show "0 \<le> nullish (ro_hopCount sample_reply) 0" by (simp add: sample_reply_def)
  qed
  with answer_loop_ends [OF sample_plain this] show ?thesis by simp
qed

end
