(* ===== verification/DraftSend.thy ===== *)
theory DraftSend
  imports LoopGuard
begin

text \<open>
  The worker that sends a user's draft (\<open>processor/draft-send-worker.ts\<close>) with the test of the
  recipients' domains (\<open>dns/mx-validator.ts\<close>): a queued send is acted on only while the draft still
  waits for exactly that send, and ends with the draft sent, parked with a reason, or left for a retry.

  A lookup of a domain that fails or times out throws. The lookups of several domains run at once; the
  model makes them in the order of the recipients, which is also the order the reason names them in.
\<close>

section \<open>Recipients\<close>

definition resolveWithTimeout :: "mail_env \<Rightarrow> str \<Rightarrow> bool mio" where
  "resolveWithTimeout e domain =
     bind (try_catch (bind (call (dnsMx e domain) (\<lambda>_. ResolveMx domain)) (\<lambda>n. ret (n > 0))) (\<lambda>_. ret False)) (\<lambda>hasMx.
       if hasMx then ret True
       else try_catch (bind (call (dnsA e domain) (\<lambda>_. Resolve4 domain)) (\<lambda>n. ret (n > 0))) (\<lambda>_. ret False))"

definition validateRecipientMx :: "mail_env \<Rightarrow> email_address list \<Rightarrow> (str list + unit) mio" where
  "validateRecipientMx e recipients =
     (let domains = rev (remdups (rev (map (\<lambda>r. addressDomain (ea_address r)) recipients)))
      in bind (for_map domains (resolveWithTimeout e)) (\<lambda>answers.
           let invalidDomains = map fst (filter (\<lambda>(d, ok). \<not> ok) (zip domains answers))
           in if length invalidDomains > 0 then ret (Inl invalidDomains) else ret (Inr ())))"

section \<open>Failures\<close>

fun permanent_error :: "reply_error \<Rightarrow> bool" where
  "permanent_error (RsEmail (PermanentSesError _ _ _)) = True"
| "permanent_error (RsEmail (InvalidArgumentError _)) = True"
| "permanent_error (RsEmail (TransientSesError _ _)) = False"
| "permanent_error (RsProvider (ProviderSendRejected _)) = True"
| "permanent_error (RsProvider (ProviderSendScopeMissing _)) = True"
| "permanent_error (RsProvider (ProviderSendFailed _)) = False"
| "permanent_error (RsProvider ProviderTokenExpired) = False"
| "permanent_error (RsUnsendable _) = True"
| "permanent_error (RsLoop _) = True"
| "permanent_error (RsDb _) = False"

definition describeSendFailure :: "reply_error \<Rightarrow> str" where
  "describeSendFailure x =
     (case x of
        RsProvider (ProviderSendScopeMissing c) \<Rightarrow>
          ''Your connected mailbox has not granted permission to send email. Reconnect the mailbox to allow sending.''
      | RsProvider (ProviderSendRejected c) \<Rightarrow> ''The mail provider rejected this message: '' @ take 256 c
      | RsUnsendable r \<Rightarrow> ''This address cannot send email right now: '' @ take 256 r
      | RsEmail (PermanentSesError n s m) \<Rightarrow> ''Rejected by the mail service: '' @ n
      | _ \<Rightarrow> ''The message could not be sent.'')"

section \<open>Steps\<close>

definition read_signal :: "mail_env \<Rightarrow> str \<Rightarrow> str \<Rightarrow> str \<Rightarrow> (app_error + any_signal option) mio" where
  "read_signal e a i t = call (mailGetSignal e a i t) (\<lambda>r. SignalRead a i t (answered r))"

definition update_status :: "mail_env \<Rightarrow> str \<Rightarrow> str \<Rightarrow> send_status_update \<Rightarrow> (reply_error + unit) mio" where
  "update_status e a lookupId u =
     bind_ok RsDb (call (mailUpdateStatus e a lookupId u) (\<lambda>r. StatusUpdate a lookupId u (succeeded r))) (\<lambda>_. ret (Inr ()))"

definition parked :: "str \<Rightarrow> str \<Rightarrow> send_status_update" where
  "parked threadId reason =
     \<lparr>ss_status = SDraft, ss_sendInitiatedAt = Some None, ss_sentAt = None, ss_sesMessageId = None,
      ss_sendFailureReason = Some reason, ss_gsi3pk = None, ss_threadId = Some threadId\<rparr>"

definition parkDraft :: "mail_env \<Rightarrow> str \<Rightarrow> any_signal \<Rightarrow> str \<Rightarrow> str \<Rightarrow> (reply_error + unit) mio" where
  "parkDraft e accountId s threadId reason = update_status e accountId (sg_signalLookupId s) (parked threadId reason)"

fun outbound_of :: "any_data \<Rightarrow> outbound_data option" where
  "outbound_of (DEmail (Outbound d)) = Some d"
| "outbound_of _ = None"

definition resolveInReplyTo :: "mail_env \<Rightarrow> str \<Rightarrow> str \<Rightarrow> outbound_data \<Rightarrow> str option mio" where
  "resolveInReplyTo e accountId threadId d =
     (if \<not> truthy (ob_linkedSignalId d) then ret None
      else bind (read_signal e accountId (the (ob_linkedSignalId d)) threadId) (\<lambda>r.
        ret (case r of
               Inr (Some s) \<Rightarrow>
                 (case sg_data s of
                    DEmail ed \<Rightarrow>
                      if isEmailSignal s \<and> truthy (map_of (eb_headers (base_of ed)) ''message-id'')
                      then map_of (eb_headers (base_of ed)) ''message-id'' else None
                  | _ \<Rightarrow> None)
             | _ \<Rightarrow> None)))"

definition resolveAttachments :: "mail_env \<Rightarrow> outbound_data \<Rightarrow> (str \<times> str \<times> str) list mio" where
  "resolveAttachments e d =
     for_map (eb_attachments d) (\<lambda>att.
       bind (call (mailGetContent e (at_s3Key att)) (\<lambda>_. ContentRead (at_s3Key att))) (\<lambda>c.
         ret (at_filename att, at_mimeType att, c)))"

definition draft_reply :: "draft_send_payload \<Rightarrow> any_signal \<Rightarrow> outbound_data \<Rightarrow> str option \<Rightarrow> (str \<times> str \<times> str) list \<Rightarrow> reply_options" where
  "draft_reply p s d inReplyTo attachments =
     \<lparr>ro_sendType = StDraft, ro_to = eb_to d, ro_cc = eb_cc d, ro_bcc = ob_bcc d, ro_from = eb_from d,
      ro_subject = eb_subject d, ro_body = nullish (ob_textBody d) [], ro_attachments = attachments,
      ro_inReplyTo = inReplyTo, ro_accountId = Some (dp_accountId p), ro_signalId = Some (sg_id s),
      ro_threadId = Some (dp_threadId p), ro_hopCount = parseHopCount (eb_headers d), ro_autoSubmitted = False,
      ro_allowFallback = False\<rparr>"

definition sent_update :: "draft_send_payload \<Rightarrow> str \<Rightarrow> str \<times> str option \<Rightarrow> send_status_update" where
  "sent_update p now m =
     \<lparr>ss_status = SSent, ss_sendInitiatedAt = None, ss_sentAt = Some now, ss_sesMessageId = Some (fst m),
      ss_sendFailureReason = None,
      ss_gsi3pk = (if truthy (snd m) then Some (buildSignalGsi3pk (dp_accountId p) (the (snd m))) else None),
      ss_threadId = Some (dp_threadId p)\<rparr>"

definition after_send ::
  "mail_env \<Rightarrow> draft_send_payload \<Rightarrow> any_signal \<Rightarrow> reply_error + str \<times> str option \<Rightarrow> (reply_error + unit) mio" where
  "after_send e p s r =
     (case r of
        Inl x \<Rightarrow>
          (if permanent_error x then parkDraft e (dp_accountId p) s (dp_threadId p) (describeSendFailure x)
           else ret (Inl x))
      | Inr m \<Rightarrow>
          bind (call (\<lambda>h. Done (mailNow e h)) (\<lambda>_. ClockRead)) (\<lambda>now.
            update_status e (dp_accountId p) (sg_signalLookupId s) (sent_update p now m)))"

definition send_draft :: "mail_env \<Rightarrow> draft_send_payload \<Rightarrow> any_signal \<Rightarrow> outbound_data \<Rightarrow> (reply_error + unit) mio" where
  "send_draft e p s d =
     bind (validateRecipientMx e (eb_to d @ eb_cc d @ ob_bcc d)) (\<lambda>mx.
     case mx of
       Inl invalidDomains \<Rightarrow>
         parkDraft e (dp_accountId p) s (dp_threadId p)
           (''Recipient domain does not accept mail: '' @ join '', '' invalidDomains)
     | Inr _ \<Rightarrow>
         bind (resolveInReplyTo e (dp_accountId p) (dp_threadId p) d) (\<lambda>inReplyTo.
         bind (resolveAttachments e d) (\<lambda>attachments.
         bind (sendReply e (draft_reply p s d inReplyTo attachments)) (after_send e p s))))"

text \<open>The draft that still waits for this very send\<close>

definition awaiting :: "draft_send_payload \<Rightarrow> any_signal option \<Rightarrow> (any_signal \<times> outbound_data) option" where
  "awaiting p found =
     (case found of
        None \<Rightarrow> None
      | Some s \<Rightarrow>
          (if \<not> isEmailSignal s then None
           else if sg_status s \<noteq> SPendingSend then None
           else (case outbound_of (sg_data s) of
                   None \<Rightarrow> None
                 | Some d \<Rightarrow>
                     if ob_sendInitiatedAt d \<noteq> Some (dp_sendInitiatedAt p) then None else Some (s, d))))"

definition process_draft :: "mail_env \<Rightarrow> draft_send_payload \<Rightarrow> (reply_error + unit) mio" where
  "process_draft e p =
     bind_ok RsDb (read_signal e (dp_accountId p) (dp_signalId p) (dp_threadId p)) (\<lambda>found.
     case awaiting p found of
       None \<Rightarrow> ret (Inr ())
     | Some (s, d) \<Rightarrow> send_draft e p s d)"

section \<open>What a queued send may do\<close>

text \<open>The draft was read and waits for this send.\<close>

definition waits :: "draft_send_payload \<Rightarrow> mail_event list \<Rightarrow> any_signal \<Rightarrow> outbound_data \<Rightarrow> bool" where
  "waits p seen s d \<longleftrightarrow>
     SignalRead (dp_accountId p) (dp_signalId p) (dp_threadId p) (Some (Some s)) \<in> set seen \<and>
     awaiting p (Some s) = Some (s, d)"

definition draft_from :: "mail_env \<Rightarrow> outbound_data \<Rightarrow> str" where
  "draft_from e d = extractAddress (formatAddress (base64Text e) (eb_from d))"

text \<open>The message is the draft's own: its text, attachments and headers, built by the router.\<close>

definition carries :: "mail_env \<Rightarrow> draft_send_payload \<Rightarrow> any_signal \<Rightarrow> outbound_data \<Rightarrow> mail_event \<Rightarrow> bool" where
  "carries e p s d ev \<longleftrightarrow> (\<exists>r atts n. written_by e (draft_reply p s d r atts) n ev)"

text \<open>Who the draft leaves as. An entry of the queue with an empty account id, which the worker does not
  check, goes out under the empty tenant as exactly the sender of the draft.\<close>

definition leaves_as :: "mail_env \<Rightarrow> draft_send_payload \<Rightarrow> outbound_data \<Rightarrow> mail_event list \<Rightarrow> str \<Rightarrow> bool" where
  "leaves_as e p d seen from' \<longleftrightarrow>
     (if dp_accountId p = [] then from' = formatAddress (base64Text e) (eb_from d)
      else sent_as e (draft_from e d) from' \<and> domain_verified (dp_accountId p) (draft_from e d) seen)"

fun draft_allowed :: "mail_env \<Rightarrow> draft_send_payload \<Rightarrow> mail_event list \<Rightarrow> mail_event \<Rightarrow> bool" where
  "draft_allowed e p seen (SesSend rq ok) \<longleftrightarrow>
     (\<exists>s d. waits p seen s d \<and> carries e p s d (SesSend rq ok) \<and>
       sr_tenant rq = dp_accountId p \<and> leaves_as e p d seen (sr_from rq))"
| "draft_allowed e p seen (ProviderSend x raw ok) \<longleftrightarrow>
     (\<exists>s d. waits p seen s d \<and> carries e p s d (ProviderSend x raw ok) \<and>
       exchange_active (dp_accountId p) (draft_from e d) x seen \<and>
       (\<exists>r atts. message_as e (draft_reply p s d r atts) raw))"
| "draft_allowed e p seen (StatusUpdate a l u ok) \<longleftrightarrow>
     (\<exists>s d. waits p seen s d \<and> a = dp_accountId p \<and> l = sg_signalLookupId s) \<and> ss_status u \<in> {SSent, SDraft}"
| "draft_allowed e p seen _ \<longleftrightarrow> True"

definition well_sent :: "mail_env \<Rightarrow> draft_send_payload \<Rightarrow> mail_event list \<Rightarrow> mail_event list \<Rightarrow> bool" where
  "well_sent e p seen es \<longleftrightarrow> guarded (draft_allowed e p) seen es \<and> length (filter is_mail_send es) \<le> 1"

fun is_lookup :: "mail_event \<Rightarrow> bool" where
  "is_lookup (SesSend _ _) = False"
| "is_lookup (ProviderSend _ _ _) = False"
| "is_lookup (StatusUpdate _ _ _ _) = False"
| "is_lookup _ = True"

lemma lookup_allowed: "is_lookup ev \<Longrightarrow> draft_allowed e p seen ev \<and> \<not> is_mail_send ev"
  by (cases ev) auto

lemma lookups_allowed:
  "\<forall>ev \<in> set es. is_lookup ev \<Longrightarrow> guarded (draft_allowed e p) seen es \<and> filter is_mail_send es = []"
  by (induction es arbitrary: seen) (auto simp: lookup_allowed)

lemma waits_append: "waits p seen s d \<Longrightarrow> waits p (seen @ es) s d"
  by (auto simp: waits_def)

lemma domain_verified_pre: "domain_verified a addr es \<Longrightarrow> domain_verified a addr (pre @ es)"
  by simp

lemma exchange_active_pre: "exchange_active a addr x es \<Longrightarrow> exchange_active a addr x (pre @ es)"
  by (auto simp: exchange_active_def)

lemma reply_is_draft:
  assumes "waits p seen s d" "reply_allowed e (draft_reply p s d r atts) pre ev"
    "written_by e (draft_reply p s d r atts) n ev" "is_mail_send ev"
  shows "draft_allowed e p (seen @ pre) ev"
proof -
  have c: "carries e p s d ev" using assms(3) by (auto simp: carries_def)
  note w = waits_append [OF assms(1), of pre]
  have addr: "from_address e (draft_reply p s d r atts) = draft_from e d"
    by (simp add: from_address_def draft_from_def draft_reply_def)
  note o' = draft_reply_def [of p s d r atts]
  show ?thesis
  proof (cases ev)
    case (SesSend rq ok)
    have "sr_tenant rq = dp_accountId p \<and> leaves_as e p d (seen @ pre) (sr_from rq)"
      using assms(2) unfolding SesSend reply_allowed.simps addr own_name_def leaves_as_def
      by (auto simp: draft_reply_def)
    with w c show ?thesis unfolding SesSend draft_allowed.simps by blast
  next
    case (ProviderSend x raw ok)
    have "exchange_active (dp_accountId p) (draft_from e d) x (seen @ pre) \<and>
        message_as e (draft_reply p s d r atts) raw"
      using assms(2) unfolding ProviderSend reply_allowed.simps addr
      by (auto simp: o' intro: exchange_active_pre)
    with w c show ?thesis unfolding ProviderSend draft_allowed.simps by blast
  qed (use assms(4) in simp_all)
qed

fun updates_status :: "mail_event \<Rightarrow> bool" where
  "updates_status (StatusUpdate _ _ _ _) = True"
| "updates_status _ = False"

lemma lookup_iff: "is_lookup ev \<longleftrightarrow> \<not> is_mail_send ev \<and> \<not> updates_status ev"
  by (cases ev) auto

lemma emits_apply: "(\<And>h. emits (f h) P) \<Longrightarrow> emits (\<lambda>h. f h h) P"
  unfolding emits_def by (rule spec_apply)

lemma emits_sendRaw: "(\<And>rq ok. P (SesSend rq ok)) \<Longrightarrow> emits (sendRaw e q) P"
  unfolding sendRaw_def ses_send_def Let_def by (auto intro!: trace_intros split: sum.splits)

lemma emits_sendViaSes: "(\<And>rq ok. P (SesSend rq ok)) \<Longrightarrow> emits (sendViaSes e o' g) P"
  unfolding sendViaSes_def by (rule emits_apply, rule emits_bind [OF emits_sendRaw]) (auto intro!: trace_intros)

lemma emits_sendViaProvider: "(\<And>raw ok. P (ProviderSend x raw ok)) \<Longrightarrow> emits (sendViaProvider e x o' g) P"
  unfolding sendViaProvider_def Let_def
  by (rule emits_apply, rule emits_bind_ok) (auto intro!: trace_intros)

lemma emits_sesOrFallback: "(\<And>d r. P (DomainRead a d r)) \<Longrightarrow> emits (sesOrFallback e a addr f allow reason) P"
  unfolding sesOrFallback_def Let_def by (intro trace_intros)

lemma emits_resolveRoute:
  "(\<And>a d r. P (DomainRead a d r)) \<Longrightarrow> (\<And>a d r. P (AliasRead a d r)) \<Longrightarrow> (\<And>a d r. P (ExchangeRead a d r)) \<Longrightarrow>
    emits (resolveRoute e a f allow) P"
  unfolding resolveRoute_def Let_def by (intro trace_intros emits_sesOrFallback)

lemma emits_sendReply: "emits (sendReply e o') (\<lambda>ev. \<not> updates_status ev)"
proof -
  have "emits (send_by e o' n rt) (\<lambda>ev. \<not> updates_status ev)" for n rt
    by (cases rt) (auto simp: send_by_def Let_def intro!: emits_sendViaSes emits_sendViaProvider)
  moreover have "emits (resolveRoute e a f allow) (\<lambda>ev. \<not> updates_status ev)" for a f allow
    by (rule emits_resolveRoute) simp_all
  ultimately show ?thesis
    unfolding sendReply_def Let_def by (intro trace_intros)
qed

lemma replied_well_sent:
  assumes "waits p seen s d" "replied e (draft_reply p s d r atts) es" "\<forall>ev \<in> set es. \<not> updates_status ev"
  shows "well_sent e p seen es"
proof -
  from assms(2) obtain n pre post where es: "es = pre @ post" "silent pre"
    and g: "good_send e (draft_reply p s d r atts) n pre post"
    by (auto simp: replied_def)
  have "\<forall>ev \<in> set pre. is_lookup ev" using es assms(3) by (auto simp: lookup_iff silent_def filter_empty_conv)
  then have pre: "guarded (draft_allowed e p) seen pre" "filter is_mail_send pre = []"
    using lookups_allowed by blast+
  show ?thesis
  proof (cases "post = []")
    case True
    with pre es(1) show ?thesis by (simp add: well_sent_def)
  next
    case False
    with g obtain ev where ev: "post = [ev]" "is_mail_send ev" "reply_allowed e (draft_reply p s d r atts) pre ev"
      "written_by e (draft_reply p s d r atts) n ev"
      by (auto simp: good_send_def one_send_def)
    then show ?thesis using pre es(1) reply_is_draft [OF assms(1) ev(3,4,2)] by (simp add: well_sent_def)
  qed
qed

lemma spec_lookup:
  assumes "emits m is_lookup" "waits p seen s d"
    and "\<And>x seen'. waits p seen' s d \<Longrightarrow> spec (k x) (\<lambda>r es. well_sent e p seen' es)"
  shows "spec (bind m k) (\<lambda>r es. well_sent e p seen es)"
  using assms(1) [unfolded emits_def]
proof (rule spec_bind)
  fix x es
  assume "\<forall>ev \<in> set es. is_lookup ev"
  note l = lookups_allowed [OF this]
  show "spec (k x) (\<lambda>r es'. well_sent e p seen (es @ es'))"
    by (rule spec_mono [OF assms(3) [OF waits_append [OF assms(2), of es]]]) (use l in \<open>auto simp: well_sent_def\<close>)
next
  fix es
  assume "\<forall>ev \<in> set es. is_lookup ev"
  from lookups_allowed [OF this] show "well_sent e p seen es" by (simp add: well_sent_def)
qed

lemma spec_update:
  assumes "waits p seen s d" "ss_status u \<in> {SSent, SDraft}"
  shows "spec (update_status e (dp_accountId p) (sg_signalLookupId s) u)
    (\<lambda>r es. guarded (draft_allowed e p) seen es \<and> filter is_mail_send es = [])"
  unfolding update_status_def
  by (rule spec_bind_ok [where Q = "\<lambda>r es. guarded (draft_allowed e p) seen es \<and> filter is_mail_send es = []"])
     (use assms in \<open>auto intro!: spec_call spec_ret exI [of _ s]\<close>)

lemma spec_after_send:
  assumes "waits p seen s d"
  shows "spec (after_send e p s r) (\<lambda>r es. guarded (draft_allowed e p) seen es \<and> filter is_mail_send es = [])"
proof (cases r)
  case (Inl x)
  with spec_update [OF assms] show ?thesis
    by (auto simp: after_send_def parkDraft_def parked_def intro!: spec_ret)
next
  case (Inr m)
  have "spec (update_status e (dp_accountId p) (sg_signalLookupId s) (sent_update p now m))
      (\<lambda>r es. guarded (draft_allowed e p) (seen @ [ClockRead]) es \<and> filter is_mail_send es = [])" for now
    by (rule spec_update [OF waits_append [OF assms]]) (simp add: sent_update_def)
  then show ?thesis
    unfolding after_send_def Inr
    by simp (rule spec_bind [where Q = "\<lambda>r es. es = [ClockRead]"], auto intro!: spec_call)
qed

lemma spec_reply:
  assumes "waits p seen s d"
  shows "spec (bind (sendReply e (draft_reply p s d r atts)) (after_send e p s)) (\<lambda>r es. well_sent e p seen es)"
proof -
  have "spec (sendReply e (draft_reply p s d r atts)) (\<lambda>r' es. well_sent e p seen es)"
    by (rule spec_mono [OF spec_conj [OF sendReply_spec emits_sendReply [unfolded emits_def]]])
       (use replied_well_sent [OF assms] in blast)
  then show ?thesis
  proof (rule spec_bind)
    fix x es
    assume w: "well_sent e p seen es"
    show "spec (after_send e p s x) (\<lambda>r' es'. well_sent e p seen (es @ es'))"
      by (rule spec_mono [OF spec_after_send [OF waits_append [OF assms, of es]]]) (use w in \<open>auto simp: well_sent_def\<close>)
  qed
qed

lemma emits_mx: "emits (validateRecipientMx e rs) is_lookup"
  unfolding validateRecipientMx_def resolveWithTimeout_def Let_def by (intro trace_intros) auto

lemma emits_in_reply_to: "emits (resolveInReplyTo e a t d) is_lookup"
  unfolding resolveInReplyTo_def read_signal_def by (intro trace_intros) auto

lemma emits_attachments: "emits (resolveAttachments e d) is_lookup"
  unfolding resolveAttachments_def by (intro trace_intros) auto

lemma spec_send_draft:
  assumes "waits p seen s d"
  shows "spec (send_draft e p s d) (\<lambda>r es. well_sent e p seen es)"
  unfolding send_draft_def
proof (rule spec_lookup [OF emits_mx assms])
  fix mx seen'
  assume w: "waits p seen' s d"
  show "spec (case mx of
       Inl invalidDomains \<Rightarrow>
         parkDraft e (dp_accountId p) s (dp_threadId p)
           (''Recipient domain does not accept mail: '' @ join '', '' invalidDomains)
     | Inr _ \<Rightarrow>
         bind (resolveInReplyTo e (dp_accountId p) (dp_threadId p) d) (\<lambda>inReplyTo.
         bind (resolveAttachments e d) (\<lambda>attachments.
         bind (sendReply e (draft_reply p s d inReplyTo attachments)) (after_send e p s))))
     (\<lambda>r es. well_sent e p seen' es)"
  proof (rule spec_case_sum)
    show "spec (parkDraft e (dp_accountId p) s (dp_threadId p)
        (''Recipient domain does not accept mail: '' @ join '', '' ds)) (\<lambda>r es. well_sent e p seen' es)" for ds
      unfolding parkDraft_def
      by (rule spec_mono [OF spec_update [OF w]]) (auto simp: parked_def well_sent_def)
  qed (intro spec_lookup [OF emits_in_reply_to w] spec_lookup [OF emits_attachments] spec_reply)
qed


section \<open>How a queued send ends\<close>

fun written :: "mail_event \<Rightarrow> bool" where
  "written (StatusUpdate _ _ _ ok) = ok"
| "written _ = False"

text \<open>The new status of a draft fits what happened: sent after a message left, with the moment and the message
  id, or parked after none left or the one attempt was refused, with a reason the user can read.\<close>

definition fits :: "draft_send_payload \<Rightarrow> mail_event list \<Rightarrow> send_status_update \<Rightarrow> bool" where
  "fits p pre u \<longleftrightarrow>
     (\<exists>now m. u = sent_update p now m \<and> (\<exists>ev \<in> set pre. is_mail_send ev)) \<or>
     (\<exists>reason. u = parked (dp_threadId p) reason \<and> reason \<noteq> [])"

text \<open>An error that a later attempt may not meet again: of the network, of an expired token, of the tables\<close>

fun passing :: "reply_error \<Rightarrow> bool" where
  "passing (RsEmail (TransientSesError _ _)) = True"
| "passing (RsProvider (ProviderSendFailed _)) = True"
| "passing (RsProvider ProviderTokenExpired) = True"
| "passing (RsDb _) = True"
| "passing _ = False"

lemma passing_not_permanent: "\<not> permanent_error x \<Longrightarrow> passing x"
  by (cases x rule: permanent_error.cases) simp_all

text \<open>The draft that was read has a new status exactly when the queue is told that the send is dealt with,
  and an error the queue sees is one that a retry may clear.\<close>

fun dealt_with :: "draft_send_payload \<Rightarrow> any_signal \<Rightarrow> (reply_error + unit) outcome \<Rightarrow> mail_event list \<Rightarrow> bool" where
  "dealt_with p s (Done (Inr _)) es \<longleftrightarrow>
     (\<exists>pre u. es = pre @ [StatusUpdate (dp_accountId p) (sg_signalLookupId s) u True] \<and>
       filter written pre = [] \<and> fits p pre u)"
| "dealt_with p s (Done (Inl x)) es \<longleftrightarrow> passing x \<and> filter written es = []"
| "dealt_with p s (Threw t) es \<longleftrightarrow> filter written es = []"

text \<open>Nothing is done for an entry whose draft is not, or no longer, waiting for it.\<close>

fun discarded :: "draft_send_payload \<Rightarrow> (reply_error + unit) outcome \<Rightarrow> mail_event list \<Rightarrow> bool" where
  "discarded p (Done (Inr _)) es \<longleftrightarrow>
     (\<exists>found. es = [SignalRead (dp_accountId p) (dp_signalId p) (dp_threadId p) (Some found)] \<and>
       awaiting p found = None)"
| "discarded p _ es \<longleftrightarrow> False"

text \<open>The draft could not be read.\<close>

fun unread :: "draft_send_payload \<Rightarrow> (reply_error + unit) outcome \<Rightarrow> mail_event list \<Rightarrow> bool" where
  "unread p (Done (Inr _)) es \<longleftrightarrow> False"
| "unread p (Done (Inl x)) es \<longleftrightarrow>
     es = [SignalRead (dp_accountId p) (dp_signalId p) (dp_threadId p) None] \<and> passing x"
| "unread p (Threw t) es \<longleftrightarrow> es = [SignalRead (dp_accountId p) (dp_signalId p) (dp_threadId p) None]"

definition draft_outcome :: "draft_send_payload \<Rightarrow> (reply_error + unit) outcome \<Rightarrow> mail_event list \<Rightarrow> bool" where
  "draft_outcome p r es \<longleftrightarrow>
     discarded p r es \<or> unread p r es \<or> (\<exists>s d. waits p es s d \<and> dealt_with p s r es)"

lemma fits_pre: "fits p pre u \<Longrightarrow> fits p (qre @ pre) u"
  by (auto simp: fits_def)

lemma dealt_with_pre:
  assumes "dealt_with p s r es" "filter written pre = []"
  shows "dealt_with p s r (pre @ es)"
proof (cases "(p, s, r, es)" rule: dealt_with.cases)
  case (1 p' s' u es')
  with assms(1) obtain qre v where "es = qre @ [StatusUpdate (dp_accountId p) (sg_signalLookupId s) v True]"
    "filter written qre = []" "fits p qre v" by auto
  with assms(2) 1 show ?thesis by (auto intro!: exI [of _ "pre @ qre"] fits_pre)
qed (use assms in auto)

lemma spec_quiet:
  assumes "emits m (\<lambda>ev. \<not> written ev)" "\<And>x. spec (k x) (dealt_with p s)"
  shows "spec (bind m k) (dealt_with p s)"
  using assms(1) [unfolded emits_def]
  by (rule spec_bind) (auto intro!: spec_mono [OF assms(2)] dealt_with_pre simp: filter_empty_conv)

lemma lookup_unwritten: "is_lookup ev \<Longrightarrow> \<not> written ev" "\<not> updates_status ev \<Longrightarrow> \<not> written ev"
  by (cases ev; simp)+

lemma update_dealt_with:
  assumes "fits p pre u" "filter written pre = []"
  shows "spec (update_status e (dp_accountId p) (sg_signalLookupId s) u) (\<lambda>r es. dealt_with p s r (pre @ es))"
  unfolding update_status_def
  by (rule spec_bind_ok [where Q = "\<lambda>r es. es = [StatusUpdate (dp_accountId p) (sg_signalLookupId s) u (succeeded r)]"])
     (use assms in \<open>auto intro!: spec_call spec_ret\<close>)

lemma failure_described: "describeSendFailure x \<noteq> []"
  by (auto simp: describeSendFailure_def split: reply_error.splits email_error.splits provider_send_error.splits)

lemma park_dealt_with:
  assumes "reason \<noteq> []" "filter written pre = []"
  shows "spec (parkDraft e (dp_accountId p) s (dp_threadId p) reason) (\<lambda>r es. dealt_with p s r (pre @ es))"
  unfolding parkDraft_def by (rule update_dealt_with [OF _ assms(2)]) (use assms(1) in \<open>auto simp: fits_def\<close>)

text \<open>A reply that is answered was handed to SES or to the mailbox.\<close>

definition attempted :: "('e + 'a) outcome \<Rightarrow> mail_event list \<Rightarrow> bool" where
  "attempted r es \<longleftrightarrow> (\<forall>x. r = Done (Inr x) \<longrightarrow> (\<exists>ev \<in> set es. is_mail_send ev))"

lemma ses_send_attempts: "spec (ses_send e rq) (\<lambda>r es. \<exists>ev \<in> set es. is_mail_send ev)"
  unfolding ses_send_def
  by (rule spec_bind [where Q = "\<lambda>r es. \<exists>ev \<in> set es. is_mail_send ev"]) (auto intro!: spec_call spec_ret)

lemma sendRaw_attempts:
  "spec (sendRaw e q)
     (\<lambda>r es. (\<exists>a. r = Done (Inl (InvalidArgumentError a))) \<or> (\<exists>ev \<in> set es. is_mail_send ev))"
proof -
  have "\<exists>a. validateAccountId i = Inl (InvalidArgumentError a)" if "validateAccountId i = Inl x" for i x
    using that by (auto simp: validateAccountId_def split: if_splits)
  moreover have "\<exists>a. validateTenantDomainAlignment e i f = Inl (InvalidArgumentError a)"
    if "validateTenantDomainAlignment e i f = Inl x" for i f x
    using that by (auto simp: validateTenantDomainAlignment_def Let_def split: if_splits)
  ultimately show ?thesis
    unfolding sendRaw_def Let_def
    by (auto split: sum.splits intro!: spec_ret spec_mono [OF ses_send_attempts])
qed

lemma sendViaSes_attempts: "spec (sendViaSes e o' g) attempted"
proof -
  have "spec (bind (sendRaw e (q h)) (\<lambda>r. ret (ses_outcome e r))) attempted" for q :: "mail_event list \<Rightarrow> email_raw_options" and h
    by (rule spec_bind [OF sendRaw_attempts]) (auto intro!: spec_ret simp: attempted_def ses_outcome_def)
  from spec_apply [OF this] show ?thesis unfolding sendViaSes_def .
qed

lemma sendViaProvider_attempts: "spec (sendViaProvider e x o' g) attempted"
proof -
  have "spec (bind_ok RsProvider (call (adapterSendMessage e (raw h) x) (\<lambda>r. ProviderSend x (raw h) (succeeded r)))
      (\<lambda>(p, m). ret (Inr (p, if truthy m then m else None)))) attempted" for raw :: "mail_event list \<Rightarrow> str" and h
    by (rule spec_bind_ok [where Q = "\<lambda>r es. \<exists>ev \<in> set es. is_mail_send ev"])
       (auto intro!: spec_call spec_ret simp: attempted_def)
  from spec_apply [OF this] show ?thesis unfolding sendViaProvider_def Let_def .
qed

lemma sendReply_attempts: "spec (sendReply e o') attempted"
proof -
  have "spec (send_by e o' n rt) (\<lambda>r es'. attempted r (es @ es'))" for n rt es
  proof -
    have "spec (send_by e o' n rt) attempted"
      by (cases rt) (auto simp: send_by_def Let_def intro: sendViaSes_attempts sendViaProvider_attempts)
    then show ?thesis by (rule spec_mono) (auto simp: attempted_def)
  qed
  moreover have "spec (resolveRoute e a f allow) (\<lambda>r es. True)" for a f allow
    using emits_resolveRoute [of "\<lambda>_. True" e a f allow] by (simp add: emits_def)
  ultimately have "spec (bind_ok (\<lambda>x. x) (resolveRoute e a f allow) (send_by e o' n)) attempted" for a f allow n
    by (intro spec_bind_ok [where Q = "\<lambda>r es. True"]) (auto simp: attempted_def)
  then show ?thesis unfolding sendReply_def Let_def by (intro spec_if spec_ret) (simp_all add: attempted_def)
qed

lemma after_send_dealt_with:
  assumes "attempted (Done r) pre" "filter written pre = []"
  shows "spec (after_send e p s r) (\<lambda>r' es. dealt_with p s r' (pre @ es))"
proof (cases r)
  case (Inl x)
  with park_dealt_with [OF failure_described assms(2)] assms(2) show ?thesis
    by (auto simp: after_send_def passing_not_permanent intro!: spec_ret)
next
  case (Inr m)
  with assms(1) have left: "\<exists>ev \<in> set pre. is_mail_send ev" by (simp add: attempted_def)
  show ?thesis
    unfolding after_send_def Inr sum.case
  proof (rule spec_bind [where Q = "\<lambda>r es. es = [ClockRead]"])
    show "spec (update_status e (dp_accountId p) (sg_signalLookupId s) (sent_update p now m))
        (\<lambda>r' es'. dealt_with p s r' (pre @ es @ es'))" if "es = [ClockRead]" for now es
    proof -
      have "fits p (pre @ es) (sent_update p now m)" unfolding fits_def using left by (metis UnCI set_append)
      from update_dealt_with [OF this, of e s] show ?thesis using assms(2) that by simp
    qed
  qed (use assms(2) in \<open>auto intro!: spec_call\<close>)
qed

lemma reply_dealt_with:
  "spec (bind (sendReply e o') (after_send e p s)) (dealt_with p s)"
proof (rule spec_bind [OF spec_conj [OF sendReply_attempts emits_sendReply [unfolded emits_def]]])
  fix x :: "reply_error + str \<times> str option" and es
  assume "attempted (Done x) es \<and> (\<forall>ev \<in> set es. \<not> updates_status ev)"
  then have "attempted (Done x) es" "filter written es = []"
    by (auto simp: filter_empty_conv dest: lookup_unwritten(2))
  then show "spec (after_send e p s x) (\<lambda>r es'. dealt_with p s r (es @ es'))" by (rule after_send_dealt_with)
qed (auto simp: filter_empty_conv dest: lookup_unwritten(2))

lemma send_draft_dealt_with: "spec (send_draft e p s d) (dealt_with p s)"
proof -
  note quiet = emits_mono [OF emits_mx lookup_unwritten(1)] emits_mono [OF emits_in_reply_to lookup_unwritten(1)]
    emits_mono [OF emits_attachments lookup_unwritten(1)]
  have park: "spec (parkDraft e (dp_accountId p) s (dp_threadId p) (c # reason)) (dealt_with p s)" for c reason
    using park_dealt_with [of "c # reason" "[]" e p s] by simp
  show ?thesis
    unfolding send_draft_def
    by (intro spec_quiet quiet spec_case_sum reply_dealt_with) (use park in simp_all)
qed


section \<open>Two runs\<close>

definition waiting_data :: outbound_data where
  "waiting_data =
     \<lparr>eb_receivedAt = ''2026'', eb_summary = [], eb_urgency = None, eb_actions = [], eb_embeddings = None,
     eb_from = \<lparr>ea_address = ''me@x.io'', ea_name = None\<rparr>, eb_to = [\<lparr>ea_address = ''b@y.io'', ea_name = None\<rparr>],
     eb_cc = [], eb_replyTo = None, eb_subject = ''hi'', eb_sentAt = None, eb_attachments = [], eb_headers = [],
     eb_recipientAddress = ''me@x.io'', eb_tags = [], eb_s3Key = [], eb_matchedRules = None, eb_unsubscribe = None,
     ob_sesMessageId = None, ob_bcc = [], ob_textBody = Some ''t'', ob_htmlBody = None,
     ob_sendInitiatedAt = Some ''now'', ob_sendFailureReason = None, ob_linkedSignalId = None\<rparr>"

definition waiting_draft :: any_signal where
  "waiting_draft =
     \<lparr>sg_id = ''s1'', sg_signalLookupId = ''l1'', sg_threadId = Some ''t1'', sg_gsi3pk = None, sg_accountId = ''a1'',
      sg_source = SrcUser, sg_type = TyEmail, sg_status = SPendingSend, sg_labels = [], sg_createdAt = ''2026'',
      sg_retentionDuration = None,
      sg_data = DEmail (Outbound waiting_data)\<rparr>"

definition verified_domain :: domain_rec where
  "verified_domain =
     \<lparr>do_accountId = ''a1'', do_domain = ''x.io'', do_deleted = False, do_receivingSetupComplete = True,
      do_senderSetupComplete = True, do_createdAt = ''2026'', do_updatedAt = ''2026''\<rparr>"

definition drafting_env :: mail_env where
  "drafting_env = sample_mail_env\<lparr>mailGetSignal := (\<lambda>_ _ _ _. Done (Inr (Some waiting_draft))),
     mailGetDomain := (\<lambda>_ _ _. Done (Inr (Some verified_domain)))\<rparr>"

definition waiting_payload :: draft_send_payload where
  "waiting_payload = \<lparr>dp_signalId = ''s1'', dp_accountId = ''a1'', dp_threadId = ''t1'', dp_sendInitiatedAt = ''now''\<rparr>"

text \<open>SES refuses the message for good\<close>

definition refusing_env :: mail_env where
  "refusing_env = drafting_env\<lparr>sesClientSend :=
     (\<lambda>_ _. Inl \<lparr>sx_name = Some ''MessageRejected'', sx_message = Some ''Email address is not verified'', sx_httpStatus = Some 400\<rparr>)\<rparr>"

text \<open>The tables refuse the new status\<close>

definition stuck_env :: mail_env where
  "stuck_env = drafting_env\<lparr>mailUpdateStatus := (\<lambda>_ _ _ _. Done (Inl (DbError ''throttled'' False)))\<rparr>"

definition statuses :: "mail_event list \<Rightarrow> (signal_status \<times> str option \<times> str option) list" where
  "statuses es = concat (map (\<lambda>ev. case ev of
     StatusUpdate a l u ok \<Rightarrow> [(ss_status u, ss_sesMessageId u, ss_sendFailureReason u)] | _ \<Rightarrow> []) es)"

text \<open>
  A draft that SES refuses for good (here because its sender is not verified with SES) ends up as
  sent, without a message id and without a reason: the router turns that refusal into a success, so the
  worker's own branch for it, which would park the draft and tell the user why, is never reached.
\<close>

theorem refused_draft_marked_sent:
  "fst (process_draft refusing_env waiting_payload []) = Done (Inr ()) \<and>
   statuses (snd (process_draft refusing_env waiting_payload [])) = [(SSent, Some [], None)]"
  by code_simp

text \<open>
  Sending is at least once, not exactly once: when the message has left but its new status cannot be
  written, the queue delivers the entry again, the draft still waits, and the same message leaves again.
\<close>

theorem draft_sent_again:
  "fst (process_draft stuck_env waiting_payload []) = Done (Inl (RsDb (DbError ''throttled'' False))) \<and>
   length (filter is_mail_send (snd (process_draft stuck_env waiting_payload
     (snd (process_draft stuck_env waiting_payload []))))) = 2"
  by code_simp

end
