(* ===== verification/DraftLive.thy ===== *)
theory DraftLive
  imports DraftSend
begin

text \<open>
  Liveness of the draft worker: when nothing stands against a draft, the run that picks it up sends it
  and records it as sent. \<open>runs\<close> is the total-correctness variant of the calculus of \<open>Programs\<close>.
\<close>

section \<open>A draft that nothing stands against\<close>

text \<open>The program returns, and its value and events satisfy \<open>Q\<close>.\<close>

definition runs :: "('ev, 'a) prog \<Rightarrow> ('a \<Rightarrow> 'ev list \<Rightarrow> bool) \<Rightarrow> bool" where
  "runs m Q \<longleftrightarrow> spec m (\<lambda>r es. \<exists>x. r = Done x \<and> Q x es)"

lemma runs_mono: "runs m Q \<Longrightarrow> (\<And>x es. Q x es \<Longrightarrow> R x es) \<Longrightarrow> runs m R"
  unfolding runs_def by (erule spec_mono) auto

lemma runs_ret: "Q x [] \<Longrightarrow> runs (ret x) Q"
  unfolding runs_def by (intro spec_ret) simp

lemma runs_call: "(\<And>h. \<exists>x. svc h = Done x \<and> Q x [ev (Done x)]) \<Longrightarrow> runs (call svc ev) Q"
  unfolding runs_def by (rule specI) (force simp: call_def)

lemma runs_bind:
  assumes "runs m Q" "\<And>x es. Q x es \<Longrightarrow> runs (k x) (\<lambda>y es'. R y (es @ es'))"
  shows "runs (bind m k) R"
  using assms unfolding runs_def by (elim spec_bind) auto

lemma runs_bind_ok:
  assumes "runs m (\<lambda>r es. \<exists>x. r = Inr x \<and> Q x es)" "\<And>x es. Q x es \<Longrightarrow> runs (k x) (\<lambda>y es'. R y (es @ es'))"
  shows "runs (bind_ok f m k) R"
  unfolding bind_ok_def by (rule runs_bind [OF assms(1)]) (auto intro: assms(2))

lemma runs_try: "runs m Q \<Longrightarrow> runs (try_catch m c) Q"
  unfolding runs_def by (rule spec_try_catch [where Q = "\<lambda>r es. \<exists>x. r = Done x \<and> Q x es"]) auto

lemma runs_for_map:
  assumes "\<And>x. x \<in> set xs \<Longrightarrow> runs (f x) (\<lambda>y es. P y)"
  shows "runs (for_map xs f) (\<lambda>ys es. length ys = length xs \<and> list_all P ys)"
  using assms
proof (induction xs)
  case (Cons x xs)
  have IH: "runs (for_map xs f) (\<lambda>ys es. length ys = length xs \<and> list_all P ys)" using Cons by simp
  have f: "runs (f x) (\<lambda>y es. P y)" using Cons.prems by simp
  show ?case
    unfolding for_map.simps by (rule runs_bind [OF f], rule runs_bind [OF IH]) (auto intro: runs_ret)
qed (simp add: runs_ret)

text \<open>The services the worker reads answer, the draft is there, the recipients have mail exchangers, and the
  tables accept.\<close>

definition nothing_fails :: "mail_env \<Rightarrow> draft_send_payload \<Rightarrow> any_signal \<Rightarrow> bool" where
  "nothing_fails e p s \<longleftrightarrow>
     (\<forall>h. mailGetSignal e (dp_accountId p) (dp_signalId p) (dp_threadId p) h = Done (Inr (Some s))) \<and>
     (\<forall>a i t h. \<exists>r. mailGetSignal e a i t h = Done r) \<and> (\<forall>k h. \<exists>c. mailGetContent e k h = Done c) \<and>
     (\<forall>x h. \<exists>n > 0. dnsMx e x h = Done n) \<and> (\<forall>a l u h. mailUpdateStatus e a l u h = Done (Inr ()))"

text \<open>The sender's alias has no mailbox elsewhere that is in use, its domain can send, its tenant is the one of
  the domain, and SES accepts.\<close>

definition open_ses :: "mail_env \<Rightarrow> draft_send_payload \<Rightarrow> outbound_data \<Rightarrow> alias_rec option \<Rightarrow> bool" where
  "open_ses e p d al \<longleftrightarrow>
     (case emx_id_of al of
        None \<Rightarrow> True
      | Some i \<Rightarrow> (\<exists>x. (\<forall>h. mailGetExchange e (dp_accountId p) i h = Done (Inr x)) \<and>
          (case x of None \<Rightarrow> True | Some x' \<Rightarrow> ex_status x' \<noteq> EmxActive))) \<and>
     (\<exists>dm. do_senderSetupComplete dm \<and>
       (\<forall>h. mailGetDomain e (dp_accountId p) (sender_domain (draft_from e d)) h = Done (Inr (Some dm)))) \<and>
     validateAccountId (dp_accountId p) = Inr () \<and>
     validateTenantDomainAlignment e (dp_accountId p) (decorate e (draft_from e d) al) = Inr () \<and>
     (\<forall>rq h. \<exists>m. sesClientSend e rq h = Inr m)"

text \<open>The sender's alias belongs to a mailbox elsewhere that is in use and accepts.\<close>

definition open_mailbox :: "mail_env \<Rightarrow> draft_send_payload \<Rightarrow> alias_rec option \<Rightarrow> bool" where
  "open_mailbox e p al \<longleftrightarrow>
     (\<exists>i x. emx_id_of al = Some i \<and> ex_status x = EmxActive \<and>
       (\<forall>h. mailGetExchange e (dp_accountId p) i h = Done (Inr (Some x))) \<and>
       (\<forall>raw h. \<exists>m. adapterSendMessage e raw x h = Done (Inr m)))"

definition can_leave :: "mail_env \<Rightarrow> draft_send_payload \<Rightarrow> outbound_data \<Rightarrow> bool" where
  "can_leave e p d \<longleftrightarrow>
     dp_accountId p \<noteq> [] \<and> nullish (parseHopCount (eb_headers d)) 0 < MAX_HOP_COUNT \<and>
     (\<exists>al. (\<forall>h. mailGetAlias e (dp_accountId p) (draft_from e d) h = Done (Inr al)) \<and>
       (open_ses e p d al \<or> open_mailbox e p al))"

lemma runs_mx:
  assumes "\<And>x h. \<exists>n > 0. dnsMx e x h = Done n"
  shows "runs (validateRecipientMx e rs) (\<lambda>r es. r = Inr ())"
proof -
  have mx: "runs (bind (call (dnsMx e x) (\<lambda>_. ResolveMx x)) (\<lambda>n. ret (n > 0))) (\<lambda>ok es. ok)" for x
    by (rule runs_bind [OF runs_call [where Q = "\<lambda>n es. n > 0"]]) (use assms in \<open>auto intro: runs_ret\<close>)
  have "runs (resolveWithTimeout e x) (\<lambda>ok es. ok)" for x
    unfolding resolveWithTimeout_def
    by (rule runs_bind [OF runs_try [OF mx]]) (auto intro: runs_ret)
  then have "runs (for_map xs (resolveWithTimeout e)) (\<lambda>ys es. length ys = length xs \<and> list_all (\<lambda>ok. ok) ys)" for xs
    by (intro runs_for_map)
  then show ?thesis
    unfolding validateRecipientMx_def Let_def
    by (rule runs_bind) (auto intro!: runs_ret simp: filter_empty_conv list_all_iff dest: set_zip_rightD)
qed

lemma runs_in_reply_to:
  assumes "\<And>a i t h. \<exists>r. mailGetSignal e a i t h = Done r"
  shows "runs (resolveInReplyTo e a t d) (\<lambda>_ _. True)"
proof -
  have "runs (read_signal e a i t) (\<lambda>_ _. True)" for i
    unfolding read_signal_def by (rule runs_call) (use assms in auto)
  then have "runs (bind (read_signal e a i t) (\<lambda>r. ret (k r))) (\<lambda>_ _. True)" for i and k :: "app_error + any_signal option \<Rightarrow> str option"
    by (rule runs_bind) (auto intro: runs_ret)
  then show ?thesis unfolding resolveInReplyTo_def by (auto intro: runs_ret)
qed

lemma runs_attachments:
  assumes "\<And>k h. \<exists>c. mailGetContent e k h = Done c"
  shows "runs (resolveAttachments e d) (\<lambda>_ _. True)"
proof -
  have "runs (bind (call (mailGetContent e (at_s3Key att)) (\<lambda>_. ContentRead (at_s3Key att))) (\<lambda>c.
         ret (at_filename att, at_mimeType att, c))) (\<lambda>_ _. True)" for att
    by (rule runs_bind [OF runs_call [where Q = "\<lambda>_ _. True"]]) (use assms in \<open>auto intro: runs_ret\<close>)
  then show ?thesis unfolding resolveAttachments_def by (intro runs_mono [OF runs_for_map]) auto
qed

text \<open>The draft left, addressed to its recipients: in a request to SES that was accepted, or in a message the
  mailbox took.\<close>

definition addressed :: "mail_env \<Rightarrow> outbound_data \<Rightarrow> str list \<Rightarrow> str list \<Rightarrow> str list \<Rightarrow> bool" where
  "addressed e d to' cc bcc \<longleftrightarrow>
     (let f = map (formatAddress (base64Text e)) in to' = f (eb_to d) \<and> cc = f (eb_cc d) \<and> bcc = f (ob_bcc d))"

definition hands_over :: "mail_env \<Rightarrow> draft_send_payload \<Rightarrow> any_signal \<Rightarrow> outbound_data \<Rightarrow> mail_event \<Rightarrow> bool" where
  "hands_over e p s d ev \<longleftrightarrow>
     (\<exists>g r atts h. addressed e d (og_to g) (og_cc g) (og_bcc g) \<and> sent_as e (draft_from e d) (og_from g) \<and>
       ((\<exists>rq. ev = SesSend rq True \<and> sr_from rq = og_from g \<and> sr_to rq = og_to g \<and> sr_cc rq = og_cc g \<and>
           sr_bcc rq = og_bcc g \<and> sr_content rq = Raw (raw_message e (draft_reply p s d r atts) g None h)) \<or>
        (\<exists>x. ev = ProviderSend x (raw_message e (draft_reply p s d r atts) g (list_header (og_bcc g)) h) True)))"

definition delivered :: "mail_env \<Rightarrow> draft_send_payload \<Rightarrow> any_signal \<Rightarrow> outbound_data \<Rightarrow> mail_event list \<Rightarrow> bool" where
  "delivered e p s d es \<longleftrightarrow> (\<exists>ev \<in> set es. hands_over e p s d ev)"

lemma delivered_more: "delivered e p s d es \<Longrightarrow> delivered e p s d (xs @ es)" "delivered e p s d es \<Longrightarrow> delivered e p s d (es @ xs)"
  by (auto simp: delivered_def)

definition route_of :: "mail_env \<Rightarrow> draft_send_payload \<Rightarrow> outbound_data \<Rightarrow> route \<Rightarrow> bool" where
  "route_of e p d rt \<longleftrightarrow>
     (\<exists>al. open_ses e p d al \<and> rt = BySes (decorate e (draft_from e d) al)) \<or>
     (\<exists>x al. (\<forall>raw h. \<exists>m. adapterSendMessage e raw x h = Done (Inr m)) \<and> rt = ByProvider x (decorate e (draft_from e d) al))"

lemma runs_fallback:
  assumes "do_senderSetupComplete dm" "\<And>h. mailGetDomain e a (sender_domain addr) h = Done (Inr (Some dm))"
  shows "runs (sesOrFallback e a addr df allow reason) (\<lambda>r es. r = Inr (BySes df))"
  unfolding sesOrFallback_def Let_def
  by (rule runs_bind_ok [where Q = "\<lambda>d es. d = Some dm"]) (use assms in \<open>auto intro!: runs_call runs_ret\<close>)

lemma runs_route:
  assumes "can_leave e p d"
  shows "runs (resolveRoute e (Some (dp_accountId p)) (formatAddress (base64Text e) (eb_from d)) False)
    (\<lambda>r es. \<exists>rt. r = Inr rt \<and> route_of e p d rt)"
proof -
  let ?a = "dp_accountId p" and ?addr = "draft_from e d"
  from assms obtain al where al: "\<And>h. mailGetAlias e ?a ?addr h = Done (Inr al)" "?a \<noteq> []"
    and open_route: "open_ses e p d al \<or> open_mailbox e p al" by (auto simp: can_leave_def)
  let ?R = "\<lambda>r es. \<exists>rt. r = Inr rt \<and> route_of e p d rt"
  have fallback: "runs (sesOrFallback e ?a ?addr (decorate e ?addr al) False reason) ?R" if "open_ses e p d al" for reason
  proof -
    from that obtain dm where "do_senderSetupComplete dm" "\<And>h. mailGetDomain e ?a (sender_domain ?addr) h = Done (Inr (Some dm))"
      by (auto simp: open_ses_def)
    from runs_fallback [OF this] show ?thesis by (rule runs_mono) (use that in \<open>auto simp: route_of_def\<close>)
  qed
  have exchange: "runs (bind_ok RsDb (call (mailGetExchange e ?a i) (\<lambda>r. ExchangeRead ?a i (answered r))) (\<lambda>emx.
      case emx of
        None \<Rightarrow> sesOrFallback e ?a ?addr (decorate e ?addr al) False ''exchange no longer exists''
      | Some x \<Rightarrow>
          if ex_status x \<noteq> EmxActive
          then sesOrFallback e ?a ?addr (decorate e ?addr al) False ''exchange status is activation_failed''
          else ret (Inr (ByProvider x (decorate e ?addr al))))) ?R" if i: "emx_id_of al = Some i" for i
  proof -
    have "\<exists>x. (\<forall>h. mailGetExchange e ?a i h = Done (Inr x)) \<and>
        ((case x of None \<Rightarrow> True | Some x' \<Rightarrow> ex_status x' \<noteq> EmxActive) \<and> open_ses e p d al \<or>
         (\<exists>x'. x = Some x' \<and> ex_status x' = EmxActive \<and> (\<forall>raw h. \<exists>m. adapterSendMessage e raw x' h = Done (Inr m))))"
      using open_route i by (auto simp: open_ses_def open_mailbox_def)
    then obtain x where x: "\<And>h. mailGetExchange e ?a i h = Done (Inr x)"
      "(case x of None \<Rightarrow> True | Some x' \<Rightarrow> ex_status x' \<noteq> EmxActive) \<and> open_ses e p d al \<or>
       (\<exists>x'. x = Some x' \<and> ex_status x' = EmxActive \<and> (\<forall>raw h. \<exists>m. adapterSendMessage e raw x' h = Done (Inr m)))"
      by blast
    show ?thesis
      by (rule runs_bind_ok [where Q = "\<lambda>y es. y = x"])
         (use x fallback in \<open>auto intro!: runs_call runs_ret simp: route_of_def split: option.split\<close>)
  qed
  have none: "open_ses e p d al" if "emx_id_of al = None" using open_route that by (auto simp: open_mailbox_def)
  have "runs (bind_ok RsDb (call (mailGetAlias e ?a ?addr) (\<lambda>r. AliasRead ?a ?addr (answered r))) (\<lambda>al.
        case emx_id_of al of
          None \<Rightarrow> sesOrFallback e ?a ?addr (decorate e ?addr al) False
            ''the from-address is not backed by an exchange and its domain is not verified for sending''
        | Some emxId \<Rightarrow>
            bind_ok RsDb (call (mailGetExchange e ?a emxId) (\<lambda>r. ExchangeRead ?a emxId (answered r))) (\<lambda>emx.
              case emx of
                None \<Rightarrow> sesOrFallback e ?a ?addr (decorate e ?addr al) False ''exchange no longer exists''
              | Some x \<Rightarrow>
                  if ex_status x \<noteq> EmxActive
                  then sesOrFallback e ?a ?addr (decorate e ?addr al) False ''exchange status is activation_failed''
                  else ret (Inr (ByProvider x (decorate e ?addr al)))))) ?R"
    by (rule runs_bind_ok [where Q = "\<lambda>y es. y = al"])
       (use al in \<open>auto intro!: runs_call fallback none exchange split: option.split\<close>)
  then show ?thesis
    unfolding resolveRoute_def Let_def draft_from_def truthy_simps option.sel using al(2) by (simp only: not_not if_False)
qed

lemma runs_send_raw:
  assumes "\<And>rq h. \<exists>m. sesClientSend e rq h = Inr m" "validateAccountId (er_accountId q) = Inr ()"
    "validateTenantDomainAlignment e (er_accountId q) (nullish (er_fromSender q) (platformFrom e)) = Inr ()"
  shows "runs (sendRaw e q) (\<lambda>r es. (\<exists>m. r = Inr m) \<and>
    (\<exists>rq. SesSend rq True \<in> set es \<and> sr_from rq = nullish (er_fromSender q) (platformFrom e) \<and>
      sr_to rq = er_to q \<and> sr_cc rq = er_cc q \<and> sr_bcc rq = er_bcc q \<and> sr_content rq = Raw (er_rawData q)))"
proof -
  have answers: "\<exists>m. Done (sesClientSend e rq h) = Done (Inr m)" for rq h using assms(1) by simp
  have ok: "succeeded (Done (sesClientSend e rq h))" for rq h
    using assms(1) [of rq h] by (auto simp: succeeded_def)
  have "runs (ses_send e rq) (\<lambda>r es. (\<exists>m. r = Inr m) \<and> SesSend rq True \<in> set es)" for rq
    unfolding ses_send_def
    by (rule runs_bind [OF runs_call [where Q = "\<lambda>r es. (\<exists>m. r = Inr m) \<and> SesSend rq True \<in> set es"]])
       (use answers ok in \<open>auto intro: runs_ret\<close>)
  then show ?thesis
    unfolding sendRaw_def Let_def assms(2,3) sum.case
    by (rule runs_mono) force
qed

lemma runs_by_ses:
  assumes "open_ses e p d al" and g: "g = outgoing_of e (draft_reply p s d r atts) n (decorate e (draft_from e d) al) (dp_accountId p)"
  shows "runs (sendViaSes e (draft_reply p s d r atts) g) (\<lambda>x es. (\<exists>m. x = Inr m) \<and> delivered e p s d es)"
proof -
  let ?o = "draft_reply p s d r atts"
  let ?q = "\<lambda>h. \<lparr>er_to = og_to g, er_cc = og_cc g, er_bcc = og_bcc g, er_rawData = raw_message e ?o g None h,
    er_sendType = ro_sendType ?o, er_tags = reply_tags ?o g, er_fromSender = Some (og_from g), er_accountId = og_accountId g\<rparr>"
  have a: "addressed e d (og_to g) (og_cc g) (og_bcc g)" "sent_as e (draft_from e d) (og_from g)"
    by (simp_all add: g outgoing_of_def Let_def draft_reply_def addressed_def)
  have "runs (sendRaw e (?q h)) (\<lambda>x es. (\<exists>m. x = Inr m) \<and> delivered e p s d es)" for h
  proof (rule runs_mono [OF runs_send_raw])
    fix x es
    assume x: "(\<exists>m. x = Inr m) \<and> (\<exists>rq. SesSend rq True \<in> set es \<and>
      sr_from rq = nullish (er_fromSender (?q h)) (platformFrom e) \<and> sr_to rq = er_to (?q h) \<and> sr_cc rq = er_cc (?q h) \<and>
      sr_bcc rq = er_bcc (?q h) \<and> sr_content rq = Raw (er_rawData (?q h)))"
    then obtain m rq where m: "x = Inr m" and rq: "SesSend rq True \<in> set es"
      "sr_from rq = og_from g \<and> sr_to rq = og_to g \<and> sr_cc rq = og_cc g \<and> sr_bcc rq = og_bcc g \<and>
       sr_content rq = Raw (raw_message e ?o g None h)"
      by auto
    then have "hands_over e p s d (SesSend rq True)" unfolding hands_over_def using a by blast
    with m rq(1) show "(\<exists>m. x = Inr m) \<and> delivered e p s d es" by (auto simp: delivered_def)
  qed (use assms(1) in \<open>auto simp: open_ses_def g outgoing_of_def Let_def\<close>)
  then have "runs (bind (sendRaw e (?q h)) (\<lambda>r. ret (ses_outcome e r))) (\<lambda>x es. (\<exists>m. x = Inr m) \<and> delivered e p s d es)" for h
    by (rule runs_bind) (auto intro!: runs_ret simp: ses_outcome_def)
  then show ?thesis unfolding sendViaSes_def runs_def by (rule spec_apply)
qed

lemma runs_by_mailbox:
  assumes "\<And>raw h. \<exists>m. adapterSendMessage e raw x h = Done (Inr m)"
    and g: "g = outgoing_of e (draft_reply p s d r atts) n (decorate e (draft_from e d) al) (dp_accountId p)"
  shows "runs (sendViaProvider e x (draft_reply p s d r atts) g) (\<lambda>y es. (\<exists>m. y = Inr m) \<and> delivered e p s d es)"
proof -
  let ?raw = "\<lambda>h. raw_message e (draft_reply p s d r atts) g (list_header (og_bcc g)) h"
  have a: "addressed e d (og_to g) (og_cc g) (og_bcc g)" "sent_as e (draft_from e d) (og_from g)"
    by (simp_all add: g outgoing_of_def Let_def draft_reply_def addressed_def)
  have del: "delivered e p s d [ProviderSend x (?raw h) True]" for h
    unfolding delivered_def hands_over_def using a by (metis list.set_intros(1))
  have "runs (call (adapterSendMessage e (?raw h) x) (\<lambda>r. ProviderSend x (?raw h) (succeeded r)))
      (\<lambda>y es. \<exists>m. y = Inr m \<and> es = [ProviderSend x (?raw h) True])" for h
    by (rule runs_call) (use assms(1) in fastforce)
  then have "runs (bind_ok RsProvider (call (adapterSendMessage e (?raw h) x) (\<lambda>r. ProviderSend x (?raw h) (succeeded r)))
      (\<lambda>(i, m). ret (Inr (i, if truthy m then m else None)))) (\<lambda>y es. (\<exists>m. y = Inr m) \<and> delivered e p s d es)" for h
    by (rule runs_bind_ok) (auto intro!: runs_ret del)
  then show ?thesis unfolding sendViaProvider_def Let_def runs_def by (rule spec_apply)
qed

lemma runs_send_reply:
  assumes "can_leave e p d"
  shows "runs (sendReply e (draft_reply p s d r atts)) (\<lambda>x es. (\<exists>m. x = Inr m) \<and> delivered e p s d es)"
proof -
  let ?o = "draft_reply p s d r atts" and ?n = "nullish (parseHopCount (eb_headers d)) 0 + 1"
  have by_route: "runs (send_by e ?o ?n rt) (\<lambda>x es'. (\<exists>m. x = Inr m) \<and> delivered e p s d (es @ es'))"
    if "route_of e p d rt" for rt es
  proof -
    have "runs (send_by e ?o ?n rt) (\<lambda>x es'. (\<exists>m. x = Inr m) \<and> delivered e p s d es')"
    proof -
      have account: "nullish (ro_accountId ?o) (platformTenant e) = dp_accountId p" by (simp add: draft_reply_def)
      from that consider al where "open_ses e p d al" "rt = BySes (decorate e (draft_from e d) al)"
        | x al where "\<And>raw h. \<exists>m. adapterSendMessage e raw x h = Done (Inr m)" "rt = ByProvider x (decorate e (draft_from e d) al)"
        unfolding route_of_def by blast
      then show ?thesis
        by cases (simp_all only: send_by_def Let_def account route.case runs_by_ses [OF _ refl] runs_by_mailbox [OF _ refl])
    qed
    then show ?thesis by (rule runs_mono) (auto intro: delivered_more)
  qed
  have "runs (bind_ok (\<lambda>x. x) (resolveRoute e (Some (dp_accountId p)) (formatAddress (base64Text e) (eb_from d)) False)
      (send_by e ?o ?n)) (\<lambda>x es. (\<exists>m. x = Inr m) \<and> delivered e p s d es)"
    by (rule runs_bind_ok [where Q = "\<lambda>rt es. route_of e p d rt"], rule runs_mono [OF runs_route [OF assms]], simp,
        erule by_route)
  moreover have "\<not> ?n > MAX_HOP_COUNT" using assms by (simp add: can_leave_def)
  ultimately show ?thesis by (simp add: sendReply_def draft_reply_def)
qed

text \<open>
  C16. A draft that nothing stands against is sent. The conditions: the draft waits for this send and its
  account id is not empty; the services the worker reads answer and the tables accept; every recipient's domain has a
  mail exchanger; the hop count of the draft is below 100; and its sender has an open way out. That is either SES:
  the alias row of the sender, if there is one, has no exchange, or one that is gone or not active, the account's
  domain row says it can send, the account's tenant is the one of the sender's domain, and SES accepts; or the mailbox
  elsewhere whose exchange the alias names, active and accepting. Then the run that picks the draft up hands it
  over, as its sender and to exactly its recipients, and ends by recording it as sent.
\<close>

theorem draft_reaches_recipients:
  assumes "nothing_fails e p s" "awaiting p (Some s) = Some (s, d)" "can_leave e p d"
  shows "runs (process_draft e p) (\<lambda>r es. r = Inr () \<and> delivered e p s d es \<and>
    (\<exists>u. last es = StatusUpdate (dp_accountId p) (sg_signalLookupId s) u True \<and> ss_status u = SSent))"
proof -
  note e = assms(1) [unfolded nothing_fails_def]
  let ?fin = "\<lambda>es. \<exists>u. last es = StatusUpdate (dp_accountId p) (sg_signalLookupId s) u True \<and> ss_status u = SSent"
  have update: "runs (update_status e a l u) (\<lambda>r es. r = Inr () \<and> es = [StatusUpdate a l u True])" for a l u
    unfolding update_status_def
    by (rule runs_bind_ok [where Q = "\<lambda>_ es. es = [StatusUpdate a l u True]"]) (use e in \<open>auto intro!: runs_call runs_ret\<close>)
  have after: "runs (after_send e p s (Inr m)) (\<lambda>r es. r = Inr () \<and> es \<noteq> [] \<and> ?fin es)" for m
    unfolding after_send_def sum.case
    by (rule runs_bind [OF runs_call [where Q = "\<lambda>_ es. es = [ClockRead]"]])
       (auto intro!: runs_mono [OF update] simp: sent_update_def)
  have send: "runs (bind (sendReply e (draft_reply p s d r atts)) (after_send e p s))
      (\<lambda>r es. r = Inr () \<and> es \<noteq> [] \<and> delivered e p s d es \<and> ?fin es)" for r atts
    by (rule runs_bind [OF runs_send_reply [OF assms(3)]]) (auto intro!: runs_mono [OF after] delivered_more(2))
  have draft: "runs (send_draft e p s d) (\<lambda>r es. r = Inr () \<and> es \<noteq> [] \<and> delivered e p s d es \<and> ?fin es)"
    unfolding send_draft_def
    by (rule runs_bind [OF runs_mx], use e in blast, simp, rule runs_bind [OF runs_in_reply_to], use e in blast,
        rule runs_bind [OF runs_attachments], use e in blast)
       (auto intro!: runs_mono [OF send] delivered_more(1))
  show ?thesis
    unfolding process_draft_def read_signal_def
    by (rule runs_bind_ok [where Q = "\<lambda>found _. found = Some s"])
       (use e assms(2) in \<open>auto intro!: runs_call runs_mono [OF draft] delivered_more(1)\<close>)
qed

text \<open>The sender is an alias of the account, as the API asks for.\<close>

definition senders_alias :: alias_rec where
  "senders_alias =
     \<lparr>al_id = ''al1'', al_accountId = ''a1'', al_aliasAddress = ''me@x.io'', al_domain = ''x.io'', al_aliasName = ''me'',
      al_unknownSenderPolicy = USAllowAll, al_name = Some ''Me'', al_createdForOrigin = None, al_emxId = None,
      al_createdAt = ''2026'', al_updatedAt = ''2026''\<rparr>"

definition live_env :: mail_env where
  "live_env = drafting_env\<lparr>mailGetAlias := (\<lambda>a i h. Done (Inr (Some senders_alias)))\<rparr>"

lemma sample_nothing_fails: "nothing_fails live_env waiting_payload waiting_draft"
  by (auto simp: nothing_fails_def live_env_def drafting_env_def sample_mail_env_def)

lemma sample_awaiting: "awaiting waiting_payload (Some waiting_draft) = Some (waiting_draft, waiting_data)"
  by (simp add: awaiting_def waiting_draft_def waiting_data_def waiting_payload_def isEmailSignal_def)

lemma sample_account: "dp_accountId waiting_payload = ''a1''"
  by (simp add: waiting_payload_def)

lemma sample_alignment:
  "validateTenantDomainAlignment live_env ''a1'' (decorate live_env (draft_from live_env waiting_data) (Some senders_alias)) = Inr ()"
  by code_simp

lemma sample_can_leave: "can_leave live_env waiting_payload waiting_data"
proof -
  have "open_ses live_env waiting_payload waiting_data (Some senders_alias)"
    unfolding open_ses_def sample_account
  proof (intro conjI)
    show "validateAccountId ''a1'' = Inr ()" by code_simp
    show "\<exists>dm. do_senderSetupComplete dm \<and>
        (\<forall>h. mailGetDomain live_env ''a1'' (sender_domain (draft_from live_env waiting_data)) h = Done (Inr (Some dm)))"
      by (simp add: live_env_def drafting_env_def verified_domain_def)
    show "\<forall>rq h. \<exists>m. sesClientSend live_env rq h = Inr m"
      by (simp add: live_env_def drafting_env_def sample_mail_env_def)
  qed (rule sample_alignment | simp add: emx_id_of_def senders_alias_def)+
  moreover have "nullish (parseHopCount (eb_headers waiting_data)) 0 < MAX_HOP_COUNT" by code_simp
  ultimately show ?thesis
    by (auto simp: can_leave_def live_env_def waiting_payload_def)
qed

lemma draft_reaches_recipients_witness:
  "runs (process_draft live_env waiting_payload) (\<lambda>r es. r = Inr () \<and>
    delivered live_env waiting_payload waiting_draft waiting_data es \<and>
    (\<exists>u. last es = StatusUpdate ''a1'' ''l1'' u True \<and> ss_status u = SSent))"
  using draft_reaches_recipients [OF sample_nothing_fails sample_awaiting sample_can_leave]
  by (simp add: waiting_payload_def waiting_draft_def)

end
