(* ===== verification/Registry.thy ===== *)
theory Registry
  imports Types
begin

text \<open>
  The workflow registry (\<open>types/workflow-registry.ts\<close>): what the classifier may extract from a
  message, per workflow. The registry is data of the source, carried over entry by entry; the
  descriptions and notes, which only the prompt prints, are left out.
\<close>

record workflow_field_definition =
  fd_name :: str
  fd_type :: str
  fd_required :: bool
  fd_enumValues :: "str list option"
  fd_identity :: bool

record workflow_definition =
  wd_name :: str
  wd_fields :: "workflow_field_definition list"
  wd_classifierAssignable :: bool

abbreviation fd :: "str \<Rightarrow> str \<Rightarrow> bool \<Rightarrow> bool \<Rightarrow> workflow_field_definition" where
  "fd n t r i \<equiv> \<lparr>fd_name = n, fd_type = t, fd_required = r, fd_enumValues = None, fd_identity = i\<rparr>"

abbreviation fd_enum :: "str \<Rightarrow> str \<Rightarrow> bool \<Rightarrow> str list \<Rightarrow> workflow_field_definition" where
  "fd_enum n t r vs \<equiv>
     \<lparr>fd_name = n, fd_type = t, fd_required = r, fd_enumValues = Some vs, fd_identity = False\<rparr>"

text \<open>\<open>CLASSIFIER_WORKFLOW_REGISTRY\<close>\<close>

definition CLASSIFIER_WORKFLOW_REGISTRY :: "workflow_definition list" where
  "CLASSIFIER_WORKFLOW_REGISTRY =
     [\<lparr>wd_name = ''auth'', wd_fields =
         [fd_enum ''authType'' ''enum'' True
            [''verification'', ''password_reset'', ''two_factor'', 
             ''security_alert'', ''other''],
          fd ''code'' ''string'' False False,
          fd ''actionUrl'' ''string'' False False,
          fd ''expiresInMinutes'' ''number'' False False,
          fd ''service'' ''string'' True True],
       wd_classifierAssignable = True\<rparr>,
      \<lparr>wd_name = ''conversation'', wd_fields =
         [fd_enum ''sentiment'' ''enum'' True
            [''positive'', ''neutral'', ''negative'', ''urgent''],
          fd ''requiresReply'' ''boolean'' True False,
          fd ''muteUrl'' ''string'' False False],
       wd_classifierAssignable = True\<rparr>,
      \<lparr>wd_name = ''crm'', wd_fields =
         [fd ''senderCompany'' ''string'' False True,
          fd ''senderRole'' ''string'' False False],
       wd_classifierAssignable = True\<rparr>,
      \<lparr>wd_name = ''package'', wd_fields =
         [fd_enum ''packageType'' ''enum'' True
            [''confirmation'', ''shipping'', ''out_for_delivery'', ''delivered'', 
             ''return'', ''refund'', ''cancellation''],
          fd ''retailer'' ''string'' True True,
          fd ''orderNumber'' ''string'' False True,
          fd ''trackingNumber'' ''string'' False False,
          fd ''trackingUrl'' ''string'' False False,
          fd ''estimatedDelivery'' ''date'' False False,
          fd ''items'' ''array'' False False,
          fd ''totalAmount'' ''number'' False False,
          fd ''currency'' ''string'' False False],
       wd_classifierAssignable = True\<rparr>,
      \<lparr>wd_name = ''travel'', wd_fields =
         [fd_enum ''travelType'' ''enum'' True
            [''flight'', ''hotel'', ''car_rental'', ''train'', ''cruise'', 
             ''activity'', ''itinerary'', ''check_in_reminder'', ''boarding_pass''],
          fd ''provider'' ''string'' True True,
          fd ''confirmationNumber'' ''string'' False True,
          fd ''departureDate'' ''date'' False False,
          fd ''returnDate'' ''date'' False False,
          fd ''origin'' ''string'' False True,
          fd ''destination'' ''string'' False True,
          fd ''passengers'' ''array'' False False,
          fd ''totalAmount'' ''number'' False False,
          fd ''currency'' ''string'' False False,
          fd ''flightNumber'' ''string'' False False,
          fd ''seatNumber'' ''string'' False False,
          fd ''boardingTime'' ''date'' False False],
       wd_classifierAssignable = True\<rparr>,
      \<lparr>wd_name = ''payments'', wd_fields =
         [fd_enum ''paymentType'' ''enum'' True
            [''invoice'', ''receipt'', ''subscription_renewal'', ''payment_failed'', 
             ''plan_changed'', ''tax'', ''wire_transfer'', ''refund'', 
             ''statement'', ''other''],
          fd ''vendor'' ''string'' True True,
          fd ''date'' ''date'' True False,
          fd ''amount'' ''number'' False False,
          fd ''currency'' ''string'' False False,
          fd ''dueDate'' ''date'' False False,
          fd ''invoiceNumber'' ''string'' False True,
          fd ''accountLastFour'' ''string'' False False,
          fd ''downloadUrl'' ''string'' False False,
          fd ''managementUrl'' ''string'' False False,
          fd ''paymentUrl'' ''string'' False False],
       wd_classifierAssignable = True\<rparr>,
      \<lparr>wd_name = ''content'', wd_fields =
         [fd_enum ''contentType'' ''enum'' True
            [''newsletter'', ''promotion'', ''social_digest'', ''product_update'', 
             ''announcement''],
          fd ''publisher'' ''string'' True True,
          fd ''topics'' ''array'' False False,
          fd ''discountCode'' ''string'' False False,
          fd ''discountAmount'' ''string'' False False,
          fd ''expiryDate'' ''date'' False False],
       wd_classifierAssignable = True\<rparr>,
      \<lparr>wd_name = ''onboarding'', wd_fields =
         [fd_enum ''onboardingType'' ''enum'' True
            [''welcome'', ''verification'', ''getting_started'', ''trial_started'', 
             ''other''],
          fd ''service'' ''string'' True True],
       wd_classifierAssignable = True\<rparr>,
      \<lparr>wd_name = ''notice'', wd_fields =
         [fd_enum ''noticeType'' ''enum'' True
            [''terms_update'', ''privacy_policy'', ''data_processor'', 
             ''cookie_policy'', ''compliance'', ''service_notice'', ''government'', 
             ''account_notification'', ''security_awareness'', ''bounce'', 
             ''other''],
          fd ''provider'' ''string'' True True,
          fd ''effectiveDate'' ''date'' False False,
          fd ''referenceNumber'' ''string'' False True,
          fd ''documentUrl'' ''string'' False False,
          fd ''failedAddress'' ''string'' False False,
          fd ''bounceReason'' ''string'' False False],
       wd_classifierAssignable = True\<rparr>,
      \<lparr>wd_name = ''healthcare'', wd_fields =
         [fd_enum ''eventType'' ''enum'' True
            [''appointment_reminder'', ''appointment_confirmation'', 
             ''test_results'', ''prescription'', ''insurance_update'', ''billing'', 
             ''referral''],
          fd ''provider'' ''string'' False True,
          fd ''appointmentDate'' ''date'' False False,
          fd ''location'' ''string'' False False,
          fd ''requiresAction'' ''boolean'' True False,
          fd ''portalUrl'' ''string'' False False,
          fd ''patientName'' ''string'' False True],
       wd_classifierAssignable = True\<rparr>,
      \<lparr>wd_name = ''job'', wd_fields =
         [fd_enum ''jobType'' ''enum'' True
            [''application_status'', ''recruiter_outreach'', ''interview_request'', 
             ''offer'', ''rejection'', ''job_posting''],
          fd ''company'' ''string'' False True,
          fd ''role'' ''string'' False True,
          fd ''location'' ''string'' False False,
          fd ''salary'' ''string'' False False,
          fd ''interviewDate'' ''date'' False False,
          fd_enum ''applicationStatus'' ''enum'' False
            [''submitted'', ''reviewing'', ''interview'', ''offer'', ''rejected''],
          fd ''contactName'' ''string'' False False,
          fd ''contactEmail'' ''string'' False False,
          fd ''actionUrl'' ''string'' False False],
       wd_classifierAssignable = True\<rparr>,
      \<lparr>wd_name = ''support'', wd_fields =
         [fd_enum ''eventType'' ''enum'' True
            [''ticket_opened'', ''ticket_updated'', ''ticket_resolved'', 
             ''ticket_closed'', ''awaiting_response'', ''status_update''],
          fd ''ticketId'' ''string'' False True,
          fd ''service'' ''string'' True True,
          fd_enum ''priority'' ''enum'' False
            [''low'', ''normal'', ''high'', ''urgent''],
          fd ''agentName'' ''string'' False False,
          fd ''responseUrl'' ''string'' False False],
       wd_classifierAssignable = True\<rparr>,
      \<lparr>wd_name = ''events'', wd_fields =
         [fd_enum ''eventType'' ''enum'' True
            [''save_the_date'', ''ticket_confirmation'', ''reminder'', ''update'', 
             ''cancellation'', ''venue_change''],
          fd ''eventName'' ''string'' True True,
          fd ''venueName'' ''string'' False True,
          fd ''venueAddress'' ''string'' False False,
          fd ''eventDate'' ''date'' False False,
          fd ''eventStartDatetime'' ''date'' False False,
          fd ''eventEndDate'' ''date'' False False,
          fd ''eventEndDatetime'' ''date'' False False,
          fd ''description'' ''string'' False False,
          fd ''performer'' ''string'' False False,
          fd ''ticketReference'' ''string'' False False,
          fd ''seatDetails'' ''string'' False False,
          fd ''ticketCount'' ''number'' False False,
          fd ''ticketUrl'' ''string'' False False,
          fd ''eventUrl'' ''string'' False False,
          fd ''totalAmount'' ''number'' False False,
          fd ''currency'' ''string'' False False],
       wd_classifierAssignable = True\<rparr>,
      \<lparr>wd_name = ''healthcheck'', wd_fields =
         [],
       wd_classifierAssignable = False\<rparr>,
      \<lparr>wd_name = ''test'', wd_fields =
         [],
       wd_classifierAssignable = True\<rparr>,
      \<lparr>wd_name = ''unspecified'', wd_fields =
         [],
       wd_classifierAssignable = False\<rparr>]"


text \<open>\<open>WORKFLOW_FIELDS.get(workflow)\<close>: the lookup by name, as the coercion and the identity text
  use it\<close>

definition workflow_fields :: "str \<Rightarrow> workflow_field_definition list option" where
  "workflow_fields workflow =
     map_option wd_fields (List.find (\<lambda>w. wd_name w = workflow) CLASSIFIER_WORKFLOW_REGISTRY)"

section \<open>Facts about the registry\<close>

text \<open>Within a workflow the names are distinct, and no field is named like the instant that
  accompanies a date field.\<close>

definition fields_apart :: "workflow_field_definition list \<Rightarrow> bool" where
  "fields_apart ds \<longleftrightarrow> distinct (map fd_name ds) \<and>
     (\<forall>d \<in> set ds. \<forall>d' \<in> set ds. fd_name d' \<noteq> fd_name d @ ''Instant'')"

lemma registry_fields_apart: "list_all (\<lambda>w. fields_apart (wd_fields w)) CLASSIFIER_WORKFLOW_REGISTRY"
  by code_simp

lemma workflow_fields_apart: "workflow_fields w = Some ds \<Longrightarrow> fields_apart ds"
  using registry_fields_apart
  by (auto simp: workflow_fields_def list_all_iff find_Some_iff dest!: nth_mem)

lemma registry_names: "map wd_name CLASSIFIER_WORKFLOW_REGISTRY = WORKFLOWS"
  by code_simp

text \<open>Every field has one of six types, and the enumerated ones list their values.\<close>

lemma registry_types:
  "list_all (\<lambda>w. list_all (\<lambda>d. fd_type d \<in> {''string'', ''enum'', ''number'', ''boolean'', ''date'', ''array''} \<and>
     (fd_enumValues d \<noteq> None \<longleftrightarrow> fd_type d = ''enum'')) (wd_fields w)) CLASSIFIER_WORKFLOW_REGISTRY"
  by code_simp

end
