(* ===== verification/Zones.thy ===== *)
theory Zones
  imports MailText Regex
begin

text \<open>
  Time zones (\<open>api/timezone-allowlist.ts\<close>): the allowlist with the abbreviations each zone goes by,
  and the offset that a zone token at the end of a date stands for. Luxon, which knows the zones and
  parses the dates, is a parameter: a \<open>luxon\<close> record whose fields are the calls the code makes, over
  a type \<open>'d\<close> of its \<open>DateTime\<close> objects.
\<close>

section \<open>Luxon\<close>

text \<open>The options of \<open>DateTime.fromISO\<close>: none, \<open>{ setZone: true }\<close>, \<open>{ zone }\<close>\<close>

datatype iso_zone = LocalZone | SetZone | InZone str

record 'd luxon =
  lx_fromISO :: "str \<Rightarrow> iso_zone \<Rightarrow> 'd"
  lx_fromFormat :: "str \<Rightarrow> str \<Rightarrow> str option \<Rightarrow> 'd"
  lx_fromObject :: "int \<Rightarrow> int \<Rightarrow> int \<Rightarrow> (int \<times> int) option \<Rightarrow> str option \<Rightarrow> 'd"
  lx_set :: "'d \<Rightarrow> int \<Rightarrow> int \<Rightarrow> 'd"
  lx_setZone :: "'d \<Rightarrow> str \<Rightarrow> 'd"
  lx_isValid :: "'d \<Rightarrow> bool"
  lx_later :: "'d \<Rightarrow> 'd \<Rightarrow> bool"
  lx_year :: "'d \<Rightarrow> int"
  lx_month :: "'d \<Rightarrow> int"
  lx_day :: "'d \<Rightarrow> int"
  lx_hour :: "'d \<Rightarrow> int"
  lx_minute :: "'d \<Rightarrow> int"
  lx_offset :: "'d \<Rightarrow> int"
  lx_toFormat :: "'d \<Rightarrow> str \<Rightarrow> str"
  lx_toUTC_toISO :: "'d \<Rightarrow> str option"

section \<open>The allowlist\<close>

definition TIMEZONE_ENTRIES :: "(str \<times> str list) list" where
  "TIMEZONE_ENTRIES =
     [(''Pacific/Niue'', [''UTC-11'']), (''Pacific/Pago_Pago'', [''SST'', ''UTC-11'']),
      (''Pacific/Honolulu'', [''HST'', ''UTC-10'']), (''Pacific/Rarotonga'', [''UTC-10'']),
      (''Pacific/Tahiti'', [''UTC-10'']), (''Pacific/Marquesas'', [''UTC-9:30'']),
      (''America/Anchorage'', [''AKDT'', ''AKST'', ''UTC-9'', ''UTC-8'']),
      (''Pacific/Gambier'', [''UTC-9'']),
      (''America/Los_Angeles'', [''PDT'', ''PST'', ''UTC-8'', ''UTC-7'']),
      (''America/Tijuana'', [''PDT'', ''PST'', ''UTC-8'', ''UTC-7'']),
      (''America/Vancouver'', [''MST'', ''PDT'', ''PST'', ''UTC-8'', ''UTC-7'']),
      (''America/Whitehorse'', [''MST'', ''UTC-7'']), (''Pacific/Pitcairn'', [''UTC-8'']),
      (''America/Denver'', [''MDT'', ''MST'', ''UTC-7'', ''UTC-6'']),
      (''America/Phoenix'', [''MST'', ''UTC-7'']), (''America/Mazatlan'', [''MST'', ''UTC-7'']),
      (''America/Dawson_Creek'', [''MST'', ''UTC-7'']),
      (''America/Edmonton'', [''CST'', ''MDT'', ''MST'', ''UTC-7'', ''UTC-6'']),
      (''America/Hermosillo'', [''MST'', ''UTC-7'']),
      (''America/Yellowknife'', [''CST'', ''MDT'', ''MST'', ''UTC-7'', ''UTC-6'']),
      (''America/Belize'', [''CST'', ''UTC-6'']),
      (''America/Chicago'', [''CDT'', ''CST'', ''UTC-6'', ''UTC-5'']),
      (''America/Mexico_City'', [''CST'', ''UTC-6'']),
      (''America/Regina'', [''CST'', ''UTC-6'']),
      (''America/Tegucigalpa'', [''CST'', ''UTC-6'']),
      (''America/Winnipeg'', [''CDT'', ''CST'', ''UTC-6'', ''UTC-5'']),
      (''America/Costa_Rica'', [''CST'', ''UTC-6'']),
      (''America/El_Salvador'', [''CST'', ''UTC-6'']), (''Pacific/Galapagos'', [''UTC-6'']),
      (''America/Guatemala'', [''CST'', ''UTC-6'']), (''America/Managua'', [''CST'', ''UTC-6'']),
      (''America/Cancun'', [''EST'', ''UTC-5'']), (''America/Bogota'', [''UTC-5'']),
      (''Pacific/Easter'', [''UTC-5'', ''UTC-6'']),
      (''America/New_York'', [''EDT'', ''EST'', ''UTC-5'', ''UTC-4'']),
      (''America/Iqaluit'', [''EDT'', ''EST'', ''UTC-5'', ''UTC-4'']),
      (''America/Toronto'', [''EDT'', ''EST'', ''UTC-5'', ''UTC-4'']),
      (''America/Guayaquil'', [''UTC-5'']),
      (''America/Havana'', [''CDT'', ''CST'', ''UTC-5'', ''UTC-4'']),
      (''America/Jamaica'', [''EST'', ''UTC-5'']), (''America/Lima'', [''UTC-5'']),
      (''America/Nassau'', [''EDT'', ''EST'', ''UTC-5'', ''UTC-4'']),
      (''America/Panama'', [''EST'', ''UTC-5'']),
      (''America/Port-au-Prince'', [''EDT'', ''EST'', ''UTC-5'', ''UTC-4'']),
      (''America/Rio_Branco'', [''UTC-5'']),
      (''America/Halifax'', [''ADT'', ''AST'', ''UTC-4'', ''UTC-3'']),
      (''America/Barbados'', [''AST'', ''UTC-4'']),
      (''Atlantic/Bermuda'', [''ADT'', ''AST'', ''UTC-4'', ''UTC-3'']),
      (''America/Boa_Vista'', [''UTC-4'']), (''America/Caracas'', [''UTC-4'']),
      (''America/Curacao'', [''AST'', ''UTC-4'']),
      (''America/Grand_Turk'', [''EDT'', ''EST'', ''UTC-5'', ''UTC-4'']),
      (''America/Guyana'', [''UTC-4'']), (''America/La_Paz'', [''UTC-4'']),
      (''America/Manaus'', [''UTC-4'']), (''America/Martinique'', [''AST'', ''UTC-4'']),
      (''America/Port_of_Spain'', [''AST'', ''UTC-4'']), (''America/Porto_Velho'', [''UTC-4'']),
      (''America/Puerto_Rico'', [''AST'', ''UTC-4'']),
      (''America/Santo_Domingo'', [''AST'', ''UTC-4'']),
      (''America/Thule'', [''ADT'', ''AST'', ''UTC-4'', ''UTC-3'']),
      (''America/St_Johns'', [''NDT'', ''NST'', ''UTC-3:30'', ''UTC-2:30'']),
      (''America/Araguaina'', [''UTC-3'']), (''America/Asuncion'', [''UTC-3'', ''UTC-4'']),
      (''America/Belem'', [''UTC-3'']), (''America/Argentina/Buenos_Aires'', [''UTC-3'']),
      (''America/Campo_Grande'', [''UTC-4'']), (''America/Cayenne'', [''UTC-3'']),
      (''America/Cuiaba'', [''UTC-4'']), (''America/Fortaleza'', [''UTC-3'']),
      (''America/Godthab'', [''UTC-2'', ''UTC-1'']), (''America/Maceio'', [''UTC-3'']),
      (''America/Miquelon'', [''UTC-3'', ''UTC-2'']), (''America/Montevideo'', [''UTC-3'']),
      (''Antarctica/Palmer'', [''UTC-3'']), (''America/Paramaribo'', [''UTC-3'']),
      (''America/Punta_Arenas'', [''UTC-3'']), (''America/Recife'', [''UTC-3'']),
      (''Antarctica/Rothera'', [''UTC-3'']), (''America/Bahia'', [''UTC-3'']),
      (''America/Santiago'', [''UTC-3'', ''UTC-4'']), (''Atlantic/Stanley'', [''UTC-3'']),
      (''America/Noronha'', [''UTC-2'']), (''America/Sao_Paulo'', [''UTC-3'']),
      (''Atlantic/South_Georgia'', [''UTC-2'']), (''Atlantic/Azores'', [''UTC-1'', ''UTC+0'']),
      (''Atlantic/Cape_Verde'', [''UTC-1'']), (''America/Scoresbysund'', [''UTC-1'']),
      (''Africa/Abidjan'', [''GMT'', ''UTC+0'']), (''Africa/Accra'', [''GMT'', ''UTC+0'']),
      (''Africa/Bissau'', [''GMT'', ''UTC+0'']),
      (''Atlantic/Canary'', [''WEST'', ''WET'', ''UTC+0'', ''UTC+1'']),
      (''Africa/Casablanca'', [''UTC+1'']), (''America/Danmarkshavn'', [''GMT'', ''UTC+0'']),
      (''Europe/Dublin'', [''GMT'', ''IST'', ''UTC+0'', ''UTC+1'']),
      (''Africa/El_Aaiun'', [''UTC+1'']),
      (''Atlantic/Faroe'', [''WEST'', ''WET'', ''UTC+0'', ''UTC+1'']),
      (''Etc/GMT'', [''UTC+0'']), (''Europe/Lisbon'', [''WEST'', ''WET'', ''UTC+0'', ''UTC+1'']),
      (''Europe/London'', [''BST'', ''GMT'', ''UTC+0'', ''UTC+1'']),
      (''Africa/Monrovia'', [''GMT'', ''UTC+0'']),
      (''Atlantic/Reykjavik'', [''GMT'', ''UTC+0'']), (''Africa/Algiers'', [''CET'', ''UTC+1'']),
      (''Europe/Amsterdam'', [''CEST'', ''CET'', ''UTC+1'', ''UTC+2'']),
      (''Europe/Andorra'', [''CEST'', ''CET'', ''UTC+1'', ''UTC+2'']),
      (''Europe/Berlin'', [''CEST'', ''CET'', ''UTC+1'', ''UTC+2'']),
      (''Europe/Brussels'', [''CEST'', ''CET'', ''UTC+1'', ''UTC+2'']),
      (''Europe/Budapest'', [''CEST'', ''CET'', ''UTC+1'', ''UTC+2'']),
      (''Europe/Belgrade'', [''CEST'', ''CET'', ''UTC+1'', ''UTC+2'']),
      (''Europe/Prague'', [''CEST'', ''CET'', ''UTC+1'', ''UTC+2'']),
      (''Africa/Ceuta'', [''CEST'', ''CET'', ''UTC+1'', ''UTC+2'']),
      (''Europe/Copenhagen'', [''CEST'', ''CET'', ''UTC+1'', ''UTC+2'']),
      (''Europe/Gibraltar'', [''CEST'', ''CET'', ''UTC+1'', ''UTC+2'']),
      (''Africa/Lagos'', [''WAT'', ''UTC+1'']),
      (''Europe/Luxembourg'', [''CEST'', ''CET'', ''UTC+1'', ''UTC+2'']),
      (''Europe/Madrid'', [''CEST'', ''CET'', ''UTC+1'', ''UTC+2'']),
      (''Europe/Malta'', [''CEST'', ''CET'', ''UTC+1'', ''UTC+2'']),
      (''Europe/Monaco'', [''CEST'', ''CET'', ''UTC+1'', ''UTC+2'']),
      (''Africa/Ndjamena'', [''WAT'', ''UTC+1'']),
      (''Europe/Oslo'', [''CEST'', ''CET'', ''UTC+1'', ''UTC+2'']),
      (''Europe/Paris'', [''CEST'', ''CET'', ''UTC+1'', ''UTC+2'']),
      (''Europe/Rome'', [''CEST'', ''CET'', ''UTC+1'', ''UTC+2'']),
      (''Europe/Stockholm'', [''CEST'', ''CET'', ''UTC+1'', ''UTC+2'']),
      (''Europe/Tirane'', [''CEST'', ''CET'', ''UTC+1'', ''UTC+2'']),
      (''Africa/Tunis'', [''CET'', ''UTC+1'']),
      (''Europe/Vienna'', [''CEST'', ''CET'', ''UTC+1'', ''UTC+2'']),
      (''Europe/Warsaw'', [''CEST'', ''CET'', ''UTC+1'', ''UTC+2'']),
      (''Europe/Zurich'', [''CEST'', ''CET'', ''UTC+1'', ''UTC+2'']),
      (''Asia/Amman'', [''UTC+3'']),
      (''Europe/Athens'', [''EEST'', ''EET'', ''UTC+2'', ''UTC+3'']),
      (''Asia/Beirut'', [''EEST'', ''EET'', ''UTC+2'', ''UTC+3'']),
      (''Europe/Bucharest'', [''EEST'', ''EET'', ''UTC+2'', ''UTC+3'']),
      (''Africa/Cairo'', [''EEST'', ''EET'', ''UTC+2'', ''UTC+3'']),
      (''Europe/Chisinau'', [''EEST'', ''EET'', ''UTC+2'', ''UTC+3'']),
      (''Asia/Damascus'', [''UTC+3'']),
      (''Asia/Gaza'', [''EEST'', ''EET'', ''UTC+2'', ''UTC+3'']),
      (''Europe/Helsinki'', [''EEST'', ''EET'', ''UTC+2'', ''UTC+3'']),
      (''Asia/Jerusalem'', [''IDT'', ''IST'', ''UTC+2'', ''UTC+3'']),
      (''Africa/Johannesburg'', [''SAST'', ''UTC+2'']),
      (''Africa/Khartoum'', [''CAT'', ''UTC+2'']),
      (''Europe/Kiev'', [''EEST'', ''EET'', ''UTC+2'', ''UTC+3'']),
      (''Africa/Maputo'', [''CAT'', ''UTC+2'']), (''Europe/Kaliningrad'', [''EET'', ''UTC+2'']),
      (''Asia/Nicosia'', [''EEST'', ''EET'', ''UTC+2'', ''UTC+3'']),
      (''Europe/Riga'', [''EEST'', ''EET'', ''UTC+2'', ''UTC+3'']),
      (''Europe/Sofia'', [''EEST'', ''EET'', ''UTC+2'', ''UTC+3'']),
      (''Europe/Tallinn'', [''EEST'', ''EET'', ''UTC+2'', ''UTC+3'']),
      (''Africa/Tripoli'', [''EET'', ''UTC+2'']),
      (''Europe/Vilnius'', [''EEST'', ''EET'', ''UTC+2'', ''UTC+3'']),
      (''Africa/Windhoek'', [''CAT'', ''UTC+2'']), (''Asia/Baghdad'', [''UTC+3'']),
      (''Europe/Istanbul'', [''UTC+3'']), (''Europe/Minsk'', [''UTC+3'']),
      (''Europe/Moscow'', [''MSK'', ''UTC+3'']), (''Africa/Nairobi'', [''EAT'', ''UTC+3'']),
      (''Asia/Qatar'', [''UTC+3'']), (''Asia/Riyadh'', [''UTC+3'']),
      (''Antarctica/Syowa'', [''UTC+3'']), (''Asia/Tehran'', [''UTC+3:30'']),
      (''Asia/Baku'', [''UTC+4'']), (''Asia/Dubai'', [''UTC+4'']),
      (''Indian/Mahe'', [''UTC+4'']), (''Indian/Mauritius'', [''UTC+4'']),
      (''Europe/Samara'', [''UTC+4'']), (''Indian/Reunion'', [''UTC+4'']),
      (''Asia/Tbilisi'', [''UTC+4'']), (''Asia/Yerevan'', [''UTC+4'']),
      (''Asia/Kabul'', [''UTC+4:30'']), (''Asia/Aqtau'', [''UTC+5'']),
      (''Asia/Aqtobe'', [''UTC+5'']), (''Asia/Ashgabat'', [''UTC+5'']),
      (''Asia/Dushanbe'', [''UTC+5'']), (''Asia/Karachi'', [''PKT'', ''UTC+5'']),
      (''Indian/Kerguelen'', [''UTC+5'']), (''Indian/Maldives'', [''UTC+5'']),
      (''Antarctica/Mawson'', [''UTC+5'']), (''Asia/Yekaterinburg'', [''UTC+5'']),
      (''Asia/Tashkent'', [''UTC+5'']), (''Asia/Colombo'', [''UTC+5:30'']),
      (''Asia/Kolkata'', [''IST'', ''UTC+5:30'']), (''Asia/Kathmandu'', [''UTC+5:45'']),
      (''Asia/Almaty'', [''UTC+6'', ''UTC+5'']), (''Asia/Bishkek'', [''UTC+6'']),
      (''Indian/Chagos'', [''UTC+6'']), (''Asia/Dhaka'', [''UTC+6'']),
      (''Asia/Omsk'', [''UTC+6'']), (''Asia/Thimphu'', [''UTC+6'']),
      (''Antarctica/Vostok'', [''UTC+5'']), (''Indian/Cocos'', [''UTC+6:30'']),
      (''Asia/Yangon'', [''UTC+6:30'']), (''Asia/Bangkok'', [''UTC+7'']),
      (''Indian/Christmas'', [''UTC+7'']), (''Antarctica/Davis'', [''UTC+7'']),
      (''Asia/Saigon'', [''UTC+7'']), (''Asia/Hovd'', [''UTC+7'']),
      (''Asia/Jakarta'', [''WIB'', ''UTC+7'']), (''Asia/Krasnoyarsk'', [''UTC+7'']),
      (''Asia/Brunei'', [''UTC+8'']), (''Asia/Shanghai'', [''CST'', ''UTC+8'']),
      (''Asia/Choibalsan'', [''UTC+8'']), (''Asia/Hong_Kong'', [''HKT'', ''UTC+8'']),
      (''Asia/Kuala_Lumpur'', [''UTC+8'']), (''Asia/Macau'', [''CST'', ''UTC+8'']),
      (''Asia/Makassar'', [''WITA'', ''UTC+8'']), (''Asia/Manila'', [''PST'', ''UTC+8'']),
      (''Asia/Irkutsk'', [''UTC+8'']), (''Asia/Singapore'', [''UTC+8'']),
      (''Asia/Taipei'', [''CST'', ''UTC+8'']), (''Asia/Ulaanbaatar'', [''UTC+8'']),
      (''Australia/Perth'', [''AWST'', ''UTC+8'']), (''Asia/Pyongyang'', [''KST'', ''UTC+9'']),
      (''Asia/Dili'', [''UTC+9'']), (''Asia/Jayapura'', [''WIT'', ''UTC+9'']),
      (''Asia/Yakutsk'', [''UTC+9'']), (''Pacific/Palau'', [''UTC+9'']),
      (''Asia/Seoul'', [''KST'', ''UTC+9'']), (''Asia/Tokyo'', [''JST'', ''UTC+9'']),
      (''Australia/Darwin'', [''ACST'', ''UTC+9:30'']),
      (''Antarctica/DumontDUrville'', [''UTC+10'']),
      (''Australia/Brisbane'', [''AEST'', ''UTC+10'']),
      (''Pacific/Guam'', [''ChST'', ''UTC+10'']), (''Asia/Vladivostok'', [''UTC+10'']),
      (''Pacific/Port_Moresby'', [''UTC+10'']), (''Pacific/Chuuk'', [''UTC+10'']),
      (''Australia/Adelaide'', [''ACDT'', ''ACST'', ''UTC+10:30'', ''UTC+9:30'']),
      (''Antarctica/Casey'', [''UTC+8'']),
      (''Australia/Hobart'', [''AEDT'', ''AEST'', ''UTC+11'', ''UTC+10'']),
      (''Australia/Sydney'', [''AEDT'', ''AEST'', ''UTC+11'', ''UTC+10'']),
      (''Pacific/Efate'', [''UTC+11'']), (''Pacific/Guadalcanal'', [''UTC+11'']),
      (''Pacific/Kosrae'', [''UTC+11'']), (''Asia/Magadan'', [''UTC+11'']),
      (''Pacific/Norfolk'', [''UTC+12'', ''UTC+11'']), (''Pacific/Noumea'', [''UTC+11'']),
      (''Pacific/Pohnpei'', [''UTC+11'']), (''Pacific/Funafuti'', [''UTC+12'']),
      (''Pacific/Kwajalein'', [''UTC+12'']), (''Pacific/Majuro'', [''UTC+12'']),
      (''Asia/Kamchatka'', [''UTC+12'']), (''Pacific/Nauru'', [''UTC+12'']),
      (''Pacific/Tarawa'', [''UTC+12'']), (''Pacific/Wake'', [''UTC+12'']),
      (''Pacific/Wallis'', [''UTC+12'']),
      (''Pacific/Auckland'', [''NZDT'', ''NZST'', ''UTC+13'', ''UTC+12'']),
      (''Pacific/Enderbury'', [''UTC+13'']), (''Pacific/Fakaofo'', [''UTC+13'']),
      (''Pacific/Fiji'', [''UTC+12'']), (''Pacific/Tongatapu'', [''UTC+13'']),
      (''Pacific/Apia'', [''UTC+13'']), (''Pacific/Kiritimati'', [''UTC+14''])]"

definition timezoneAllowlist :: "str list" where
  "timezoneAllowlist = map fst TIMEZONE_ENTRIES"

definition DEFAULT_TIMEZONE :: str where
  "DEFAULT_TIMEZONE = ''Europe/London''"

definition AMBIGUOUS_ABBREVIATION_PREFERENCE :: "(str \<times> str) list" where
  "AMBIGUOUS_ABBREVIATION_PREFERENCE =
     [(''CDT'', ''America/Chicago''), (''CST'', ''America/Chicago''), (''IST'', ''Europe/Dublin''),
      (''MST'', ''America/Denver''), (''PST'', ''America/Los_Angeles'')]"

section \<open>Patterns\<close>

definition digit_re :: re where "digit_re = Cls is_digit"
definition space_re :: re where "space_re = Cls is_space"
definition opt_re :: "re \<Rightarrow> re" where "opt_re r = Alt r Eps"
definition seq_re :: "re list \<Rightarrow> re" where "seq_re rs = foldr Seq rs Eps"

text \<open>\<open>r{m,m+k}\<close>\<close>

primrec upto_re :: "nat \<Rightarrow> re \<Rightarrow> re" where
  "upto_re 0 r = Eps"
| "upto_re (Suc k) r = opt_re (Seq r (upto_re k r))"

definition times_re :: "nat \<Rightarrow> nat \<Rightarrow> re \<Rightarrow> re" where
  "times_re m k r = seq_re (replicate m r @ [upto_re k r])"

text \<open>\<open>$\<close>\<close>

definition end_re :: re where "end_re = Ahead (\<lambda>s. s = [])"

text \<open>A match anchored at the start of the text, with what follows it\<close>

definition match_here :: "re \<Rightarrow> str \<Rightarrow> (str \<times> caps \<times> str) option" where
  "match_here r s = (case matches r (s, []) of
     [] \<Rightarrow> None
   | (q, c) # _ \<Rightarrow> Some (take (length s - length q) s, c, q))"

section \<open>The offset of a zone token\<close>

definition numericZonePattern :: re where
  "numericZonePattern =
     seq_re [opt_re (Alt (lit_i ''utc'') (lit_i ''gmt'')),
             Cap 1 (Cls (\<lambda>c. c = CHR ''+'' \<or> c = CHR ''-'')),
             Cap 2 (times_re 1 1 digit_re),
             opt_re (seq_re [opt_re (lit '':''), Cap 3 (times_re 2 0 digit_re)]), end_re]"

definition numericOffsetMinutes :: "str \<Rightarrow> int option" where
  "numericOffsetMinutes token =
     (case match_here numericZonePattern token of
        Some (_, c, _) \<Rightarrow>
          (let sgn = (if map_of c 1 = Some ''-'' then -1 else 1);
               hours = digits_value (nullish (map_of c 2) []);
               minutes = (case map_of c 3 of None \<Rightarrow> 0 | Some m \<Rightarrow> digits_value m)
           in Some (sgn * (hours * 60 + minutes)))
      | None \<Rightarrow> if to_upper token \<in> {''UTC'', ''GMT''} then Some 0 else None)"

definition isSummerAbbreviation :: "str \<Rightarrow> bool" where
  "isSummerAbbreviation abbr =
     (let upper = to_upper abbr
      in ends_with upper ''DT'' \<or> upper \<in> {''CEST'', ''EEST'', ''WEST'', ''BST'', ''IST'', ''IDT''})"

definition seasonOffsetMinutes :: "'d luxon \<Rightarrow> str \<Rightarrow> bool \<Rightarrow> int" where
  "seasonOffsetMinutes lx tz summer =
     (let jan = lx_offset lx (lx_fromObject lx 2024 1 15 (Some (12, 0)) (Some tz));
          jul = lx_offset lx (lx_fromObject lx 2024 7 15 (Some (12, 0)) (Some tz))
      in if summer then max jan jul else min jan jul)"

text \<open>\<open>abbreviationIndex().get(upper)\<close>: the zones listed under an alphabetic abbreviation\<close>

definition abbreviationIndex :: "str \<Rightarrow> str list" where
  "abbreviationIndex upper =
     concat (map (\<lambda>(tz, as). map (\<lambda>_. tz) (filter (\<lambda>a. a \<noteq> [] \<and> list_all is_letter a \<and> a = upper) as))
       TIMEZONE_ENTRIES)"

definition resolveZoneOffsetMinutes :: "'d luxon \<Rightarrow> str \<Rightarrow> str \<Rightarrow> int option" where
  "resolveZoneOffsetMinutes lx rawToken accountTimezone =
     (let t0 = trim rawToken;
          t1 = (case t0 of CHR ''('' # r \<Rightarrow> r | _ \<Rightarrow> t0);
          token = (if ends_with t1 '')'' then slice_drop_last 1 t1 else t1);
          utc = (if to_upper (take 3 token) = ''GMT'' then ''UTC'' @ drop 3 token else token)
      in case numericOffsetMinutes utc of
           Some n \<Rightarrow> Some n
         | None \<Rightarrow>
             (let upper = to_upper token;
                  candidates = abbreviationIndex upper;
                  summer = isSummerAbbreviation upper;
                  offsetFor = (\<lambda>tz. seasonOffsetMinutes lx tz summer)
              in case candidates of
                   [] \<Rightarrow> None
                 | z # _ \<Rightarrow>
                     if length (remdups (map offsetFor candidates)) = 1 then Some (offsetFor z)
                     else if accountTimezone \<in> set candidates then Some (offsetFor accountTimezone)
                     else (case map_of AMBIGUOUS_ABBREVIATION_PREFERENCE upper of
                             Some p \<Rightarrow> if p \<in> set candidates then Some (offsetFor p) else None
                           | None \<Rightarrow> None)))"

end
