(* ===== verification/Coerce.thy ===== *)
theory Coerce
  imports Zones Registry MailBody Resources
begin

text \<open>
  The coercion of the fields the language model returns to the types the registry declares
  (\<open>classifier/coerce-workflow-data.ts\<close>, \<open>classifier/display-to-instant.ts\<close>). Luxon is the parameter
  \<open>lx\<close>; the conversions between numbers and their decimal text are the parameter \<open>num\<close>. Characters
  are Latin-1 and case folding is ASCII, so the Cyrillic spellings of one pattern have no
  counterpart. A look-behind for a digit is a captured digit that the replacement puts back.
\<close>

section \<open>Scalars\<close>

text \<open>\<open>String(n)\<close>, and \<open>String(Number(s))\<close> when \<open>Number(s)\<close> is finite\<close>

record js_number =
  jn_String :: "int \<Rightarrow> str"
  jn_Number :: "str \<Rightarrow> str option"

text \<open>A number of the model's JSON is an integer and finite, so the test \<open>Number.isFinite(value)\<close> holds of it; a
  fraction has no counterpart.\<close>

definition coerceNumericToString :: "js_number \<Rightarrow> json \<Rightarrow> str option" where
  "coerceNumericToString num v =
     (case v of
        JNum n \<Rightarrow> Some (jn_String num n)
      | JStr s \<Rightarrow>
          (let trimmed = trim s
           in if trimmed = [] then None else jn_Number num (filter (\<lambda>c. c \<noteq> CHR '','') trimmed))
      | _ \<Rightarrow> None)"

definition coerceBoolean :: "json \<Rightarrow> bool option" where
  "coerceBoolean v =
     (case v of
        JBool b \<Rightarrow> Some b
      | JNum n \<Rightarrow> if n = 1 then Some True else if n = 0 then Some False else None
      | JStr s \<Rightarrow>
          (let lower = to_lower (trim s)
           in if lower \<in> {''true'', ''yes'', ''1''} then Some True
              else if lower \<in> {''false'', ''no'', ''0''} then Some False else None)
      | _ \<Rightarrow> None)"

definition coerceString :: "js_number \<Rightarrow> json \<Rightarrow> str option" where
  "coerceString num v =
     (case v of
        JStr s \<Rightarrow> Some s
      | JNum n \<Rightarrow> Some (jn_String num n)
      | JBool b \<Rightarrow> Some (if b then ''true'' else ''false'')
      | _ \<Rightarrow> None)"

definition coerceEnumValue :: "json \<Rightarrow> str list \<Rightarrow> str option" where
  "coerceEnumValue raw enumValues =
     (case raw of
        JStr s \<Rightarrow> List.find (\<lambda>v. to_lower v = to_lower (trim s)) enumValues
      | _ \<Rightarrow> None)"

section \<open>Formats\<close>

definition BASE_DATE_FORMATS_WITH_YEAR :: "str list" where
  "BASE_DATE_FORMATS_WITH_YEAR =
     [''d MMMM yyyy'', ''MMMM d, yyyy'', ''d MMM yyyy'', ''MMM d, yyyy'', ''dd.MM.yyyy'']"

definition BASE_DATE_FORMATS_YEARFREE :: "str list" where
  "BASE_DATE_FORMATS_YEARFREE = [''d MMMM'', ''MMMM d'', ''d MMM'', ''MMM d'']"

definition withWeekdayPrefix :: "str list \<Rightarrow> str list" where
  "withWeekdayPrefix formats =
     concat (map (\<lambda>fmt. [fmt, ''ccc, '' @ fmt, ''cccc, '' @ fmt, ''ccc '' @ fmt, ''cccc '' @ fmt]) formats)"

text \<open>The first \<open>MMM\<close> that is not part of a longer run of \<open>M\<close>, followed by a period\<close>

fun period_after_mmm :: "bool \<Rightarrow> str \<Rightarrow> str option" where
  "period_after_mmm after_m [] = None"
| "period_after_mmm after_m (c # cs) =
     (if \<not> after_m \<and> take 3 (c # cs) = ''MMM'' \<and> take 1 (drop 2 cs) \<noteq> ''M''
      then Some (''MMM.'' @ drop 2 cs)
      else map_option (Cons c) (period_after_mmm (c = CHR ''M'') cs))"

definition withAbbrevMonthPeriod :: "str list \<Rightarrow> str list" where
  "withAbbrevMonthPeriod formats =
     concat (map (\<lambda>fmt. case period_after_mmm False fmt of Some p \<Rightarrow> [fmt, p] | None \<Rightarrow> [fmt]) formats)"

definition DATE_FORMATS_WITH_YEAR :: "str list" where
  "DATE_FORMATS_WITH_YEAR = withWeekdayPrefix (withAbbrevMonthPeriod BASE_DATE_FORMATS_WITH_YEAR)"

definition DATE_FORMATS_YEARFREE :: "str list" where
  "DATE_FORMATS_YEARFREE = withWeekdayPrefix (withAbbrevMonthPeriod BASE_DATE_FORMATS_YEARFREE)"

definition TRAILING_TIME_CONNECTOR_WORDS :: "str list" where
  "TRAILING_TIME_CONNECTOR_WORDS = [''at'', ''um'', [CHR 0xE0], ''a las'', ''alle'', ''om'']"

definition quoted :: "str \<Rightarrow> str" where "quoted s = [CHR 0x27] @ s @ [CHR 0x27]"

definition TIME_SUFFIXES :: "str list" where
  "TIME_SUFFIXES =
     [[], '' HH:mm'', '' h:mm a''] @
     concat (map (\<lambda>w. ['' '' @ quoted w @ '' HH:mm'', '' '' @ quoted w @ '' h:mm a''])
       TRAILING_TIME_CONNECTOR_WORDS) @
     ['', HH.mm'', '' HH.mm'', '' h.mm a'', '', h.mm a'']"

section \<open>Patterns\<close>

definition is_word :: "char \<Rightarrow> bool" where
  "is_word c \<longleftrightarrow> is_letter c \<or> is_digit c \<or> c = CHR ''_''"

text \<open>\<open>\b\<close> behind a word character\<close>

definition word_end_re :: re where
  "word_end_re = Ahead (\<lambda>s. case s of [] \<Rightarrow> True | c # _ \<Rightarrow> \<not> is_word c)"

definition one_of :: "str \<Rightarrow> re" where "one_of cs = Cls (\<lambda>c. c \<in> set cs)"

definition ORDINAL_DAY_SUFFIX :: re where
  "ORDINAL_DAY_SUFFIX =
     seq_re [Cap 1 digit_re, alts [lit_i ''st'', lit_i ''nd'', lit_i ''rd'', lit_i ''th''], word_end_re]"

definition FR_ORDINAL_SUFFIX :: re where
  "FR_ORDINAL_SUFFIX =
     seq_re [Cap 1 digit_re, alts [lit_i ''er'', lit_i ''re'', lit_i [CHR 0xE8, CHR ''m'', CHR ''e'']], word_end_re]"

definition ES_IT_ORDINAL_SUFFIX :: re where
  "ES_IT_ORDINAL_SUFFIX = seq_re [Cap 1 digit_re, one_of [CHR 0xBA, CHR 0xAA, CHR 0xB0]]"

definition DE_ORDINAL_PERIOD :: re where
  "DE_ORDINAL_PERIOD =
     seq_re [Cap 1 digit_re, lit ''.'', Ahead (\<lambda>s. case s of [] \<Rightarrow> False | c # _ \<Rightarrow> is_space c)]"

definition NL_ORDINAL_SUFFIX :: re where
  "NL_ORDINAL_SUFFIX = seq_re [Cap 1 digit_re, lit_i ''e'', word_end_re]"

definition TRAILING_ZONE_TOKEN :: re where
  "TRAILING_ZONE_TOKEN =
     seq_re [space_re, opt_re (lit ''(''),
       Cap 1 (alts
         [seq_re [Alt (lit_i ''utc'') (lit_i ''gmt''),
            opt_re (seq_re [one_of ''+-'', times_re 1 1 digit_re,
              opt_re (seq_re [opt_re (lit '':''), times_re 2 0 digit_re])])],
          seq_re [one_of ''+-'', times_re 2 0 digit_re, opt_re (lit '':''), times_re 2 0 digit_re],
          seq_re [Ahead (\<lambda>s. to_upper s \<noteq> ''AM'' \<and> to_upper s \<noteq> ''PM''), times_re 2 3 (Cls is_letter)]]),
       opt_re (lit '')''), Star True space_re, end_re]"

definition SLASH_DATE_PATTERN :: re where
  "SLASH_DATE_PATTERN = seq_re [plus_re digit_re, lit ''/'', plus_re digit_re]"

definition SLASH_DATE_COMPONENTS :: re where
  "SLASH_DATE_COMPONENTS =
     seq_re [Cap 1 (times_re 1 1 digit_re), lit ''/'', Cap 2 (times_re 1 1 digit_re),
             opt_re (seq_re [lit ''/'', Cap 3 (times_re 2 2 digit_re)])]"

definition SLASH_DATE_TIME :: re where
  "SLASH_DATE_TIME =
     seq_re [Cap 1 (times_re 1 1 digit_re), lit '':'', Cap 2 (times_re 2 0 digit_re), Star True space_re,
             Cap 3 (Alt (lit_i ''a'') (lit_i ''p'')), opt_re (lit ''.''), Star True space_re, lit_i ''m'',
             opt_re (lit ''.'')]"

definition SLASH_DATE_TIME_24H :: re where
  "SLASH_DATE_TIME_24H = seq_re [Cap 1 (times_re 1 1 digit_re), lit '':'', Cap 2 (times_re 2 0 digit_re)]"

definition LOCALE_TIME_NOISE :: re where
  "LOCALE_TIME_NOISE =
     seq_re [Cap 1 digit_re, Star True space_re,
       alts [lit_i ''uhr'', lit_i [CHR ''o'', CHR 0x27, CHR ''c'', CHR ''l'', CHR ''o'', CHR ''c'', CHR ''k''],
             Seq (lit_i ''h'') (opt_re (Seq (lit_i ''r'') (opt_re (lit_i ''s'')))),
             Seq (lit_i ''heure'') (opt_re (lit_i ''s'')), lit_i ''uur'', lit_i ''ore'',
             Seq (lit_i ''godzin'') (opt_re (Alt (lit_i ''a'') (lit_i ''y'')))],
       Star True space_re, end_re]"

definition DOTTED_MERIDIEM :: re where
  "DOTTED_MERIDIEM =
     seq_re [Cap 1 digit_re, Star True space_re, Cap 2 (Alt (lit_i ''a'') (lit_i ''p'')), lit ''.'',
             Star True space_re, lit_i ''m'', opt_re (lit ''.'')]"

definition LEADING_TIME_CONNECTOR :: re where
  "LEADING_TIME_CONNECTOR =
     seq_re [alts [lit_i ''um'', lit_i [CHR 0xE0], lit_i ''a las'', lit_i ''alle'', lit_i ''om''], plus_re space_re]"

definition LEADING_TIME :: re where
  "LEADING_TIME = seq_re [times_re 1 1 digit_re, lit '':'', times_re 2 0 digit_re]"

definition LEADING_MERIDIEM :: re where
  "LEADING_MERIDIEM =
     seq_re [Star True space_re, Alt (lit_i ''a'') (lit_i ''p''), opt_re (lit ''.''), Star True space_re,
             lit_i ''m'', opt_re (lit ''.'')]"

text \<open>\<open>s.replace(r, f)\<close> without the global flag, and the group \<open>$n\<close>\<close>

definition replace_one :: "re \<Rightarrow> (caps \<Rightarrow> str) \<Rightarrow> str \<Rightarrow> str" where
  "replace_one r f s = (case search r s of None \<Rightarrow> s | Some (p, t, c, q) \<Rightarrow> p @ f c @ q)"

definition group :: "nat \<Rightarrow> caps \<Rightarrow> str" where
  "group n c = nullish (map_of c n) []"

definition group_number :: "nat \<Rightarrow> caps \<Rightarrow> int" where
  "group_number n c = digits_value (group n c)"

text \<open>\<open>s.replace(/\bSept\b/gi, "Sep")\<close>; the flag says whether a word character precedes.\<close>

fun sept_to_sep :: "bool \<Rightarrow> str \<Rightarrow> str" where
  "sept_to_sep w [] = []"
| "sept_to_sep w (c # cs) =
     (if \<not> w \<and> to_lower (take 4 (c # cs)) = ''sept'' \<and> \<not> list_ex is_word (take 1 (drop 3 cs))
      then ''Sep'' @ sept_to_sep True (drop 3 cs)
      else c # sept_to_sep (is_word c) cs)"

section \<open>Dates with slashes\<close>

definition isAmbiguousSlashSkip :: "json \<Rightarrow> ambiguous_date_format \<Rightarrow> bool" where
  "isAmbiguousSlashSkip v fmt =
     (fmt = SkipAmbiguous \<and>
      (case v of
         JStr s \<Rightarrow>
           (case search SLASH_DATE_COMPONENTS (trim s) of
              Some (_, _, c, _) \<Rightarrow>
                1 \<le> group_number 1 c \<and> group_number 1 c \<le> 12 \<and> 1 \<le> group_number 2 c \<and> group_number 2 c \<le> 12
            | None \<Rightarrow> False)
       | _ \<Rightarrow> False))"

definition resolveYearFree :: "'d luxon \<Rightarrow> int \<Rightarrow> int \<Rightarrow> 'd \<Rightarrow> 'd" where
  "resolveYearFree lx month day receivedAt =
     (let candidate = lx_fromObject lx (lx_year lx receivedAt) month day None None
      in if lx_later lx candidate receivedAt then candidate
         else lx_fromObject lx (lx_year lx receivedAt + 1) month day None None)"

text \<open>Which number is the month and which the day, \<open>None\<close> when the order cannot be told or neither is
  a month\<close>

definition slash_month_day :: "ambiguous_date_format \<Rightarrow> int \<Rightarrow> int \<Rightarrow> (int \<times> int) option" where
  "slash_month_day fmt x y =
     (if 12 < x \<and> y \<le> 12 then Some (y, x)
      else if 12 < y \<and> x \<le> 12 then Some (x, y)
      else if 12 < x \<and> 12 < y then None
      else (case fmt of SkipAmbiguous \<Rightarrow> None | MonthThenDay \<Rightarrow> Some (x, y) | DayThenMonth \<Rightarrow> Some (y, x)))"

definition slash_time :: "str \<Rightarrow> (int \<times> int) option" where
  "slash_time input =
     (case search SLASH_DATE_TIME input of
        Some (_, _, c, _) \<Rightarrow>
          Some (group_number 1 c mod 12 + (if to_lower (group 3 c) = ''p'' then 12 else 0), group_number 2 c)
      | None \<Rightarrow>
          (case search SLASH_DATE_TIME_24H input of
             Some (_, _, c, _) \<Rightarrow> Some (group_number 1 c, group_number 2 c)
           | None \<Rightarrow> None))"

definition date_text :: "'d luxon \<Rightarrow> 'd \<Rightarrow> str" where
  "date_text lx d = lx_toFormat lx d ''yyyy-MM-dd''"

definition date_time_text :: "'d luxon \<Rightarrow> 'd \<Rightarrow> str" where
  "date_time_text lx d = date_text lx d @ ''T'' @ lx_toFormat lx d ''HH:mm''"

definition coerceSlashDate :: "'d luxon \<Rightarrow> str \<Rightarrow> 'd \<Rightarrow> ambiguous_date_format \<Rightarrow> str option" where
  "coerceSlashDate lx input receivedAt fmt =
     (case search SLASH_DATE_COMPONENTS input of
        None \<Rightarrow> None
      | Some (_, _, c, _) \<Rightarrow>
          (case slash_month_day fmt (group_number 1 c) (group_number 2 c) of
             None \<Rightarrow> None
           | Some (month, day) \<Rightarrow>
               if month < 1 \<or> 12 < month \<or> day < 1 \<or> 31 < day then None
               else
                 (let time = slash_time input;
                      dt = (case map_of c 3 of
                              Some y \<Rightarrow>
                                lx_fromObject lx
                                  (if length y = 2 then 2000 + digits_value y else digits_value y)
                                  month day time None
                            | None \<Rightarrow>
                                (let resolved = resolveYearFree lx month day receivedAt
                                 in case time of
                                      Some (h, m) \<Rightarrow> lx_set lx resolved h m
                                    | None \<Rightarrow> resolved))
                  in if \<not> lx_isValid lx dt then None
                     else if time \<noteq> None then Some (date_time_text lx dt)
                     else Some (date_text lx dt))))"

section \<open>Dates in words\<close>

definition DATE_CONNECTORS_BY_LANG :: "(str \<times> str list) list" where
  "DATE_CONNECTORS_BY_LANG =
     [(''en'', [''on'']), (''de'', [''am'']), (''fr'', [''le'']), (''es'', [''el'']), (''it'', [''il'']),
      (''nl'', [''op''])]"

definition base_language :: "str \<Rightarrow> str" where
  "base_language h = to_lower (hd (split_on CHR ''-'' h))"

text \<open>\<open>[...new Set(xs)]\<close>: each value at its first occurrence\<close>

definition first_occurrences :: "'a list \<Rightarrow> 'a list" where
  "first_occurrences xs = rev (remdups (rev xs))"

definition unsupportedLocales :: "str list \<Rightarrow> str list" where
  "unsupportedLocales localeHints =
     filter (\<lambda>l. l \<notin> set (map fst DATE_CONNECTORS_BY_LANG)) (first_occurrences (map base_language localeHints))"

definition trim_start :: "str \<Rightarrow> str" where "trim_start s = dropWhile is_space s"
definition trim_end :: "str \<Rightarrow> str" where "trim_end s = rev (dropWhile is_space (rev s))"

definition reorderTimeFirst :: "str \<Rightarrow> str list \<Rightarrow> str" where
  "reorderTimeFirst input localeHints =
     (let s = (case match_here LEADING_TIME_CONNECTOR input of Some (_, _, q) \<Rightarrow> q | None \<Rightarrow> input)
      in case match_here LEADING_TIME s of
           None \<Rightarrow> input
         | Some (t, _, afterTime) \<Rightarrow>
             (let langs = first_occurrences (map base_language localeHints @ [''en'']);
                  connectors = concat (map (\<lambda>l. nullish (map_of DATE_CONNECTORS_BY_LANG l) []) langs);
                  candidates =
                    (case match_here LEADING_MERIDIEM afterTime of
                       Some (m, _, q) \<Rightarrow> [(trim (t @ m), trim_start q)]
                     | None \<Rightarrow> []) @ [(trim t, trim_start afterTime)];
                  tries = concat (map (\<lambda>(time, rest). map (\<lambda>k. (time, rest, k)) connectors) candidates);
                  reorder = (\<lambda>(time, rest, k).
                    case match_here (Seq (lit_i k) (plus_re space_re)) rest of
                      Some (_, _, q) \<Rightarrow> Some (q @ '' '' @ time)
                    | None \<Rightarrow> None)
              in case List.map_filter reorder tries of r # _ \<Rightarrow> r | [] \<Rightarrow> input))"

definition dot_re :: re where
  "dot_re = Cls (\<lambda>c. of_char c \<notin> {10 :: nat, 13})"

definition hasExplicitOffset :: "str \<Rightarrow> bool" where
  "hasExplicitOffset s \<longleftrightarrow>
     search (seq_re [lit_i ''t'', plus_re dot_re, lit_i ''z'', end_re]) s \<noteq> None \<or>
     search (seq_re [one_of ''+-'', times_re 2 0 digit_re, lit '':'', times_re 2 0 digit_re, end_re]) s \<noteq> None \<or>
     search (seq_re [one_of ''+-'', times_re 4 0 digit_re, end_re]) s \<noteq> None"

definition hasTimeComponent :: "str \<Rightarrow> bool" where
  "hasTimeComponent s \<longleftrightarrow>
     search (seq_re [lit ''T'', times_re 2 0 digit_re, lit '':'', times_re 2 0 digit_re]) s \<noteq> None \<or>
     search (seq_re [space_re, times_re 1 1 digit_re, lit '':'', times_re 2 0 digit_re]) s \<noteq> None"

definition formatDisplayDate :: "'d luxon \<Rightarrow> 'd \<Rightarrow> str \<Rightarrow> bool option \<Rightarrow> str" where
  "formatDisplayDate lx d originalInput hasTime =
     (let inputHasOffset = hasExplicitOffset originalInput;
          inputHasTime = nullish hasTime (hasTimeComponent originalInput)
      in if inputHasTime \<and> inputHasOffset then date_time_text lx d @ lx_toFormat lx d ''ZZ''
         else if inputHasTime then date_time_text lx d
         else date_text lx d)"

definition pad2 :: "int \<Rightarrow> str" where
  "pad2 n = (let s = show_nat (nat n) in replicate (2 - length s) CHR ''0'' @ s)"

text \<open>The zone token at the end of a date, and the text before it: a word is a zone only behind a
  time of day.\<close>

definition split_zone :: "str \<Rightarrow> str option \<times> str" where
  "split_zone normalized =
     (case search TRAILING_ZONE_TOKEN normalized of
        None \<Rightarrow> (None, normalized)
      | Some (before, _, c, _) \<Rightarrow>
          (let token = group 1 c;
               alphabetic = (token \<noteq> [] \<and> list_all is_letter token \<and> to_upper token \<notin> {''UTC'', ''GMT''});
               timed = (search (seq_re [digit_re, one_of '':.'', digit_re]) before \<noteq> None)
           in if \<not> alphabetic \<or> timed then (Some token, trim_end before) else (None, normalized)))"

definition clean_date :: "str list \<Rightarrow> str \<Rightarrow> str" where
  "clean_date hintedLangs s =
     (let s1 = replace_one LOCALE_TIME_NOISE (group 1) s;
          s2 = replace_all ORDINAL_DAY_SUFFIX (\<lambda>_. group 1) s1;
          s3 = replace_all FR_ORDINAL_SUFFIX (\<lambda>_. group 1) s2;
          s4 = replace_all ES_IT_ORDINAL_SUFFIX (\<lambda>_. group 1) s3;
          s5 = replace_all DE_ORDINAL_PERIOD (\<lambda>_. group 1) s4;
          s6 = sept_to_sep False s5;
          s7 = (if ''nl'' \<in> set hintedLangs then replace_all NL_ORDINAL_SUFFIX (\<lambda>_. group 1) s6 else s6)
      in trim s7)"

text \<open>\<open>finalize\<close>\<close>

definition finalize_date :: "'d luxon \<Rightarrow> str option \<Rightarrow> str \<Rightarrow> str \<Rightarrow> 'd \<Rightarrow> bool \<Rightarrow> str" where
  "finalize_date lx zoneToken accountTimezone trimmed parsed hasTime =
     (case (if hasTime then zoneToken else None) of
        Some token \<Rightarrow>
          (case resolveZoneOffsetMinutes lx token accountTimezone of
             Some offsetMinutes \<Rightarrow>
               (let a = \<bar>offsetMinutes\<bar>
                in date_time_text lx parsed @ (if offsetMinutes < 0 then ''-'' else ''+'') @
                   pad2 (a div 60) @ '':'' @ pad2 (a mod 60))
           | None \<Rightarrow> formatDisplayDate lx parsed trimmed (Some hasTime))
      | None \<Rightarrow> formatDisplayDate lx parsed trimmed (Some hasTime))"

text \<open>The first format, with the first time suffix, that Luxon accepts\<close>

definition first_format :: "'d luxon \<Rightarrow> str \<Rightarrow> str option \<Rightarrow> str list \<Rightarrow> ('d \<times> str) option" where
  "first_format lx input locale formats =
     List.find (\<lambda>(d, _). lx_isValid lx d)
       (concat (map (\<lambda>fmt. map (\<lambda>suf. (lx_fromFormat lx input (fmt @ suf) locale, suf)) TIME_SUFFIXES) formats))"

definition coerceDate :: "'d luxon \<Rightarrow> json \<Rightarrow> str \<Rightarrow> str list \<Rightarrow> ambiguous_date_format \<Rightarrow> str \<Rightarrow> str option" where
  "coerceDate lx v receivedAt localeHints fmt accountTimezone =
     (case v of
        JStr s \<Rightarrow>
          (let trimmed = trim s;
               receivedAtDt = lx_fromISO lx receivedAt (InZone ''utc'');
               iso = lx_fromISO lx trimmed SetZone
           in if trimmed = [] then None
              else if search SLASH_DATE_PATTERN trimmed \<noteq> None then coerceSlashDate lx trimmed receivedAtDt fmt
              else if lx_isValid lx iso then Some (formatDisplayDate lx iso trimmed None)
              else
                (let normalized = replace_all DOTTED_MERIDIEM (\<lambda>_ c. group 1 c @ '' '' @ group 2 c @ ''m'')
                                    (reorderTimeFirst trimmed localeHints);
                     (zoneToken, withoutZone) = split_zone normalized;
                     cleaned = clean_date (map base_language localeHints) withoutZone;
                     input = (if cleaned = [] then trimmed else cleaned);
                     finalize = finalize_date lx zoneToken accountTimezone trimmed;
                     year_free = (\<lambda>(d, suf).
                       let resolved = resolveYearFree lx (lx_month lx d) (lx_day lx d) receivedAtDt
                       in if suf \<noteq> [] then finalize (lx_set lx resolved (lx_hour lx d) (lx_minute lx d)) True
                          else date_text lx resolved);
                     attempt = (\<lambda>locale.
                       case first_format lx input locale DATE_FORMATS_WITH_YEAR of
                         Some (d, suf) \<Rightarrow> Some (finalize d (suf \<noteq> []))
                       | None \<Rightarrow> map_option year_free (first_format lx input locale DATE_FORMATS_YEARFREE))
                 in case List.map_filter attempt
                           (None # map Some (first_occurrences (filter (\<lambda>l. l \<noteq> []) localeHints))) of
                      r # _ \<Rightarrow> Some r
                    | [] \<Rightarrow> None))
      | _ \<Rightarrow> None)"

definition displayToInstant :: "'d luxon \<Rightarrow> str \<Rightarrow> str \<Rightarrow> str option" where
  "displayToInstant lx displayDate accountTimezone =
     (if CHR ''T'' \<notin> set displayDate
      then (let d = lx_fromISO lx (displayDate @ ''T00:00:00'') (InZone accountTimezone)
            in if lx_isValid lx d then lx_toUTC_toISO lx d else None)
      else
        (let d = lx_fromISO lx displayDate LocalZone
         in if \<not> lx_isValid lx d then None
            else if ends_with (to_lower displayDate) ''z'' \<or>
                    search (seq_re [one_of ''+-'', times_re 2 0 digit_re, lit '':'', times_re 2 0 digit_re, end_re])
                      displayDate \<noteq> None
                 then lx_toUTC_toISO lx d
            else (let d' = lx_fromISO lx displayDate (InZone accountTimezone)
                  in if lx_isValid lx d' then lx_toUTC_toISO lx d' else None)))"

section \<open>The fields of a workflow\<close>

datatype coerce_log = Tracked str str | Warned str str

text \<open>What every call of the coercion shares\<close>

record 'd coerce_env =
  ce_luxon :: "'d luxon"
  ce_number :: js_number
  ce_receivedAt :: str
  ce_localeHints :: "str list"
  ce_ambiguous :: ambiguous_date_format
  ce_timezone :: str

definition or_null :: "('a \<Rightarrow> json) \<Rightarrow> 'a option \<Rightarrow> json" where
  "or_null f x = (case x of None \<Rightarrow> JNull | Some v \<Rightarrow> f v)"

definition date_log :: "'d coerce_env \<Rightarrow> str \<Rightarrow> json \<Rightarrow> str option \<Rightarrow> coerce_log list" where
  "date_log e name raw coerced =
     (case (coerced, raw) of
        (None, JStr s) \<Rightarrow>
          if trim s = [] then []
          else if isAmbiguousSlashSkip raw (ce_ambiguous e)
               then [Warned ''classifier.date_ambiguous_skipped'' name]
          else [Tracked ''classifier.date_parse_failed'' name]
      | _ \<Rightarrow> [])"

text \<open>The body of the loop for a field that is present and not null\<close>

definition coerce_scalar :: "str \<Rightarrow> ('a \<Rightarrow> json) \<Rightarrow> 'a option \<Rightarrow> jobj \<times> coerce_log list \<Rightarrow> jobj \<times> coerce_log list" where
  "coerce_scalar name f coerced p =
     (jset name (or_null f coerced) (fst p),
      snd p @ (if coerced = None then [Tracked ''classifier.coercion_failed'' name] else []))"

definition coerce_field :: "'d coerce_env \<Rightarrow> workflow_field_definition \<Rightarrow> json \<Rightarrow>
    jobj \<times> coerce_log list \<Rightarrow> jobj \<times> coerce_log list" where
  "coerce_field e d raw p =
     (if fd_type d = ''string'' then
        (case fd_enumValues d of
           Some vs \<Rightarrow> coerce_scalar (fd_name d) JStr (coerceEnumValue raw vs) p
         | None \<Rightarrow> coerce_scalar (fd_name d) JStr (coerceString (ce_number e) raw) p)
      else if fd_type d = ''enum'' then
        coerce_scalar (fd_name d) JStr (coerceEnumValue raw (nullish (fd_enumValues d) [])) p
      else if fd_type d = ''number'' then
        coerce_scalar (fd_name d) JStr (coerceNumericToString (ce_number e) raw) p
      else if fd_type d = ''boolean'' then
        coerce_scalar (fd_name d) JBool (coerceBoolean raw) p
      else if fd_type d = ''date'' then
        (let coerced = coerceDate (ce_luxon e) raw (ce_receivedAt e) (ce_localeHints e) (ce_ambiguous e)
                         (ce_timezone e);
             instant = (case coerced of None \<Rightarrow> None
                        | Some s \<Rightarrow> displayToInstant (ce_luxon e) s (ce_timezone e))
         in (jset (fd_name d @ ''Instant'') (or_null JStr instant)
               (jset (fd_name d) (or_null JStr coerced) (fst p)),
             snd p @ date_log e (fd_name d) raw coerced))
      else if fd_type d = ''array'' then
        (case raw of
           JArr _ \<Rightarrow> p
         | _ \<Rightarrow> (jset (fd_name d) JNull (fst p), snd p @ [Tracked ''classifier.coercion_failed'' (fd_name d)]))
      else p)"

definition coerce_step :: "'d coerce_env \<Rightarrow> workflow_field_definition \<Rightarrow> jobj \<times> coerce_log list \<Rightarrow>
    jobj \<times> coerce_log list" where
  "coerce_step e d p =
     (let raw = jfield (fst p) (fd_name d)
      in if raw = JNull \<or> raw = JUndefined then p else coerce_field e d raw p)"

definition payment_date :: "'d coerce_env \<Rightarrow> str \<Rightarrow> jobj \<Rightarrow> jobj" where
  "payment_date e workflow r =
     (if workflow = ''payments'' \<and> \<not> json_truthy (jfield r ''date'')
      then (let dt = lx_fromISO (ce_luxon e) (ce_receivedAt e) (InZone ''utc'')
            in if lx_isValid (ce_luxon e) dt then jset ''date'' (JStr (date_text (ce_luxon e) dt)) r else r)
      else r)"

definition coerceWorkflowData :: "'d coerce_env \<Rightarrow> str \<Rightarrow> jobj \<Rightarrow> jobj \<times> coerce_log list" where
  "coerceWorkflowData e workflow workflowData =
     (case workflow_fields workflow of
        None \<Rightarrow> (workflowData, [])
      | Some ds \<Rightarrow>
          (let p = fold (coerce_step e) ds (workflowData, [])
           in (payment_date e workflow (fst p), snd p)))"

end
