(* ===== verification/CoerceFacts.thy ===== *)
theory CoerceFacts
  imports Coerce LoopGuard
begin

text \<open>What the coercion guarantees of the data it passes on, whatever the model returned.\<close>

section \<open>One field\<close>

definition absent :: "json \<Rightarrow> bool" where
  "absent v \<longleftrightarrow> v = JNull \<or> v = JUndefined"

definition is_date :: "workflow_field_definition \<Rightarrow> bool" where
  "is_date d \<longleftrightarrow> fd_type d = ''date''"

text \<open>The value a field of the registry ends with, and the instant stored beside a date\<close>

definition coerced_date :: "'d coerce_env \<Rightarrow> json \<Rightarrow> str option" where
  "coerced_date e raw =
     coerceDate (ce_luxon e) raw (ce_receivedAt e) (ce_localeHints e) (ce_ambiguous e) (ce_timezone e)"

definition coerced_value :: "'d coerce_env \<Rightarrow> workflow_field_definition \<Rightarrow> json \<Rightarrow> json" where
  "coerced_value e d raw =
     (if absent raw then raw
      else if fd_type d = ''string'' then
        (case fd_enumValues d of
           Some vs \<Rightarrow> or_null JStr (coerceEnumValue raw vs)
         | None \<Rightarrow> or_null JStr (coerceString (ce_number e) raw))
      else if fd_type d = ''enum'' then or_null JStr (coerceEnumValue raw (nullish (fd_enumValues d) []))
      else if fd_type d = ''number'' then or_null JStr (coerceNumericToString (ce_number e) raw)
      else if fd_type d = ''boolean'' then or_null JBool (coerceBoolean raw)
      else if is_date d then or_null JStr (coerced_date e raw)
      else if fd_type d = ''array'' then (case raw of JArr xs \<Rightarrow> raw | _ \<Rightarrow> JNull)
      else raw)"

definition coerced_instant :: "'d coerce_env \<Rightarrow> json \<Rightarrow> json" where
  "coerced_instant e raw =
     or_null JStr (case coerced_date e raw of None \<Rightarrow> None
                   | Some s \<Rightarrow> displayToInstant (ce_luxon e) s (ce_timezone e))"

lemma coerce_scalar_jfield:
  "jfield (fst (coerce_scalar n f c p)) k = (if k = n then or_null f c else jfield (fst p) k)"
  by (simp add: coerce_scalar_def jfield_jset)

lemma coerce_field_jfield:
  assumes "\<not> absent (jfield (fst p) (fd_name d))"
  shows "jfield (fst (coerce_field e d (jfield (fst p) (fd_name d)) p)) k =
    (if k = fd_name d then coerced_value e d (jfield (fst p) k)
     else if is_date d \<and> k = fd_name d @ ''Instant'' then coerced_instant e (jfield (fst p) (fd_name d))
     else jfield (fst p) k)"
proof -
  define raw where "raw = jfield (fst p) (fd_name d)"
  consider (str) "fd_type d = ''string''" | (date) "is_date d"
    | (array) "fd_type d = ''array''"
    | (other) "fd_type d \<noteq> ''string''" "\<not> is_date d" "fd_type d \<noteq> ''array''" by blast
  then show ?thesis
  proof cases
    case str
    then show ?thesis using assms
      by (cases "fd_enumValues d") (simp_all add: coerce_field_def coerced_value_def is_date_def coerce_scalar_jfield)
  next
    case date
    then show ?thesis using assms
      by (simp add: coerce_field_def coerced_value_def is_date_def coerced_date_def coerced_instant_def
          jfield_jset Let_def)
  next
    case array
    then show ?thesis using assms unfolding raw_def [symmetric]
      by (cases raw) (simp_all add: coerce_field_def coerced_value_def is_date_def jfield_jset raw_def)
  next
    case other
    then show ?thesis using assms
      by (simp add: coerce_field_def coerced_value_def is_date_def coerce_scalar_jfield)
  qed
qed

lemma coerce_step_jfield:
  "jfield (fst (coerce_step e d p)) k =
    (if k = fd_name d then coerced_value e d (jfield (fst p) k)
     else if is_date d \<and> k = fd_name d @ ''Instant'' \<and> \<not> absent (jfield (fst p) (fd_name d))
          then coerced_instant e (jfield (fst p) (fd_name d))
     else jfield (fst p) k)"
  using coerce_field_jfield [of p d e k]
  by (cases "absent (jfield (fst p) (fd_name d))") (auto simp: coerce_step_def coerced_value_def absent_def)

section \<open>All fields\<close>

lemma coerce_fold_other:
  assumes "\<And>d. d \<in> set ds \<Longrightarrow> k \<noteq> fd_name d \<and> (is_date d \<longrightarrow> k \<noteq> fd_name d @ ''Instant'')"
  shows "jfield (fst (fold (coerce_step e) ds p)) k = jfield (fst p) k"
  using assms
proof (induction ds arbitrary: p)
  case (Cons d ds)
  then have "jfield (fst (fold (coerce_step e) ds (coerce_step e d p))) k = jfield (fst (coerce_step e d p)) k" by simp
  also have "\<dots> = jfield (fst p) k" using Cons.prems [of d] by (auto simp: coerce_step_jfield)
  finally show ?case by simp
qed simp

lemma Instant_inj: "x @ ''Instant'' = y @ ''Instant'' \<longleftrightarrow> x = y"
  by simp

lemma coerce_fold_field:
  assumes "fields_apart ds" "d \<in> set ds"
  shows "jfield (fst (fold (coerce_step e) ds p)) (fd_name d) = coerced_value e d (jfield (fst p) (fd_name d))"
    "is_date d \<Longrightarrow> jfield (fst (fold (coerce_step e) ds p)) (fd_name d @ ''Instant'') =
       (if absent (jfield (fst p) (fd_name d)) then jfield (fst p) (fd_name d @ ''Instant'')
        else coerced_instant e (jfield (fst p) (fd_name d)))"
proof -
  from split_list [OF assms(2)] obtain xs ys where ds: "ds = xs @ d # ys" by blast
  have n1: "fd_name d \<noteq> fd_name d'" if "d' \<in> set xs \<union> set ys" for d'
    using assms(1) that unfolding ds fields_apart_def by (auto simp only: map_append list.map distinct_append
        distinct.simps set_map list.set Un_iff image_iff)
  have n2: "fd_name d1 \<noteq> fd_name d2 @ ''Instant''" if "d1 \<in> set ds" "d2 \<in> set ds" for d1 d2
    using assms(1) that unfolding fields_apart_def by blast
  have name: "fd_name d \<noteq> fd_name d'" "fd_name d \<noteq> fd_name d' @ ''Instant''" "fd_name d @ ''Instant'' \<noteq> fd_name d'"
      "fd_name d @ ''Instant'' \<noteq> fd_name d' @ ''Instant''"
    if "d' \<in> set xs \<union> set ys" for d'
  proof -
    have "d' \<in> set ds" using that by (auto simp: ds)
    then show "fd_name d \<noteq> fd_name d'" "fd_name d \<noteq> fd_name d' @ ''Instant''" "fd_name d @ ''Instant'' \<noteq> fd_name d'"
        "fd_name d @ ''Instant'' \<noteq> fd_name d' @ ''Instant''"
      using n1 [OF that] n2 [of d d'] n2 [of d' d] assms(2) unfolding Instant_inj by metis+
  qed
  let ?p = "fold (coerce_step e) xs p"
  have before: "jfield (fst ?p) (fd_name d) = jfield (fst p) (fd_name d)"
      "jfield (fst ?p) (fd_name d @ ''Instant'') = jfield (fst p) (fd_name d @ ''Instant'')"
    using name by (intro coerce_fold_other; blast)+
  have after: "jfield (fst (fold (coerce_step e) ys q)) (fd_name d) = jfield (fst q) (fd_name d)"
      "jfield (fst (fold (coerce_step e) ys q)) (fd_name d @ ''Instant'') = jfield (fst q) (fd_name d @ ''Instant'')" for q
    using name by (intro coerce_fold_other; blast)+
  show "jfield (fst (fold (coerce_step e) ds p)) (fd_name d) = coerced_value e d (jfield (fst p) (fd_name d))"
    by (simp add: ds after coerce_step_jfield before)
  show "jfield (fst (fold (coerce_step e) ds p)) (fd_name d @ ''Instant'') =
       (if absent (jfield (fst p) (fd_name d)) then jfield (fst p) (fd_name d @ ''Instant'')
        else coerced_instant e (jfield (fst p) (fd_name d)))" if "is_date d"
    using that by (simp add: ds after coerce_step_jfield before)
qed

section \<open>The data a classification carries\<close>

definition is_date_field :: "str \<Rightarrow> str \<Rightarrow> bool" where
  "is_date_field w f =
     (case workflow_fields w of
        None \<Rightarrow> False
      | Some ds \<Rightarrow> list_ex (\<lambda>d. fd_name d = f \<and> is_date d) ds)"

lemma payment_date_other: "k \<noteq> ''date'' \<Longrightarrow> jfield (payment_date e w r) k = jfield r k"
  by (simp add: payment_date_def jfield_jset Let_def)

lemma coerced_data_field:
  assumes "workflow_fields w = Some ds" "d \<in> set ds" "fd_name d \<noteq> ''date'' \<or> w \<noteq> ''payments''"
  shows "jfield (fst (coerceWorkflowData e w data)) (fd_name d) = coerced_value e d (jfield data (fd_name d))"
  using assms coerce_fold_field(1) [OF workflow_fields_apart [OF assms(1)] assms(2), of e "(data, [])"]
  by (cases "fd_name d = ''date''") (simp_all add: coerceWorkflowData_def Let_def payment_date_other, simp add: payment_date_def)

lemma coerced_data_instant:
  assumes "is_date_field w f" "f \<noteq> ''date''" "jstr (fst (coerceWorkflowData e w data)) f = Some t"
  shows "jstr (fst (coerceWorkflowData e w data)) (f @ ''Instant'') = displayToInstant (ce_luxon e) t (ce_timezone e)"
proof -
  from assms(1) obtain ds d where d: "workflow_fields w = Some ds" "d \<in> set ds" "fd_name d = f" "is_date d"
    by (auto simp: is_date_field_def list_ex_iff split: option.splits)
  let ?raw = "jfield data f"
  have "coerced_value e d ?raw = JStr t"
    using coerced_data_field [OF d(1,2), of e data] assms(2,3) d(3)
    by (auto simp: jstr_def split: json.splits)
  then have raw: "\<not> absent ?raw" "coerced_date e ?raw = Some t"
    using d(4) by (auto simp: coerced_value_def absent_def is_date_def or_null_def split: if_splits option.splits)
  have "f @ ''Instant'' \<noteq> ''date''"
  proof
    assume "f @ ''Instant'' = ''date''"
    then have "length (f @ ''Instant'') = length ''date''" by (rule arg_cong)
    then show False by simp
  qed
  then have "jfield (fst (coerceWorkflowData e w data)) (f @ ''Instant'') = coerced_instant e ?raw"
    using coerce_fold_field(2) [OF workflow_fields_apart [OF d(1)] d(2,4), of e "(data, [])"] raw(1) d(1,3)
    by (simp add: coerceWorkflowData_def Let_def payment_date_other)
  then show ?thesis
    by (simp add: jstr_def coerced_instant_def raw(2) or_null_def split: option.splits)
qed

lemma resource_dates:
  "is_date_field ''package'' ''estimatedDelivery''" "is_date_field ''travel'' ''returnDate''"
  "is_date_field ''travel'' ''departureDate''" "is_date_field ''payments'' ''dueDate''"
  "is_date_field ''healthcare'' ''appointmentDate''" "is_date_field ''job'' ''interviewDate''"
  "is_date_field ''events'' ''eventStartDatetime''" "is_date_field ''events'' ''eventDate''"
  "is_date_field ''events'' ''eventEndDatetime''" "is_date_field ''events'' ''eventEndDate''"
  by code_simp+

lemma payments_date: "w = ''payments'' \<Longrightarrow> workflow_fields w = Some ds \<Longrightarrow> d \<in> set ds \<Longrightarrow> fd_name d = ''date'' \<Longrightarrow> is_date d"
proof -
  have "case workflow_fields ''payments'' of None \<Rightarrow> True
    | Some ds \<Rightarrow> list_all (\<lambda>d. fd_name d = ''date'' \<longrightarrow> is_date d) ds" by code_simp
  then show "w = ''payments'' \<Longrightarrow> workflow_fields w = Some ds \<Longrightarrow> d \<in> set ds \<Longrightarrow> fd_name d = ''date'' \<Longrightarrow> is_date d"
    by (auto simp: list_all_iff)
qed

section \<open>Types\<close>

text \<open>A number is stored as its canonical text.\<close>

definition number_laws :: "js_number \<Rightarrow> bool" where
  "number_laws num \<longleftrightarrow>
     (\<forall>s t. jn_Number num s = Some t \<longrightarrow> jn_Number num t = Some t) \<and>
     (\<forall>n. jn_Number num (jn_String num n) = Some (jn_String num n))"

fun has_field_type :: "js_number \<Rightarrow> workflow_field_definition \<Rightarrow> json \<Rightarrow> bool" where
  "has_field_type num d JUndefined = True"
| "has_field_type num d JNull = True"
| "has_field_type num d (JBool b) = (fd_type d = ''boolean'')"
| "has_field_type num d (JNum n) = False"
| "has_field_type num d (JStr s) =
     (if fd_type d = ''enum'' then s \<in> set (nullish (fd_enumValues d) [])
      else if fd_type d = ''number'' then jn_Number num s = Some s
      else fd_type d = ''string'' \<or> fd_type d = ''date'')"
| "has_field_type num d (JArr xs) = (fd_type d = ''array'')"
| "has_field_type num d (JObj xs) = False"

lemma workflow_field_types:
  assumes "workflow_fields w = Some ds" "d \<in> set ds"
  shows "fd_type d \<in> {''string'', ''enum'', ''number'', ''boolean'', ''date'', ''array''}"
    "fd_enumValues d \<noteq> None \<longleftrightarrow> fd_type d = ''enum''"
  using registry_types assms
  by (auto simp only: workflow_fields_def list_all_iff find_Some_iff map_option_eq_Some dest!: nth_mem)

lemma or_null_type:
  "has_field_type num d (or_null f c) \<longleftrightarrow> (case c of None \<Rightarrow> True | Some x \<Rightarrow> has_field_type num d (f x))"
  by (simp add: or_null_def split: option.splits)

lemma enum_value_listed: "coerceEnumValue raw vs = Some s \<Longrightarrow> s \<in> set vs"
  by (auto simp: coerceEnumValue_def find_Some_iff split: json.splits)

lemma numeric_value_canonical:
  assumes "number_laws num" "coerceNumericToString num raw = Some s"
  shows "jn_Number num s = Some s"
  using assms by (auto simp: number_laws_def coerceNumericToString_def Let_def split: json.splits if_splits)

lemma coerced_value_typed:
  assumes "number_laws (ce_number e)" "fd_type d \<in> {''string'', ''enum'', ''number'', ''boolean'', ''date'', ''array''}"
    "fd_enumValues d \<noteq> None \<longleftrightarrow> fd_type d = ''enum''"
  shows "has_field_type (ce_number e) d (coerced_value e d raw)"
proof (cases "absent raw")
  case True
  then show ?thesis by (auto simp: absent_def coerced_value_def)
next
  case False
  from assms(2) consider (str) "fd_type d = ''string''" | (enum) "fd_type d = ''enum''" | (num) "fd_type d = ''number''"
    | (bool) "fd_type d = ''boolean''" | (date) "fd_type d = ''date''" | (array) "fd_type d = ''array''" by blast
  then show ?thesis
  proof cases
    case str
    then show ?thesis using False assms(3) by (simp add: coerced_value_def or_null_type split: option.splits)
  next
    case enum
    then show ?thesis using False by (auto simp: coerced_value_def or_null_type dest: enum_value_listed split: option.splits)
  next
    case num
    then show ?thesis using False assms(1)
      by (auto simp: coerced_value_def or_null_type dest: numeric_value_canonical split: option.splits)
  next
    case bool
    then show ?thesis using False by (simp add: coerced_value_def or_null_type split: option.splits)
  next
    case date
    then show ?thesis using False by (simp add: coerced_value_def is_date_def or_null_type split: option.splits)
  next
    case array
    then show ?thesis using False by (cases raw) (simp_all add: coerced_value_def is_date_def absent_def)
  qed
qed

text \<open>
  C28. Whatever JSON the language model returned, each field the registry declares for the workflow
  is afterwards missing, null or of its declared type: a boolean, an array, one of the listed values,
  the canonical text of a number, a string.
\<close>

theorem coerced_fields_typed:
  assumes "number_laws (ce_number e)" "workflow_fields w = Some ds" "d \<in> set ds"
  shows "has_field_type (ce_number e) d (jfield (fst (coerceWorkflowData e w data)) (fd_name d))"
proof -
  have typed: "has_field_type (ce_number e) d (coerced_value e d raw)" for raw
    by (rule coerced_value_typed [OF assms(1) workflow_field_types [OF assms(2,3)]])
  show ?thesis
  proof (cases "fd_name d = ''date'' \<and> w = ''payments''")
    case False
    then show ?thesis using coerced_data_field [OF assms(2,3), of e data] typed by auto
  next
    case True
    then have date: "fd_type d = ''date''" using payments_date [of w ds d] assms(2,3) by (auto simp: is_date_def)
    let ?r = "fst (fold (coerce_step e) ds (data, []))"
    have "jfield ?r (fd_name d) = coerced_value e d (jfield data (fd_name d))"
      using coerce_fold_field(1) [OF workflow_fields_apart [OF assms(2)] assms(3), of e "(data, [])"] by simp
    then have "has_field_type (ce_number e) d (jfield ?r (fd_name d))" using typed by simp
    then show ?thesis using True date assms(2)
      by (simp add: coerceWorkflowData_def payment_date_def jfield_jset Let_def)
  qed
qed

text \<open>Numbers that are integers, written in decimal\<close>

definition integer_text :: js_number where
  "integer_text = \<lparr>jn_String = show_int, jn_Number = (\<lambda>s. map_option show_int (parse_int s))\<rparr>"

lemma parse_show_integer: "parse_int (show_int n) = Some n"
proof (cases "0 \<le> n")
  case False
  have digits: "list_all is_digit (show_nat (nat (- n)))" using show_nat_digits by (auto simp: list_all_iff)
  then have tw: "takeWhile is_digit (show_nat (nat (- n))) = show_nat (nat (- n))"
    by (auto simp: takeWhile_eq_all_conv list_all_iff)
  have sp: "\<not> is_space CHR ''-''" by code_simp
  have "parse_int (CHR ''-'' # show_nat (nat (- n))) = Some (- digits_value (show_nat (nat (- n))))"
    by (simp add: parse_int_def Let_def show_nat_nonempty tw sp)
  then show ?thesis using False by (simp add: show_int_def digits_value_show)
qed (rule parse_int_show_int)

lemma integer_text_laws: "number_laws integer_text"
  by (auto simp: number_laws_def integer_text_def parse_show_integer)

text \<open>A Luxon that knows dates like 2027-02-03 and no other format, over years, months, days, hours and
  minutes\<close>

type_synonym plain_time = "(int \<times> int \<times> int \<times> int \<times> int) option"

definition plain_luxon :: "plain_time luxon" where
  "plain_luxon =
     \<lparr>lx_fromISO = (\<lambda>s _. if take 1 (drop 4 s) = ''-'' \<and> take 1 (drop 7 s) = ''-'' \<and>
                list_all is_digit (take 4 s @ take 2 (drop 5 s) @ take 2 (drop 8 s))
              then Some (digits_value (take 4 s), digits_value (take 2 (drop 5 s)), digits_value (take 2 (drop 8 s)), 0, 0)
              else None),
      lx_fromFormat = (\<lambda>_ _ _. None),
      lx_fromObject = (\<lambda>y m d t _. Some (y, m, d, (case t of None \<Rightarrow> (0, 0) | Some hm \<Rightarrow> hm))),
      lx_set = (\<lambda>x h i. map_option (\<lambda>(y, m, d, _, _). (y, m, d, h, i)) x),
      lx_setZone = (\<lambda>x _. x),
      lx_isValid = (\<lambda>x. x \<noteq> None),
      lx_later = (\<lambda>a b. case (a, b) of (Some p, Some q) \<Rightarrow> fst p > fst q | _ \<Rightarrow> False),
      lx_year = (\<lambda>x. case x of Some (y, _) \<Rightarrow> y | None \<Rightarrow> 0),
      lx_month = (\<lambda>x. case x of Some (_, m, _) \<Rightarrow> m | None \<Rightarrow> 0),
      lx_day = (\<lambda>x. case x of Some (_, _, d, _) \<Rightarrow> d | None \<Rightarrow> 0),
      lx_hour = (\<lambda>x. case x of Some (_, _, _, h, _) \<Rightarrow> h | None \<Rightarrow> 0),
      lx_minute = (\<lambda>x. case x of Some (_, _, _, _, i) \<Rightarrow> i | None \<Rightarrow> 0),
      lx_offset = (\<lambda>_. 0),
      lx_toFormat = (\<lambda>x _. case x of Some (y, m, d, _) \<Rightarrow> show_int y @ ''-'' @ pad2 m @ ''-'' @ pad2 d
                                  | None \<Rightarrow> ''Invalid DateTime''),
      lx_toUTC_toISO = map_option (\<lambda>(y, m, d, _). show_int y @ ''-'' @ pad2 m @ ''-'' @ pad2 d @ ''T00:00:00.000Z'')\<rparr>"

definition plain_env :: "plain_time coerce_env" where
  "plain_env = \<lparr>ce_luxon = plain_luxon, ce_number = integer_text, ce_receivedAt = ''2027-01-15T10:00:00Z'',
     ce_localeHints = [], ce_ambiguous = SkipAmbiguous, ce_timezone = ''Europe/London''\<rparr>"

definition raw_order :: jobj where
  "raw_order = [(''packageType'', JStr '' Shipping''), (''orderNumber'', JNum 17),
     (''estimatedDelivery'', JStr ''2027-02-03''), (''totalAmount'', JStr ''1,250''), (''items'', JStr ''two'')]"

lemma raw_order_coerced:
  "coerceWorkflowData plain_env ''package'' raw_order =
     ([(''packageType'', JStr ''shipping''), (''orderNumber'', JStr ''17''), (''estimatedDelivery'', JStr ''2027-02-03''),
       (''totalAmount'', JStr ''1250''), (''items'', JNull),
       (''estimatedDeliveryInstant'', JStr ''2027-02-03T00:00:00.000Z'')],
      [Tracked ''classifier.coercion_failed'' ''items''])"
  by code_simp

lemma coerced_fields_typed_witness:
  "has_field_type integer_text (fd_enum ''packageType'' ''enum'' True [''confirmation'', ''shipping'', ''out_for_delivery'',
       ''delivered'', ''return'', ''refund'', ''cancellation''])
     (jfield (fst (coerceWorkflowData plain_env ''package'' raw_order)) ''packageType'')"
proof -
  let ?d = "fd_enum ''packageType'' ''enum'' True [''confirmation'', ''shipping'', ''out_for_delivery'',
       ''delivered'', ''return'', ''refund'', ''cancellation'']"
  let ?ds = "the (workflow_fields ''package'')"
  have ds: "workflow_fields ''package'' = Some ?ds" "?d \<in> set ?ds" by code_simp+
  have laws: "number_laws (ce_number plain_env)" using integer_text_laws by (simp add: plain_env_def)
  from coerced_fields_typed [OF laws ds, of raw_order] show ?thesis by (simp add: plain_env_def)
qed

section \<open>Instants\<close>

lemma coerced_instant_beside:
  assumes "is_date_field w f" "f \<noteq> ''date''" "truthy (jstr (fst (coerceWorkflowData e w data)) f)"
  shows "jstr (fst (coerceWorkflowData e w data)) (f @ ''Instant'') =
    displayToInstant (ce_luxon e) (the (jstr (fst (coerceWorkflowData e w data)) f)) (ce_timezone e)"
  using assms(3) coerced_data_instant [OF assms(1,2)] by (auto elim!: truthyE)

text \<open>
  A resource derived from coerced data is due at the instant of a date the same data shows, computed
  from it in the account's time zone: no instant that the language model may have returned itself
  reaches a resource, although the coercion leaves such fields in the data.
\<close>

theorem resource_due_computed:
  assumes "deriveResourceInfo w (fst (coerceWorkflowData e w data)) = Some info"
  shows "\<exists>f t. is_date_field w f \<and> jstr (fst (coerceWorkflowData e w data)) f = Some t \<and> t \<noteq> [] \<and>
    displayToInstant (ce_luxon e) t (ce_timezone e) = Some (ri_expectedResolutionDate info)"
    (is ?concl)
proof -
  define r where "r = fst (coerceWorkflowData e w data)"
  note derived = assms [folded r_def]
  have found: ?concl
    if "is_date_field w f" "f \<noteq> ''date''" "truthy (jstr r f)" "truthy (jstr r (f @ ''Instant''))"
      "ri_expectedResolutionDate info = the (jstr r (f @ ''Instant''))" for f
    using coerced_instant_beside [OF that(1,2), of e data] that unfolding r_def
    by (auto elim!: truthyE)
  have plain: "ri_expectedResolutionDate info = the b \<and> truthy a \<and> truthy b" if "plain_info a b c = Some info" for a b c
    using that by (auto simp: plain_info_def split: if_splits)
  consider (package) "w = ''package''" | (travel) "w = ''travel''" | (payments) "w = ''payments''"
    | (healthcare) "w = ''healthcare''" | (job) "w = ''job''" | (events) "w = ''events''"
    using derived by (auto simp only: deriveResourceInfo_def split: if_splits)
  then show ?concl
  proof cases
    case package
    with derived have "plain_info (jstr r ''estimatedDelivery'') (jstr r ''estimatedDeliveryInstant'') (jstr r ''orderNumber'') = Some info"
      by (simp add: deriveResourceInfo_def)
    from plain [OF this] show ?concl using found [of "''estimatedDelivery''"] resource_dates(1) package by simp
  next
    case travel
    let ?i = "if truthy (jstr r ''returnDate'') then jstr r ''returnDateInstant'' else jstr r ''departureDateInstant''"
    from travel derived have "plain_info (nullish_opt (jstr r ''returnDate'') (jstr r ''departureDate'')) ?i
        (nullish_opt (jstr r ''flightNumber'') (jstr r ''confirmationNumber'')) = Some info"
      by (simp add: deriveResourceInfo_def split del: if_split)
    note p = plain [OF this]
    show ?concl
    proof (cases "truthy (jstr r ''returnDate'')")
      case True
      then show ?thesis using p found [of "''returnDate''"] resource_dates(2) travel by simp
    next
      case False
      with p have "truthy (jstr r ''departureDate'')" by (auto simp: nullish_opt_def split: option.splits)
      then show ?thesis using False p found [of "''departureDate''"] resource_dates(3) travel by simp
    qed
  next
    case payments
    with derived have "plain_info (jstr r ''dueDate'') (jstr r ''dueDateInstant'') (jstr r ''invoiceNumber'') = Some info"
      by (simp add: deriveResourceInfo_def)
    from plain [OF this] show ?concl using found [of "''dueDate''"] resource_dates(4) payments by simp
  next
    case healthcare
    with derived have "plain_info (jstr r ''appointmentDate'') (jstr r ''appointmentDateInstant'') (jstr r ''provider'') = Some info"
      by (simp add: deriveResourceInfo_def)
    from plain [OF this] show ?concl using found [of "''appointmentDate''"] resource_dates(5) healthcare by simp
  next
    case job
    with derived have "\<exists>k. plain_info (jstr r ''interviewDate'') (jstr r ''interviewDateInstant'') k = Some info"
      by (auto simp: deriveResourceInfo_def split: if_splits)
    with plain show ?concl using found [of "''interviewDate''"] resource_dates(6) job by auto
  next
    case events
    let ?n = "if truthy (jstr r ''eventEndDatetime'') then ''eventEndDatetime''
      else if truthy (jstr r ''eventEndDate'') then ''eventEndDate''
      else if truthy (jstr r ''eventStartDatetime'') then ''eventStartDatetime'' else ''eventDate''"
    from events derived have info: "events_info r = Some info" by (simp add: deriveResourceInfo_def)
    then have display: "truthy (nullish_opt (jstr r ''eventStartDatetime'') (jstr r ''eventDate''))"
      by (auto simp: events_info_def Let_def split: if_splits)
    have "truthy (jstr r ?n)" using display by (auto simp: nullish_opt_def split: option.splits)
    moreover from info have "truthy (jstr r (?n @ ''Instant''))"
        "ri_expectedResolutionDate info = the (jstr r (?n @ ''Instant''))"
      by (auto simp: events_info_def Let_def split: if_splits)
    ultimately show ?concl using found [of ?n] resource_dates(7-10) events by simp
  qed
qed

definition raw_delivery :: jobj where
  "raw_delivery = [(''orderNumber'', JStr ''A1''), (''estimatedDelivery'', JStr ''2027-02-03''),
     (''estimatedDeliveryInstant'', JStr ''2099-01-01T00:00:00Z'')]"

lemma resource_due_computed_witness:
  "deriveResourceInfo ''package'' (fst (coerceWorkflowData plain_env ''package'' raw_delivery)) =
     Some \<lparr>ri_expectedResolutionDate = ''2027-02-03T00:00:00.000Z'', ri_displayDate = ''2027-02-03'',
           ri_displayDateEnd = None, ri_resourceKey = ''A1'', ri_title = None, ri_description = None\<rparr> \<and>
   (\<exists>f t. is_date_field ''package'' f \<and> jstr (fst (coerceWorkflowData plain_env ''package'' raw_delivery)) f = Some t \<and>
      t \<noteq> [] \<and> displayToInstant (ce_luxon plain_env) t (ce_timezone plain_env) = Some ''2027-02-03T00:00:00.000Z'')"
proof -
  have d: "deriveResourceInfo ''package'' (fst (coerceWorkflowData plain_env ''package'' raw_delivery)) =
     Some \<lparr>ri_expectedResolutionDate = ''2027-02-03T00:00:00.000Z'', ri_displayDate = ''2027-02-03'',
           ri_displayDateEnd = None, ri_resourceKey = ''A1'', ri_title = None, ri_description = None\<rparr>"
    by code_simp
  from resource_due_computed [OF d] d show ?thesis by (simp only: resource_info.simps)
qed

text \<open>
  Two readings the comments of the source do not announce: a date that starts with the year
  (2027/02/01) is read from the middle, as the 27th of February 2001; and the default date of a
  payment comes without its instant.
\<close>

lemma year_first_slash_date:
  "coerceSlashDate lx ''2027/02/01'' receivedAt fmt =
     (let dt = lx_fromObject lx 2001 2 27 None None in if lx_isValid lx dt then Some (date_text lx dt) else None)"
proof -
  let ?c = "[(3, ''01''), (2, ''02''), (1, ''27'')] :: caps"
  have found: "search SLASH_DATE_COMPONENTS ''2027/02/01'' = Some (''20'', ''27/02/01'', ?c, [])" by code_simp
  have groups: "group_number 1 ?c = 27" "group_number 2 ?c = 2" "map_of ?c 3 = Some ''01''" by code_simp+
  have year: "(if length ''01'' = 2 then 2000 + digits_value ''01'' else digits_value ''01'') = 2001" by code_simp
  have order: "slash_month_day fmt 27 2 = Some (2, 27)" by (simp add: slash_month_day_def)
  have untimed: "slash_time ''2027/02/01'' = None" by code_simp
  show ?thesis
    unfolding coerceSlashDate_def found option.case prod.case groups order year untimed Let_def
    by (simp del: not_None_eq)
qed

lemma default_payment_date_has_no_instant:
  "coerceWorkflowData plain_env ''payments'' [(''vendor'', JStr ''V''), (''date'', JStr ''1/2/2027'')] =
     ([(''vendor'', JStr ''V''), (''date'', JStr ''2027-01-15''), (''dateInstant'', JNull)],
      [Warned ''classifier.date_ambiguous_skipped'' ''date''])"
  by code_simp

end
