(* ===== verification/Classifier.thy ===== *)
theory Classifier
  imports Prompt
begin

text \<open>
  What becomes of the language model's answer (\<open>classifier/classifier.ts\<close>, \<open>classifier/tags.ts\<close>).
  \<open>JSON.parse\<close> and the protocol that \<open>new URL\<close> finds are parameters, as is the response of the model.
  The guardrail trace, which is only logged, is left out. One sentinel of the source, the em dash, has
  no Latin-1 character and is left out of the list.
\<close>

section \<open>Small checks\<close>

definition SPAM_TAGS :: "str list" where
  "SPAM_TAGS =
     [''phishing'', ''bulk-unsolicited'', ''spoofed-sender'', ''tracking-heavy'', ''deceptive-subject'',
      ''credential-harvest'', ''malware-link'', ''impersonation'', ''urgency-manipulation'', ''hidden-content'',
      ''known-spam-domain'', ''pump-and-dump'', ''lottery-scam'', ''advance-fee'', ''sextortion'', ''pharming'']"

definition UNSPECIFIED_PATTERNS :: "str list" where
  "UNSPECIFIED_PATTERNS =
     [''<unspecified>'', ''not specified'', ''not_specified'', ''unknown'', ''n/a'', ''na'', ''none'',
      ''unspecified'', ''null'', ''undefined'', ''not available'', ''not applicable'', ''-'', ''tbd'', ''other'']"

definition isUnspecifiedSentinel :: "str \<Rightarrow> bool" where
  "isUnspecifiedSentinel v \<longleftrightarrow> to_lower (trim v) \<in> set UNSPECIFIED_PATTERNS"

definition matchWorkflowLoosely :: "str \<Rightarrow> str option" where
  "matchWorkflowLoosely v =
     (let lower = to_lower (trim v)
      in if lower = [] then None
         else List.find (\<lambda>w. str_includes w lower \<or> str_includes lower w) WORKFLOWS)"

definition isUrlFieldName :: "str \<Rightarrow> bool" where
  "isUrlFieldName name = ends_with name ''Url''"

definition isValidUrl :: "(str \<Rightarrow> str option) \<Rightarrow> str \<Rightarrow> bool" where
  "isValidUrl protocol v \<longleftrightarrow> protocol v \<in> {Some ''http:'', Some ''https:''}"

definition isValidCurrencyCode :: "str \<Rightarrow> bool" where
  "isValidCurrencyCode v \<longleftrightarrow>
     (let u = to_upper (trim v) in length u = 3 \<and> list_all (\<lambda>c. is_letter c \<and> lower_char c \<noteq> c) u)"

definition tag_letter :: "char \<Rightarrow> bool" where
  "tag_letter c \<longleftrightarrow> is_digit c \<or> (is_letter c \<and> lower_char c = c)"

text \<open>\<open>/^[a-z0-9][a-z0-9-]{0,38}[a-z0-9]$/\<close>\<close>

definition tag_format :: "str \<Rightarrow> bool" where
  "tag_format t \<longleftrightarrow> 2 \<le> length t \<and> length t \<le> 40 \<and> tag_letter (hd t) \<and> tag_letter (last t) \<and>
     list_all (\<lambda>c. tag_letter c \<or> c = CHR ''-'') t"

section \<open>References to links\<close>

definition LINK_TOKEN :: re where
  "LINK_TOKEN = seq_re [lit ''[link-'', plus_re digit_re, lit '']'']"

definition is_link_token :: "str \<Rightarrow> bool" where
  "is_link_token s = list_ex (\<lambda>p. fst p = []) (matches LINK_TOKEN (s, []))"

definition resolveLinkTokensInString :: "(str \<times> str) list \<Rightarrow> str \<Rightarrow> str option" where
  "resolveLinkTokensInString linkMap v =
     (if \<not> str_includes v ''[link-'' then Some v
      else if is_link_token (trim v) \<and> map_of linkMap (trim v) = None then None
      else Some (replace_all LINK_TOKEN (\<lambda>token _. nullish (map_of linkMap token) []) v))"

primrec resolve_json :: "(str \<times> str) list \<Rightarrow> json \<Rightarrow> json" where
  "resolve_json m JUndefined = JUndefined"
| "resolve_json m JNull = JNull"
| "resolve_json m (JBool b) = JBool b"
| "resolve_json m (JNum n) = JNum n"
| "resolve_json m (JStr s) = or_null JStr (resolveLinkTokensInString m s)"
| "resolve_json m (JArr xs) = JArr (map (resolve_json m) xs)"
| "resolve_json m (JObj ps) = JObj (map (map_prod id (resolve_json m)) ps)"

definition resolveLinkTokensDeep :: "(str \<times> str) list \<Rightarrow> jobj \<Rightarrow> jobj" where
  "resolveLinkTokensDeep m obj = map (map_prod id (resolve_json m)) obj"

section \<open>The answer\<close>

text \<open>Throws, returns an error, or returns a value\<close>

datatype 'a verdict = Throws | Fails | Yields 'a

record classifier_output =
  co_workflow :: str
  co_workflowData :: jobj
  co_tags :: "str list"
  co_summary :: json
  co_labels :: "str list"
  co_actions :: "signal_action list"
  co_language :: "str option"
  co_locale :: "str option"

definition UNSPECIFIED_FALLBACK :: classifier_output where
  "UNSPECIFIED_FALLBACK =
     \<lparr>co_workflow = ''unspecified'', co_workflowData = [(''workflow'', JStr ''unspecified'')], co_tags = [],
      co_summary = JStr [], co_labels = [], co_actions = [], co_language = None, co_locale = None\<rparr>"

text \<open>The answer without Markdown fences, with the bare sentinels turned into \<open>null\<close>\<close>

definition clean_answer :: "str \<Rightarrow> str" where
  "clean_answer text =
     (let t1 = (case match_here (seq_re [lit ''```'', opt_re (lit_i ''json''), Star True space_re, opt_re (lit NL)]) text of
                  Some (_, _, q) \<Rightarrow> q | None \<Rightarrow> text);
          t2 = trim (replace_one (seq_re [opt_re (lit NL), lit ''```'', Star True space_re, end_re]) (\<lambda>_. []) t1);
          t3 = replace_all (lit ''<UNSPECIFIED>'') (\<lambda>_ _. ''null'') t2
      in replace_all (seq_re [lit [CHR 0x22], lit_i ''<unspecified>'', lit [CHR 0x22]]) (\<lambda>_ _. ''null'') t3)"

text \<open>The fields the answer is read through: \<open>null\<close> throws, and so does any other value that is not an
  object when the missing workflow is written to it.\<close>

definition raw_fields :: "json \<Rightarrow> jobj option" where
  "raw_fields j = (case j of JObj o' \<Rightarrow> Some o' | JArr _ \<Rightarrow> Some [] | _ \<Rightarrow> None)"

definition normalize_workflow :: "json \<Rightarrow> str verdict" where
  "normalize_workflow w =
     (case w of
        JUndefined \<Rightarrow> Yields ''unspecified''
      | JNull \<Rightarrow> Yields ''unspecified''
      | JStr s \<Rightarrow>
          if isUnspecifiedSentinel s then Yields ''unspecified''
          else if s \<in> set WORKFLOWS then Yields s
          else (case matchWorkflowLoosely s of Some v \<Rightarrow> Yields v | None \<Rightarrow> Fails)
      | _ \<Rightarrow> Throws)"

definition json_strings :: "json \<Rightarrow> str list" where
  "json_strings j =
     (case j of JArr xs \<Rightarrow> List.map_filter (\<lambda>x. case x of JStr s \<Rightarrow> Some s | _ \<Rightarrow> None) xs | _ \<Rightarrow> [])"

definition answer_tags :: "json \<Rightarrow> str list \<times> str list" where
  "answer_tags j =
     (let formed = filter tag_format (json_strings j)
      in (take 10 (filter (\<lambda>t. t \<in> set SPAM_TAGS) formed), filter (\<lambda>t. t \<notin> set SPAM_TAGS) formed))"

text \<open>\<open>{ ...value }\<close>\<close>

definition spread :: "json \<Rightarrow> jobj" where
  "spread j =
     (case j of
        JObj o' \<Rightarrow> o'
      | JArr xs \<Rightarrow> map (\<lambda>(i, x). (show_nat i, x)) (List.enumerate 0 xs)
      | JStr s \<Rightarrow> map (\<lambda>(i, c). (show_nat i, JStr [c])) (List.enumerate 0 s)
      | _ \<Rightarrow> [])"

definition url_or_null :: "(str \<Rightarrow> str option) \<Rightarrow> str \<times> json \<Rightarrow> str \<times> json" where
  "url_or_null protocol p =
     (case snd p of
        JStr v \<Rightarrow>
          if isUrlFieldName (fst p) \<and> \<not> isValidUrl protocol v \<and> \<not> is_link_token v then (fst p, JNull) else p
      | _ \<Rightarrow> p)"

definition sentinel_to_null :: "str \<times> json \<Rightarrow> str \<times> json" where
  "sentinel_to_null p =
     (case snd p of JStr v \<Rightarrow> if isUnspecifiedSentinel v then (fst p, JNull) else p | _ \<Rightarrow> p)"

definition trimmed_text :: "json \<Rightarrow> str option" where
  "trimmed_text j = (case j of JStr s \<Rightarrow> if trim s \<noteq> [] then Some (trim s) else None | _ \<Rightarrow> None)"

definition header_text :: "str option \<Rightarrow> str option" where
  "header_text h = (case h of Some s \<Rightarrow> trimmed_text (JStr s) | None \<Rightarrow> None)"

definition locale_hints :: "jobj \<Rightarrow> headers \<Rightarrow> str list" where
  "locale_hints raw hs =
     List.map_filter id
       [trimmed_text (jfield raw ''locale''), trimmed_text (jfield raw ''language''),
        header_text (nullish_opt (map_of hs ''content-language'') (map_of hs ''Content-Language'')),
        header_text (map_of hs ''x-html-lang'')]"

definition coerce_env_for :: "'d luxon \<Rightarrow> js_number \<Rightarrow> classification_input \<Rightarrow> jobj \<Rightarrow> 'd coerce_env" where
  "coerce_env_for lx num i raw =
     \<lparr>ce_luxon = lx, ce_number = num, ce_receivedAt = ci_receivedAt i, ce_localeHints = locale_hints raw (ci_headers i),
      ce_ambiguous = nullish (ci_ambiguousDateFormat i) SkipAmbiguous,
      ce_timezone = nullish (ci_accountTimezone i) ''Europe/London''\<rparr>"

definition check_currency :: "jobj \<Rightarrow> jobj" where
  "check_currency obj =
     (case jfield obj ''currency'' of
        JStr v \<Rightarrow> jset ''currency'' (if isValidCurrencyCode v then JStr (to_upper (trim v)) else JNull) obj
      | _ \<Rightarrow> obj)"

definition answer_action :: "json \<Rightarrow> signal_action option" where
  "answer_action entry =
     (case entry of
        JObj o' \<Rightarrow>
          (case jfield o' ''url'' of
             JStr u \<Rightarrow> Some \<lparr>sa_url = u, sa_text = (case jfield o' ''text'' of
                JStr t \<Rightarrow> if t \<noteq> u then Some t else None | _ \<Rightarrow> None)\<rparr>
           | _ \<Rightarrow> None)
      | _ \<Rightarrow> None)"

definition resolve_action :: "(str \<times> str) list \<Rightarrow> signal_action \<Rightarrow> signal_action" where
  "resolve_action linkMap a =
     (if truthy (map_of linkMap (sa_url a)) then a\<lparr>sa_url := the (map_of linkMap (sa_url a))\<rparr> else a)"

definition answer_data :: "(str \<Rightarrow> str option) \<Rightarrow> 'd coerce_env \<Rightarrow> str \<Rightarrow> json \<Rightarrow> jobj" where
  "answer_data protocol ce workflow rawData =
     check_currency (fst (coerceWorkflowData ce workflow
       (map sentinel_to_null (map (url_or_null protocol) (spread rawData)))))"

text \<open>From the parsed answer to the classification; the second component is the number of further
  requests, one when the answer has unknown tags.\<close>

definition read_answer :: "'d luxon \<Rightarrow> js_number \<Rightarrow> (str \<Rightarrow> str option) \<Rightarrow> classification_input \<Rightarrow> json \<Rightarrow>
    classifier_output verdict \<times> nat" where
  "read_answer lx num protocol i j =
     (case raw_fields j of
        None \<Rightarrow> (Throws, 0)
      | Some raw \<Rightarrow>
          (case normalize_workflow (jfield raw ''workflow'') of
             Throws \<Rightarrow> (Throws, 0)
           | Fails \<Rightarrow> (Fails, 0)
           | Yields workflow \<Rightarrow>
               (let (tags, unknownTags) = answer_tags (jfield raw ''tags'');
                    labels = filter (\<lambda>l. l \<in> set (ci_allowedLabels i)) (json_strings (jfield raw ''labels''));
                    data = answer_data protocol (coerce_env_for lx num i raw) workflow (jfield raw ''workflowData'');
                    actions = (case jfield raw ''actions'' of JArr xs \<Rightarrow> List.map_filter answer_action xs | _ \<Rightarrow> []);
                    linkMap = map (\<lambda>l. (le_placeholder l, le_url l))
                                (snd (redactUrls (ci_body i) (nullish (ci_extractedLinks i) [])))
                in (Yields \<lparr>co_workflow = workflow, co_workflowData = resolveLinkTokensDeep linkMap data,
                      co_tags = tags, co_summary = jfield raw ''summary'', co_labels = labels,
                      co_actions = filter (\<lambda>a. isValidUrl protocol (sa_url a)) (map (resolve_action linkMap) actions),
                      co_language = trimmed_text (jfield raw ''language''), co_locale = trimmed_text (jfield raw ''locale'')\<rparr>,
                    if unknownTags \<noteq> [] then 1 else 0))))"

text \<open>The envelope: \<open>result.choices?.[0]\<close> and \<open>?.message?.content\<close>\<close>

definition optional_field :: "json \<Rightarrow> str \<Rightarrow> json" where
  "optional_field j k = (case j of JObj o' \<Rightarrow> jfield o' k | _ \<Rightarrow> JUndefined)"

definition first_choice :: "json \<Rightarrow> json" where
  "first_choice env = (case optional_field env ''choices'' of JArr (c # _) \<Rightarrow> c | JObj o' \<Rightarrow> jfield o' ''0'' | _ \<Rightarrow> JUndefined)"

text \<open>\<open>content ?? ""\<close> as the text it must be: on any other value \<open>replace\<close> throws.\<close>

definition content_text :: "json \<Rightarrow> str option" where
  "content_text content =
     (case content of JStr s \<Rightarrow> Some s | JNull \<Rightarrow> Some [] | JUndefined \<Rightarrow> Some [] | _ \<Rightarrow> None)"

text \<open>The method \<open>classify\<close>: the body of the response, \<open>None\<close> when the request failed\<close>

definition classify_message :: "'d luxon \<Rightarrow> js_number \<Rightarrow> (str \<Rightarrow> str option) \<Rightarrow> (str \<Rightarrow> json option) \<Rightarrow>
    classification_input \<Rightarrow> str option \<Rightarrow> classifier_output verdict \<times> nat" where
  "classify_message lx num protocol parse_text i response =
     (case response of
        None \<Rightarrow> (Fails, 0)
      | Some body \<Rightarrow>
          (case parse_text body of
             None \<Rightarrow> (Fails, 0)
           | Some env \<Rightarrow>
               if env = JNull then (Throws, 0)
               else if optional_field (first_choice env) ''finish_reason'' = JStr ''length''
               then (Yields UNSPECIFIED_FALLBACK, 0)
               else (case content_text (optional_field (optional_field (first_choice env) ''message'') ''content'') of
                       None \<Rightarrow> (Throws, 0)
                     | Some t \<Rightarrow>
                         (case parse_text (clean_answer t) of
                            None \<Rightarrow> (Fails, 0)
                          | Some j \<Rightarrow> read_answer lx num protocol i j))))"

end
