(* ===== verification/ClassifierFacts.thy ===== *)
theory ClassifierFacts
  imports Classifier Fence
begin

text \<open>What the pipeline may rely on when the language model has answered, whatever it answered.\<close>

section \<open>The classification\<close>

lemma normalized_workflow: "normalize_workflow w = Yields v \<Longrightarrow> v \<in> set WORKFLOWS"
proof -
  have u: "''unspecified'' \<in> set WORKFLOWS" by code_simp
  assume "normalize_workflow w = Yields v"
  then show ?thesis
    using u by (auto simp: normalize_workflow_def matchWorkflowLoosely_def Let_def find_Some_iff
        split: json.splits if_splits option.splits)
qed

lemma answer_safe:
  assumes "read_answer lx num protocol i j = (Yields out, n)"
  shows "co_workflow out \<in> set WORKFLOWS" "set (co_tags out) \<subseteq> set SPAM_TAGS" "length (co_tags out) \<le> 10"
    "set (co_labels out) \<subseteq> set (ci_allowedLabels i)" "\<forall>a \<in> set (co_actions out). isValidUrl protocol (sa_url a)"
    "n \<le> 1"
proof -
  from assms obtain raw w where raw: "raw_fields j = Some raw" "normalize_workflow (jfield raw ''workflow'') = Yields w"
    by (auto simp: read_answer_def split: option.splits verdict.splits)
  obtain tags unknown where t: "answer_tags (jfield raw ''tags'') = (tags, unknown)" by fastforce
  then have tags: "set tags \<subseteq> set SPAM_TAGS" "length tags \<le> 10"
    by (auto simp: answer_tags_def Let_def dest: in_set_takeD)
  from assms raw t have out: "co_workflow out = w" "co_tags out = tags"
      "co_labels out = filter (\<lambda>l. l \<in> set (ci_allowedLabels i)) (json_strings (jfield raw ''labels''))"
      "\<exists>xs. co_actions out = filter (\<lambda>a. isValidUrl protocol (sa_url a)) xs" "n \<le> 1"
    by (auto simp: read_answer_def Let_def split: if_splits)
  show "co_workflow out \<in> set WORKFLOWS" using normalized_workflow [OF raw(2)] out(1) by simp
  show "set (co_tags out) \<subseteq> set SPAM_TAGS" "length (co_tags out) \<le> 10" using tags out(2) by simp_all
  show "set (co_labels out) \<subseteq> set (ci_allowedLabels i)" using out(3) by auto
  show "\<forall>a \<in> set (co_actions out). isValidUrl protocol (sa_url a)" using out(4) by auto
  show "n \<le> 1" by (rule out(5))
qed

lemma classify_message_cases:
  assumes r_def: "r = classify_message lx num protocol parse_text i response"
  shows "r = (Fails, 0) \<or> r = (Throws, 0) \<or> r = (Yields UNSPECIFIED_FALLBACK, 0) \<or>
    (\<exists>j. r = read_answer lx num protocol i j)"
proof (cases response)
  case (Some body)
  show ?thesis
  proof (cases "parse_text body")
    case (Some env)
    let ?content = "content_text (optional_field (optional_field (first_choice env) ''message'') ''content'')"
    show ?thesis
    proof (cases ?content)
      case None
      with \<open>response = Some body\<close> Some show ?thesis by (simp add: r_def classify_message_def)
    next
      case (Some t)
      with \<open>response = Some body\<close> \<open>parse_text body = Some env\<close> show ?thesis
        by (cases "parse_text (clean_answer t)") (simp_all add: r_def classify_message_def, blast)
    qed
  qed (use Some in \<open>simp add: r_def classify_message_def\<close>)
qed (simp add: r_def classify_message_def)

text \<open>
  C27. Whatever the language model answers, a classification names a known workflow, at most ten tags of
  the closed vocabulary, only labels the account allows, and actions whose addresses are http or https;
  the model is asked at most once more.
\<close>

theorem classification_confined:
  assumes "classify_message lx num protocol parse_text i response = (Yields out, n)"
  shows "co_workflow out \<in> set WORKFLOWS \<and> set (co_tags out) \<subseteq> set SPAM_TAGS \<and> length (co_tags out) \<le> 10 \<and>
    set (co_labels out) \<subseteq> set (ci_allowedLabels i) \<and>
    (\<forall>a \<in> set (co_actions out). isValidUrl protocol (sa_url a)) \<and> n \<le> 1"
proof -
  have u: "''unspecified'' \<in> set WORKFLOWS" by code_simp
  from classify_message_cases [OF refl, of lx num protocol parse_text i response]
  consider j where "read_answer lx num protocol i j = (Yields out, n)" | "out = UNSPECIFIED_FALLBACK" "n = 0"
    unfolding assms by (metis Pair_inject verdict.distinct(3,5) verdict.inject)
  then show ?thesis
  proof cases
    case 1
    from answer_safe [OF this] show ?thesis by blast
  next
    case 2
    then show ?thesis using u by (simp add: UNSPECIFIED_FALLBACK_def)
  qed
qed

definition sample_answer :: json where
  "sample_answer = JObj
     [(''workflow'', JStr ''CRM ''), (''workflowData'', JObj [(''senderCompany'', JStr ''Gala''), (''helpUrl'', JStr ''[link-1]'')]),
      (''tags'', JArr [JStr ''malware-link'', JStr ''made-up'']), (''summary'', JStr ''s''),
      (''labels'', JArr [JStr ''work'', JStr ''other'']),
      (''actions'', JArr [JObj [(''url'', JStr ''[link-1]'')], JObj [(''url'', JStr ''mailto:x'')]])]"

definition sample_parse :: "str \<Rightarrow> json option" where
  "sample_parse s =
     (if s = ''{}'' then Some sample_answer
      else Some (JObj [(''choices'', JArr [JObj [(''message'', JObj [(''content'', JStr ''{}'')])]])]))"

definition sample_protocol :: "str \<Rightarrow> str option" where
  "sample_protocol u = (if starts_with u ''https:'' then Some ''https:'' else None)"

definition sample_output :: classifier_output where
  "sample_output =
     \<lparr>co_workflow = ''crm'', co_workflowData = [(''senderCompany'', JStr ''Gala''), (''helpUrl'', JStr ''https://a.io/'')],
      co_tags = [''malware-link''], co_summary = JStr ''s'', co_labels = [''work''],
      co_actions = [\<lparr>sa_url = ''https://a.io/'', sa_text = None\<rparr>], co_language = None, co_locale = None\<rparr>"

lemma sample_classified:
  "classify_message plain_luxon integer_text sample_protocol sample_parse forged_input (Some ''body'') =
     (Yields sample_output, 1)"
  by code_simp

lemma classification_confined_witness:
  "co_workflow sample_output \<in> set WORKFLOWS \<and> set (co_labels sample_output) \<subseteq> {''work''}"
  using classification_confined [OF sample_classified] by (simp add: forged_input_def)

section \<open>Two answers that go wrong\<close>

lemma map_of_map_keyed:
  assumes "\<And>p. fst (f p) = fst p"
  shows "map_of (map f xs) k = map_option (\<lambda>v. snd (f (k, v))) (map_of xs k)"
proof (induction xs)
  case (Cons p xs)
  have "f p = (fst p, snd (f p))" using assms by (metis prod.collapse)
  then show ?case using Cons assms by (cases p) (auto split: if_splits)
qed simp

lemma kept_keys: "fst (url_or_null protocol p) = fst p" "fst (sentinel_to_null p) = fst p"
  by (auto simp: url_or_null_def sentinel_to_null_def split: json.splits)

lemma sentinel_becomes_null:
  assumes "jfield obj k = JStr v" "isUnspecifiedSentinel v"
  shows "jfield (map sentinel_to_null (map (url_or_null protocol) obj)) k = JNull"
proof -
  from assms(1) have "map_of obj k = Some (JStr v)" by (auto simp: jfield_def split: option.splits)
  then have "map_of (map sentinel_to_null (map (url_or_null protocol) obj)) k =
      Some (snd (sentinel_to_null (k, snd (url_or_null protocol (k, JStr v)))))"
    by (simp only: map_of_map_keyed kept_keys option.map)
  moreover have "snd (sentinel_to_null (k, snd (url_or_null protocol (k, JStr v)))) = JNull"
    using assms(2) by (simp add: url_or_null_def sentinel_to_null_def)
  ultimately show ?thesis by (simp add: jfield_def)
qed

text \<open>The fields for which the registry lists the value \<open>other\<close>\<close>

definition listed_other :: "(str \<times> str) list" where
  "listed_other = concat (map (\<lambda>w. map (\<lambda>d. (wd_name w, fd_name d))
     (filter (\<lambda>d. ''other'' \<in> set (nullish (fd_enumValues d) [])) (wd_fields w))) CLASSIFIER_WORKFLOW_REGISTRY)"

lemma listed_other_fields:
  "listed_other = [(''auth'', ''authType''), (''payments'', ''paymentType''), (''onboarding'', ''onboardingType''),
     (''notice'', ''noticeType'')]"
  by code_simp

lemma registry_finds:
  assumes "(w, f) \<in> set listed_other"
  shows "\<exists>ds d. workflow_fields w = Some ds \<and> d \<in> set ds \<and> fd_name d = f \<and> f \<noteq> ''date'' \<and> f \<noteq> ''currency''"
proof -
  have "list_all (\<lambda>(w, f). (case workflow_fields w of None \<Rightarrow> False | Some ds \<Rightarrow> list_ex (\<lambda>d. fd_name d = f) ds) \<and>
      f \<noteq> ''date'' \<and> f \<noteq> ''currency'') listed_other" by code_simp
  with assms show ?thesis by (fastforce simp: list_all_iff list_ex_iff split: option.splits)
qed

text \<open>
  For four workflows the registry tells the model to answer \<open>other\<close> when nothing else fits, but the
  same word is on the list of placeholders that are removed: the type of such a message is always null.
\<close>

theorem listed_value_lost:
  assumes "(w, f) \<in> set listed_other" "jfield (spread rawData) f = JStr v" "to_lower (trim v) = ''other''"
  shows "jfield (answer_data protocol e w rawData) f = JNull"
proof -
  obtain ds d where d: "workflow_fields w = Some ds" "d \<in> set ds" "fd_name d = f" "f \<noteq> ''date''" "f \<noteq> ''currency''"
    using registry_finds [OF assms(1)] by blast
  have "isUnspecifiedSentinel v" using assms(3) by (simp add: isUnspecifiedSentinel_def UNSPECIFIED_PATTERNS_def)
  from sentinel_becomes_null [OF assms(2) this, of protocol]
  have "jfield (fst (coerceWorkflowData e w (map sentinel_to_null (map (url_or_null protocol) (spread rawData))))) f = JNull"
    using coerced_data_field [OF d(1,2), of e "map sentinel_to_null (map (url_or_null protocol) (spread rawData))"] d(3,4)
    by (auto simp: coerced_value_def absent_def)
  then show ?thesis
    using d(5) by (auto simp: answer_data_def check_currency_def jfield_jset split: json.splits)
qed

lemma listed_value_lost_witness:
  "jfield (answer_data sample_protocol plain_env ''payments''
     (JObj [(''vendor'', JStr ''V''), (''paymentType'', JStr ''other'')])) ''paymentType'' = JNull"
proof (rule listed_value_lost)
  show "(''payments'', ''paymentType'') \<in> set listed_other" by (simp add: listed_other_fields)
  show "jfield (spread (JObj [(''vendor'', JStr ''V''), (''paymentType'', JStr ''other'')])) ''paymentType'' = JStr ''other''"
    "to_lower (trim ''other'') = ''other''" by code_simp+
qed

text \<open>The registry reserves a workflow to the system, but the check of the answer lets it pass, and a word
  that merely contains a workflow's name is taken for it.\<close>

lemma reserved_workflow_accepted:
  "(\<exists>w \<in> set CLASSIFIER_WORKFLOW_REGISTRY. wd_name w = ''healthcheck'' \<and> \<not> wd_classifierAssignable w) \<and>
   normalize_workflow (JStr ''healthcheck'') = Yields ''healthcheck'' \<and>
   normalize_workflow (JStr ''contest'') = Yields ''test''"
  by code_simp

text \<open>Removing an unresolved token can put another one together.\<close>

lemma token_assembled: "resolveLinkTokensInString [] ''[link-[link-9]1]'' = Some ''[link-1]''"
  by code_simp

text \<open>The identity text of a thread reads the same fields the registry marks.\<close>

lemma identity_fields_registry:
  "identity_fields = map (\<lambda>w. (wd_name w, map fd_name (filter fd_identity (wd_fields w)))) CLASSIFIER_WORKFLOW_REGISTRY"
  by code_simp

end
