(* ===== verification/Quarantine.thy ===== *)
theory Quarantine
  imports Policy Ses
begin

text \<open>
  The review of quarantined messages (\<open>api/signalsApi.ts\<close>): the list the user sees, and the handler of
  the decision, which records the sender, moves the message and carries the decision over to the other
  visible messages of the same sender. The dash in the text of a dismissal is written as a hyphen.
\<close>

section \<open>Services\<close>

text \<open>What the handler does to the tables and the pipeline; a read only has its name.\<close>

datatype q_event =
    QRead str
  | QFound "any_signal option"
  | QSiblings "any_signal list"
  | QSave any_signal bool
  | QStatus str signal_status bool
  | QSender str str sender_policy bool
  | QReprocess str bool bool bool

type_synonym 'a qio = "(q_event, 'a) prog"
type_synonym 'a q_service = "q_event list \<Rightarrow> (app_error + 'a) outcome"

record q_env =
  qGetSignalById :: "str \<Rightarrow> str \<Rightarrow> str \<Rightarrow> any_signal option q_service"
  qListPreThreadSignals :: "str \<Rightarrow> str \<Rightarrow> nat \<Rightarrow> (any_signal list \<times> str option) q_service"
  qSaveSignal :: "any_signal \<Rightarrow> unit q_service"
  qUpdateSignalStatus :: "str \<Rightarrow> str \<Rightarrow> signal_status \<Rightarrow> any_signal q_service"
  qSaveSender :: "str \<Rightarrow> str \<Rightarrow> str \<Rightarrow> sender_policy \<Rightarrow> unit q_service"
  qGetAlias :: "str \<Rightarrow> str \<Rightarrow> alias_rec option q_service"
  qGetSender :: "str \<Rightarrow> str \<Rightarrow> str \<Rightarrow> alias_sender option q_service"
  qGetFiltering :: "str \<Rightarrow> unknown_sender_policy option q_service"
  qReprocessSignal :: "str \<Rightarrow> str \<Rightarrow> bool \<Rightarrow> bool \<Rightarrow> any_signal q_service"
  qGetThread :: "str \<Rightarrow> str \<Rightarrow> thread option q_service"
  qDomain :: "str \<Rightarrow> str option"

text \<open>The call succeeded.\<close>

fun ok_of :: "(app_error + 'a) outcome \<Rightarrow> bool" where
  "ok_of (Done (Inr x)) = True"
| "ok_of r = False"

fun items_of :: "(app_error + any_signal list \<times> str option) outcome \<Rightarrow> any_signal list" where
  "items_of (Done (Inr p)) = fst p"
| "items_of r = []"

fun found_of :: "(app_error + any_signal option) outcome \<Rightarrow> any_signal option" where
  "found_of (Done (Inr s)) = s"
| "found_of r = None"

definition q_read :: "str \<Rightarrow> 'a q_service \<Rightarrow> (app_error + 'a) qio" where
  "q_read name svc = call svc (\<lambda>_. QRead name)"

datatype q_response =
    QError nat str
  | QDismissed any_signal
  | QBlocked any_signal
  | QActivated thread any_signal

section \<open>The list\<close>

definition VALID_STATUSES :: "str list" where
  "VALID_STATUSES =
     [''quarantined'', ''quarantine_visible'', ''quarantine_hidden'', ''blocked'', ''block_hidden'', ''block_reject'']"

fun status_text :: "signal_status \<Rightarrow> str" where
  "status_text SActive = ''active''"
| "status_text SBlockHidden = ''block_hidden''"
| "status_text SBlockReject = ''block_reject''"
| "status_text SReportViolation = ''report_violation''"
| "status_text SQuarantineVisible = ''quarantine_visible''"
| "status_text SQuarantineHidden = ''quarantine_hidden''"
| "status_text SDraft = ''draft''"
| "status_text SPendingSend = ''pending_send''"
| "status_text SSent = ''sent''"

definition list_partition :: "str \<Rightarrow> str" where
  "list_partition status =
     (if status \<in> {''blocked'', ''block_hidden'', ''block_reject''} then ''blocked'' else ''quarantined'')"

fun listed_sender :: "any_data \<Rightarrow> str option" where
  "listed_sender (DEmail (Inbound d)) = Some (ea_address (eb_from d))"
| "listed_sender (DEmail (Outbound d)) = Some (ea_address (eb_from d))"
| "listed_sender _ = None"

text \<open>What is left of a page: the exact status, at most thirty days of blocked mail, and the filters of
  the query\<close>

definition listed :: "str \<Rightarrow> str \<Rightarrow> str option \<Rightarrow> str option \<Rightarrow> str option \<Rightarrow> any_signal list \<Rightarrow> any_signal list" where
  "listed thirtyDaysAgo status afterParam beforeParam senderParam items =
     (let i1 = (if status \<in> {''quarantine_visible'', ''quarantine_hidden'', ''block_hidden'', ''block_reject''}
                then filter (\<lambda>s. status_text (sg_status s) = status) items else items);
          i2 = (if list_partition status = ''blocked'' then filter (\<lambda>s. sg_createdAt s \<ge> thirtyDaysAgo) i1 else i1);
          i3 = (if truthy afterParam then filter (\<lambda>s. sg_createdAt s \<ge> the afterParam) i2 else i2);
          i4 = (if truthy beforeParam then filter (\<lambda>s. sg_createdAt s \<le> the beforeParam) i3 else i3)
      in if truthy senderParam
         then filter (\<lambda>s. isEmailSignal s \<and>
                (case listed_sender (sg_data s) of
                   Some a \<Rightarrow> str_includes (to_lower a) (to_lower (the senderParam)) | None \<Rightarrow> False)) i4
         else i4)"

section \<open>The decision\<close>

datatype review = RvActive | RvDismiss | RvBlockHidden | RvBlockReject | RvReportViolation

text \<open>\<open>isEmailSignal\<close> and \<open>isInboundEmailSignalData\<close>\<close>

fun reviewed_data :: "any_data \<Rightarrow> inbound_data option" where
  "reviewed_data (DEmail (Inbound d)) = Some d"
| "reviewed_data _ = None"

definition dismissed :: "any_signal \<Rightarrow> inbound_data \<Rightarrow> any_signal" where
  "dismissed s d =
     (let rules = nullish (eb_matchedRules d) [];
          prior = (case List.find (\<lambda>r. mr_ruleId r = ''SR-00'') rules of Some r \<Rightarrow> mr_text r | None \<Rightarrow> None);
          text = (if truthy prior then the prior @ '' - dismissed by user from quarantine''
                  else ''Dismissed by user from quarantine'');
          dismissRule = \<lparr>mr_ruleId = ''SR-00'', mr_actions = [\<lparr>ra_type = RBlockHidden, ra_value = None\<rparr>],
             mr_labelsAdded = [], mr_statusChange = Some ScBlockHidden, mr_text = Some text\<rparr>
      in s\<lparr>sg_status := SBlockHidden, sg_data := DEmail (Inbound (d\<lparr>eb_matchedRules := Some (rules @ [dismissRule])\<rparr>))\<rparr>)"

definition is_sibling :: "q_env \<Rightarrow> any_signal \<Rightarrow> inbound_data \<Rightarrow> any_signal \<Rightarrow> bool" where
  "is_sibling e primary d s \<longleftrightarrow>
     sg_signalLookupId s \<noteq> sg_signalLookupId primary \<and> sg_status s = SQuarantineVisible \<and>
     (case reviewed_data (sg_data s) of
        None \<Rightarrow> False
      | Some x \<Rightarrow>
          eb_recipientAddress x = eb_recipientAddress d \<and>
          getETLD1 (qDomain e) (ea_address (eb_from x)) = getETLD1 (qDomain e) (ea_address (eb_from d)))"

definition collectSiblings :: "q_env \<Rightarrow> str \<Rightarrow> any_signal \<Rightarrow> inbound_data \<Rightarrow> any_signal list qio" where
  "collectSiblings e accountId primary d =
     bind (call (qListPreThreadSignals e accountId ''quarantined'' 100) (\<lambda>r. QSiblings (items_of r))) (\<lambda>r.
       ret (case r of Inl x \<Rightarrow> [] | Inr p \<Rightarrow> filter (is_sibling e primary d) (fst p)))"

definition save_signal :: "q_env \<Rightarrow> any_signal \<Rightarrow> (app_error + unit) qio" where
  "save_signal e s = call (qSaveSignal e s) (\<lambda>r. QSave s (ok_of r))"

definition set_status :: "q_env \<Rightarrow> str \<Rightarrow> str \<Rightarrow> signal_status \<Rightarrow> (app_error + any_signal) qio" where
  "set_status e accountId lookupId st = call (qUpdateSignalStatus e accountId lookupId st) (\<lambda>r. QStatus lookupId st (ok_of r))"

definition save_sender :: "q_env \<Rightarrow> str \<Rightarrow> str \<Rightarrow> str \<Rightarrow> sender_policy \<Rightarrow> (app_error + unit) qio" where
  "save_sender e accountId recipient domain p =
     call (qSaveSender e accountId recipient domain p) (\<lambda>r. QSender recipient domain p (ok_of r))"

definition reprocess :: "q_env \<Rightarrow> str \<Rightarrow> str \<Rightarrow> bool \<Rightarrow> bool \<Rightarrow> (app_error + any_signal) qio" where
  "reprocess e accountId lookupId skipNotify skipAll =
     call (qReprocessSignal e accountId lookupId skipNotify skipAll) (\<lambda>r. QReprocess lookupId skipNotify skipAll (ok_of r))"

definition internal_error :: q_response where "internal_error = QError 500 []"

text \<open>\<open>if (r.isErr()) return err(c, 500, ...)\<close>\<close>

definition or_500 :: "(app_error + 'a) qio \<Rightarrow> ('a \<Rightarrow> q_response qio) \<Rightarrow> q_response qio" where
  "or_500 m k = bind m (\<lambda>r. case r of Inl x \<Rightarrow> ret internal_error | Inr v \<Rightarrow> k v)"

text \<open>A step that is repeated for every sibling and whose failure is only logged\<close>

definition for_siblings :: "any_signal list \<Rightarrow> (any_signal \<Rightarrow> (app_error + 'a) qio) \<Rightarrow> unit qio" where
  "for_siblings xs f = for_fold xs (\<lambda>_ s. bind (f s) (\<lambda>_. ret ())) ()"

definition dismiss_sibling :: "q_env \<Rightarrow> any_signal \<Rightarrow> (app_error + unit) qio" where
  "dismiss_sibling e s =
     (case reviewed_data (sg_data s) of Some x \<Rightarrow> save_signal e (dismissed s x) | None \<Rightarrow> ret (Inr ()))"

definition do_dismiss :: "q_env \<Rightarrow> str \<Rightarrow> any_signal \<Rightarrow> inbound_data \<Rightarrow> q_response qio" where
  "do_dismiss e accountId s d =
     or_500 (save_signal e (dismissed s d)) (\<lambda>_.
     bind (collectSiblings e accountId s d) (\<lambda>siblings.
     bind (for_siblings siblings (dismiss_sibling e)) (\<lambda>_.
     ret (QDismissed (dismissed s d)))))"

definition do_block :: "q_env \<Rightarrow> str \<Rightarrow> any_signal \<Rightarrow> inbound_data \<Rightarrow> signal_status \<Rightarrow> sender_policy \<Rightarrow> q_response qio" where
  "do_block e accountId s d st p =
     or_500 (set_status e accountId (sg_signalLookupId s) st) (\<lambda>blocked.
     or_500 (save_sender e accountId (eb_recipientAddress d) (getETLD1 (qDomain e) (ea_address (eb_from d))) p) (\<lambda>_.
     bind (collectSiblings e accountId s d) (\<lambda>siblings.
     bind (for_siblings siblings (\<lambda>x. set_status e accountId (sg_signalLookupId x) st)) (\<lambda>_.
     ret (QBlocked blocked)))))"

text \<open>The sender is the cause of the quarantine: no record of its own, and a default that does not allow it.\<close>

definition sender_approved :: "effective_policy \<times> bool \<Rightarrow> bool" where
  "sender_approved pe \<longleftrightarrow> \<not> snd pe \<and> fst pe \<noteq> ExplicitPolicy SPAllow \<and> fst pe \<noteq> FallbackPolicy USAllowAll"

definition activate_primary :: "q_env \<Rightarrow> str \<Rightarrow> any_signal \<Rightarrow> inbound_data \<Rightarrow> bool \<Rightarrow> q_response qio" where
  "activate_primary e accountId s d approved =
     bind (reprocess e accountId (sg_signalLookupId s) True True) (\<lambda>r.
     case r of
       Inl (ThreadIdCollisionError i x y) \<Rightarrow> ret (QError 409 ''THREAD_ID_COLLISION'')
     | Inl x \<Rightarrow> ret internal_error
     | Inr activated \<Rightarrow>
         if \<not> truthy (sg_threadId activated) then ret internal_error
         else
           bind (if approved
                 then bind (collectSiblings e accountId s d) (\<lambda>siblings.
                        for_siblings siblings (\<lambda>x. reprocess e accountId (sg_signalLookupId x) True False))
                 else ret ()) (\<lambda>_.
           or_500 (q_read ''thread'' (qGetThread e accountId (the (sg_threadId activated)))) (\<lambda>t.
             ret (case t of None \<Rightarrow> internal_error | Some t \<Rightarrow> QActivated t activated))))"

definition do_activate :: "q_env \<Rightarrow> str \<Rightarrow> any_signal \<Rightarrow> inbound_data \<Rightarrow> q_response qio" where
  "do_activate e accountId s d =
     (let recipient = eb_recipientAddress d;
          domain = getETLD1 (qDomain e) (ea_address (eb_from d))
      in or_500 (q_read ''alias'' (qGetAlias e accountId recipient)) (\<lambda>al.
         or_500 (q_read ''sender'' (qGetSender e accountId recipient domain)) (\<lambda>snd'.
         or_500 (q_read ''filtering'' (qGetFiltering e accountId)) (\<lambda>flt.
           if sender_approved (resolveEffectiveSenderPolicy al snd' flt)
           then or_500 (save_sender e accountId recipient domain SPAllow) (\<lambda>_. activate_primary e accountId s d True)
           else activate_primary e accountId s d False))))"

definition decide_review :: "q_env \<Rightarrow> str \<Rightarrow> any_signal \<Rightarrow> inbound_data \<Rightarrow> review \<Rightarrow> q_response qio" where
  "decide_review e accountId s d rv =
     (case rv of
        RvDismiss \<Rightarrow> do_dismiss e accountId s d
      | RvBlockHidden \<Rightarrow> do_block e accountId s d SBlockHidden SPBlockHidden
      | RvBlockReject \<Rightarrow> do_block e accountId s d SBlockReject SPBlockReject
      | RvReportViolation \<Rightarrow> do_block e accountId s d SReportViolation SPReportViolation
      | RvActive \<Rightarrow> do_activate e accountId s d)"

definition get_signal :: "q_env \<Rightarrow> str \<Rightarrow> str \<Rightarrow> str \<Rightarrow> (app_error + any_signal option) qio" where
  "get_signal e accountId signalId part = call (qGetSignalById e accountId signalId part) (\<lambda>r. QFound (found_of r))"

text \<open>The signal is looked up in both partitions; the body is \<open>None\<close> when it does not parse.\<close>

definition find_quarantined :: "q_env \<Rightarrow> str \<Rightarrow> str \<Rightarrow> (app_error + any_signal option) qio" where
  "find_quarantined e accountId signalId =
     bind (get_signal e accountId signalId ''QUARANTINED'') (\<lambda>r.
       case r of
         Inl x \<Rightarrow> ret r
       | Inr None \<Rightarrow> get_signal e accountId signalId ''BLOCKED''
       | Inr (Some s) \<Rightarrow> ret r)"

definition quarantineResponse :: "q_env \<Rightarrow> str \<Rightarrow> str \<Rightarrow> review option \<Rightarrow> q_response qio" where
  "quarantineResponse e accountId signalId body =
     or_500 (find_quarantined e accountId signalId) (\<lambda>found.
     case found of
       None \<Rightarrow> ret (QError 404 ''SIGNAL_NOT_FOUND'')
     | Some s \<Rightarrow>
         if sg_status s \<noteq> SQuarantineVisible \<and> sg_status s \<noteq> SQuarantineHidden then ret (QError 422 ''SIGNAL_NOT_REVIEWABLE'')
         else (case (if isEmailSignal s then reviewed_data (sg_data s) else None) of
             None \<Rightarrow> ret (QError 400 ''SIGNAL_NOT_REVIEWABLE'')
           | Some d \<Rightarrow>
               (case body of
                  None \<Rightarrow> ret (QError 400 ''INVALID_REQUEST'')
                | Some rv \<Rightarrow> decide_review e accountId s d rv)))"

section \<open>What a decision may touch\<close>

definition reviewable :: "q_event list \<Rightarrow> any_signal \<Rightarrow> inbound_data \<Rightarrow> bool" where
  "reviewable seen s d \<longleftrightarrow>
     QFound (Some s) \<in> set seen \<and> sg_status s \<in> {SQuarantineVisible, SQuarantineHidden} \<and> isEmailSignal s \<and>
     reviewed_data (sg_data s) = Some d"

text \<open>Another message of the same sender to the same alias, still held and visible to the user\<close>

definition same_case :: "q_env \<Rightarrow> any_signal \<Rightarrow> inbound_data \<Rightarrow> any_signal \<Rightarrow> bool" where
  "same_case e s d x \<longleftrightarrow>
     (\<exists>y. sg_data x = DEmail (Inbound y) \<and> sg_status x = SQuarantineVisible \<and>
       sg_signalLookupId x \<noteq> sg_signalLookupId s \<and> eb_recipientAddress y = eb_recipientAddress d \<and>
       getETLD1 (qDomain e) (ea_address (eb_from y)) = getETLD1 (qDomain e) (ea_address (eb_from d)))"

text \<open>The message itself, or one of these that the handler listed\<close>

definition at_issue :: "q_env \<Rightarrow> q_event list \<Rightarrow> any_signal \<Rightarrow> inbound_data \<Rightarrow> any_signal \<Rightarrow> bool" where
  "at_issue e seen s d x \<longleftrightarrow>
     x = s \<or> (\<exists>items. QSiblings items \<in> set seen \<and> x \<in> set items \<and> same_case e s d x)"

definition in_scope :: "q_env \<Rightarrow> q_event list \<Rightarrow> any_signal \<Rightarrow> inbound_data \<Rightarrow> str \<Rightarrow> bool" where
  "in_scope e seen s d l \<longleftrightarrow> (\<exists>x. at_issue e seen s d x \<and> sg_signalLookupId x = l)"

text \<open>The message as it was, hidden, with one more entry in the trace of its rules\<close>

definition dismissal_entry :: "str \<Rightarrow> matched_rule_result" where
  "dismissal_entry t =
     \<lparr>mr_ruleId = ''SR-00'', mr_actions = [\<lparr>ra_type = RBlockHidden, ra_value = None\<rparr>], mr_labelsAdded = [],
      mr_statusChange = Some ScBlockHidden, mr_text = Some t\<rparr>"

definition only_hidden :: "any_signal \<Rightarrow> any_signal \<Rightarrow> bool" where
  "only_hidden x x' \<longleftrightarrow>
     (\<exists>y t. sg_data x = DEmail (Inbound y) \<and>
       x' = x\<lparr>sg_status := SBlockHidden,
              sg_data := DEmail (Inbound (y\<lparr>eb_matchedRules := Some (nullish (eb_matchedRules y) [] @ [dismissal_entry t])\<rparr>))\<rparr>)"

fun decided_status :: "review \<Rightarrow> (signal_status \<times> sender_policy) option" where
  "decided_status RvBlockHidden = Some (SBlockHidden, SPBlockHidden)"
| "decided_status RvBlockReject = Some (SBlockReject, SPBlockReject)"
| "decided_status RvReportViolation = Some (SReportViolation, SPReportViolation)"
| "decided_status _ = None"

definition judges :: "q_env \<Rightarrow> inbound_data \<Rightarrow> str \<Rightarrow> str \<Rightarrow> bool" where
  "judges e d al dn \<longleftrightarrow> al = eb_recipientAddress d \<and> dn = getETLD1 (qDomain e) (ea_address (eb_from d))"

fun q_allowed :: "q_env \<Rightarrow> review option \<Rightarrow> q_event list \<Rightarrow> q_event \<Rightarrow> bool" where
  "q_allowed e body seen (QSave x ok) \<longleftrightarrow>
     body = Some RvDismiss \<and>
     (\<exists>s d x0. reviewable seen s d \<and> at_issue e seen s d x0 \<and> only_hidden x0 x)"
| "q_allowed e body seen (QStatus l st ok) \<longleftrightarrow>
     (\<exists>rv p s d. body = Some rv \<and> decided_status rv = Some (st, p) \<and> reviewable seen s d \<and> in_scope e seen s d l)"
| "q_allowed e body seen (QSender al dn p ok) \<longleftrightarrow>
     (\<exists>rv s d. body = Some rv \<and> reviewable seen s d \<and> judges e d al dn \<and>
       (rv = RvActive \<and> p = SPAllow \<or> (\<exists>st. decided_status rv = Some (st, p))))"
| "q_allowed e body seen (QReprocess l skipNotify force ok) \<longleftrightarrow>
     body = Some RvActive \<and> skipNotify \<and>
     (\<exists>s d. reviewable seen s d \<and>
       (force \<and> l = sg_signalLookupId s \<or>
        \<not> force \<and> in_scope e seen s d l \<and> (\<exists>al dn. judges e d al dn \<and> QSender al dn SPAllow True \<in> set seen)))"
| "q_allowed e body seen ev \<longleftrightarrow> True"

definition safe_from :: "q_env \<Rightarrow> review option \<Rightarrow> q_event list \<Rightarrow> (q_event, 'a) prog \<Rightarrow> bool" where
  "safe_from e body seen m \<longleftrightarrow> spec m (\<lambda>r es. guarded (q_allowed e body) seen es)"

lemma safe_ret [simp]: "safe_from e body seen (ret x)"
  by (simp add: safe_from_def spec_ret)

lemma safe_bind:
  assumes "spec m (\<lambda>r es. guarded (q_allowed e body) seen es \<and> Q r es)"
    and "\<And>x es. Q (Done x) es \<Longrightarrow> safe_from e body (seen @ es) (k x)"
  shows "safe_from e body seen (bind m k)"
  unfolding safe_from_def
  by (rule spec_bind [OF assms(1)]) (use assms(2) in \<open>auto simp: safe_from_def elim: spec_mono\<close>)

lemma safe_call:
  assumes "\<And>r. q_allowed e body seen (ev r)" "\<And>x. safe_from e body (seen @ [ev (Done x)]) (k x)"
  shows "safe_from e body seen (bind (call svc ev) k)"
  by (rule safe_bind [where Q = "\<lambda>r es. es = [ev r]"]) (use assms in \<open>auto intro!: spec_call\<close>)

lemma safe_call_500:
  assumes "\<And>r. q_allowed e body seen (ev r)" "\<And>x. safe_from e body (seen @ [ev (Done (Inr x))]) (k x)"
  shows "safe_from e body seen (or_500 (call svc ev) k)"
  unfolding or_500_def by (rule safe_call) (use assms in \<open>auto split: sum.split\<close>)

lemma reviewable_more: "reviewable seen s d \<Longrightarrow> reviewable (seen @ es) s d"
  by (auto simp: reviewable_def)

lemma at_issue_more: "at_issue e seen s d x \<Longrightarrow> at_issue e (seen @ es) s d x"
  by (auto simp: at_issue_def)

lemma sibling_same_case: "is_sibling e s d x \<Longrightarrow> same_case e s d x"
proof -
  have "reviewed_data j = Some y \<Longrightarrow> j = DEmail (Inbound y)" for j y by (cases j rule: reviewed_data.cases) auto
  then show "is_sibling e s d x \<Longrightarrow> same_case e s d x" by (auto simp: is_sibling_def same_case_def split: option.splits)
qed

lemma dismissed_only_hidden: "reviewed_data (sg_data x) = Some y \<Longrightarrow> only_hidden x (dismissed x y)"
  unfolding dismissed_def Let_def only_hidden_def dismissal_entry_def
  by (cases "sg_data x" rule: reviewed_data.cases; simp only: reviewed_data.simps option.inject option.distinct)
    (intro exI conjI, assumption?, rule refl, rule refl)

lemma safe_siblings:
  assumes "\<And>x seen'. x \<in> set xs \<Longrightarrow> prefix seen seen' \<Longrightarrow> safe_from e body seen' (f x)"
    and "\<And>seen'. prefix seen seen' \<Longrightarrow> safe_from e body seen' k"
  shows "safe_from e body seen (bind (for_siblings xs f) (\<lambda>_. k))"
proof -
  have "spec (for_siblings xs f) (\<lambda>r es. guarded (q_allowed e body) seen es \<and> True)"
    unfolding for_siblings_def using assms(1)
  proof (induction xs arbitrary: seen)
    case Nil
    then show ?case by (simp add: spec_ret)
  next
    case (Cons x xs)
    have x: "spec (f x) (\<lambda>r es. guarded (q_allowed e body) seen es)" using Cons.prems by (simp add: safe_from_def)
    have "spec (bind (f x) (\<lambda>_. ret ())) (\<lambda>r es. guarded (q_allowed e body) seen es)"
      by (rule spec_bind [OF x]) (auto intro: spec_ret)
    then show ?case
      unfolding for_fold.simps
    proof (rule spec_bind)
      fix y es
      assume g: "guarded (q_allowed e body) seen es"
      have "spec (for_fold xs (\<lambda>_ s. bind (f s) (\<lambda>_. ret ())) ()) (\<lambda>r es'. guarded (q_allowed e body) (seen @ es) es' \<and> True)"
        by (rule Cons.IH) (use Cons.prems append_prefixD in \<open>fastforce\<close>)
      then show "spec (for_fold xs (\<lambda>_ s. bind (f s) (\<lambda>_. ret ())) y) (\<lambda>r es'. guarded (q_allowed e body) seen (es @ es') \<and> True)"
        by (cases y) (auto elim!: spec_mono simp: g)
    qed auto
  qed
  then show ?thesis by (rule safe_bind) (auto intro: assms(2))
qed

lemma safe_collect:
  assumes "\<And>xs seen'. prefix seen seen' \<Longrightarrow> (\<forall>x \<in> set xs. at_issue e seen' s d x) \<Longrightarrow> safe_from e body seen' (k xs)"
  shows "safe_from e body seen (bind (collectSiblings e a s d) k)"
  unfolding collectSiblings_def bind_assoc bind_ret
proof (rule safe_call)
  fix x :: "app_error + any_signal list \<times> str option"
  show "safe_from e body (seen @ [QSiblings (items_of (Done x))])
      (k (case x of Inl x \<Rightarrow> [] | Inr p \<Rightarrow> filter (is_sibling e s d) (fst p)))"
    by (rule assms) (auto simp: at_issue_def intro: sibling_same_case split: sum.split)
qed simp

lemma reviewable_prefix: "prefix seen seen' \<Longrightarrow> reviewable seen s d \<Longrightarrow> reviewable seen' s d"
  using reviewable_more by (auto simp: prefix_def)

lemma at_issue_prefix: "prefix seen seen' \<Longrightarrow> at_issue e seen s d x \<Longrightarrow> at_issue e seen' s d x"
  using at_issue_more by (auto simp: prefix_def)

lemma in_scope_self: "in_scope e seen s d (sg_signalLookupId s)"
  by (auto simp: in_scope_def at_issue_def)

lemma at_issue_scope: "at_issue e seen s d x \<Longrightarrow> in_scope e seen s d (sg_signalLookupId x)"
  by (auto simp: in_scope_def)

lemma safe_end: "(\<And>r. q_allowed e body seen (ev r)) \<Longrightarrow> safe_from e body seen (call svc ev)"
  by (simp add: safe_from_def spec_call)

lemma safe_do_dismiss:
  assumes r: "reviewable seen s d"
  shows "safe_from e (Some RvDismiss) seen (do_dismiss e a s d)"
  unfolding do_dismiss_def save_signal_def
proof (intro safe_call_500 safe_collect safe_siblings)
  fix ok
  have "only_hidden s (dismissed s d)" using r by (simp add: reviewable_def dismissed_only_hidden)
  then show "q_allowed e (Some RvDismiss) seen (QSave (dismissed s d) (ok_of ok))"
    using r by (auto simp: at_issue_def)
next
  fix u and xs :: "any_signal list" and seen' x seen''
  assume "prefix (seen @ [QSave (dismissed s d) (ok_of (Done (Inr u)))]) seen'"
    and scope: "\<forall>x \<in> set xs. at_issue e seen' s d x" and x: "x \<in> set xs" and p: "prefix seen' seen''"
  then have r': "reviewable seen'' s d" using r by (meson append_prefixD reviewable_prefix)
  have sc: "at_issue e seen'' s d x" using scope x at_issue_prefix [OF p] by blast
  show "safe_from e (Some RvDismiss) seen'' (dismiss_sibling e x)"
  proof (cases "reviewed_data (sg_data x)")
    case (Some y)
    from r' sc dismissed_only_hidden [OF this] have "q_allowed e (Some RvDismiss) seen'' (QSave (dismissed x y) ok)" for ok
      unfolding q_allowed.simps by blast
    with Some show ?thesis by (simp add: dismiss_sibling_def save_signal_def safe_end)
  qed (simp add: dismiss_sibling_def)
qed simp_all

lemma safe_do_block:
  assumes r: "reviewable seen s d" and rv: "decided_status rv = Some (st, p)"
  shows "safe_from e (Some rv) seen (do_block e a s d st p)"
  unfolding do_block_def set_status_def save_sender_def
proof (intro safe_call_500 safe_collect safe_siblings)
  fix ok
  show "q_allowed e (Some rv) seen (QStatus (sg_signalLookupId s) st (ok_of ok))"
    using r rv in_scope_self by fastforce
next
  fix x ok
  show "q_allowed e (Some rv) (seen @ [QStatus (sg_signalLookupId s) st (ok_of (Done (Inr x)))])
      (QSender (eb_recipientAddress d) (getETLD1 (qDomain e) (ea_address (eb_from d))) p (ok_of ok))"
    using reviewable_more [OF r] rv by (auto simp: judges_def)
next
  fix b u and xs :: "any_signal list" and seen' x seen''
  let ?seen = "seen @ [QStatus (sg_signalLookupId s) st (ok_of (Done (Inr b)))]"
  assume "prefix (?seen @ [QSender (eb_recipientAddress d) (getETLD1 (qDomain e) (ea_address (eb_from d))) p
      (ok_of (Done (Inr u)))]) seen'"
    and scope: "\<forall>x \<in> set xs. at_issue e seen' s d x" and x: "x \<in> set xs" and p: "prefix seen' seen''"
  then have r': "reviewable seen'' s d" using r by (meson append_prefixD reviewable_prefix)
  have sc: "in_scope e seen'' s d (sg_signalLookupId x)" using scope x at_issue_prefix [OF p] at_issue_scope by blast
  show "safe_from e (Some rv) seen'' (call (qUpdateSignalStatus e a (sg_signalLookupId x) st)
      (\<lambda>r. QStatus (sg_signalLookupId x) st (ok_of r)))"
    by (rule safe_end) (use r' sc rv in auto)
qed simp_all

lemma safe_activate_primary:
  assumes r: "reviewable seen s d"
    and approved: "approved \<Longrightarrow> \<exists>al dn. judges e d al dn \<and> QSender al dn SPAllow True \<in> set seen"
  shows "safe_from e (Some RvActive) seen (activate_primary e a s d approved)"
  unfolding activate_primary_def reprocess_def
proof (rule safe_call)
  fix ok
  show "q_allowed e (Some RvActive) seen (QReprocess (sg_signalLookupId s) True True (ok_of ok))"
    using r by auto
next
  fix x :: "app_error + any_signal"
  let ?seen = "seen @ [QReprocess (sg_signalLookupId s) True True (ok_of (Done x))]"
  have thread: "safe_from e (Some RvActive) seen' (or_500 (q_read ''thread'' svc)
      (\<lambda>t. ret (case t of None \<Rightarrow> internal_error | Some t \<Rightarrow> QActivated t y)))" for seen' svc y
    unfolding q_read_def by (rule safe_call_500) simp_all
  have cascade: "safe_from e (Some RvActive) ?seen
      (bind (bind (collectSiblings e a s d) (\<lambda>siblings. for_siblings siblings (\<lambda>x.
          call (qReprocessSignal e a (sg_signalLookupId x) True False)
            (\<lambda>r. QReprocess (sg_signalLookupId x) True False (ok_of r)))))
        (\<lambda>_. or_500 (q_read ''thread'' svc) (\<lambda>t. ret (case t of None \<Rightarrow> internal_error | Some t \<Rightarrow> QActivated t y))))"
    if "approved" for svc y
    unfolding bind_assoc
  proof (intro safe_collect safe_siblings)
    fix xs :: "any_signal list" and seen' x seen''
    assume pre: "prefix ?seen seen'" and scope: "\<forall>x \<in> set xs. at_issue e seen' s d x"
      and x: "x \<in> set xs" and p: "prefix seen' seen''"
    have pre': "prefix seen seen''" using pre p by (meson append_prefixD prefix_order.trans)
    have "in_scope e seen'' s d (sg_signalLookupId x)" using scope x at_issue_prefix [OF p] at_issue_scope by blast
    moreover have "reviewable seen'' s d" using reviewable_prefix [OF pre' r] .
    moreover have "\<exists>al dn. judges e d al dn \<and> QSender al dn SPAllow True \<in> set seen''"
      using approved [OF that] set_mono_prefix [OF pre'] by blast
    ultimately show "safe_from e (Some RvActive) seen'' (call (qReprocessSignal e a (sg_signalLookupId x) True False)
            (\<lambda>r. QReprocess (sg_signalLookupId x) True False (ok_of r)))"
      by (intro safe_end) auto
  qed (rule thread)
  show "safe_from e (Some RvActive) ?seen
      (case x of
        Inl (ThreadIdCollisionError i x y) \<Rightarrow> ret (QError 409 ''THREAD_ID_COLLISION'')
      | Inl x \<Rightarrow> ret internal_error
      | Inr activated \<Rightarrow>
         if \<not> truthy (sg_threadId activated) then ret internal_error
         else
           bind (if approved
                 then bind (collectSiblings e a s d) (\<lambda>siblings.
                        for_siblings siblings (\<lambda>x. call (qReprocessSignal e a (sg_signalLookupId x) True False)
                            (\<lambda>r. QReprocess (sg_signalLookupId x) True False (ok_of r))))
                 else ret ()) (\<lambda>_.
           or_500 (q_read ''thread'' (qGetThread e a (the (sg_threadId activated)))) (\<lambda>t.
             ret (case t of None \<Rightarrow> internal_error | Some t \<Rightarrow> QActivated t activated))))"
  proof (cases x)
    case (Inl b)
    then show ?thesis by (cases b) simp_all
  next
    case (Inr b)
    then show ?thesis using cascade thread by simp
  qed
qed

lemma safe_do_activate:
  assumes r: "reviewable seen s d"
  shows "safe_from e (Some RvActive) seen (do_activate e a s d)"
  unfolding do_activate_def q_read_def save_sender_def Let_def
proof (intro safe_call_500)
  fix al snd' flt
  let ?seen = "((seen @ [QRead ''alias'']) @ [QRead ''sender'']) @ [QRead ''filtering'']"
  have r': "reviewable ?seen s d" using r by (simp add: reviewable_more)
  show "safe_from e (Some RvActive) ?seen
     (if sender_approved (resolveEffectiveSenderPolicy al snd' flt)
      then or_500 (call (qSaveSender e a (eb_recipientAddress d) (getETLD1 (qDomain e) (ea_address (eb_from d))) SPAllow)
             (\<lambda>r. QSender (eb_recipientAddress d) (getETLD1 (qDomain e) (ea_address (eb_from d))) SPAllow (ok_of r)))
             (\<lambda>_. activate_primary e a s d True)
      else activate_primary e a s d False)"
  proof (cases "sender_approved (resolveEffectiveSenderPolicy al snd' flt)")
    case True
    have "safe_from e (Some RvActive) ?seen
      (or_500 (call (qSaveSender e a (eb_recipientAddress d) (getETLD1 (qDomain e) (ea_address (eb_from d))) SPAllow)
             (\<lambda>r. QSender (eb_recipientAddress d) (getETLD1 (qDomain e) (ea_address (eb_from d))) SPAllow (ok_of r)))
             (\<lambda>_. activate_primary e a s d True))"
    proof (rule safe_call_500)
      fix ok
      show "q_allowed e (Some RvActive) ?seen
          (QSender (eb_recipientAddress d) (getETLD1 (qDomain e) (ea_address (eb_from d))) SPAllow (ok_of ok))"
        unfolding q_allowed.simps by (intro exI [of _ RvActive] exI [of _ s] exI [of _ d]) (use r' in \<open>simp add: judges_def\<close>)
    next
      fix u
      show "safe_from e (Some RvActive) (?seen @ [QSender (eb_recipientAddress d)
          (getETLD1 (qDomain e) (ea_address (eb_from d))) SPAllow (ok_of (Done (Inr u)))]) (activate_primary e a s d True)"
        by (rule safe_activate_primary [OF reviewable_more [OF r']]) (auto simp: judges_def)
    qed
    with True show ?thesis by simp
  next
    case False
    then show ?thesis using safe_activate_primary [OF r', of False] by simp
  qed
qed simp_all

text \<open>
  C26. Whatever the tables and the pipeline answer, the decision on a quarantined message touches nothing
  but that message and the messages it listed itself that are inbound mail, are still visible in quarantine,
  went to the same alias and come from the same registrable sender domain. A dismissal saves each message as it
  was read, save that it is hidden and has one more SR-00 entry in the trace of its rules, and records no opinion of
  the sender; a block writes exactly the decided status and the matching policy for that alias and domain; an
  approval forces the message itself, and replays the others without force and only after the sender's approval
  was recorded. Nothing is written when the message is not in quarantine.
\<close>

theorem quarantine_decision_confined:
  "spec (quarantineResponse e a i body) (\<lambda>r es. guarded (q_allowed e body) [] es)"
proof -
  have decide: "safe_from e (Some rv) seen (decide_review e a s d rv)" if "reviewable seen s d" for rv seen s d
    using that by (cases rv) (simp_all add: decide_review_def safe_do_dismiss safe_do_block safe_do_activate)
  let ?k = "\<lambda>found. case found of
       None \<Rightarrow> ret (QError 404 ''SIGNAL_NOT_FOUND'')
     | Some s \<Rightarrow>
         if sg_status s \<noteq> SQuarantineVisible \<and> sg_status s \<noteq> SQuarantineHidden then ret (QError 422 ''SIGNAL_NOT_REVIEWABLE'')
         else (case (if isEmailSignal s then reviewed_data (sg_data s) else None) of
             None \<Rightarrow> ret (QError 400 ''SIGNAL_NOT_REVIEWABLE'')
           | Some d \<Rightarrow>
               (case body of
                  None \<Rightarrow> ret (QError 400 ''INVALID_REQUEST'')
                | Some rv \<Rightarrow> decide_review e a s d rv))"
  have found: "safe_from e body seen (?k (Some s))" if "QFound (Some s) \<in> set seen" for seen s
    using that decide [of seen s]
    by (auto simp: reviewable_def split: option.splits)
  have "safe_from e body [] (or_500 (find_quarantined e a i) ?k)"
    unfolding or_500_def find_quarantined_def get_signal_def bind_assoc
  proof (rule safe_call)
    fix x :: "app_error + any_signal option"
    show "safe_from e body ([] @ [QFound (found_of (Done x))])
      (bind (case x of Inl x' \<Rightarrow> ret x
             | Inr None \<Rightarrow> call (qGetSignalById e a i ''BLOCKED'') (\<lambda>r. QFound (found_of r))
             | Inr (Some s) \<Rightarrow> ret x)
        (\<lambda>r. case r of Inl x \<Rightarrow> ret internal_error | Inr v \<Rightarrow> ?k v))"
    proof (cases x)
      case (Inr f)
      show ?thesis
      proof (cases f)
        case None
        have "safe_from e body [QFound None] (bind (call (qGetSignalById e a i ''BLOCKED'') (\<lambda>r. QFound (found_of r)))
          (\<lambda>r. case r of Inl x \<Rightarrow> ret internal_error | Inr v \<Rightarrow> ?k v))"
        proof (rule safe_call)
          fix y :: "app_error + any_signal option"
          show "safe_from e body ([QFound None] @ [QFound (found_of (Done y))])
            (case y of Inl x \<Rightarrow> ret internal_error | Inr v \<Rightarrow> ?k v)"
          proof (cases y)
            case (Inr v)
            then show ?thesis using found [of _ "[QFound None, QFound v]"] by (cases v) simp_all
          qed simp
        qed simp
        with Inr None show ?thesis by simp
      next
        case (Some s)
        then show ?thesis using Inr found [of s "[QFound (Some s)]"] by simp
      qed
    qed simp
  qed simp
  then show ?thesis by (simp add: quarantineResponse_def safe_from_def)
qed

section \<open>The explanation\<close>

text \<open>\<open>collapseMatchedRules\<close> of \<open>api/signal-transforms.ts\<close>: one entry per rule, the last one, at the place
  of the first\<close>

primrec put_rule :: "matched_rule_result \<Rightarrow> matched_rule_result list \<Rightarrow> matched_rule_result list" where
  "put_rule r [] = [r]"
| "put_rule r (x # xs) = (if mr_ruleId x = mr_ruleId r then r # xs else x # put_rule r xs)"

definition collapseMatchedRules :: "matched_rule_result list \<Rightarrow> matched_rule_result list" where
  "collapseMatchedRules rules = fold put_rule rules []"

lemma put_rule_ids: "mr_ruleId ` set (put_rule r xs) = insert (mr_ruleId r) (mr_ruleId ` set xs)"
  by (induction xs) auto

lemma put_rule_distinct: "distinct (map mr_ruleId xs) \<Longrightarrow> distinct (map mr_ruleId (put_rule r xs))"
proof (induction xs)
  case (Cons x xs)
  then show ?case using put_rule_ids [of r xs] by (auto simp: image_iff)
qed simp

lemma put_rule_in: "r \<in> set (put_rule r xs)"
  by (induction xs) auto

lemma collapsed_distinct: "distinct (map mr_ruleId (collapseMatchedRules rules))"
proof -
  have "distinct (map mr_ruleId xs) \<Longrightarrow> distinct (map mr_ruleId (fold put_rule rules xs))" for xs
    by (induction rules arbitrary: xs) (simp_all add: put_rule_distinct)
  then show ?thesis by (simp add: collapseMatchedRules_def)
qed

lemma collapsed_last: "r \<in> set (collapseMatchedRules (rules @ [r]))"
  by (simp add: collapseMatchedRules_def put_rule_in)

lemma one_of_a_kind: "distinct xs \<Longrightarrow> set xs \<subseteq> {a} \<Longrightarrow> length xs \<le> 1"
  by (cases xs; cases "tl xs") auto

text \<open>
  After a dismissal the client sees exactly one explanation of the quarantine: it says that the user
  dismissed the message, and it starts with the reason the message was held for.
\<close>

lemma dismissal_explained:
  assumes "sg_data (dismissed s d) = DEmail (Inbound d')"
  shows "\<exists>r. filter (\<lambda>x. mr_ruleId x = ''SR-00'') (collapseMatchedRules (nullish (eb_matchedRules d') [])) = [r] \<and>
    mr_text r = Some
      (case List.find (\<lambda>x. mr_ruleId x = ''SR-00'') (nullish (eb_matchedRules d) []) of
         Some x \<Rightarrow> if truthy (mr_text x) then the (mr_text x) @ '' - dismissed by user from quarantine''
                   else ''Dismissed by user from quarantine''
       | None \<Rightarrow> ''Dismissed by user from quarantine'')"
proof -
  let ?rules = "nullish (eb_matchedRules d) []"
  let ?find = "List.find (\<lambda>x. mr_ruleId x = ''SR-00'') ?rules"
  let ?prior = "case ?find of Some x \<Rightarrow> mr_text x | None \<Rightarrow> None"
  let ?text = "if truthy ?prior then the ?prior @ '' - dismissed by user from quarantine''
                  else ''Dismissed by user from quarantine''"
  define r where "r = \<lparr>mr_ruleId = ''SR-00'', mr_actions = [\<lparr>ra_type = RBlockHidden, ra_value = None\<rparr>],
             mr_labelsAdded = [], mr_statusChange = Some ScBlockHidden, mr_text = Some ?text\<rparr>"
  have rules: "nullish (eb_matchedRules d') [] = ?rules @ [r]"
    using assms by (auto simp: dismissed_def Let_def r_def)
  let ?c = "collapseMatchedRules (?rules @ [r])"
  have "mr_ruleId r = ''SR-00''" by (simp add: r_def)
  with collapsed_last [of r ?rules] have "r \<in> set (filter (\<lambda>x. mr_ruleId x = ''SR-00'') ?c)" by simp
  moreover have "length (filter (\<lambda>x. mr_ruleId x = ''SR-00'') ?c) \<le> 1"
  proof -
    have "distinct (map mr_ruleId (filter (\<lambda>x. mr_ruleId x = ''SR-00'') ?c))"
      using collapsed_distinct by (rule distinct_map_filter)
    moreover have "set (map mr_ruleId (filter (\<lambda>x. mr_ruleId x = ''SR-00'') ?c)) \<subseteq> {''SR-00''}" by auto
    ultimately show ?thesis using one_of_a_kind by fastforce
  qed
  ultimately have "filter (\<lambda>x. mr_ruleId x = ''SR-00'') ?c = [r]"
    by (cases "filter (\<lambda>x. mr_ruleId x = ''SR-00'') ?c") auto
  then show ?thesis
    unfolding rules by (intro exI [of _ r]) (auto simp: r_def split: option.split)
qed

section \<open>A block that stays half done\<close>

definition held_data :: inbound_data where
  "held_data =
     \<lparr>eb_receivedAt = ''2026'', eb_summary = [], eb_urgency = None, eb_actions = [], eb_embeddings = None,
      eb_from = \<lparr>ea_address = ''x@bad.io'', ea_name = None\<rparr>, eb_to = [], eb_cc = [], eb_replyTo = None,
      eb_subject = ''hi'', eb_sentAt = None, eb_attachments = [], eb_headers = [], eb_recipientAddress = ''shop@u.io'',
      eb_tags = [], eb_s3Key = ''k'', eb_matchedRules = None, eb_unsubscribe = None, ib_workflow = ''content'',
      ib_workflowData = [], ib_htmlBody = None, ib_htmlBodyTruncated = None, ib_inlineImages = None\<rparr>"

definition held_signal :: any_signal where
  "held_signal =
     \<lparr>sg_id = ''sgn-1'', sg_signalLookupId = ''sgn-1'', sg_threadId = None, sg_gsi3pk = None, sg_accountId = ''acc-1'',
      sg_source = SrcEmail, sg_type = TyEmail, sg_status = SQuarantineVisible, sg_labels = [], sg_createdAt = ''2026'',
      sg_retentionDuration = None, sg_data = DEmail (Inbound held_data)\<rparr>"

text \<open>The stored signal: held until its status is changed\<close>

definition held_now :: "q_event list \<Rightarrow> any_signal" where
  "held_now h = (if QStatus ''sgn-1'' SBlockReject True \<in> set h then held_signal\<lparr>sg_status := SBlockReject\<rparr> else held_signal)"

definition no_sender_env :: q_env where
  "no_sender_env =
     \<lparr>qGetSignalById = (\<lambda>a i p h. Done (Inr (if (p = ''BLOCKED'') = (sg_status (held_now h) = SBlockReject) then Some (held_now h) else None))),
      qListPreThreadSignals = (\<lambda>a p n h. Done (Inr ([held_now h], None))),
      qSaveSignal = (\<lambda>s h. Done (Inr ())), qUpdateSignalStatus = (\<lambda>a l st h. Done (Inr (held_signal\<lparr>sg_status := st\<rparr>))),
      qSaveSender = (\<lambda>a r d p h. Done (Inl (DbError ''throttled'' True))),
      qGetAlias = (\<lambda>a r h. Done (Inr None)), qGetSender = (\<lambda>a r d h. Done (Inr None)), qGetFiltering = (\<lambda>a h. Done (Inr None)),
      qReprocessSignal = (\<lambda>a l n f h. Done (Inr held_signal)), qGetThread = (\<lambda>a t h. Done (Inr None)),
      qDomain = (\<lambda>d. Some d)\<rparr>"

text \<open>When the sender cannot be recorded the block fails, but the message has left the quarantine: the
  same request is refused ever after, and the sender stays unknown.\<close>

lemma failed_block_not_repeatable:
  "quarantineResponse no_sender_env ''acc-1'' ''sgn-1'' (Some RvBlockReject) [] =
     (Done (QError 500 []),
      [QFound (Some held_signal), QStatus ''sgn-1'' SBlockReject True, QSender ''shop@u.io'' ''bad.io'' SPBlockReject False])"
  "quarantineResponse no_sender_env ''acc-1'' ''sgn-1'' (Some RvBlockReject)
     (snd (quarantineResponse no_sender_env ''acc-1'' ''sgn-1'' (Some RvBlockReject) [])) =
     (Done (QError 422 ''SIGNAL_NOT_REVIEWABLE''),
      [QFound (Some held_signal), QStatus ''sgn-1'' SBlockReject True, QSender ''shop@u.io'' ''bad.io'' SPBlockReject False,
       QFound None, QFound (Some (held_signal\<lparr>sg_status := SBlockReject\<rparr>))])"
  by code_simp+

end
