(* ===== verification/Guards.thy ===== *)
theory Guards
  imports Ses
begin

text \<open>
  A calculus for programs every event of which is allowed by the events before it. The request handlers
  are written with \<open>or_else\<close>, the early return of an error response.
\<close>

definition or_else :: "'r \<Rightarrow> ('ev, 'e + 'a) prog \<Rightarrow> ('a \<Rightarrow> ('ev, 'r) prog) \<Rightarrow> ('ev, 'r) prog" where
  "or_else r m k = bind m (\<lambda>x. case x of Inl _ \<Rightarrow> ret r | Inr v \<Rightarrow> k v)"

definition safe :: "('ev list \<Rightarrow> 'ev \<Rightarrow> bool) \<Rightarrow> 'ev list \<Rightarrow> ('ev, 'a) prog \<Rightarrow> bool" where
  "safe A seen m \<longleftrightarrow> spec m (\<lambda>r es. guarded A seen es)"

named_theorems safe_intros

lemma safe_return [safe_intros, simp]: "safe A seen (ret x)"
  by (simp add: safe_def spec_ret)

lemma safe_throw [safe_intros, simp]: "safe A seen (throw x)"
  by (simp add: safe_def spec_throw)

lemma safe_bind_spec:
  assumes "spec m (\<lambda>r es. guarded A seen es \<and> Q r es)"
    and "\<And>x es. Q (Done x) es \<Longrightarrow> safe A (seen @ es) (k x)"
  shows "safe A seen (bind m k)"
  unfolding safe_def
  by (rule spec_bind [OF assms(1)]) (use assms(2) in \<open>auto simp: safe_def elim: spec_mono\<close>)

lemma safe_then:
  assumes "safe A seen m" "\<And>x es. safe A (seen @ es) (k x)"
  shows "safe A seen (bind m k)"
  by (rule safe_bind_spec [where Q = "\<lambda>_ _. True"]) (use assms in \<open>auto simp: safe_def\<close>)

lemma safe_event:
  assumes "\<And>r. A seen (ev r)" "\<And>x. safe A (seen @ [ev (Done x)]) (k x)"
  shows "safe A seen (bind (call svc ev) k)"
  by (rule safe_bind_spec [where Q = "\<lambda>r es. es = [ev r]"]) (use assms in \<open>auto intro!: spec_call\<close>)

lemma safe_last_call: "(\<And>r. A seen (ev r)) \<Longrightarrow> safe A seen (call svc ev)"
  by (simp add: safe_def spec_call)

lemma safe_or_else:
  assumes "\<And>r. A seen (ev r)" "\<And>x. safe A (seen @ [ev (Done (Inr x))]) (k x)"
  shows "safe A seen (or_else e (call svc ev) k)"
  unfolding or_else_def by (rule safe_event) (use assms in \<open>auto split: sum.split\<close>)

lemma safe_if [safe_intros]:
  "(b \<Longrightarrow> safe A seen m) \<Longrightarrow> (\<not> b \<Longrightarrow> safe A seen m') \<Longrightarrow> safe A seen (if b then m else m')"
  by simp

lemma safe_option [safe_intros]:
  "(x = None \<Longrightarrow> safe A seen m) \<Longrightarrow> (\<And>y. x = Some y \<Longrightarrow> safe A seen (f y)) \<Longrightarrow>
    safe A seen (case x of None \<Rightarrow> m | Some y \<Rightarrow> f y)"
  by (cases x) auto

lemma safe_sum [safe_intros]:
  "(\<And>y. x = Inl y \<Longrightarrow> safe A seen (g y)) \<Longrightarrow> (\<And>y. x = Inr y \<Longrightarrow> safe A seen (f y)) \<Longrightarrow>
    safe A seen (case x of Inl y \<Rightarrow> g y | Inr y \<Rightarrow> f y)"
  by (cases x) auto

lemma safe_prod [safe_intros]: "(\<And>a b. x = (a, b) \<Longrightarrow> safe A seen (f a b)) \<Longrightarrow> safe A seen (case x of (a, b) \<Rightarrow> f a b)"
  by (cases x) auto

lemma safeD: "safe A [] m \<Longrightarrow> m h = (r, h') \<Longrightarrow> \<exists>es. h' = h @ es \<and> guarded A [] es"
  unfolding safe_def by (drule (1) specD)

section \<open>Programs inside programs\<close>

text \<open>A part of the code that has its own events: it sees its own part of the log, and what it adds is
  added to the log of the whole.\<close>

definition embed :: "('a \<Rightarrow> 'b) \<Rightarrow> ('b \<Rightarrow> 'a option) \<Rightarrow> ('a, 'x) prog \<Rightarrow> ('b, 'x) prog" where
  "embed into part m h =
     (let h0 = List.map_filter part h; (r, h1) = m h0
      in (r, h @ map into (drop (length h0) h1)))"

lemma spec_embed:
  assumes "spec m Q"
  shows "spec (embed into part m) (\<lambda>r es. \<exists>es'. es = map into es' \<and> Q r es')"
proof (rule specI)
  fix h
  let ?h0 = "List.map_filter part h"
  obtain r h1 where m: "m ?h0 = (r, h1)" by fastforce
  from specD [OF assms m] obtain es where "h1 = ?h0 @ es" "Q r es" by blast
  then show "\<exists>es. snd (embed into part m h) = h @ es \<and> (\<exists>es'. es = map into es' \<and> Q (fst (embed into part m h)) es')"
    using m by (auto simp: embed_def Let_def)
qed

end
