(* ===== verification/SignalTable.thy ===== *)
theory SignalTable
  imports Retention MailText Services
begin

text \<open>
  The rows of the signals table and what the operations of \<open>database/thread-database.ts\<close> do to them. The
  table is a list of items with distinct keys. DynamoDB's part is written out: a put replaces the item
  of its key; an update of a key without an item creates an item that has only the updated attributes
  (a partial item, which no index entry leads to), but an update of an attribute inside \<open>data\<close> is
  refused when the item has no \<open>data\<close>; a query on an index finds the items with the index key.
  \<open>ttl\<close> stands for \<open>retentionTtl\<close> with its date arithmetic.
\<close>

section \<open>Keys\<close>

definition threadPk :: "str \<Rightarrow> str \<Rightarrow> str" where
  "threadPk accountId i = ''ACCT#'' @ accountId @ ''#ARC#'' @ i"

definition sigPk :: "str \<Rightarrow> str \<Rightarrow> str" where
  "sigPk accountId signalLookupId = ''ACCT#'' @ accountId @ ''#SIG#'' @ signalLookupId"

definition buildThreadGsi3pk :: "str \<Rightarrow> str \<Rightarrow> str" where
  "buildThreadGsi3pk accountId groupingKey = ''ACCT#'' @ accountId @ ''#GKEY#'' @ groupingKey"

definition quarantinedPk :: "str \<Rightarrow> str" where "quarantinedPk a = ''ACCT#'' @ a @ ''#QUARANTINED''"
definition blockedPk :: "str \<Rightarrow> str" where "blockedPk a = ''ACCT#'' @ a @ ''#BLOCKED''"

section \<open>Signal items\<close>

text \<open>The index of a message id (\<open>gsi3pk\<close>) is the attribute of the signal itself.\<close>

record signal_item =
  it_pk :: str
  it_gsi1pk :: "str option"
  it_gsi1sk :: "str option"
  it_ttl :: "int option"
  it_signal :: "any_signal option"

type_synonym ttl_of = "str option \<Rightarrow> str \<Rightarrow> int option"

definition partition_of :: "any_signal \<Rightarrow> str" where
  "partition_of s =
     (if truthy (sg_threadId s) then threadPk (sg_accountId s) (the (sg_threadId s))
      else if sg_status s = SQuarantineVisible \<or> sg_status s = SQuarantineHidden then quarantinedPk (sg_accountId s)
      else blockedPk (sg_accountId s))"

definition signalItem :: "ttl_of \<Rightarrow> any_signal \<Rightarrow> signal_item" where
  "signalItem ttl s =
     \<lparr>it_pk = sigPk (sg_accountId s) (sg_signalLookupId s), it_gsi1pk = Some (partition_of s),
      it_gsi1sk = Some (sg_id s), it_ttl = ttl (sg_retentionDuration s) (sg_createdAt s), it_signal = Some s\<rparr>"

type_synonym signal_table = "signal_item list"

definition put_item :: "signal_item \<Rightarrow> signal_table \<Rightarrow> signal_table" where
  "put_item it tbl =
     (if it_pk it \<in> it_pk ` set tbl then map (\<lambda>x. if it_pk x = it_pk it then it else x) tbl else tbl @ [it])"

definition partial_item :: "str \<Rightarrow> signal_item" where
  "partial_item pk = \<lparr>it_pk = pk, it_gsi1pk = None, it_gsi1sk = None, it_ttl = None, it_signal = None\<rparr>"

definition update_item :: "str \<Rightarrow> (signal_item \<Rightarrow> signal_item) \<Rightarrow> signal_table \<Rightarrow> signal_table" where
  "update_item pk f tbl =
     (if pk \<in> it_pk ` set tbl then map (\<lambda>x. if it_pk x = pk then f x else x) tbl
      else tbl @ [f (partial_item pk)])"

text \<open>An update inside \<open>data\<close>; \<open>None\<close> is the error of DynamoDB\<close>

definition update_data :: "str \<Rightarrow> (any_signal \<Rightarrow> any_signal) \<Rightarrow> signal_table \<Rightarrow> signal_table option" where
  "update_data pk f tbl =
     (if \<exists>x \<in> set tbl. it_pk x = pk \<and> it_signal x \<noteq> None
      then Some (map (\<lambda>x. if it_pk x = pk then x\<lparr>it_signal := map_option f (it_signal x)\<rparr> else x) tbl)
      else None)"

definition get_item :: "str \<Rightarrow> signal_table \<Rightarrow> signal_item option" where
  "get_item pk tbl = List.find (\<lambda>x. it_pk x = pk) tbl"

definition delete_item :: "str \<Rightarrow> signal_table \<Rightarrow> signal_table" where
  "delete_item pk tbl = filter (\<lambda>x. it_pk x \<noteq> pk) tbl"

section \<open>Reading a signal\<close>

definition PENDING_SEND_STALE_HOURS :: int where "PENDING_SEND_STALE_HOURS = 4"

text \<open>\<open>elapsed\<close> gives the milliseconds since a timestamp, \<open>None\<close> for a text that is none (\<open>NaN\<close>
  compares as false). Only outbound mail has a \<open>sendInitiatedAt\<close>.\<close>

definition initiated_at :: "any_data \<Rightarrow> str option" where
  "initiated_at d = (case d of DEmail (Outbound x) \<Rightarrow> ob_sendInitiatedAt x | _ \<Rightarrow> None)"

definition coerceStaleStatus :: "(str \<Rightarrow> int option) \<Rightarrow> any_signal \<Rightarrow> any_signal" where
  "coerceStaleStatus elapsed s =
     (if sg_status s \<noteq> SPendingSend then s
      else if \<not> truthy (initiated_at (sg_data s)) then s\<lparr>sg_status := SDraft\<rparr>
      else (case elapsed (the (initiated_at (sg_data s))) of
              Some ms \<Rightarrow> if ms > PENDING_SEND_STALE_HOURS * 3600000 then s\<lparr>sg_status := SDraft\<rparr> else s
            | None \<Rightarrow> s))"

definition id_partition :: "str \<Rightarrow> str \<Rightarrow> str" where
  "id_partition accountId threadId =
     (if threadId = ''QUARANTINED'' then quarantinedPk accountId
      else if threadId = ''BLOCKED'' then blockedPk accountId
      else threadPk accountId threadId)"

text \<open>The item that an index entry leads to, as the reader sees it\<close>

definition seen_as :: "(str \<Rightarrow> int option) \<Rightarrow> str \<Rightarrow> str \<Rightarrow> signal_item \<Rightarrow> any_signal option" where
  "seen_as elapsed gsi1pk gsi1sk it =
     (if it_gsi1pk it = Some gsi1pk \<and> it_gsi1sk it = Some gsi1sk
      then map_option (coerceStaleStatus elapsed) (it_signal it) else None)"

definition getSignalById :: "(str \<Rightarrow> int option) \<Rightarrow> str \<Rightarrow> str \<Rightarrow> str \<Rightarrow> signal_table \<Rightarrow> any_signal option" where
  "getSignalById elapsed accountId signalId threadId tbl =
     (case List.map_filter (seen_as elapsed (id_partition accountId threadId) signalId) tbl of
        [] \<Rightarrow> None
      | s # _ \<Rightarrow> Some s)"

definition getSignalByMessageId :: "(str \<Rightarrow> int option) \<Rightarrow> str \<Rightarrow> str \<Rightarrow> signal_table \<Rightarrow> any_signal option" where
  "getSignalByMessageId elapsed accountId signalLookupId tbl =
     (case get_item (sigPk accountId signalLookupId) tbl of
        None \<Rightarrow> None
      | Some it \<Rightarrow> map_option (coerceStaleStatus elapsed) (it_signal it))"

text \<open>The matches of a message id, oldest first (a stable sort by creation time); the first is returned.\<close>

definition ref_of :: "any_signal \<Rightarrow> threaded_ref" where
  "ref_of s = \<lparr>tr_id = sg_id s, tr_signalLookupId = sg_signalLookupId s, tr_threadId = sg_threadId s,
     tr_source = sg_source s, tr_type = sg_type s\<rparr>"

definition message_id_matches :: "str \<Rightarrow> signal_table \<Rightarrow> any_signal list" where
  "message_id_matches gsi3pk tbl =
     sort_by (le_by sg_createdAt) (filter (\<lambda>s. sg_gsi3pk s = Some gsi3pk) (List.map_filter it_signal tbl))"

definition findSignalByEmailMessageId :: "str \<Rightarrow> signal_table \<Rightarrow> threaded_ref option" where
  "findSignalByEmailMessageId gsi3pk tbl =
     (case message_id_matches gsi3pk tbl of [] \<Rightarrow> None | s # _ \<Rightarrow> Some (ref_of s))"

definition getLinkedCalendarSignal :: "str \<Rightarrow> str \<Rightarrow> str \<Rightarrow> signal_table \<Rightarrow> any_signal option" where
  "getLinkedCalendarSignal accountId threadId emailSignalId tbl =
     List.find (\<lambda>s. sg_type s = TyCalendarEvent \<and>
         (case sg_data s of DCalendarEvent d \<Rightarrow> ce_linkedSignalId d = emailSignalId | _ \<Rightarrow> False))
       (rev (sort_by (le_by sg_id) (List.map_filter (\<lambda>it. if it_gsi1pk it = Some (threadPk accountId threadId) then it_signal it else None) tbl)))"

section \<open>Writing a signal\<close>

definition saveSignal :: "ttl_of \<Rightarrow> any_signal \<Rightarrow> signal_table \<Rightarrow> signal_table" where
  "saveSignal ttl s tbl = put_item (signalItem ttl s) tbl"

definition on_signal :: "(any_signal \<Rightarrow> any_signal) \<Rightarrow> signal_item \<Rightarrow> signal_item" where
  "on_signal f it = it\<lparr>it_signal := map_option f (it_signal it)\<rparr>"

definition on_outbound :: "(outbound_data \<Rightarrow> outbound_data) \<Rightarrow> any_signal \<Rightarrow> any_signal" where
  "on_outbound f s = (case sg_data s of DEmail (Outbound d) \<Rightarrow> s\<lparr>sg_data := DEmail (Outbound (f d))\<rparr> | _ \<Rightarrow> s)"

definition block_item :: "str \<Rightarrow> signal_status \<Rightarrow> signal_item \<Rightarrow> signal_item" where
  "block_item accountId st it =
     (on_signal (\<lambda>s. s\<lparr>sg_status := st\<rparr>) it)\<lparr>it_gsi1pk := Some (blockedPk accountId)\<rparr>"

definition updateSignalStatus :: "str \<Rightarrow> str \<Rightarrow> signal_status \<Rightarrow> signal_table \<Rightarrow> signal_table" where
  "updateSignalStatus accountId lookupId st = update_item (sigPk accountId lookupId) (block_item accountId st)"

definition unblock_item :: "str \<Rightarrow> str \<Rightarrow> signal_item \<Rightarrow> signal_item" where
  "unblock_item accountId threadId it =
     (on_signal (\<lambda>s. s\<lparr>sg_threadId := Some threadId, sg_status := SActive\<rparr>) it)\<lparr>it_gsi1pk := Some (threadPk accountId threadId)\<rparr>"

definition unblockSignal :: "str \<Rightarrow> str \<Rightarrow> str \<Rightarrow> signal_table \<Rightarrow> signal_table" where
  "unblockSignal accountId lookupId threadId = update_item (sigPk accountId lookupId) (unblock_item accountId threadId)"

text \<open>The editable part of a draft; an absent attribute is left alone.\<close>

record draft_update =
  du_subject :: "str option"
  du_textBody :: "str option"
  du_from :: "email_address option"
  du_to :: "email_address list option"
  du_cc :: "email_address list option"
  du_bcc :: "email_address list option"

definition edit_data :: "draft_update \<Rightarrow> outbound_data \<Rightarrow> outbound_data" where
  "edit_data u d =
     d\<lparr>eb_subject := nullish (du_subject u) (eb_subject d),
       ob_textBody := nullish_opt (du_textBody u) (ob_textBody d),
       eb_from := nullish (du_from u) (eb_from d),
       eb_to := nullish (du_to u) (eb_to d),
       eb_cc := nullish (du_cc u) (eb_cc d),
       ob_bcc := nullish (du_bcc u) (ob_bcc d)\<rparr>"

definition no_edit :: "draft_update \<Rightarrow> bool" where
  "no_edit u \<longleftrightarrow> du_subject u = None \<and> du_textBody u = None \<and> du_from u = None \<and> du_to u = None \<and>
     du_cc u = None \<and> du_bcc u = None"

definition updateSignal :: "str \<Rightarrow> str \<Rightarrow> draft_update \<Rightarrow> signal_table \<Rightarrow> signal_table option" where
  "updateSignal accountId lookupId u tbl =
     (if no_edit u then Some (update_item (sigPk accountId lookupId) (\<lambda>it. it) tbl)
      else update_data (sigPk accountId lookupId) (on_outbound (edit_data u)) tbl)"

definition send_data :: "send_status_update \<Rightarrow> outbound_data \<Rightarrow> outbound_data" where
  "send_data u d =
     d\<lparr>ob_sendInitiatedAt := (case ss_sendInitiatedAt u of None \<Rightarrow> ob_sendInitiatedAt d | Some v \<Rightarrow> v),
       eb_sentAt := nullish_opt (ss_sentAt u) (eb_sentAt d),
       ob_sesMessageId := nullish_opt (ss_sesMessageId u) (ob_sesMessageId d),
       ob_sendFailureReason := nullish_opt (ss_sendFailureReason u) (ob_sendFailureReason d)\<rparr>"

definition send_status :: "send_status_update \<Rightarrow> any_signal \<Rightarrow> any_signal" where
  "send_status u s =
     (on_outbound (send_data u) s)\<lparr>sg_status := ss_status u,
        sg_gsi3pk := nullish_opt (ss_gsi3pk u) (sg_gsi3pk s),
        sg_threadId := nullish_opt (ss_threadId u) (sg_threadId s)\<rparr>"

text \<open>The name \<open>#data\<close> is always declared; DynamoDB refuses an update that does not use it.\<close>

definition updateSignalSendStatus :: "str \<Rightarrow> str \<Rightarrow> send_status_update \<Rightarrow> signal_table \<Rightarrow> signal_table option" where
  "updateSignalSendStatus accountId lookupId u tbl =
     (if ss_sendInitiatedAt u = None \<and> ss_sentAt u = None \<and> ss_sesMessageId u = None \<and> ss_sendFailureReason u = None
      then None
      else update_data (sigPk accountId lookupId) (send_status u) tbl)"

definition deleteSignal :: "str \<Rightarrow> str \<Rightarrow> signal_table \<Rightarrow> signal_table" where
  "deleteSignal accountId lookupId = delete_item (sigPk accountId lookupId)"

section \<open>Threads\<close>

text \<open>A partial item has what an update of a missing thread leaves: a status and a time.\<close>

datatype thread_row = Whole thread | Partial "thread_status option" "str option"

record thread_item =
  ti_pk :: str
  ti_gsi1pk :: "str option"
  ti_gsi1sk :: "str option"
  ti_gsi3pk :: "str option"
  ti_ttl :: "int option"
  ti_row :: thread_row

type_synonym thread_table = "thread_item list"

fun th_status_name :: "thread_status \<Rightarrow> str" where
  "th_status_name ThActive = ''active''"
| "th_status_name ThArchived = ''archived''"
| "th_status_name ThDeleted = ''deleted''"
| "th_status_name ThReportViolation = ''report_violation''"

definition activity_key :: "thread_status \<Rightarrow> str \<Rightarrow> str \<Rightarrow> str" where
  "activity_key st lastSignalAt i = ''LASTACT#'' @ th_status_name st @ ''#'' @ lastSignalAt @ ''#'' @ i"

definition buildThreadItem :: "ttl_of \<Rightarrow> thread \<Rightarrow> thread_item" where
  "buildThreadItem ttl t =
     \<lparr>ti_pk = threadPk (th_accountId t) (th_id t), ti_gsi1pk = Some (''ACCT#'' @ th_accountId t),
      ti_gsi1sk = Some (activity_key (th_status t) (th_lastSignalAt t) (th_id t)),
      ti_gsi3pk = (if truthy (th_groupingKey t) then Some (buildThreadGsi3pk (th_accountId t) (the (th_groupingKey t))) else None),
      ti_ttl = ttl (th_retentionDuration t) (th_createdAt t), ti_row = Whole t\<rparr>"

definition put_thread :: "thread_item \<Rightarrow> thread_table \<Rightarrow> thread_table" where
  "put_thread it tbl =
     (if ti_pk it \<in> ti_pk ` set tbl then map (\<lambda>x. if ti_pk x = ti_pk it then it else x) tbl else tbl @ [it])"

definition get_row :: "str \<Rightarrow> thread_table \<Rightarrow> thread_row option" where
  "get_row pk tbl = map_option ti_row (List.find (\<lambda>x. ti_pk x = pk) tbl)"

definition getThread :: "str \<Rightarrow> str \<Rightarrow> thread_table \<Rightarrow> thread_row option" where
  "getThread accountId i tbl = get_row (threadPk accountId i) tbl"

definition saveThread :: "ttl_of \<Rightarrow> thread \<Rightarrow> thread_table \<Rightarrow> thread_table" where
  "saveThread ttl t tbl = put_thread (buildThreadItem ttl t) tbl"

text \<open>The comparison with the thread that is already there; reading the sender of a partial item throws.\<close>

definition same_conversation :: "thread \<Rightarrow> thread \<Rightarrow> bool" where
  "same_conversation x t \<longleftrightarrow>
     ea_address (th_sender x) = ea_address (th_sender t) \<and> th_recipientAddress x = th_recipientAddress t"

datatype create_result = Created | Reclaimed | Collision thread | CreateThrows

definition createThread :: "ttl_of \<Rightarrow> thread \<Rightarrow> thread_table \<Rightarrow> create_result \<times> thread_table" where
  "createThread ttl t tbl =
     (case getThread (th_accountId t) (th_id t) tbl of
        None \<Rightarrow> (Created, put_thread (buildThreadItem ttl t) tbl)
      | Some (Whole x) \<Rightarrow> (if same_conversation x t then Reclaimed else Collision x, tbl)
      | Some (Partial st l) \<Rightarrow> (CreateThrows, tbl))"

definition with_fields :: "str \<Rightarrow> thread_status \<Rightarrow> str \<Rightarrow> update_thread_fields \<Rightarrow> thread \<Rightarrow> thread" where
  "with_fields now st lastSignalAt u t =
     t\<lparr>th_updatedAt := now, th_status := st, th_lastSignalAt := lastSignalAt,
       th_labels := nullish (uf_labels u) (th_labels t),
       th_urgency := nullish_opt (uf_urgency u) (th_urgency t),
       th_summary := nullish (uf_summary u) (th_summary t),
       th_workflow := nullish (uf_workflow u) (th_workflow t),
       th_retentionDuration := nullish_opt (uf_retentionDuration u) (th_retentionDuration t),
       th_sentMessageIds := nullish_opt (uf_sentMessageIds u) (th_sentMessageIds t),
       th_sender := nullish (uf_sender u) (th_sender t),
       th_recipientAddress := nullish (uf_recipientAddress u) (th_recipientAddress t),
       th_subject := nullish (uf_subject u) (th_subject t),
       th_followupAt := nullish_opt (uf_followupAt u) (th_followupAt t)\<rparr>"

fun row_with :: "str \<Rightarrow> thread_status \<Rightarrow> str \<Rightarrow> update_thread_fields \<Rightarrow> thread_row \<Rightarrow> thread_row" where
  "row_with now st l u (Whole t) = Whole (with_fields now st l u t)"
| "row_with now st l u (Partial _ _) = Partial (Some st) (Some l)"

definition update_thread_item :: "str \<Rightarrow> str \<Rightarrow> thread_status \<Rightarrow> str \<Rightarrow> update_thread_fields \<Rightarrow> thread_item \<Rightarrow> thread_item" where
  "update_thread_item now i st l u it =
     it\<lparr>ti_gsi1sk := Some (activity_key st l i), ti_row := row_with now st l u (ti_row it)\<rparr>"

definition partial_thread :: "str \<Rightarrow> thread_item" where
  "partial_thread pk = \<lparr>ti_pk = pk, ti_gsi1pk = None, ti_gsi1sk = None, ti_gsi3pk = None, ti_ttl = None,
     ti_row = Partial None None\<rparr>"

definition updateThread ::
  "str \<Rightarrow> str \<Rightarrow> str \<Rightarrow> thread_status \<Rightarrow> str \<Rightarrow> update_thread_fields \<Rightarrow> thread_table \<Rightarrow> thread_table" where
  "updateThread now accountId i st l u tbl =
     (let pk = threadPk accountId i
      in if pk \<in> ti_pk ` set tbl
         then map (\<lambda>x. if ti_pk x = pk then update_thread_item now i st l u x else x) tbl
         else tbl @ [update_thread_item now i st l u (partial_thread pk)])"

definition setThreadTtlFallback :: "str \<Rightarrow> str \<Rightarrow> int \<Rightarrow> thread_table \<Rightarrow> thread_table" where
  "setThreadTtlFallback accountId i fallback tbl =
     map (\<lambda>x. if ti_pk x = threadPk accountId i then x\<lparr>ti_ttl := Some (nullish (ti_ttl x) fallback)\<rparr> else x) tbl"

section \<open>Calendar events\<close>

definition rsvp_of :: "signal_item \<Rightarrow> calendar_rsvp_response option" where
  "rsvp_of it =
     (case it_signal it of
        Some s \<Rightarrow> (case sg_data s of DCalendarEvent d \<Rightarrow> ce_rsvpResponse d | _ \<Rightarrow> None)
      | None \<Rightarrow> None)"

definition stored_rsvp :: "str \<Rightarrow> signal_table \<Rightarrow> calendar_rsvp_response option" where
  "stored_rsvp pk tbl = (case get_item pk tbl of Some it \<Rightarrow> rsvp_of it | None \<Rightarrow> None)"

text \<open>The event that is written: its own response is ignored, the one that was read is kept.\<close>

definition event_with :: "calendar_rsvp_response option \<Rightarrow> calendar_event_data signal \<Rightarrow> any_signal" where
  "event_with prior s = with_data (\<lambda>d. DCalendarEvent (d\<lparr>ce_rsvpResponse := prior\<rparr>)) s"

text \<open>The conditional put; \<open>None\<close> when the condition fails\<close>

definition put_event ::
  "ttl_of \<Rightarrow> calendar_event_data signal \<Rightarrow> calendar_rsvp_response option \<Rightarrow> signal_table \<Rightarrow> signal_table option" where
  "put_event ttl s prior tbl =
     (let pk = sigPk (sg_accountId s) (sg_signalLookupId s); now_stored = stored_rsvp pk tbl
      in if (case prior of
               Some r \<Rightarrow> map_option rr_respondedAt now_stored = Some (rr_respondedAt r)
             | None \<Rightarrow> now_stored = None)
         then Some (put_item (signalItem ttl (event_with prior s)) tbl)
         else None)"

definition record_rsvp :: "str \<Rightarrow> calendar_rsvp_response \<Rightarrow> (str \<times> str) option \<Rightarrow> any_signal \<Rightarrow> any_signal" where
  "record_rsvp accountId r sent s =
     (case sg_data s of
        DCalendarEvent d \<Rightarrow>
          (case sent of
             None \<Rightarrow> s\<lparr>sg_data := DCalendarEvent (d\<lparr>ce_rsvpResponse := Some r\<rparr>)\<rparr>
           | Some (sesMessageId, outboundMsgId) \<Rightarrow>
               s\<lparr>sg_data := DCalendarEvent (d\<lparr>ce_rsvpResponse := Some r, ce_sesMessageId := Some sesMessageId\<rparr>),
                 sg_gsi3pk := Some (buildSignalGsi3pk accountId outboundMsgId)\<rparr>)
      | _ \<Rightarrow> s)"

text \<open>\<open>False\<close> when the row is gone; an item without \<open>data\<close> is an error (\<open>None\<close>)\<close>

definition setCalendarEventRsvp ::
  "str \<Rightarrow> str \<Rightarrow> calendar_rsvp_response \<Rightarrow> (str \<times> str) option \<Rightarrow> signal_table \<Rightarrow> (bool \<times> signal_table) option" where
  "setCalendarEventRsvp accountId lookupId r sent tbl =
     (if get_item (sigPk accountId lookupId) tbl = None then Some (False, tbl)
      else map_option (Pair True) (update_data (sigPk accountId lookupId) (record_rsvp accountId r sent) tbl))"

end
