(* ===== verification/ThreadsApi.thy ===== *)
theory ThreadsApi
  imports Guards SignalTable Policy CalendarCollapse
begin

text \<open>
  The requests on threads and drafts (\<open>api/threadsApi.ts\<close>), with the undo window (\<open>api/undo-window.ts\<close>)
  and the names of schedules (\<open>scheduler/schedule-name.ts\<close>). A request body is \<open>None\<close> when it does not
  parse. A response is given by its status and its error code (the message where there is no code);
  threads and signals are returned as they are stored. \<open>tShown\<close> says whether a signal can be converted for
  the client at all. Log lines are left out.
\<close>

section \<open>Undo window and schedule names\<close>

function words_of :: "str \<Rightarrow> str list" where
  "words_of s =
     (case dropWhile is_space s of
        [] \<Rightarrow> []
      | c # cs \<Rightarrow> takeWhile (\<lambda>x. \<not> is_space x) (c # cs) # words_of (dropWhile (\<lambda>x. \<not> is_space x) cs))"
  by pat_completeness auto
termination
proof (relation "measure length", simp_all)
  fix s c and cs :: str
  assume "dropWhile is_space s = c # cs"
  then have "length (c # cs) \<le> length s" by (metis length_dropWhile_le)
  moreover have "length (dropWhile (\<lambda>x. \<not> is_space x) cs) \<le> length cs" by (rule length_dropWhile_le)
  ultimately show "length (dropWhile (\<lambda>x. \<not> is_space x) cs) < length s" by simp
qed

declare words_of.simps [simp del]

definition computeUndoWindowSeconds :: "str option \<Rightarrow> nat" where
  "computeUndoWindowSeconds textBody =
     (let wordCount = (case textBody of None \<Rightarrow> 0 | Some t \<Rightarrow> length (words_of t))
      in if wordCount < 50 then 10 else if wordCount < 200 then 60 else if wordCount < 500 then 180 else 300)"

definition MAX_LENGTH :: nat where "MAX_LENGTH = 64"

text \<open>\<open>hash\<close> is the base64url text of a SHA-1; \<open>slice(0, n)\<close> of a negative \<open>n\<close> drops from the end.\<close>

definition buildScheduleName :: "(str \<Rightarrow> str) \<Rightarrow> str \<Rightarrow> str \<Rightarrow> str \<Rightarrow> str" where
  "buildScheduleName hash accountId signalId suf =
     (let p = accountId @ ''.'' @ signalId @ ''.''; fullName = p @ suf
      in if length fullName \<le> MAX_LENGTH then fullName
         else if length p \<le> MAX_LENGTH then p @ take (MAX_LENGTH - length p) (hash suf)
         else p @ take (length (hash suf) - (length p - MAX_LENGTH)) (hash suf))"

section \<open>Requests, responses, events\<close>

record patch_body =
  pb_status :: "thread_status option"
  pb_urgency :: "str option"
  pb_labels :: "str list option"
  pb_lastSignalAt :: "str option"
  pb_followupAt :: "str option"

record draft_body =
  db_from :: email_address
  db_to :: "email_address list"
  db_cc :: "email_address list option"
  db_bcc :: "email_address list option"
  db_subject :: str
  db_body :: "str option"
  db_linkedSignalId :: "str option"

text \<open>\<open>gp_toDraft\<close>: the only status a client may ask for is \<open>draft\<close>.\<close>

record signal_body =
  gp_toDraft :: bool
  gp_subject :: "str option"
  gp_body :: "str option"
  gp_from :: "email_address option"
  gp_to :: "email_address list option"

record rsvp_request =
  rq_decision :: rsvp_decision
  rq_invite :: calendar_event_data
  rq_cancelled :: bool
  rq_aliasAddress :: str
  rq_fromAddress :: str
  rq_accountId :: str
  rq_calendarSignalId :: str
  rq_threadId :: str

datatype t_response =
    TErr nat str
  | TThreadBody thread
  | TSignalBody any_signal
  | TCreatedBody any_signal
  | TSentBody any_signal str
  | TEventBody any_signal "calendar_enrichment option"
  | TSignalsBody "(any_signal \<times> calendar_enrichment option) list"
  | TUnsubscribed "str option"
  | TRedirect str
  | TNoContent

datatype t_event =
    TThread str str "thread option option"
  | TSignal str str str "any_signal option option"
  | TListed "any_signal list option"
  | TRead str
  | TClock
  | TClockMs int
  | TDomain str str "domain_rec option option"
  | TSender str str sender_policy bool
  | TUpdated str thread_status str update_thread_fields bool
  | TFollowupQueued str int bool
  | TFollowupScheduled str str bool
  | TUnscheduled str bool
  | TCreated any_signal bool
  | TSaved any_signal bool
  | TEdited str draft_update bool
  | TSendStatus str send_status_update bool
  | TDispatched draft_send_payload nat bool
  | TDeleted str bool
  | TPosted str bool
  | TRsvpSent rsvp_request bool
  | TRsvpStored str calendar_rsvp_response "(str \<times> str) option" bool
  | TReprocessed str bool

type_synonym 'a tio = "(t_event, 'a) prog"
type_synonym 'a t_service = "t_event list \<Rightarrow> (app_error + 'a) outcome"

record t_env =
  tGetThread :: "str \<Rightarrow> str \<Rightarrow> thread option t_service"
  tGetSignal :: "str \<Rightarrow> str \<Rightarrow> str \<Rightarrow> any_signal option t_service"
  tListSignals :: "str \<Rightarrow> str \<Rightarrow> nat \<Rightarrow> any_signal list t_service"
  tSaveSender :: "str \<Rightarrow> str \<Rightarrow> str \<Rightarrow> sender_policy \<Rightarrow> unit t_service"
  tUpdateThread :: "str \<Rightarrow> str \<Rightarrow> thread_status \<Rightarrow> str \<Rightarrow> update_thread_fields \<Rightarrow> thread t_service"
  tQueueFollowup :: "str \<Rightarrow> str \<Rightarrow> int \<Rightarrow> unit t_service"
  tCreateFollowup :: "str \<Rightarrow> str \<Rightarrow> str \<Rightarrow> unit t_service"
  tDeleteSchedule :: "str \<Rightarrow> unit t_service"
  tCreateSignal :: "any_signal \<Rightarrow> any_signal t_service"
  tSaveSignal :: "any_signal \<Rightarrow> unit t_service"
  tUpdateSignal :: "str \<Rightarrow> str \<Rightarrow> draft_update \<Rightarrow> any_signal t_service"
  tUpdateSendStatus :: "str \<Rightarrow> str \<Rightarrow> send_status_update \<Rightarrow> any_signal t_service"
  tDispatch :: "draft_send_payload \<Rightarrow> nat \<Rightarrow> unit t_service"
  tDeleteSignal :: "str \<Rightarrow> str \<Rightarrow> unit t_service"
  tPost :: "str \<Rightarrow> t_event list \<Rightarrow> bool outcome"
  tGetDomain :: "str \<Rightarrow> str \<Rightarrow> domain_rec option t_service"
  tSendRsvp :: "rsvp_request \<Rightarrow> (str \<times> str) t_service"
  tSetRsvp :: "str \<Rightarrow> str \<Rightarrow> calendar_rsvp_response \<Rightarrow> (str \<times> str) option \<Rightarrow> bool t_service"
  tReprocess :: "str \<Rightarrow> str \<Rightarrow> any_signal t_service"
  tRawUrl :: "any_signal \<Rightarrow> t_event list \<Rightarrow> str outcome"
  tNow :: "t_event list \<Rightarrow> str"
  tNowMs :: "t_event list \<Rightarrow> int"
  tNewId :: "t_event list \<Rightarrow> str"
  tMillis :: "str \<Rightarrow> int option"
  tIsoSeconds :: "str \<Rightarrow> int option"
  tPlusSeconds :: "str \<Rightarrow> nat \<Rightarrow> str"
  tUpcomingDay :: "str \<Rightarrow> t_event list \<Rightarrow> str option"
  tIsValidEmail :: "str \<Rightarrow> bool"
  tDomainOf :: "str \<Rightarrow> str option"
  tShown :: "any_signal \<Rightarrow> bool"
  tHash :: "str \<Rightarrow> str"
  tCdnBase :: str

section \<open>Common parts\<close>

definition E500 :: t_response where "E500 = TErr 500 ''Internal Server Error''"
definition NO_SIGNAL :: t_response where "NO_SIGNAL = TErr 404 ''SIGNAL_NOT_FOUND''"

definition clock :: "t_env \<Rightarrow> str tio" where
  "clock e = call (\<lambda>h. Done (tNow e h)) (\<lambda>_. TClock)"

definition clock_ms :: "t_env \<Rightarrow> int tio" where
  "clock_ms e = call (\<lambda>h. Done (tNowMs e h)) (\<lambda>r. TClockMs (case r of Done n \<Rightarrow> n | Threw m \<Rightarrow> 0))"

definition with_thread :: "t_env \<Rightarrow> str \<Rightarrow> str \<Rightarrow> (thread \<Rightarrow> t_response tio) \<Rightarrow> t_response tio" where
  "with_thread e a i k =
     or_else E500 (call (tGetThread e a i) (\<lambda>r. TThread a i (answered r))) (\<lambda>found.
       case found of None \<Rightarrow> ret (TErr 404 ''THREAD_NOT_FOUND'') | Some t \<Rightarrow> k t)"

definition with_signal :: "t_env \<Rightarrow> str \<Rightarrow> str \<Rightarrow> str \<Rightarrow> (any_signal \<Rightarrow> t_response tio) \<Rightarrow> t_response tio" where
  "with_signal e a i th k =
     or_else E500 (call (tGetSignal e a i th) (\<lambda>r. TSignal a i th (answered r))) (\<lambda>found.
       case found of None \<Rightarrow> ret NO_SIGNAL | Some s \<Rightarrow> k s)"

definition list_signals :: "t_env \<Rightarrow> str \<Rightarrow> str \<Rightarrow> nat \<Rightarrow> (any_signal list \<Rightarrow> t_response tio) \<Rightarrow> t_response tio" where
  "list_signals e a th n k = or_else E500 (call (tListSignals e a th n) (\<lambda>r. TListed (answered r))) k"

definition update_thread ::
  "t_env \<Rightarrow> str \<Rightarrow> str \<Rightarrow> thread_status \<Rightarrow> str \<Rightarrow> update_thread_fields \<Rightarrow> (app_error + thread) tio" where
  "update_thread e a i st l u = call (tUpdateThread e a i st l u) (\<lambda>r. TUpdated i st l u (answered r \<noteq> None))"

definition send_status_call :: "t_env \<Rightarrow> str \<Rightarrow> str \<Rightarrow> send_status_update \<Rightarrow> (app_error + any_signal) tio" where
  "send_status_call e a l u = call (tUpdateSendStatus e a l u) (\<lambda>r. TSendStatus l u (answered r \<noteq> None))"

definition shown :: "t_env \<Rightarrow> (any_signal \<Rightarrow> t_response) \<Rightarrow> any_signal \<Rightarrow> t_response" where
  "shown e f s = (if tShown e s then f s else NO_SIGNAL)"

definition no_fields :: update_thread_fields where
  "no_fields =
     \<lparr>uf_urgency = None, uf_labels = None, uf_summary = None, uf_workflow = None, uf_retentionDuration = None,
      uf_sentMessageIds = None, uf_sender = None, uf_recipientAddress = None, uf_subject = None, uf_followupAt = None\<rparr>"

section \<open>Threads\<close>

definition get_thread :: "t_env \<Rightarrow> str \<Rightarrow> str \<Rightarrow> t_response tio" where
  "get_thread e a i = with_thread e a i (\<lambda>t. ret (TThreadBody t))"

definition delete_reported :: "t_env \<Rightarrow> str \<Rightarrow> thread \<Rightarrow> t_response tio" where
  "delete_reported e a t =
     or_else E500 (update_thread e a (th_id t) ThDeleted (th_lastSignalAt t) no_fields) (\<lambda>x. ret (TThreadBody x))"

text \<open>The mail of an email signal\<close>

definition mail_of :: "any_signal \<Rightarrow> email_data option" where
  "mail_of s = (if isEmailSignal s then (case sg_data s of DEmail ed \<Rightarrow> Some ed | _ \<Rightarrow> None) else None)"

definition report_violation :: "t_env \<Rightarrow> str \<Rightarrow> thread \<Rightarrow> t_response tio" where
  "report_violation e a t =
     list_signals e a (th_id t) 1 (\<lambda>items.
       case (case items of [] \<Rightarrow> None | s # _ \<Rightarrow> mail_of s) of
         None \<Rightarrow> delete_reported e a t
       | Some ed \<Rightarrow>
           (let recipient = eb_recipientAddress (base_of ed);
                domain = getETLD1 (tDomainOf e) (ea_address (eb_from (base_of ed)))
            in or_else E500 (call (tSaveSender e a recipient domain SPReportViolation)
                 (\<lambda>r. TSender recipient domain SPReportViolation (answered r \<noteq> None))) (\<lambda>_. delete_reported e a t)))"

text \<open>Milliseconds; a date that does not parse is \<open>NaN\<close>, which compares as false.\<close>

definition num_less :: "int option \<Rightarrow> int option \<Rightarrow> bool" where
  "num_less x y = (case (x, y) of (Some a, Some b) \<Rightarrow> a < b | _ \<Rightarrow> False)"

definition retention_end :: "t_env \<Rightarrow> thread \<Rightarrow> int option option" where
  "retention_end e t =
     (if \<not> truthy (th_retentionDuration t) then None
      else (case durationToSeconds (tIsoSeconds e) (the (th_retentionDuration t)) of
              None \<Rightarrow> None
            | Some n \<Rightarrow> Some (map_option (\<lambda>m. m + n * 1000) (tMillis e (th_createdAt t)))))"

definition followup_refusal :: "t_env \<Rightarrow> thread \<Rightarrow> str \<Rightarrow> int \<Rightarrow> t_response option" where
  "followup_refusal e t at now =
     (let time = tMillis e at
      in if num_less time (Some now) then Some (TErr 400 ''followupAt must be in the future'')
         else (case retention_end e t of
                 Some expiresAt \<Rightarrow>
                   if num_less expiresAt time then Some (TErr 400 ''followupAt exceeds thread retention expiration'') else None
               | None \<Rightarrow> None))"

text \<open>A near followup goes to the queue, whose delay is at most fifteen minutes; a later one to the scheduler.\<close>

definition schedule_followup :: "t_env \<Rightarrow> str \<Rightarrow> str \<Rightarrow> str \<Rightarrow> t_response tio \<Rightarrow> t_response tio" where
  "schedule_followup e a i at k =
     bind (clock_ms e) (\<lambda>now.
       case tMillis e at of
         Some time \<Rightarrow>
           (if time - now \<le> 900000
            then (let delay = max 0 ((time - now + 999) div 1000)
                  in or_else (TErr 500 ''Failed to schedule followup'')
                       (call (tQueueFollowup e a i delay) (\<lambda>r. TFollowupQueued i delay (answered r \<noteq> None))) (\<lambda>_. k))
            else or_else (TErr 500 ''Failed to create followup schedule'')
                   (call (tCreateFollowup e a i at) (\<lambda>r. TFollowupScheduled i at (answered r \<noteq> None))) (\<lambda>_. k))
       | None \<Rightarrow>
           or_else (TErr 500 ''Failed to create followup schedule'')
             (call (tCreateFollowup e a i at) (\<lambda>r. TFollowupScheduled i at (answered r \<noteq> None))) (\<lambda>_. k))"

definition patched_status :: "thread \<Rightarrow> patch_body \<Rightarrow> thread_status" where
  "patched_status t b =
     (case pb_status b of Some st \<Rightarrow> st | None \<Rightarrow> if truthy (pb_followupAt b) then ThArchived else th_status t)"

definition write_thread :: "t_env \<Rightarrow> str \<Rightarrow> thread \<Rightarrow> patch_body \<Rightarrow> t_response tio" where
  "write_thread e a t b =
     or_else E500
       (update_thread e a (th_id t) (patched_status t b) (nullish (pb_lastSignalAt b) (th_lastSignalAt t))
          (no_fields\<lparr>uf_urgency := pb_urgency b, uf_labels := pb_labels b, uf_followupAt := pb_followupAt b\<rparr>))
       (\<lambda>x. ret (TThreadBody x))"

definition patch_thread :: "t_env \<Rightarrow> str \<Rightarrow> str \<Rightarrow> patch_body option \<Rightarrow> t_response tio" where
  "patch_thread e a i body =
     with_thread e a i (\<lambda>t.
       case body of
         None \<Rightarrow> ret (TErr 400 ''INVALID_REQUEST'')
       | Some b \<Rightarrow>
           if pb_status b = Some ThReportViolation then report_violation e a t
           else if \<not> truthy (pb_followupAt b) then write_thread e a t b
           else (let at = the (pb_followupAt b)
                 in bind (clock_ms e) (\<lambda>now.
                      case followup_refusal e t at now of
                        Some r \<Rightarrow> ret r
                      | None \<Rightarrow> schedule_followup e a (th_id t) at (write_thread e a t b))))"

section \<open>Drafts\<close>

definition draft_of_body :: "str \<Rightarrow> thread \<Rightarrow> str \<Rightarrow> str \<Rightarrow> draft_body \<Rightarrow> any_signal" where
  "draft_of_body a t now i b =
     \<lparr>sg_id = i, sg_signalLookupId = i, sg_threadId = Some (th_id t), sg_gsi3pk = None, sg_accountId = a,
      sg_source = SrcUser, sg_type = TyEmail, sg_status = SDraft, sg_labels = [], sg_createdAt = now,
      sg_retentionDuration = None,
      sg_data = DEmail (Outbound
        \<lparr>eb_receivedAt = now, eb_summary = [], eb_urgency = None, eb_actions = [], eb_embeddings = None,
         eb_from = db_from b, eb_to = db_to b, eb_cc = nullish (db_cc b) [], eb_replyTo = None,
         eb_subject = db_subject b, eb_sentAt = None, eb_attachments = [], eb_headers = [],
         eb_recipientAddress = ea_address (db_from b), eb_tags = [], eb_s3Key = [], eb_matchedRules = None,
         eb_unsubscribe = None, ob_sesMessageId = None, ob_bcc = nullish (db_bcc b) [], ob_textBody = db_body b,
         ob_htmlBody = None, ob_sendInitiatedAt = None, ob_sendFailureReason = None,
         ob_linkedSignalId = db_linkedSignalId b\<rparr>)\<rparr>"

text \<open>A failed update of the thread's recency is only logged.\<close>

definition create_draft :: "t_env \<Rightarrow> str \<Rightarrow> str \<Rightarrow> draft_body option \<Rightarrow> t_response tio" where
  "create_draft e a i body =
     with_thread e a i (\<lambda>t.
       if th_status t = ThDeleted then ret (TErr 404 ''THREAD_NOT_FOUND'')
       else (case body of
         None \<Rightarrow> ret (TErr 400 ''INVALID_REQUEST'')
       | Some b \<Rightarrow>
           bind (clock e) (\<lambda>now.
           bind (call (\<lambda>h. Done (tNewId e h)) (\<lambda>_. TRead ''id'')) (\<lambda>n.
           let s = draft_of_body a t now n b
           in or_else E500 (call (tCreateSignal e s) (\<lambda>r. TCreated s (answered r \<noteq> None))) (\<lambda>created.
              bind (update_thread e a (th_id t) (th_status t) now no_fields) (\<lambda>_.
                ret (shown e TCreatedBody created)))))))"

definition edit_draft :: "t_env \<Rightarrow> str \<Rightarrow> any_signal \<Rightarrow> draft_update \<Rightarrow> t_response tio" where
  "edit_draft e a s u =
     or_else E500 (call (tUpdateSignal e a (sg_signalLookupId s) u) (\<lambda>r. TEdited (sg_signalLookupId s) u (answered r \<noteq> None)))
       (\<lambda>x. ret (shown e TSignalBody x))"

definition replacement :: "draft_body \<Rightarrow> draft_update" where
  "replacement b =
     \<lparr>du_subject = Some (db_subject b), du_textBody = db_body b, du_from = Some (db_from b), du_to = Some (db_to b),
      du_cc = Some (nullish (db_cc b) []), du_bcc = Some (nullish (db_bcc b) [])\<rparr>"

definition replace_draft :: "t_env \<Rightarrow> str \<Rightarrow> str \<Rightarrow> str \<Rightarrow> draft_body option \<Rightarrow> t_response tio" where
  "replace_draft e a th i body =
     with_thread e a th (\<lambda>t. with_signal e a i th (\<lambda>s.
       if sg_threadId s \<noteq> Some (th_id t) then ret (TErr 400 ''SIGNAL_THREAD_MISMATCH'')
       else if sg_status s = SSent then ret (TErr 400 ''SIGNAL_ALREADY_SENT'')
       else if sg_status s \<noteq> SDraft then ret (TErr 400 ''SIGNAL_NOT_DRAFT'')
       else (case body of
               None \<Rightarrow> ret (TErr 400 ''INVALID_REQUEST'')
             | Some b \<Rightarrow> edit_draft e a s (replacement b))))"

text \<open>Why a draft may not be sent\<close>

definition send_refusal :: "t_env \<Rightarrow> thread \<Rightarrow> any_signal \<Rightarrow> t_response option" where
  "send_refusal e t s =
     (if \<not> isEmailSignal s then Some (TErr 400 ''SIGNAL_NOT_DRAFT'')
      else if sg_threadId s \<noteq> Some (th_id t) then Some (TErr 400 ''SIGNAL_THREAD_MISMATCH'')
      else if sg_status s \<noteq> SDraft then Some (TErr 400 ''SIGNAL_NOT_DRAFT'')
      else (case sg_data s of
              DEmail ed \<Rightarrow>
                (let b = base_of ed; addresses = ea_address (eb_from b) # map ea_address (eb_to b)
                 in if \<exists>x \<in> set addresses. \<not> tIsValidEmail e x then Some (TErr 400 ''INVALID_EMAIL'')
                    else if ea_address (eb_from b) \<noteq> th_recipientAddress t
                    then Some (TErr 422 ''From address does not match thread alias'')
                    else None)
            | _ \<Rightarrow> Some E500))"

definition text_body_of :: "any_data \<Rightarrow> str option" where
  "text_body_of d = (case d of DEmail (Outbound x) \<Rightarrow> ob_textBody x | _ \<Rightarrow> None)"

definition pending_update :: "str \<Rightarrow> send_status_update" where
  "pending_update t =
     \<lparr>ss_status = SPendingSend, ss_sendInitiatedAt = Some (Some t), ss_sentAt = None, ss_sesMessageId = None,
      ss_sendFailureReason = None, ss_gsi3pk = None, ss_threadId = None\<rparr>"

definition undo_update :: send_status_update where
  "undo_update =
     \<lparr>ss_status = SDraft, ss_sendInitiatedAt = Some None, ss_sentAt = None, ss_sesMessageId = None,
      ss_sendFailureReason = None, ss_gsi3pk = None, ss_threadId = None\<rparr>"

definition queue_send :: "t_env \<Rightarrow> str \<Rightarrow> str \<Rightarrow> any_signal \<Rightarrow> t_response tio" where
  "queue_send e a th s =
     bind (clock e) (\<lambda>sendInitiatedAt.
     bind (clock e) (\<lambda>now.
     let window = computeUndoWindowSeconds (text_body_of (sg_data s));
         p = \<lparr>dp_signalId = sg_id s, dp_accountId = a, dp_threadId = th, dp_sendInitiatedAt = sendInitiatedAt\<rparr>
     in or_else E500 (call (tDispatch e p window) (\<lambda>r. TDispatched p window (answered r \<noteq> None))) (\<lambda>_.
        or_else E500 (send_status_call e a (sg_signalLookupId s) (pending_update sendInitiatedAt)) (\<lambda>x.
          ret (shown e (\<lambda>y. TSentBody y (tPlusSeconds e now window)) x)))))"

definition send_draft_request :: "t_env \<Rightarrow> str \<Rightarrow> str \<Rightarrow> str \<Rightarrow> t_response tio" where
  "send_draft_request e a th i =
     with_thread e a th (\<lambda>t. with_signal e a i th (\<lambda>s.
       case send_refusal e t s of Some r \<Rightarrow> ret r | None \<Rightarrow> queue_send e a th s))"

definition patch_update :: "signal_body \<Rightarrow> draft_update" where
  "patch_update b =
     \<lparr>du_subject = gp_subject b, du_textBody = gp_body b, du_from = gp_from b, du_to = gp_to b, du_cc = None, du_bcc = None\<rparr>"

text \<open>A pending draft can only be taken back.\<close>

definition patch_signal :: "t_env \<Rightarrow> str \<Rightarrow> str \<Rightarrow> str \<Rightarrow> signal_body option \<Rightarrow> t_response tio" where
  "patch_signal e a th i body =
     with_signal e a i th (\<lambda>s.
       if sg_status s = SSent then ret (TErr 400 ''SIGNAL_ALREADY_SENT'')
       else if sg_status s \<noteq> SDraft \<and> sg_status s \<noteq> SPendingSend then ret (TErr 400 ''SIGNAL_NOT_EDITABLE'')
       else (case body of
               None \<Rightarrow> ret (TErr 400 ''INVALID_REQUEST'')
             | Some b \<Rightarrow>
                 if sg_status s = SPendingSend
                 then (if \<not> gp_toDraft b then ret (TErr 400 ''INVALID_STATUS_TRANSITION'')
                       else or_else E500 (send_status_call e a (sg_signalLookupId s) undo_update)
                              (\<lambda>x. ret (shown e TSignalBody x)))
                 else edit_draft e a s (patch_update b)))"

definition delete_draft :: "t_env \<Rightarrow> str \<Rightarrow> str \<Rightarrow> str \<Rightarrow> t_response tio" where
  "delete_draft e a th i =
     with_signal e a i th (\<lambda>s.
       if sg_status s = SSent then ret (TErr 400 ''SIGNAL_ALREADY_SENT'')
       else if sg_status s \<noteq> SDraft then ret (TErr 400 ''SIGNAL_NOT_DRAFT'')
       else or_else E500 (call (tDeleteSignal e a (sg_signalLookupId s)) (\<lambda>r. TDeleted (sg_signalLookupId s) (answered r \<noteq> None)))
              (\<lambda>_. ret TNoContent))"

section \<open>Reading signals\<close>

definition get_one_signal :: "t_env \<Rightarrow> str \<Rightarrow> str \<Rightarrow> str \<Rightarrow> t_response tio" where
  "get_one_signal e a th i = with_signal e a i th (\<lambda>s. ret (shown e TSignalBody s))"

definition s3_key_of :: "any_signal \<Rightarrow> str" where
  "s3_key_of s = (case mail_of s of Some ed \<Rightarrow> eb_s3Key (base_of ed) | None \<Rightarrow> [])"

definition raw_email :: "t_env \<Rightarrow> str \<Rightarrow> str \<Rightarrow> str \<Rightarrow> bool \<Rightarrow> t_response tio" where
  "raw_email e a th i original =
     with_signal e a i th (\<lambda>s.
       if \<not> isEmailSignal s then ret (TErr 400 ''SIGNAL_NOT_FOUND'')
       else if s3_key_of s = [] then ret NO_SIGNAL
       else if original then bind (call (tRawUrl e s) (\<lambda>_. TRead ''raw'')) (\<lambda>url. ret (TRedirect url))
       else ret (TRedirect (tCdnBase e @ ''/content/accounts/'' @ a @ ''/extracted/'' @ sg_signalLookupId s @ ''/raw-display.eml'')))"

definition calendar_of :: "any_signal \<Rightarrow> cal_signal option" where
  "calendar_of s =
     (if isCalendarEventSignal s
      then (case sg_data s of DCalendarEvent d \<Rightarrow> Some (with_data (\<lambda>_. d) s) | _ \<Rightarrow> None) else None)"

text \<open>Every signal that can be shown, without the superseded snapshots of an event, and with what the
  collapse derives for the others\<close>

definition enriched :: "t_env \<Rightarrow> calendar_collapse_result \<Rightarrow> any_signal \<Rightarrow> (any_signal \<times> calendar_enrichment option) option" where
  "enriched e co s =
     (if \<not> tShown e s then None
      else if isCalendarEventSignal s
      then (if sg_id s \<in> set (co_superseded co) then None else Some (s, map_of (co_winners co) (sg_id s)))
      else Some (s, None))"

definition list_thread_signals :: "t_env \<Rightarrow> str \<Rightarrow> str \<Rightarrow> nat \<Rightarrow> t_response tio" where
  "list_thread_signals e a i n =
     with_thread e a i (\<lambda>t. list_signals e a (th_id t) n (\<lambda>items.
       let co = collapseCalendarSignals (List.map_filter calendar_of items)
       in ret (TSignalsBody (List.map_filter (enriched e co) items))))"

text \<open>Reprocessing (an administrator's request)\<close>

definition reprocess_error :: "app_error \<Rightarrow> t_response" where
  "reprocess_error x =
     (case x of
        NotFoundError _ _ \<Rightarrow> NO_SIGNAL
      | ThreadIdCollisionError _ _ _ \<Rightarrow> TErr 409 ''THREAD_ID_COLLISION''
      | ProcessorError m \<Rightarrow>
          if m = ''Only email signals can be reprocessed'' \<or> m = ''Signal has no s3Key - cannot reprocess''
          then TErr 400 m else TErr 500 ''Reprocess failed''
      | _ \<Rightarrow> TErr 500 ''Reprocess failed'')"

definition reprocess_signal :: "t_env \<Rightarrow> str \<Rightarrow> str \<Rightarrow> str \<Rightarrow> t_response tio" where
  "reprocess_signal e a th i =
     with_signal e a i th (\<lambda>s.
       bind (call (tReprocess e a (sg_signalLookupId s)) (\<lambda>r. TReprocessed (sg_signalLookupId s) (answered r \<noteq> None))) (\<lambda>r.
         ret (case r of Inl x \<Rightarrow> reprocess_error x | Inr x \<Rightarrow> shown e TSignalBody x)))"

section \<open>Unsubscribing\<close>

definition unsubscribe_of :: "any_signal \<Rightarrow> unsubscribe_info option" where
  "unsubscribe_of s =
     (if sg_type s = TyEmail \<and> sg_source s = SrcEmail
      then (case sg_data s of DEmail ed \<Rightarrow> eb_unsubscribe (base_of ed) | _ \<Rightarrow> None) else None)"

text \<open>The one-click request; an error of the network or a timeout is caught.\<close>

definition post_unsubscribe :: "t_env \<Rightarrow> str \<Rightarrow> (str + unit) tio" where
  "post_unsubscribe e url =
     try_catch
       (bind (call (tPost e url) (\<lambda>r. TPosted url (r = Done True))) (\<lambda>accepted.
         ret (if accepted then Inr () else Inl ''Unsubscribe endpoint returned an error'')))
       (\<lambda>_. ret (Inl ''Failed to reach unsubscribe endpoint''))"

definition archive_unsubscribed :: "t_env \<Rightarrow> str \<Rightarrow> thread \<Rightarrow> unsubscribe_info \<Rightarrow> t_response tio" where
  "archive_unsubscribed e a t u =
     or_else E500 (update_thread e a (th_id t) ThArchived (th_lastSignalAt t) no_fields) (\<lambda>_.
       ret (TUnsubscribed (if un_type u \<noteq> UnsubServer \<and> un_url u \<noteq> [] then Some (un_url u) else None)))"

definition unsubscribe :: "t_env \<Rightarrow> str \<Rightarrow> str \<Rightarrow> t_response tio" where
  "unsubscribe e a i =
     with_thread e a i (\<lambda>t. list_signals e a (th_id t) 20 (\<lambda>items.
       case List.map_filter unsubscribe_of items of
         [] \<Rightarrow> ret (TErr 400 ''No unsubscribe info available for this thread'')
       | u # _ \<Rightarrow>
           if un_type u = UnsubServer
           then bind (post_unsubscribe e (un_url u)) (\<lambda>r.
                  case r of Inl m \<Rightarrow> ret (TErr 503 m) | Inr _ \<Rightarrow> archive_unsubscribed e a t u)
           else archive_unsubscribed e a t u))"

section \<open>Answering an invitation\<close>

text \<open>The address the invitation came to, from the signal that carried it (\<open>recipientAddress\<close> of any data
  that has one); an error of the read counts as nothing found.\<close>

definition recipient_in :: "any_data \<Rightarrow> str" where
  "recipient_in d =
     (case d of
        DEmail ed \<Rightarrow> eb_recipientAddress (base_of ed)
      | DAutoSendBlocked x \<Rightarrow> asb_recipientAddress x
      | _ \<Rightarrow> [])"

definition misconfiguration :: "str \<Rightarrow> str \<Rightarrow> str \<Rightarrow> str \<Rightarrow> str \<Rightarrow> str \<Rightarrow> any_signal \<Rightarrow> any_signal" where
  "misconfiguration a th now n recipient domain s =
     \<lparr>sg_id = n, sg_signalLookupId = n, sg_threadId = Some th, sg_gsi3pk = None, sg_accountId = a, sg_source = SrcSignal,
      sg_type = TyDomainMisconfiguration, sg_status = SActive, sg_labels = [], sg_createdAt = now,
      sg_retentionDuration = None,
      sg_data = DDomainMisconfiguration \<lparr>dm_reason = ''DKIM + SPF not configured for alias domain'',
        dm_linkedSignalId = sg_id s, dm_aliasAddress = recipient, dm_domain = domain\<rparr>\<rparr>"

definition report_misconfiguration :: "t_env \<Rightarrow> str \<Rightarrow> str \<Rightarrow> str \<Rightarrow> str \<Rightarrow> any_signal \<Rightarrow> t_response tio" where
  "report_misconfiguration e a th recipient domain s =
     bind (clock e) (\<lambda>now.
     bind (call (\<lambda>h. Done (tNewId e h)) (\<lambda>_. TRead ''id'')) (\<lambda>n.
     let m = misconfiguration a th now n recipient domain s
     in bind (call (tSaveSignal e m) (\<lambda>r. TSaved m (answered r \<noteq> None))) (\<lambda>_.
          ret (TErr 422 ''DOMAIN_MISCONFIGURATION''))))"

text \<open>The current state of the event among the signals of the thread\<close>

definition event_winner :: "cal_signal \<Rightarrow> any_signal list \<Rightarrow> cal_signal \<times> calendar_enrichment option" where
  "event_winner s items =
     (let grp = filter (\<lambda>x. ce_veventUid (sg_data x) = ce_veventUid (sg_data s)) (List.map_filter calendar_of items)
      in case co_winners (collapseCalendarSignals grp) of
           [] \<Rightarrow> (case List.find (\<lambda>x. sg_id x = sg_id s) grp of Some x \<Rightarrow> (x, None) | None \<Rightarrow> (s, None))
         | (w, en) # _ \<Rightarrow> (case List.find (\<lambda>x. sg_id x = w) grp of Some x \<Rightarrow> (x, Some en) | None \<Rightarrow> (s, Some en)))"

definition is_cancelled :: "calendar_enrichment option \<Rightarrow> bool" where
  "is_cancelled en = (case en of Some x \<Rightarrow> en_cancelledAt x \<noteq> None | None \<Rightarrow> False)"

text \<open>The reminder is removed under the name of the signal that was answered; a failure is only logged.\<close>

definition drop_reminder :: "t_env \<Rightarrow> str \<Rightarrow> cal_signal \<Rightarrow> unit tio" where
  "drop_reminder e a s =
     (if ce_startTime (sg_data s) = [] then ret ()
      else bind (call (\<lambda>h. Done (tUpcomingDay e (ce_startTime (sg_data s)) h)) (\<lambda>_. TClock)) (\<lambda>day.
        case day of
          None \<Rightarrow> ret ()
        | Some d \<Rightarrow>
            (let name = buildScheduleName (tHash e) a (sg_id s) (''rsvp.'' @ d)
             in bind (call (tDeleteSchedule e name) (\<lambda>r. TUnscheduled name (answered r \<noteq> None))) (\<lambda>_. ret ()))))"

definition send_rsvp :: "t_env \<Rightarrow> str \<Rightarrow> str \<Rightarrow> cal_signal \<Rightarrow> cal_signal \<times> calendar_enrichment option \<Rightarrow> str \<Rightarrow> rsvp_decision \<Rightarrow> t_response tio" where
  "send_rsvp e a th s win recipient decision =
     (let (winner, en) = win;
          rq = \<lparr>rq_decision = decision, rq_invite = sg_data winner, rq_cancelled = is_cancelled en,
                rq_aliasAddress = recipient, rq_fromAddress = recipient, rq_accountId = a,
                rq_calendarSignalId = sg_id winner, rq_threadId = th\<rparr>
      in or_else (TErr 422 ''RSVP_SEND_FAILED'') (call (tSendRsvp e rq) (\<lambda>r. TRsvpSent rq (answered r \<noteq> None))) (\<lambda>sent.
         bind (clock e) (\<lambda>now.
         let r = \<lparr>rr_decision = decision, rr_respondedAt = now\<rparr>;
             ref = (if fst sent \<noteq> [] then Some sent else None)
         in or_else E500 (call (tSetRsvp e a (sg_signalLookupId winner) r ref)
              (\<lambda>x. TRsvpStored (sg_signalLookupId winner) r ref (answered x \<noteq> None))) (\<lambda>_.
            bind (drop_reminder e a s) (\<lambda>_.
              ret (shown e (\<lambda>x. TEventBody x en)
                (with_data DCalendarEvent (winner\<lparr>sg_data := (sg_data winner)\<lparr>ce_rsvpResponse := Some r\<rparr>\<rparr>))))))))"

definition alias_domain :: "str \<Rightarrow> str" where
  "alias_domain recipient = (case split_on CHR ''@'' recipient of _ # d # _ \<Rightarrow> d | _ \<Rightarrow> [])"

definition answer_event :: "t_env \<Rightarrow> str \<Rightarrow> thread \<Rightarrow> str \<Rightarrow> any_signal \<Rightarrow> cal_signal \<Rightarrow> rsvp_decision \<Rightarrow> t_response tio" where
  "answer_event e a t th s c decision =
     bind (call (tGetSignal e a (ce_linkedSignalId (sg_data c)) (th_id t))
             (\<lambda>r. TSignal a (ce_linkedSignalId (sg_data c)) (th_id t) (answered r))) (\<lambda>linked.
     let recipient = (case linked of Inr (Some x) \<Rightarrow> recipient_in (sg_data x) | _ \<Rightarrow> [])
     in if recipient = [] then ret (TErr 400 ''NO_ALIAS_ADDRESS'')
        else or_else E500 (call (tGetDomain e a (alias_domain recipient)) (\<lambda>r. TDomain a (alias_domain recipient) (answered r))) (\<lambda>domain.
          if \<not> (case domain of Some x \<Rightarrow> do_senderSetupComplete x | None \<Rightarrow> False)
          then report_misconfiguration e a (th_id t) recipient (alias_domain recipient) s
          else list_signals e a (th_id t) 100 (\<lambda>items. send_rsvp e a th c (event_winner c items) recipient decision)))"

definition rsvp :: "t_env \<Rightarrow> str \<Rightarrow> str \<Rightarrow> str \<Rightarrow> rsvp_decision option \<Rightarrow> t_response tio" where
  "rsvp e a th i body =
     with_thread e a th (\<lambda>t. with_signal e a i th (\<lambda>s.
       if sg_threadId s \<noteq> Some (th_id t) then ret (TErr 400 ''SIGNAL_THREAD_MISMATCH'')
       else (case calendar_of s of
               None \<Rightarrow> ret (TErr 400 ''NOT_CALENDAR_EVENT'')
             | Some c \<Rightarrow>
                 (case body of
                    None \<Rightarrow> ret (TErr 400 ''INVALID_REQUEST'')
                  | Some decision \<Rightarrow> answer_event e a t th s c decision))))"

end
