(* ===== verification/ThreadsFacts.thy ===== *)
theory ThreadsFacts
  imports ThreadsApi
begin

text \<open>
  What the requests of \<open>threadsApi.ts\<close> may do, whatever the tables, queues and clocks answer.
\<close>

section \<open>Drafts\<close>

definition found :: "str \<Rightarrow> str \<Rightarrow> t_event list \<Rightarrow> any_signal \<Rightarrow> bool" where
  "found a th seen s \<longleftrightarrow> (\<exists>i. TSignal a i th (Some (Some s)) \<in> set seen)"

text \<open>A draft of the thread, from the thread's own alias; its sender and its To addresses are valid\<close>

definition may_leave :: "t_env \<Rightarrow> thread \<Rightarrow> any_signal \<Rightarrow> bool" where
  "may_leave e t s \<longleftrightarrow>
     sg_status s = SDraft \<and> isEmailSignal s \<and> sg_threadId s = Some (th_id t) \<and>
     (\<exists>ed. sg_data s = DEmail ed \<and> ea_address (eb_from (base_of ed)) = th_recipientAddress t \<and>
       tIsValidEmail e (ea_address (eb_from (base_of ed))) \<and>
       (\<forall>r \<in> set (eb_to (base_of ed)). tIsValidEmail e (ea_address r)))"

definition leaving :: "t_env \<Rightarrow> str \<Rightarrow> str \<Rightarrow> t_event list \<Rightarrow> any_signal \<Rightarrow> bool" where
  "leaving e a th seen s \<longleftrightarrow>
     found a th seen s \<and> (\<exists>t. TThread a th (Some (Some t)) \<in> set seen \<and> may_leave e t s)"

fun draft_request_allowed :: "t_env \<Rightarrow> str \<Rightarrow> str \<Rightarrow> t_event list \<Rightarrow> t_event \<Rightarrow> bool" where
  "draft_request_allowed e a th seen (TDispatched p n ok) \<longleftrightarrow>
     (\<exists>s. leaving e a th seen s \<and> n = computeUndoWindowSeconds (text_body_of (sg_data s)) \<and>
       p = \<lparr>dp_signalId = sg_id s, dp_accountId = a, dp_threadId = th, dp_sendInitiatedAt = dp_sendInitiatedAt p\<rparr>)"
| "draft_request_allowed e a th seen (TSendStatus l u ok) \<longleftrightarrow>
     (\<exists>s. found a th seen s \<and> l = sg_signalLookupId s \<and>
       (sg_status s = SPendingSend \<and> u = undo_update \<or>
        (\<exists>p n. leaving e a th seen s \<and> TDispatched p n True \<in> set seen \<and> u = pending_update (dp_sendInitiatedAt p))))"
| "draft_request_allowed e a th seen (TEdited l u ok) \<longleftrightarrow>
     (\<exists>s. found a th seen s \<and> sg_status s = SDraft \<and> l = sg_signalLookupId s)"
| "draft_request_allowed e a th seen (TDeleted l ok) \<longleftrightarrow>
     (\<exists>s. found a th seen s \<and> sg_status s = SDraft \<and> l = sg_signalLookupId s)"
| "draft_request_allowed e a th seen (TThread _ _ _) \<longleftrightarrow> True"
| "draft_request_allowed e a th seen (TSignal _ _ _ _) \<longleftrightarrow> True"
| "draft_request_allowed e a th seen TClock \<longleftrightarrow> True"
| "draft_request_allowed e a th seen _ \<longleftrightarrow> False"

lemma safe_with_thread:
  assumes "\<And>r. A seen (TThread a i r)" "\<And>t. safe A (seen @ [TThread a i (Some (Some t))]) (k t)"
  shows "safe A seen (with_thread e a i k)"
  unfolding with_thread_def by (rule safe_or_else) (use assms in \<open>auto intro!: safe_intros\<close>)

lemma safe_with_signal:
  assumes "\<And>r. A seen (TSignal a i th r)" "\<And>s. safe A (seen @ [TSignal a i th (Some (Some s))]) (k s)"
  shows "safe A seen (with_signal e a i th k)"
  unfolding with_signal_def by (rule safe_or_else) (use assms in \<open>auto intro!: safe_intros\<close>)

lemma safe_list_signals:
  assumes "\<And>r. A seen (TListed r)" "\<And>xs. safe A (seen @ [TListed (Some xs)]) (k xs)"
  shows "safe A seen (list_signals e a th n k)"
  unfolding list_signals_def by (rule safe_or_else) (use assms in auto)

lemma send_refusal_None: "send_refusal e t s = None \<Longrightarrow> may_leave e t s"
  by (auto simp: send_refusal_def may_leave_def Let_def split: if_splits any_data.splits)

lemma safe_edit_draft:
  "found a th seen s \<Longrightarrow> sg_status s = SDraft \<Longrightarrow> safe (draft_request_allowed e a th) seen (edit_draft e a s u)"
  unfolding edit_draft_def by (rule safe_or_else) auto

lemma safe_queue_send:
  assumes "leaving e a th seen s"
  shows "safe (draft_request_allowed e a th) seen (queue_send e a th s)"
proof -
  have l: "leaving e a th (seen @ es) s" for es using assms by (auto simp: leaving_def found_def)
  then have f: "found a th (seen @ es) s" for es by (auto simp: leaving_def)
  show ?thesis
    unfolding queue_send_def clock_def send_status_call_def Let_def
    by (intro safe_event safe_or_else safe_return) (use l f in \<open>fastforce+\<close>)
qed

text \<open>
  C22. A request to send, take back, edit, replace or delete a draft only acts on the signal it looked up in
  that thread. A send is queued only for a signal that was a draft of the thread when it was looked up, written
  from the thread's own alias, with a valid sender and valid To addresses, behind the undo window of its text.
  Cc and Bcc are not looked at here (finding threadsApi.ts:524). The draft is marked as waiting only after its
  entry was queued, and for exactly that entry. A signal is taken back only when it was waiting at the lookup,
  and edited or deleted only when it was a draft at the lookup. The writes carry no condition, so all of this
  speaks of the status that was read: a change between the lookup and the write goes unnoticed
  (finding threadsApi.ts:909).
\<close>

theorem draft_requests_confined:
  "safe (draft_request_allowed e a th) [] (send_draft_request e a th i) \<and>
   safe (draft_request_allowed e a th) [] (patch_signal e a th i b1) \<and>
   safe (draft_request_allowed e a th) [] (replace_draft e a th i b2) \<and>
   safe (draft_request_allowed e a th) [] (delete_draft e a th i)"
proof (intro conjI)
  show "safe (draft_request_allowed e a th) [] (send_draft_request e a th i)"
    unfolding send_draft_request_def
    by (intro safe_with_thread safe_with_signal safe_intros safe_queue_send)
      (auto simp: leaving_def found_def dest: send_refusal_None)
  show "safe (draft_request_allowed e a th) [] (replace_draft e a th i b2)"
    unfolding replace_draft_def
    by (intro safe_with_thread safe_with_signal safe_intros safe_edit_draft) (auto simp: found_def)
  show "safe (draft_request_allowed e a th) [] (patch_signal e a th i b1)"
    unfolding patch_signal_def send_status_call_def
    by (intro safe_with_signal safe_intros safe_or_else safe_edit_draft) (auto simp: found_def)
  show "safe (draft_request_allowed e a th) [] (delete_draft e a th i)"
    unfolding delete_draft_def by (intro safe_with_signal safe_intros safe_or_else) (auto simp: found_def)
qed

section \<open>Snoozing\<close>

text \<open>The thread of the request was read, and \<open>j\<close> is its id.\<close>

definition asked :: "str \<Rightarrow> str \<Rightarrow> str \<Rightarrow> thread \<Rightarrow> t_event list \<Rightarrow> bool" where
  "asked a i j t seen \<longleftrightarrow> TThread a i (Some (Some t)) \<in> set seen \<and> j = th_id t"

text \<open>The wake-up of \<open>j\<close> is in time: in the future when it was asked for, and before the thread expires. The
  second form is for a text that is no date, whose comparisons are all false.\<close>

definition in_time :: "t_env \<Rightarrow> str \<Rightarrow> str \<Rightarrow> str \<Rightarrow> str \<Rightarrow> t_event list \<Rightarrow> bool" where
  "in_time e a i j at seen \<longleftrightarrow>
     (\<exists>t now time. asked a i j t seen \<and> TClockMs now \<in> set seen \<and> tMillis e at = Some time \<and> now \<le> time \<and>
       (\<forall>x. retention_end e t = Some (Some x) \<longrightarrow> time \<le> x))"

definition undated :: "t_env \<Rightarrow> str \<Rightarrow> str \<Rightarrow> str \<Rightarrow> str \<Rightarrow> t_event list \<Rightarrow> bool" where
  "undated e a i j at seen \<longleftrightarrow> tMillis e at = None \<and> (\<exists>t. asked a i j t seen)"

definition wakes :: "str \<Rightarrow> t_event list \<Rightarrow> bool" where
  "wakes j seen \<longleftrightarrow> (\<exists>n. TFollowupQueued j n True \<in> set seen) \<or> (\<exists>at. TFollowupScheduled j at True \<in> set seen)"

definition no_wake_yet :: "t_event list \<Rightarrow> bool" where
  "no_wake_yet seen \<longleftrightarrow> (\<forall>i n ok. TFollowupQueued i n ok \<notin> set seen) \<and> (\<forall>i at ok. TFollowupScheduled i at ok \<notin> set seen)"

fun snooze_allowed :: "t_env \<Rightarrow> str \<Rightarrow> str \<Rightarrow> patch_body \<Rightarrow> t_event list \<Rightarrow> t_event \<Rightarrow> bool" where
  "snooze_allowed e a i b seen (TFollowupQueued j n ok) \<longleftrightarrow>
     no_wake_yet seen \<and> 0 \<le> n \<and> n \<le> 900 \<and>
     (\<exists>at time now. pb_followupAt b = Some at \<and> in_time e a i j at seen \<and> tMillis e at = Some time \<and>
       TClockMs now \<in> set seen \<and> time \<le> now + n * 1000 \<and> (time \<ge> now \<longrightarrow> now + n * 1000 < time + 1000))"
| "snooze_allowed e a i b seen (TFollowupScheduled j at ok) \<longleftrightarrow>
     no_wake_yet seen \<and> pb_followupAt b = Some at \<and> (in_time e a i j at seen \<or> undated e a i j at seen)"
| "snooze_allowed e a i b seen (TUpdated j st l u ok) \<longleftrightarrow>
     truthy (uf_followupAt u) \<longrightarrow>
       wakes j seen \<and> uf_followupAt u = pb_followupAt b \<and> (st = ThArchived \<or> pb_status b = Some st)"
| "snooze_allowed e a i b seen _ \<longleftrightarrow> True"

lemma in_time_more: "in_time e a i j at seen \<Longrightarrow> in_time e a i j at (seen @ es)"
  unfolding in_time_def asked_def by fastforce

lemma undated_more: "undated e a i j at seen \<Longrightarrow> undated e a i j at (seen @ es)"
  unfolding undated_def asked_def by auto

lemma refused_in_time:
  assumes "followup_refusal e t at now = None" "TThread a i (Some (Some t)) \<in> set seen"
  shows "in_time e a i (th_id t) at (seen @ [TClockMs now]) \<or> undated e a i (th_id t) at (seen @ [TClockMs now])"
proof (cases "tMillis e at")
  case None
  then show ?thesis using assms(2) by (auto simp: undated_def asked_def)
next
  case (Some time)
  then have "now \<le> time \<and> (\<forall>x. retention_end e t = Some (Some x) \<longrightarrow> time \<le> x)"
    using assms(1)
    by (auto simp: followup_refusal_def num_less_def Let_def split: if_splits option.splits)
  moreover have "asked a i (th_id t) t (seen @ [TClockMs now])" using assms(2) by (simp add: asked_def)
  ultimately show ?thesis using Some unfolding in_time_def by auto
qed

lemma safe_write_thread:
  assumes "truthy (pb_followupAt b) \<Longrightarrow> wakes (th_id t) seen"
  shows "safe (snooze_allowed e a i b) seen (write_thread e a t b)"
  unfolding write_thread_def update_thread_def
  by (rule safe_or_else) (use assms in \<open>auto simp: no_fields_def patched_status_def split: option.splits\<close>)

lemma safe_report: "safe (snooze_allowed e a i b) seen (report_violation e a t)"
  unfolding report_violation_def delete_reported_def update_thread_def
  by (intro safe_list_signals safe_option safe_or_else) (auto simp: no_fields_def Let_def intro!: safe_or_else)

lemma delay_rounds_up:
  fixes time now :: int
  assumes "time - now \<le> 900000"
  shows "0 \<le> max 0 ((time - now + 999) div 1000)" "max 0 ((time - now + 999) div 1000) \<le> 900"
    "time \<le> now + max 0 ((time - now + 999) div 1000) * 1000"
    "time \<ge> now \<Longrightarrow> now + max 0 ((time - now + 999) div 1000) * 1000 < time + 1000"
  using assms by (auto simp: max_def)

lemma safe_schedule:
  assumes "in_time e a i j at seen \<or> undated e a i j at seen" "no_wake_yet seen" "pb_followupAt b = Some at"
    and "\<And>es. wakes j (seen @ es) \<Longrightarrow> safe (snooze_allowed e a i b) (seen @ es) k"
  shows "safe (snooze_allowed e a i b) seen (schedule_followup e a j at k)"
proof -
  have none: "no_wake_yet (seen @ [TClockMs now])" for now using assms(2) by (auto simp: no_wake_yet_def)
  have timed: "in_time e a i j at (seen @ es) \<or> undated e a i j at (seen @ es)" for es
    using assms(1) in_time_more undated_more by blast
  have queued: "snooze_allowed e a i b (seen @ [TClockMs now]) (TFollowupQueued j (max 0 ((time - now + 999) div 1000)) ok)"
    if "tMillis e at = Some time" "time - now \<le> 900000" for time now ok
    using assms(3) that none timed [of "[TClockMs now]"] delay_rounds_up [OF that(2)] by (auto simp: undated_def)
  have later: "snooze_allowed e a i b (seen @ [TClockMs now]) (TFollowupScheduled j at ok)" for now ok
    using assms(3) none timed [of "[TClockMs now]"] by simp
  have k: "safe (snooze_allowed e a i b) (seen @ [TClockMs now, TFollowupScheduled j at True]) k"
    "safe (snooze_allowed e a i b) (seen @ [TClockMs now, TFollowupQueued j n True]) k" for now n
    by (rule assms(4); auto simp: wakes_def)+
  have s: "safe (snooze_allowed e a i b) (seen @ [TClockMs now])
      (or_else r (call (tCreateFollowup e a j at) (\<lambda>r. TFollowupScheduled j at (answered r \<noteq> None))) (\<lambda>_. k))" for now r
    by (rule safe_or_else) (use later k in \<open>simp_all\<close>)
  have q: "safe (snooze_allowed e a i b) (seen @ [TClockMs now])
      (or_else r (call (tQueueFollowup e a j (max 0 ((time - now + 999) div 1000)))
        (\<lambda>r. TFollowupQueued j (max 0 ((time - now + 999) div 1000)) (answered r \<noteq> None))) (\<lambda>_. k))"
    if "tMillis e at = Some time" "time - now \<le> 900000" for time now r
    by (rule safe_or_else) (use queued [OF that] k in \<open>simp_all del: snooze_allowed.simps\<close>)
  show ?thesis
    unfolding schedule_followup_def clock_ms_def Let_def
    by (rule safe_event) (auto intro!: safe_option safe_if s q)
qed


end
