(* ===== verification/Undo.thy ===== *)
theory Undo
  imports ThreadsApi DraftSend
begin

text \<open>
  The life of one draft under all the requests and workers that may run at the same time: the handlers of
  \<open>threadsApi.ts\<close> and the worker of \<open>draft-send-worker.ts\<close>, each as the read that decides and the write
  that follows, with anything in between. The draft is looked up in an index of the table, and an index
  of DynamoDB follows the table with a delay: \<open>us_tables\<close> holds the states of the table from the one the
  index still shows to the present one. An entry of the queue may be delivered at any time and any
  number of times. A job may also end without its write (an error, a crash, a timeout). Every other writer
  of the table may do anything but bring back a state in which the draft waits for a send already issued.
\<close>

section \<open>States\<close>

text \<open>What is between its read and its write; a send is known by its \<open>sendInitiatedAt\<close>.\<close>

datatype job =
    Sending str str
  | Undoing str
  | Editing str draft_update
  | Deleting str
  | Working str any_signal outbound_data
  | Parking str str
  | Closing str str str "str \<times> str option"

record undo_state =
  us_tables :: "signal_table list"
  us_issued :: "str set"
  us_jobs :: "job list"
  us_sent :: "str list"

definition queued_send :: "str \<Rightarrow> str \<Rightarrow> str \<Rightarrow> str \<Rightarrow> draft_send_payload" where
  "queued_send a i th t = \<lparr>dp_signalId = i, dp_accountId = a, dp_threadId = th, dp_sendInitiatedAt = t\<rparr>"

definition visible :: "(str \<Rightarrow> int option) \<Rightarrow> str \<Rightarrow> str \<Rightarrow> str \<Rightarrow> undo_state \<Rightarrow> any_signal option" where
  "visible elapsed a i th st = getSignalById elapsed a i th (hd (us_tables st))"

definition wrote :: "signal_table \<Rightarrow> job list \<Rightarrow> undo_state \<Rightarrow> undo_state" where
  "wrote tbl jobs st = st\<lparr>us_tables := us_tables st @ [tbl], us_jobs := jobs\<rparr>"

text \<open>An item of the table in which the draft waits for the send\<close>

definition waiting_item :: "str \<Rightarrow> str \<Rightarrow> str \<Rightarrow> str \<Rightarrow> signal_item \<Rightarrow> bool" where
  "waiting_item a i th t it \<longleftrightarrow>
     it_gsi1pk it = Some (id_partition a th) \<and> it_gsi1sk it = Some i \<and>
     (\<exists>s. it_signal it = Some s \<and> awaiting (queued_send a i th t) (Some s) \<noteq> None)"

definition waiting_in :: "str \<Rightarrow> str \<Rightarrow> str \<Rightarrow> str \<Rightarrow> signal_table \<Rightarrow> bool" where
  "waiting_in a i th t tbl \<longleftrightarrow> (\<exists>it \<in> set tbl. waiting_item a i th t it)"

section \<open>Steps\<close>

inductive undo_step :: "t_env \<Rightarrow> str \<Rightarrow> str \<Rightarrow> str \<Rightarrow> undo_state \<Rightarrow> undo_state \<Rightarrow> bool" for e a i th where
  index_follows: "us_tables st = tbl # tbls \<Longrightarrow> tbls \<noteq> [] \<Longrightarrow> undo_step e a i th st (st\<lparr>us_tables := tbls\<rparr>)"
| send_starts: "visible elapsed a i th st = Some s \<Longrightarrow> send_refusal e t s = None \<Longrightarrow> now \<notin> us_issued st \<Longrightarrow>
    undo_step e a i th st (st\<lparr>us_issued := insert now (us_issued st), us_jobs := Sending now (sg_signalLookupId s) # us_jobs st\<rparr>)"
| send_ends: "us_jobs st = js @ Sending now l # js' \<Longrightarrow>
    updateSignalSendStatus a l (pending_update now) (last (us_tables st)) = Some tbl \<Longrightarrow>
    undo_step e a i th st (wrote tbl (js @ js') st)"
| undo_starts: "visible elapsed a i th st = Some s \<Longrightarrow> sg_status s = SPendingSend \<Longrightarrow>
    undo_step e a i th st (st\<lparr>us_jobs := Undoing (sg_signalLookupId s) # us_jobs st\<rparr>)"
| undo_ends: "us_jobs st = js @ Undoing l # js' \<Longrightarrow>
    updateSignalSendStatus a l undo_update (last (us_tables st)) = Some tbl \<Longrightarrow>
    undo_step e a i th st (wrote tbl (js @ js') st)"
| edit_starts: "visible elapsed a i th st = Some s \<Longrightarrow> sg_status s = SDraft \<Longrightarrow>
    undo_step e a i th st (st\<lparr>us_jobs := Editing (sg_signalLookupId s) u # us_jobs st\<rparr>)"
| edit_ends: "us_jobs st = js @ Editing l u # js' \<Longrightarrow> updateSignal a l u (last (us_tables st)) = Some tbl \<Longrightarrow>
    undo_step e a i th st (wrote tbl (js @ js') st)"
| delete_starts: "visible elapsed a i th st = Some s \<Longrightarrow> sg_status s = SDraft \<Longrightarrow>
    undo_step e a i th st (st\<lparr>us_jobs := Deleting (sg_signalLookupId s) # us_jobs st\<rparr>)"
| delete_ends: "us_jobs st = js @ Deleting l # js' \<Longrightarrow>
    undo_step e a i th st (wrote (deleteSignal a l (last (us_tables st))) (js @ js') st)"
| worker_reads: "t \<in> us_issued st \<Longrightarrow> visible elapsed a i th st = found \<Longrightarrow>
    awaiting (queued_send a i th t) found = Some (s, d) \<Longrightarrow>
    undo_step e a i th st (st\<lparr>us_jobs := Working t s d # us_jobs st\<rparr>)"
| worker_parks: "us_jobs st = js @ Working t s d # js' \<Longrightarrow>
    undo_step e a i th st (st\<lparr>us_jobs := js @ Parking (sg_signalLookupId s) reason # js'\<rparr>)"
| worker_sends: "us_jobs st = js @ Working t s d # js' \<Longrightarrow>
    undo_step e a i th st (st\<lparr>us_jobs := js @ Closing t (sg_signalLookupId s) now m # js', us_sent := us_sent st @ [t]\<rparr>)"
| park_ends: "us_jobs st = js @ Parking l reason # js' \<Longrightarrow>
    updateSignalSendStatus a l (parked th reason) (last (us_tables st)) = Some tbl \<Longrightarrow>
    undo_step e a i th st (wrote tbl (js @ js') st)"
| close_ends: "us_jobs st = js @ Closing t l now m # js' \<Longrightarrow>
    updateSignalSendStatus a l (sent_update (queued_send a i th t) now m) (last (us_tables st)) = Some tbl \<Longrightarrow>
    undo_step e a i th st (wrote tbl (js @ js') st)"
| job_lost: "us_jobs st = js @ j # js' \<Longrightarrow> undo_step e a i th st (st\<lparr>us_jobs := js @ js'\<rparr>)"
| other_write: "\<forall>t \<in> us_issued st. waiting_in a i th t tbl \<longrightarrow> waiting_in a i th t (last (us_tables st)) \<Longrightarrow>
    undo_step e a i th st (wrote tbl (us_jobs st) st)"

definition undo_steps :: "t_env \<Rightarrow> str \<Rightarrow> str \<Rightarrow> str \<Rightarrow> undo_state \<Rightarrow> undo_state \<Rightarrow> bool" where
  "undo_steps e a i th = (undo_step e a i th)\<^sup>*\<^sup>*"

section \<open>A send that is over\<close>

fun for_send :: "str \<Rightarrow> job \<Rightarrow> bool" where
  "for_send t (Sending t' l) \<longleftrightarrow> t' = t"
| "for_send t (Working t' s d) \<longleftrightarrow> t' = t"
| "for_send t j \<longleftrightarrow> False"

text \<open>Nothing waits for the send, in the table or in what the index still shows, and nobody is in the middle
  of it.\<close>

definition over :: "str \<Rightarrow> str \<Rightarrow> str \<Rightarrow> str \<Rightarrow> undo_state \<Rightarrow> bool" where
  "over a i th t st \<longleftrightarrow>
     us_tables st \<noteq> [] \<and> t \<in> us_issued st \<and> (\<forall>tbl \<in> set (us_tables st). \<not> waiting_in a i th t tbl) \<and>
     (\<forall>j \<in> set (us_jobs st). \<not> for_send t j)"

lemma awaiting_fresh:
  "awaiting p (Some (coerceStaleStatus elapsed s)) \<noteq> None \<Longrightarrow> awaiting p (Some s) \<noteq> None"
  by (auto simp: awaiting_def coerceStaleStatus_def isEmailSignal_def split: if_splits option.splits)

lemma found_waits:
  assumes "awaiting (queued_send a i th t) (getSignalById elapsed a i th tbl) \<noteq> None"
  shows "waiting_in a i th t tbl"
proof -
  obtain s where s: "getSignalById elapsed a i th tbl = Some s" "awaiting (queued_send a i th t) (Some s) \<noteq> None"
    using assms by (cases "getSignalById elapsed a i th tbl") (auto simp: awaiting_def)
  then have "s \<in> set (List.map_filter (seen_as elapsed (id_partition a th) i) tbl)"
    by (auto simp: getSignalById_def split: list.splits)
  then obtain it where it: "it \<in> set tbl" "seen_as elapsed (id_partition a th) i it = Some s"
    by (auto simp: List.map_filter_def)
  then obtain s' where "it_signal it = Some s'" "s = coerceStaleStatus elapsed s'"
      "it_gsi1pk it = Some (id_partition a th)" "it_gsi1sk it = Some i"
    by (auto simp: seen_as_def split: if_splits)
  moreover from this(2) have "awaiting (queued_send a i th t) (Some s') \<noteq> None"
    using s(2) awaiting_fresh by simp
  ultimately show ?thesis using it(1) unfolding waiting_in_def waiting_item_def by blast
qed

text \<open>A change of the signals of some items that never makes one wait\<close>

lemma waiting_in_update_data:
  assumes "waiting_in a i th t tbl'" "update_data pk f tbl = Some tbl'"
    and "\<And>s. awaiting (queued_send a i th t) (Some (f s)) \<noteq> None \<Longrightarrow> awaiting (queued_send a i th t) (Some s) \<noteq> None"
  shows "waiting_in a i th t tbl"
  using assms by (fastforce simp: waiting_in_def waiting_item_def update_data_def split: if_splits)

lemma awaiting_not_pending: "sg_status s \<noteq> SPendingSend \<Longrightarrow> awaiting p (Some s) = None"
  by (auto simp: awaiting_def)

lemma awaiting_other_send:
  "outbound_of (sg_data s) = Some d \<Longrightarrow> ob_sendInitiatedAt d \<noteq> Some (dp_sendInitiatedAt p) \<Longrightarrow> awaiting p (Some s) = None"
  by (auto simp: awaiting_def)

lemma send_status_status [simp]: "sg_status (send_status u s) = ss_status u"
  by (simp add: send_status_def)

lemma waiting_after_status:
  assumes "waiting_in a i th t tbl'" "updateSignalSendStatus a l u tbl = Some tbl'"
    and "ss_status u \<noteq> SPendingSend \<or> (\<exists>t'. ss_sendInitiatedAt u = Some (Some t') \<and> t' \<noteq> t)"
  shows "waiting_in a i th t tbl"
proof -
  have up: "update_data (sigPk a l) (send_status u) tbl = Some tbl'"
    using assms(2) by (auto simp: updateSignalSendStatus_def split: if_splits)
  have "awaiting (queued_send a i th t) (Some (send_status u s)) = None" for s
  proof (cases "ss_status u = SPendingSend")
    case False
    then show ?thesis by (simp add: awaiting_not_pending)
  next
    case True
    with assms(3) obtain t' where t': "ss_sendInitiatedAt u = Some (Some t')" "t' \<noteq> t" by auto
    show ?thesis
    proof (cases "outbound_of (sg_data s)")
      case None
      then have "outbound_of (sg_data (send_status u s)) = None"
        by (cases "sg_data s" rule: outbound_of.cases) (simp_all add: send_status_def on_outbound_def)
      then show ?thesis by (auto simp: awaiting_def)
    next
      case (Some d)
      then have "sg_data s = DEmail (Outbound d)" by (cases "sg_data s" rule: outbound_of.cases) auto
      then have "outbound_of (sg_data (send_status u s)) = Some (send_data u d)"
        by (simp add: send_status_def on_outbound_def)
      moreover have "ob_sendInitiatedAt (send_data u d) = Some t'" using t' by (simp add: send_data_def)
      ultimately show ?thesis using t' by (auto simp: queued_send_def intro!: awaiting_other_send)
    qed
  qed
  then show ?thesis using waiting_in_update_data [OF assms(1) up] by simp
qed

lemma waiting_after_edit:
  assumes "waiting_in a i th t tbl'" "updateSignal a l u tbl = Some tbl'"
  shows "waiting_in a i th t tbl"
proof (cases "no_edit u")
  case True
  then have "tbl' = update_item (sigPk a l) (\<lambda>it. it) tbl" using assms(2) by (simp add: updateSignal_def)
  then show ?thesis
    using assms(1) by (auto simp: update_item_def waiting_in_def waiting_item_def partial_item_def split: if_splits)
next
  case False
  then have up: "update_data (sigPk a l) (on_outbound (edit_data u)) tbl = Some tbl'"
    using assms(2) by (simp add: updateSignal_def)
  have "awaiting p (Some s) \<noteq> None" if "awaiting p (Some (on_outbound (edit_data u) s)) \<noteq> None" for p s
    using that by (cases "sg_data s" rule: outbound_of.cases)
      (auto simp: on_outbound_def awaiting_def isEmailSignal_def edit_data_def split: if_splits)
  then show ?thesis using waiting_in_update_data [OF assms(1) up] by blast
qed

lemma waiting_after_delete: "waiting_in a i th t (deleteSignal a l tbl) \<Longrightarrow> waiting_in a i th t tbl"
  by (auto simp: deleteSignal_def delete_item_def waiting_in_def)

lemma over_wrote:
  assumes "over a i th t st" "waiting_in a i th t tbl \<Longrightarrow> waiting_in a i th t (last (us_tables st))"
    and "set js \<subseteq> set (us_jobs st)"
  shows "over a i th t (wrote tbl js st)"
  using assms by (auto simp: over_def wrote_def)

lemma over_step:
  assumes "undo_step e a i th st st'" "over a i th t st"
  shows "over a i th t st' \<and> count_list (us_sent st') t = count_list (us_sent st) t"
  using assms
proof cases
  case (index_follows tbl tbls)
  then show ?thesis using assms(2) by (auto simp: over_def)
next
  case (send_starts elapsed s tt now)
  then show ?thesis using assms(2) by (auto simp: over_def)
next
  case (send_ends js now l js' tbl)
  have "now \<noteq> t" using assms(2) send_ends by (auto simp: over_def)
  then have "waiting_in a i th t tbl \<Longrightarrow> waiting_in a i th t (last (us_tables st))"
    using waiting_after_status [OF _ send_ends(3)] by (simp add: pending_update_def)
  then show ?thesis using over_wrote [OF assms(2), of tbl "js @ js'"] send_ends by (auto simp: wrote_def)
next
  case (undo_ends js l js' tbl)
  have "waiting_in a i th t tbl \<Longrightarrow> waiting_in a i th t (last (us_tables st))"
    using waiting_after_status [OF _ undo_ends(3)] by (simp add: undo_update_def)
  then show ?thesis using over_wrote [OF assms(2), of tbl "js @ js'"] undo_ends by (auto simp: wrote_def)
next
  case (edit_ends js l u js' tbl)
  then show ?thesis
    using over_wrote [OF assms(2), of tbl "js @ js'"] waiting_after_edit [OF _ edit_ends(3)] by (auto simp: wrote_def)
next
  case (delete_ends js l js')
  then show ?thesis
    using over_wrote [OF assms(2), of "deleteSignal a l (last (us_tables st))" "js @ js'"] waiting_after_delete
    by (auto simp: wrote_def)
next
  case (worker_reads tt elapsed found s d)
  have "tt \<noteq> t"
    using found_waits [of a i th t elapsed "hd (us_tables st)"] worker_reads assms(2)
    by (auto simp: over_def visible_def)
  then show ?thesis using worker_reads assms(2) by (auto simp: over_def)
next
  case (park_ends js l reason js' tbl)
  have "waiting_in a i th t tbl \<Longrightarrow> waiting_in a i th t (last (us_tables st))"
    using waiting_after_status [OF _ park_ends(3)] by (simp add: parked_def)
  then show ?thesis using over_wrote [OF assms(2), of tbl "js @ js'"] park_ends by (auto simp: wrote_def)
next
  case (close_ends js tt l now m js' tbl)
  have "waiting_in a i th t tbl \<Longrightarrow> waiting_in a i th t (last (us_tables st))"
    using waiting_after_status [OF _ close_ends(3)] by (simp add: sent_update_def)
  then show ?thesis using over_wrote [OF assms(2), of tbl "js @ js'"] close_ends by (auto simp: wrote_def)
next
  case (other_write tbl)
  then have "waiting_in a i th t tbl \<Longrightarrow> waiting_in a i th t (last (us_tables st))"
    using assms(2) by (auto simp: over_def)
  then show ?thesis using over_wrote [OF assms(2), of tbl "us_jobs st"] other_write by (auto simp: wrote_def)
qed (use assms(2) in \<open>auto simp: over_def\<close>)

text \<open>
  C17. An undone send never happens. Once no state of the draft that the index shows or will show waits for
  the send, and neither the request that started it nor a worker that found it waiting is still
  running, the message is not sent any more, whatever requests and workers run at the same time and
  in whatever order, and however often the queue delivers the entry.
\<close>

theorem undo_final:
  assumes "over a i th t st" "undo_steps e a i th st st'"
  shows "count_list (us_sent st') t = count_list (us_sent st) t"
proof -
  from assms(2) have "over a i th t st' \<and> count_list (us_sent st') t = count_list (us_sent st) t"
    unfolding undo_steps_def
  proof (induction rule: rtranclp_induct)
    case base
    then show ?case using assms(1) by simp
  next
    case (step y z)
    then show ?case using over_step by metis
  qed
  then show ?thesis ..
qed

section \<open>A draft\<close>

definition letter :: outbound_data where
  "letter =
     \<lparr>eb_receivedAt = ''2026'', eb_summary = [], eb_urgency = None, eb_actions = [], eb_embeddings = None,
      eb_from = \<lparr>ea_address = ''me@u.io'', ea_name = None\<rparr>, eb_to = [\<lparr>ea_address = ''you@x.io'', ea_name = None\<rparr>],
      eb_cc = [], eb_replyTo = None, eb_subject = ''hi'', eb_sentAt = None, eb_attachments = [], eb_headers = [],
      eb_recipientAddress = ''me@u.io'', eb_tags = [], eb_s3Key = [], eb_matchedRules = None, eb_unsubscribe = None,
      ob_sesMessageId = None, ob_bcc = [], ob_textBody = Some ''text'', ob_htmlBody = None, ob_sendInitiatedAt = None,
      ob_sendFailureReason = None, ob_linkedSignalId = None\<rparr>"

definition draft_now :: "signal_status \<Rightarrow> str option \<Rightarrow> any_signal" where
  "draft_now st t =
     \<lparr>sg_id = ''sgn-1'', sg_signalLookupId = ''sgn-1'', sg_threadId = Some ''arc-1'', sg_gsi3pk = None,
      sg_accountId = ''acc-1'', sg_source = SrcUser, sg_type = TyEmail, sg_status = st, sg_labels = [],
      sg_createdAt = ''2026'', sg_retentionDuration = None,
      sg_data = DEmail (Outbound (letter\<lparr>ob_sendInitiatedAt := t\<rparr>))\<rparr>"

definition draft_table :: "signal_status \<Rightarrow> str option \<Rightarrow> signal_table" where
  "draft_table st t = [signalItem (\<lambda>_ _. None) (draft_now st t)]"

definition at :: "signal_table list \<Rightarrow> str set \<Rightarrow> job list \<Rightarrow> str list \<Rightarrow> undo_state" where
  "at tbls issued jobs sent = \<lparr>us_tables = tbls, us_issued = issued, us_jobs = jobs, us_sent = sent\<rparr>"

lemma at_simps [simp]:
  "us_tables (at tbls is js xs) = tbls" "us_issued (at tbls is js xs) = is" "us_jobs (at tbls is js xs) = js"
  "us_sent (at tbls is js xs) = xs" "wrote tbl js' (at tbls is js xs) = at (tbls @ [tbl]) is js' xs"
  "(at tbls is js xs)\<lparr>us_tables := tbls'\<rparr> = at tbls' is js xs"
  "(at tbls is js xs)\<lparr>us_jobs := js'\<rparr> = at tbls is js' xs"
  "(at tbls is js xs)\<lparr>us_issued := is', us_jobs := js'\<rparr> = at tbls is' js' xs"
  "(at tbls is js xs)\<lparr>us_sent := xs'\<rparr> = at tbls is js xs'"
  by (simp_all add: at_def wrote_def)

lemma draft_seen:
  "visible (\<lambda>_. None) ''acc-1'' ''sgn-1'' ''arc-1'' (at (draft_table st t # tbls) is js xs) =
     Some (coerceStaleStatus (\<lambda>_. None) (draft_now st t))"
  by (simp add: visible_def getSignalById_def draft_table_def signalItem_def draft_now_def seen_as_def id_partition_def
      partition_of_def List.map_filter_def quarantinedPk_def blockedPk_def threadPk_def)

lemma draft_updated:
  assumes "ss_sendInitiatedAt u = Some t'" "ss_sentAt u = None" "ss_sesMessageId u = None" "ss_sendFailureReason u = None"
    "ss_gsi3pk u = None" "ss_threadId u = None"
  shows "updateSignalSendStatus ''acc-1'' ''sgn-1'' u (draft_table st t) = Some (draft_table (ss_status u) t')"
  using assms by (simp add: updateSignalSendStatus_def update_data_def draft_table_def signalItem_def draft_now_def
      send_status_def on_outbound_def send_data_def partition_of_def)

lemma draft_sendable:
  "tIsValidEmail e = (\<lambda>_. True) \<Longrightarrow> th_id t = ''arc-1'' \<Longrightarrow> th_recipientAddress t = ''me@u.io'' \<Longrightarrow>
    send_refusal e t (draft_now SDraft x) = None"
  by (simp add: send_refusal_def isEmailSignal_def draft_now_def Let_def letter_def email_base.truncate_def)

definition draft_thread :: thread where
  "draft_thread =
     \<lparr>th_id = ''arc-1'', th_accountId = ''acc-1'', th_groupingKey = None, th_workflow = ''content'', th_labels = [],
      th_status = ThActive, th_summary = [], th_lastSignalAt = ''2026'', th_deletedAt = None, th_createdAt = ''2026'',
      th_updatedAt = ''2026'', th_retentionDuration = None, th_sentMessageIds = None, th_urgency = None,
      th_followupAt = None, th_sender = \<lparr>ea_address = ''you@x.io'', ea_name = None\<rparr>,
      th_recipientAddress = ''me@u.io'', th_subject = ''hi''\<rparr>"

text \<open>An environment in which every address is valid; the steps use nothing else of it.\<close>

definition failing :: "'a t_service" where "failing h = Done (Inl (DbError ''down'' True))"

definition draft_env :: t_env where
  "draft_env =
     \<lparr>tGetThread = (\<lambda>a i. failing), tGetSignal = (\<lambda>a i t. failing), tListSignals = (\<lambda>a i n. failing),
      tSaveSender = (\<lambda>a r d p. failing), tUpdateThread = (\<lambda>a i st l u. failing), tQueueFollowup = (\<lambda>a i n. failing),
      tCreateFollowup = (\<lambda>a i x. failing), tDeleteSchedule = (\<lambda>n. failing), tCreateSignal = (\<lambda>s. failing),
      tSaveSignal = (\<lambda>s. failing), tUpdateSignal = (\<lambda>a l u. failing), tUpdateSendStatus = (\<lambda>a l u. failing),
      tDispatch = (\<lambda>p n. failing), tDeleteSignal = (\<lambda>a l. failing), tPost = (\<lambda>u h. Done False),
      tGetDomain = (\<lambda>a d. failing), tSendRsvp = (\<lambda>r. failing), tSetRsvp = (\<lambda>a l r x. failing),
      tReprocess = (\<lambda>a l. failing), tRawUrl = (\<lambda>s h. Done []), tNow = (\<lambda>h. ''2026''), tNowMs = (\<lambda>h. 0),
      tNewId = (\<lambda>h. ''sgn-2''), tMillis = (\<lambda>x. None), tIsoSeconds = (\<lambda>x. None), tPlusSeconds = (\<lambda>x n. x),
      tUpcomingDay = (\<lambda>x h. None), tIsValidEmail = (\<lambda>x. True), tDomainOf = (\<lambda>x. Some x), tShown = (\<lambda>s. True),
      tHash = (\<lambda>x. x), tCdnBase = ''https://cdn''\<rparr>"

abbreviation draft_step :: "undo_state \<Rightarrow> undo_state \<Rightarrow> bool" where
  "draft_step \<equiv> undo_step draft_env ''acc-1'' ''sgn-1'' ''arc-1''"

lemma draft_send_step:
  assumes "t \<notin> is"
  shows "draft_step (at (draft_table SDraft x # tbls) is js xs)
    (at (draft_table SDraft x # tbls) (insert t is) (Sending t ''sgn-1'' # js) xs)"
proof -
  have "send_refusal draft_env draft_thread (draft_now SDraft x) = None"
    by (rule draft_sendable) (simp_all add: draft_env_def draft_thread_def)
  moreover have "sg_signalLookupId (draft_now SDraft x) = ''sgn-1''" "coerceStaleStatus (\<lambda>_. None) (draft_now SDraft x) = draft_now SDraft x"
    by (simp_all add: draft_now_def coerceStaleStatus_def)
  ultimately show ?thesis
    using undo_step.send_starts [OF draft_seen [of SDraft x tbls "is" js xs], of draft_env draft_thread t] assms by simp
qed

lemma draft_pending_step:
  "draft_step (at [draft_table SDraft x] is (Sending t ''sgn-1'' # js) xs)
    (at [draft_table SDraft x, draft_table SPendingSend (Some t)] is js xs)"
  using undo_step.send_ends [of "at [draft_table SDraft x] is (Sending t ''sgn-1'' # js) xs" "[]" t "''sgn-1''" js "''acc-1''"
      "draft_table SPendingSend (Some t)" draft_env "''sgn-1''" "''arc-1''"]
    draft_updated [of "pending_update t" "Some t" SDraft x]
  by (simp add: pending_update_def)

lemma draft_index_step: "draft_step (at [tbl, tbl'] is js xs) (at [tbl'] is js xs)"
  using undo_step.index_follows [of "at [tbl, tbl'] is js xs" tbl "[tbl']"] by simp

lemma draft_pending_seen:
  assumes "t \<noteq> []"
  shows "coerceStaleStatus (\<lambda>_. None) (draft_now SPendingSend (Some t)) = draft_now SPendingSend (Some t)"
  using assms by (simp add: coerceStaleStatus_def initiated_at_def draft_now_def truthy_def)

lemma draft_work_step:
  assumes "t \<in> is" "t \<noteq> []"
  shows "draft_step (at [draft_table SPendingSend (Some t)] is js xs)
    (at [draft_table SPendingSend (Some t)] is
       (Working t (draft_now SPendingSend (Some t)) (letter\<lparr>ob_sendInitiatedAt := Some t\<rparr>) # js) xs)"
proof -
  have "awaiting (queued_send ''acc-1'' ''sgn-1'' ''arc-1'' t) (Some (draft_now SPendingSend (Some t))) =
      Some (draft_now SPendingSend (Some t), letter\<lparr>ob_sendInitiatedAt := Some t\<rparr>)"
    by (simp add: awaiting_def draft_now_def isEmailSignal_def queued_send_def)
  then show ?thesis
    using undo_step.worker_reads [of t "at [draft_table SPendingSend (Some t)] is js xs" "\<lambda>_. None" "''acc-1''" "''sgn-1''" "''arc-1''"]
      draft_seen [of SPendingSend "Some t" "[]" "is" js xs] draft_pending_seen [OF assms(2)] assms(1) by simp
qed

lemma draft_undo_step:
  assumes "t \<noteq> []"
  shows "draft_step (at [draft_table SPendingSend (Some t)] is js xs)
    (at [draft_table SPendingSend (Some t)] is (Undoing ''sgn-1'' # js) xs)"
proof -
  have "sg_status (draft_now SPendingSend (Some t)) = SPendingSend" "sg_signalLookupId (draft_now SPendingSend (Some t)) = ''sgn-1''"
    by (simp_all add: draft_now_def)
  then show ?thesis
    using undo_step.undo_starts [OF draft_seen [of SPendingSend "Some t" "[]" "is" js xs], of draft_env]
      draft_pending_seen [OF assms] by simp
qed

lemma draft_leave_step:
  "draft_step (at tbls is (Working t s d # js) xs) (at tbls is (Closing t (sg_signalLookupId s) now m # js) (xs @ [t]))"
  using undo_step.worker_sends [of "at tbls is (Working t s d # js) xs" "[]" t s d js] by simp

lemma draft_steps_trans: "draft_step x y \<Longrightarrow> undo_steps draft_env ''acc-1'' ''sgn-1'' ''arc-1'' y z \<Longrightarrow> undo_steps draft_env ''acc-1'' ''sgn-1'' ''arc-1'' x z"
  unfolding undo_steps_def by (rule converse_rtranclp_into_rtranclp)

lemma draft_steps_refl: "undo_steps draft_env ''acc-1'' ''sgn-1'' ''arc-1'' x x"
  by (simp add: undo_steps_def)

abbreviation undone :: "undo_state" where
  "undone \<equiv> at [draft_table SDraft None] {''10:00''} [] []"

lemma undone_over: "over ''acc-1'' ''sgn-1'' ''arc-1'' ''10:00'' undone"
  by (simp add: over_def waiting_in_def waiting_item_def draft_table_def signalItem_def draft_now_def awaiting_def)

text \<open>After an undone send the user sends again: only the new send leaves.\<close>

lemma send_again:
  "\<exists>st. undo_steps draft_env ''acc-1'' ''sgn-1'' ''arc-1'' undone st \<and> us_sent st = [''10:05'']"
  apply (rule exI, rule conjI)
   apply (rule draft_steps_trans [OF draft_send_step [of "''10:05''"]], simp)
   apply (rule draft_steps_trans [OF draft_pending_step])
   apply (rule draft_steps_trans [OF draft_index_step])
   apply (rule draft_steps_trans [OF draft_work_step], simp, simp)
   apply (rule draft_steps_trans [OF draft_leave_step])
   apply (rule draft_steps_refl)
  apply simp
  done

theorem undo_final_witness:
  "\<exists>st. undo_steps draft_env ''acc-1'' ''sgn-1'' ''arc-1'' undone st \<and> us_sent st = [''10:05''] \<and>
     count_list (us_sent st) ''10:00'' = count_list (us_sent undone) ''10:00''"
  using send_again undo_final [OF undone_over] by blast

text \<open>The write of an undo, which succeeds: the request that made it is answered with the draft.\<close>

definition undo_written :: "str \<Rightarrow> undo_state \<Rightarrow> undo_state \<Rightarrow> bool" where
  "undo_written a st st' \<longleftrightarrow>
     (\<exists>js l js' tbl. us_jobs st = js @ Undoing l # js' \<and>
       updateSignalSendStatus a l undo_update (last (us_tables st)) = Some tbl \<and> st' = wrote tbl (js @ js') st)"

lemma undo_written_step: "undo_written a st st' \<Longrightarrow> undo_step e a i th st st'"
  by (auto simp: undo_written_def intro: undo_step.undo_ends)


end
