(* ===== verification/ProxyUid.thy ===== *)
theory ProxyUid
  imports Mailbox
begin

text \<open>
  The identity of a forwarded invitation (\<open>processor/calendar/proxy-uid.ts\<close>, the text functions of
  \<open>hmac-secret-generator.ts\<close>): account, thread and original event, signed. \<open>mac\<close> is the base64url text of
  the HMAC under the service's secret.
\<close>

definition proxy_payload :: "str \<Rightarrow> str \<Rightarrow> str \<Rightarrow> str" where
  "proxy_payload accountId threadId originalVeventUid = accountId @ ''.'' @ threadId @ ''.'' @ originalVeventUid"

definition computeHmac16 :: "(str \<Rightarrow> str) \<Rightarrow> str \<Rightarrow> str" where
  "computeHmac16 mac payload = take 16 (mac payload)"

definition validateHmac16 :: "(str \<Rightarrow> str) \<Rightarrow> str \<Rightarrow> str \<Rightarrow> bool" where
  "validateHmac16 mac payload hmac16 \<longleftrightarrow> hmac16 = computeHmac16 mac payload"

definition buildProxyUid :: "(str \<Rightarrow> str) \<Rightarrow> str \<Rightarrow> str \<Rightarrow> str \<Rightarrow> str \<Rightarrow> str" where
  "buildProxyUid mac serviceDomain accountId threadId originalVeventUid =
     (let payload = proxy_payload accountId threadId originalVeventUid
      in payload @ ''.'' @ computeHmac16 mac payload @ ''@'' @ serviceDomain)"

definition validateProxyUid :: "(str \<Rightarrow> str) \<Rightarrow> str \<Rightarrow> str \<Rightarrow> str + str \<times> str \<times> str" where
  "validateProxyUid mac serviceDomain proxyUid =
     (case last_index_of CHR ''@'' proxyUid of
        None \<Rightarrow> Inl ''missing @ separator''
      | Some atIndex \<Rightarrow>
          (let localPart = take atIndex proxyUid; domain = drop (Suc atIndex) proxyUid;
               segments = split_on CHR ''.'' localPart
           in if domain \<noteq> serviceDomain then Inl ''domain mismatch''
              else if length segments < 4 then Inl ''insufficient segments in local-part''
              else
                (let accountId = segments ! 0; threadId = segments ! 1; hmac16 = last segments;
                     originalVeventUid = join ''.'' (butlast (drop 2 segments))
                 in if accountId = [] \<or> threadId = [] \<or> originalVeventUid = [] \<or> hmac16 = []
                    then Inl ''empty segment in proxy UID''
                    else if \<not> validateHmac16 mac (proxy_payload accountId threadId originalVeventUid) hmac16
                    then Inl ''hmac mismatch''
                    else Inr (accountId, threadId, originalVeventUid))))"

section \<open>Accepted identities are issued ones\<close>

text \<open>What ids look like: not empty, and without the separator\<close>

definition plain_id :: "str \<Rightarrow> bool" where
  "plain_id x \<longleftrightarrow> x \<noteq> [] \<and> CHR ''.'' \<notin> set x"

text \<open>The base64url alphabet has neither separator.\<close>

definition mac_text :: "(str \<Rightarrow> str) \<Rightarrow> bool" where
  "mac_text mac \<longleftrightarrow> (\<forall>p. mac p \<noteq> [] \<and> CHR ''.'' \<notin> set (mac p) \<and> CHR ''@'' \<notin> set (mac p))"

lemma computeHmac16_text: "mac_text mac \<Longrightarrow> computeHmac16 mac p \<noteq> [] \<and> CHR ''.'' \<notin> set (computeHmac16 mac p) \<and> CHR ''@'' \<notin> set (computeHmac16 mac p)"
  by (auto simp: mac_text_def computeHmac16_def dest: in_set_takeD)

lemma join_Cons_Cons: "join sep ((a # x) # xs) = a # join sep (x # xs)"
  by (cases xs) auto

lemma join_split_on: "join [c] (split_on c s) = s"
proof (induction s)
  case (Cons x s)
  then show ?case by (cases "split_on c s") (auto simp: join_Cons_Cons)
qed simp

lemma uid_split_join: "xs \<noteq> [] \<Longrightarrow> \<forall>x \<in> set xs. c \<notin> set x \<Longrightarrow> split_on c (join [c] xs) = xs"
  by (induction xs rule: induct_list012) (auto simp: split_on_no_sep split_on_append)

lemma split_on_snoc: "c \<notin> set h \<Longrightarrow> split_on c (s @ c # h) = split_on c s @ [h]"
proof (induction s)
  case (Cons x s)
  then show ?case by (cases "split_on c s") (auto simp: split_on_no_sep)
qed (simp add: split_on_no_sep)

lemma split_on_parts: "x \<in> set (split_on c s) \<Longrightarrow> c \<notin> set x"
  by (induction s arbitrary: x) (auto split: list.splits if_splits)

lemma split_segments:
  assumes "CHR ''.'' \<notin> set a" "CHR ''.'' \<notin> set t" "CHR ''.'' \<notin> set h"
  shows "split_on CHR ''.'' (a @ ''.'' @ t @ ''.'' @ u @ ''.'' @ h) = a # t # split_on CHR ''.'' u @ [h]"
proof -
  have "split_on CHR ''.'' (a @ CHR ''.'' # t @ CHR ''.'' # u @ CHR ''.'' # h) = a # t # split_on CHR ''.'' u @ [h]"
    by (simp add: split_on_append [OF assms(1)] split_on_append [OF assms(2)] split_on_snoc [OF assms(3)])
  then show ?thesis by simp
qed

lemma four_segments:
  assumes "split_on c s = segs" "length segs \<ge> 4"
  shows "s = segs ! 0 @ [c] @ segs ! 1 @ [c] @ join [c] (butlast (drop 2 segs)) @ [c] @ last segs"
proof -
  obtain a t m where segs: "segs = a # t # m" "length m \<ge> 2"
    using assms(2) by (cases segs; cases "tl segs") auto
  then obtain us h where m: "m = us @ [h]" "us \<noteq> []" by (cases m rule: rev_cases) fastforce+
  have "join [c] (us @ [h]) = join [c] us @ [c] @ h" using m(2)
    by (induction us rule: induct_list012) auto
  moreover have "s = join [c] segs" using assms(1) join_split_on by metis
  moreover have "join [c] (a # t # us @ [h]) = a @ [c] @ t @ [c] @ join [c] (us @ [h])"
    using m(2) by (cases us) auto
  ultimately show ?thesis using segs m by (simp add: butlast_append)
qed

text \<open>
  C36. Of all texts that may come back in an answer, exactly those are taken for an identity that the
  service issued itself for that account, thread and event: nobody without the secret can
  make it act on another account, thread or event, and no issued identity is turned away, dots and at
  signs in the organizer's event identifier included.
\<close>

theorem proxy_identity_authentic:
  assumes "mac_text mac" "CHR ''@'' \<notin> set serviceDomain"
  shows "validateProxyUid mac serviceDomain uid = Inr (a, t, u) \<longleftrightarrow>
    uid = buildProxyUid mac serviceDomain a t u \<and> plain_id a \<and> plain_id t \<and> u \<noteq> []"
proof
  assume *: "uid = buildProxyUid mac serviceDomain a t u \<and> plain_id a \<and> plain_id t \<and> u \<noteq> []"
  let ?h = "computeHmac16 mac (proxy_payload a t u)"
  let ?local = "a @ ''.'' @ t @ ''.'' @ u @ ''.'' @ ?h"
  have h: "?h \<noteq> []" "CHR ''.'' \<notin> set ?h" using computeHmac16_text [OF assms(1)] by auto
  have uid: "uid = ?local @ CHR ''@'' # serviceDomain"
    using * by (simp add: buildProxyUid_def Let_def proxy_payload_def)
  have at_pos: "last_index_of CHR ''@'' uid = Some (length ?local)" unfolding uid using assms(2) by (rule last_index_of_append)
  have segs: "split_on CHR ''.'' ?local = a # t # split_on CHR ''.'' u @ [?h]"
    using * h by (intro split_segments) (auto simp: plain_id_def)
  have cut: "take (length x) (x @ c # y) = x \<and> drop (Suc (length x)) (x @ c # y) = y" for x y :: str and c by simp
  have parts: "take (length ?local) uid = ?local" "drop (Suc (length ?local)) uid = serviceDomain"
    unfolding uid using cut [of ?local _ serviceDomain] by blast+
  show "validateProxyUid mac serviceDomain uid = Inr (a, t, u)"
    unfolding validateProxyUid_def at_pos option.case Let_def parts segs
    using * h by (simp add: plain_id_def validateHmac16_def join_split_on butlast_append)
next
  assume ok: "validateProxyUid mac serviceDomain uid = Inr (a, t, u)"
  then obtain n where n: "last_index_of CHR ''@'' uid = Some n"
    by (auto simp: validateProxyUid_def split: option.splits)
  let ?segs = "split_on CHR ''.'' (take n uid)"
  have facts: "drop (Suc n) uid = serviceDomain" "length ?segs \<ge> 4" "a = ?segs ! 0" "t = ?segs ! 1"
    "u = join ''.'' (butlast (drop 2 ?segs))" "a \<noteq> []" "t \<noteq> []" "u \<noteq> []"
    "last ?segs = computeHmac16 mac (proxy_payload a t u)"
    using ok n by (auto simp: validateProxyUid_def Let_def validateHmac16_def split: if_splits)
  have "take n uid = a @ ''.'' @ t @ ''.'' @ u @ ''.'' @ computeHmac16 mac (proxy_payload a t u)"
    using four_segments [OF refl facts(2)] facts(3-5,9) by simp
  moreover have "uid = take n uid @ CHR ''@'' # drop (Suc n) uid"
    using last_index_of_Some [OF n] by auto
  ultimately have "uid = buildProxyUid mac serviceDomain a t u"
    using facts(1) by (simp add: buildProxyUid_def Let_def proxy_payload_def)
  moreover have "CHR ''.'' \<notin> set (?segs ! 0)" "CHR ''.'' \<notin> set (?segs ! 1)"
    using facts(2) split_on_parts [of _ "CHR ''.''" "take n uid"] by (auto simp: nth_mem)
  ultimately show "uid = buildProxyUid mac serviceDomain a t u \<and> plain_id a \<and> plain_id t \<and> u \<noteq> []"
    using facts by (simp add: plain_id_def)
qed

definition length_mac :: "str \<Rightarrow> str" where
  "length_mac p = replicate (Suc (length p mod 7)) CHR ''k''"

lemma length_mac_text: "mac_text length_mac"
  by (simp add: mac_text_def length_mac_def)

theorem proxy_identity_authentic_witness:
  "validateProxyUid length_mac ''cal.io''
     (buildProxyUid length_mac ''cal.io'' ''acc-1'' ''arc-2'' ''7.x@org.com'') = Inr (''acc-1'', ''arc-2'', ''7.x@org.com'')"
  using proxy_identity_authentic [OF length_mac_text, of "''cal.io''" _ "''acc-1''" "''arc-2''" "''7.x@org.com''"]
  by (simp add: plain_id_def)

end
