(* ===== verification/DbRows.thy ===== *)
theory DbRows
  imports Types
begin

text \<open>
  The accounts table as DynamoDB keeps it, and the requests made to it. A row is an attribute map under two
  keys; the attributes \<open>gsi1pk\<close> and \<open>gsi1sk\<close> place it in the index. An attribute that is not there reads
  as \<open>JUndefined\<close>, as the code sees it. DynamoDB's part is written out: a put replaces the row of its key,
  an update of a key without a row creates a row that has only the updated attributes, a delete of
  nothing succeeds. A query returns all its rows in the order of the sort key (a listing that the code
  reads page by page is one request here). A query of the index sees every write completed before it; the
  real index lags behind the table for a moment, which the model leaves out, so a property that rests on
  such a read holds of an index that has caught up.

  Every request may fail before or after its effect, and other writers may change the table before it:
  \<open>w_script\<close> says what happens to the requests to come, in order; after its end all requests succeed.
\<close>

section \<open>Attribute maps\<close>

type_synonym attrs = "str \<Rightarrow> json"

definition no_attrs :: attrs where "no_attrs = (\<lambda>_. JUndefined)"

text \<open>\<open>{...a, ...b}\<close> and an object literal (a member that is \<open>JUndefined\<close> is not there)\<close>

definition spread :: "attrs \<Rightarrow> attrs \<Rightarrow> attrs" where
  "spread a b = (\<lambda>k. if b k = JUndefined then a k else b k)"

abbreviation obj :: "(str \<times> json) list \<Rightarrow> attrs" where "obj \<equiv> jfield"

text \<open>\<open>a ?? b\<close>\<close>

definition either :: "json \<Rightarrow> json \<Rightarrow> json" where
  "either a b = (if a = JUndefined \<or> a = JNull then b else a)"

definition text_of :: "json \<Rightarrow> str" where
  "text_of j = (case j of JStr s \<Rightarrow> s | _ \<Rightarrow> [])"

definition is_text :: "json \<Rightarrow> bool" where
  "is_text j = (case j of JStr _ \<Rightarrow> True | _ \<Rightarrow> False)"

lemma text_simps [simp]: "text_of (JStr s) = s" "is_text (JStr s)" "\<not> is_text JUndefined"
  by (simp_all add: text_of_def is_text_def)

lemma is_text_iff: "is_text j \<longleftrightarrow> j = JStr (text_of j)"
  by (cases j) (auto simp: is_text_def)

lemma obj_simps [simp]: "obj [] k = JUndefined" "obj ((k', v) # kvs) k = (if k = k' then v else obj kvs k)"
  by (auto simp: jfield_def)

lemma either_simps [simp]: "either JUndefined b = b" "either JNull b = b" "either (JStr s) b = JStr s"
  by (simp_all add: either_def)

section \<open>Rows\<close>

record row =
  rw_pk :: str
  rw_sk :: str
  rw_attrs :: attrs

type_synonym rows = "row list"

definition is_at :: "str \<Rightarrow> str \<Rightarrow> row \<Rightarrow> bool" where
  "is_at pk sk r \<longleftrightarrow> rw_pk r = pk \<and> rw_sk r = sk"

definition get_row :: "str \<Rightarrow> str \<Rightarrow> rows \<Rightarrow> attrs option" where
  "get_row pk sk rs = map_option rw_attrs (List.find (is_at pk sk) rs)"

definition delete_row :: "str \<Rightarrow> str \<Rightarrow> rows \<Rightarrow> rows" where
  "delete_row pk sk = filter (\<lambda>r. \<not> is_at pk sk r)"

definition put_row :: "str \<Rightarrow> str \<Rightarrow> attrs \<Rightarrow> rows \<Rightarrow> rows" where
  "put_row pk sk a rs = delete_row pk sk rs @ [\<lparr>rw_pk = pk, rw_sk = sk, rw_attrs = a\<rparr>]"

definition row_or_new :: "str \<Rightarrow> str \<Rightarrow> rows \<Rightarrow> attrs" where
  "row_or_new pk sk rs = (case get_row pk sk rs of Some a \<Rightarrow> a | None \<Rightarrow> no_attrs)"

definition query :: "str \<Rightarrow> str \<Rightarrow> rows \<Rightarrow> attrs list" where
  "query pk pre rs =
     map rw_attrs (sort_by (le_by rw_sk) (filter (\<lambda>r. rw_pk r = pk \<and> starts_with (rw_sk r) pre) rs))"

text \<open>The index: only a row that has both index keys is in it.\<close>

definition in_index :: "str \<Rightarrow> str \<Rightarrow> row \<Rightarrow> bool" where
  "in_index pk pre r \<longleftrightarrow>
     rw_attrs r ''gsi1pk'' = JStr pk \<and> is_text (rw_attrs r ''gsi1sk'') \<and>
     starts_with (text_of (rw_attrs r ''gsi1sk'')) pre"

definition query_index :: "str \<Rightarrow> str \<Rightarrow> rows \<Rightarrow> attrs list" where
  "query_index pk pre rs =
     map rw_attrs (sort_by (le_by (\<lambda>r. text_of (rw_attrs r ''gsi1sk''))) (filter (in_index pk pre) rs))"

section \<open>Requests\<close>

datatype fault = Fine | Fails_before | Fails_after | Processes nat

record world =
  w_rows :: rows
  w_script :: "(fault \<times> (rows \<Rightarrow> rows)) list"
  w_tick :: nat
  w_time :: "nat \<Rightarrow> str"
  w_new :: "nat \<Rightarrow> str"
  w_log :: "(str \<times> attrs) list"
  w_mail :: str

datatype 'a reply = Gives 'a | Denies app_error | Raises str

type_synonym 'a db = "world \<Rightarrow> 'a reply \<times> world"

definition give :: "'a \<Rightarrow> 'a db" where "give x w = (Gives x, w)"
definition deny :: "app_error \<Rightarrow> 'a db" where "deny e w = (Denies e, w)"
definition raise_db :: "str \<Rightarrow> 'a db" where "raise_db m w = (Raises m, w)"

text \<open>\<open>if (r.isErr()) return err(r.error)\<close>, and the inspection of a result\<close>

definition on :: "'a db \<Rightarrow> ('a \<Rightarrow> 'b db) \<Rightarrow> 'b db" where
  "on m k w = (case m w of (Gives x, w') \<Rightarrow> k x w' | (Denies e, w') \<Rightarrow> (Denies e, w') | (Raises t, w') \<Rightarrow> (Raises t, w'))"

definition result_of :: "'a db \<Rightarrow> (app_error + 'a) db" where
  "result_of m w = (case m w of (Gives x, w') \<Rightarrow> (Gives (Inr x), w') | (Denies e, w') \<Rightarrow> (Gives (Inl e), w') | (Raises t, w') \<Rightarrow> (Raises t, w'))"

definition CONDITION_FAILED :: str where "CONDITION_FAILED = ''ConditionalCheckFailedException''"

text \<open>A request: what it does to the table and answers, or the name of the exception\<close>

type_synonym 'a request = "rows \<Rightarrow> (str + 'a) \<times> rows"

definition next_fault :: "world \<Rightarrow> fault \<times> world" where
  "next_fault w =
     (case w_script w of
        [] \<Rightarrow> (Fine, w)
      | (f, others) # fs \<Rightarrow> (f, w\<lparr>w_script := fs, w_rows := others (w_rows w)\<rparr>))"

definition send :: "'a request \<Rightarrow> (str + 'a) db" where
  "send rq w =
     (case next_fault w of
        (f, w') \<Rightarrow>
          (case rq (w_rows w') of
             (ans, rs) \<Rightarrow>
               if f = Fails_before then (Gives (Inl ''ServiceError''), w')
               else if f = Fails_after then (Gives (Inl ''ServiceError''), w'\<lparr>w_rows := rs\<rparr>)
               else (Gives ans, w'\<lparr>w_rows := rs\<rparr>)))"

definition request :: "'a request \<Rightarrow> 'a db" where
  "request rq = on (send rq) (\<lambda>a. case a of Inl m \<Rightarrow> deny (DbError m False) | Inr x \<Rightarrow> give x)"

definition now :: "str db" where
  "now w = (Gives (w_time w (w_tick w)), w\<lparr>w_tick := Suc (w_tick w)\<rparr>)"

definition fresh :: "str db" where
  "fresh w = (Gives (w_new w (w_tick w)), w\<lparr>w_tick := Suc (w_tick w)\<rparr>)"

text \<open>What goes elsewhere (audit events, counters); the answer says whether it arrived.\<close>

definition note_down :: "str \<Rightarrow> attrs \<Rightarrow> bool db" where
  "note_down what a w =
     (case next_fault w of
        (f, w') \<Rightarrow> if f = Fails_before then (Gives False, w')
                    else (Gives (f \<noteq> Fails_after), w'\<lparr>w_log := w_log w' @ [(what, a)]\<rparr>))"

text \<open>The requests of the code\<close>

definition GetItem :: "str \<Rightarrow> str \<Rightarrow> attrs option request" where
  "GetItem pk sk rs = (Inr (get_row pk sk rs), rs)"

definition PutItem :: "str \<Rightarrow> str \<Rightarrow> attrs \<Rightarrow> unit request" where
  "PutItem pk sk a rs = (Inr (), put_row pk sk a rs)"

definition PutItemIf :: "(attrs option \<Rightarrow> bool) \<Rightarrow> str \<Rightarrow> str \<Rightarrow> attrs \<Rightarrow> unit request" where
  "PutItemIf c pk sk a rs = (if c (get_row pk sk rs) then (Inr (), put_row pk sk a rs) else (Inl CONDITION_FAILED, rs))"

definition UpdateItem :: "str \<Rightarrow> str \<Rightarrow> (attrs \<Rightarrow> attrs) \<Rightarrow> attrs request" where
  "UpdateItem pk sk f rs = (let a = f (row_or_new pk sk rs) in (Inr a, put_row pk sk a rs))"

definition UpdateItemIf :: "(attrs option \<Rightarrow> bool) \<Rightarrow> str \<Rightarrow> str \<Rightarrow> (attrs \<Rightarrow> attrs) \<Rightarrow> attrs request" where
  "UpdateItemIf c pk sk f rs = (if c (get_row pk sk rs) then UpdateItem pk sk f rs else (Inl CONDITION_FAILED, rs))"

definition DeleteItem :: "str \<Rightarrow> str \<Rightarrow> unit request" where
  "DeleteItem pk sk rs = (Inr (), delete_row pk sk rs)"

definition Query :: "str \<Rightarrow> str \<Rightarrow> attrs list request" where
  "Query pk pre rs = (Inr (query pk pre rs), rs)"

definition QueryIndex :: "str \<Rightarrow> str \<Rightarrow> attrs list request" where
  "QueryIndex pk pre rs = (Inr (query_index pk pre rs), rs)"

text \<open>A setting of the deployment (the mail domain)\<close>

definition mail_domain :: "str db" where "mail_domain w = (Gives (w_mail w), w)"

text \<open>A loop over items that stops at the first error\<close>

primrec each :: "('a \<Rightarrow> unit db) \<Rightarrow> 'a list \<Rightarrow> unit db" where
  "each f [] = give ()"
| "each f (x # xs) = on (f x) (\<lambda>_. each f xs)"

text \<open>A batch of deletions: DynamoDB may leave a part of it unprocessed, which the code sends again.\<close>

function BatchDelete :: "str \<Rightarrow> str list \<Rightarrow> unit db" where
  "BatchDelete pk [] w = (Gives (), w)"
| "BatchDelete pk (sk # sks) w =
     (case next_fault w of
        (f, w') \<Rightarrow>
          (let gone = (\<lambda>ks rs. foldl (\<lambda>rs k. delete_row pk k rs) rs ks)
           in case f of
                Fine \<Rightarrow> (Gives (), w'\<lparr>w_rows := gone (sk # sks) (w_rows w')\<rparr>)
              | Fails_before \<Rightarrow> (Denies (DbError ''ServiceError'' False), w')
              | Fails_after \<Rightarrow> (Denies (DbError ''ServiceError'' False), w'\<lparr>w_rows := gone (sk # sks) (w_rows w')\<rparr>)
              | Processes n \<Rightarrow>
                  BatchDelete pk (drop n (sk # sks)) (w'\<lparr>w_rows := gone (take n (sk # sks)) (w_rows w')\<rparr>)))"
  by pat_completeness auto
termination
  by (relation "measure (\<lambda>(pk, sks, w). length (w_script w))")
    (auto simp: next_fault_def split: list.splits prod.splits)

end
