(* ===== verification/DbFacts.thy ===== *)
theory DbFacts
  imports DbRows
begin

text \<open>
  Reasoning about programs over the table. \<open>ht P m Q I\<close>: from a table with \<open>P\<close>, when nobody else writes,
  \<open>m\<close> gives a result and a table related by \<open>Q\<close>, or fails with a table that has \<open>I\<close>, whatever requests
  fail on the way. \<open>keeps I m\<close>: the invariant \<open>I\<close> holds after \<open>m\<close>, however it ends.
\<close>

definition alone :: "world \<Rightarrow> bool" where
  "alone w \<longleftrightarrow> (\<forall>p \<in> set (w_script w). snd p = id)"

definition ht :: "(rows \<Rightarrow> bool) \<Rightarrow> 'a db \<Rightarrow> ('a \<Rightarrow> rows \<Rightarrow> bool) \<Rightarrow> (rows \<Rightarrow> bool) \<Rightarrow> bool" where
  "ht P m Q I \<longleftrightarrow>
     (\<forall>w. alone w \<and> P (w_rows w) \<longrightarrow>
        (let (r, w') = m w
         in alone w' \<and> (case r of Gives x \<Rightarrow> Q x (w_rows w') | _ \<Rightarrow> I (w_rows w'))))"

abbreviation keeps :: "(rows \<Rightarrow> bool) \<Rightarrow> 'a db \<Rightarrow> bool" where
  "keeps I m \<equiv> ht I m (\<lambda>_. I) I"

named_theorems keeps_intros

lemma ht_weaken:
  "ht P' m Q' I \<Longrightarrow> (\<And>rs. P rs \<Longrightarrow> P' rs) \<Longrightarrow> (\<And>x rs. Q' x rs \<Longrightarrow> Q x rs) \<Longrightarrow> ht P m Q I"
  unfolding ht_def by (fastforce simp: Let_def split: prod.splits reply.splits)

lemma ht_give: "(\<And>rs. P rs \<Longrightarrow> Q x rs) \<Longrightarrow> ht P (give x) Q I"
  by (simp add: ht_def give_def)

lemma ht_deny: "(\<And>rs. P rs \<Longrightarrow> I rs) \<Longrightarrow> ht P (deny e) Q I"
  by (simp add: ht_def deny_def)

lemma ht_raise: "(\<And>rs. P rs \<Longrightarrow> I rs) \<Longrightarrow> ht P (raise_db m) Q I"
  by (simp add: ht_def raise_db_def)

lemma ht_on:
  assumes "ht P m Q I" "\<And>x. ht (Q x) (k x) S I"
  shows "ht P (on m k) S I"
  unfolding ht_def
proof (intro allI impI)
  fix w assume w: "alone w \<and> P (w_rows w)"
  obtain r w' where m: "m w = (r, w')" by fastforce
  with assms(1) w have post: "alone w'" "case r of Gives x \<Rightarrow> Q x (w_rows w') | _ \<Rightarrow> I (w_rows w')"
    unfolding ht_def by (auto dest!: spec [of _ w])
  show "let (r, w') = on m k w in alone w' \<and> (case r of Gives x \<Rightarrow> S x (w_rows w') | _ \<Rightarrow> I (w_rows w'))"
  proof (cases r)
    case (Gives x)
    with assms(2) [of x] post show ?thesis unfolding ht_def by (auto simp: on_def m Gives dest!: spec [of _ w'])
  qed (use post in \<open>simp_all add: on_def m\<close>)
qed

lemma ht_result_of:
  assumes "ht P m Q I"
  shows "ht P (result_of m) (\<lambda>r rs. case r of Inr x \<Rightarrow> Q x rs | Inl _ \<Rightarrow> I rs) I"
  using assms unfolding ht_def
  by (fastforce simp: Let_def result_of_def split: prod.splits reply.splits)

lemma alone_next: "alone w \<Longrightarrow> next_fault w = (f, w') \<Longrightarrow> alone w' \<and> w_rows w' = w_rows w"
  by (auto simp: alone_def next_fault_def split: list.splits)

lemma ht_send:
  assumes "\<And>rs ans rs'. P rs \<Longrightarrow> rq rs = (ans, rs') \<Longrightarrow> Q ans rs' \<and> (\<forall>m. Q (Inl m) rs) \<and> (\<forall>m. Q (Inl m) rs')"
  shows "ht P (send rq) Q I"
  unfolding ht_def
proof (intro allI impI)
  fix w assume w: "alone w \<and> P (w_rows w)"
  obtain f w' where n: "next_fault w = (f, w')" by fastforce
  obtain ans rs' where q: "rq (w_rows w') = (ans, rs')" by fastforce
  have "alone w'" "w_rows w' = w_rows w" using alone_next [OF _ n] w by auto
  then show "let (r, w') = send rq w in alone w' \<and> (case r of Gives x \<Rightarrow> Q x (w_rows w') | _ \<Rightarrow> I (w_rows w'))"
    using assms [of "w_rows w"] w q by (auto simp: send_def n q alone_def)
qed

lemma ht_request:
  assumes "\<And>rs ans rs'. P rs \<Longrightarrow> rq rs = (ans, rs') \<Longrightarrow> I rs \<and> I rs' \<and> (\<forall>x. ans = Inr x \<longrightarrow> Q x rs')"
  shows "ht P (request rq) Q I"
  unfolding request_def
proof (rule ht_on [where Q = "\<lambda>a rs. I rs \<and> (\<forall>x. a = Inr x \<longrightarrow> Q x rs)"])
  show "ht P (send rq) (\<lambda>a rs. I rs \<and> (\<forall>x. a = Inr x \<longrightarrow> Q x rs)) I"
    by (rule ht_send) (use assms in auto)
  show "ht (\<lambda>rs. I rs \<and> (\<forall>x. a = Inr x \<longrightarrow> Q x rs)) (case a of Inl m \<Rightarrow> deny (DbError m False) | Inr x \<Rightarrow> give x) Q I"
    for a by (cases a) (auto intro: ht_deny ht_give)
qed

text \<open>Reading does not change the table.\<close>

lemma ht_read:
  assumes "\<And>rs. rq rs = (Inr (f rs), rs)" "\<And>rs. P rs \<Longrightarrow> I rs"
  shows "ht P (request rq) (\<lambda>x rs. P rs \<and> x = f rs) I"
  by (rule ht_request) (use assms in auto)

lemma ht_now: "ht P now (\<lambda>_. P) I" by (simp add: ht_def now_def alone_def)
lemma ht_fresh: "ht P fresh (\<lambda>_. P) I" by (simp add: ht_def fresh_def alone_def)
lemma ht_mail: "ht P mail_domain (\<lambda>_. P) I" by (simp add: ht_def mail_domain_def)

lemma ht_note_down: "ht P (note_down what a) (\<lambda>_. P) I"
  unfolding ht_def
proof (intro allI impI)
  fix w assume w: "alone w \<and> P (w_rows w)"
  obtain f w' where n: "next_fault w = (f, w')" by fastforce
  with alone_next [OF _ n] w show "let (r, w') = note_down what a w
      in alone w' \<and> (case r of Gives x \<Rightarrow> P (w_rows w') | _ \<Rightarrow> I (w_rows w'))"
    by (auto simp: note_down_def n alone_def)
qed

section \<open>Invariants\<close>

lemma keeps_give [keeps_intros]: "keeps I (give x)" by (rule ht_give)
lemma keeps_deny [keeps_intros]: "keeps I (deny e)" by (rule ht_deny)
lemma keeps_raise [keeps_intros]: "keeps I (raise_db m)" by (rule ht_raise)
lemma keeps_now [keeps_intros]: "keeps I now" by (rule ht_now)
lemma keeps_fresh [keeps_intros]: "keeps I fresh" by (rule ht_fresh)
lemma keeps_mail [keeps_intros]: "keeps I mail_domain" by (rule ht_mail)
lemma keeps_note_down [keeps_intros]: "keeps I (note_down what a)" by (rule ht_note_down)

lemma keeps_on [keeps_intros]: "keeps I m \<Longrightarrow> (\<And>x. keeps I (k x)) \<Longrightarrow> keeps I (on m k)"
  by (rule ht_on)

lemma keeps_result_of [keeps_intros]: "keeps I m \<Longrightarrow> keeps I (result_of m)"
  by (erule ht_weaken [OF ht_result_of]) (auto split: sum.splits)

lemma keeps_each [keeps_intros]: "(\<And>x. x \<in> set xs \<Longrightarrow> keeps I (f x)) \<Longrightarrow> keeps I (each f xs)"
  by (induction xs) (auto intro!: keeps_intros)

lemma keeps_request: "(\<And>rs ans rs'. I rs \<Longrightarrow> rq rs = (ans, rs') \<Longrightarrow> I rs') \<Longrightarrow> keeps I (request rq)"
  by (rule ht_request) auto

lemma keeps_send: "(\<And>rs ans rs'. I rs \<Longrightarrow> rq rs = (ans, rs') \<Longrightarrow> I rs') \<Longrightarrow> keeps I (send rq)"
  by (rule ht_send) auto

lemma keeps_GetItem [keeps_intros]: "keeps I (request (GetItem pk sk))"
  by (rule keeps_request) (simp add: GetItem_def)

lemma keeps_Query [keeps_intros]: "keeps I (request (Query pk pre))"
  by (rule keeps_request) (simp add: Query_def)

lemma keeps_QueryIndex [keeps_intros]: "keeps I (request (QueryIndex pk pre))"
  by (rule keeps_request) (simp add: QueryIndex_def)

text \<open>Programs built by case analysis\<close>

lemma keeps_if [keeps_intros]: "(b \<Longrightarrow> keeps I m) \<Longrightarrow> (\<not> b \<Longrightarrow> keeps I n) \<Longrightarrow> keeps I (if b then m else n)" by simp

lemma keeps_option [keeps_intros]:
  "keeps I m \<Longrightarrow> (\<And>y. x = Some y \<Longrightarrow> keeps I (f y)) \<Longrightarrow> keeps I (case x of None \<Rightarrow> m | Some y \<Rightarrow> f y)"
  by (cases x) auto

lemma keeps_sum [keeps_intros]:
  "(\<And>y. keeps I (g y)) \<Longrightarrow> (\<And>y. keeps I (f y)) \<Longrightarrow> keeps I (case x of Inl y \<Rightarrow> g y | Inr y \<Rightarrow> f y)"
  by (cases x) auto

lemma keeps_prod [keeps_intros]: "(\<And>a b. keeps I (f a b)) \<Longrightarrow> keeps I (case x of (a, b) \<Rightarrow> f a b)"
  by (cases x) auto

lemma ht_frame_keeps: "keeps I m \<Longrightarrow> (\<And>rs. P rs \<Longrightarrow> I rs) \<Longrightarrow> ht P m (\<lambda>_. I) I"
  by (erule ht_weaken) auto

lemma ht_fail: "ht P m Q J \<Longrightarrow> (\<And>rs. J rs \<Longrightarrow> I rs) \<Longrightarrow> ht P m Q I"
  unfolding ht_def by (fastforce simp: Let_def split: prod.splits reply.splits)

text \<open>A part that keeps what is known\<close>

lemma ht_reads: "keeps P m \<Longrightarrow> (\<And>rs. P rs \<Longrightarrow> I rs) \<Longrightarrow> ht P m (\<lambda>_. P) I"
  by (rule ht_fail)

lemma ht_on_reads: "keeps P m \<Longrightarrow> (\<And>rs. P rs \<Longrightarrow> I rs) \<Longrightarrow> (\<And>x. ht P (k x) S I) \<Longrightarrow> ht P (on m k) S I"
  by (rule ht_on [OF ht_reads])

lemma keepsD: "keeps I m \<Longrightarrow> alone w \<Longrightarrow> I (w_rows w) \<Longrightarrow> alone (snd (m w)) \<and> I (w_rows (snd (m w)))"
  unfolding ht_def by (cases "fst (m w)") (auto simp: Let_def case_prod_beta dest!: spec [of _ w])

section \<open>Requests that write\<close>

lemma put_row_set: "r \<in> set (put_row pk sk a rs) \<longleftrightarrow> r = \<lparr>rw_pk = pk, rw_sk = sk, rw_attrs = a\<rparr> \<or> (r \<in> set rs \<and> \<not> is_at pk sk r)"
  by (auto simp: put_row_def delete_row_def)

lemma delete_row_set: "r \<in> set (delete_row pk sk rs) \<longleftrightarrow> r \<in> set rs \<and> \<not> is_at pk sk r"
  by (simp add: delete_row_def)

lemma get_row_Some: "get_row pk sk rs = Some a \<Longrightarrow> \<exists>r \<in> set rs. is_at pk sk r \<and> rw_attrs r = a"
  unfolding get_row_def by (auto simp: find_Some_iff)

lemma get_row_None: "get_row pk sk rs = None \<Longrightarrow> r \<in> set rs \<Longrightarrow> \<not> is_at pk sk r"
  unfolding get_row_def by (auto simp: find_None_iff)

lemma query_set: "a \<in> set (query pk pre rs) \<longleftrightarrow> (\<exists>r \<in> set rs. rw_pk r = pk \<and> starts_with (rw_sk r) pre \<and> rw_attrs r = a)"
  by (auto simp: query_def)

lemma query_index_set: "a \<in> set (query_index pk pre rs) \<longleftrightarrow> (\<exists>r \<in> set rs. in_index pk pre r \<and> rw_attrs r = a)"
  by (auto simp: query_index_def)

lemma keeps_PutItem:
  "(\<And>rs. I rs \<Longrightarrow> I (put_row pk sk a rs)) \<Longrightarrow> keeps I (request (PutItem pk sk a))"
  by (rule keeps_request) (auto simp: PutItem_def)

lemma keeps_UpdateItem:
  "(\<And>rs. I rs \<Longrightarrow> I (put_row pk sk (f (row_or_new pk sk rs)) rs)) \<Longrightarrow> keeps I (request (UpdateItem pk sk f))"
  by (rule keeps_request) (auto simp: UpdateItem_def Let_def)

lemma keeps_PutItemIf:
  "(\<And>rs. I rs \<Longrightarrow> c (get_row pk sk rs) \<Longrightarrow> I (put_row pk sk a rs)) \<Longrightarrow> keeps I (send (PutItemIf c pk sk a))"
  "(\<And>rs. I rs \<Longrightarrow> c (get_row pk sk rs) \<Longrightarrow> I (put_row pk sk a rs)) \<Longrightarrow> keeps I (request (PutItemIf c pk sk a))"
  by (rule keeps_send, auto simp: PutItemIf_def split: if_splits) (rule keeps_request, auto simp: PutItemIf_def split: if_splits)

lemma keeps_UpdateItemIf:
  "(\<And>rs. I rs \<Longrightarrow> c (get_row pk sk rs) \<Longrightarrow> I (put_row pk sk (f (row_or_new pk sk rs)) rs)) \<Longrightarrow>
    keeps I (send (UpdateItemIf c pk sk f))"
  by (rule keeps_send) (auto simp: UpdateItemIf_def UpdateItem_def Let_def split: if_splits)

lemma keeps_DeleteItem:
  "(\<And>rs. I rs \<Longrightarrow> I (delete_row pk sk rs)) \<Longrightarrow> keeps I (request (DeleteItem pk sk))"
  by (rule keeps_request) (auto simp: DeleteItem_def)

lemma keeps_BatchDelete:
  assumes "\<And>rs sk. sk \<in> set sks \<Longrightarrow> I rs \<Longrightarrow> I (delete_row pk sk rs)"
  shows "keeps I (BatchDelete pk sks)"
proof -
  note BatchDelete.simps [simp del]
  have gone: "I rs \<Longrightarrow> set ks \<subseteq> set sks \<Longrightarrow> I (foldl (\<lambda>rs k. delete_row pk k rs) rs ks)" for ks rs
    by (induction ks arbitrary: rs) (use assms in auto)
  have "p = pk \<Longrightarrow> alone w \<Longrightarrow> I (w_rows w) \<Longrightarrow> set ks \<subseteq> set sks \<Longrightarrow>
      (let (r, w') = BatchDelete p ks w in alone w' \<and> I (w_rows w'))" for p ks w
  proof (induction p ks w rule: BatchDelete.induct)
    case (2 p sk ks w)
    obtain f w' where n: "next_fault w = (f, w')" by fastforce
    have a: "alone w'" "w_rows w' = w_rows w" using alone_next [OF 2(3) n] by auto
    have sub: "set (take m (sk # ks)) \<subseteq> set sks" "set (drop m (sk # ks)) \<subseteq> set sks" for m
      using 2(5) set_take_subset [of m "sk # ks"] set_drop_subset [of m "sk # ks"] by auto
    have all: "I (foldl (\<lambda>rs k. delete_row pk k rs) (w_rows w') (sk # ks))"
      by (rule gone [OF _ 2(5)]) (use a 2(4) in simp)
    have step: "BatchDelete pk (sk # ks) w =
       (case f of
          Fine \<Rightarrow> (Gives (), w'\<lparr>w_rows := foldl (\<lambda>rs k. delete_row pk k rs) (w_rows w') (sk # ks)\<rparr>)
        | Fails_before \<Rightarrow> (Denies (DbError ''ServiceError'' False), w')
        | Fails_after \<Rightarrow> (Denies (DbError ''ServiceError'' False), w'\<lparr>w_rows := foldl (\<lambda>rs k. delete_row pk k rs) (w_rows w') (sk # ks)\<rparr>)
        | Processes n \<Rightarrow> BatchDelete pk (drop n (sk # ks)) (w'\<lparr>w_rows := foldl (\<lambda>rs k. delete_row pk k rs) (w_rows w') (take n (sk # ks))\<rparr>))"
      unfolding BatchDelete.simps(2) n prod.case Let_def ..
    show ?case
    proof (cases f)
      case (Processes m)
      let ?w = "w'\<lparr>w_rows := foldl (\<lambda>rs k. delete_row pk k rs) (w_rows w') (take m (sk # ks))\<rparr>"
      have "I (foldl (\<lambda>rs k. delete_row pk k rs) (w_rows w') (take m (sk # ks)))"
        by (rule gone [OF _ sub(1)]) (use a 2(4) in simp)
      then have "alone ?w" "I (w_rows ?w)" using a by (auto simp: alone_def)
      with 2(1) [OF n [symmetric] refl Processes 2(2)] sub(2) 2(2) show ?thesis by (simp add: step Processes)
    qed (use a all 2(2,4) in \<open>simp_all add: step alone_def\<close>)
  qed (simp add: BatchDelete.simps)
  then have *: "alone (snd (BatchDelete pk sks w)) \<and> I (w_rows (snd (BatchDelete pk sks w)))"
    if "alone w" "I (w_rows w)" for w
    using that by (simp add: case_prod_beta)
  show ?thesis
    unfolding ht_def Let_def case_prod_beta using * by (simp split: reply.split)
qed

end
