(* ===== verification/AccountTable.thy ===== *)
theory AccountTable
  imports DbRows Policy Errors Zones Embed
begin

text \<open>
  The operations of \<open>database/account-database.ts\<close> (the counters of the statistics are in \<open>Counters\<close>), with
  the built-in account (\<open>database/system-account-db.ts\<close>) and the system rules
  (\<open>processor/system-rules.ts\<close>). A view, label, rule, domain, alias, target, template or account is the
  attribute map of its row. Log lines are left out. Texts of timestamps are compared character by character.
\<close>

section \<open>System rules\<close>

fun json_text :: "json \<Rightarrow> str" where
  "json_text JUndefined = []"
| "json_text JNull = ''null''"
| "json_text (JBool b) = (if b then ''true'' else ''false'')"
| "json_text (JNum n) = (if n < 0 then ''-'' @ show_nat (nat (- n)) else show_nat (nat n))"
| "json_text (JStr s) = json_quote s"
| "json_text (JArr xs) = ''['' @ join_with '','' (map json_text xs) @ '']''"
| "json_text (JObj kvs) = ''{'' @ join_with '','' (map (\<lambda>(k, v). json_quote k @ '':'' @ json_text v) kvs) @ ''}''"

definition jl_var :: "str \<Rightarrow> json" where "jl_var p = JObj [(''var'', JStr p)]"
definition jl_in :: "str \<Rightarrow> json" where "jl_in lbl = JObj [(''in'', JArr [JStr lbl, jl_var ''thread.labels''])]"
definition jl_wf :: "str \<Rightarrow> json" where "jl_wf w = JObj [(''=='', JArr [jl_var ''signal.workflow'', JStr w])]"
definition jl_wfData :: "str \<Rightarrow> json" where "jl_wfData f = jl_var (''signal.workflowData.'' @ f)"
definition jl_signalField :: "str \<Rightarrow> json" where "jl_signalField f = jl_var (''signal.'' @ f)"
definition jl_all :: "json list \<Rightarrow> json" where "jl_all cs = JObj [(''and'', JArr cs)]"
definition jl_is :: "json \<Rightarrow> json \<Rightarrow> json" where "jl_is x v = JObj [(''=='', JArr [x, v])]"
definition jl_one_of :: "json \<Rightarrow> str list \<Rightarrow> json" where "jl_one_of x vs = JObj [(''in'', JArr [x, JArr (map JStr vs)])]"
definition jl_not_replied :: json where "jl_not_replied = JObj [(''!'', jl_in ''system:replied'')]"

definition rule_action :: "str \<Rightarrow> str option \<Rightarrow> json" where
  "rule_action ty v = JObj ((''type'', JStr ty) # (case v of None \<Rightarrow> [] | Some x \<Rightarrow> [(''value'', JStr x)]))"

definition system_rule :: "str \<Rightarrow> str \<Rightarrow> json \<Rightarrow> str \<Rightarrow> str option \<Rightarrow> int \<Rightarrow> attrs" where
  "system_rule i name cond ty v p =
     obj [(''id'', JStr i), (''accountId'', JStr ''SYSTEM''), (''name'', JStr name), (''condition'', JStr (json_text cond)),
          (''actions'', JArr [rule_action ty v]), (''status'', JStr ''enabled''), (''priorityOrder'', JNum p),
          (''createdAt'', JStr []), (''updatedAt'', JStr [])]"

definition SYSTEM_RULES :: "attrs list" where
  "SYSTEM_RULES =
     [system_rule ''SR-01'' ''Auto-approve sender on matched conversation''
        (jl_all [jl_wf ''conversation'', jl_in ''system:sender:untrusted'', jl_var ''isMatchedThread'']) ''approve_sender'' None 100,
      system_rule ''SR-02'' ''Show onboarding emails with action URL in quarantine''
        (jl_all [jl_wf ''onboarding'', jl_in ''system:action'']) ''quarantine_visible'' None 200,
      system_rule ''SR-03'' ''Block onboarding emails'' (jl_wf ''onboarding'') ''quarantine_hidden'' None 300,
      system_rule ''SR-04'' ''Block notice emails'' (jl_wf ''notice'') ''block_hidden'' None 400,
      system_rule ''SR-05'' ''Quarantine security alert emails'' (jl_in ''system:auth:security_alert'') ''quarantine_hidden'' None 500,
      system_rule ''SR-06'' ''Suppress notification for content emails'' (jl_wf ''content'') ''suppress_notification'' None 600,
      system_rule ''SR-07'' ''Conversation: high urgency when reply needed and urgent/negative''
        (jl_all [jl_wf ''conversation'', jl_is (jl_wfData ''requiresReply'') (JBool True),
               jl_one_of (jl_wfData ''sentiment'') [''urgent'', ''negative'']]) ''set_urgency'' (Some ''high'') 700,
      system_rule ''SR-08'' ''Conversation: low urgency when user has never replied''
        (jl_all [jl_wf ''conversation'', jl_not_replied]) ''set_urgency'' (Some ''low'') 800,
      system_rule ''SR-09'' ''CRM: normal urgency'' (jl_all [jl_wf ''crm'']) ''set_urgency'' (Some ''normal'') 900,
      system_rule ''SR-10'' ''Support: critical urgency for urgent-priority tickets''
        (jl_all [jl_wf ''support'', jl_is (jl_wfData ''priority'') (JStr ''urgent'')]) ''set_urgency'' (Some ''critical'') 1000,
      system_rule ''SR-11'' ''Support: high urgency for high-priority tickets''
        (jl_all [jl_wf ''support'', jl_is (jl_wfData ''priority'') (JStr ''high'')]) ''set_urgency'' (Some ''high'') 1100,
      system_rule ''SR-12'' ''Support: high urgency when agent is awaiting response''
        (jl_all [jl_wf ''support'', jl_is (jl_wfData ''eventType'') (JStr ''awaiting_response'')]) ''set_urgency'' (Some ''high'') 1200,
      system_rule ''SR-13'' ''Support: low urgency for low-priority tickets''
        (jl_all [jl_wf ''support'', jl_is (jl_wfData ''priority'') (JStr ''low''), jl_not_replied]) ''set_urgency'' (Some ''low'') 1300,
      system_rule ''SR-14'' ''Support: low urgency for passive lifecycle events''
        (jl_all [jl_wf ''support'', jl_one_of (jl_wfData ''eventType'') [''ticket_opened'', ''ticket_resolved'', ''ticket_closed''],
               jl_not_replied]) ''set_urgency'' (Some ''low'') 1400,
      system_rule ''SR-16'' ''Forward calendar invite to user's real calendar''
        (jl_is (jl_signalField ''hasCalendarInvite'') (JBool True)) ''forwardCalendarInvite'' None 1600]"

section \<open>The built-in account\<close>

definition SYSTEM_ACCOUNT_ID :: str where "SYSTEM_ACCOUNT_ID = ''SYSTEM''"

definition isSystemAccount :: "str \<Rightarrow> bool" where "isSystemAccount a \<longleftrightarrow> a = SYSTEM_ACCOUNT_ID"

definition BUILT_IN :: str where "BUILT_IN = ''2025-01-01T00:00:00.000Z''"

definition system_account :: attrs where
  "system_account =
     obj [(''id'', JStr SYSTEM_ACCOUNT_ID), (''name'', JStr ''System''), (''timezone'', JStr ''Europe/London''),
          (''retentionDuration'', JStr ''P7D''),
          (''filtering'', JObj [(''defaultUnknownSenderPolicy'', JStr ''allow_all'')]), (''digest'', JNull),
          (''onboarding'', JObj [(''completed'', JBool True), (''testEmailReceived'', JBool True)]),
          (''billingPlan'', JStr ''Free''), (''createdAt'', JStr BUILT_IN), (''updatedAt'', JStr BUILT_IN)]"

definition system_domain :: "str \<Rightarrow> attrs" where
  "system_domain d =
     obj [(''accountId'', JStr SYSTEM_ACCOUNT_ID), (''domain'', JStr d), (''receivingSetupComplete'', JBool True),
          (''senderSetupComplete'', JBool True), (''receivingHealthy'', JBool True), (''senderHealthy'', JBool True),
          (''createdAt'', JStr BUILT_IN), (''updatedAt'', JStr BUILT_IN)]"

definition healthcheckSubdomain :: "str \<Rightarrow> str" where "healthcheckSubdomain mail = ''healthcheck.'' @ mail"

definition system_domain_by_name :: "str \<Rightarrow> str \<Rightarrow> attrs option" where
  "system_domain_by_name mail d =
     (if d = mail then Some (system_domain mail)
      else if d = healthcheckSubdomain mail then Some (system_domain (healthcheckSubdomain mail)) else None)"

definition system_alias :: "str \<Rightarrow> str \<Rightarrow> attrs option" where
  "system_alias mail address =
     (let al = \<lambda>i d. obj [(''id'', JStr i), (''accountId'', JStr SYSTEM_ACCOUNT_ID), (''aliasAddress'', JStr address),
                (''domain'', JStr d), (''aliasName'', JStr ''healthcheck''), (''unknownSenderPolicy'', JStr ''allow_all''),
                (''createdAt'', JStr BUILT_IN), (''updatedAt'', JStr BUILT_IN)]
      in if address = ''healthcheck@'' @ mail then Some (al ''system-healthcheck'' mail)
         else if address = ''healthcheck@healthcheck.'' @ mail
         then Some (al ''system-healthcheck-subdomain'' (healthcheckSubdomain mail))
         else None)"

section \<open>Keys\<close>

definition acct :: "str \<Rightarrow> str" where "acct a = ''ACCT#'' @ a"

text \<open>\<open>lastIndexOf\<close> is \<open>-1\<close> or an index; anything below 1 throws. First the domain, then the name.\<close>

definition parseAddress :: "str \<Rightarrow> (str \<times> str) db" where
  "parseAddress address =
     (case last_index_of CHR ''@'' address of
        None \<Rightarrow> raise_db (''Invalid email address: '' @ address)
      | Some i \<Rightarrow>
          if i < 1 then raise_db (''Invalid email address: '' @ address)
          else give (drop (Suc i) address, take i address))"

definition alias_sk :: "str \<Rightarrow> str \<Rightarrow> str" where "alias_sk domain address = ''ALIAS#'' @ domain @ ''#'' @ address"

definition sender_prefix :: "str \<Rightarrow> str \<Rightarrow> str" where
  "sender_prefix domain address = ''SENDER#'' @ domain @ ''#'' @ address @ ''#''"

definition ruleGsi1sk :: "str \<Rightarrow> int \<Rightarrow> str \<Rightarrow> str" where
  "ruleGsi1sk st p i =
     (let n = json_text (JNum p) in ''RULE#'' @ st @ ''#'' @ replicate (6 - length n) CHR ''0'' @ n @ ''#'' @ i)"

text \<open>\<open>if (update.x !== undefined) set x\<close> for each listed attribute; \<open>null\<close> removes the listed ones\<close>

definition setting :: "str list \<Rightarrow> attrs \<Rightarrow> attrs \<Rightarrow> attrs" where
  "setting ks u a = (\<lambda>k. if k \<in> set ks \<and> u k \<noteq> JUndefined then u k else a k)"

definition removing_null :: "str list \<Rightarrow> attrs \<Rightarrow> attrs \<Rightarrow> attrs" where
  "removing_null ks u a =
     (\<lambda>k. if k \<in> set ks then (if u k = JNull then JUndefined else if u k = JUndefined then a k else u k) else a k)"

definition the_row :: "str \<Rightarrow> str \<Rightarrow> attrs option db" where
  "the_row a sk = request (GetItem (acct a) sk)"

definition drop_row :: "str \<Rightarrow> str \<Rightarrow> unit db" where
  "drop_row a sk = request (DeleteItem (acct a) sk)"

definition listing :: "str \<Rightarrow> str \<Rightarrow> attrs list db" where
  "listing a pre = request (Query (acct a) pre)"

section \<open>Accounts\<close>

definition falsy :: "json \<Rightarrow> bool" where
  "falsy j \<longleftrightarrow> j \<in> {JUndefined, JNull, JBool False, JStr [], JNum 0}"

definition with_defaults :: "attrs \<Rightarrow> attrs" where
  "with_defaults r =
     (let r = (if falsy (r ''timezone'') then r(''timezone'' := JStr DEFAULT_TIMEZONE) else r)
      in if falsy (r ''ambiguousDateFormat'') then r(''ambiguousDateFormat'' := JStr ''skip'') else r)"

definition getAccount :: "str \<Rightarrow> attrs option db" where
  "getAccount a =
     (if isSystemAccount a then give (Some system_account)
      else on (the_row a ''META'') (\<lambda>x. give (map_option with_defaults x)))"

definition createAccount :: "attrs \<Rightarrow> attrs db" where
  "createAccount r =
     (let a = text_of (r ''id'')
      in on (request (PutItemIf (\<lambda>x. x = None) (acct a) ''META'' (r(''gsi1pk'' := JStr ''META'', ''gsi1sk'' := JStr (acct a)))))
           (\<lambda>_. give r))"

definition updateAccount :: "str \<Rightarrow> attrs \<Rightarrow> attrs db" where
  "updateAccount a u =
     on now (\<lambda>t. request (UpdateItem (acct a) ''META'' (\<lambda>r.
       (removing_null [''digest'', ''defaultCalendarInviteForwardingTargetId''] u
         (setting [''name'', ''retentionDuration'', ''filtering'', ''onboarding'', ''timezone'', ''ambiguousDateFormat''] u r))
         (''updatedAt'' := JStr t, ''gsi1pk'' := JStr ''META'', ''gsi1sk'' := JStr (acct a)))))"

definition getAccountFilteringConfig :: "str \<Rightarrow> json db" where
  "getAccountFilteringConfig a =
     on (getAccount a) (\<lambda>x. give (either (case x of Some r \<Rightarrow> r ''filtering'' | None \<Rightarrow> JUndefined) JNull))"

definition queryAllAccountMetas :: "attrs list db" where
  "queryAllAccountMetas =
     on (request (QueryIndex ''META'' [])) (\<lambda>xs. give (map (\<lambda>r. obj [(''id'', r ''id''), (''digest'', r ''digest'')]) xs))"

section \<open>Senders\<close>

definition saveSender :: "str \<Rightarrow> str \<Rightarrow> str \<Rightarrow> str option \<Rightarrow> unit db" where
  "saveSender a address senderDomain policy =
     on (parseAddress address) (\<lambda>(domain, name).
     on now (\<lambda>t.
       request (PutItem (acct a) (sender_prefix domain address @ senderDomain)
         (obj [(''gsi1pk'', JStr (''SENDER#'' @ senderDomain)),
               (''gsi1sk'', JStr (''ACCT#'' @ a @ ''#ALIAS#'' @ address)),
               (''accountId'', JStr a), (''aliasAddress'', JStr address), (''domain'', JStr domain),
               (''aliasName'', JStr name), (''senderDomain'', JStr senderDomain),
               (''policy'', JStr (nullish policy ''allow'')), (''addedAt'', JStr t)]))))"

definition removeSender :: "str \<Rightarrow> str \<Rightarrow> str \<Rightarrow> unit db" where
  "removeSender a address senderDomain =
     on (parseAddress address) (\<lambda>(domain, _). drop_row a (sender_prefix domain address @ senderDomain))"

definition getSender :: "str \<Rightarrow> str \<Rightarrow> str \<Rightarrow> attrs option db" where
  "getSender a address senderDomain =
     (if isSystemAccount a then give None
      else on (parseAddress address) (\<lambda>(domain, _). the_row a (sender_prefix domain address @ senderDomain)))"

definition listSenders :: "str \<Rightarrow> str \<Rightarrow> attrs list db" where
  "listSenders a address = on (parseAddress address) (\<lambda>(domain, _). listing a (sender_prefix domain address))"

section \<open>Aliases\<close>

definition getAlias :: "str \<Rightarrow> str \<Rightarrow> attrs option db" where
  "getAlias a address = on (parseAddress address) (\<lambda>(domain, _). the_row a (alias_sk domain address))"

definition getAliasByGlobalAddress :: "str \<Rightarrow> attrs option db" where
  "getAliasByGlobalAddress address =
     on mail_domain (\<lambda>mail.
       case system_alias mail address of
         Some al \<Rightarrow> give (Some al)
       | None \<Rightarrow>
           on (parseAddress address) (\<lambda>(domain, _).
           on (request (QueryIndex (alias_sk domain address) [])) (\<lambda>xs.
             give (case xs of [] \<Rightarrow> None | x # _ \<Rightarrow> Some x))))"

definition alias_attrs :: "attrs \<Rightarrow> str \<Rightarrow> str \<Rightarrow> attrs" where
  "alias_attrs al domain name =
     al(''domain'' := JStr domain, ''aliasName'' := JStr name,
        ''gsi1pk'' := JStr (alias_sk domain (text_of (al ''aliasAddress''))), ''gsi1sk'' := JStr (acct (text_of (al ''accountId''))))"

definition saveAlias :: "attrs \<Rightarrow> attrs db" where
  "saveAlias al =
     on (parseAddress (text_of (al ''aliasAddress''))) (\<lambda>(domain, name).
     on (request (PutItem (acct (text_of (al ''accountId''))) (alias_sk domain (text_of (al ''aliasAddress'')))
           (alias_attrs al domain name))) (\<lambda>_. give al))"

definition createAlias :: "attrs \<Rightarrow> attrs db" where "createAlias al = saveAlias al"
definition upsertAlias :: "attrs \<Rightarrow> attrs db" where "upsertAlias al = saveAlias al"

text \<open>\<open>emxId = None\<close> removes the attribute; a missing alias stays missing.\<close>

definition updateAlias :: "str \<Rightarrow> str \<Rightarrow> str option \<Rightarrow> attrs option db" where
  "updateAlias a address emxId =
     on (parseAddress address) (\<lambda>(domain, _).
     on now (\<lambda>t.
     on (send (UpdateItemIf (\<lambda>x. x \<noteq> None) (acct a) (alias_sk domain address)
           (\<lambda>r. r(''emxId'' := (case emxId of None \<Rightarrow> JUndefined | Some i \<Rightarrow> JStr i), ''updatedAt'' := JStr t))))
       (\<lambda>x. case x of
              Inr r \<Rightarrow> give (Some r)
            | Inl m \<Rightarrow> if m = CONDITION_FAILED then give None else deny (DbError m False))))"

text \<open>\<open>split("@")[0]\<close> and \<open>split("@")[1]\<close>\<close>

definition part_of :: "nat \<Rightarrow> str \<Rightarrow> json" where
  "part_of n address = (let ps = split_on CHR ''@'' address in if n < length ps then JStr (ps ! n) else JUndefined)"

definition opt_text :: "str option \<Rightarrow> json" where
  "opt_text x = (case x of None \<Rightarrow> JUndefined | Some s \<Rightarrow> JStr s)"

definition new_alias :: "str \<Rightarrow> str \<Rightarrow> str \<Rightarrow> str \<Rightarrow> str option \<Rightarrow> attrs" where
  "new_alias a address policy t emxId =
     obj [(''id'', JStr address), (''accountId'', JStr a), (''aliasAddress'', JStr address), (''domain'', part_of 1 address),
          (''aliasName'', part_of 0 address), (''unknownSenderPolicy'', JStr policy), (''createdAt'', JStr t),
          (''updatedAt'', JStr t), (''emxId'', opt_text emxId)]"

text \<open>\<open>existing\<close> is \<open>None\<close> when the caller has not looked.\<close>

definition ensureAlias :: "str \<Rightarrow> str \<Rightarrow> str \<Rightarrow> attrs option option \<Rightarrow> str option \<Rightarrow> (attrs \<times> bool) db" where
  "ensureAlias a address policy existing emxId =
     on (case existing of None \<Rightarrow> getAlias a address | Some x \<Rightarrow> give x) (\<lambda>found.
       case found of
         Some al \<Rightarrow>
           (if emxId \<noteq> None \<and> al ''emxId'' \<noteq> opt_text emxId
            then on (updateAlias a address emxId) (\<lambda>u. give (case u of Some x \<Rightarrow> (x, False) | None \<Rightarrow> (al, False)))
            else give (al, False))
       | None \<Rightarrow>
           on now (\<lambda>t. on (saveAlias (new_alias a address policy t emxId)) (\<lambda>x. give (x, True))))"

definition listAliases :: "str \<Rightarrow> attrs list db" where "listAliases a = listing a ''ALIAS#''"

definition listAliasesForDomain :: "str \<Rightarrow> str \<Rightarrow> attrs list db" where
  "listAliasesForDomain a domain = listing a (''ALIAS#'' @ domain @ ''#'')"

definition BATCH_WRITE_LIMIT :: nat where "BATCH_WRITE_LIMIT = 25"

function chunk :: "'a list \<Rightarrow> nat \<Rightarrow> 'a list list" where
  "chunk xs n = (if xs = [] \<or> n = 0 then [] else take n xs # chunk (drop n xs) n)"
  by pat_completeness auto
termination by (relation "measure (\<lambda>(xs, n). length xs)") auto

declare chunk.simps [simp del]

definition sender_sk :: "attrs \<Rightarrow> str" where
  "sender_sk s = sender_prefix (text_of (s ''domain'')) (text_of (s ''aliasAddress'')) @ text_of (s ''senderDomain'')"

text \<open>The chunks are sent in parallel in the code and one after the other here.\<close>

definition batchDeleteSenders :: "str \<Rightarrow> attrs list \<Rightarrow> unit db" where
  "batchDeleteSenders a senders = each (\<lambda>b. BatchDelete (acct a) (map sender_sk b)) (chunk senders BATCH_WRITE_LIMIT)"

definition deleteAlias :: "str \<Rightarrow> str \<Rightarrow> unit db" where
  "deleteAlias a address =
     on (parseAddress address) (\<lambda>(domain, _).
     on (listSenders a address) (\<lambda>senders.
     on (batchDeleteSenders a senders) (\<lambda>_. drop_row a (alias_sk domain address))))"

definition renameAlias :: "str \<Rightarrow> str \<Rightarrow> str \<Rightarrow> attrs db" where
  "renameAlias a old new =
     on (getAlias a old) (\<lambda>found.
       case found of
         None \<Rightarrow> deny (NotFoundError ''alias'' old)
       | Some al \<Rightarrow>
           on (listSenders a old) (\<lambda>senders.
           on (parseAddress new) (\<lambda>(domain, name).
           on now (\<lambda>t.
           let renamed = al(''aliasAddress'' := JStr new, ''domain'' := JStr domain, ''aliasName'' := JStr name,
                            ''updatedAt'' := JStr t)
           in on (saveAlias renamed) (\<lambda>_.
              on (each (\<lambda>s. saveSender a new (text_of (s ''senderDomain'')) None) senders) (\<lambda>_.
              on (deleteAlias a old) (\<lambda>_. give renamed)))))))"

section \<open>Views\<close>

definition num_of :: "json \<Rightarrow> int" where "num_of j = (case j of JNum n \<Rightarrow> n | _ \<Rightarrow> 0)"

definition by_number :: "str \<Rightarrow> attrs list \<Rightarrow> attrs list" where
  "by_number k = sort_by (le_by (\<lambda>r. num_of (r k)))"

text \<open>\<open>xs.length > 0 ? Math.max(...) + 1 : d\<close>\<close>

definition next_number :: "str \<Rightarrow> int \<Rightarrow> attrs list \<Rightarrow> int" where
  "next_number k d xs = (case map (\<lambda>r. num_of (r k)) xs of [] \<Rightarrow> d | n # ns \<Rightarrow> foldl max n ns + 1)"

definition listViews :: "str \<Rightarrow> attrs list db" where
  "listViews a = on (listing a ''VIEW#'') (\<lambda>xs. give (by_number ''position'' xs))"

definition getView :: "str \<Rightarrow> str \<Rightarrow> attrs option db" where "getView a i = the_row a (''VIEW#'' @ i)"

definition createView :: "str \<Rightarrow> attrs \<Rightarrow> attrs db" where
  "createView a d =
     on (listViews a) (\<lambda>views.
     on now (\<lambda>t.
     on fresh (\<lambda>n.
     let i = ''view-'' @ n;
         view = obj [(''id'', JStr i), (''accountId'', JStr a), (''name'', d ''name''), (''workflow'', d ''workflow''),
                     (''labels'', either (d ''labels'') (JArr [])), (''sortField'', either (d ''sortField'') (JStr ''lastSignalAt'')),
                     (''sortDirection'', either (d ''sortDirection'') (JStr ''desc'')), (''icon'', d ''icon''), (''color'', d ''color''),
                     (''position'', either (d ''position'') (JNum (next_number ''position'' 0 views))),
                     (''createdAt'', JStr t), (''updatedAt'', JStr t)]
     in on (request (PutItem (acct a) (''VIEW#'' @ i) view)) (\<lambda>_. give view))))"

definition updateView :: "str \<Rightarrow> str \<Rightarrow> attrs \<Rightarrow> attrs db" where
  "updateView a i d =
     on now (\<lambda>t. request (UpdateItem (acct a) (''VIEW#'' @ i) (\<lambda>r.
       (setting [''name'', ''workflow'', ''labels'', ''sortField'', ''sortDirection'', ''icon'', ''color'', ''position''] d r)
         (''updatedAt'' := JStr t))))"

definition deleteView :: "str \<Rightarrow> str \<Rightarrow> unit db" where "deleteView a i = drop_row a (''VIEW#'' @ i)"

definition reorderViews :: "str \<Rightarrow> str list \<Rightarrow> unit db" where
  "reorderViews a ids =
     each (\<lambda>(p, i). on (request (UpdateItem (acct a) (''VIEW#'' @ i) (\<lambda>r. r(''position'' := JNum (int p))))) (\<lambda>_. give ()))
       (List.enumerate 0 ids)"

section \<open>Labels\<close>

definition listLabels :: "str \<Rightarrow> attrs list db" where
  "listLabels a =
     on (listing a ''LABEL#'') (\<lambda>xs.
       give (map (\<lambda>r. if falsy (r ''applyInstruction'') then r(''applyInstruction'' := JStr []) else r) xs))"

definition createLabel :: "str \<Rightarrow> attrs \<Rightarrow> attrs db" where
  "createLabel a d =
     on now (\<lambda>t.
     let label = obj [(''id'', d ''name''), (''accountId'', JStr a), (''name'', d ''name''),
                      (''applyInstruction'', d ''applyInstruction''), (''color'', d ''color''), (''icon'', d ''icon''),
                      (''createdAt'', JStr t)]
     in on (request (PutItem (acct a) (''LABEL#'' @ text_of (d ''name'')) label)) (\<lambda>_. give label))"

definition updateLabel :: "str \<Rightarrow> str \<Rightarrow> attrs \<Rightarrow> attrs option db" where
  "updateLabel a i d =
     (if d ''color'' = JUndefined \<and> d ''icon'' = JUndefined then the_row a (''LABEL#'' @ i)
      else on (request (UpdateItem (acct a) (''LABEL#'' @ i) (setting [''color'', ''icon''] d))) (\<lambda>r. give (Some r)))"

definition deleteLabel :: "str \<Rightarrow> str \<Rightarrow> unit db" where "deleteLabel a i = drop_row a (''LABEL#'' @ i)"

section \<open>Rules\<close>

definition rule_id :: "attrs \<Rightarrow> str" where "rule_id r = text_of (r ''id'')"
definition is_system_id :: "attrs \<Rightarrow> bool" where "is_system_id r \<longleftrightarrow> starts_with (rule_id r) ''SR-''"

definition overridden :: "attrs list \<Rightarrow> attrs \<Rightarrow> attrs" where
  "overridden stored sr =
     (case List.find (\<lambda>r. rule_id r = rule_id sr) (rev (filter is_system_id stored)) of
        Some x \<Rightarrow> sr(''status'' := x ''status'', ''priorityOrder'' := x ''priorityOrder'')
      | None \<Rightarrow> sr)"

text \<open>A row without an \<open>id\<close> makes the listing throw, inside the \<open>try\<close>.\<close>

definition listRules :: "str \<Rightarrow> attrs list db" where
  "listRules a =
     on (request (QueryIndex (acct a) ''RULE#'')) (\<lambda>stored.
       if \<exists>r \<in> set stored. \<not> is_text (r ''id'') then deny (DbError ''TypeError'' False)
       else give (by_number ''priorityOrder'' (map (overridden stored) SYSTEM_RULES @ filter (\<lambda>r. \<not> is_system_id r) stored)))"

definition listEnabledRules :: "str \<Rightarrow> attrs list db" where
  "listEnabledRules a =
     (if isSystemAccount a then give (filter (\<lambda>r. r ''status'' = JStr ''enabled'') SYSTEM_RULES)
      else on (listRules a) (\<lambda>xs. give (filter (\<lambda>r. r ''status'' = JStr ''enabled'') xs)))"

definition rule_row :: "str \<Rightarrow> str \<Rightarrow> attrs \<Rightarrow> attrs" where
  "rule_row a i r =
     r(''gsi1pk'' := JStr (acct a),
       ''gsi1sk'' := JStr (ruleGsi1sk (text_of (r ''status'')) (num_of (r ''priorityOrder'')) i))"

definition upsertSystemRuleOverride :: "str \<Rightarrow> str \<Rightarrow> json \<Rightarrow> json \<Rightarrow> unit db" where
  "upsertSystemRuleOverride a i st p =
     (case List.find (\<lambda>r. rule_id r = i) SYSTEM_RULES of
        None \<Rightarrow> deny (DbError (''Unknown system rule: '' @ i) False)
      | Some sr \<Rightarrow>
          on (the_row a (''RULE#'' @ i)) (\<lambda>existing.
          let old = (\<lambda>k. case existing of Some r \<Rightarrow> r k | None \<Rightarrow> JUndefined);
              r = sr(''accountId'' := JStr a, ''status'' := either st (either (old ''status'') (sr ''status'')),
                     ''priorityOrder'' := either p (either (old ''priorityOrder'') (sr ''priorityOrder'')))
          in request (PutItem (acct a) (''RULE#'' @ i) (rule_row a i r))))"

definition createRule :: "str \<Rightarrow> attrs \<Rightarrow> attrs db" where
  "createRule a d =
     on (listRules a) (\<lambda>rules.
     on now (\<lambda>t.
     on fresh (\<lambda>n.
     let i = ''rule-'' @ n;
         rule = obj [(''id'', JStr i), (''accountId'', JStr a), (''name'', d ''name''),
                     (''condition'', either (d ''condition'') (JStr [])), (''conditionType'', d ''conditionType''),
                     (''actions'', d ''actions''), (''status'', JStr ''enabled''),
                     (''priorityOrder'', either (d ''priorityOrder'')
                        (JNum (next_number ''priorityOrder'' 1801 (filter (\<lambda>r. \<not> is_system_id r) rules)))),
                     (''tags'', d ''tags''), (''createdAt'', JStr t), (''updatedAt'', JStr t)]
     in on (request (PutItem (acct a) (''RULE#'' @ i) (rule_row a i rule))) (\<lambda>_. give rule))))"

text \<open>
  The status and the priority of the index key: the given one or the stored one; reading them of a row
  that is not there throws, outside the \<open>try\<close>, and so does a priority that is missing in both.
\<close>

definition merged :: "attrs option \<Rightarrow> attrs \<Rightarrow> str \<Rightarrow> json db" where
  "merged existing d k =
     (if d k \<noteq> JUndefined \<and> d k \<noteq> JNull then give (d k)
      else (case existing of None \<Rightarrow> raise_db ''TypeError'' | Some r \<Rightarrow> give (r k)))"

definition rule_changed :: "str \<Rightarrow> str \<Rightarrow> attrs \<Rightarrow> str \<Rightarrow> json \<Rightarrow> int \<Rightarrow> attrs \<Rightarrow> attrs" where
  "rule_changed a i d t st n r =
     (setting [''name'', ''condition'', ''conditionType'', ''actions'', ''priorityOrder'', ''status'', ''tags''] d r)
       (''updatedAt'' := JStr t, ''gsi1pk'' := JStr (acct a),
        ''gsi1sk'' := JStr (ruleGsi1sk (if st = JUndefined then ''undefined'' else text_of st) n i),
        ''lastError'' := (if d ''lastError'' = JNull then JUndefined else r ''lastError''))"

definition updateRule :: "str \<Rightarrow> str \<Rightarrow> attrs \<Rightarrow> attrs db" where
  "updateRule a i d =
     on (the_row a (''RULE#'' @ i)) (\<lambda>existing.
     on now (\<lambda>t.
     on (merged existing d ''status'') (\<lambda>st.
     on (merged existing d ''priorityOrder'') (\<lambda>p.
       case p of
         JNum n \<Rightarrow> request (UpdateItem (acct a) (''RULE#'' @ i) (rule_changed a i d t st n))
       | _ \<Rightarrow> raise_db ''TypeError''))))"

definition deleteRule :: "str \<Rightarrow> str \<Rightarrow> unit db" where "deleteRule a i = drop_row a (''RULE#'' @ i)"

definition annotateRuleError :: "str \<Rightarrow> str \<Rightarrow> str \<Rightarrow> unit db" where
  "annotateRuleError a i m =
     on now (\<lambda>t. on (request (UpdateItem (acct a) (''RULE#'' @ i)
       (\<lambda>r. r(''lastError'' := JStr m, ''updatedAt'' := JStr t)))) (\<lambda>_. give ()))"

section \<open>Domains\<close>

definition domain_sk :: "str \<Rightarrow> str" where "domain_sk d = ''DOMAIN#'' @ d"

definition listDomains :: "str \<Rightarrow> attrs list db" where
  "listDomains a =
     (if isSystemAccount a
      then on mail_domain (\<lambda>m. give [system_domain m, system_domain (healthcheckSubdomain m)])
      else on (listing a ''DOMAIN#'') (\<lambda>xs. give (filter (\<lambda>r. r ''status'' \<noteq> JStr ''deleted'') xs)))"

definition getDomain :: "str \<Rightarrow> str \<Rightarrow> attrs option db" where
  "getDomain a d =
     on (the_row a (domain_sk d)) (\<lambda>x.
       give (case x of Some r \<Rightarrow> if r ''status'' = JStr ''deleted'' then None else Some r | None \<Rightarrow> None))"

definition getDomainByName :: "str \<Rightarrow> str \<Rightarrow> attrs option db" where
  "getDomainByName a d =
     (if isSystemAccount a then on mail_domain (\<lambda>m. give (system_domain_by_name m d)) else getDomain a d)"

definition new_domain :: "str \<Rightarrow> str \<Rightarrow> str \<Rightarrow> attrs" where
  "new_domain a d t =
     obj [(''accountId'', JStr a), (''domain'', JStr d), (''status'', JStr ''active''),
          (''receivingSetupComplete'', JBool False), (''senderSetupComplete'', JBool False),
          (''createdAt'', JStr t), (''updatedAt'', JStr t)]"

definition domain_row :: "str \<Rightarrow> str \<Rightarrow> str \<Rightarrow> attrs" where
  "domain_row a d t = (new_domain a d t)(''gsi1pk'' := JStr (domain_sk d), ''gsi1sk'' := JStr (acct a))"

text \<open>A new domain or the account's own deleted one; an active one is returned as it is.\<close>

definition createDomain :: "str \<Rightarrow> str \<Rightarrow> attrs db" where
  "createDomain a d =
     on now (\<lambda>t.
     on (send (PutItemIf (\<lambda>x. case x of None \<Rightarrow> True | Some r \<Rightarrow> r ''status'' = JStr ''deleted'')
           (acct a) (domain_sk d) (domain_row a d t))) (\<lambda>x.
       case x of
         Inr _ \<Rightarrow> give (new_domain a d t)
       | Inl m \<Rightarrow>
           (if m = CONDITION_FAILED
            then on (getDomain a d) (\<lambda>y. case y of Some r \<Rightarrow> give r | None \<Rightarrow> deny (DbError m False))
            else deny (DbError m False))))"

definition deleteDomain :: "str \<Rightarrow> str \<Rightarrow> unit db" where
  "deleteDomain a d =
     on now (\<lambda>t. on (request (UpdateItem (acct a) (domain_sk d)
       (\<lambda>r. r(''status'' := JStr ''deleted'', ''updatedAt'' := JStr t)))) (\<lambda>_. give ()))"

text \<open>The oldest registration, deleted ones included\<close>

definition getDomainOwner :: "str \<Rightarrow> attrs option db" where
  "getDomainOwner d =
     on mail_domain (\<lambda>m.
       case system_domain_by_name m d of
         Some x \<Rightarrow> give (Some x)
       | None \<Rightarrow>
           on (request (QueryIndex (domain_sk d) [])) (\<lambda>xs.
             give (case sort_by (le_by (\<lambda>r. text_of (r ''createdAt''))) xs of [] \<Rightarrow> None | x # _ \<Rightarrow> Some x)))"

definition resolveAccountForDomain :: "str \<Rightarrow> str option db" where
  "resolveAccountForDomain d = on (getDomainOwner d) (\<lambda>x. give (map_option (\<lambda>r. text_of (r ''accountId'')) x))"

definition updateDomainHealth :: "str \<Rightarrow> str \<Rightarrow> bool \<Rightarrow> bool \<Rightarrow> str list \<Rightarrow> str \<Rightarrow> str option \<Rightarrow> unit db" where
  "updateDomainHealth a d rec_ok send_ok failing checked healthy =
     on (request (UpdateItem (acct a) (domain_sk d) (\<lambda>r.
       (setting [''lastHealthyAt''] (obj [(''lastHealthyAt'', if truthy healthy then opt_text healthy else JUndefined)]) r)
         (''receivingHealthy'' := JBool rec_ok, ''senderHealthy'' := JBool send_ok,
          ''failingRecords'' := JArr (map JStr failing), ''lastCheckedAt'' := JStr checked, ''updatedAt'' := JStr checked))))
       (\<lambda>_. give ())"

definition updateDomainSetup :: "str \<Rightarrow> str \<Rightarrow> bool option \<Rightarrow> bool option \<Rightarrow> unit db" where
  "updateDomainSetup a d rec_ok send_ok =
     on now (\<lambda>t. on (request (UpdateItem (acct a) (domain_sk d) (\<lambda>r.
       (setting [''receivingSetupComplete'', ''senderSetupComplete'']
          (obj [(''receivingSetupComplete'', case rec_ok of None \<Rightarrow> JUndefined | Some b \<Rightarrow> JBool b),
                (''senderSetupComplete'', case send_ok of None \<Rightarrow> JUndefined | Some b \<Rightarrow> JBool b)]) r)
         (''updatedAt'' := JStr t)))) (\<lambda>_. give ()))"

text \<open>A scan of the table, grouped by account in the order of appearance\<close>

definition Scan :: "(row \<Rightarrow> bool) \<Rightarrow> attrs list request" where
  "Scan c rs = (Inr (map rw_attrs (filter c rs)), rs)"

definition scanned_domain :: "row \<Rightarrow> bool" where
  "scanned_domain r \<longleftrightarrow> starts_with (rw_sk r) ''DOMAIN#'' \<and> \<not> sublist ''#ALIAS#'' (rw_sk r) \<and>
     rw_attrs r ''status'' \<noteq> JStr ''deleted''"

definition scanAllDomains :: "(str \<times> attrs list) list db" where
  "scanAllDomains =
     on (request (Scan scanned_domain)) (\<lambda>xs.
       let owner = (\<lambda>r. text_of (r ''accountId''))
       in give (map (\<lambda>a. (a, filter (\<lambda>r. owner r = a) xs)) (rev (remdups (rev (map owner xs))))))"

section \<open>Forwarding targets, templates, connections\<close>

definition listForwardingTargets :: "str \<Rightarrow> attrs list db" where "listForwardingTargets a = listing a ''FWDADDR#''"

definition getForwardingTarget :: "str \<Rightarrow> str \<Rightarrow> attrs option db" where
  "getForwardingTarget a target = the_row a (''FWDADDR#'' @ target)"

definition saveForwardingTarget :: "attrs \<Rightarrow> unit db" where
  "saveForwardingTarget r =
     request (PutItem (acct (text_of (r ''accountId''))) (''FWDADDR#'' @ text_of (r ''target'')) r)"

definition deleteForwardingTarget :: "str \<Rightarrow> str \<Rightarrow> unit db" where
  "deleteForwardingTarget a target = drop_row a (''FWDADDR#'' @ target)"

text \<open>The values of the forward actions of a rule\<close>

definition forward_values :: "json \<Rightarrow> json list" where
  "forward_values acts =
     (case acts of
        JArr xs \<Rightarrow> List.map_filter (\<lambda>x. case x of JObj o1 \<Rightarrow> if jfield o1 ''type'' = JStr ''forward'' then Some (jfield o1 ''value'') else None
                                             | _ \<Rightarrow> None) xs
      | _ \<Rightarrow> [])"

definition disableRulesForwardingTo :: "str \<Rightarrow> str \<Rightarrow> str list db" where
  "disableRulesForwardingTo a target =
     on (listRules a) (\<lambda>rules.
     let ids = map rule_id (filter (\<lambda>r. JStr target \<in> set (forward_values (r ''actions''))) rules)
     in on (each (\<lambda>i. on (updateRule a i (obj [(''status'', JStr ''disabled'')])) (\<lambda>_. give ())) ids) (\<lambda>_. give ids))"

definition createTemplate :: "attrs \<Rightarrow> attrs db" where
  "createTemplate r =
     on (request (PutItem (acct (text_of (r ''accountId''))) (''TEMPLATE#'' @ text_of (r ''id'')) r)) (\<lambda>_. give r)"

definition getTemplate :: "str \<Rightarrow> str \<Rightarrow> attrs option db" where "getTemplate a i = the_row a (''TEMPLATE#'' @ i)"

definition updateTemplate :: "str \<Rightarrow> str \<Rightarrow> attrs \<Rightarrow> attrs db" where
  "updateTemplate a i u =
     on now (\<lambda>t. request (UpdateItem (acct a) (''TEMPLATE#'' @ i) (\<lambda>r.
       (setting [''name'', ''subject'', ''body'', ''functions''] u r)(''updatedAt'' := JStr t))))"

definition deleteTemplate :: "str \<Rightarrow> str \<Rightarrow> unit db" where "deleteTemplate a i = drop_row a (''TEMPLATE#'' @ i)"

definition listTemplates :: "str \<Rightarrow> attrs list db" where "listTemplates a = listing a ''TEMPLATE#''"

text \<open>The error is put on the first function, which must be there for the path to be valid.\<close>

definition annotate_first :: "json \<Rightarrow> json \<Rightarrow> json option" where
  "annotate_first m fs = (case fs of JArr (JObj f # r) \<Rightarrow> Some (JArr (JObj (jset ''lastError'' m f) # r)) | _ \<Rightarrow> None)"

definition annotateTemplateError :: "str \<Rightarrow> str \<Rightarrow> str \<Rightarrow> str \<Rightarrow> unit db" where
  "annotateTemplateError a i fn m =
     on now (\<lambda>t. request (\<lambda>rs.
       case get_row (acct a) (''TEMPLATE#'' @ i) rs of
         None \<Rightarrow> (Inl CONDITION_FAILED, rs)
       | Some r \<Rightarrow>
           (case annotate_first (JStr (''['' @ fn @ ''] '' @ m)) (r ''functions'') of
              None \<Rightarrow> (Inl ''ValidationException'', rs)
            | Some fs \<Rightarrow> (Inr (), put_row (acct a) (''TEMPLATE#'' @ i) (r(''functions'' := fs, ''updatedAt'' := JStr t)) rs))))"

definition saveWsConnection :: "attrs \<Rightarrow> unit db" where
  "saveWsConnection r =
     request (PutItem (acct (text_of (r ''accountId''))) (''CONN#'' @ text_of (r ''connectionId'')) r)"

definition listWsConnections :: "str \<Rightarrow> attrs list db" where "listWsConnections a = listing a ''CONN#''"

definition deleteWsConnection :: "str \<Rightarrow> str \<Rightarrow> unit db" where "deleteWsConnection a i = drop_row a (''CONN#'' @ i)"

section \<open>User configuration\<close>

definition user_defaults :: attrs where "user_defaults = obj [(''postSendView'', JStr ''return_to_inbox'')]"

definition config_of :: "attrs \<Rightarrow> attrs" where
  "config_of r = spread user_defaults (r(''userId'' := JUndefined, ''createdAt'' := JUndefined, ''updatedAt'' := JUndefined))"

definition getUserConfiguration :: "str \<Rightarrow> attrs db" where
  "getUserConfiguration u =
     on (request (GetItem (''USER#'' @ u) ''CONFIG'')) (\<lambda>x. give (case x of None \<Rightarrow> user_defaults | Some r \<Rightarrow> config_of r))"

definition updateUserConfiguration :: "str \<Rightarrow> attrs \<Rightarrow> attrs db" where
  "updateUserConfiguration u d =
     on now (\<lambda>t.
     on (request (UpdateItem (''USER#'' @ u) ''CONFIG'' (\<lambda>r.
          (setting [''postSendView''] d r)
            (''updatedAt'' := JStr t,
             ''userId'' := (if r ''userId'' = JUndefined then JStr u else r ''userId''),
             ''createdAt'' := (if r ''createdAt'' = JUndefined then JStr t else r ''createdAt''))))) (\<lambda>r.
       give (config_of r)))"

end
