(* ===== verification/AccountApi.thy ===== *)
theory AccountApi
  imports AccountTable
begin

text \<open>
  The requests of an account on its configuration: aliases, senders and forwarding targets
  (\<open>api/aliasesApi.ts\<close>), domains (\<open>api/domainsApi.ts\<close>), rules (\<open>api/rulesApi.ts\<close>,
  \<open>api/validate-rule-condition.ts\<close>), labels, views, templates, the account itself (\<open>api/accountsApi.ts\<close>)
  and a user's settings (\<open>api/userApi.ts\<close>). They run after the authorization, which is not part of the model. A body is \<open>None\<close>
  when it does not parse; addresses of the path are given decoded. Other services answer through \<open>a_env\<close>,
  as a function of the moment. Audit events and the alias counter are entries of the log.
\<close>

datatype a_response = AErr nat str | ABody nat attrs | AList "attrs list" | ANone nat

record a_env =
  aeRegister :: "str \<Rightarrow> str \<Rightarrow> nat \<Rightarrow> bool"
  aeVerify :: "attrs \<Rightarrow> nat \<Rightarrow> str option"
  aeCode :: "str \<Rightarrow> nat \<Rightarrow> str option"
  aeFunctions :: "json \<Rightarrow> nat \<Rightarrow> str option"
  aeParse :: "str \<Rightarrow> json option"
  aeDryRun :: "json \<Rightarrow> str option"
  aeCheckDomain :: "attrs \<Rightarrow> nat \<Rightarrow> (str \<times> str \<times> str \<times> str) list"
  aeTriggerDigest :: "str \<Rightarrow> nat \<Rightarrow> bool"
  aeAccountsOf :: "str \<Rightarrow> nat \<Rightarrow> str list option"
  aeStart :: "str \<Rightarrow> str \<Rightarrow> nat \<Rightarrow> bool"
  aeAddUser :: "str \<Rightarrow> str \<Rightarrow> str \<Rightarrow> nat \<Rightarrow> bool"

definition consult :: "(nat \<Rightarrow> 'a) \<Rightarrow> 'a db" where
  "consult f w = (Gives (f (w_tick w)), w\<lparr>w_tick := Suc (w_tick w)\<rparr>)"

definition INTERNAL :: a_response where "INTERNAL = AErr 500 ''Internal Server Error''"
definition INVALID :: a_response where "INVALID = AErr 400 ''INVALID_REQUEST''"

text \<open>\<open>if (r.isErr()) return err(c, ...)\<close>\<close>

definition or_answer :: "a_response \<Rightarrow> 'a db \<Rightarrow> ('a \<Rightarrow> a_response db) \<Rightarrow> a_response db" where
  "or_answer e m k = on (result_of m) (\<lambda>r. case r of Inl _ \<Rightarrow> give e | Inr x \<Rightarrow> k x)"

definition or500 :: "'a db \<Rightarrow> ('a \<Rightarrow> a_response db) \<Rightarrow> a_response db" where "or500 = or_answer INTERNAL"

definition with_body :: "attrs option \<Rightarrow> (attrs \<Rightarrow> a_response db) \<Rightarrow> a_response db" where
  "with_body body k = (case body of None \<Rightarrow> give INVALID | Some b \<Rightarrow> k b)"

definition when_true :: "json \<Rightarrow> json" where "when_true j = (if falsy j then JUndefined else j)"

section \<open>Aliases\<close>

definition toApiAlias :: "attrs \<Rightarrow> attrs" where
  "toApiAlias al =
     obj [(''alias'', al ''id''), (''name'', al ''name''), (''unknownSenderPolicy'', al ''unknownSenderPolicy''),
          (''createdAt'', al ''createdAt''), (''updatedAt'', al ''updatedAt'')]"

definition includes_text :: "str \<Rightarrow> json \<Rightarrow> bool" where
  "includes_text d j = (case j of JStr s \<Rightarrow> sublist d s | _ \<Rightarrow> False)"

definition list_aliases :: "str \<Rightarrow> str option \<Rightarrow> a_response db" where
  "list_aliases a domain =
     or500 (listAliases a) (\<lambda>xs.
       give (AList (map toApiAlias
         (if truthy domain then filter (\<lambda>al. includes_text (to_lower (the domain)) (al ''createdForOrigin'')) xs else xs))))"

definition get_alias :: "str \<Rightarrow> str \<Rightarrow> a_response db" where
  "get_alias a address =
     or500 (getAlias a (to_lower address)) (\<lambda>x.
       give (case x of None \<Rightarrow> AErr 404 ''ALIAS_NOT_FOUND'' | Some al \<Rightarrow> ABody 200 (toApiAlias al)))"

definition create_alias :: "str \<Rightarrow> attrs option \<Rightarrow> a_response db" where
  "create_alias a body =
     with_body body (\<lambda>b.
     let address = text_of (b ''address'')
     in or500 (getDomain a (text_of (part_of 1 address))) (\<lambda>d.
        if d = None then give (AErr 422 ''DOMAIN_NOT_REGISTERED'')
        else or500 (getAlias a address) (\<lambda>x.
        if x \<noteq> None then give (AErr 409 ''ALIAS_EXISTS'')
        else on now (\<lambda>t.
          or500 (createAlias ((new_alias a address (text_of (either (b ''unknownSenderPolicy'') (JStr ''quarantine_visible''))) t None)
                   (''name'' := b ''name'', ''createdForOrigin'' := b ''createdForOrigin''))) (\<lambda>al.
            on (note_down ''totalAliases'' (obj [(''accountId'', JStr a), (''delta'', JNum 1)])) (\<lambda>_.
              give (ABody 201 (toApiAlias al))))))))"

text \<open>\<open>b.x !== undefined ? b.x : existing?.x\<close>\<close>

definition kept :: "attrs \<Rightarrow> attrs option \<Rightarrow> str \<Rightarrow> json" where
  "kept b existing k = (if b k \<noteq> JUndefined then b k else (case existing of Some x \<Rightarrow> x k | None \<Rightarrow> JUndefined))"

definition patched_alias :: "str \<Rightarrow> str \<Rightarrow> attrs \<Rightarrow> attrs option \<Rightarrow> str \<Rightarrow> attrs" where
  "patched_alias a address b existing t =
     (let old = (\<lambda>k. case existing of Some x \<Rightarrow> x k | None \<Rightarrow> JUndefined)
      in obj [(''id'', JStr address), (''accountId'', JStr a), (''aliasAddress'', JStr address), (''domain'', part_of 1 address),
           (''aliasName'', part_of 0 address),
           (''unknownSenderPolicy'', either (b ''unknownSenderPolicy'')
              (either (old ''unknownSenderPolicy'') (JStr ''quarantine_visible''))),
           (''name'', kept b existing ''name''), (''createdForOrigin'', kept b existing ''createdForOrigin''),
           (''createdAt'', either (old ''createdAt'') (JStr t)), (''updatedAt'', JStr t)])"

definition rename_alias :: "str \<Rightarrow> str \<Rightarrow> str \<Rightarrow> a_response db" where
  "rename_alias a address new =
     or500 (getDomain a (text_of (part_of 1 new))) (\<lambda>d.
       if d = None then give (AErr 422 ''DOMAIN_NOT_REGISTERED'')
       else on (result_of (renameAlias a address new)) (\<lambda>r.
         give (case r of
                 Inr al \<Rightarrow> ABody 200 (toApiAlias al)
               | Inl (NotFoundError _ _) \<Rightarrow> AErr 404 ''ALIAS_NOT_FOUND''
               | Inl _ \<Rightarrow> INTERNAL)))"

definition patch_alias :: "str \<Rightarrow> str \<Rightarrow> attrs option \<Rightarrow> a_response db" where
  "patch_alias a path body =
     (let address = to_lower path
      in with_body body (\<lambda>b.
           if \<not> falsy (b ''newAddress'') then rename_alias a address (text_of (b ''newAddress''))
           else or500 (getAlias a address) (\<lambda>existing.
                on now (\<lambda>t.
                or500 (upsertAlias (patched_alias a address b existing t)) (\<lambda>al. give (ABody 200 (toApiAlias al)))))))"

definition audit_deleted :: "str \<Rightarrow> str \<Rightarrow> bool db" where
  "audit_deleted what i =
     note_down ''audit'' (obj [(''action'', JStr ''deleted''), (''resourceType'', JStr what), (''resourceId'', JStr i)])"

definition delete_alias :: "str \<Rightarrow> str \<Rightarrow> a_response db" where
  "delete_alias a path =
     (let address = to_lower path
      in or500 (deleteAlias a address) (\<lambda>_.
         on (note_down ''totalAliases'' (obj [(''accountId'', JStr a), (''delta'', JNum (- 1))])) (\<lambda>_.
         on (audit_deleted ''alias'' address) (\<lambda>_. give (ANone 204)))))"

section \<open>Senders\<close>

definition toApiAliasSender :: "attrs \<Rightarrow> attrs" where
  "toApiAliasSender s =
     obj [(''alias'', s ''aliasAddress''), (''sender'', s ''senderDomain''), (''policy'', s ''policy''),
          (''createdAt'', s ''addedAt''), (''updatedAt'', s ''addedAt'')]"

definition list_senders :: "str \<Rightarrow> str \<Rightarrow> a_response db" where
  "list_senders a path = or500 (listSenders a (to_lower path)) (\<lambda>xs. give (AList (map toApiAliasSender xs)))"

definition read_back :: "str \<Rightarrow> str \<Rightarrow> str \<Rightarrow> nat \<Rightarrow> a_response db" where
  "read_back a address domain st =
     or500 (getSender a address domain) (\<lambda>x.
       give (case x of None \<Rightarrow> INTERNAL | Some s \<Rightarrow> ABody st (toApiAliasSender s)))"

definition create_sender :: "str \<Rightarrow> str \<Rightarrow> attrs option \<Rightarrow> a_response db" where
  "create_sender a path body =
     (let address = to_lower path
      in with_body body (\<lambda>b.
         let domain = text_of (b ''domain'')
         in or500 (getSender a address domain) (\<lambda>existing.
            case existing of
              Some s \<Rightarrow> give (if s ''policy'' = b ''policy'' then ABody 201 (toApiAliasSender s) else AErr 409 ''SENDER_EXISTS'')
            | None \<Rightarrow>
                or500 (saveSender a address domain (Some (text_of (b ''policy'')))) (\<lambda>_. read_back a address domain 201))))"

definition update_sender :: "str \<Rightarrow> str \<Rightarrow> str \<Rightarrow> attrs option \<Rightarrow> a_response db" where
  "update_sender a path path2 body =
     (let address = to_lower path; domain = to_lower path2
      in with_body body (\<lambda>b.
         or500 (getSender a address domain) (\<lambda>existing.
         if existing = None then give (AErr 404 ''SENDER_NOT_FOUND'')
         else or500 (saveSender a address domain (Some (text_of (b ''policy'')))) (\<lambda>_. read_back a address domain 200))))"

definition delete_sender :: "str \<Rightarrow> str \<Rightarrow> str \<Rightarrow> a_response db" where
  "delete_sender a path path2 = or500 (removeSender a (to_lower path) (to_lower path2)) (\<lambda>_. give (ANone 204))"

section \<open>Forwarding targets\<close>

definition toApiForwardingTarget :: "attrs \<Rightarrow> attrs" where
  "toApiForwardingTarget t =
     obj [(''target'', t ''target''), (''type'', t ''type''), (''status'', t ''status''), (''createdAt'', t ''createdAt''),
          (''verifiedAt'', when_true (t ''verifiedAt''))]"

definition list_targets :: "str \<Rightarrow> a_response db" where
  "list_targets a = or500 (listForwardingTargets a) (\<lambda>xs. give (AList (map toApiForwardingTarget xs)))"

definition is_verified :: "attrs option \<Rightarrow> bool" where
  "is_verified x \<longleftrightarrow> (case x of Some t \<Rightarrow> t ''status'' = JStr ''verified'' | None \<Rightarrow> False)"

text \<open>A webhook is verified by a test request, a mail address by a token that is sent to it.\<close>

definition new_target :: "str \<Rightarrow> attrs \<Rightarrow> attrs option \<Rightarrow> str \<Rightarrow> str \<Rightarrow> attrs" where
  "new_target a b existing t token =
     (let old = (\<lambda>k. case existing of Some x \<Rightarrow> x k | None \<Rightarrow> JUndefined)
      in obj [(''id'', b ''target''), (''accountId'', JStr a), (''target'', b ''target''), (''type'', b ''type''),
              (''status'', JStr ''pending''), (''token'', JStr token),
              (''createdAt'', either (old ''createdAt'') (JStr t)), (''verifiedAt'', old ''verifiedAt'')])"

definition mark_verified :: "str \<Rightarrow> attrs \<Rightarrow> attrs" where
  "mark_verified t x = x(''status'' := JStr ''verified'', ''verifiedAt'' := JStr t)"

definition save_new_target :: "a_env \<Rightarrow> str \<Rightarrow> attrs \<Rightarrow> attrs option \<Rightarrow> a_response db" where
  "save_new_target e a b existing =
     on now (\<lambda>t.
     on fresh (\<lambda>token.
     let target = new_target a b existing t token
     in on (consult (aeVerify e target)) (\<lambda>failed.
        if failed \<noteq> None then give (AErr 422 ''VERIFICATION_FAILED'')
        else (let saved = (if b ''type'' = JStr ''webhook'' then mark_verified t target else target)
              in or500 (saveForwardingTarget saved) (\<lambda>_. give (ABody 201 (toApiForwardingTarget saved)))))))"

definition create_target :: "a_env \<Rightarrow> str \<Rightarrow> attrs option \<Rightarrow> a_response db" where
  "create_target e a body =
     with_body body (\<lambda>b.
     or500 (getForwardingTarget a (text_of (b ''target''))) (\<lambda>existing.
       if is_verified existing then give (ABody 201 (toApiForwardingTarget (the existing)))
       else save_new_target e a b existing))"

definition confirm_target :: "attrs \<Rightarrow> attrs \<Rightarrow> a_response db" where
  "confirm_target b x =
     (if is_verified (Some x) then give (ABody 200 (toApiForwardingTarget x))
      else if x ''token'' \<noteq> b ''token'' then give (AErr 400 ''INVALID_TOKEN'')
      else on now (\<lambda>t. or500 (saveForwardingTarget (mark_verified t x)) (\<lambda>_.
        give (ABody 200 (toApiForwardingTarget (mark_verified t x))))))"

definition verify_target :: "str \<Rightarrow> str \<Rightarrow> attrs option \<Rightarrow> a_response db" where
  "verify_target a path body =
     with_body body (\<lambda>b.
     or500 (getForwardingTarget a (to_lower path)) (\<lambda>existing.
       case existing of None \<Rightarrow> give (AErr 404 ''FORWARDING_ADDRESS_NOT_FOUND'') | Some x \<Rightarrow> confirm_target b x))"

definition obj_field :: "json \<Rightarrow> str \<Rightarrow> json" where
  "obj_field j k = (case j of JObj x \<Rightarrow> jfield x k | _ \<Rightarrow> JUndefined)"

text \<open>A target that the digest or a rule uses is not deleted.\<close>

definition unless_in_rule :: "str \<Rightarrow> str \<Rightarrow> a_response db" where
  "unless_in_rule a address =
     or500 (listRules a) (\<lambda>rules.
       if \<exists>r \<in> set rules. JStr address \<in> set (forward_values (r ''actions'')) then give (AErr 409 ''TARGET_IN_USE'')
       else or500 (deleteForwardingTarget a address) (\<lambda>_. give (ANone 204)))"

definition delete_target :: "str \<Rightarrow> str \<Rightarrow> a_response db" where
  "delete_target a path =
     or500 (getAccount a) (\<lambda>acc.
       if (case acc of Some r \<Rightarrow> obj_field (r ''digest'') ''forwardingTargetId'' = JStr (to_lower path) | None \<Rightarrow> False)
       then give (AErr 409 ''TARGET_IN_USE'') else unless_in_rule a (to_lower path))"

section \<open>Rules\<close>

definition toApiRule :: "attrs \<Rightarrow> attrs" where
  "toApiRule r =
     obj [(''ruleId'', r ''id''), (''name'', r ''name''), (''condition'', when_true (r ''condition'')),
          (''conditionType'', when_true (r ''conditionType'')), (''actions'', r ''actions''), (''status'', r ''status''),
          (''priorityOrder'', r ''priorityOrder''),
          (''type'', if r ''accountId'' = JStr ''SYSTEM'' then JStr ''IMMUTABLE'' else JUndefined),
          (''createdAt'', r ''createdAt''), (''updatedAt'', r ''updatedAt'')]"

text \<open>The message for a condition that is not accepted; parsing and json-logic are parameters.\<close>

definition validateRuleCondition :: "a_env \<Rightarrow> str \<Rightarrow> str option" where
  "validateRuleCondition e c =
     (if starts_with c ''js:''
      then (if trim (drop 3 c) = [] then Some ''JS condition must contain code after the 'js:' prefix'' else None)
      else (case aeParse e c of
              None \<Rightarrow> Some ''Condition is not valid JSON''
            | Some j \<Rightarrow>
                if j = JNull then Some ''Condition must be a JSON object, boolean, number, or string''
                else (case aeDryRun e j of None \<Rightarrow> None | Some m \<Rightarrow> Some (''Invalid JSONLogic condition: '' @ m))))"

definition forward_targets :: "json \<Rightarrow> str list" where
  "forward_targets acts = map text_of (filter (\<lambda>v. \<not> falsy v) (forward_values acts))"

text \<open>\<open>true\<close> when the forward targets may be used\<close>

definition validateForwardTargets :: "str \<Rightarrow> json \<Rightarrow> bool db" where
  "validateForwardTargets a acts =
     (if forward_targets acts = [] then give True
      else on (result_of (listForwardingTargets a)) (\<lambda>r.
        give (case r of
                Inl _ \<Rightarrow> False
              | Inr xs \<Rightarrow> (let verified = map (\<lambda>t. text_of (t ''target'')) (filter (\<lambda>t. is_verified (Some t)) xs)
                           in \<forall>v \<in> set (forward_targets acts). v \<in> set verified))))"

text \<open>Code is checked by the sandbox, any other condition by json-logic.\<close>

definition check_code :: "a_env \<Rightarrow> json \<Rightarrow> a_response db \<Rightarrow> a_response db" where
  "check_code e c k =
     (if trim (text_of c) = [] then give (AErr 400 ''MISSING_CODE'')
      else on (consult (aeCode e (text_of c))) (\<lambda>bad. if bad \<noteq> None then give (AErr 400 ''INVALID_CODE'') else k))"

definition check_logic :: "a_env \<Rightarrow> json \<Rightarrow> a_response db \<Rightarrow> a_response db" where
  "check_logic e c k =
     (if falsy c then k
      else if validateRuleCondition e (text_of c) \<noteq> None then give (AErr 400 ''INVALID_CONDITION'') else k)"

definition check_targets :: "str \<Rightarrow> json \<Rightarrow> a_response db \<Rightarrow> a_response db" where
  "check_targets a acts k =
     on (validateForwardTargets a acts) (\<lambda>okay. if okay then k else give (AErr 400 ''UNVERIFIED_FORWARD_TARGET''))"

definition audit_rule :: "bool \<Rightarrow> str \<Rightarrow> str \<Rightarrow> json \<Rightarrow> a_response db \<Rightarrow> a_response db" where
  "audit_rule wanted action i c k =
     (if wanted
      then on (note_down ''audit'' (obj [(''action'', JStr action), (''resourceType'', JStr ''rule''), (''resourceId'', JStr i),
                                        (''condition'', c)])) (\<lambda>_. k)
      else k)"

definition list_rules :: "str \<Rightarrow> a_response db" where
  "list_rules a = or500 (listRules a) (\<lambda>xs. give (AList (map toApiRule xs)))"

definition create_rule :: "a_env \<Rightarrow> str \<Rightarrow> attrs option \<Rightarrow> a_response db" where
  "create_rule e a body =
     with_body body (\<lambda>b.
     let js = (either (b ''conditionType'') (JStr ''json_logic'') = JStr ''js'')
     in (if js then check_code e (b ''condition'') else check_logic e (b ''condition''))
          (check_targets a (b ''actions'')
          (audit_rule js ''created'' [] (b ''condition'')
          (or500 (createRule a b) (\<lambda>r. give (ABody 201 (toApiRule r)))))))"

definition RULE_KEYS :: "str list" where
  "RULE_KEYS = [''name'', ''conditionType'', ''condition'', ''actions'', ''priorityOrder'', ''status'', ''tags'']"

definition patch_system_rule :: "str \<Rightarrow> attrs \<Rightarrow> attrs \<Rightarrow> a_response db" where
  "patch_system_rule a r b =
     (if (\<exists>k \<in> set RULE_KEYS. b k \<noteq> JUndefined \<and> k \<noteq> ''status'' \<and> k \<noteq> ''priorityOrder'') \<or>
         b ''status'' = JUndefined \<and> b ''priorityOrder'' = JUndefined
      then give (AErr 403 ''SYSTEM_RULE_IMMUTABLE'')
      else or500 (upsertSystemRuleOverride a (rule_id r) (b ''status'') (b ''priorityOrder'')) (\<lambda>_.
        give (ABody 200 (toApiRule (r(''status'' := either (b ''status'') (r ''status''),
                                      ''priorityOrder'' := either (b ''priorityOrder'') (r ''priorityOrder'')))))))"

definition write_rule :: "str \<Rightarrow> attrs \<Rightarrow> bool \<Rightarrow> attrs \<Rightarrow> a_response db" where
  "write_rule a r js b =
     (let coded = (js \<and> b ''condition'' \<noteq> JUndefined)
      in audit_rule coded ''updated'' (rule_id r) (b ''condition'')
           (or500 (updateRule a (rule_id r) (if coded then b(''lastError'' := JNull) else b))
             (\<lambda>x. give (ABody 200 (toApiRule x)))))"

definition patch_user_rule :: "a_env \<Rightarrow> str \<Rightarrow> attrs \<Rightarrow> attrs \<Rightarrow> a_response db" where
  "patch_user_rule e a r b =
     (let js = (either (b ''conditionType'') (either (r ''conditionType'') (JStr ''json_logic'')) = JStr ''js'');
          rest = (if falsy (b ''actions'') then write_rule a r js b
                  else check_targets a (b ''actions'') (write_rule a r js b))
      in if js
         then (if b ''condition'' \<noteq> JUndefined then check_code e (b ''condition'') rest
               else if b ''conditionType'' = JStr ''js'' \<and> falsy (r ''condition'') then give (AErr 400 ''MISSING_CODE'')
               else rest)
         else check_logic e (b ''condition'') rest)"

definition patch_rule :: "a_env \<Rightarrow> str \<Rightarrow> str \<Rightarrow> attrs option \<Rightarrow> a_response db" where
  "patch_rule e a i body =
     or500 (listRules a) (\<lambda>rules.
       case List.find (\<lambda>r. rule_id r = i) rules of
         None \<Rightarrow> give (AErr 404 ''RULE_NOT_FOUND'')
       | Some r \<Rightarrow>
           with_body body (\<lambda>b.
             if r ''accountId'' = JStr ''SYSTEM'' then patch_system_rule a r b else patch_user_rule e a r b))"

definition delete_rule :: "str \<Rightarrow> str \<Rightarrow> a_response db" where
  "delete_rule a i =
     or500 (listRules a) (\<lambda>rules.
       case List.find (\<lambda>r. rule_id r = i) rules of
         None \<Rightarrow> give (AErr 404 ''RULE_NOT_FOUND'')
       | Some r \<Rightarrow>
           if r ''accountId'' = JStr ''SYSTEM'' then give (AErr 400 ''SYSTEM_RULE_IMMUTABLE'')
           else or500 (deleteRule a (rule_id r)) (\<lambda>_. give (ANone 204)))"

section \<open>Domains\<close>

definition toApiDomain :: "attrs \<Rightarrow> attrs" where
  "toApiDomain d =
     obj [(''domainId'', d ''domain''), (''domain'', d ''domain''), (''receivingSetupComplete'', d ''receivingSetupComplete''),
          (''senderSetupComplete'', d ''senderSetupComplete''), (''createdAt'', d ''createdAt''), (''updatedAt'', d ''updatedAt'')]"

definition in_texts :: "str \<Rightarrow> json \<Rightarrow> bool" where
  "in_texts s j = (case j of JArr xs \<Rightarrow> JStr s \<in> set xs | _ \<Rightarrow> False)"

text \<open>Name, type, value and status of the four records of a domain\<close>

definition buildDnsRecords :: "str \<Rightarrow> attrs \<Rightarrow> (str \<times> str \<times> str \<times> str) list" where
  "buildDnsRecords mail reg =
     (let d = text_of (reg ''domain'');
          status = (\<lambda>n. if reg ''lastCheckedAt'' = JUndefined then ''pending''
                        else if in_texts n (reg ''failingRecords'') then ''failing'' else ''verified'');
          rec = (\<lambda>n ty v. (n, ty, v, status n))
      in [rec d ''MX'' (''10 mx.'' @ mail),
          rec (''mail._domainkey.'' @ d) ''CNAME'' (''mail._domainkey.'' @ mail),
          rec (''bounce.'' @ d) ''CNAME'' (''bounce.'' @ mail),
          rec (''_dmarc.'' @ d) ''CNAME'' (''_dmarc.'' @ mail)])"

definition record_json :: "str \<times> str \<times> str \<times> str \<Rightarrow> json" where
  "record_json r = (case r of (n, ty, v, st) \<Rightarrow>
     JObj [(''name'', JStr n), (''type'', JStr ty), (''value'', JStr v), (''status'', JStr st)])"

definition list_domains :: "str \<Rightarrow> a_response db" where
  "list_domains a = or500 (listDomains a) (\<lambda>xs. give (AList (map toApiDomain xs)))"

definition create_domain :: "a_env \<Rightarrow> str \<Rightarrow> attrs option \<Rightarrow> a_response db" where
  "create_domain e a body =
     with_body body (\<lambda>b.
     let d = text_of (b ''domain'')
     in or500 (resolveAccountForDomain d) (\<lambda>owner.
        if truthy owner \<and> owner \<noteq> Some a then give (AErr 409 ''DOMAIN_EXISTS'')
        else on (consult (aeRegister e d a)) (\<lambda>registered.
          if \<not> registered then give INTERNAL
          else or500 (createDomain a d) (\<lambda>r. give (ABody 201 (toApiDomain r))))))"

definition get_domain :: "str \<Rightarrow> str \<Rightarrow> a_response db" where
  "get_domain a path =
     or500 (getDomain a (to_lower path)) (\<lambda>x.
       case x of
         None \<Rightarrow> give (AErr 404 ''DOMAIN_NOT_FOUND'')
       | Some d \<Rightarrow> on mail_domain (\<lambda>m.
           give (ABody 200 ((toApiDomain d)(''records'' := JArr (map record_json (buildDnsRecords m d)))))))"

text \<open>The DNS check: name, type, value and status of each record\<close>

definition verify_domain :: "a_env \<Rightarrow> str \<Rightarrow> str \<Rightarrow> a_response db" where
  "verify_domain e a path =
     or500 (getDomain a (to_lower path)) (\<lambda>x.
       case x of
         None \<Rightarrow> give (AErr 404 ''DOMAIN_NOT_FOUND'')
       | Some reg \<Rightarrow>
           on (consult (aeCheckDomain e reg)) (\<lambda>records.
           on now (\<lambda>t.
           let d = text_of (reg ''domain'');
               failing = List.map_filter (\<lambda>(n, ty, v, st). if st = ''failing'' then Some n else None) records;
               rec_ok = (case List.find (\<lambda>(n, ty, v, st). ty = ''MX'') records of Some (_, _, _, st) \<Rightarrow> st = ''verified'' | None \<Rightarrow> False);
               send_ok = (\<forall>(n, ty, v, st) \<in> set records. ty \<noteq> ''MX'' \<longrightarrow> st = ''verified'')
           in or500 (updateDomainHealth a d rec_ok send_ok failing t (if failing = [] then Some t else None)) (\<lambda>_.
              or500 (if reg ''receivingSetupComplete'' \<noteq> JBool rec_ok \<or> reg ''senderSetupComplete'' \<noteq> JBool send_ok
                     then updateDomainSetup a d (Some rec_ok) (Some send_ok) else give ()) (\<lambda>_.
              or500 (getDomain a d) (\<lambda>u.
                case u of
                  None \<Rightarrow> raise_db ''TypeError''
                | Some y \<Rightarrow> give (ABody 200 ((toApiDomain y)(''records'' :=
                    JArr (map record_json records))))))))))"

text \<open>Every alias under the domain is deleted first; the log keeps an audit event for each.\<close>

definition delete_domain :: "str \<Rightarrow> str \<Rightarrow> a_response db" where
  "delete_domain a path =
     or500 (getDomain a (to_lower path)) (\<lambda>x.
       case x of
         None \<Rightarrow> give (AErr 404 ''DOMAIN_NOT_FOUND'')
       | Some reg \<Rightarrow>
           (let d = text_of (reg ''domain'')
            in or500 (listAliasesForDomain a d) (\<lambda>aliases.
               or500 (each (\<lambda>al. let address = text_of (al ''aliasAddress'')
                                 in on (deleteAlias a address) (\<lambda>_. on (audit_deleted ''alias'' address) (\<lambda>_. give ()))) aliases) (\<lambda>_.
               or500 (deleteDomain a d) (\<lambda>_.
               on (audit_deleted ''domain'' d) (\<lambda>_. give (ANone 204)))))))"

section \<open>Labels, views, templates\<close>

definition toApiLabel :: "attrs \<Rightarrow> attrs" where
  "toApiLabel l =
     obj [(''label'', l ''id''), (''name'', l ''name''), (''applyInstruction'', l ''applyInstruction''),
          (''color'', when_true (l ''color'')), (''icon'', when_true (l ''icon'')), (''createdAt'', l ''createdAt'')]"

definition list_labels :: "str \<Rightarrow> a_response db" where
  "list_labels a = or500 (listLabels a) (\<lambda>xs. give (AList (map toApiLabel xs)))"

definition create_label :: "str \<Rightarrow> attrs option \<Rightarrow> a_response db" where
  "create_label a body = with_body body (\<lambda>b. or500 (createLabel a b) (\<lambda>l. give (ABody 201 (toApiLabel l))))"

definition with_label :: "str \<Rightarrow> str \<Rightarrow> (attrs \<Rightarrow> a_response db) \<Rightarrow> a_response db" where
  "with_label a i k =
     or500 (listLabels a) (\<lambda>xs.
       case List.find (\<lambda>l. l ''id'' = JStr i) xs of None \<Rightarrow> give (AErr 404 ''LABEL_NOT_FOUND'') | Some l \<Rightarrow> k l)"

definition patch_label :: "str \<Rightarrow> str \<Rightarrow> attrs option \<Rightarrow> a_response db" where
  "patch_label a i body =
     with_label a i (\<lambda>l. with_body body (\<lambda>b.
       or500 (updateLabel a (text_of (l ''id'')) b) (\<lambda>x.
         case x of None \<Rightarrow> raise_db ''TypeError'' | Some y \<Rightarrow> give (ABody 200 (toApiLabel y)))))"

definition delete_label :: "str \<Rightarrow> str \<Rightarrow> a_response db" where
  "delete_label a i = with_label a i (\<lambda>l. or500 (deleteLabel a (text_of (l ''id''))) (\<lambda>_. give (ANone 204)))"

definition toApiView :: "attrs \<Rightarrow> attrs" where
  "toApiView v =
     obj [(''viewId'', v ''id''), (''name'', v ''name''), (''icon'', when_true (v ''icon'')), (''color'', when_true (v ''color'')),
          (''workflow'', when_true (v ''workflow'')), (''labels'', v ''labels''), (''sortField'', v ''sortField''),
          (''sortDirection'', v ''sortDirection''), (''position'', v ''position''), (''layout'', when_true (v ''layout'')),
          (''createdAt'', v ''createdAt''), (''updatedAt'', v ''updatedAt'')]"

definition list_views :: "str \<Rightarrow> a_response db" where
  "list_views a = or500 (listViews a) (\<lambda>xs. give (AList (map toApiView xs)))"

definition create_view :: "str \<Rightarrow> attrs option \<Rightarrow> a_response db" where
  "create_view a body = with_body body (\<lambda>b. or500 (createView a b) (\<lambda>v. give (ABody 201 (toApiView v))))"

definition with_view :: "str \<Rightarrow> str \<Rightarrow> (attrs \<Rightarrow> a_response db) \<Rightarrow> a_response db" where
  "with_view a i k =
     or500 (getView a i) (\<lambda>x. case x of None \<Rightarrow> give (AErr 404 ''VIEW_NOT_FOUND'') | Some v \<Rightarrow> k v)"

definition patch_view :: "str \<Rightarrow> str \<Rightarrow> attrs option \<Rightarrow> a_response db" where
  "patch_view a i body =
     with_view a i (\<lambda>v. with_body body (\<lambda>b.
       or500 (updateView a (text_of (v ''id'')) b) (\<lambda>x. give (ABody 200 (toApiView x)))))"

definition delete_view :: "str \<Rightarrow> str \<Rightarrow> a_response db" where
  "delete_view a i = with_view a i (\<lambda>v. or500 (deleteView a (text_of (v ''id''))) (\<lambda>_. give (ANone 204)))"

definition toApiTemplate :: "attrs \<Rightarrow> attrs" where
  "toApiTemplate t =
     obj [(''templateId'', t ''id''), (''name'', t ''name''), (''subject'', t ''subject''), (''body'', t ''body''),
          (''functions'', when_true (t ''functions'')), (''createdAt'', t ''createdAt''), (''updatedAt'', t ''updatedAt'')]"

definition list_templates :: "str \<Rightarrow> a_response db" where
  "list_templates a = or500 (listTemplates a) (\<lambda>xs. give (AList (map toApiTemplate xs)))"

definition check_functions :: "a_env \<Rightarrow> json \<Rightarrow> a_response db \<Rightarrow> a_response db" where
  "check_functions e fs k =
     (if falsy fs then k
      else on (consult (aeFunctions e fs)) (\<lambda>bad. if bad \<noteq> None then give (AErr 400 ''INVALID_CODE'') else k))"

definition audit_template :: "str \<Rightarrow> str \<Rightarrow> json \<Rightarrow> a_response db \<Rightarrow> a_response db" where
  "audit_template action i fs k =
     (if falsy fs then k
      else on (note_down ''audit'' (obj [(''action'', JStr action), (''resourceType'', JStr ''template''),
                                        (''resourceId'', JStr i), (''functions'', fs)])) (\<lambda>_. k))"

definition create_template :: "a_env \<Rightarrow> str \<Rightarrow> attrs option \<Rightarrow> a_response db" where
  "create_template e a body =
     with_body body (\<lambda>b.
     check_functions e (b ''functions'')
       (on now (\<lambda>t.
        on fresh (\<lambda>n.
        let i = ''tpl-'' @ n
        in audit_template ''created'' i (b ''functions'')
             (or500 (createTemplate (obj [(''id'', JStr i), (''accountId'', JStr a), (''name'', b ''name''),
                       (''subject'', b ''subject''), (''body'', b ''body''), (''functions'', when_true (b ''functions'')),
                       (''createdAt'', JStr t), (''updatedAt'', JStr t)]))
               (\<lambda>r. give (ABody 201 (toApiTemplate r))))))))"

text \<open>\<open>PATCH\<close> and \<open>PUT\<close> differ only in which members a body must have.\<close>

definition write_template :: "a_env \<Rightarrow> str \<Rightarrow> str \<Rightarrow> attrs option \<Rightarrow> a_response db" where
  "write_template e a i body =
     with_body body (\<lambda>b.
     check_functions e (b ''functions'')
       (or500 (getTemplate a i) (\<lambda>x.
        if x = None then give (AErr 404 ''TEMPLATE_NOT_FOUND'')
        else audit_template ''updated'' i (b ''functions'')
               (or500 (updateTemplate a i b) (\<lambda>r. give (ABody 200 (toApiTemplate r)))))))"

definition delete_template :: "str \<Rightarrow> str \<Rightarrow> a_response db" where
  "delete_template a i =
     or500 (getTemplate a i) (\<lambda>x.
       if x = None then give (AErr 404 ''TEMPLATE_NOT_FOUND'')
       else or500 (deleteTemplate a i) (\<lambda>_. give (ANone 204)))"

section \<open>Accounts\<close>

definition toApiAccount :: "attrs \<Rightarrow> attrs" where
  "toApiAccount r =
     obj [(''accountId'', r ''id''), (''name'', r ''name''), (''timezone'', r ''timezone''),
          (''ambiguousDateFormat'', when_true (r ''ambiguousDateFormat'')),
          (''retentionDuration'', when_true (r ''retentionDuration'')), (''digest'', r ''digest''),
          (''filtering'', JObj [(''defaultUnknownSenderPolicy'',
             either (obj_field (r ''filtering'') ''defaultUnknownSenderPolicy'') (JStr ''quarantine_visible''))]),
          (''onboarding'', when_true (r ''onboarding'')), (''billingPlan'', when_true (r ''billingPlan'')),
          (''defaultCalendarInviteForwardingTargetId'', when_true (r ''defaultCalendarInviteForwardingTargetId'')),
          (''createdAt'', r ''createdAt''), (''updatedAt'', r ''updatedAt'')]"

text \<open>Accounts that cannot be read are left out.\<close>

primrec read_accounts :: "str list \<Rightarrow> attrs list db" where
  "read_accounts [] = give []"
| "read_accounts (a # as) =
     on (result_of (getAccount a)) (\<lambda>r. on (read_accounts as) (\<lambda>xs.
       give (case r of Inr (Some x) \<Rightarrow> x # xs | _ \<Rightarrow> xs)))"

definition list_accounts :: "a_env \<Rightarrow> str \<Rightarrow> a_response db" where
  "list_accounts e u =
     on (consult (aeAccountsOf e u)) (\<lambda>ids.
       case ids of None \<Rightarrow> give INTERNAL | Some as \<Rightarrow> on (read_accounts as) (\<lambda>xs. give (AList (map toApiAccount xs))))"

definition new_account :: "str \<Rightarrow> str \<Rightarrow> attrs" where
  "new_account i t =
     obj [(''id'', JStr i), (''name'', JStr []), (''timezone'', JStr ''Europe/London''), (''retentionDuration'', JStr ''P3M''),
          (''billingPlan'', JStr ''Trial''), (''onboarding'', JObj [(''completed'', JBool False)]),
          (''createdAt'', JStr t), (''updatedAt'', JStr t)]"

text \<open>Starting the creation throws when it fails.\<close>

fun attempt_account :: "a_env \<Rightarrow> str \<Rightarrow> str \<Rightarrow> nat \<Rightarrow> attrs option db" where
  "attempt_account e u t 0 = give None"
| "attempt_account e u t (Suc n) =
     on fresh (\<lambda>i.
     on (consult (aeStart e i u)) (\<lambda>started.
       if \<not> started then raise_db ''Error''
       else on (result_of (createAccount (new_account i t))) (\<lambda>r.
         case r of Inr x \<Rightarrow> give (Some x) | Inl _ \<Rightarrow> attempt_account e u t n)))"

definition create_account :: "a_env \<Rightarrow> str \<Rightarrow> a_response db" where
  "create_account e u =
     on (consult (aeAccountsOf e u)) (\<lambda>ids.
       case ids of
         None \<Rightarrow> give INTERNAL
       | Some as \<Rightarrow>
           if as \<noteq> [] then give (AErr 409 ''ACCOUNT_EXISTS'')
           else on now (\<lambda>t. on (attempt_account e u t 5) (\<lambda>x.
             case x of
               None \<Rightarrow> give INTERNAL
             | Some r \<Rightarrow>
                 on (consult (aeAddUser e (text_of (r ''id'')) u ''admin'')) (\<lambda>added.
                   give (if added then ABody 201 (toApiAccount r) else INTERNAL)))))"

definition get_account :: "str \<Rightarrow> a_response db" where
  "get_account a =
     or500 (getAccount a) (\<lambda>x. give (case x of None \<Rightarrow> AErr 404 ''ACCOUNT_NOT_FOUND'' | Some r \<Rightarrow> ABody 200 (toApiAccount r)))"

definition require_target :: "str \<Rightarrow> bool \<Rightarrow> json \<Rightarrow> str \<Rightarrow> a_response db \<Rightarrow> a_response db" where
  "require_target a wanted target code k =
     (if \<not> wanted then k
      else or500 (getForwardingTarget a (text_of target)) (\<lambda>x. if is_verified x then k else give (AErr 422 code)))"

definition FREQ_RANK :: "json \<Rightarrow> int" where
  "FREQ_RANK f = (if f = JStr ''weekly'' then 1 else if f = JStr ''daily'' then 2 else 0)"

definition digest_now :: "json \<Rightarrow> json \<Rightarrow> bool" where
  "digest_now previous digest \<longleftrightarrow> \<not> falsy digest \<and>
     (obj_field previous ''forwardingTargetId'' \<noteq> obj_field digest ''forwardingTargetId'' \<or>
      FREQ_RANK (obj_field digest ''frequency'') > FREQ_RANK (obj_field previous ''frequency''))"

definition merged_obj :: "json \<Rightarrow> json \<Rightarrow> json" where
  "merged_obj x y = (case y of JObj kvs \<Rightarrow> JObj (foldl (\<lambda>xs (k, v). jset k v xs) (case x of JObj zs \<Rightarrow> zs | _ \<Rightarrow> []) kvs) | _ \<Rightarrow> x)"

definition write_account :: "a_env \<Rightarrow> str \<Rightarrow> attrs \<Rightarrow> a_response db" where
  "write_account e a b =
     on (if b ''digest'' = JUndefined then give JUndefined
         else on (result_of (getAccount a)) (\<lambda>r. give (case r of Inr (Some x) \<Rightarrow> x ''digest'' | _ \<Rightarrow> JUndefined))) (\<lambda>previous.
     or500 (if falsy (b ''onboarding'') then give b
            else on (getAccount a) (\<lambda>x. give (b(''onboarding'' :=
              merged_obj (case x of Some r \<Rightarrow> r ''onboarding'' | None \<Rightarrow> JUndefined) (b ''onboarding''))))) (\<lambda>b'.
     or500 (updateAccount a b') (\<lambda>r.
     on (if digest_now previous (b ''digest'') then consult (aeTriggerDigest e a) else give True) (\<lambda>triggered.
       if triggered then give (ABody 200 (toApiAccount r)) else raise_db ''Error''))))"

definition patch_account :: "a_env \<Rightarrow> str \<Rightarrow> attrs option \<Rightarrow> a_response db" where
  "patch_account e a body =
     with_body body (\<lambda>b.
       if b ''timezone'' \<noteq> JUndefined \<and> text_of (b ''timezone'') \<notin> set timezoneAllowlist
       then give (AErr 400 ''Not a recognized IANA timezone'')
       else require_target a (\<not> falsy (b ''digest'')) (obj_field (b ''digest'') ''forwardingTargetId'') ''UNVERIFIED_FORWARD_TARGET''
              (require_target a (\<not> falsy (b ''defaultCalendarInviteForwardingTargetId''))
                (b ''defaultCalendarInviteForwardingTargetId'') ''UNVERIFIED_CALENDAR_TARGET''
                (write_account e a b)))"

section \<open>User settings\<close>

definition get_user_configuration :: "str \<Rightarrow> str \<Rightarrow> a_response db" where
  "get_user_configuration caller u =
     (if caller \<noteq> u then give (AErr 403 ''Forbidden'')
      else or500 (getUserConfiguration caller) (\<lambda>x. give (ABody 200 x)))"

definition patch_user_configuration :: "str \<Rightarrow> str \<Rightarrow> attrs option \<Rightarrow> a_response db" where
  "patch_user_configuration caller u body =
     (if caller \<noteq> u then give (AErr 403 ''Forbidden'')
      else with_body body (\<lambda>b. or500 (updateUserConfiguration caller b) (\<lambda>x. give (ABody 200 x))))"

end
