(* ===== verification/AccountFacts.thy ===== *)
theory AccountFacts
  imports AccountApi DbFacts
begin

text \<open>
  Invariants of the accounts table under any sequence of requests to the API, whatever requests to the
  table fail on the way: rules forward to verified targets only, the digest goes to a verified target, and
  a domain is registered by one account.
\<close>

section \<open>The invariant\<close>

definition verified_at :: "rows \<Rightarrow> str \<Rightarrow> str \<Rightarrow> bool" where
  "verified_at rs pk v \<longleftrightarrow>
     (\<exists>t \<in> set rs. is_at pk (''FWDADDR#'' @ v) t \<and> rw_attrs t ''status'' = JStr ''verified'')"

definition forwards_to :: "row \<Rightarrow> str \<Rightarrow> bool" where
  "forwards_to r v \<longleftrightarrow>
     starts_with (rw_sk r) ''RULE#'' \<and> JStr v \<in> set (forward_values (rw_attrs r ''actions'')) \<and> v \<noteq> []"

definition digest_to :: "row \<Rightarrow> str \<Rightarrow> bool" where
  "digest_to r v \<longleftrightarrow> rw_sk r = ''META'' \<and> obj_field (rw_attrs r ''digest'') ''forwardingTargetId'' = JStr v"

text \<open>Rows with an index key of an account are rules, rows with one of a domain are its registrations.\<close>

definition rule_row_ok :: "row \<Rightarrow> bool" where
  "rule_row_ok r \<longleftrightarrow>
     is_text (rw_attrs r ''id'') \<and> rw_sk r = ''RULE#'' @ rule_id (rw_attrs r) \<and> rw_attrs r ''gsi1pk'' = JStr (rw_pk r) \<and>
     (is_system_id (rw_attrs r) \<longrightarrow> forward_values (rw_attrs r ''actions'') = [])"

definition domain_row_ok :: "str \<Rightarrow> row \<Rightarrow> bool" where
  "domain_row_ok d r \<longleftrightarrow>
     rw_sk r = domain_sk d \<and> is_text (rw_attrs r ''gsi1sk'') \<and>
     (\<exists>a. a \<noteq> [] \<and> rw_attrs r ''accountId'' = JStr a \<and> rw_pk r = acct a)"

definition row_ok :: "row \<Rightarrow> bool" where
  "row_ok r \<longleftrightarrow>
     (\<forall>p. rw_attrs r ''gsi1pk'' = JStr p \<longrightarrow> (starts_with p ''ACCT#'' \<longrightarrow> rule_row_ok r) \<and> (\<forall>d. p = domain_sk d \<longrightarrow> domain_row_ok d r)) \<and>
     (starts_with (rw_sk r) ''FWDADDR#'' \<longrightarrow>
        rw_sk r = ''FWDADDR#'' @ text_of (rw_attrs r ''target'') \<and> rw_pk r = acct (text_of (rw_attrs r ''accountId''))) \<and>
     (\<forall>v. forwards_to r v \<longrightarrow> in_index (rw_pk r) ''RULE#'' r)"

definition linked_ok :: "rows \<Rightarrow> row \<Rightarrow> bool" where
  "linked_ok rs r \<longleftrightarrow> (\<forall>v. forwards_to r v \<or> digest_to r v \<longrightarrow> verified_at rs (rw_pk r) v)"

definition one_owner :: "rows \<Rightarrow> bool" where
  "one_owner rs \<longleftrightarrow>
     (\<forall>r \<in> set rs. \<forall>r' \<in> set rs. \<forall>d. rw_attrs r ''gsi1pk'' = JStr (domain_sk d) \<and> rw_attrs r' ''gsi1pk'' = JStr (domain_sk d) \<longrightarrow>
        rw_pk r = rw_pk r')"

definition unique_keys :: "rows \<Rightarrow> bool" where
  "unique_keys rs \<longleftrightarrow> (\<forall>r \<in> set rs. \<forall>r' \<in> set rs. rw_pk r = rw_pk r' \<and> rw_sk r = rw_sk r' \<longrightarrow> r = r')"

definition table_ok :: "rows \<Rightarrow> bool" where
  "table_ok rs \<longleftrightarrow> unique_keys rs \<and> one_owner rs \<and> (\<forall>r \<in> set rs. row_ok r \<and> linked_ok rs r)"

section \<open>Writing rows\<close>

definition plain_key :: "str \<Rightarrow> bool" where
  "plain_key sk \<longleftrightarrow> \<not> starts_with sk ''RULE#'' \<and> \<not> starts_with sk ''FWDADDR#'' \<and> \<not> starts_with sk ''DOMAIN#'' \<and> sk \<noteq> ''META''"

definition tagged :: "attrs \<Rightarrow> bool" where
  "tagged a \<longleftrightarrow> (\<exists>p. a ''gsi1pk'' = JStr p \<and> (starts_with p ''ACCT#'' \<or> starts_with p ''DOMAIN#''))"

lemma starts_with_simps [simp]:
  "starts_with (x # s) (y # p) \<longleftrightarrow> x = y \<and> starts_with s p" "starts_with s []" "\<not> starts_with [] (y # p)"
  by (auto simp: starts_with_def)

lemma verified_at_other:
  "verified_at rs pk v \<Longrightarrow> \<not> (p = pk \<and> sk = ''FWDADDR#'' @ v) \<Longrightarrow> verified_at (put_row p sk a rs) pk v"
  unfolding verified_at_def by (auto simp: put_row_set is_at_def)

lemma table_ok_put:
  assumes "table_ok rs"
    and new: "row_ok \<lparr>rw_pk = pk, rw_sk = sk, rw_attrs = a\<rparr>"
      "\<And>v. forwards_to \<lparr>rw_pk = pk, rw_sk = sk, rw_attrs = a\<rparr> v \<or> digest_to \<lparr>rw_pk = pk, rw_sk = sk, rw_attrs = a\<rparr> v \<Longrightarrow> verified_at rs pk v"
    and owner: "\<And>d r. a ''gsi1pk'' = JStr (domain_sk d) \<Longrightarrow> r \<in> set rs \<Longrightarrow> rw_attrs r ''gsi1pk'' = JStr (domain_sk d) \<Longrightarrow> rw_pk r = pk"
    and frame: "\<And>v. sk = ''FWDADDR#'' @ v \<Longrightarrow> verified_at rs pk v \<Longrightarrow> a ''status'' = JStr ''verified''"
  shows "table_ok (put_row pk sk a rs)"
proof -
  let ?n = "\<lparr>rw_pk = pk, rw_sk = sk, rw_attrs = a\<rparr>"
  have v: "verified_at (put_row pk sk a rs) p v" if "verified_at rs p v" for p v
  proof (cases "p = pk \<and> sk = ''FWDADDR#'' @ v")
    case True
    then have "a ''status'' = JStr ''verified''" using frame that by simp
    then show ?thesis
      unfolding verified_at_def by (intro bexI [of _ ?n]) (use True in \<open>simp_all add: put_row_set is_at_def\<close>)
  qed (use that verified_at_other in auto)
  have "unique_keys (put_row pk sk a rs)"
    using assms(1) unfolding table_ok_def unique_keys_def by (auto simp: put_row_set is_at_def)
  moreover have "one_owner (put_row pk sk a rs)"
  proof -
    have old: "one_owner rs" using assms(1) by (simp add: table_ok_def)
    have new: "rw_pk r = pk" if "r \<in> set rs" "rw_attrs r ''gsi1pk'' = JStr (domain_sk d)" "a ''gsi1pk'' = JStr (domain_sk d)" for r d
      using owner that by blast
    show ?thesis
      unfolding one_owner_def
    proof (intro ballI allI impI, elim conjE)
      fix r r' d
      assume r: "r \<in> set (put_row pk sk a rs)" "r' \<in> set (put_row pk sk a rs)"
        "rw_attrs r ''gsi1pk'' = JStr (domain_sk d)" "rw_attrs r' ''gsi1pk'' = JStr (domain_sk d)"
      show "rw_pk r = rw_pk r'"
      proof (cases "r = ?n \<or> r' = ?n")
        case True
        then have "a ''gsi1pk'' = JStr (domain_sk d)" using r by auto
        with new r have "rw_pk r = pk" "rw_pk r' = pk" by (auto simp: put_row_set)
        then show ?thesis by simp
      next
        case False
        then show ?thesis using old r unfolding one_owner_def by (auto simp: put_row_set)
      qed
    qed
  qed
  moreover have "row_ok r \<and> linked_ok (put_row pk sk a rs) r" if "r \<in> set (put_row pk sk a rs)" for r
  proof (cases "r = ?n")
    case True
    then show ?thesis using new v by (simp add: linked_ok_def)
  next
    case False
    then have "r \<in> set rs" using that by (simp add: put_row_set)
    then show ?thesis using assms(1) v by (auto simp: table_ok_def linked_ok_def)
  qed
  ultimately show ?thesis by (simp add: table_ok_def)
qed

lemma domain_prefix: "starts_with (domain_sk d) ''DOMAIN#''"
  by (simp add: domain_sk_def)

lemma table_ok_put_plain:
  assumes "table_ok rs" "plain_key sk" "\<not> tagged a"
  shows "table_ok (put_row pk sk a rs)"
proof -
  have untagged: "a ''gsi1pk'' = JStr p \<Longrightarrow> \<not> starts_with p ''ACCT#'' \<and> (\<forall>d. p \<noteq> domain_sk d)" for p
    using assms(3) domain_prefix by (auto simp: tagged_def plain_key_def sender_prefix_def)
  show ?thesis
    by (rule table_ok_put [OF assms(1)])
      (use assms(2) untagged in \<open>auto simp: row_ok_def plain_key_def forwards_to_def digest_to_def\<close>)
qed

lemma table_ok_delete:
  assumes "table_ok rs" "\<And>v r. sk = ''FWDADDR#'' @ v \<Longrightarrow> r \<in> set rs \<Longrightarrow> rw_pk r = pk \<Longrightarrow> \<not> forwards_to r v \<and> \<not> digest_to r v"
  shows "table_ok (delete_row pk sk rs)"
proof -
  have v: "verified_at (delete_row pk sk rs) p v"
    if "verified_at rs p v" "\<not> (p = pk \<and> sk = ''FWDADDR#'' @ v)" for p v
    using that unfolding verified_at_def by (auto simp: delete_row_set is_at_def)
  have "linked_ok (delete_row pk sk rs) r" if "r \<in> set rs" for r
    unfolding linked_ok_def
  proof (intro allI impI)
    fix v assume f: "forwards_to r v \<or> digest_to r v"
    then have "verified_at rs (rw_pk r) v" using assms(1) that by (auto simp: table_ok_def linked_ok_def)
    moreover have "\<not> (rw_pk r = pk \<and> sk = ''FWDADDR#'' @ v)" using assms(2) [OF _ that] f by auto
    ultimately show "verified_at (delete_row pk sk rs) (rw_pk r) v" by (rule v)
  qed
  then show ?thesis
    using assms(1) unfolding table_ok_def unique_keys_def one_owner_def by (auto simp: delete_row_set)
qed

lemma table_ok_delete_plain: "table_ok rs \<Longrightarrow> \<not> starts_with sk ''FWDADDR#'' \<Longrightarrow> table_ok (delete_row pk sk rs)"
  by (rule table_ok_delete) auto

lemma untagged_row:
  assumes "table_ok rs" "plain_key sk" "a ''gsi1pk'' = row_or_new pk sk rs ''gsi1pk''"
  shows "\<not> tagged a"
proof (cases "get_row pk sk rs")
  case None
  then show ?thesis using assms(3) by (simp add: row_or_new_def tagged_def no_attrs_def)
next
  case (Some x)
  then obtain r where r: "r \<in> set rs" "is_at pk sk r" "rw_attrs r = x" using get_row_Some by blast
  then have "row_ok r" using assms(1) by (simp add: table_ok_def)
  then have "x ''gsi1pk'' = JStr p \<Longrightarrow> \<not> starts_with p ''ACCT#'' \<and> (\<forall>d. p \<noteq> domain_sk d)" for p
    using r assms(2) domain_prefix [unfolded domain_sk_def]
    by (auto simp: row_ok_def rule_row_ok_def domain_row_ok_def is_at_def plain_key_def domain_sk_def)
  then show ?thesis
    using assms(3) Some by (auto simp: row_or_new_def tagged_def domain_sk_def starts_with_def prefix_def)
qed

lemma keeps_put_plain:
  "plain_key sk \<Longrightarrow> \<not> tagged a \<Longrightarrow> keeps table_ok (request (PutItem pk sk a))"
  by (rule keeps_PutItem) (rule table_ok_put_plain)

lemma keeps_update_plain:
  "plain_key sk \<Longrightarrow> (\<And>a. f a ''gsi1pk'' = a ''gsi1pk'') \<Longrightarrow> keeps table_ok (request (UpdateItem pk sk f))"
  by (rule keeps_UpdateItem) (metis table_ok_put_plain untagged_row)

lemma keeps_drop: "\<not> starts_with sk ''FWDADDR#'' \<Longrightarrow> keeps table_ok (drop_row a sk)"
  unfolding drop_row_def by (rule keeps_DeleteItem) (rule table_ok_delete_plain)

lemma plain_keys [simp]:
  "plain_key (alias_sk d x)" "plain_key (sender_prefix d x @ y)" "plain_key (''VIEW#'' @ y)" "plain_key (''LABEL#'' @ y)"
  "plain_key (''TEMPLATE#'' @ y)" "plain_key ''CONFIG''"
  by (simp_all add: plain_key_def alias_sk_def sender_prefix_def)

lemma not_target [simp]:
  "\<not> starts_with (alias_sk d x) ''FWDADDR#''" "\<not> starts_with (sender_prefix d x @ y) ''FWDADDR#''"
  "\<not> starts_with (''VIEW#'' @ y) ''FWDADDR#''" "\<not> starts_with (''LABEL#'' @ y) ''FWDADDR#''"
  "\<not> starts_with (''TEMPLATE#'' @ y) ''FWDADDR#''" "\<not> starts_with (''RULE#'' @ y) ''FWDADDR#''"
  "\<not> starts_with (''RULE#'' @ y) ''DOMAIN#''"
  by (simp_all add: alias_sk_def sender_prefix_def)

section \<open>Operations that touch neither rules, targets, domains nor the account\<close>

lemma keeps_consult [keeps_intros]: "keeps I (consult f)"
  by (simp add: ht_def consult_def alone_def)

lemma keeps_or_answer [keeps_intros]: "keeps I m \<Longrightarrow> (\<And>x. keeps I (k x)) \<Longrightarrow> keeps I (or_answer e m k)"
  unfolding or_answer_def by (intro keeps_intros)

lemma keeps_or500 [keeps_intros]: "keeps I m \<Longrightarrow> (\<And>x. keeps I (k x)) \<Longrightarrow> keeps I (or500 m k)"
  unfolding or500_def by (rule keeps_or_answer)

lemma ht_or500:
  assumes "ht P m Q I" "\<And>rs. I rs \<Longrightarrow> S INTERNAL rs" "\<And>x. ht (Q x) (k x) S I"
  shows "ht P (or500 m k) S I"
  unfolding or500_def or_answer_def
proof (rule ht_on [OF ht_result_of [OF assms(1)]])
  show "ht (\<lambda>rs. case r of Inl _ \<Rightarrow> I rs | Inr x \<Rightarrow> Q x rs) (case r of Inl _ \<Rightarrow> give INTERNAL | Inr x \<Rightarrow> k x) S I" for r
    by (cases r) (auto intro: ht_give assms)
qed

lemma ht_or500_reads:
  "keeps P m \<Longrightarrow> (\<And>rs. P rs \<Longrightarrow> I rs) \<Longrightarrow> (\<And>rs. I rs \<Longrightarrow> S INTERNAL rs) \<Longrightarrow> (\<And>x. ht P (k x) S I) \<Longrightarrow> ht P (or500 m k) S I"
  by (rule ht_or500 [OF ht_reads])

lemma ht_if: "(b \<Longrightarrow> ht P m S I) \<Longrightarrow> (\<not> b \<Longrightarrow> ht P n S I) \<Longrightarrow> ht P (if b then m else n) S I" by simp

lemma keeps_with_body [keeps_intros]: "(\<And>b. keeps I (k b)) \<Longrightarrow> keeps I (with_body body k)"
  unfolding with_body_def by (intro keeps_intros)

lemma keeps_table_reads [keeps_intros]:
  "keeps I (the_row a sk)" "keeps I (listing a pre)" "keeps I (parseAddress x)"
  unfolding the_row_def listing_def parseAddress_def by (intro keeps_intros)+

lemma keeps_lookups [keeps_intros]:
  "keeps I (getAccount a)" "keeps I (getAlias a x)" "keeps I (getSender a x d)" "keeps I (listSenders a x)" "keeps I (listAliases a)"
  "keeps I (listAliasesForDomain a d)" "keeps I (getView a i)" "keeps I (listViews a)" "keeps I (listLabels a)" "keeps I (listRules a)"
  "keeps I (getDomain a d)" "keeps I (getForwardingTarget a x)" "keeps I (listForwardingTargets a)" "keeps I (getTemplate a i)"
  "keeps I (getDomainOwner d)" "keeps I (resolveAccountForDomain d)"
  unfolding getAccount_def getAlias_def getSender_def listSenders_def listAliases_def listAliasesForDomain_def getView_def listViews_def
    listLabels_def listRules_def getDomain_def getForwardingTarget_def listForwardingTargets_def getTemplate_def getDomainOwner_def
    resolveAccountForDomain_def Let_def
  by (intro keeps_intros)+

lemma keeps_saveSender [keeps_intros]: "keeps table_ok (saveSender a x d p)"
  unfolding saveSender_def by (intro keeps_intros keeps_put_plain) (auto simp: tagged_def plain_key_def sender_prefix_def)

lemma keeps_removeSender [keeps_intros]: "keeps table_ok (removeSender a x d)"
  unfolding removeSender_def by (intro keeps_intros keeps_drop) auto

lemma keeps_saveAlias [keeps_intros]: "keeps table_ok (saveAlias al)"
  unfolding saveAlias_def by (intro keeps_intros keeps_put_plain) (auto simp: tagged_def alias_attrs_def alias_sk_def plain_key_def sender_prefix_def)

lemma keeps_deleteAlias [keeps_intros]: "keeps table_ok (deleteAlias a x)"
  unfolding deleteAlias_def batchDeleteSenders_def
  by (intro keeps_intros keeps_drop keeps_BatchDelete table_ok_delete_plain) (auto simp: sender_sk_def plain_key_def sender_prefix_def)

lemma keeps_renameAlias [keeps_intros]: "keeps table_ok (renameAlias a x y)"
  unfolding renameAlias_def Let_def by (intro keeps_intros)

lemma keeps_createView [keeps_intros]: "keeps table_ok (createView a d)"
  unfolding createView_def Let_def by (intro keeps_intros keeps_put_plain) (auto simp: tagged_def plain_key_def sender_prefix_def)

lemma keeps_updateView [keeps_intros]: "keeps table_ok (updateView a i d)"
  unfolding updateView_def by (intro keeps_intros keeps_update_plain) (auto simp: setting_def plain_key_def sender_prefix_def)

lemma keeps_createLabel [keeps_intros]: "keeps table_ok (createLabel a d)"
  unfolding createLabel_def Let_def by (intro keeps_intros keeps_put_plain) (auto simp: tagged_def plain_key_def sender_prefix_def)

lemma keeps_updateLabel [keeps_intros]: "keeps table_ok (updateLabel a i d)"
  unfolding updateLabel_def by (intro keeps_intros keeps_update_plain) (auto simp: setting_def plain_key_def sender_prefix_def)

lemma keeps_updateTemplate [keeps_intros]: "keeps table_ok (updateTemplate a i d)"
  unfolding updateTemplate_def by (intro keeps_intros keeps_update_plain) (auto simp: setting_def plain_key_def sender_prefix_def)

lemma keeps_drops [keeps_intros]:
  "keeps table_ok (deleteView a i)" "keeps table_ok (deleteLabel a i)" "keeps table_ok (deleteTemplate a i)"
  "keeps table_ok (deleteRule a i)"
  unfolding deleteView_def deleteLabel_def deleteTemplate_def deleteRule_def by (intro keeps_drop, simp)+

lemma keeps_audit_deleted [keeps_intros]: "keeps I (audit_deleted w i)"
  unfolding audit_deleted_def by (intro keeps_intros)

lemma keeps_alias_requests:
  "keeps table_ok (create_alias a b)" "keeps table_ok (patch_alias a x b)" "keeps table_ok (delete_alias a x)"
  "keeps table_ok (create_sender a x b)" "keeps table_ok (update_sender a x y b)" "keeps table_ok (delete_sender a x y)"
  unfolding create_alias_def patch_alias_def rename_alias_def delete_alias_def create_sender_def update_sender_def delete_sender_def
    read_back_def createAlias_def upsertAlias_def Let_def
  by (intro keeps_intros)+

lemma keeps_other_requests:
  "keeps table_ok (create_label a b)" "keeps table_ok (patch_label a i b)" "keeps table_ok (delete_label a i)"
  "keeps table_ok (create_view a b)" "keeps table_ok (patch_view a i b)" "keeps table_ok (delete_view a i)"
  "keeps table_ok (write_template e a i b)" "keeps table_ok (delete_template a i)"
  unfolding create_label_def patch_label_def delete_label_def create_view_def patch_view_def delete_view_def with_label_def with_view_def
    write_template_def delete_template_def check_functions_def audit_template_def
  by (intro keeps_intros)+

lemma keeps_create_template: "keeps table_ok (create_template e a b)"
  unfolding create_template_def check_functions_def audit_template_def createTemplate_def Let_def
  by (intro keeps_intros keeps_put_plain) (auto simp: tagged_def plain_key_def sender_prefix_def)

lemma keeps_patch_user: "keeps table_ok (patch_user_configuration c u b)"
  unfolding patch_user_configuration_def updateUserConfiguration_def
  by (intro keeps_intros keeps_update_plain) (auto simp: setting_def plain_key_def sender_prefix_def)

section \<open>Domains\<close>

lemma domain_sk_eq [simp]: "domain_sk d = domain_sk d' \<longleftrightarrow> d = d'"
  by (simp add: domain_sk_def)

lemma acct_not_domain [simp]: "acct a \<noteq> domain_sk d" "domain_sk d \<noteq> acct a"
  by (simp_all add: acct_def domain_sk_def)

lemma key_prefixes [simp]:
  "\<not> starts_with (domain_sk d) ''ACCT#''" "\<not> starts_with (domain_sk d) ''RULE#''" "\<not> starts_with (domain_sk d) ''FWDADDR#''"
  "domain_sk d \<noteq> ''META''" "domain_sk d \<noteq> CHR ''F'' # x" "starts_with (acct a) ''ACCT#''"
  by (simp_all add: domain_sk_def acct_def)

lemma table_ok_put_domain:
  assumes "table_ok rs" "a \<noteq> []" "\<And>r. r \<in> set rs \<Longrightarrow> rw_attrs r ''gsi1pk'' = JStr (domain_sk d) \<Longrightarrow> rw_pk r = acct a"
  shows "table_ok (put_row (acct a) (domain_sk d) (domain_row a d t) rs)"
  by (rule table_ok_put [OF assms(1)])
    (use assms(2,3) in \<open>auto simp: row_ok_def domain_row_ok_def domain_row_def new_domain_def forwards_to_def digest_to_def\<close>)

lemma table_ok_update_domain:
  assumes ok: "table_ok rs"
    and f: "\<And>x. f x ''gsi1pk'' = x ''gsi1pk''" "\<And>x. f x ''gsi1sk'' = x ''gsi1sk''" "\<And>x. f x ''accountId'' = x ''accountId''"
  shows "table_ok (put_row pk (domain_sk d) (f (row_or_new pk (domain_sk d) rs)) rs)"
proof (cases "get_row pk (domain_sk d) rs")
  case None
  show ?thesis
    by (rule table_ok_put [OF ok])
      (auto simp: row_or_new_def None no_attrs_def f row_ok_def forwards_to_def digest_to_def)
next
  case (Some x)
  then obtain r where r: "r \<in> set rs" "rw_pk r = pk" "rw_sk r = domain_sk d" "rw_attrs r = x"
    using get_row_Some [OF Some] by (auto simp: is_at_def)
  have ro: "row_ok r" "one_owner rs" using ok r(1) by (auto simp: table_ok_def)
  have own: "rw_pk q = pk" if "q \<in> set rs" "rw_attrs q ''gsi1pk'' = JStr (domain_sk d')" "x ''gsi1pk'' = JStr (domain_sk d')" for q d'
    using ro(2) that r unfolding one_owner_def by blast
  have no_rule: "\<not> rule_row_ok r" using r(3) by (auto simp: rule_row_ok_def domain_sk_def)
  have dom: "domain_row_ok d' r" if "x ''gsi1pk'' = JStr (domain_sk d')" for d'
    using ro(1) r(4) that by (simp add: row_ok_def)
  have plain: "\<not> starts_with p ''ACCT#''" if "x ''gsi1pk'' = JStr p" for p
    using ro(1) r(4) that no_rule by (auto simp: row_ok_def)
  have new: "row_ok \<lparr>rw_pk = pk, rw_sk = domain_sk d, rw_attrs = f x\<rparr>"
    unfolding row_ok_def using dom plain r by (auto simp: f domain_row_ok_def forwards_to_def)
  show ?thesis
    unfolding row_or_new_def Some option.case
    by (rule table_ok_put [OF ok new]) (use own in \<open>auto simp: f forwards_to_def digest_to_def\<close>)
qed

lemma keeps_domain_updates [keeps_intros]:
  "keeps table_ok (deleteDomain a d)" "keeps table_ok (updateDomainHealth a d x y fs t h)" "keeps table_ok (updateDomainSetup a d x' y')"
  unfolding deleteDomain_def updateDomainHealth_def updateDomainSetup_def
  by (intro keeps_intros keeps_UpdateItem table_ok_update_domain; simp add: setting_def)+

lemma resolve_owner:
  assumes "\<not> isSystemAccount a"
  shows "ht table_ok (resolveAccountForDomain d)
    (\<lambda>owner rs. table_ok rs \<and> (\<not> (truthy owner \<and> owner \<noteq> Some a) \<longrightarrow>
       (\<forall>r \<in> set rs. rw_attrs r ''gsi1pk'' = JStr (domain_sk d) \<longrightarrow> rw_pk r = acct a))) table_ok"
proof -
  let ?first = "\<lambda>xs. case sort_by (le_by (\<lambda>r. text_of (r ''createdAt''))) xs of [] \<Rightarrow> None | x # _ \<Rightarrow> Some x"
  have own: "rw_pk r = acct a"
    if ok: "table_ok rs" and r: "r \<in> set rs" "rw_attrs r ''gsi1pk'' = JStr (domain_sk d)"
      and owner: "\<not> (truthy (map_option (\<lambda>r. text_of (r ''accountId'')) (?first (query_index (domain_sk d) [] rs))) \<and>
        map_option (\<lambda>r. text_of (r ''accountId'')) (?first (query_index (domain_sk d) [] rs)) \<noteq> Some a)" for rs r
  proof -
    let ?xs = "sort_by (le_by (\<lambda>r. text_of (r ''createdAt''))) (query_index (domain_sk d) [] rs)"
    have "domain_row_ok d r" using ok r by (auto simp: table_ok_def row_ok_def)
    then have "in_index (domain_sk d) [] r" using r by (simp add: in_index_def domain_row_ok_def)
    then have "rw_attrs r \<in> set ?xs" using r by (auto simp: query_index_set)
    then obtain x ys where xs: "?xs = x # ys" by (cases ?xs) auto
    then have "x \<in> set (query_index (domain_sk d) [] rs)" by (metis list.set_intros(1) set_sort_by)
    then obtain q where q: "q \<in> set rs" "rw_attrs q = x" "rw_attrs q ''gsi1pk'' = JStr (domain_sk d)"
      by (auto simp: query_index_set in_index_def)
    then have "domain_row_ok d q" using ok by (auto simp: table_ok_def row_ok_def)
    then obtain a0 where a0: "a0 \<noteq> []" "x ''accountId'' = JStr a0" "rw_pk q = acct a0" using q by (auto simp: domain_row_ok_def)
    then have "a0 = a" using owner xs by simp
    moreover have "rw_pk r = rw_pk q" using ok r q unfolding table_ok_def one_owner_def by blast
    ultimately show ?thesis using a0 by simp
  qed
  have sys: "text_of (x ''accountId'') = ''SYSTEM''" if "system_domain_by_name m d = Some x" for m x
    using that by (auto simp: system_domain_by_name_def system_domain_def SYSTEM_ACCOUNT_ID_def split: if_splits)
  show ?thesis
    unfolding resolveAccountForDomain_def getDomainOwner_def
  proof (rule ht_on [where Q = "\<lambda>x rs. table_ok rs \<and> (let owner = map_option (\<lambda>r. text_of (r ''accountId'')) x in
      \<not> (truthy owner \<and> owner \<noteq> Some a) \<longrightarrow> (\<forall>r \<in> set rs. rw_attrs r ''gsi1pk'' = JStr (domain_sk d) \<longrightarrow> rw_pk r = acct a))"])
    show "ht table_ok (on mail_domain (\<lambda>m. case system_domain_by_name m d of Some x \<Rightarrow> give (Some x)
      | None \<Rightarrow> on (request (QueryIndex (domain_sk d) [])) (\<lambda>xs. give (?first xs))))
     (\<lambda>x rs. table_ok rs \<and> (let owner = map_option (\<lambda>r. text_of (r ''accountId'')) x in
      \<not> (truthy owner \<and> owner \<noteq> Some a) \<longrightarrow> (\<forall>r \<in> set rs. rw_attrs r ''gsi1pk'' = JStr (domain_sk d) \<longrightarrow> rw_pk r = acct a))) table_ok"
    proof (rule ht_on [OF ht_mail])
      fix m
      show "ht table_ok (case system_domain_by_name m d of Some x \<Rightarrow> give (Some x)
      | None \<Rightarrow> on (request (QueryIndex (domain_sk d) [])) (\<lambda>xs. give (?first xs)))
     (\<lambda>x rs. table_ok rs \<and> (let owner = map_option (\<lambda>r. text_of (r ''accountId'')) x in
      \<not> (truthy owner \<and> owner \<noteq> Some a) \<longrightarrow> (\<forall>r \<in> set rs. rw_attrs r ''gsi1pk'' = JStr (domain_sk d) \<longrightarrow> rw_pk r = acct a))) table_ok"
      proof (cases "system_domain_by_name m d")
        case None
        show ?thesis
          unfolding None option.case
        proof (rule ht_on)
          show "ht table_ok (request (QueryIndex (domain_sk d) []))
              (\<lambda>xs rs. table_ok rs \<and> xs = query_index (domain_sk d) [] rs) table_ok"
            by (rule ht_read) (auto simp: QueryIndex_def)
          fix xs
          show "ht (\<lambda>rs. table_ok rs \<and> xs = query_index (domain_sk d) [] rs) (give (?first xs))
     (\<lambda>x rs. table_ok rs \<and> (let owner = map_option (\<lambda>r. text_of (r ''accountId'')) x in
      \<not> (truthy owner \<and> owner \<noteq> Some a) \<longrightarrow> (\<forall>r \<in> set rs. rw_attrs r ''gsi1pk'' = JStr (domain_sk d) \<longrightarrow> rw_pk r = acct a))) table_ok"
          proof (rule ht_give, intro conjI, simp, unfold Let_def, intro impI ballI)
            fix rs r
            assume "table_ok rs \<and> xs = query_index (domain_sk d) [] rs" "r \<in> set rs" "rw_attrs r ''gsi1pk'' = JStr (domain_sk d)"
              "\<not> (truthy (map_option (\<lambda>r. text_of (r ''accountId'')) (?first xs)) \<and>
                 map_option (\<lambda>r. text_of (r ''accountId'')) (?first xs) \<noteq> Some a)"
            then show "rw_pk r = acct a" by (elim conjE, hypsubst) (rule own)
          qed
        qed
      next
        case (Some x)
        then show ?thesis
          using sys assms by (auto intro!: ht_give simp: isSystemAccount_def SYSTEM_ACCOUNT_ID_def)
      qed
    qed
  qed (auto intro: ht_give simp: Let_def)
qed

lemma keeps_create_domain: "a \<noteq> [] \<Longrightarrow> \<not> isSystemAccount a \<Longrightarrow> keeps table_ok (create_domain e a b)"
  unfolding create_domain_def Let_def
proof (intro keeps_with_body)
  fix b assume a: "a \<noteq> []" "\<not> isSystemAccount a"
  let ?d = "text_of (b ''domain'')"
  let ?P = "\<lambda>rs. table_ok rs \<and> (\<forall>r \<in> set rs. rw_attrs r ''gsi1pk'' = JStr (domain_sk ?d) \<longrightarrow> rw_pk r = acct a)"
  have put: "ht ?P (createDomain a ?d) (\<lambda>_. table_ok) table_ok"
    unfolding createDomain_def
    by (intro ht_on_reads [OF keeps_now] ht_on [where Q = "\<lambda>_. table_ok"] ht_send)
      (auto simp: PutItemIf_def intro!: table_ok_put_domain a(1) keeps_intros split: if_splits)
  have rest: "ht ?P (on (consult (aeRegister e ?d a)) (\<lambda>registered. if \<not> registered then give INTERNAL
      else or500 (createDomain a ?d) (\<lambda>r. give (ABody 201 (toApiDomain r))))) (\<lambda>_. table_ok) table_ok"
    by (intro ht_on_reads [OF keeps_consult] ht_if ht_or500 [OF put] ht_give) auto
  show "keeps table_ok (or500 (resolveAccountForDomain ?d) (\<lambda>owner.
        if truthy owner \<and> owner \<noteq> Some a then give (AErr 409 ''DOMAIN_EXISTS'')
        else on (consult (aeRegister e ?d a)) (\<lambda>registered. if \<not> registered then give INTERNAL
          else or500 (createDomain a ?d) (\<lambda>r. give (ABody 201 (toApiDomain r))))))"
  proof (rule ht_or500 [OF resolve_owner [OF a(2)]])
    fix owner
    show "ht (\<lambda>rs. table_ok rs \<and> (\<not> (truthy owner \<and> owner \<noteq> Some a) \<longrightarrow>
         (\<forall>r \<in> set rs. rw_attrs r ''gsi1pk'' = JStr (domain_sk ?d) \<longrightarrow> rw_pk r = acct a)))
       (if truthy owner \<and> owner \<noteq> Some a then give (AErr 409 ''DOMAIN_EXISTS'')
        else on (consult (aeRegister e ?d a)) (\<lambda>registered. if \<not> registered then give INTERNAL
          else or500 (createDomain a ?d) (\<lambda>r. give (ABody 201 (toApiDomain r))))) (\<lambda>_. table_ok) table_ok"
      by (rule ht_if; (rule ht_give | rule ht_weaken [OF rest]); blast)
  qed
qed

lemma keeps_domain_requests:
  "keeps table_ok (verify_domain e a x)" "keeps table_ok (delete_domain a x)"
  unfolding verify_domain_def delete_domain_def Let_def by (intro keeps_intros)+

section \<open>Forwarding targets\<close>

lemma table_ok_put_target:
  assumes "table_ok rs" "\<not> tagged t" "verified_at rs (acct (text_of (t ''accountId''))) (text_of (t ''target'')) \<Longrightarrow> t ''status'' = JStr ''verified''"
  shows "table_ok (put_row (acct (text_of (t ''accountId''))) (''FWDADDR#'' @ text_of (t ''target'')) t rs)"
proof -
  have untagged: "t ''gsi1pk'' = JStr p \<Longrightarrow> \<not> starts_with p ''ACCT#'' \<and> (\<forall>d. p \<noteq> domain_sk d)" for p
    using assms(2) domain_prefix by (auto simp: tagged_def)
  show ?thesis
  proof (rule table_ok_put [OF assms(1)])
    show "row_ok \<lparr>rw_pk = acct (text_of (t ''accountId'')), rw_sk = ''FWDADDR#'' @ text_of (t ''target''), rw_attrs = t\<rparr>"
      using untagged by (simp add: row_ok_def forwards_to_def)
  next
    fix d r assume "t ''gsi1pk'' = JStr (domain_sk d)"
    then have False using untagged [of "domain_sk d"] by simp
    then show "rw_pk r = acct (text_of (t ''accountId''))" ..
  next
    fix v assume "''FWDADDR#'' @ text_of (t ''target'') = ''FWDADDR#'' @ v" "verified_at rs (acct (text_of (t ''accountId''))) v"
    then show "t ''status'' = JStr ''verified''" using assms(3) by simp
  qed (simp add: forwards_to_def digest_to_def)
qed

lemma same_row:
  assumes "table_ok rs" "r \<in> set rs" "t \<in> set rs" "is_at pk sk r" "is_at pk sk t"
  shows "r = t"
proof -
  have "rw_pk r = rw_pk t" "rw_sk r = rw_sk t" using assms(4,5) by (auto simp: is_at_def)
  moreover have "unique_keys rs" using assms(1) by (simp add: table_ok_def)
  ultimately show ?thesis using assms(2,3) unfolding unique_keys_def by blast
qed

lemma verified_at_get:
  assumes "table_ok rs" "verified_at rs pk v"
  shows "is_verified (get_row pk (''FWDADDR#'' @ v) rs)"
proof -
  obtain t where t: "t \<in> set rs" "is_at pk (''FWDADDR#'' @ v) t" "rw_attrs t ''status'' = JStr ''verified''"
    using assms(2) by (auto simp: verified_at_def)
  then obtain x where x: "get_row pk (''FWDADDR#'' @ v) rs = Some x"
    using get_row_None [of pk "''FWDADDR#'' @ v" rs t] by (cases "get_row pk (''FWDADDR#'' @ v) rs") auto
  then obtain r where r: "r \<in> set rs" "is_at pk (''FWDADDR#'' @ v) r" "rw_attrs r = x" using get_row_Some by blast
  have "r = t" by (rule same_row [OF assms(1) r(1) t(1) r(2) t(2)])
  then show ?thesis using x r t by (simp add: is_verified_def)
qed

lemma get_verified:
  assumes "is_verified (get_row pk (''FWDADDR#'' @ v) rs)"
  shows "verified_at rs pk v"
proof -
  obtain x where x: "get_row pk (''FWDADDR#'' @ v) rs = Some x" "x ''status'' = JStr ''verified''"
    using assms by (auto simp: is_verified_def split: option.splits)
  then show ?thesis using get_row_Some [OF x(1)] unfolding verified_at_def by blast
qed

lemma ht_getForwardingTarget:
  "(\<And>rs. P rs \<Longrightarrow> I rs) \<Longrightarrow>
    ht P (getForwardingTarget a v) (\<lambda>x rs. P rs \<and> x = get_row (acct a) (''FWDADDR#'' @ v) rs) I"
  unfolding getForwardingTarget_def the_row_def by (rule ht_read) (auto simp: GetItem_def)

lemma saved_target:
  assumes "\<not> tagged t"
  shows "ht (\<lambda>rs. table_ok rs \<and> (verified_at rs (acct (text_of (t ''accountId''))) (text_of (t ''target'')) \<longrightarrow> t ''status'' = JStr ''verified''))
    (saveForwardingTarget t) (\<lambda>_. table_ok) table_ok"
  unfolding saveForwardingTarget_def
  by (rule ht_request) (use assms in \<open>auto simp: PutItem_def simp del: append_Cons append_Nil intro!: table_ok_put_target\<close>)

lemma save_new_target_ok:
  "ht (\<lambda>rs. table_ok rs \<and> \<not> verified_at rs (acct a) (text_of (b ''target''))) (save_new_target e a b existing) (\<lambda>_. table_ok) table_ok"
  unfolding save_new_target_def Let_def
  by (intro ht_on_reads [OF keeps_now] ht_on_reads [OF keeps_fresh] ht_on_reads [OF keeps_consult] ht_if ht_give
      ht_or500 [OF ht_weaken [OF saved_target]])
    (auto simp: tagged_def new_target_def mark_verified_def split: option.splits)

lemma keeps_create_target: "keeps table_ok (create_target e a b)"
  unfolding create_target_def
proof (intro keeps_with_body ht_or500 [OF ht_getForwardingTarget] ht_if)
  fix b existing assume "\<not> is_verified existing"
  then show "ht (\<lambda>rs. table_ok rs \<and> existing = get_row (acct a) (''FWDADDR#'' @ text_of (b ''target'')) rs)
      (save_new_target e a b existing) (\<lambda>_. table_ok) table_ok"
    by (intro ht_weaken [OF save_new_target_ok]) (auto dest: verified_at_get simp del: append_Cons append_Nil)
qed (auto intro: ht_give)

lemma keeps_confirm_target:
  "\<not> tagged x \<Longrightarrow> keeps table_ok (confirm_target b x)"
  unfolding confirm_target_def
  by (intro keeps_intros ht_weaken [OF saved_target]) (auto simp: tagged_def mark_verified_def)

lemma target_untagged:
  assumes "table_ok rs" "get_row pk (''FWDADDR#'' @ v) rs = Some x"
  shows "\<not> tagged x"
proof -
  obtain r where r: "r \<in> set rs" "rw_sk r = ''FWDADDR#'' @ v" "rw_attrs r = x" using get_row_Some [OF assms(2)] by (auto simp: is_at_def)
  then have "row_ok r" using assms(1) by (simp add: table_ok_def)
  moreover have "\<not> rule_row_ok r" "\<not> domain_row_ok d r" for d using r(2) by (auto simp: rule_row_ok_def domain_row_ok_def domain_sk_def)
  ultimately show ?thesis
    using r(3) by (auto simp: tagged_def row_ok_def domain_sk_def starts_with_def prefix_def)
qed

lemma keeps_verify_target: "keeps table_ok (verify_target a x b)"
  unfolding verify_target_def
proof (intro keeps_with_body ht_or500 [OF ht_getForwardingTarget])
  fix b existing
  show "ht (\<lambda>rs. table_ok rs \<and> existing = get_row (acct a) (''FWDADDR#'' @ to_lower x) rs)
      (case existing of None \<Rightarrow> give (AErr 404 ''FORWARDING_ADDRESS_NOT_FOUND'') | Some x \<Rightarrow> confirm_target b x) (\<lambda>_. table_ok) table_ok"
  proof (cases existing)
    case (Some y)
    then show ?thesis
    proof (cases "tagged y")
      case True
      then show ?thesis unfolding ht_def using target_untagged Some by (metis (no_types, lifting))
    next
      case False
      then show ?thesis unfolding Some option.case by (rule ht_weaken [OF keeps_confirm_target]) auto
    qed
  qed (auto intro: ht_give)
qed auto

text \<open>What the account and the rules that were read say of the table\<close>

lemma with_defaults_digest [simp]: "with_defaults r ''digest'' = r ''digest''"
  by (simp add: with_defaults_def Let_def)

lemma ht_getAccount:
  assumes "\<not> isSystemAccount a" "\<And>rs. P rs \<Longrightarrow> table_ok rs"
  shows "ht P (getAccount a)
    (\<lambda>x rs. P rs \<and> (\<forall>r v. r \<in> set rs \<and> rw_pk r = acct a \<and> digest_to r v \<longrightarrow>
       (\<exists>y. x = Some y \<and> obj_field (y ''digest'') ''forwardingTargetId'' = JStr v))) table_ok"
  unfolding getAccount_def if_not_P [OF assms(1)]
proof (rule ht_on)
  show "ht P (the_row a ''META'') (\<lambda>x rs. P rs \<and> x = get_row (acct a) ''META'' rs) table_ok"
    unfolding the_row_def by (rule ht_read) (auto simp: GetItem_def assms(2))
  fix x
  have "\<exists>y. x = Some y \<and> rw_attrs r = y"
    if h: "P rs" "x = get_row (acct a) ''META'' rs" "r \<in> set rs" "rw_pk r = acct a" "digest_to r v" for rs r v
  proof -
    have at: "is_at (acct a) ''META'' r" using h by (simp add: is_at_def digest_to_def)
    then obtain y where y: "x = Some y" using get_row_None [of "acct a" "''META''" rs r] h by (cases x) auto
    then have "get_row (acct a) ''META'' rs = Some y" using h(2) by simp
    then obtain q where q: "q \<in> set rs" "is_at (acct a) ''META'' q" "rw_attrs q = y" using get_row_Some by blast
    then have "r = q" using same_row [OF assms(2) [OF h(1)] h(3) q(1) at q(2)] by simp
    then show ?thesis using y q by simp
  qed
  then show "ht (\<lambda>rs. P rs \<and> x = get_row (acct a) ''META'' rs) (give (map_option with_defaults x))
     (\<lambda>x rs. P rs \<and> (\<forall>r v. r \<in> set rs \<and> rw_pk r = acct a \<and> digest_to r v \<longrightarrow>
       (\<exists>y. x = Some y \<and> obj_field (y ''digest'') ''forwardingTargetId'' = JStr v))) table_ok"
    by (intro ht_give) (fastforce simp: digest_to_def)
qed

lemma by_number_set [simp]: "set (by_number k xs) = set xs"
  by (simp add: by_number_def)

lemma overridden_keeps [simp]: "overridden st r ''accountId'' = r ''accountId''" "overridden st r ''id'' = r ''id''"
  "overridden st r ''actions'' = r ''actions''"
  by (auto simp: overridden_def split: option.splits)

lemma system_rules:
  "r \<in> set SYSTEM_RULES \<Longrightarrow> r ''accountId'' = JStr ''SYSTEM'' \<and> is_text (r ''id'') \<and> is_system_id r \<and> forward_values (r ''actions'') = []"
  by (auto simp: SYSTEM_RULES_def system_rule_def rule_action_def forward_values_def is_system_id_def rule_id_def List.map_filter_def)

lemma ht_listRules:
  assumes "\<And>rs. P rs \<Longrightarrow> table_ok rs"
  shows "ht P (listRules a)
    (\<lambda>xs rs. P rs \<and> (\<forall>r v. r \<in> set rs \<and> rw_pk r = acct a \<and> forwards_to r v \<longrightarrow> rw_attrs r \<in> set xs) \<and>
       (\<forall>x \<in> set xs. x ''accountId'' = JStr ''SYSTEM'' \<or>
          (\<exists>r \<in> set rs. is_at (acct a) (''RULE#'' @ rule_id x) r \<and> rw_attrs r = x \<and> rule_row_ok r \<and> \<not> is_system_id x))) table_ok"
  unfolding listRules_def
proof (rule ht_on)
  show "ht P (request (QueryIndex (acct a) ''RULE#'')) (\<lambda>xs rs. P rs \<and> xs = query_index (acct a) ''RULE#'' rs) table_ok"
    by (rule ht_read) (auto simp: QueryIndex_def assms)
  fix xs
  let ?all = "by_number ''priorityOrder'' (map (overridden xs) SYSTEM_RULES @ filter (\<lambda>r. \<not> is_system_id r) xs)"
  have listed: "rw_attrs r \<in> set ?all"
    if "P rs" "xs = query_index (acct a) ''RULE#'' rs" "r \<in> set rs" "rw_pk r = acct a" "forwards_to r v" for rs r v
  proof -
    have ok: "row_ok r" using assms [OF that(1)] that(3) by (simp add: table_ok_def)
    then have idx: "in_index (acct a) ''RULE#'' r" using that(4,5) by (auto simp: row_ok_def)
    then have "rule_row_ok r" using ok by (auto simp: row_ok_def in_index_def)
    then have "\<not> is_system_id (rw_attrs r)" using that(5) by (auto simp: rule_row_ok_def forwards_to_def)
    moreover have "rw_attrs r \<in> set xs" using idx that(2,3) by (auto simp: query_index_set)
    ultimately show ?thesis by simp
  qed
  have stored: "\<exists>r \<in> set rs. is_at (acct a) (''RULE#'' @ rule_id x) r \<and> rw_attrs r = x \<and> rule_row_ok r"
    if h: "P rs" "xs = query_index (acct a) ''RULE#'' rs" "x \<in> set xs" for rs x
  proof -
    obtain r where r: "r \<in> set rs" "in_index (acct a) ''RULE#'' r" "rw_attrs r = x" using h by (auto simp: query_index_set)
    then have "rule_row_ok r" using assms [OF h(1)] by (auto simp: table_ok_def row_ok_def in_index_def)
    moreover have "rw_pk r = acct a" using calculation r by (simp add: rule_row_ok_def in_index_def)
    ultimately show ?thesis using r by (intro bexI [of _ r]) (auto simp: is_at_def rule_row_ok_def)
  qed
  show "ht (\<lambda>rs. P rs \<and> xs = query_index (acct a) ''RULE#'' rs)
     (if \<exists>r \<in> set xs. \<not> is_text (r ''id'') then deny (DbError ''TypeError'' False) else give ?all)
    (\<lambda>xs rs. P rs \<and> (\<forall>r v. r \<in> set rs \<and> rw_pk r = acct a \<and> forwards_to r v \<longrightarrow> rw_attrs r \<in> set xs) \<and>
       (\<forall>x \<in> set xs. x ''accountId'' = JStr ''SYSTEM'' \<or>
          (\<exists>r \<in> set rs. is_at (acct a) (''RULE#'' @ rule_id x) r \<and> rw_attrs r = x \<and> rule_row_ok r \<and> \<not> is_system_id x))) table_ok"
  proof (intro ht_if ht_deny ht_give conjI allI impI ballI)
    fix rs x assume a1: "P rs \<and> xs = query_index (acct a) ''RULE#'' rs" "x \<in> set ?all"
    then consider "x \<in> overridden xs ` set SYSTEM_RULES" | "x \<in> set xs" "\<not> is_system_id x" by auto
    then show "x ''accountId'' = JStr ''SYSTEM'' \<or>
          (\<exists>r \<in> set rs. is_at (acct a) (''RULE#'' @ rule_id x) r \<and> rw_attrs r = x \<and> rule_row_ok r \<and> \<not> is_system_id x)"
    proof cases
      case 1
      then show ?thesis using system_rules by auto
    next
      case 2
      then show ?thesis using stored [of rs x] a1 by (auto simp del: append_Cons append_Nil)
    qed
  next
    fix rs r v
    assume "P rs \<and> xs = query_index (acct a) ''RULE#'' rs" "r \<in> set rs \<and> rw_pk r = acct a \<and> forwards_to r v"
    then show "rw_attrs r \<in> set ?all" using listed by blast
  qed (use assms in blast)+
qed

lemma keeps_delete_target:
  assumes "\<not> isSystemAccount a"
  shows "keeps table_ok (delete_target a x)"
  unfolding delete_target_def unless_in_rule_def
proof (intro ht_or500 [OF ht_getAccount [OF assms]] ht_if)
  fix acc
  let ?v = "to_lower x"
  let ?D = "\<lambda>rs. table_ok rs \<and> (\<forall>r v. r \<in> set rs \<and> rw_pk r = acct a \<and> digest_to r v \<longrightarrow>
       (\<exists>y. acc = Some y \<and> obj_field (y ''digest'') ''forwardingTargetId'' = JStr v))"
  assume unused: "\<not> (case acc of Some r \<Rightarrow> obj_field (r ''digest'') ''forwardingTargetId'' = JStr ?v | None \<Rightarrow> False)"
  show "ht ?D (or500 (listRules a) (\<lambda>rules.
       if \<exists>r \<in> set rules. JStr ?v \<in> set (forward_values (r ''actions'')) then give (AErr 409 ''TARGET_IN_USE'')
       else or500 (deleteForwardingTarget a ?v) (\<lambda>_. give (ANone 204)))) (\<lambda>_. table_ok) table_ok"
  proof (rule ht_or500 [OF ht_listRules], simp, simp, rule ht_if)
    fix rules assume norule: "\<not> (\<exists>r \<in> set rules. JStr ?v \<in> set (forward_values (r ''actions'')))"
    have del: "ht (\<lambda>rs. ?D rs \<and> (\<forall>r v. r \<in> set rs \<and> rw_pk r = acct a \<and> forwards_to r v \<longrightarrow> rw_attrs r \<in> set rules))
       (deleteForwardingTarget a ?v) (\<lambda>_. table_ok) table_ok"
      unfolding deleteForwardingTarget_def drop_row_def
    proof (rule ht_request)
      fix rs ans rs'
      assume P: "?D rs \<and> (\<forall>r v. r \<in> set rs \<and> rw_pk r = acct a \<and> forwards_to r v \<longrightarrow> rw_attrs r \<in> set rules)"
        and r: "DeleteItem (acct a) (''FWDADDR#'' @ ?v) rs = (ans, rs')"
      have "table_ok (delete_row (acct a) (''FWDADDR#'' @ ?v) rs)"
      proof (rule table_ok_delete)
        fix v q assume q: "''FWDADDR#'' @ ?v = ''FWDADDR#'' @ v" "q \<in> set rs" "rw_pk q = acct a"
        have v: "v = ?v" using q(1) by simp
        show "\<not> forwards_to q v \<and> \<not> digest_to q v"
        proof (intro conjI notI)
          assume f: "forwards_to q v"
          then have "rw_attrs q \<in> set rules" using P [THEN conjunct2, rule_format, of q v] q(2,3) by simp
          then show False using norule f v by (auto simp: forwards_to_def)
        next
          assume "digest_to q v"
          then show False using P q v unused by (auto split: option.splits)
        qed
      qed (use P in simp)
      then show "table_ok rs \<and> table_ok rs' \<and> (\<forall>x. ans = Inr x \<longrightarrow> table_ok rs')" using P r by (auto simp: DeleteItem_def)
    qed
    show "ht (\<lambda>rs. ?D rs \<and> (\<forall>r v. r \<in> set rs \<and> rw_pk r = acct a \<and> forwards_to r v \<longrightarrow> rw_attrs r \<in> set rules) \<and>
       (\<forall>x \<in> set rules. x ''accountId'' = JStr ''SYSTEM'' \<or>
          (\<exists>r \<in> set rs. is_at (acct a) (''RULE#'' @ rule_id x) r \<and> rw_attrs r = x \<and> rule_row_ok r \<and> \<not> is_system_id x)))
       (or500 (deleteForwardingTarget a ?v) (\<lambda>_. give (ANone 204))) (\<lambda>_. table_ok) table_ok"
      by (intro ht_or500 [OF ht_weaken [OF del]] ht_give) blast+
  qed (auto intro: ht_give)
qed (auto intro: ht_give)

section \<open>Rules\<close>

definition all_verified :: "str \<Rightarrow> json \<Rightarrow> rows \<Rightarrow> bool" where
  "all_verified a acts rs \<longleftrightarrow>
     (\<forall>v. JStr v \<in> set (forward_values acts) \<and> v \<noteq> [] \<longrightarrow> verified_at rs (acct a) v)"

lemma forward_targets_mem: "JStr v \<in> set (forward_values acts) \<Longrightarrow> v \<noteq> [] \<Longrightarrow> v \<in> set (forward_targets acts)"
  unfolding forward_targets_def by (auto simp: falsy_def image_iff intro!: bexI [of _ "JStr v"])

lemma ht_validate:
  assumes "\<And>rs. P rs \<Longrightarrow> table_ok rs"
  shows "ht P (validateForwardTargets a acts) (\<lambda>okay rs. P rs \<and> (okay \<longrightarrow> all_verified a acts rs)) table_ok"
proof -
  have verified: "all_verified a acts rs"
    if rs: "P rs" and each: "\<forall>v \<in> set (forward_targets acts).
        v \<in> (\<lambda>t. text_of (t ''target'')) ` {t \<in> set (query (acct a) ''FWDADDR#'' rs). is_verified (Some t)}" for rs
    unfolding all_verified_def
  proof (intro allI impI, elim conjE)
    fix v assume "JStr v \<in> set (forward_values acts)" "v \<noteq> []"
    then have "v \<in> set (forward_targets acts)" by (rule forward_targets_mem)
    then obtain t where t: "t \<in> set (query (acct a) ''FWDADDR#'' rs)" "is_verified (Some t)" "v = text_of (t ''target'')"
      using each by blast
    then obtain r where r: "r \<in> set rs" "rw_pk r = acct a" "starts_with (rw_sk r) ''FWDADDR#''" "rw_attrs r = t"
      by (auto simp: query_set)
    then have "row_ok r" using assms [OF rs] by (simp add: table_ok_def)
    then have "rw_sk r = ''FWDADDR#'' @ v" using r(3,4) t(3) by (simp add: row_ok_def)
    then show "verified_at rs (acct a) v"
      unfolding verified_at_def using r t(2) by (intro bexI [of _ r]) (auto simp: is_at_def is_verified_def)
  qed
  show ?thesis
  proof (cases "forward_targets acts = []")
    case True
    then have "all_verified a acts rs" for rs using forward_targets_mem by (fastforce simp: all_verified_def)
    then show ?thesis unfolding validateForwardTargets_def by (simp add: True ht_give)
  next
    case False
    have list: "ht P (listForwardingTargets a) (\<lambda>xs rs. P rs \<and> xs = query (acct a) ''FWDADDR#'' rs) P"
      unfolding listForwardingTargets_def listing_def by (rule ht_read) (auto simp: Query_def)
    show ?thesis
      unfolding validateForwardTargets_def if_not_P [OF False]
    proof (rule ht_on [OF ht_fail [OF ht_result_of [OF list] assms]], assumption, rule ht_give)
      fix r rs
      assume "case r of Inl _ \<Rightarrow> P rs | Inr xs \<Rightarrow> P rs \<and> xs = query (acct a) ''FWDADDR#'' rs"
      then show "P rs \<and> ((case r of Inl _ \<Rightarrow> False
          | Inr xs \<Rightarrow> (let verified = map (\<lambda>t. text_of (t ''target'')) (filter (\<lambda>t. is_verified (Some t)) xs)
                in \<forall>v \<in> set (forward_targets acts). v \<in> set verified)) \<longrightarrow> all_verified a acts rs)"
        using verified by (cases r) (simp_all add: Let_def)
    qed
  qed
qed

lemma rule_sk_starts: "starts_with (ruleGsi1sk st p i) ''RULE#''"
  by (simp add: ruleGsi1sk_def Let_def)

lemma rule_rows [simp]: "acct a \<noteq> CHR ''D'' # x" "domain_sk d \<noteq> CHR ''R'' # x"
  by (simp_all add: acct_def domain_sk_def)

text \<open>A row under a rule's key that has the index keys of the account, its identifier and verified targets\<close>

lemma table_ok_put_rule:
  assumes "table_ok rs" "x ''gsi1pk'' = JStr (acct a)" "x ''gsi1sk'' = JStr s" "starts_with s ''RULE#''" "x ''id'' = JStr i"
    "is_system_id x \<Longrightarrow> forward_values (x ''actions'') = []" "all_verified a (x ''actions'') rs"
  shows "table_ok (put_row (acct a) (''RULE#'' @ i) x rs)"
proof (rule table_ok_put [OF assms(1)])
  show "row_ok \<lparr>rw_pk = acct a, rw_sk = ''RULE#'' @ i, rw_attrs = x\<rparr>"
    using assms(2-6) by (auto simp: row_ok_def rule_row_ok_def rule_id_def in_index_def)
  show "verified_at rs (acct a) v"
    if "forwards_to \<lparr>rw_pk = acct a, rw_sk = ''RULE#'' @ i, rw_attrs = x\<rparr> v \<or> digest_to \<lparr>rw_pk = acct a, rw_sk = ''RULE#'' @ i, rw_attrs = x\<rparr> v" for v
    using that assms(7) by (auto simp: forwards_to_def digest_to_def all_verified_def)
qed (use assms(2) in auto)

lemma ht_createRule:
  "ht (\<lambda>rs. table_ok rs \<and> all_verified a (d ''actions'') rs) (createRule a d) (\<lambda>_. table_ok) table_ok"
  unfolding createRule_def Let_def
proof (intro ht_on_reads [OF keeps_lookups(10)] ht_on_reads [OF keeps_now] ht_on_reads [OF keeps_fresh] ht_on ht_request)
  fix rules t n rs ans rs'
  let ?i = "''rule-'' @ n"
  let ?x = "rule_row a ?i (obj [(''id'', JStr ?i), (''accountId'', JStr a), (''name'', d ''name''),
                     (''condition'', either (d ''condition'') (JStr [])), (''conditionType'', d ''conditionType''),
                     (''actions'', d ''actions''), (''status'', JStr ''enabled''),
                     (''priorityOrder'', either (d ''priorityOrder'')
                        (JNum (next_number ''priorityOrder'' 1801 (filter (\<lambda>r. \<not> is_system_id r) rules)))),
                     (''tags'', d ''tags''), (''createdAt'', JStr t), (''updatedAt'', JStr t)])"
  assume P: "table_ok rs \<and> all_verified a (d ''actions'') rs" and q: "PutItem (acct a) (''RULE#'' @ ?i) ?x rs = (ans, rs')"
  have "table_ok (put_row (acct a) (''RULE#'' @ ?i) ?x rs)"
    by (rule table_ok_put_rule) (use P in \<open>auto simp: rule_row_def rule_sk_starts is_system_id_def rule_id_def\<close>)
  then show "table_ok rs \<and> table_ok rs' \<and> (\<forall>x. ans = Inr x \<longrightarrow> table_ok rs')" using P q by (auto simp: PutItem_def)
qed (auto intro: ht_give)

lemma ht_check_targets:
  assumes "ht (\<lambda>rs. P rs \<and> all_verified a acts rs) k (\<lambda>_. table_ok) table_ok" "\<And>rs. P rs \<Longrightarrow> table_ok rs"
  shows "ht P (check_targets a acts k) (\<lambda>_. table_ok) table_ok"
  unfolding check_targets_def
proof (rule ht_on [OF ht_validate [OF assms(2)]], assumption)
  fix okay
  show "ht (\<lambda>rs. P rs \<and> (okay \<longrightarrow> all_verified a acts rs)) (if okay then k else give (AErr 400 ''UNVERIFIED_FORWARD_TARGET''))
     (\<lambda>_. table_ok) table_ok"
    by (rule ht_if; (rule ht_give | rule ht_weaken [OF assms(1)]); use assms(2) in blast)
qed

lemma ht_check_code:
  "ht P k (\<lambda>_. table_ok) table_ok \<Longrightarrow> (\<And>rs. P rs \<Longrightarrow> table_ok rs) \<Longrightarrow> ht P (check_code e c k) (\<lambda>_. table_ok) table_ok"
  unfolding check_code_def by (intro ht_if ht_on_reads [OF keeps_consult] ht_give) auto

lemma ht_check_logic:
  "ht P k (\<lambda>_. table_ok) table_ok \<Longrightarrow> (\<And>rs. P rs \<Longrightarrow> table_ok rs) \<Longrightarrow> ht P (check_logic e c k) (\<lambda>_. table_ok) table_ok"
  unfolding check_logic_def by (intro ht_if ht_give) auto

lemma ht_audit_rule:
  "ht P k (\<lambda>_. table_ok) table_ok \<Longrightarrow> (\<And>rs. P rs \<Longrightarrow> table_ok rs) \<Longrightarrow> ht P (audit_rule w act i c k) (\<lambda>_. table_ok) table_ok"
  unfolding audit_rule_def by (intro ht_if ht_on_reads [OF keeps_note_down]) auto

lemma keeps_create_rule: "keeps table_ok (create_rule e a b)"
proof -
  have k: "keeps table_ok (check_targets a (b ''actions'') (audit_rule js ''created'' [] (b ''condition'')
          (or500 (createRule a b) (\<lambda>r. give (ABody 201 (toApiRule r))))))" for b js
    by (intro ht_check_targets ht_audit_rule ht_or500 [OF ht_createRule] ht_give) auto
  show ?thesis
    unfolding create_rule_def Let_def by (intro keeps_with_body) (auto intro: ht_check_code ht_check_logic k)
qed

text \<open>The stored rule that a request names\<close>

definition has_rule :: "str \<Rightarrow> str \<Rightarrow> rows \<Rightarrow> bool" where
  "has_rule a i rs \<longleftrightarrow> (\<exists>r \<in> set rs. is_at (acct a) (''RULE#'' @ i) r \<and> rule_row_ok r \<and> \<not> is_system_id (rw_attrs r))"

lemma ht_updateRule:
  "ht (\<lambda>rs. table_ok rs \<and> has_rule a i rs \<and> (d ''actions'' \<noteq> JUndefined \<longrightarrow> all_verified a (d ''actions'') rs))
     (updateRule a i d) (\<lambda>_. table_ok) table_ok"
proof -
  let ?P = "\<lambda>rs. table_ok rs \<and> has_rule a i rs \<and> (d ''actions'' \<noteq> JUndefined \<longrightarrow> all_verified a (d ''actions'') rs)"
  have put: "table_ok (put_row (acct a) (''RULE#'' @ i) (rule_changed a i d t st n r0) rs)"
    if P: "?P rs" and r0: "r0 = row_or_new (acct a) (''RULE#'' @ i) rs" for rs r0 t st n
  proof -
    obtain r where r: "r \<in> set rs" "is_at (acct a) (''RULE#'' @ i) r" "rule_row_ok r" "\<not> is_system_id (rw_attrs r)"
      using P by (auto simp: has_rule_def)
    obtain x where x: "get_row (acct a) (''RULE#'' @ i) rs = Some x"
      using get_row_None [OF _ r(1)] r(2) by (cases "get_row (acct a) (''RULE#'' @ i) rs") auto
    then obtain q where q: "q \<in> set rs" "is_at (acct a) (''RULE#'' @ i) q" "rw_attrs q = x" using get_row_Some by blast
    have "q = r" using same_row [OF _ q(1) r(1) q(2) r(2)] P by blast
    then have attrs: "r0 = rw_attrs r" using r0 x q by (simp add: row_or_new_def)
    have row: "row_ok r" "linked_ok rs r" using P r(1) by (auto simp: table_ok_def)
    have i: "r0 ''id'' = JStr i" "rule_id r0 = i"
      using r(2,3) attrs by (auto simp: rule_row_ok_def is_at_def rule_id_def is_text_iff)
    have "all_verified a (r0 ''actions'') rs"
      using row(2) r(2) attrs by (auto simp: all_verified_def linked_ok_def forwards_to_def is_at_def)
    then have v: "all_verified a (if d ''actions'' \<noteq> JUndefined then d ''actions'' else r0 ''actions'') rs" using P by simp
    show ?thesis
      by (rule table_ok_put_rule)
        (use P v i r(4) attrs in \<open>auto simp: rule_changed_def setting_def rule_sk_starts is_system_id_def rule_id_def\<close>)
  qed
  have merged: "ht ?P (merged existing d k) (\<lambda>_. ?P) table_ok" for existing k
    unfolding merged_def by (cases existing) (auto intro: ht_give ht_raise)
  have upd: "ht ?P (request (UpdateItem (acct a) (''RULE#'' @ i) (rule_changed a i d t st n))) (\<lambda>_. table_ok) table_ok" for t st n
    by (rule ht_request) (auto simp: UpdateItem_def Let_def simp del: append_Cons append_Nil intro!: put)
  show ?thesis
    unfolding updateRule_def
    by (intro ht_on_reads [OF keeps_table_reads(1)] ht_on_reads [OF keeps_now] ht_on [OF merged])
      (auto intro!: upd ht_raise split: json.split simp del: append_Cons append_Nil)
qed

lemma ht_write_rule:
  "ht (\<lambda>rs. table_ok rs \<and> has_rule a (rule_id r) rs \<and> (b ''actions'' \<noteq> JUndefined \<longrightarrow> all_verified a (b ''actions'') rs))
     (write_rule a r js b) (\<lambda>_. table_ok) table_ok"
  unfolding write_rule_def Let_def
  by (intro ht_audit_rule ht_or500 [OF ht_weaken [OF ht_updateRule]] ht_give) (auto split: if_splits)

lemma falsy_actions: "falsy acts \<Longrightarrow> all_verified a acts rs"
  by (auto simp: falsy_def all_verified_def forward_values_def)

lemma ht_checked_write:
  "ht (\<lambda>rs. table_ok rs \<and> has_rule a (rule_id r) rs)
     (if falsy (b ''actions'') then write_rule a r js b else check_targets a (b ''actions'') (write_rule a r js b)) (\<lambda>_. table_ok) table_ok"
  by (intro ht_if ht_check_targets ht_weaken [OF ht_write_rule]) (auto intro: falsy_actions)

lemma keeps_patch_system_rule: "keeps table_ok (patch_system_rule a r b)"
proof -
  have up: "keeps table_ok (upsertSystemRuleOverride a i st p)" for i st p
  proof (cases "List.find (\<lambda>r. rule_id r = i) SYSTEM_RULES")
    case (Some sr)
    then have sr: "sr \<in> set SYSTEM_RULES" "rule_id sr = i" by (auto simp: find_Some_iff)
    have x: "is_text (sr ''id'')" "is_system_id sr" "forward_values (sr ''actions'') = []" using system_rules [OF sr(1)] by auto
    then have id: "sr ''id'' = JStr i" using sr(2) by (simp add: is_text_iff rule_id_def)
    have put: "table_ok rs \<Longrightarrow> table_ok (put_row (acct a) (''RULE#'' @ i) (rule_row a i
        (sr(''accountId'' := JStr a, ''status'' := s, ''priorityOrder'' := n))) rs)" for rs s n
      by (rule table_ok_put_rule) (use x id in \<open>auto simp: rule_row_def rule_sk_starts all_verified_def\<close>)
    show ?thesis
      unfolding upsertSystemRuleOverride_def Some option.case Let_def
      by (intro keeps_intros keeps_PutItem put)
  qed (auto simp: upsertSystemRuleOverride_def intro: keeps_intros)
  then show ?thesis unfolding patch_system_rule_def by (intro keeps_intros)
qed

lemma find_rule:
  "List.find (\<lambda>r. rule_id r = i) xs = Some r \<Longrightarrow> r \<in> set xs \<and> rule_id r = i"
  by (auto simp: find_Some_iff)

lemma ht_patch_user_rule:
  "ht (\<lambda>rs. table_ok rs \<and> has_rule a (rule_id r) rs) (patch_user_rule e a r b) (\<lambda>_. table_ok) table_ok"
  unfolding patch_user_rule_def Let_def
  by (intro ht_if [where b = "_ = JStr ''js''"] ht_if [where b = "_ \<noteq> JUndefined"] ht_if [where b = "_ \<and> _"]
      ht_check_code ht_check_logic ht_checked_write ht_give) auto

lemma keeps_patch_rule: "keeps table_ok (patch_rule e a i body)"
  unfolding patch_rule_def
proof (rule ht_or500 [OF ht_listRules])
  fix rules
  let ?Q = "\<lambda>rs. table_ok rs \<and> (\<forall>r v. r \<in> set rs \<and> rw_pk r = acct a \<and> forwards_to r v \<longrightarrow> rw_attrs r \<in> set rules) \<and>
       (\<forall>x \<in> set rules. x ''accountId'' = JStr ''SYSTEM'' \<or>
          (\<exists>r \<in> set rs. is_at (acct a) (''RULE#'' @ rule_id x) r \<and> rw_attrs r = x \<and> rule_row_ok r \<and> \<not> is_system_id x))"
  show "ht ?Q (case List.find (\<lambda>r. rule_id r = i) rules of
         None \<Rightarrow> give (AErr 404 ''RULE_NOT_FOUND'')
       | Some r \<Rightarrow> with_body body (\<lambda>b. if r ''accountId'' = JStr ''SYSTEM'' then patch_system_rule a r b else patch_user_rule e a r b))
     (\<lambda>_. table_ok) table_ok"
  proof (cases "List.find (\<lambda>r. rule_id r = i) rules")
    case (Some r)
    note r = find_rule [OF Some]
    show ?thesis
    proof (cases body)
      case (Some b)
      have "ht ?Q (if r ''accountId'' = JStr ''SYSTEM'' then patch_system_rule a r b else patch_user_rule e a r b) (\<lambda>_. table_ok) table_ok"
      proof (rule ht_if)
        show "ht ?Q (patch_system_rule a r b) (\<lambda>_. table_ok) table_ok"
          by (rule ht_weaken [OF keeps_patch_system_rule]) auto
        assume "r ''accountId'' \<noteq> JStr ''SYSTEM''"
        then have "has_rule a (rule_id r) rs" if "?Q rs" for rs
          using that r unfolding has_rule_def by blast
        then show "ht ?Q (patch_user_rule e a r b) (\<lambda>_. table_ok) table_ok"
          by (intro ht_weaken [OF ht_patch_user_rule]) auto
      qed
      then show ?thesis by (simp add: \<open>List.find (\<lambda>r. rule_id r = i) rules = Some r\<close> Some with_body_def)
    qed (auto simp: Some with_body_def intro: ht_give)
  qed (auto intro: ht_give)
qed auto

lemma keeps_delete_rule: "keeps table_ok (delete_rule a i)"
  unfolding delete_rule_def by (intro keeps_intros)

section \<open>Accounts\<close>

lemma table_ok_put_account:
  assumes "table_ok rs" "x ''gsi1pk'' = JStr ''META''" "\<And>v. obj_field (x ''digest'') ''forwardingTargetId'' = JStr v \<Longrightarrow> verified_at rs pk v"
  shows "table_ok (put_row pk ''META'' x rs)"
  by (rule table_ok_put [OF assms(1)])
    (use assms(2,3) in \<open>auto simp: row_ok_def forwards_to_def digest_to_def domain_sk_def\<close>)

lemma keeps_create_account: "keeps table_ok (create_account e u)"
proof -
  have create: "keeps table_ok (createAccount (new_account i t))" for i t
    unfolding createAccount_def Let_def
    by (intro keeps_intros keeps_PutItemIf table_ok_put_account) (auto simp: new_account_def obj_field_def)
  have "keeps table_ok (attempt_account e u t n)" for t n
    by (induction n) (auto intro!: keeps_intros create)
  then show ?thesis unfolding create_account_def by (intro keeps_intros)
qed

definition digest_ok :: "str \<Rightarrow> json \<Rightarrow> rows \<Rightarrow> bool" where
  "digest_ok a dg rs \<longleftrightarrow> (\<forall>v. obj_field dg ''forwardingTargetId'' = JStr v \<longrightarrow> verified_at rs (acct a) v)"

lemma ht_updateAccount:
  "ht (\<lambda>rs. table_ok rs \<and> digest_ok a (u ''digest'') rs) (updateAccount a u) (\<lambda>_. table_ok) table_ok"
  unfolding updateAccount_def
proof (intro ht_on_reads [OF keeps_now] ht_request)
  fix t rs ans rs'
  let ?f = "\<lambda>r. (removing_null [''digest'', ''defaultCalendarInviteForwardingTargetId''] u
         (setting [''name'', ''retentionDuration'', ''filtering'', ''onboarding'', ''timezone'', ''ambiguousDateFormat''] u r))
         (''updatedAt'' := JStr t, ''gsi1pk'' := JStr ''META'', ''gsi1sk'' := JStr (acct a))"
  assume P: "table_ok rs \<and> digest_ok a (u ''digest'') rs" and q: "UpdateItem (acct a) ''META'' ?f rs = (ans, rs')"
  let ?x = "row_or_new (acct a) ''META'' rs"
  have old: "verified_at rs (acct a) v" if "obj_field (?x ''digest'') ''forwardingTargetId'' = JStr v" for v
  proof (cases "get_row (acct a) ''META'' rs")
    case (Some x)
    then obtain r where r: "r \<in> set rs" "is_at (acct a) ''META'' r" "rw_attrs r = x" using get_row_Some by blast
    then have "linked_ok rs r" using P by (simp add: table_ok_def)
    then show ?thesis using r that Some by (auto simp: linked_ok_def digest_to_def is_at_def row_or_new_def)
  qed (use that in \<open>simp add: row_or_new_def no_attrs_def obj_field_def\<close>)
  have "table_ok (put_row (acct a) ''META'' (?f ?x) rs)"
    by (rule table_ok_put_account)
      (use P old in \<open>auto simp: removing_null_def setting_def digest_ok_def obj_field_def split: if_splits\<close>)
  then show "table_ok rs \<and> table_ok rs' \<and> (\<forall>x. ans = Inr x \<longrightarrow> table_ok rs')"
    using P q by (auto simp: UpdateItem_def Let_def)
qed auto

lemma ht_require_target:
  assumes "ht (\<lambda>rs. P rs \<and> (wanted \<longrightarrow> verified_at rs (acct a) (text_of target))) k (\<lambda>_. table_ok) table_ok"
    "\<And>rs. P rs \<Longrightarrow> table_ok rs"
  shows "ht P (require_target a wanted target code k) (\<lambda>_. table_ok) table_ok"
proof (cases wanted)
  case True
  show ?thesis
    unfolding require_target_def
  proof (simp only: True not_True_eq_False if_False, rule ht_or500 [OF ht_getForwardingTarget [OF assms(2)]], assumption, assumption)
    fix x
    show "ht (\<lambda>rs. P rs \<and> x = get_row (acct a) (''FWDADDR#'' @ text_of target) rs) (if is_verified x then k else give (AErr 422 code))
       (\<lambda>_. table_ok) table_ok"
      by (rule ht_if; (rule ht_give | rule ht_weaken [OF assms(1)])) (use assms(2) get_verified in blast)+
  qed
next
  case False
  then show ?thesis unfolding require_target_def by (simp add: ht_weaken [OF assms(1)])
qed

lemma ht_write_account:
  "ht (\<lambda>rs. table_ok rs \<and> digest_ok a (b ''digest'') rs) (write_account e a b) (\<lambda>_. table_ok) table_ok"
  unfolding write_account_def
proof (intro ht_on_reads ht_or500)
  let ?P = "\<lambda>rs. table_ok rs \<and> digest_ok a (b ''digest'') rs"
  show "keeps ?P (if b ''digest'' = JUndefined then give JUndefined
         else on (result_of (getAccount a)) (\<lambda>r. give (case r of Inr (Some x) \<Rightarrow> x ''digest'' | _ \<Rightarrow> JUndefined)))"
    by (intro keeps_intros)
  show "ht ?P (if falsy (b ''onboarding'') then give b
            else on (getAccount a) (\<lambda>x. give (b(''onboarding'' :=
              merged_obj (case x of Some r \<Rightarrow> r ''onboarding'' | None \<Rightarrow> JUndefined) (b ''onboarding'')))))
     (\<lambda>b' rs. table_ok rs \<and> digest_ok a (b' ''digest'') rs) table_ok"
    by (intro ht_if ht_give ht_on_reads [OF keeps_lookups(1)]) auto
  show "ht (\<lambda>rs. table_ok rs \<and> digest_ok a (b' ''digest'') rs) (updateAccount a b') (\<lambda>_. table_ok) table_ok" for b'
    by (rule ht_updateAccount)
  show "keeps table_ok (if digest_now previous (b ''digest'') then consult (aeTriggerDigest e a) else give True)" for previous
    by (intro keeps_intros)
qed (auto intro: keeps_intros)

lemma keeps_patch_account: "keeps table_ok (patch_account e a body)"
  unfolding patch_account_def
proof (intro keeps_with_body ht_if ht_require_target ht_give)
  fix b
  show "ht (\<lambda>rs. (table_ok rs \<and> (\<not> falsy (b ''digest'') \<longrightarrow> verified_at rs (acct a) (text_of (obj_field (b ''digest'') ''forwardingTargetId'')))) \<and>
       (\<not> falsy (b ''defaultCalendarInviteForwardingTargetId'') \<longrightarrow>
          verified_at rs (acct a) (text_of (b ''defaultCalendarInviteForwardingTargetId''))))
     (write_account e a b) (\<lambda>_. table_ok) table_ok"
    by (rule ht_weaken [OF ht_write_account]) (auto simp: digest_ok_def falsy_def obj_field_def)
qed auto

section \<open>Any sequence of requests\<close>

text \<open>An account of the platform's users; the built-in one has no API.\<close>

definition user_account :: "str \<Rightarrow> bool" where "user_account a \<longleftrightarrow> a \<noteq> [] \<and> \<not> isSystemAccount a"

inductive api_request :: "a_env \<Rightarrow> a_response db \<Rightarrow> bool" for e where
  "user_account a \<Longrightarrow> m \<in> {create_alias a b, patch_alias a x b, delete_alias a x} \<Longrightarrow> api_request e m"
| "user_account a \<Longrightarrow> m \<in> {create_sender a x b, update_sender a x y b, delete_sender a x y} \<Longrightarrow> api_request e m"
| "user_account a \<Longrightarrow> m \<in> {create_target e a b, verify_target a x b, delete_target a x} \<Longrightarrow> api_request e m"
| "user_account a \<Longrightarrow> m \<in> {create_rule e a b, patch_rule e a x b, delete_rule a x} \<Longrightarrow> api_request e m"
| "user_account a \<Longrightarrow> m \<in> {create_domain e a b, verify_domain e a x, delete_domain a x} \<Longrightarrow> api_request e m"
| "user_account a \<Longrightarrow> m \<in> {create_label a b, patch_label a x b, delete_label a x} \<Longrightarrow> api_request e m"
| "user_account a \<Longrightarrow> m \<in> {create_view a b, patch_view a x b, delete_view a x} \<Longrightarrow> api_request e m"
| "user_account a \<Longrightarrow> m \<in> {create_template e a b, write_template e a x b, delete_template a x} \<Longrightarrow> api_request e m"
| "m \<in> {create_account e u, patch_user_configuration u u' b} \<Longrightarrow> api_request e m"
| "user_account a \<Longrightarrow> api_request e (patch_account e a b)"

lemma keeps_api_request: "api_request e m \<Longrightarrow> keeps table_ok m"
  by (induction rule: api_request.induct)
    (auto simp: user_account_def intro: keeps_alias_requests keeps_other_requests keeps_create_template keeps_patch_user
      keeps_create_target keeps_verify_target keeps_delete_target keeps_create_rule keeps_patch_rule keeps_delete_rule
      keeps_create_domain keeps_domain_requests keeps_create_account keeps_patch_account)

text \<open>From an empty table; requests to the table may fail, in any way.\<close>

inductive served :: "a_env \<Rightarrow> world \<Rightarrow> bool" for e where
  start: "alone w \<Longrightarrow> w_rows w = [] \<Longrightarrow> served e w"
| request: "served e w \<Longrightarrow> api_request e m \<Longrightarrow> served e (snd (m w))"

lemma served_ok: "served e w \<Longrightarrow> alone w \<and> table_ok (w_rows w)"
proof (induction rule: served.induct)
  case (start w)
  then show ?case by (simp add: table_ok_def unique_keys_def one_owner_def)
next
  case (request w m)
  then show ?case using keepsD [OF keeps_api_request] by blast
qed

text \<open>
  C12. Whatever the users of the API ask for and however requests to the table fail (before or after their
  effect), a rule never forwards mail to an address that was not verified, and the digest never goes to
  one: whenever a stored rule of an account has a forward action with a value, or its digest has a
  target, that account has a verified target of this name. Deleting a target, changing rules, the digest
  and failed or repeated requests keep this; only other writers at the same moment can break it.
\<close>

theorem forwards_only_to_verified:
  assumes "served e w" "r \<in> set (w_rows w)"
    and "starts_with (rw_sk r) ''RULE#'' \<and> JStr v \<in> set (forward_values (rw_attrs r ''actions'')) \<and> v \<noteq> [] \<or>
      rw_sk r = ''META'' \<and> obj_field (rw_attrs r ''digest'') ''forwardingTargetId'' = JStr v"
  shows "\<exists>t. get_row (rw_pk r) (''FWDADDR#'' @ v) (w_rows w) = Some t \<and> t ''status'' = JStr ''verified''"
proof -
  have ok: "table_ok (w_rows w)" using served_ok [OF assms(1)] by blast
  then have "linked_ok (w_rows w) r" using assms(2) by (simp add: table_ok_def)
  then have "verified_at (w_rows w) (rw_pk r) v" using assms(3) by (auto simp: linked_ok_def forwards_to_def digest_to_def)
  from verified_at_get [OF ok this] show ?thesis by (auto simp: is_verified_def split: option.splits)
qed

text \<open>
  C13. A domain gets a second owner only by a race. As long as the requests of the API are served one after
  another, with no other writer at the same moment, and a read of the index sees every write that was
  completed, two rows in the index of a domain belong to the same account, deleted registrations included
  and however requests to the table fail, and each row is the registration that its account and name say.
  Neither condition is enforced by the code: the test and the write are two requests, and the index of
  DynamoDB lags behind the table. Two accounts that register a domain at the same moment can both
  succeed, which the source provides for (account-database.ts:958 gives the domain to the oldest registration);
  the theorem says that nothing but this lets a second registration in.
\<close>

theorem domain_has_one_owner:
  assumes "served e w" "r \<in> set (w_rows w)" "r' \<in> set (w_rows w)"
    "rw_attrs r ''gsi1pk'' = JStr (domain_sk d)" "rw_attrs r' ''gsi1pk'' = JStr (domain_sk d)"
  shows "rw_pk r = rw_pk r' \<and> rw_sk r = domain_sk d \<and> (\<exists>a. rw_attrs r ''accountId'' = JStr a \<and> rw_pk r = acct a)"
proof -
  have ok: "table_ok (w_rows w)" using served_ok [OF assms(1)] by blast
  then have "row_ok r" using assms(2) by (simp add: table_ok_def)
  then have row: "domain_row_ok d r" using assms(4) by (simp add: row_ok_def)
  moreover have "rw_pk r = rw_pk r'"
    using ok assms(2-5) unfolding table_ok_def one_owner_def by blast
  ultimately show ?thesis by (auto simp: domain_row_ok_def)
qed

text \<open>A webhook is verified and becomes the target of the digest; two accounts ask for the same domain.\<close>

definition demo_env :: a_env where
  "demo_env =
     \<lparr>aeRegister = (\<lambda>_ _ _. True), aeVerify = (\<lambda>_ _. None), aeCode = (\<lambda>_ _. None), aeFunctions = (\<lambda>_ _. None),
      aeParse = (\<lambda>_. None), aeDryRun = (\<lambda>_. None), aeCheckDomain = (\<lambda>_ _. []), aeTriggerDigest = (\<lambda>_ _. True),
      aeAccountsOf = (\<lambda>_ _. Some []), aeStart = (\<lambda>_ _ _. True), aeAddUser = (\<lambda>_ _ _ _. True)\<rparr>"

definition demo_world :: world where
  "demo_world = \<lparr>w_rows = [], w_script = [(Fails_after, id)], w_tick = 0, w_time = (\<lambda>n. [char_of n]), w_new = (\<lambda>n. [char_of n]),
     w_log = [], w_mail = ''m''\<rparr>"

definition demo_target :: "a_response db" where
  "demo_target = create_target demo_env ''a'' (Some (obj [(''target'', JStr ''w''), (''type'', JStr ''webhook'')]))"

definition demo_digest :: "a_response db" where
  "demo_digest = patch_account demo_env ''a'' (Some (obj [(''digest'', JObj [(''frequency'', JStr ''daily''), (''forwardingTargetId'', JStr ''w'')])]))"

definition demo_served :: world where
  "demo_served = snd (demo_digest (snd (demo_target (snd (demo_target demo_world)))))"

lemma demo_is_served: "served demo_env demo_served"
  unfolding demo_served_def demo_target_def demo_digest_def
  by (intro served.request served.start)
    (auto simp: alone_def demo_world_def user_account_def isSystemAccount_def SYSTEM_ACCOUNT_ID_def intro: api_request.intros)

theorem forwards_only_to_verified_witness:
  "\<exists>r \<in> set (w_rows demo_served). rw_sk r = ''META'' \<and>
     (\<exists>t. get_row (rw_pk r) ''FWDADDR#w'' (w_rows demo_served) = Some t \<and> t ''status'' = JStr ''verified'')"
proof -
  have "\<exists>r \<in> set (w_rows demo_served). rw_sk r = ''META'' \<and> obj_field (rw_attrs r ''digest'') ''forwardingTargetId'' = JStr ''w''"
    by code_simp
  then obtain r where "r \<in> set (w_rows demo_served)" "rw_sk r = ''META''" "obj_field (rw_attrs r ''digest'') ''forwardingTargetId'' = JStr ''w''"
    by blast
  with forwards_only_to_verified [OF demo_is_served, of r "''w''"] show ?thesis by auto
qed

definition demo_claim :: "string \<Rightarrow> a_response db" where
  "demo_claim a = create_domain demo_env a (Some (obj [(''domain'', JStr ''x.org'')]))"

definition demo_claimed :: world where
  "demo_claimed = snd (demo_claim ''b'' (snd (demo_claim ''a'' (snd (demo_claim ''a'' demo_world)))))"

lemma demo_claims_served: "served demo_env demo_claimed"
  unfolding demo_claimed_def demo_claim_def
  by (intro served.request served.start)
    (auto simp: alone_def demo_world_def user_account_def isSystemAccount_def SYSTEM_ACCOUNT_ID_def intro: api_request.intros)

theorem domain_has_one_owner_witness:
  "\<exists>r \<in> set (w_rows demo_claimed). rw_attrs r ''gsi1pk'' = JStr (domain_sk ''x.org'') \<and>
     rw_sk r = domain_sk ''x.org'' \<and> (\<exists>a. rw_attrs r ''accountId'' = JStr a \<and> rw_pk r = acct a)"
proof -
  have "\<exists>r \<in> set (w_rows demo_claimed). rw_attrs r ''gsi1pk'' = JStr (domain_sk ''x.org'')"
    by code_simp
  then obtain r where "r \<in> set (w_rows demo_claimed)" "rw_attrs r ''gsi1pk'' = JStr (domain_sk ''x.org'')"
    by blast
  with domain_has_one_owner [OF demo_claims_served, of r r "''x.org''"] show ?thesis by auto
qed

end
