(* ===== verification/AliasFacts.thy ===== *)
theory AliasFacts
  imports AccountFacts
begin

text \<open>
  What the requests for an alias do to the mail of the account: renaming an alias, and changing one, against
  \<open>renameAlias\<close> and \<open>getAliasByGlobalAddress\<close> of \<open>database/account-database.ts\<close>.
\<close>

section \<open>Renaming\<close>

text \<open>The key of a sender's row and its attributes say the same; the policy of a sender.\<close>

definition sender_keys_ok :: "rows \<Rightarrow> bool" where
  "sender_keys_ok rs \<longleftrightarrow> (\<forall>r \<in> set rs. starts_with (rw_sk r) ''SENDER#'' \<longrightarrow> rw_sk r = sender_sk (rw_attrs r))"

definition policy_of :: "str \<Rightarrow> str \<Rightarrow> rows \<Rightarrow> json option" where
  "policy_of a sk rs = map_option (\<lambda>x. x ''policy'') (get_row (acct a) sk rs)"

lemma get_row_put [simp]: "get_row pk sk (put_row pk' sk' x rs) = (if pk = pk' \<and> sk = sk' then Some x else get_row pk sk rs)"
proof -
  have "List.find (is_at pk sk) (put_row pk' sk' x rs) =
    (if pk = pk' \<and> sk = sk' then Some \<lparr>rw_pk = pk', rw_sk = sk', rw_attrs = x\<rparr> else List.find (is_at pk sk) rs)"
    unfolding put_row_def delete_row_def by (induction rs) (auto simp: is_at_def [abs_def])
  then show ?thesis by (simp add: get_row_def)
qed

lemma get_row_delete: "\<not> (pk = pk' \<and> sk = sk') \<Longrightarrow> get_row pk sk (delete_row pk' sk' rs) = get_row pk sk rs"
proof -
  assume "\<not> (pk = pk' \<and> sk = sk')"
  then have "List.find (is_at pk sk) (delete_row pk' sk' rs) = List.find (is_at pk sk) rs"
    unfolding delete_row_def by (induction rs) (auto simp: is_at_def [abs_def])
  then show ?thesis by (simp add: get_row_def)
qed

lemma policy_of_simps [simp]:
  "policy_of a sk (put_row (acct a) sk x rs) = Some (x ''policy'')"
  "sk \<noteq> sk' \<Longrightarrow> policy_of a sk (put_row pk sk' x rs) = policy_of a sk rs"
  "sk \<noteq> sk' \<Longrightarrow> policy_of a sk (delete_row pk sk' rs) = policy_of a sk rs"
  by (simp_all add: policy_of_def get_row_delete)

lemma keys_ok_put:
  "sender_keys_ok rs \<Longrightarrow> \<not> starts_with sk ''SENDER#'' \<or> sk = sender_sk x \<Longrightarrow> sender_keys_ok (put_row pk sk x rs)"
  by (auto simp: sender_keys_ok_def put_row_set)

lemma keys_ok_delete: "sender_keys_ok rs \<Longrightarrow> sender_keys_ok (delete_row pk sk rs)"
  by (auto simp: sender_keys_ok_def delete_row_set)

lemma split_hash: "u @ CHR ''#'' # x = v @ CHR ''#'' # y \<Longrightarrow> CHR ''#'' \<notin> set u \<Longrightarrow> CHR ''#'' \<notin> set v \<Longrightarrow> u = v \<and> x = y"
proof (induction u arbitrary: v)
  case Nil then show ?case by (cases v) auto
next
  case (Cons c u) then show ?case by (cases v) auto
qed

lemma sender_key_apart:
  assumes "CHR ''#'' \<notin> set d" "CHR ''#'' \<notin> set d'" "CHR ''#'' \<notin> set x" "CHR ''#'' \<notin> set y" "x \<noteq> y"
  shows "sender_prefix d x @ s \<noteq> sender_prefix d' y @ t"
proof
  assume "sender_prefix d x @ s = sender_prefix d' y @ t"
  then have "d @ CHR ''#'' # (x @ CHR ''#'' # s) = d' @ CHR ''#'' # (y @ CHR ''#'' # t)" by (simp add: sender_prefix_def)
  from split_hash [OF this assms(1,2)] split_hash [OF _ assms(3,4)] assms(5) show False by blast
qed

lemma prefix_split: "starts_with x p \<Longrightarrow> \<exists>t. x = p @ t"
  by (auto simp: starts_with_def prefix_def)

lemma ht_parseAddress: "last_index_of CHR ''@'' x = Some n \<Longrightarrow> 1 \<le> n \<Longrightarrow>
   ht P (parseAddress x) (\<lambda>r rs. P rs \<and> r = (drop (Suc n) x, take n x)) I"
  by (auto simp: parseAddress_def intro!: ht_give)

text \<open>All senders written so far are allowed.\<close>

definition allowed_in :: "str \<Rightarrow> str \<Rightarrow> str \<Rightarrow> str set \<Rightarrow> rows \<Rightarrow> bool" where
  "allowed_in a d x S rs \<longleftrightarrow> sender_keys_ok rs \<and> (\<forall>s \<in> S. policy_of a (sender_prefix d x @ s) rs = Some (JStr ''allow''))"

lemma ht_saveSender:
  assumes at: "last_index_of CHR ''@'' x = Some n" "1 \<le> n"
  shows "ht (allowed_in a (drop (Suc n) x) x S) (saveSender a x s None) (\<lambda>_. allowed_in a (drop (Suc n) x) x (insert s S)) (\<lambda>_. True)"
proof -
  have put: "allowed_in a d x (insert s S) (put_row (acct a) (sender_prefix d x @ s) y rs)"
    if h: "allowed_in a d x S rs" and y: "y ''policy'' = JStr ''allow''" "sender_sk y = sender_prefix d x @ s" for d y rs
  proof -
    have "policy_of a (sender_prefix d x @ t) (put_row (acct a) (sender_prefix d x @ s) y rs) = Some (JStr ''allow'')"
      if t: "t \<in> insert s S" for t
      using h y(1) t by (cases "t = s") (auto simp: allowed_in_def)
    with h y(2) show ?thesis by (auto simp: allowed_in_def intro: keys_ok_put)
  qed
  show ?thesis
    unfolding saveSender_def
    by (rule ht_on [OF ht_parseAddress [OF at]], clarsimp split: prod.split)
      (rule ht_on [OF ht_now], rule ht_request, auto simp: PutItem_def sender_sk_def nullish_def intro!: put)
qed

lemma ht_saveSenders:
  assumes at: "last_index_of CHR ''@'' x = Some n" "1 \<le> n"
  shows "ht (allowed_in a (drop (Suc n) x) x S) (each (\<lambda>s. saveSender a x (f s) None) ss)
     (\<lambda>_. allowed_in a (drop (Suc n) x) x (S \<union> f ` set ss)) (\<lambda>_. True)"
proof (induction ss arbitrary: S)
  case Nil show ?case by (auto intro: ht_give)
next
  case (Cons s ss)
  have "ht (allowed_in a (drop (Suc n) x) x S) (each (\<lambda>s. saveSender a x (f s) None) (s # ss))
     (\<lambda>_. allowed_in a (drop (Suc n) x) x (insert (f s) S \<union> f ` set ss)) (\<lambda>_. True)"
    unfolding each.simps by (rule ht_on [OF ht_saveSender [OF at]]) (rule Cons)
  then show ?case by simp
qed

definition apart :: "str \<Rightarrow> str \<Rightarrow> bool" where
  "apart x y \<longleftrightarrow> x \<noteq> y \<and> CHR ''#'' \<notin> set x \<and> CHR ''#'' \<notin> set y"

lemma apart_keys:
  assumes "apart x y" "starts_with k (sender_prefix (drop m y) y)"
  shows "sender_prefix (drop n x) x @ s \<noteq> k"
proof -
  obtain t where k: "k = sender_prefix (drop m y) y @ t" using prefix_split [OF assms(2)] by blast
  have "CHR ''#'' \<notin> set (drop n x)" "CHR ''#'' \<notin> set (drop m y)"
    using assms(1) set_drop_subset by (fastforce simp: apart_def)+
  with sender_key_apart assms(1) show ?thesis unfolding k apart_def by blast
qed

lemma allowed_delete: "allowed_in a d x S rs \<Longrightarrow> (\<And>s. sender_prefix d x @ s \<noteq> k) \<Longrightarrow> allowed_in a d x S (delete_row p k rs)"
  by (auto simp: allowed_in_def intro: keys_ok_delete)

lemma keeps_deleteAlias_allowed:
  assumes at: "last_index_of CHR ''@'' x = Some n" "1 \<le> n" and ap: "apart x y"
  shows "keeps (allowed_in a (drop (Suc n) x) x S) (deleteAlias a y)"
proof -
  let ?I = "allowed_in a (drop (Suc n) x) x S"
  have senders: "ht ?I (listSenders a y) (\<lambda>ss rs. ?I rs \<and> (\<forall>s \<in> set ss. \<forall>t. sender_prefix (drop (Suc n) x) x @ t \<noteq> sender_sk s)) ?I"
  proof -
    have read: "?I rs \<and> (\<forall>s \<in> set (query (acct a) (sender_prefix (drop (Suc m) y) y) rs). \<forall>t. sender_prefix (drop (Suc n) x) x @ t \<noteq> sender_sk s)"
      if h: "?I rs" for rs m
    proof (intro conjI ballI allI)
      fix s t assume "s \<in> set (query (acct a) (sender_prefix (drop (Suc m) y) y) rs)"
      then obtain r where r: "r \<in> set rs" "starts_with (rw_sk r) (sender_prefix (drop (Suc m) y) y)" "rw_attrs r = s"
        by (auto simp: query_set)
      from r(2) have "starts_with (rw_sk r) ''SENDER#''" by (auto simp: starts_with_def prefix_def sender_prefix_def)
      with h r have "rw_sk r = sender_sk s" by (auto simp: allowed_in_def sender_keys_ok_def)
      with apart_keys [OF ap r(2)] show "sender_prefix (drop (Suc n) x) x @ t \<noteq> sender_sk s" by metis
    qed (rule h)
    have parse: "keeps ?I (parseAddress y)"
      by (simp add: parseAddress_def keeps_intros split: option.split)
    have domain: "ht ?I (parseAddress y) (\<lambda>p rs. ?I rs \<and> (\<exists>m. fst p = drop (Suc m) y)) ?I"
      unfolding parseAddress_def by (auto intro!: ht_raise ht_give split: option.split)
    show ?thesis
      unfolding listSenders_def listing_def
    proof (rule ht_on [OF domain])
      fix p :: "str \<times> str"
      show "ht (\<lambda>rs. ?I rs \<and> (\<exists>m. fst p = drop (Suc m) y)) (case p of (d, _) \<Rightarrow> request (Query (acct a) (sender_prefix d y)))
         (\<lambda>ss rs. ?I rs \<and> (\<forall>s \<in> set ss. \<forall>t. sender_prefix (drop (Suc n) x) x @ t \<noteq> sender_sk s)) ?I"
        unfolding case_prod_beta by (rule ht_request) (use read in \<open>auto simp only: Query_def prod.inject sum.inject\<close>)
    qed
  qed
  have batch: "ht (\<lambda>rs. ?I rs \<and> (\<forall>s \<in> set ss. \<forall>t. sender_prefix (drop (Suc n) x) x @ t \<noteq> sender_sk s)) (batchDeleteSenders a ss) (\<lambda>_. ?I) ?I" for ss
  proof (cases "\<forall>s \<in> set ss. \<forall>t. sender_prefix (drop (Suc n) x) x @ t \<noteq> sender_sk s")
    case True
    have "set b \<subseteq> set ss" if "b \<in> set (chunk ss BATCH_WRITE_LIMIT)" for b
      using that
    proof (induction ss BATCH_WRITE_LIMIT rule: chunk.induct)
      case (1 xs)
      from 1(2) show ?case
        by (subst (asm) chunk.simps) (use 1(1) set_take_subset set_drop_subset in \<open>fastforce split: if_splits\<close>)
    qed
    note sub = this
    have "keeps ?I (batchDeleteSenders a ss)"
      unfolding batchDeleteSenders_def
    proof (intro keeps_each keeps_BatchDelete)
      fix b k rs assume "b \<in> set (chunk ss BATCH_WRITE_LIMIT)" "k \<in> set (map sender_sk b)" "?I rs"
      then show "?I (delete_row (acct a) k rs)" using sub True by (auto intro!: allowed_delete)
    qed
    then show ?thesis by (rule ht_weaken) auto
  qed (auto simp: ht_def)
  have last: "keeps ?I (drop_row a (alias_sk d y))" for d
    unfolding drop_row_def
    by (rule keeps_DeleteItem, erule allowed_delete) (simp add: alias_sk_def sender_prefix_def)
  show ?thesis
    unfolding deleteAlias_def
  proof (rule keeps_on)
    show "keeps ?I (parseAddress y)" by (simp add: parseAddress_def keeps_intros split: option.split)
    show "keeps ?I (case p of (d, _) \<Rightarrow> on (listSenders a y) (\<lambda>ss. on (batchDeleteSenders a ss) (\<lambda>_. drop_row a (alias_sk d y))))" for p
      unfolding case_prod_beta by (rule ht_on [OF senders ht_on [OF batch last]])
  qed
qed


lemma ht_renameAlias:
  assumes old: "last_index_of CHR ''@'' x = Some m" "1 \<le> m" and new: "last_index_of CHR ''@'' y = Some n" "1 \<le> n"
    and ap: "apart y x"
  shows "ht (\<lambda>rs. sender_keys_ok rs \<and> query (acct a) (sender_prefix (drop (Suc m) x) x) rs = ss) (renameAlias a x y)
     (\<lambda>_. allowed_in a (drop (Suc n) y) y ((\<lambda>s. text_of (s ''senderDomain'')) ` set ss)) (\<lambda>_. True)"
    (is "ht ?P _ (\<lambda>_. ?Q) _")
proof -
  have found: "ht ?P (getAlias a x) (\<lambda>_. ?P) (\<lambda>_. True)"
    unfolding getAlias_def the_row_def
    by (rule ht_on [OF ht_parseAddress [OF old]]) (auto intro!: ht_request simp: GetItem_def split: prod.split)
  have senders: "ht ?P (listSenders a x) (\<lambda>xs rs. sender_keys_ok rs \<and> xs = ss) (\<lambda>_. True)"
    unfolding listSenders_def listing_def
    by (rule ht_on [OF ht_parseAddress [OF old]]) (auto intro!: ht_request simp: Query_def split: prod.split)
  have saved: "ht sender_keys_ok (saveAlias al) (\<lambda>_. allowed_in a (drop (Suc n) y) y {}) (\<lambda>_. True)" for al
  proof -
    have put: "sender_keys_ok (put_row p (alias_sk d z) u rs)" if "sender_keys_ok rs" for p d z u rs
      by (rule keys_ok_put [OF that]) (simp add: alias_sk_def starts_with_def)
    show ?thesis
      unfolding saveAlias_def parseAddress_def case_prod_beta
      by (auto intro!: ht_on [where Q = "\<lambda>_. sender_keys_ok"] ht_give ht_raise ht_request put
          simp: PutItem_def allowed_in_def split: option.split)
  qed
  show ?thesis
    unfolding renameAlias_def
  proof (rule ht_on [OF found])
    fix al
    show "ht ?P (case al of None \<Rightarrow> deny (NotFoundError ''alias'' x) | Some al \<Rightarrow>
        on (listSenders a x) (\<lambda>senders. on (parseAddress y) (\<lambda>(domain, name). on now (\<lambda>t.
          let renamed = al(''aliasAddress'' := JStr y, ''domain'' := JStr domain, ''aliasName'' := JStr name, ''updatedAt'' := JStr t)
          in on (saveAlias renamed) (\<lambda>_. on (each (\<lambda>s. saveSender a y (text_of (s ''senderDomain'')) None) senders) (\<lambda>_.
             on (deleteAlias a x) (\<lambda>_. give renamed))))))) (\<lambda>_. ?Q) (\<lambda>_. True)"
    proof (cases al)
      case (Some z)
      have rest: "ht sender_keys_ok (on (saveAlias r) (\<lambda>_. on (each (\<lambda>s. saveSender a y (text_of (s ''senderDomain'')) None) ss) (\<lambda>_.
             on (deleteAlias a x) (\<lambda>_. give r)))) (\<lambda>_. ?Q) (\<lambda>_. True)" for r
        using ht_saveSenders [OF new, of a "{}" "\<lambda>s. text_of (s ''senderDomain'')" ss]
        by (auto intro!: ht_on [OF saved] intro: ht_on ht_give ht_fail [OF keeps_deleteAlias_allowed [OF new ap]])
      show ?thesis
        unfolding Some option.case
      proof (rule ht_on [OF senders])
        fix xs
        show "ht (\<lambda>rs. sender_keys_ok rs \<and> xs = ss) (on (parseAddress y) (\<lambda>(domain, name). on now (\<lambda>t.
          let renamed = z(''aliasAddress'' := JStr y, ''domain'' := JStr domain, ''aliasName'' := JStr name, ''updatedAt'' := JStr t)
          in on (saveAlias renamed) (\<lambda>_. on (each (\<lambda>s. saveSender a y (text_of (s ''senderDomain'')) None) xs) (\<lambda>_.
             on (deleteAlias a x) (\<lambda>_. give renamed)))))) (\<lambda>_. ?Q) (\<lambda>_. True)"
        proof (cases "xs = ss")
          case True
          have parse: "ht (\<lambda>rs. sender_keys_ok rs \<and> xs = ss) (parseAddress y) (\<lambda>_. sender_keys_ok) (\<lambda>_. True)"
            by (rule ht_weaken [OF ht_parseAddress [OF new, where P = sender_keys_ok]]) auto
          show ?thesis
            unfolding case_prod_beta Let_def True by (rule ht_on [OF parse [unfolded True]], rule ht_on [OF ht_now], rule rest)
        qed (auto simp: ht_def)
      qed
    qed (auto intro: ht_deny)
  qed
qed

text \<open>
  Renaming an alias forgets whom the user blocked: when the request succeeds (whatever requests to the
  table succeed in between, when nobody else writes), every sender with an entry at the old address has one
  at the new address, and its policy is \<open>allow\<close>, whatever it was before. (\<open>saveSender\<close> is called without
  the policy.)
\<close>

theorem rename_forgets_policies:
  assumes "alone w" "sender_keys_ok (w_rows w)"
    and "last_index_of CHR ''@'' x = Some m" "1 \<le> m" "last_index_of CHR ''@'' y = Some n" "1 \<le> n" "apart y x"
    and "renameAlias a x y w = (Gives al, w')"
    and "s \<in> set (query (acct a) (sender_prefix (drop (Suc m) x) x) (w_rows w))"
  shows "policy_of a (sender_prefix (drop (Suc n) y) y @ text_of (s ''senderDomain'')) (w_rows w') = Some (JStr ''allow'')"
  using ht_renameAlias [OF assms(3-7), of a "query (acct a) (sender_prefix (drop (Suc m) x) x) (w_rows w)"] assms(1,2,8,9)
  unfolding ht_def by (force simp: allowed_in_def)


text \<open>A sender that was blocked is allowed after its alias was renamed.\<close>

definition rename_world :: world where
  "rename_world = snd (saveSender ''a'' ''b@x'' ''spam.org'' (Some ''block_hidden'')
     (snd (saveAlias (new_alias ''a'' ''b@x'' ''allow_all'' ''t'' None) (demo_world\<lparr>w_script := []\<rparr>))))"

theorem rename_forgets_policies_witness:
  "policy_of ''a'' (sender_prefix ''x'' ''b@x'' @ ''spam.org'') (w_rows rename_world) = Some (JStr ''block_hidden'') \<and>
   policy_of ''a'' (sender_prefix ''x'' ''c@x'' @ ''spam.org'') (w_rows (snd (renameAlias ''a'' ''b@x'' ''c@x'' rename_world))) = Some (JStr ''allow'')"
proof -
  have ok: "alone rename_world" "sender_keys_ok (w_rows rename_world)"
  proof -
    have "length (w_script rename_world) = 0" by code_simp
    then show "alone rename_world" by (simp add: alone_def)
  qed code_simp
  have parse: "last_index_of CHR ''@'' ''b@x'' = Some 1" "last_index_of CHR ''@'' ''c@x'' = Some 1" "apart ''c@x'' ''b@x''"
    by (code_simp, code_simp, code_simp)
  have "case fst (renameAlias ''a'' ''b@x'' ''c@x'' rename_world) of Gives _ \<Rightarrow> True | _ \<Rightarrow> False" by code_simp
  then obtain al where run: "renameAlias ''a'' ''b@x'' ''c@x'' rename_world = (Gives al, snd (renameAlias ''a'' ''b@x'' ''c@x'' rename_world))"
    by (cases "renameAlias ''a'' ''b@x'' ''c@x'' rename_world") (auto split: reply.splits)
  have "\<exists>s \<in> set (query (acct ''a'') (sender_prefix (drop (Suc 1) ''b@x'') ''b@x'') (w_rows rename_world)). text_of (s ''senderDomain'') = ''spam.org''"
    by code_simp
  then obtain s where s: "s \<in> set (query (acct ''a'') (sender_prefix (drop (Suc 1) ''b@x'') ''b@x'') (w_rows rename_world))"
    "text_of (s ''senderDomain'') = ''spam.org''" by blast
  have "policy_of ''a'' (sender_prefix ''x'' ''b@x'' @ ''spam.org'') (w_rows rename_world) = Some (JStr ''block_hidden'')"
    by code_simp
  with rename_forgets_policies [OF ok parse(1) _ parse(2) _ parse(3) run s(1)] s(2) show ?thesis by simp
qed

section \<open>Changing an alias\<close>

lemma quiet_request: "w_script w = [] \<Longrightarrow> rq (w_rows w) = (Inr v, rs) \<Longrightarrow> request rq w = (Gives v, w\<lparr>w_rows := rs\<rparr>)"
  by (simp add: request_def on_def send_def next_fault_def give_def)

lemma quiet_parse: "last_index_of CHR ''@'' x = Some n \<Longrightarrow> 1 \<le> n \<Longrightarrow> parseAddress x w = (Gives (drop (Suc n) x, take n x), w)"
  by (simp add: parseAddress_def give_def)

lemma patch_alias_quiet:
  assumes "w_script w = []" "last_index_of CHR ''@'' x = Some n" "1 \<le> n" "to_lower path = x" "falsy (b ''newAddress'')"
  shows "\<exists>al. patch_alias a path (Some b) w =
      (Gives (ABody 200 (toApiAlias al)), w\<lparr>w_tick := Suc (w_tick w),
         w_rows := put_row (acct a) (alias_sk (drop (Suc n) x) x) (alias_attrs al (drop (Suc n) x) (take n x)) (w_rows w)\<rparr>) \<and>
      al ''accountId'' = JStr a \<and> al ''aliasAddress'' = JStr x \<and> al ''emxId'' = JUndefined"
proof -
  let ?e = "get_row (acct a) (alias_sk (drop (Suc n) x) x) (w_rows w)"
  let ?al = "patched_alias a x b ?e (w_time w (w_tick w))"
  have al: "?al ''accountId'' = JStr a" "?al ''aliasAddress'' = JStr x" "?al ''emxId'' = JUndefined"
    by (simp_all add: patched_alias_def Let_def)
  have "getAlias a x w = (Gives ?e, w)"
    using assms(1) by (simp add: getAlias_def on_def quiet_parse [OF assms(2,3)] the_row_def quiet_request [OF assms(1)] GetItem_def)
  moreover have "upsertAlias ?al (w\<lparr>w_tick := Suc (w_tick w)\<rparr>) =
     (Gives ?al, w\<lparr>w_tick := Suc (w_tick w),
         w_rows := put_row (acct a) (alias_sk (drop (Suc n) x) x) (alias_attrs ?al (drop (Suc n) x) (take n x)) (w_rows w)\<rparr>)"
    using assms(1) by (simp add: upsertAlias_def saveAlias_def al on_def quiet_parse [OF assms(2,3)] quiet_request PutItem_def give_def)
  ultimately show ?thesis
    using al assms(4,5)
    by (intro exI [of _ ?al]) (simp add: patch_alias_def with_body_def or500_def or_answer_def on_def result_of_def now_def give_def)
qed

text \<open>
  C37. A user who changes an alias gets the mail of its address. When the requests succeed, \<open>PATCH\<close> on any
  address stores an alias of the user's account for it: the account need not have registered the domain
  (which \<open>POST\<close> asks for), and an alias that was backed by an external mailbox loses it (\<open>emxId\<close>). When no
  account had an alias with this address yet, mail for it is delivered to this account from then on,
  whoever owns the domain.
\<close>

theorem alias_patch_takes_address:
  assumes "w_script w = []" "last_index_of CHR ''@'' x = Some n" "1 \<le> n" "to_lower path = x" "falsy (b ''newAddress'')"
    and "(r, w') = patch_alias a path (Some b) w"
  shows "(\<exists>al. get_row (acct a) (alias_sk (drop (Suc n) x) x) (w_rows w') = Some al \<and> al ''emxId'' = JUndefined) \<and>
    (system_alias (w_mail w) x = None \<and> query_index (alias_sk (drop (Suc n) x) x) [] (w_rows w) = [] \<longrightarrow>
      (\<exists>al. fst (getAliasByGlobalAddress x w') = Gives (Some al) \<and> al ''accountId'' = JStr a))"
proof -
  let ?k = "alias_sk (drop (Suc n) x) x"
  obtain al where w': "w' = w\<lparr>w_tick := Suc (w_tick w),
         w_rows := put_row (acct a) ?k (alias_attrs al (drop (Suc n) x) (take n x)) (w_rows w)\<rparr>"
    and al: "al ''accountId'' = JStr a" "al ''aliasAddress'' = JStr x" "al ''emxId'' = JUndefined"
    using patch_alias_quiet [where b = b, OF assms(1-5), of a] assms(6) by auto
  let ?al = "alias_attrs al (drop (Suc n) x) (take n x)"
  have fields: "?al ''emxId'' = JUndefined" "?al ''accountId'' = JStr a" "?al ''gsi1pk'' = JStr ?k" "is_text (?al ''gsi1sk'')"
    by (simp_all add: alias_attrs_def al)
  then have "\<exists>al. get_row (acct a) ?k (w_rows w') = Some al \<and> al ''emxId'' = JUndefined"
    by (simp add: w')
  moreover have "\<exists>al. fst (getAliasByGlobalAddress x w') = Gives (Some al) \<and> al ''accountId'' = JStr a"
    if sys: "system_alias (w_mail w) x = None" and none: "query_index ?k [] (w_rows w) = []"
  proof -
    let ?q = "query_index ?k [] (w_rows w')"
    have "y = ?al" if "y \<in> set ?q" for y
    proof -
      from that obtain r where "r \<in> set (w_rows w')" and r: "in_index ?k [] r" "rw_attrs r = y" by (auto simp: query_index_set)
      then consider "y = ?al" | "r \<in> set (w_rows w)" by (auto simp: w' put_row_set)
      then show ?thesis using r none query_index_set [of y ?k "[]" "w_rows w"] by cases auto
    qed
    moreover have "?al \<in> set ?q"
      unfolding query_index_set
      by (rule bexI [of _ "\<lparr>rw_pk = acct a, rw_sk = ?k, rw_attrs = ?al\<rparr>"])
        (use fields in \<open>simp_all add: w' put_row_set in_index_def starts_with_def\<close>)
    ultimately obtain qs where "?q = ?al # qs" by (cases ?q) auto
    moreover have "w_script w' = []" "w_mail w' = w_mail w" using assms(1) by (simp_all add: w')
    ultimately show ?thesis
      using sys fields by (simp add: getAliasByGlobalAddress_def on_def mail_domain_def quiet_parse [OF assms(2,3)] quiet_request QueryIndex_def give_def)
  qed
  ultimately show ?thesis by blast
qed


theorem alias_patch_takes_address_witness:
  "let w = demo_world\<lparr>w_script := []\<rparr>; w' = snd (patch_alias ''a'' ''b@x'' (Some (obj [])) w)
   in \<exists>al. fst (getAliasByGlobalAddress ''b@x'' w') = Gives (Some al) \<and> al ''accountId'' = JStr ''a''"
proof -
  have "last_index_of CHR ''@'' ''b@x'' = Some 1" "to_lower ''b@x'' = ''b@x''" "falsy (obj [] ''newAddress'')"
    by (code_simp, code_simp, code_simp)
  moreover have "system_alias ''m'' ''b@x'' = None" by (simp add: system_alias_def healthcheckSubdomain_def)
  ultimately show ?thesis
    using alias_patch_takes_address [of "demo_world\<lparr>w_script := []\<rparr>" "''b@x''" 1 "''b@x''" "obj []" "fst (patch_alias ''a'' ''b@x'' (Some (obj [])) (demo_world\<lparr>w_script := []\<rparr>))"
      "snd (patch_alias ''a'' ''b@x'' (Some (obj [])) (demo_world\<lparr>w_script := []\<rparr>))" "''a''"]
    by (auto simp: Let_def demo_world_def query_index_def)
qed

end
