(* ===== verification/RsvpRelay.thy ===== *)
theory RsvpRelay
  imports ThreadsApi ProxyUid Mime Bounce ReplySend
begin

text \<open>
  The calendar proxy: an invitation is forwarded to the user's own calendar under a signed identity
  (\<open>processor/calendar/calendar-forwarder.ts\<close>, \<open>ics-builder.ts\<close>), and the answer that comes back is relayed
  to the organizer (\<open>processor/incoming-calendar-rsvp-processor.ts\<close>). An iCalendar file is the list of its
  event's properties with their parameters; \<open>cRender\<close> writes it and \<open>cParse\<close> reads one (\<open>ical.js\<close>). The
  attachments of a message are given as the parts the MIME parser finds. Log lines are left out.
\<close>

section \<open>Files\<close>

type_synonym ics_property = "str \<times> (str \<times> str) list \<times> str"

definition plain :: "str \<Rightarrow> str \<Rightarrow> ics_property" where "plain n v = (n, [], v)"

definition opt_prop :: "str \<Rightarrow> str option \<Rightarrow> ics_property list" where
  "opt_prop n x = (case x of None \<Rightarrow> [] | Some v \<Rightarrow> [plain n v])"

text \<open>\<open>at\<close> writes an ISO text as an iCalendar time; \<open>now\<close> is the time of the file.\<close>

definition buildForwardIcs ::
  "(str \<Rightarrow> str) \<Rightarrow> str \<Rightarrow> calendar_event_data \<Rightarrow> str \<Rightarrow> str \<Rightarrow> str \<Rightarrow> str \<Rightarrow> ics_property list" where
  "buildForwardIcs at now d proxyUid proxyOrganizer organizerCn attendeeAddress =
     (let isCancel = (ce_method d = ''CANCEL'')
      in [plain ''uid'' proxyUid, plain ''sequence'' (show_int (ce_sequence d)), plain ''dtstart'' (at (ce_startTime d))] @
         opt_prop ''dtend'' (map_option at (ce_endTime d)) @ [plain ''summary'' (ce_title d)] @
         opt_prop ''location'' (ce_location d) @ opt_prop ''description'' (ce_description d) @
         (if isCancel then [plain ''status'' ''CANCELLED''] else opt_prop ''status'' (ce_status d)) @
         [plain ''dtstamp'' now, (''organizer'', [(''cn'', organizerCn)], proxyOrganizer),
          (''attendee'', if isCancel then [] else [(''partstat'', ''NEEDS-ACTION''), (''rsvp'', ''TRUE'')],
           ''mailto:'' @ attendeeAddress)])"

definition buildReplyIcs :: "str \<Rightarrow> str \<Rightarrow> int \<Rightarrow> str \<Rightarrow> str \<Rightarrow> str \<Rightarrow> ics_property list" where
  "buildReplyIcs now veventUid sequence attendeeAddress decision organizerAddress =
     [plain ''uid'' veventUid, plain ''sequence'' (show_int sequence), plain ''dtstamp'' now,
      plain ''organizer'' (''mailto:'' @ organizerAddress),
      (''attendee'', [(''partstat'', decision)], ''mailto:'' @ attendeeAddress)]"

section \<open>Services\<close>

datatype c_event =
    CFetched str "str list"
  | CThread str str "thread option option"
  | CListed str str "any_signal list option"
  | CSignal str str str "any_signal option option"
  | CSent email_raw_options bool
  | CRecorded str str calendar_rsvp_response "(str \<times> str) option" bool
  | CClock

type_synonym 'a cio = "(c_event, 'a) prog"
type_synonym 'a c_service = "c_event list \<Rightarrow> (app_error + 'a) outcome"

datatype c_error = CDb app_error | CMail email_error

record c_env =
  cServiceDomain :: str
  cMac :: "str \<Rightarrow> str"
  cPlatformTenant :: str
  cSesRegion :: str
  cIcsParts :: "str \<Rightarrow> c_event list \<Rightarrow> str list outcome"
  cParse :: "str \<Rightarrow> calendar_event_data option"
  cRender :: "str \<Rightarrow> ics_property list \<Rightarrow> str"
  cIcalTime :: "str \<Rightarrow> str"
  cB64utf8 :: "str \<Rightarrow> str"
  cB64 :: "str \<Rightarrow> str"
  cUuids :: "c_event list \<Rightarrow> str \<times> str"
  cDate :: "c_event list \<Rightarrow> str"
  cStamp :: "c_event list \<Rightarrow> str"
  cNow :: "c_event list \<Rightarrow> str"
  cSendRaw :: "email_raw_options \<Rightarrow> c_event list \<Rightarrow> (email_error + str) outcome"
  cGetThread :: "str \<Rightarrow> str \<Rightarrow> thread option c_service"
  cListSignals :: "str \<Rightarrow> str \<Rightarrow> any_signal list c_service"
  cGetSignal :: "str \<Rightarrow> str \<Rightarrow> str \<Rightarrow> any_signal option c_service"
  cSetRsvp :: "str \<Rightarrow> str \<Rightarrow> calendar_rsvp_response \<Rightarrow> (str \<times> str) option \<Rightarrow> bool c_service"

definition reading :: "(c_event list \<Rightarrow> 'a) \<Rightarrow> 'a cio" where
  "reading f = call (\<lambda>h. Done (f h)) (\<lambda>_. CClock)"

section \<open>Sending\<close>

record calendar_send =
  cs_from :: str
  cs_to :: str
  cs_subject :: str
  cs_icsContent :: str
  cs_method :: str
  cs_tenant :: str
  cs_sendType :: email_send_type
  cs_headers :: tag_list
  cs_tags :: tag_list

definition raw_of :: "c_env \<Rightarrow> calendar_send \<Rightarrow> str \<times> str \<Rightarrow> str \<Rightarrow> email_raw_options" where
  "raw_of e s us date =
     \<lparr>er_to = [cs_to s], er_cc = [], er_bcc = [],
      er_rawData = buildMimeMessage (cB64utf8 e) (cB64 e) (fst us) (snd us)
        \<lparr>mm_from = cs_from s, mm_to = cs_to s, mm_cc = None, mm_bcc = None, mm_subject = cs_subject s,
         mm_textBody = cs_icsContent s, mm_htmlBody = None, mm_calendarMethod = Some (cs_method s),
         mm_headers = cs_headers s, mm_attachments = [], mm_date = date\<rparr>,
      er_sendType = cs_sendType s, er_tags = cs_headers s @ cs_tags s, er_fromSender = Some (cs_from s),
      er_accountId = cs_tenant s\<rparr>"

text \<open>A permanent refusal is an empty message id; the send is inside a \<open>try\<close>.\<close>

definition sendCalendarMessage :: "c_env \<Rightarrow> calendar_send \<Rightarrow> (c_error + str \<times> str) cio" where
  "sendCalendarMessage e s =
     bind (reading (\<lambda>h. (cUuids e h, cDate e h))) (\<lambda>(us, date).
     let raw = raw_of e s us date
     in try_catch
          (bind (call (cSendRaw e raw) (\<lambda>r. CSent raw (case r of Done (Inr _) \<Rightarrow> True | _ \<Rightarrow> False))) (\<lambda>r.
             ret (case r of
                    Inl (email_error.PermanentSesError _ _ _) \<Rightarrow> Inr ([], [])
                  | Inl x \<Rightarrow> Inl (CMail x)
                  | Inr m \<Rightarrow> Inr (m, if m \<noteq> [] then buildOutboundMsgId m (cSesRegion e) else []))))
          (\<lambda>t. ret (Inl (CDb (DbError t False)))))"

definition local_part :: "str \<Rightarrow> str" where
  "local_part address = (case last_index_of CHR ''@'' address of Some i \<Rightarrow> take i address | None \<Rightarrow> butlast address)"

definition forwardInvite :: "c_env \<Rightarrow> cal_signal \<Rightarrow> str \<Rightarrow> str \<Rightarrow> str \<Rightarrow> str \<Rightarrow> (c_error + unit) cio" where
  "forwardInvite e c forwardingAddress accountId threadId al =
     (if forwardingAddress = [] then ret (Inr ())
      else
        (let d = sg_data c;
             proxyUid = buildProxyUid (cMac e) (cServiceDomain e) accountId threadId (ce_originalVeventUid d);
             proxyAddress = local_part al @ ''@'' @ accountId @ ''.'' @ cServiceDomain e;
             organizerName = nullish (ce_organizerCn d) (ce_organizer d)
         in bind (reading (cStamp e)) (\<lambda>now.
            bind_ok (\<lambda>x. x)
              (sendCalendarMessage e
                 \<lparr>cs_from = formatAddress (cB64utf8 e) \<lparr>ea_address = proxyAddress, ea_name = Some organizerName\<rparr>,
                  cs_to = forwardingAddress, cs_subject = ce_title d,
                  cs_icsContent = cRender e (ce_method d)
                    (buildForwardIcs (cIcalTime e) now d proxyUid (''mailto:'' @ proxyAddress) organizerName forwardingAddress),
                  cs_method = ce_method d, cs_tenant = cPlatformTenant e, cs_sendType = StCalendarForward,
                  cs_headers = [(''X-Numaeel-Calendar-Signal-Id'', sg_id c)], cs_tags = []\<rparr>)
              (\<lambda>_. ret (Inr ())))))"

fun PARTSTAT_MAP :: "rsvp_decision \<Rightarrow> str" where
  "PARTSTAT_MAP Accepted = ''ACCEPTED''"
| "PARTSTAT_MAP Declined = ''DECLINED''"
| "PARTSTAT_MAP Tentative = ''TENTATIVE''"

definition reply_send :: "c_env \<Rightarrow> rsvp_request \<Rightarrow> str \<Rightarrow> calendar_send" where
  "reply_send e q now =
     \<lparr>cs_from = rq_fromAddress q, cs_to = ce_organizer (rq_invite q), cs_subject = ''Re: '' @ ce_title (rq_invite q),
      cs_icsContent = cRender e ''REPLY''
        (buildReplyIcs now (ce_originalVeventUid (rq_invite q)) (ce_sequence (rq_invite q)) (rq_aliasAddress q)
           (PARTSTAT_MAP (rq_decision q)) (ce_organizer (rq_invite q))),
      cs_method = ''REPLY'', cs_tenant = rq_accountId q, cs_sendType = StCalendarRsvp, cs_headers = [],
      cs_tags = [(TAG_SIGNAL_ID, rq_calendarSignalId q), (TAG_THREAD_ID, rq_threadId q), (TAG_ACCOUNT_ID, rq_accountId q)]\<rparr>"

text \<open>Only a request that has an organizer and is not cancelled is answered.\<close>

definition rsvpable :: "rsvp_request \<Rightarrow> bool" where
  "rsvpable q \<longleftrightarrow> \<not> rq_cancelled q \<and> to_upper (ce_method (rq_invite q)) = ''REQUEST'' \<and> trim (ce_organizer (rq_invite q)) \<noteq> []"

definition sendRsvpToOrganizer :: "c_env \<Rightarrow> rsvp_request \<Rightarrow> (c_error + str \<times> str) cio" where
  "sendRsvpToOrganizer e q =
     (if \<not> rsvpable q then ret (Inr ([], []))
      else bind (reading (cStamp e)) (\<lambda>now. sendCalendarMessage e (reply_send e q now)))"

section \<open>The answer of a calendar\<close>

definition PARTSTAT_TO_DECISION :: "str \<Rightarrow> rsvp_decision option" where
  "PARTSTAT_TO_DECISION p =
     (if p = ''ACCEPTED'' then Some Accepted else if p = ''DECLINED'' then Some Declined
      else if p = ''TENTATIVE'' then Some Tentative else None)"

fun first_decision :: "calendar_attendee list \<Rightarrow> rsvp_decision option" where
  "first_decision [] = None"
| "first_decision (x # xs) =
     (case (if truthy (ca_partstat x) then PARTSTAT_TO_DECISION (to_upper (the (ca_partstat x))) else None) of
        Some d \<Rightarrow> Some d
      | None \<Rightarrow> first_decision xs)"

datatype rsvp_rejection = NotReplyMethod str | NoPartstat | HmacFailed str

definition validateRsvp :: "c_env \<Rightarrow> calendar_event_data \<Rightarrow> rsvp_rejection + rsvp_decision \<times> str \<times> str \<times> str" where
  "validateRsvp e d =
     (if to_upper (ce_method d) \<noteq> ''REPLY'' then Inl (NotReplyMethod (ce_method d))
      else (case first_decision (ce_attendees d) of
              None \<Rightarrow> Inl NoPartstat
            | Some decision \<Rightarrow>
                (case validateProxyUid (cMac e) (cServiceDomain e) (ce_veventUid d) of
                   Inl reason \<Rightarrow> Inl (HmacFailed reason)
                 | Inr (a, t, u) \<Rightarrow> Inr (decision, a, t, u))))"

definition inviteGroup :: "str \<Rightarrow> any_signal list \<Rightarrow> cal_signal list" where
  "inviteGroup uid items = filter (\<lambda>s. ce_veventUid (sg_data s) = uid) (List.map_filter calendar_of items)"

text \<open>The first event of the group, as it is now\<close>

definition current_invite :: "cal_signal list \<Rightarrow> (cal_signal \<times> bool) option" where
  "current_invite g =
     (case co_winners (collapseCalendarSignals g) of
        [] \<Rightarrow> None
      | (w, en) # _ \<Rightarrow> map_option (\<lambda>s. (s, en_cancelledAt en \<noteq> None)) (List.find (\<lambda>s. sg_id s = w) g))"

definition alias_of :: "any_signal option \<Rightarrow> str" where
  "alias_of s = (case s of None \<Rightarrow> [] | Some x \<Rightarrow> (case mail_of x of Some ed \<Rightarrow> eb_recipientAddress (base_of ed) | None \<Rightarrow> []))"

definition or_fail :: "'a c_service \<Rightarrow> ((app_error + 'a) outcome \<Rightarrow> c_event) \<Rightarrow> ('a \<Rightarrow> (c_error + unit) cio) \<Rightarrow> (c_error + unit) cio" where
  "or_fail svc ev k = bind_ok CDb (call svc ev) k"

text \<open>Send first, record second.\<close>

definition relay :: "c_env \<Rightarrow> rsvp_request \<Rightarrow> str \<Rightarrow> (c_error + unit) cio" where
  "relay e q lookup =
     bind_ok (\<lambda>x. x) (sendRsvpToOrganizer e q) (\<lambda>sent.
     bind (reading (cNow e)) (\<lambda>now.
     let r = \<lparr>rr_decision = rq_decision q, rr_respondedAt = now\<rparr>; ref = (if fst sent \<noteq> [] then Some sent else None)
     in or_fail (cSetRsvp e (rq_accountId q) lookup r ref)
          (\<lambda>x. CRecorded (rq_accountId q) lookup r ref (answered x \<noteq> None)) (\<lambda>_. ret (Inr ()))))"

definition relay_invite :: "c_env \<Rightarrow> rsvp_decision \<Rightarrow> str \<Rightarrow> str \<Rightarrow> cal_signal \<Rightarrow> bool \<Rightarrow> (c_error + unit) cio" where
  "relay_invite e decision a t s cancelled =
     or_fail (cGetSignal e a (ce_linkedSignalId (sg_data s)) t) (\<lambda>r. CSignal a (ce_linkedSignalId (sg_data s)) t (answered r)) (\<lambda>mail.
       if alias_of mail = [] then ret (Inr ())
       else relay e
              \<lparr>rq_decision = decision, rq_invite = sg_data s, rq_cancelled = cancelled, rq_aliasAddress = alias_of mail,
               rq_fromAddress = alias_of mail, rq_accountId = a, rq_calendarSignalId = sg_id s, rq_threadId = t\<rparr>
              (sg_signalLookupId s))"

definition relay_to_thread :: "c_env \<Rightarrow> rsvp_decision \<times> str \<times> str \<times> str \<Rightarrow> (c_error + unit) cio" where
  "relay_to_thread e v =
     (case v of (decision, a, t, uid) \<Rightarrow>
        or_fail (cGetThread e a t) (\<lambda>r. CThread a t (answered r)) (\<lambda>found.
        if found = None then ret (Inr ())
        else or_fail (cListSignals e a t) (\<lambda>r. CListed a t (answered r)) (\<lambda>items.
          case current_invite (inviteGroup uid items) of
            None \<Rightarrow> ret (Inr ())
          | Some (s, cancelled) \<Rightarrow> relay_invite e decision a t s cancelled)))"

definition processOneIcs :: "c_env \<Rightarrow> str \<Rightarrow> (c_error + unit) cio" where
  "processOneIcs e bytes =
     (case cParse e bytes of
        None \<Rightarrow> ret (Inr ())
      | Some d \<Rightarrow> (case validateRsvp e d of Inl _ \<Rightarrow> ret (Inr ()) | Inr v \<Rightarrow> relay_to_thread e v))"

text \<open>Every attachment is tried; the first error is the result.\<close>

definition process_rsvp :: "c_env \<Rightarrow> str \<Rightarrow> (c_error + unit) cio" where
  "process_rsvp e s3Key =
     bind (call (cIcsParts e s3Key) (\<lambda>r. CFetched s3Key (case r of Done xs \<Rightarrow> xs | Threw _ \<Rightarrow> []))) (\<lambda>parts.
     bind (for_fold parts (\<lambda>st bytes.
             bind (processOneIcs e bytes) (\<lambda>r. ret (case r of Inl x \<Rightarrow> Some (nullish st x) | Inr _ \<Rightarrow> st))) None) (\<lambda>failed.
       ret (case failed of Some x \<Rightarrow> Inl x | None \<Rightarrow> Inr ())))"

section \<open>What is relayed\<close>

text \<open>An answer in a message: a reply with a decision, under an identity that this service signed\<close>

definition genuine :: "c_env \<Rightarrow> c_event list \<Rightarrow> rsvp_decision \<Rightarrow> str \<Rightarrow> str \<Rightarrow> str \<Rightarrow> bool" where
  "genuine e seen decision a t uid \<longleftrightarrow>
     (\<exists>key parts bytes d. CFetched key parts \<in> set seen \<and> bytes \<in> set parts \<and> cParse e bytes = Some d \<and>
       to_upper (ce_method d) = ''REPLY'' \<and> first_decision (ce_attendees d) = Some decision \<and>
       validateProxyUid (cMac e) (cServiceDomain e) (ce_veventUid d) = Inr (a, t, uid))"

text \<open>The latest stored state of the event on the thread of the identity\<close>

definition stored_invite :: "c_event list \<Rightarrow> str \<Rightarrow> str \<Rightarrow> str \<Rightarrow> cal_signal \<Rightarrow> bool \<Rightarrow> bool" where
  "stored_invite seen a t uid s cancelled \<longleftrightarrow>
     (\<exists>th items. CThread a t (Some (Some th)) \<in> set seen \<and> CListed a t (Some items) \<in> set seen \<and>
       s \<in> set (inviteGroup uid items) \<and> sg_id s = sg_id (latest (inviteGroup uid items)) \<and>
       (cancelled \<longleftrightarrow> is_cancel (latest (inviteGroup uid items))))"

definition relayed_for :: "c_env \<Rightarrow> c_event list \<Rightarrow> rsvp_request \<Rightarrow> str \<Rightarrow> bool" where
  "relayed_for e seen q lookup \<longleftrightarrow>
     (\<exists>uid s mail. genuine e seen (rq_decision q) (rq_accountId q) (rq_threadId q) uid \<and>
       stored_invite seen (rq_accountId q) (rq_threadId q) uid s (rq_cancelled q) \<and>
       CSignal (rq_accountId q) (ce_linkedSignalId (sg_data s)) (rq_threadId q) (Some mail) \<in> set seen \<and>
       alias_of mail \<noteq> [] \<and> rq_fromAddress q = alias_of mail \<and> rq_invite q = sg_data s \<and> lookup = sg_signalLookupId s)"

definition open_request :: "rsvp_request \<Rightarrow> bool" where
  "open_request q \<longleftrightarrow>
     \<not> rq_cancelled q \<and> to_upper (ce_method (rq_invite q)) = ''REQUEST'' \<and> trim (ce_organizer (rq_invite q)) \<noteq> []"

fun relay_allowed :: "c_env \<Rightarrow> c_event list \<Rightarrow> c_event \<Rightarrow> bool" where
  "relay_allowed e seen (CSent o' ok) \<longleftrightarrow>
     (\<exists>q lookup. relayed_for e seen q lookup \<and> open_request q \<and> er_to o' = [ce_organizer (rq_invite q)] \<and>
       er_fromSender o' = Some (rq_fromAddress q) \<and> er_accountId o' = rq_accountId q)"
| "relay_allowed e seen (CRecorded a lookup r ref ok) \<longleftrightarrow>
     (\<exists>q. relayed_for e seen q lookup \<and> a = rq_accountId q \<and> rr_decision r = rq_decision q \<and>
       (open_request q \<longrightarrow> (\<exists>o' ok. CSent o' ok \<in> set seen)))"
| "relay_allowed e seen _ \<longleftrightarrow> True"

lemma rsvpable_open: "rsvpable q \<longleftrightarrow> open_request q"
  by (simp add: rsvpable_def open_request_def)

lemma relayed_more: "relayed_for e seen q lookup \<Longrightarrow> relayed_for e (seen @ es) q lookup"
  unfolding relayed_for_def genuine_def stored_invite_def by fastforce

lemma genuine_more: "genuine e seen d a t u \<Longrightarrow> genuine e (seen @ es) d a t u"
  unfolding genuine_def by fastforce

lemma safe_or_fail:
  assumes "\<And>r. A seen (ev r)" "\<And>x. safe A (seen @ [ev (Done (Inr x))]) (k x)"
  shows "safe A seen (or_fail svc ev k)"
  unfolding or_fail_def bind_ok_def by (rule safe_event) (use assms in \<open>auto split: sum.split\<close>)

lemma safe_reading: "A seen CClock \<Longrightarrow> (\<And>x. safe A (seen @ [CClock]) (k x)) \<Longrightarrow> safe A seen (bind (reading f) k)"
  unfolding reading_def by (rule safe_event)

lemma group_by_one:
  assumes "xs \<noteq> []" "\<And>x. x \<in> set xs \<Longrightarrow> key x = k"
  shows "group_by key xs = [(k, xs)]"
proof -
  have "key ` set xs = {k}" using assms by (cases xs) auto
  then have keys: "fst ` set (group_by key xs) = {k}" using group_by_keys(2) [of key xs] by simp
  then obtain p ps where g: "group_by key xs = p # ps" by (cases "group_by key xs") auto
  have "ps = []"
  proof (cases ps)
    case (Cons q qs)
    then have "fst p = k" "fst q = k" using keys g by auto
    then show ?thesis using group_by_keys(1) [of key xs] g Cons by simp
  qed simp
  moreover have "fst p = k" using keys g by auto
  ultimately have "(k, snd p) \<in> set (group_by key xs)" "group_by key xs = [(k, snd p)]" using g by auto
  moreover from group_by_group [OF this(1)] have "snd p = xs" using assms(2) by (simp add: filter_True)
  ultimately show ?thesis by simp
qed

lemma current_is_latest:
  assumes "current_invite (inviteGroup uid items) = Some (s, c)"
  shows "s \<in> set (inviteGroup uid items) \<and> sg_id s = sg_id (latest (inviteGroup uid items)) \<and>
    (c \<longleftrightarrow> is_cancel (latest (inviteGroup uid items)))"
proof -
  let ?g = "inviteGroup uid items"
  have ne: "?g \<noteq> []" using assms by (auto simp: current_invite_def collapseCalendarSignals_def group_by_def)
  have "group_by (\<lambda>s. ce_veventUid (sg_data s)) ?g = [(uid, ?g)]"
    by (rule group_by_one [OF ne]) (simp add: inviteGroup_def)
  then obtain prior where "co_winners (collapseCalendarSignals ?g) = [(sg_id (latest ?g), enrich (latest ?g) prior)]"
    by (auto simp: collapseCalendarSignals_def collapse_step_def latest_def Let_def)
  moreover have "en_cancelledAt (enrich w prior) \<noteq> None \<longleftrightarrow> is_cancel w" for w
    by (simp add: enrich_def Let_def)
  ultimately show ?thesis
    using assms by (auto simp: current_invite_def find_Some_iff)
qed

lemma sendCalendarMessage_spec:
  "spec (sendCalendarMessage e s) (\<lambda>r es. \<exists>us date ok. es = [CClock, CSent (raw_of e s us date) ok])"
  unfolding sendCalendarMessage_def reading_def
proof (rule spec_bind [where Q = "\<lambda>r es. es = [CClock] \<and> (\<exists>p. r = Done p)"])
  fix p :: "(str \<times> str) \<times> str" and es assume "es = [CClock] \<and> (\<exists>q. Done p = Done q)"
  obtain us date where p: "p = (us, date)" by (cases p) auto
  let ?raw = "raw_of e s us date"
  have "spec (bind (call (cSendRaw e ?raw) (\<lambda>r. CSent ?raw (case r of Done (Inr _) \<Rightarrow> True | _ \<Rightarrow> False))) (\<lambda>r. ret (f r)))
      (\<lambda>r es. \<exists>ok. es = [CSent ?raw ok])" for f :: "email_error + str \<Rightarrow> c_error + str \<times> str"
    by (rule spec_bind [OF spec_call [where Q = "\<lambda>r es. \<exists>ok. es = [CSent ?raw ok]"]]) (auto intro: spec_ret)
  then have "spec (try_catch (bind (call (cSendRaw e ?raw) (\<lambda>r. CSent ?raw (case r of Done (Inr _) \<Rightarrow> True | _ \<Rightarrow> False))) (\<lambda>r. ret (f r)))
      (\<lambda>t. ret (g t))) (\<lambda>r es. \<exists>ok. es = [CSent ?raw ok])" for f :: "email_error + str \<Rightarrow> c_error + str \<times> str" and g
    by (rule spec_try_catch) (auto intro: spec_ret)
  then show "spec (case p of (us, date) \<Rightarrow> let raw = raw_of e s us date in
      try_catch
        (bind (call (cSendRaw e raw) (\<lambda>r. CSent raw (case r of Done (Inr _) \<Rightarrow> True | _ \<Rightarrow> False))) (\<lambda>r.
           ret (case r of
                  Inl (email_error.PermanentSesError _ _ _) \<Rightarrow> Inr ([], [])
                | Inl x \<Rightarrow> Inl (CMail x)
                | Inr m \<Rightarrow> Inr (m, if m \<noteq> [] then buildOutboundMsgId m (cSesRegion e) else []))))
        (\<lambda>t. ret (Inl (CDb (DbError t False)))))
     (\<lambda>r es'. \<exists>us date ok. es @ es' = [CClock, CSent (raw_of e s us date) ok])"
    unfolding p Let_def prod.case by (rule spec_mono) (use \<open>es = _ \<and> _\<close> in \<open>cases us, fastforce\<close>)
qed (simp_all add: spec_def call_def)

lemma raw_of_fields:
  "er_to (raw_of e s us date) = [cs_to s]" "er_fromSender (raw_of e s us date) = Some (cs_from s)"
  "er_accountId (raw_of e s us date) = cs_tenant s"
  by (simp_all add: raw_of_def)

lemma safe_for_fold:
  assumes "\<And>st x es. x \<in> set xs \<Longrightarrow> safe A (seen @ es) (body st x)"
  shows "safe A seen (for_fold xs body st)"
  using assms
proof (induction xs arbitrary: st seen)
  case Nil then show ?case by simp
next
  case (Cons x xs)
  have "safe A seen (body st x)" using Cons.prems [of x "[]"] by simp
  moreover have "safe A (seen @ es) (for_fold xs body y)" for es y
    using Cons.prems by (intro Cons.IH) simp
  ultimately show ?case by (simp add: safe_then)
qed


lemma sendRsvp_spec:
  assumes "relayed_for e seen q lookup"
  shows "spec (sendRsvpToOrganizer e q)
    (\<lambda>r es. guarded (relay_allowed e) seen es \<and> (open_request q \<longrightarrow> (\<forall>x. r = Done x \<longrightarrow> (\<exists>o' ok. CSent o' ok \<in> set es))))"
proof (cases "open_request q")
  case True
  have allowed: "relay_allowed e (seen @ es) (CSent (raw_of e (reply_send e q now) us date) ok)" for es now us date ok
    using relayed_more [OF assms, of es] True by (auto simp: raw_of_fields reply_send_def)
  show ?thesis
    unfolding sendRsvpToOrganizer_def reading_def
    using True
    by (simp add: rsvpable_open, intro spec_bind [OF spec_call [where Q = "\<lambda>r es. es = [CClock]"]])
      (use allowed [of "[CClock, CClock]"] in \<open>auto intro!: spec_mono [OF sendCalendarMessage_spec]\<close>)
next
  case False
  then show ?thesis by (simp add: sendRsvpToOrganizer_def rsvpable_open spec_ret)
qed

lemma safe_relay: "relayed_for e seen q lookup \<Longrightarrow> safe (relay_allowed e) seen (relay e q lookup)"
  unfolding relay_def bind_ok_def
proof (rule safe_bind_spec [OF sendRsvp_spec], assumption)
  fix x :: "c_error + str \<times> str" and es
  assume rel: "relayed_for e seen q lookup"
    and sent: "open_request q \<longrightarrow> (\<forall>y. Done x = Done y \<longrightarrow> (\<exists>o' ok. CSent o' ok \<in> set es))"
  have rec: "relay_allowed e (seen @ es @ [CClock]) (CRecorded (rq_accountId q) lookup \<lparr>rr_decision = rq_decision q, rr_respondedAt = now\<rparr> ref ok)"
    for now ref ok
    using relayed_more [OF rel, of "es @ [CClock]"] sent by auto
  show "safe (relay_allowed e) (seen @ es)
     (case x of Inl y \<Rightarrow> ret (Inl y)
      | Inr sent \<Rightarrow> bind (reading (cNow e)) (\<lambda>now.
          let r = \<lparr>rr_decision = rq_decision q, rr_respondedAt = now\<rparr>; ref = if fst sent \<noteq> [] then Some sent else None
          in or_fail (cSetRsvp e (rq_accountId q) lookup r ref)
               (\<lambda>x. CRecorded (rq_accountId q) lookup r ref (answered x \<noteq> None)) (\<lambda>_. ret (Inr ()))))"
  proof (cases x)
    case (Inr y)
    show ?thesis
      unfolding Let_def Inr sum.case
    proof (rule safe_reading, simp, rule safe_or_fail)
      fix now and r :: "(app_error + bool) outcome"
      show "relay_allowed e ((seen @ es) @ [CClock]) (CRecorded (rq_accountId q) lookup \<lparr>rr_decision = rq_decision q, rr_respondedAt = now\<rparr>
          (if fst y \<noteq> [] then Some y else None) (answered r \<noteq> None))"
        using rec unfolding append_assoc .
    qed simp
  qed simp
qed

lemma safe_relay_to_thread:
  assumes "genuine e seen d a t u"
  shows "safe (relay_allowed e) seen (relay_to_thread e (d, a, t, u))"
  unfolding relay_to_thread_def prod.case
proof (rule safe_or_fail, simp, rule safe_if, simp, rule safe_or_fail, simp, rule safe_option, simp)
  fix found :: "thread option" and items y
  assume "found \<noteq> None" and y: "current_invite (inviteGroup u items) = Some y"
  then obtain th where th: "found = Some th" by blast
  obtain s c where sc: "y = (s, c)" by (cases y)
  let ?seen = "(seen @ [CThread a t (Some found)]) @ [CListed a t (Some items)]"
  have inv: "stored_invite ?seen a t u s c"
    using current_is_latest [OF y [unfolded sc]] th unfolding stored_invite_def by auto
  have "relayed_for e (?seen @ [CSignal a (ce_linkedSignalId (sg_data s)) t (Some mail)])
      \<lparr>rq_decision = d, rq_invite = sg_data s, rq_cancelled = c, rq_aliasAddress = alias_of mail,
       rq_fromAddress = alias_of mail, rq_accountId = a, rq_calendarSignalId = sg_id s, rq_threadId = t\<rparr> (sg_signalLookupId s)"
    if "alias_of mail \<noteq> []" for mail
    using that inv genuine_more [OF assms, of "[CThread a t (Some found), CListed a t (Some items), CSignal a (ce_linkedSignalId (sg_data s)) t (Some mail)]"]
    unfolding relayed_for_def stored_invite_def by fastforce
  then show "safe (relay_allowed e) ((seen @ [CThread a t (answered (Done (Inr found)))]) @ [CListed a t (answered (Done (Inr items)))]) (case y of (s, c) \<Rightarrow> relay_invite e d a t s c)"
    unfolding sc prod.case relay_invite_def
    by (intro safe_or_fail safe_if safe_relay) simp_all
qed

text \<open>
  C18. An answer to a forwarded invitation reaches the organizer only on the word of a signed identity.
  Whatever the attachments of the message contain and the services answer, every message the relay sends
  goes to the organizer of an invitation that is stored on the thread the identity names, for the event it
  names, in its latest state, which is an open request; it comes from the alias that received the
  invitation and under its account; and some attachment is a reply with a decision under an identity that
  validates. What is recorded is this decision on this event, after the send when there is one to make.
\<close>

theorem rsvp_relay_confined: "safe (relay_allowed e) [] (process_rsvp e key)"
proof -
  have one: "safe (relay_allowed e) (CFetched key parts # es) (processOneIcs e bytes)" if "bytes \<in> set parts" for parts es bytes
  proof (cases "cParse e bytes")
    case (Some d)
    show ?thesis
    proof (cases "validateRsvp e d")
      case (Inr v)
      obtain dec a t u where v: "v = (dec, a, t, u)" by (cases v)
      have "genuine e (CFetched key parts # es) dec a t u"
        using Inr Some that unfolding v genuine_def validateRsvp_def
        by (auto split: if_splits option.splits sum.splits)
      then show ?thesis by (simp add: processOneIcs_def Some Inr v safe_relay_to_thread)
    qed (simp add: processOneIcs_def Some)
  qed (simp add: processOneIcs_def)
  show ?thesis
    unfolding process_rsvp_def
  proof (rule safe_event, simp)
    fix parts :: "str list"
    show "safe (relay_allowed e) ([] @ [CFetched key (case Done parts of Done xs \<Rightarrow> xs | Threw _ \<Rightarrow> [])])
      (bind (for_fold parts (\<lambda>st bytes. bind (processOneIcs e bytes) (\<lambda>r. ret (case r of Inl x \<Rightarrow> Some (nullish st x) | Inr _ \<Rightarrow> st))) None)
        (\<lambda>failed. ret (case failed of Some x \<Rightarrow> Inl x | None \<Rightarrow> Inr ())))"
      using one [of _ parts] by (intro safe_then safe_for_fold) simp_all
  qed
qed

end
