(* ===== verification/Wakeups.thy ===== *)
theory Wakeups
  imports ThreadsApi
begin

text \<open>
  What happens when a timer fires: the wake-up of a snoozed thread (\<open>scheduler/followup-handler.ts\<close>), the
  reminder of an unanswered invitation (\<open>scheduler/rsvp-reminder-handler.ts\<close>) and the client of the
  scheduler (\<open>scheduler/scheduler-client.ts\<close>). Log lines are left out.
\<close>

section \<open>The client of the scheduler\<close>

datatype sched_answer = SchedOk | SchedConflict | SchedNotFound | SchedFails str

datatype w_event =
    WThread str str "thread option option"
  | WSignal str str str "any_signal option option"
  | WUpdated str thread_status str update_thread_fields bool
  | WNotified str thread str str bool
  | WCreated str str bool
  | WChanged str str bool
  | WRemoved str bool
  | WClock int

type_synonym 'a wio = "(w_event, 'a) prog"
type_synonym 'a w_service = "w_event list \<Rightarrow> (app_error + 'a) outcome"

record w_env =
  wGetThread :: "str \<Rightarrow> str \<Rightarrow> thread option w_service"
  wGetSignal :: "str \<Rightarrow> str \<Rightarrow> str \<Rightarrow> any_signal option w_service"
  wUpdateThread :: "str \<Rightarrow> str \<Rightarrow> thread_status \<Rightarrow> str \<Rightarrow> update_thread_fields \<Rightarrow> unit w_service"
  wNotifyThread :: "str \<Rightarrow> thread \<Rightarrow> str \<Rightarrow> str \<Rightarrow> unit w_service"
  wCreate :: "str \<Rightarrow> str \<Rightarrow> w_event list \<Rightarrow> sched_answer"
  wUpdate :: "str \<Rightarrow> str \<Rightarrow> w_event list \<Rightarrow> sched_answer"
  wDelete :: "str \<Rightarrow> w_event list \<Rightarrow> sched_answer"
  wIso :: "int \<Rightarrow> str"
  wMillis :: "str \<Rightarrow> int option"
  wNow :: "w_event list \<Rightarrow> int"
  wHash :: "str \<Rightarrow> str"

definition w_clock :: "w_env \<Rightarrow> int wio" where
  "w_clock e = call (\<lambda>h. Done (wNow e h)) (\<lambda>r. WClock (case r of Done n \<Rightarrow> n | Threw _ \<Rightarrow> 0))"

text \<open>\<open>replace(/Z$/, "").replace(/\.\d+$/, "")\<close>\<close>

definition strip_fraction :: "str \<Rightarrow> str" where
  "strip_fraction s =
     (let r = rev s; ds = takeWhile is_digit r
      in case drop (length ds) r of
           c # rest \<Rightarrow> if c = CHR ''.'' \<and> ds \<noteq> [] then rev rest else s
         | [] \<Rightarrow> s)"

definition schedule_expression :: "str \<Rightarrow> str" where
  "schedule_expression fireAtIso =
     ''at('' @ strip_fraction (if ends_with fireAtIso ''Z'' then butlast fireAtIso else fireAtIso) @ '')''"

text \<open>A schedule that exists already gets the new time.\<close>

definition createSchedule :: "w_env \<Rightarrow> str \<Rightarrow> str \<Rightarrow> str \<Rightarrow> str \<Rightarrow> (app_error + unit) wio" where
  "createSchedule e accountId key suf fireAtIso =
     (let name = buildScheduleName (wHash e) accountId key suf; expr = schedule_expression fireAtIso
      in bind (call (\<lambda>h. Done (wCreate e name expr h)) (\<lambda>r. WCreated name expr (r = Done SchedOk))) (\<lambda>a.
           case a of
             SchedOk \<Rightarrow> ret (Inr ())
           | SchedConflict \<Rightarrow>
               bind (call (\<lambda>h. Done (wUpdate e name expr h)) (\<lambda>r. WChanged name expr (r = Done SchedOk))) (\<lambda>u.
                 ret (case u of SchedOk \<Rightarrow> Inr () | SchedFails m \<Rightarrow> Inl (DbError m False) | _ \<Rightarrow> Inl (DbError [] False)))
           | SchedNotFound \<Rightarrow> ret (Inl (DbError [] False))
           | SchedFails m \<Rightarrow> ret (Inl (DbError m False))))"

definition createFollowupSchedule :: "w_env \<Rightarrow> str \<Rightarrow> str \<Rightarrow> str \<Rightarrow> (app_error + unit) wio" where
  "createFollowupSchedule e accountId threadId fireAtIso = createSchedule e accountId threadId ''followup'' fireAtIso"

definition deleteFollowup :: "w_env \<Rightarrow> str \<Rightarrow> (app_error + unit) wio" where
  "deleteFollowup e name =
     bind (call (\<lambda>h. Done (wDelete e name h)) (\<lambda>r. WRemoved name (r = Done SchedOk))) (\<lambda>a.
       ret (case a of SchedOk \<Rightarrow> Inr () | SchedNotFound \<Rightarrow> Inr () | SchedConflict \<Rightarrow> Inl (DbError [] False)
            | SchedFails m \<Rightarrow> Inl (DbError m False)))"

section \<open>Timers\<close>

definition or_db :: "'a w_service \<Rightarrow> ((app_error + 'a) outcome \<Rightarrow> w_event) \<Rightarrow> ('a \<Rightarrow> (app_error + unit) wio) \<Rightarrow> (app_error + unit) wio" where
  "or_db svc ev k = bind_ok (\<lambda>x. x) (call svc ev) k"

definition notify_thread :: "w_env \<Rightarrow> str \<Rightarrow> thread \<Rightarrow> str \<Rightarrow> (app_error + unit) wio" where
  "notify_thread e a t reason =
     call (wNotifyThread e a t (nullish (th_urgency t) ''normal'') reason)
       (\<lambda>r. WNotified a t (nullish (th_urgency t) ''normal'') reason (answered r \<noteq> None))"

definition process_followup :: "w_env \<Rightarrow> str \<Rightarrow> str \<Rightarrow> (app_error + unit) wio" where
  "process_followup e a i =
     or_db (wGetThread e a i) (\<lambda>r. WThread a i (answered r)) (\<lambda>found.
       case found of
         None \<Rightarrow> ret (Inr ())
       | Some t \<Rightarrow>
           (if th_status t = ThDeleted \<or> \<not> truthy (th_followupAt t) then ret (Inr ())
            else if th_status t = ThActive then notify_thread e a t ''followup''
            else if th_status t = ThArchived
            then bind (w_clock e) (\<lambda>n.
                 or_db (wUpdateThread e a i ThActive (wIso e n) no_fields)
                   (\<lambda>r. WUpdated i ThActive (wIso e n) no_fields (answered r \<noteq> None)) (\<lambda>_.
                   notify_thread e a (t\<lparr>th_status := ThActive, th_updatedAt := wIso e n\<rparr>) ''followup''))
            else ret (Inr ())))"

definition process_reminder :: "w_env \<Rightarrow> str \<Rightarrow> str \<Rightarrow> str \<Rightarrow> (app_error + unit) wio" where
  "process_reminder e a calendarSignalId th =
     or_db (wGetSignal e a calendarSignalId th) (\<lambda>r. WSignal a calendarSignalId th (answered r)) (\<lambda>found.
       case Option.bind found calendar_of of
         None \<Rightarrow> ret (Inr ())
       | Some c \<Rightarrow>
           bind (w_clock e) (\<lambda>now.
             case wMillis e (ce_startTime (sg_data c)) of
               None \<Rightarrow> ret (Inr ())
             | Some start \<Rightarrow>
                 if start \<le> now \<or> ce_rsvpResponse (sg_data c) \<noteq> None then ret (Inr ())
                 else or_db (wGetThread e a th) (\<lambda>r. WThread a th (answered r)) (\<lambda>t.
                        case t of None \<Rightarrow> ret (Inr ()) | Some t \<Rightarrow> notify_thread e a t ''rsvp_reminder'')))"

section \<open>What a timer may do\<close>

definition snoozed :: "str \<Rightarrow> str \<Rightarrow> w_event list \<Rightarrow> thread \<Rightarrow> bool" where
  "snoozed a i seen t \<longleftrightarrow> WThread a i (Some (Some t)) \<in> set seen \<and> truthy (th_followupAt t)"

text \<open>Waking a thread: only a snoozed one that is archived becomes active, as of now, and the user hears of a
  thread only as it was read when that was active, or as it was just written.\<close>

fun wake_allowed :: "w_env \<Rightarrow> str \<Rightarrow> str \<Rightarrow> w_event list \<Rightarrow> w_event \<Rightarrow> bool" where
  "wake_allowed e a i seen (WUpdated j st l u ok) \<longleftrightarrow>
     j = i \<and> st = ThActive \<and> u = no_fields \<and> (\<exists>t. snoozed a i seen t \<and> th_status t = ThArchived) \<and>
     (\<exists>n. WClock n \<in> set seen \<and> l = wIso e n)"
| "wake_allowed e a i seen (WNotified b t urg reason ok) \<longleftrightarrow>
     b = a \<and> reason = ''followup'' \<and> urg = nullish (th_urgency t) ''normal'' \<and>
     (\<exists>t'. snoozed a i seen t' \<and>
       (th_status t' = ThActive \<and> t = t' \<or>
        th_status t' = ThArchived \<and>
        (\<exists>l. WUpdated i ThActive l no_fields True \<in> set seen \<and> t = t'\<lparr>th_status := ThActive, th_updatedAt := l\<rparr>)))"
| "wake_allowed e a i seen (WThread _ _ _) \<longleftrightarrow> True"
| "wake_allowed e a i seen (WClock _) \<longleftrightarrow> True"
| "wake_allowed e a i seen _ \<longleftrightarrow> False"

text \<open>A reminder: only for a stored event of the thread that lies ahead and has no answer\<close>

fun remind_allowed :: "w_env \<Rightarrow> str \<Rightarrow> str \<Rightarrow> str \<Rightarrow> w_event list \<Rightarrow> w_event \<Rightarrow> bool" where
  "remind_allowed e a i th seen (WNotified b t urg reason ok) \<longleftrightarrow>
     b = a \<and> reason = ''rsvp_reminder'' \<and> WThread a th (Some (Some t)) \<in> set seen \<and>
     (\<exists>s c start now. WSignal a i th (Some (Some s)) \<in> set seen \<and> calendar_of s = Some c \<and> WClock now \<in> set seen \<and>
       wMillis e (ce_startTime (sg_data c)) = Some start \<and> now < start \<and> ce_rsvpResponse (sg_data c) = None)"
| "remind_allowed e a i th seen (WThread _ _ _) \<longleftrightarrow> True"
| "remind_allowed e a i th seen (WSignal _ _ _ _) \<longleftrightarrow> True"
| "remind_allowed e a i th seen (WClock _) \<longleftrightarrow> True"
| "remind_allowed e a i th seen _ \<longleftrightarrow> False"

lemma safe_or_db:
  assumes "\<And>r. A seen (ev r)" "\<And>x. safe A (seen @ [ev (Done (Inr x))]) (k x)"
  shows "safe A seen (or_db svc ev k)"
  unfolding or_db_def bind_ok_def by (rule safe_event) (use assms in \<open>auto split: sum.split\<close>)

lemma safe_w_clock:
  assumes "\<And>n. A seen (WClock n)" "\<And>n. safe A (seen @ [WClock n]) (k n)"
  shows "safe A seen (bind (w_clock e) k)"
  unfolding w_clock_def
proof (rule safe_bind_spec [where Q = "\<lambda>r es. \<exists>n. r = Done n \<and> es = [WClock n]"])
  show "spec (call (\<lambda>h. Done (wNow e h)) (\<lambda>r. WClock (case r of Done n \<Rightarrow> n | Threw _ \<Rightarrow> 0)))
    (\<lambda>r es. guarded A seen es \<and> (\<exists>n. r = Done n \<and> es = [WClock n]))"
    using assms(1) by (simp add: spec_def call_def)
qed (use assms(2) in auto)

text \<open>
  C38. What the timers do. When a followup fires, the thread becomes active only if it was read as archived
  with a followup still set; that write asks for the status and for the time of the clock as the moment of its last
  signal, and for no other field. The user is notified of a thread with a followup in two cases: it was read as
  active, and then it is announced as read with nothing written; or it was archived, and then it is announced
  as active after that write worked. When an RSVP reminder fires, the user is notified only if the stored
  event of this thread has not begun and has no answer. Neither does anything else.
\<close>

theorem timers_confined:
  "safe (wake_allowed e a i) [] (process_followup e a i) \<and> safe (remind_allowed e a s th) [] (process_reminder e a s th)"
proof
  show "safe (wake_allowed e a i) [] (process_followup e a i)"
    unfolding process_followup_def notify_thread_def
    by (intro safe_or_db safe_w_clock safe_intros safe_last_call) (auto simp: snoozed_def)
  show "safe (remind_allowed e a s th) [] (process_reminder e a s th)"
    unfolding process_reminder_def notify_thread_def
    by (intro safe_or_db safe_w_clock safe_intros safe_last_call) (auto simp: Option.bind_eq_Some_conv)
qed

end
