(* ===== verification/Access.thy ===== *)
theory Access
  imports Guards Types Ses
begin

text \<open>
  Who may do what: the access records of an account at the authorization service
  (\<open>api/authress-access.ts\<close>), the check before a route's handler (\<open>api/authorization-middleware.ts\<close>), the
  guard behind every route (\<open>api/authorization-guard.ts\<close>) and the routes over the users of an account
  (\<open>api/accountsApi.ts\<close>). The service itself answers as it likes: an SDK call gives a value, or an error
  with its message and the status \<open>e.status ?? e.response?.status\<close>. Log lines and the attributes of a
  record that the code only passes on are left out.
\<close>

section \<open>Records\<close>

datatype account_role = RoleAdmin | RoleMember | RoleViewer

fun ROLE_TO_ID :: "account_role \<Rightarrow> str" where
  "ROLE_TO_ID RoleAdmin = ''ro_ag2b0hrztp7n84b25qxqijwewm''"
| "ROLE_TO_ID RoleMember = ''ro_bvy5r9ri47n23zu4n7u6bgj0jx''"
| "ROLE_TO_ID RoleViewer = ''ro_a4d58mfmq074p8hdy4s7whwa0e''"

definition roleIdToRole :: "str \<Rightarrow> account_role option" where
  "roleIdToRole i = List.find (\<lambda>r. ROLE_TO_ID r = i) [RoleAdmin, RoleMember, RoleViewer]"

definition recordId :: "str \<Rightarrow> str" where
  "recordId accountId = ''email:account-'' @ accountId"

definition account_uri :: "str \<Rightarrow> str" where
  "account_uri accountId = ''accounts/'' @ accountId"

record access_statement =
  as_roles :: "str list"
  as_resources :: "str list"
  as_users :: "str list option"
  as_groups :: "str list option"

record access_record =
  ar_recordId :: str
  ar_name :: str
  ar_statements :: "access_statement list"

definition without_user :: "str \<Rightarrow> access_statement list \<Rightarrow> access_statement list" where
  "without_user userId ss =
     filter (\<lambda>s. nullish (as_users s) [] \<noteq> [])
       (map (\<lambda>s. s\<lparr>as_users := Some (filter (\<lambda>u. u \<noteq> userId) (nullish (as_users s) []))\<rparr>) ss)"

definition role_statement :: "str \<Rightarrow> str \<Rightarrow> str \<Rightarrow> access_statement" where
  "role_statement roleId uri userId = \<lparr>as_roles = [roleId], as_resources = [uri], as_users = Some [userId], as_groups = None\<rparr>"

text \<open>A statement that grants to groups only has no users before the change and is dropped with the emptied ones.\<close>

lemma group_statement_dropped: "nullish (as_users s) [] = [] \<Longrightarrow> without_user userId [s] = []"
  by (simp add: without_user_def)

text \<open>The user joins the first statement of the role, or a new one.\<close>

fun with_user :: "str \<Rightarrow> str \<Rightarrow> str \<Rightarrow> access_statement list \<Rightarrow> access_statement list" where
  "with_user roleId uri userId [] = [role_statement roleId uri userId]"
| "with_user roleId uri userId (s # ss) =
     (if roleId \<in> set (as_roles s) then s\<lparr>as_users := Some (nullish (as_users s) [] @ [userId])\<rparr> # ss
      else s # with_user roleId uri userId ss)"

section \<open>The authorization service\<close>

datatype 'a sdk_answer = SdkOk 'a | SdkError "nat option" str

datatype access_event =
    AcRead str "access_record option option"
  | AcCreated str access_record bool
  | AcUpdated str access_record bool
  | AcUsers str
  | AcResources str
  | AcProfile str
  | AcInvited str str str
  | AcAccount str
  | AcMailed str str bool
  | AcChecked str str str bool
  | AcHandled str

type_synonym 'a ac = "(access_event, 'a) prog"
type_synonym 'a sdk_call = "access_event list \<Rightarrow> 'a sdk_answer"

text \<open>An invitation carries one statement (a role on a resource) and the record it joins; it does not name
  the invited address.\<close>

record access_env =
  acGetRecord :: "str \<Rightarrow> access_record sdk_call"
  acCreateRecord :: "access_record \<Rightarrow> unit sdk_call"
  acUpdateRecord :: "str \<Rightarrow> access_record \<Rightarrow> unit sdk_call"
  acGetResourceUsers :: "str \<Rightarrow> (str \<times> str list) list sdk_call"
  acGetUserResources :: "str \<Rightarrow> str list option sdk_call"
  acGetUser :: "str \<Rightarrow> (str option \<times> str option \<times> str option) sdk_call"
  acCreateInvite :: "str \<Rightarrow> str \<Rightarrow> str \<Rightarrow> str sdk_call"
  acAuthorizeUser :: "str \<Rightarrow> str \<Rightarrow> str \<Rightarrow> unit sdk_call"
  acAccountName :: "str \<Rightarrow> access_event list \<Rightarrow> app_error + str option"
  acSend :: "str \<Rightarrow> str \<Rightarrow> str \<Rightarrow> access_event list \<Rightarrow> email_error + str"
  acValidEmail :: "str \<Rightarrow> bool"
  acAppBaseUrl :: str

definition sdk :: "'a sdk_call \<Rightarrow> ('a sdk_answer \<Rightarrow> access_event) \<Rightarrow> 'a sdk_answer ac" where
  "sdk svc ev = call (\<lambda>h. Done (svc h)) (\<lambda>r. case r of Done x \<Rightarrow> ev x | Threw m \<Rightarrow> ev (SdkError None m))"

definition worked :: "'a sdk_answer \<Rightarrow> bool" where
  "worked r \<longleftrightarrow> (case r of SdkOk _ \<Rightarrow> True | SdkError _ _ \<Rightarrow> False)"

text \<open>What a read saw: \<open>None\<close> is a failure, \<open>Some None\<close> a record that does not exist\<close>

definition read_event :: "str \<Rightarrow> access_record sdk_answer \<Rightarrow> access_event" where
  "read_event rid r = AcRead rid (case r of SdkOk x \<Rightarrow> Some (Some x) | SdkError st _ \<Rightarrow> if st = Some 404 then Some None else None)"

definition getRecord :: "access_env \<Rightarrow> str \<Rightarrow> access_record option ac" where
  "getRecord e rid =
     bind (sdk (acGetRecord e rid) (read_event rid)) (\<lambda>r.
       case r of SdkOk x \<Rightarrow> ret (Some x) | SdkError st m \<Rightarrow> if st = Some 404 then ret None else throw m)"

definition or_throw :: "unit sdk_answer \<Rightarrow> unit ac" where
  "or_throw r = (case r of SdkOk _ \<Rightarrow> ret () | SdkError _ m \<Rightarrow> throw m)"

definition upsertUser :: "access_env \<Rightarrow> str \<Rightarrow> str \<Rightarrow> account_role \<Rightarrow> unit ac" where
  "upsertUser e accountId userId role =
     (let rid = recordId accountId; uri = account_uri accountId; roleId = ROLE_TO_ID role
      in bind (getRecord e rid) (\<lambda>existing.
         case existing of
           None \<Rightarrow>
             (let r = \<lparr>ar_recordId = rid, ar_name = ''Email Account: '' @ accountId,
                       ar_statements = [role_statement roleId uri userId]\<rparr>
              in bind (sdk (acCreateRecord e r) (\<lambda>x. AcCreated rid r (worked x))) or_throw)
         | Some x \<Rightarrow>
             (let r = x\<lparr>ar_statements := with_user roleId uri userId (without_user userId (ar_statements x))\<rparr>
              in bind (sdk (acUpdateRecord e rid r) (\<lambda>x. AcUpdated rid r (worked x))) or_throw)))"

definition caught :: "unit ac \<Rightarrow> (app_error + unit) ac" where
  "caught m = try_catch (bind m (\<lambda>_. ret (Inr ()))) (\<lambda>t. ret (Inl (AuthressServiceError t)))"

definition addUser :: "access_env \<Rightarrow> str \<Rightarrow> str \<Rightarrow> account_role \<Rightarrow> (app_error + unit) ac" where
  "addUser e accountId userId role = caught (upsertUser e accountId userId role)"

definition updateUserRole :: "access_env \<Rightarrow> str \<Rightarrow> str \<Rightarrow> account_role \<Rightarrow> (app_error + unit) ac" where
  "updateUserRole e accountId userId role = caught (upsertUser e accountId userId role)"

definition removeUser :: "access_env \<Rightarrow> str \<Rightarrow> str \<Rightarrow> (app_error + unit) ac" where
  "removeUser e accountId userId =
     (let rid = recordId accountId
      in caught (bind (getRecord e rid) (\<lambda>existing.
           case existing of
             None \<Rightarrow> ret ()
           | Some x \<Rightarrow>
               (let r = x\<lparr>ar_statements := without_user userId (ar_statements x)\<rparr>
                in bind (sdk (acUpdateRecord e rid r) (\<lambda>x. AcUpdated rid r (worked x))) or_throw))))"

definition listUsers :: "access_env \<Rightarrow> str \<Rightarrow> (app_error + (str \<times> account_role) list) ac" where
  "listUsers e accountId =
     bind (sdk (acGetResourceUsers e (account_uri accountId)) (\<lambda>_. AcUsers accountId)) (\<lambda>r.
       ret (case r of
              SdkOk us \<Rightarrow> Inr (List.map_filter (\<lambda>(u, roles).
                (case roles of [] \<Rightarrow> None | i # _ \<Rightarrow> if i = [] then None else map_option (\<lambda>x. (u, x)) (roleIdToRole i))) us)
            | SdkError st m \<Rightarrow> if st = Some 404 then Inr [] else Inl (AuthressServiceError m)))"

definition listAccountsForUser :: "access_env \<Rightarrow> str \<Rightarrow> (app_error + str list) ac" where
  "listAccountsForUser e userId =
     bind (sdk (acGetUserResources e userId) (\<lambda>_. AcResources userId)) (\<lambda>r.
       ret (case r of
              SdkOk uris \<Rightarrow> Inr (filter (\<lambda>i. i \<noteq> []) (map (\<lambda>u. if starts_with u ''accounts/'' then drop 9 u else u) (nullish uris [])))
            | SdkError st m \<Rightarrow> if st = Some 404 then Inr [] else Inl (AuthressServiceError m)))"

definition getUserProfile :: "access_env \<Rightarrow> str \<Rightarrow> (app_error + str option \<times> str option \<times> str option) ac" where
  "getUserProfile e userId =
     (let opt = (\<lambda>x. if truthy x then x else None)
      in bind (sdk (acGetUser e userId) (\<lambda>_. AcProfile userId)) (\<lambda>r.
           ret (case r of
                  SdkOk (n, m, p) \<Rightarrow> Inr (opt n, opt m, opt p)
                | SdkError st m \<Rightarrow> if st = Some 404 then Inr (None, None, None) else Inl (AuthressServiceError m))))"

definition createInvite :: "access_env \<Rightarrow> str \<Rightarrow> str \<Rightarrow> account_role \<Rightarrow> (app_error + str) ac" where
  "createInvite e accountId email role =
     bind (sdk (acCreateInvite e (ROLE_TO_ID role) (account_uri accountId) (recordId accountId))
            (\<lambda>_. AcInvited (ROLE_TO_ID role) (account_uri accountId) (recordId accountId))) (\<lambda>r.
       ret (case r of SdkOk i \<Rightarrow> Inr i | SdkError _ m \<Rightarrow> Inl (AuthressServiceError m)))"

section \<open>The check before a handler and the guard behind it\<close>

datatype 'r access_response =
    Unauthenticated
  | MissingPermission str str str
  | CheckFailed
  | Thrown str
  | GuardForbidden
  | Handled 'r

text \<open>\<open>authorize(permission, resourceUri)\<close>: the handler runs inside the \<open>try\<close>; what it throws past the
  router is treated as the check's own error.\<close>

definition check_refused :: "str \<Rightarrow> str \<Rightarrow> str \<Rightarrow> nat option \<Rightarrow> 'r access_response" where
  "check_refused userId uri permission st =
     (if st = Some 403 \<or> st = Some 404 then MissingPermission userId permission uri else CheckFailed)"

definition authorize :: "access_env \<Rightarrow> str option \<Rightarrow> str \<Rightarrow> str \<Rightarrow> 'r sdk_answer ac \<Rightarrow> 'r access_response ac" where
  "authorize e userId permission uri handler =
     (if \<not> truthy userId then ret Unauthenticated
      else bind (sdk (acAuthorizeUser e (the userId) uri permission) (\<lambda>x. AcChecked (the userId) uri permission (worked x))) (\<lambda>r.
        case r of
          SdkError st m \<Rightarrow> ret (check_refused (the userId) uri permission st)
        | SdkOk _ \<Rightarrow> bind handler (\<lambda>x. ret (case x of SdkOk y \<Rightarrow> Handled y | SdkError st m \<Rightarrow> check_refused (the userId) uri permission st))))"

definition authorizationGuard :: "bool \<Rightarrow> bool \<Rightarrow> str \<Rightarrow> 'r access_response \<Rightarrow> 'r access_response" where
  "authorizationGuard routeNotFound authorizationVerified verb res =
     (if routeNotFound then res else if authorizationVerified then res
      else if verb = ''OPTIONS'' then res else GuardForbidden)"

text \<open>A registered route: with the middleware, marked as verified by the handler itself, or neither. The
  handler is one call, whose event names the route.\<close>

datatype route_check = Needs str str | MarksItself | Unchecked

definition serve :: "access_env \<Rightarrow> str option \<Rightarrow> str \<Rightarrow> str \<Rightarrow> route_check \<Rightarrow> 'r sdk_call \<Rightarrow> 'r access_response ac" where
  "serve e userId verb path chk h =
     (let handler = sdk h (\<lambda>_. AcHandled path)
      in case chk of
           Needs permission uri \<Rightarrow>
             bind (authorize e userId permission uri handler) (\<lambda>res. ret (authorizationGuard False True verb res))
         | _ \<Rightarrow>
             bind handler (\<lambda>x. ret (authorizationGuard False (chk = MarksItself) verb
               (case x of SdkOk y \<Rightarrow> Handled y | SdkError _ m \<Rightarrow> Thrown m))))"

section \<open>The routes over users\<close>

datatype user_response =
    UErr nat str
  | UUsers "(str \<times> account_role \<times> str option \<times> str option \<times> str option) list"
  | URole str account_role
  | UEmpty nat

definition get_users :: "access_env \<Rightarrow> str \<Rightarrow> user_response ac" where
  "get_users e accountId =
     bind (listUsers e accountId) (\<lambda>r.
       case r of
         Inl _ \<Rightarrow> ret (UErr 503 [])
       | Inr us \<Rightarrow>
           bind (for_map us (\<lambda>(u, role). bind (getUserProfile e u) (\<lambda>p.
                  ret (u, role, (case p of Inl _ \<Rightarrow> (None, None, None) | Inr x \<Rightarrow> x)))))
             (\<lambda>xs. ret (UUsers xs)))"

definition invite_user :: "access_env \<Rightarrow> str \<Rightarrow> str \<Rightarrow> account_role \<Rightarrow> user_response ac" where
  "invite_user e accountId email role =
     (if \<not> acValidEmail e email then ret (UErr 400 ''INVALID_EMAIL'')
      else bind (createInvite e accountId email role) (\<lambda>r.
        case r of
          Inl _ \<Rightarrow> ret (UErr 422 ''INVITE_CREATION_FAILED'')
        | Inr inviteId \<Rightarrow>
            (let inviteUrl = acAppBaseUrl e @ ''/a/registration?inviteId='' @ inviteId
             in bind (call (\<lambda>h. Done (acAccountName e accountId h)) (\<lambda>_. AcAccount accountId)) (\<lambda>acc.
                  case acc of
                    Inl _ \<Rightarrow> ret (UErr 500 [])
                  | Inr name \<Rightarrow>
                      bind (call (\<lambda>h. Done (acSend e email (nullish name accountId) inviteUrl h))
                              (\<lambda>x. AcMailed email inviteUrl (case x of Done (Inr _) \<Rightarrow> True | _ \<Rightarrow> False))) (\<lambda>sent.
                        ret (case sent of
                               Inl (email_error.PermanentSesError _ _ _) \<Rightarrow> UEmpty 201
                             | Inl _ \<Rightarrow> UErr 503 []
                             | Inr _ \<Rightarrow> UEmpty 201))))))"

definition patch_user :: "access_env \<Rightarrow> str \<Rightarrow> str \<Rightarrow> account_role \<Rightarrow> user_response ac" where
  "patch_user e accountId userId role =
     bind (updateUserRole e accountId userId role) (\<lambda>r. ret (case r of Inl _ \<Rightarrow> UErr 503 [] | Inr _ \<Rightarrow> URole userId role))"

definition delete_user :: "access_env \<Rightarrow> str \<Rightarrow> str \<Rightarrow> user_response ac" where
  "delete_user e accountId userId =
     bind (removeUser e accountId userId) (\<lambda>r. ret (case r of Inl _ \<Rightarrow> UErr 503 [] | Inr _ \<Rightarrow> UEmpty 204))"

section \<open>What a record grants\<close>

definition granted :: "access_statement list \<Rightarrow> str \<Rightarrow> (str \<times> str) set" where
  "granted ss u = {(r, x). \<exists>s \<in> set ss. u \<in> set (nullish (as_users s) []) \<and> r \<in> set (as_roles s) \<and> x \<in> set (as_resources s)}"

text \<open>The shape of the records this code writes: one role per statement, on the account\<close>

definition canonical :: "str \<Rightarrow> access_statement list \<Rightarrow> bool" where
  "canonical accountId ss \<longleftrightarrow> (\<forall>s \<in> set ss. \<exists>role. as_roles s = [ROLE_TO_ID role] \<and> as_resources s = [account_uri accountId])"

lemma granted_Nil [simp]: "granted [] u = {}"
  by (simp add: granted_def)

lemma granted_Cons: "granted (s # ss) u =
  (if u \<in> set (nullish (as_users s) []) then set (as_roles s) \<times> set (as_resources s) else {}) \<union> granted ss u"
  by (auto simp: granted_def)

lemma without_user_Cons: "without_user userId (s # ss) =
  (let us = filter (\<lambda>u. u \<noteq> userId) (nullish (as_users s) [])
   in (if us = [] then [] else [s\<lparr>as_users := Some us\<rparr>]) @ without_user userId ss)"
  by (simp add: without_user_def Let_def)

lemma granted_without: "granted (without_user userId ss) u = (if u = userId then {} else granted ss u)"
proof (induction ss)
  case Nil
  then show ?case by (simp add: without_user_def)
next
  case (Cons s ss)
  have "u \<noteq> userId \<Longrightarrow> filter (\<lambda>u. u \<noteq> userId) (nullish (as_users s) []) = [] \<Longrightarrow> u \<notin> set (nullish (as_users s) [])"
    by (auto simp: filter_empty_conv)
  then show ?case using Cons.IH
    by (cases "u = userId") (simp_all add: without_user_Cons Let_def granted_Cons)
qed

lemma granted_with_other:
  assumes "u \<noteq> userId"
  shows "granted (with_user roleId uri userId ss) u = granted ss u"
proof (induction ss)
  case Nil
  with assms show ?case by (simp add: granted_Cons role_statement_def)
next
  case (Cons s ss)
  with assms show ?case by (cases "roleId \<in> set (as_roles s)") (simp_all add: granted_Cons)
qed

lemma canonical_Cons: "canonical a (s # ss) \<longleftrightarrow>
  (\<exists>role. as_roles s = [ROLE_TO_ID role] \<and> as_resources s = [account_uri a]) \<and> canonical a ss"
  by (simp add: canonical_def)

lemma canonical_Nil [simp]: "canonical a []"
  by (simp add: canonical_def)

lemma canonical_without: "canonical a ss \<Longrightarrow> canonical a (without_user userId ss)"
  by (auto simp: canonical_def without_user_def)

lemma canonical_role: "canonical a [role_statement (ROLE_TO_ID role) (account_uri a) u]"
  unfolding canonical_Cons role_statement_def by simp blast

lemma canonical_with:
  "canonical a ss \<Longrightarrow> canonical a (with_user (ROLE_TO_ID role) (account_uri a) userId ss)"
proof (induction ss)
  case Nil
  show ?case by (simp add: canonical_role)
next
  case (Cons s ss)
  then show ?case
    by (cases "ROLE_TO_ID role \<in> set (as_roles s)") (simp_all add: canonical_Cons)
qed

lemma granted_with_self:
  "canonical a ss \<Longrightarrow> granted ss userId = {} \<Longrightarrow>
   granted (with_user (ROLE_TO_ID role) (account_uri a) userId ss) userId = {(ROLE_TO_ID role, account_uri a)}"
proof (induction ss)
  case Nil
  then show ?case by (simp add: granted_Cons role_statement_def)
next
  case (Cons s ss)
  then obtain r where s: "as_roles s = [ROLE_TO_ID r]" "as_resources s = [account_uri a]"
    by (auto simp: canonical_Cons)
  from s Cons.prems(2) have rest: "userId \<notin> set (nullish (as_users s) [])" "granted ss userId = {}"
    by (auto simp: granted_Cons split: if_splits)
  show ?case
  proof (cases "ROLE_TO_ID role \<in> set (as_roles s)")
    case True
    with s rest show ?thesis by (simp add: granted_Cons)
  next
    case False
    with s rest Cons show ?thesis by (simp add: granted_Cons canonical_Cons)
  qed
qed

lemma roleIdToRole_id: "roleIdToRole (ROLE_TO_ID r) = Some r"
  by (cases r) (simp_all add: roleIdToRole_def)

section \<open>What may be written\<close>

text \<open>Setting a role: the record written is made from one that was read, or is new when none was found.
  Nobody else's grants change; the user's grants become exactly this role, and the record keeps its shape,
  when it had it.\<close>

definition role_written :: "str \<Rightarrow> str \<Rightarrow> account_role \<Rightarrow> access_statement list \<Rightarrow> access_statement list \<Rightarrow> bool" where
  "role_written a userId role old new \<longleftrightarrow>
     (\<forall>u. u \<noteq> userId \<longrightarrow> granted new u = granted old u) \<and>
     (canonical a old \<longrightarrow> canonical a new \<and> granted new userId = {(ROLE_TO_ID role, account_uri a)})"

fun role_allowed :: "str \<Rightarrow> str \<Rightarrow> account_role \<Rightarrow> access_event list \<Rightarrow> access_event \<Rightarrow> bool" where
  "role_allowed a u role seen (AcRead rid _) \<longleftrightarrow> rid = recordId a"
| "role_allowed a u role seen (AcCreated rid new ok) \<longleftrightarrow>
     rid = recordId a \<and> ar_recordId new = rid \<and> AcRead rid (Some None) \<in> set seen \<and> role_written a u role [] (ar_statements new)"
| "role_allowed a u role seen (AcUpdated rid new ok) \<longleftrightarrow>
     rid = recordId a \<and> (\<exists>old. AcRead rid (Some (Some old)) \<in> set seen \<and> role_written a u role (ar_statements old) (ar_statements new))"
| "role_allowed a u role seen _ \<longleftrightarrow> False"

fun removal_allowed :: "str \<Rightarrow> str \<Rightarrow> access_event list \<Rightarrow> access_event \<Rightarrow> bool" where
  "removal_allowed a u seen (AcRead rid _) \<longleftrightarrow> rid = recordId a"
| "removal_allowed a u seen (AcUpdated rid new ok) \<longleftrightarrow>
     rid = recordId a \<and> (\<exists>old. AcRead rid (Some (Some old)) \<in> set seen \<and> granted (ar_statements new) u = {} \<and>
       (\<forall>v. v \<noteq> u \<longrightarrow> granted (ar_statements new) v = granted (ar_statements old) v))"
| "removal_allowed a u seen _ \<longleftrightarrow> False"

lemma role_written_new: "role_written a u role [] [role_statement (ROLE_TO_ID role) (account_uri a) u]"
  by (simp add: role_written_def granted_Cons role_statement_def
    canonical_role [unfolded role_statement_def])

lemma role_written_upsert:
  "role_written a u role ss (with_user (ROLE_TO_ID role) (account_uri a) u (without_user u ss))"
  by (simp add: role_written_def granted_with_other granted_without canonical_with canonical_without granted_with_self)

lemma spec_sdk: "spec (sdk svc ev) (\<lambda>r es. \<exists>x. r = Done x \<and> es = [ev x])"
  by (simp add: sdk_def spec_def call_def)

lemma safe_sdk:
  assumes "\<And>x. A seen (ev x)" "\<And>x. safe A (seen @ [ev x]) (k x)"
  shows "safe A seen (bind (sdk svc ev) k)"
  by (rule safe_bind_spec [where Q = "\<lambda>r es. \<exists>x. r = Done x \<and> es = [ev x]"])
     (use assms in \<open>auto intro!: spec_mono [OF spec_sdk]\<close>)

lemma safe_getRecord:
  assumes "\<And>x. A seen (AcRead rid x)"
    and "safe A (seen @ [AcRead rid (Some None)]) (k None)"
    and "\<And>x. safe A (seen @ [AcRead rid (Some (Some x))]) (k (Some x))"
  shows "safe A seen (bind (getRecord e rid) k)"
  unfolding getRecord_def bind_assoc
proof (rule safe_sdk)
  show "A seen (read_event rid x)" for x using assms(1) by (simp add: read_event_def)
  show "safe A (seen @ [read_event rid x]) (bind (case x of SdkOk y \<Rightarrow> ret (Some y)
      | SdkError st m \<Rightarrow> if st = Some 404 then ret None else throw m) k)" for x
    using assms(2,3) by (cases x) (auto simp: read_event_def)
qed

lemma safe_or_throw: "safe A seen (or_throw r)"
  by (cases r) (simp_all add: or_throw_def)

lemma safe_try: "safe A seen m \<Longrightarrow> safe A seen (try_catch m (\<lambda>t. ret (f t)))"
  unfolding safe_def by (erule spec_try_catch) (auto intro: spec_ret)

lemma safe_caught: "safe A seen m \<Longrightarrow> safe A seen (caught m)"
  unfolding caught_def by (intro safe_try safe_then) auto

text \<open>
  C19. Roles of users. Whatever the authorization service answers, giving a user a role writes only the
  record of this account, made from the record it read (or a new one if there is none); no other user's
  grants change, and in a record of this code's shape the user then has exactly that role on the account and
  nothing else, and the shape is kept. Removing a user leaves the user no grant in the record and changes no
  other user's. This is about the users a statement names: a statement that grants to groups only is dropped
  by either (finding authress-access.ts:229).
\<close>

theorem access_writes_exact:
  "safe (role_allowed a u role) [] (updateUserRole e a u role) \<and> safe (role_allowed a u role) [] (addUser e a u role) \<and>
   safe (removal_allowed a u) [] (removeUser e a u)"
proof -
  have "safe (role_allowed a u role) [] (upsertUser e a u role)"
    unfolding upsertUser_def Let_def
    by (intro safe_getRecord safe_intros safe_sdk safe_or_throw)
       (auto simp: role_written_new role_written_upsert)
  moreover have "safe (removal_allowed a u) [] (removeUser e a u)"
    unfolding removeUser_def Let_def
    by (intro safe_caught safe_getRecord safe_intros safe_sdk safe_or_throw) (auto simp: granted_without)
  ultimately show ?thesis by (simp add: updateUserRole_def addUser_def safe_caught)
qed

text \<open>What a served request may do: behind the middleware, the handler runs only after the service allowed
  this user this permission on this resource, and its answer is delivered only then. A route with neither
  middleware nor mark runs its handler, but only a preflight gets its answer.\<close>

definition serve_ok :: "str option \<Rightarrow> str \<Rightarrow> route_check \<Rightarrow> 'r access_response outcome \<Rightarrow> access_event list \<Rightarrow> bool" where
  "serve_ok userId verb chk r es \<longleftrightarrow>
     (case chk of
        Needs permission uri \<Rightarrow>
          es = [] \<and> r = Done Unauthenticated \<and> \<not> truthy userId \<or>
          (\<exists>x. es = [AcChecked (the userId) uri permission False] \<and> r = Done x \<and> (x = CheckFailed \<or> x = MissingPermission (the userId) permission uri)) \<or>
          truthy userId \<and> (\<exists>path. es = [AcChecked (the userId) uri permission True, AcHandled path])
      | MarksItself \<Rightarrow> \<exists>path. es = [AcHandled path]
      | Unchecked \<Rightarrow> (\<exists>path. es = [AcHandled path]) \<and> (verb = ''OPTIONS'' \<or> r = Done GuardForbidden))"

text \<open>
  C20. Permissions. Behind the authorization middleware the handler of a route runs only after the
  authorization service allowed the signed-in user this permission on this resource; a request without a
  user, a refusal, an unknown user and a failure of the service never reach it. The answer of a route that
  has no check is withheld from everything but a preflight.
\<close>

theorem handler_needs_permission: "spec (serve e userId verb path chk h) (serve_ok userId verb chk)"
  by (cases chk)
     (auto simp: spec_def serve_def authorize_def sdk_def call_def bind_def ret_def serve_ok_def check_refused_def
        authorizationGuard_def worked_def truthy_def split: sdk_answer.splits option.splits)

end
