(* ===== verification/Digest.thy ===== *)
theory Digest
  imports ThreadsApi Embed MailBody ReplySend
begin

text \<open>
  The digest mail: who gets one today (\<open>digest/digest-frequency-filter.ts\<close>, \<open>digest-dispatcher.ts\<close>), the mail
  itself (\<open>digest-worker.ts\<close>) and the cards in it (\<open>digest-data-mapper.ts\<close>). A day is what luxon says of it;
  the template renderer, number and date formats are parameters. Log lines are left out.
\<close>

section \<open>Frequency\<close>

record day_info =
  di_weekday :: nat
  di_day :: nat
  di_weekNumber :: nat
  di_weekdayLong :: str
  di_monthLong :: str
  di_isoDate :: str

definition shouldDispatchDigest :: "str \<Rightarrow> day_info \<Rightarrow> bool" where
  "shouldDispatchDigest f d \<longleftrightarrow> f = ''daily'' \<or> f = ''weekly'' \<and> di_weekday d = 7 \<or> f = ''monthly'' \<and> di_day d = 1"

definition buildDigestSubject :: "str \<Rightarrow> day_info \<Rightarrow> str" where
  "buildDigestSubject f d =
     (if f = ''daily'' then ''Daily Numaeel Digest for '' @ di_weekdayLong d
      else if f = ''weekly'' then ''Weekly Numaeel Digest for Week '' @ show_nat (di_weekNumber d)
      else if f = ''monthly'' then ''Monthly Numaeel Digest for '' @ di_monthLong d else [])"

record digest_config =
  dc_frequency :: str
  dc_forwardingTargetId :: str

record forward_to =
  fw_target :: str
  fw_verified :: bool

section \<open>Cards\<close>

definition middle_dot :: str where "middle_dot = [CHR '' '', CHR 0xC2, CHR 0xB7, CHR '' '']"
definition right_arrow :: str where "right_arrow = [CHR '' '', CHR 0xE2, CHR 0x86, CHR 0x92, CHR '' '']"

text \<open>What \<open>join\<close> writes for a field: a missing one is empty.\<close>

definition part :: "jobj \<Rightarrow> str \<Rightarrow> str" where
  "part d k = nullish (jstr d k) []"

definition part_if :: "jobj \<Rightarrow> str \<Rightarrow> str \<Rightarrow> str list" where
  "part_if d pre k = (if part d k \<noteq> [] then [pre @ part d k] else [])"

definition labelled :: "(str \<times> str) list \<Rightarrow> jobj \<Rightarrow> str \<Rightarrow> str" where
  "labelled table d k = nullish (map_of table (part d k)) (part d k)"

definition WORKFLOW_LABEL :: "(str \<times> str) list" where
  "WORKFLOW_LABEL =
     [(''auth'', ''Authentication''), (''conversation'', ''Conversation''), (''crm'', ''CRM''), (''package'', ''Package''),
      (''travel'', ''Travel''), (''payments'', ''Payments''), (''alert'', ''Alert''), (''content'', ''Content''),
      (''onboarding'', ''Onboarding''), (''notice'', ''Notice''), (''status'', ''Status''), (''healthcare'', ''Healthcare''),
      (''job'', ''Job''), (''support'', ''Support''), (''events'', ''Events''), (''test'', ''Test'')]"

definition auth_labels :: "(str \<times> str) list" where
  "auth_labels = [(''verification'', ''Verification code''), (''password_reset'', ''Password reset''),
     (''two_factor'', ''2FA code''), (''security_alert'', ''Security alert'')]"

definition package_labels :: "(str \<times> str) list" where
  "package_labels = [(''confirmation'', ''Order confirmed''), (''shipping'', ''Shipped''),
     (''out_for_delivery'', ''Out for delivery''), (''delivered'', ''Delivered''), (''return'', ''Return requested''),
     (''refund'', ''Refund issued''), (''cancellation'', ''Order cancelled'')]"

definition travel_labels :: "(str \<times> str) list" where
  "travel_labels = [(''flight'', ''Flight''), (''hotel'', ''Hotel''), (''car_rental'', ''Car rental''), (''train'', ''Train''),
     (''cruise'', ''Cruise''), (''activity'', ''Activity''), (''itinerary'', ''Itinerary''),
     (''check_in_reminder'', ''Check-in''), (''boarding_pass'', ''Boarding pass'')]"

definition payment_labels :: "(str \<times> str) list" where
  "payment_labels = [(''invoice'', ''Invoice''), (''receipt'', ''Receipt''), (''subscription_renewal'', ''Subscription renewal''),
     (''payment_failed'', ''Payment failed''), (''plan_changed'', ''Plan changed''), (''tax'', ''Tax document''),
     (''wire_transfer'', ''Wire transfer''), (''refund'', ''Refund''), (''statement'', ''Statement'')]"

definition content_labels :: "(str \<times> str) list" where
  "content_labels = [(''newsletter'', ''Newsletter''), (''promotion'', ''Promotion''), (''social_digest'', ''Social digest''),
     (''product_update'', ''Product update''), (''announcement'', ''Announcement'')]"

definition health_labels :: "(str \<times> str) list" where
  "health_labels = [(''appointment_reminder'', ''Appointment reminder''), (''appointment_confirmation'', ''Appointment confirmed''),
     (''test_results'', ''Test results''), (''prescription'', ''Prescription''), (''insurance_update'', ''Insurance update''),
     (''billing'', ''Billing''), (''referral'', ''Referral'')]"

definition job_labels :: "(str \<times> str) list" where
  "job_labels = [(''application_status'', ''Application update''), (''recruiter_outreach'', ''Recruiter outreach''),
     (''interview_request'', ''Interview request''), (''offer'', ''Offer''), (''rejection'', ''Rejection''),
     (''job_posting'', ''Job posting'')]"

definition support_labels :: "(str \<times> str) list" where
  "support_labels = [(''ticket_opened'', ''Opened''), (''ticket_updated'', ''Updated''), (''ticket_resolved'', ''Resolved''),
     (''ticket_closed'', ''Closed''), (''awaiting_response'', ''Awaiting response''), (''status_update'', ''Status update'')]"

text \<open>\<open>number\<close> reads a finite amount and \<open>money\<close> formats it in a currency, or throws (\<open>None\<close>).\<close>

definition amount_part :: "(str \<Rightarrow> 'n option) \<Rightarrow> (str \<Rightarrow> 'n \<Rightarrow> str option) \<Rightarrow> jobj \<Rightarrow> str list" where
  "amount_part number money d =
     (if part d ''amount'' = [] then []
      else case number (part d ''amount'') of
             None \<Rightarrow> []
           | Some n \<Rightarrow>
               [nullish (money (nullish (jstr d ''currency'') ''USD'') n)
                  (part d ''amount'' @ '' '' @ part d ''currency'')])"

definition buildWorkflowDetail ::
  "(str \<Rightarrow> 'n option) \<Rightarrow> (str \<Rightarrow> 'n \<Rightarrow> str option) \<Rightarrow> str \<Rightarrow> jobj \<Rightarrow> str" where
  "buildWorkflowDetail number money workflow d =
     (if part d ''workflow'' \<noteq> workflow then []
      else if workflow = ''conversation'' then (if json_truthy (jfield d ''requiresReply'') then ''Reply needed'' else [])
      else join_with middle_dot
        (if workflow = ''auth'' then [part d ''service'', labelled auth_labels d ''authType''] @ part_if d ''Code: '' ''code''
         else if workflow = ''crm'' then part_if d [] ''senderCompany'' @ part_if d [] ''senderRole''
         else if workflow = ''package''
         then [part d ''retailer'', labelled package_labels d ''packageType''] @ part_if d ''#'' ''trackingNumber''
         else if workflow = ''travel''
         then [part d ''provider'', labelled travel_labels d ''travelType''] @
              (if part d ''origin'' \<noteq> [] \<and> part d ''destination'' \<noteq> []
               then [part d ''origin'' @ right_arrow @ part d ''destination''] else []) @
              part_if d [] ''confirmationNumber''
         else if workflow = ''payments''
         then [part d ''vendor'', labelled payment_labels d ''paymentType''] @ amount_part number money d @ part_if d [] ''invoiceNumber''
         else if workflow = ''content'' then [part d ''publisher'', labelled content_labels d ''contentType'']
         else if workflow = ''healthcare'' then part_if d [] ''provider'' @ [labelled health_labels d ''eventType'']
         else if workflow = ''job''
         then part_if d [] ''company'' @ part_if d [] ''role'' @ [labelled job_labels d ''jobType'']
         else if workflow = ''support''
         then [part d ''service'', labelled support_labels d ''eventType''] @ part_if d ''#'' ''ticketId''
         else if workflow = ''events''
         then [part d ''eventName''] @ part_if d [] ''venueName'' @ part_if d [] ''ticketReference''
         else []))"

text \<open>\<open>millis\<close> is \<open>None\<close> for an invalid date, where every comparison fails.\<close>

definition formatRelativeTime :: "(str \<Rightarrow> int option) \<Rightarrow> (str \<Rightarrow> str) \<Rightarrow> int \<Rightarrow> str \<Rightarrow> str" where
  "formatRelativeTime millis localeDate now at =
     (case millis at of
        None \<Rightarrow> localeDate at
      | Some t \<Rightarrow>
          (let diffMs = now - t; diffMins = diffMs div 60000; diffHours = diffMs div 3600000; diffDays = diffMs div 86400000
           in if diffMins < 1 then ''just now''
              else if diffMins < 60 then show_int diffMins @ ''m ago''
              else if diffHours < 24 then show_int diffHours @ ''h ago''
              else if diffDays = 1 then ''Yesterday''
              else if diffDays < 7 then show_int diffDays @ ''d ago'' else localeDate at))"

definition urgencyDisplay :: "str \<times> str \<Rightarrow> str \<Rightarrow> str \<times> str" where
  "urgencyDisplay theme urgency =
     (if urgency = ''critical'' then (fst theme, ''Critical'') else if urgency = ''high'' then (snd theme, ''High'') else ([], []))"

record digest_card =
  dk_threadUrl :: str
  dk_senderName :: str
  dk_senderAddress :: str
  dk_timestamp :: str
  dk_subject :: str
  dk_summary :: str
  dk_workflowEmoji :: str
  dk_workflowLabel :: str
  dk_urgency :: str
  dk_urgencyColor :: str
  dk_urgencyLabel :: str
  dk_labels :: str
  dk_workflowDetail :: str
  dk_lastSignalFrom :: str
  dk_lastSignalReceivedAt :: str

text \<open>The environment of the mapper: the theme (error and warning colour), the emoji table and the formats\<close>

record 'n card_env =
  kAppBaseUrl :: str
  kTheme :: "str \<times> str"
  kEmoji :: "str \<Rightarrow> str"
  kMillis :: "str \<Rightarrow> int option"
  kLocaleDate :: "str \<Rightarrow> str"
  kNumber :: "str \<Rightarrow> 'n option"
  kMoney :: "str \<Rightarrow> 'n \<Rightarrow> str option"

definition mapThreadToCard :: "'n card_env \<Rightarrow> int \<Rightarrow> thread \<Rightarrow> any_signal option \<Rightarrow> digest_card" where
  "mapThreadToCard k now t latestSignal =
     (let mail = Option.bind latestSignal mail_of;
          senderName = nullish (ea_name (th_sender t)) [];
          senderAddress = ea_address (th_sender t);
          urgency = nullish (th_urgency t) ''normal'';
          detail = (case mail of
                      Some (Inbound ib) \<Rightarrow> buildWorkflowDetail (kNumber k) (kMoney k) (th_workflow t) (ib_workflowData ib)
                    | _ \<Rightarrow> [])
      in \<lparr>dk_threadUrl = kAppBaseUrl k @ ''/a/thread/'' @ th_id t, dk_senderName = senderName, dk_senderAddress = senderAddress,
          dk_timestamp = formatRelativeTime (kMillis k) (kLocaleDate k) now (th_lastSignalAt t),
          dk_subject = (if th_subject t \<noteq> [] then th_subject t else th_summary t), dk_summary = th_summary t,
          dk_workflowEmoji = kEmoji k (th_workflow t),
          dk_workflowLabel = nullish (map_of WORKFLOW_LABEL (th_workflow t)) (th_workflow t),
          dk_urgency = (if urgency = ''critical'' \<or> urgency = ''high'' then urgency else []),
          dk_urgencyColor = fst (urgencyDisplay (kTheme k) urgency), dk_urgencyLabel = snd (urgencyDisplay (kTheme k) urgency),
          dk_labels = join_with '', '' (filter (\<lambda>l. \<not> starts_with l ''_'') (th_labels t)),
          dk_workflowDetail = detail,
          dk_lastSignalFrom = (case mail of
              Some ed \<Rightarrow> nullish (ea_name (eb_from (base_of ed))) (ea_address (eb_from (base_of ed)))
            | None \<Rightarrow> if senderName \<noteq> [] then senderName else senderAddress),
          dk_lastSignalReceivedAt = (case mail of Some ed \<Rightarrow> eb_receivedAt (base_of ed) | None \<Rightarrow> th_lastSignalAt t)\<rparr>)"

section \<open>Services\<close>

datatype digest_event =
    DgMetas "(str \<times> digest_config option) list option"
  | DgQueued "str list" bool
  | DgAccount str "digest_config option option option"
  | DgTarget str str "forward_to option option"
  | DgThreads str "thread list option"
  | DgQuarantined str "signal_status list option"
  | DgLatest str str
  | DgClock
  | DgToken str
  | DgRendered
  | DgDomains str "domain_rec list option"
  | DgSent email_send_options bool

type_synonym 'a dg = "(digest_event, 'a) prog"
type_synonym 'a dg_service = "digest_event list \<Rightarrow> (app_error + 'a) outcome"

datatype digest_error = DgDb app_error | DgMail email_error

text \<open>An account is \<open>None\<close> when there is none, and its digest setting \<open>None\<close> when it has none.\<close>

record 'n digest_env =
  dgMetas :: "(str \<times> digest_config option) list dg_service"
  dgQueue :: "str list \<Rightarrow> unit dg_service"
  dgAccount :: "str \<Rightarrow> digest_config option option dg_service"
  dgTarget :: "str \<Rightarrow> str \<Rightarrow> forward_to option dg_service"
  dgThreads :: "str \<Rightarrow> nat \<Rightarrow> thread list dg_service"
  dgQuarantined :: "str \<Rightarrow> nat \<Rightarrow> signal_status list dg_service"
  dgLatest :: "str \<Rightarrow> str \<Rightarrow> any_signal option dg_service"
  dgNow :: "digest_event list \<Rightarrow> int"
  dgToken :: "str \<Rightarrow> digest_event list \<Rightarrow> str outcome"
  dgRender :: "digest_card list \<Rightarrow> nat \<Rightarrow> str \<Rightarrow> str \<Rightarrow> digest_event list \<Rightarrow> str outcome"
  dgDomains :: "str \<Rightarrow> domain_rec list dg_service"
  dgSend :: "email_send_options \<Rightarrow> digest_event list \<Rightarrow> (email_error + str) outcome"
  dgCards :: "'n card_env"
  dgMailDomain :: str
  dgApiDomain :: str
  dgPlatformTenant :: str
  dgInvocationId :: str

section \<open>Dispatch\<close>

text \<open>The code's only size is 10; with 0 its loop would not end, and the model gives no chunk.\<close>

function chunk :: "nat \<Rightarrow> 'a list \<Rightarrow> 'a list list" where
  "chunk n xs = (if xs = [] \<or> n = 0 then [] else take n xs # chunk n (drop n xs))"
  by pat_completeness auto
termination by (relation "measure (\<lambda>(n, xs). length xs)") auto

declare chunk.simps [simp del]

definition qualifying :: "day_info \<Rightarrow> (str \<times> digest_config option) list \<Rightarrow> str list" where
  "qualifying today metas =
     List.map_filter (\<lambda>(a, c). case c of None \<Rightarrow> None | Some c \<Rightarrow> if shouldDispatchDigest (dc_frequency c) today then Some a else None) metas"

definition queue_batch :: "'n digest_env \<Rightarrow> unit \<Rightarrow> str list \<Rightarrow> (app_error + unit) dg" where
  "queue_batch e u batch = call (dgQueue e batch) (\<lambda>r. DgQueued batch (answered r \<noteq> None))"

definition dispatch_digests :: "'n digest_env \<Rightarrow> day_info \<Rightarrow> (app_error + unit) dg" where
  "dispatch_digests e today =
     bind_ok (\<lambda>x. x) (call (dgMetas e) (\<lambda>r. DgMetas (answered r))) (\<lambda>metas.
       for_ok (chunk 10 (qualifying today metas)) (queue_batch e) ())"

section \<open>The mail\<close>

definition buildEmailTags :: "str \<Rightarrow> str \<Rightarrow> str \<Rightarrow> str \<Rightarrow> tag_list" where
  "buildEmailTags accountId fullDate invocationId triggerId =
     [(sanitizeTagName ''X-Numaeel-AccountId'', sanitizeTagValue accountId), (sanitizeTagName ''X-Numaeel-FullDate'', sanitizeTagValue fullDate),
      (sanitizeTagName ''X-Numaeel-InvocationId'', sanitizeTagValue invocationId), (sanitizeTagName ''X-Numaeel-TriggerId'', sanitizeTagValue triggerId)]"

definition buildUnsubscribeHeaders :: "str \<Rightarrow> str \<Rightarrow> str \<Rightarrow> tag_list" where
  "buildUnsubscribeHeaders accountId apiDomain jwt =
     [(''List-Unsubscribe'', ''<https://'' @ apiDomain @ ''/accounts/'' @ accountId @ ''/unsubscribe?code='' @ jwt @ ''>''),
      (''List-Unsubscribe-Post'', ''List-Unsubscribe=One-Click'')]"

definition digest_text :: "str \<Rightarrow> str \<Rightarrow> nat \<Rightarrow> nat \<Rightarrow> str" where
  "digest_text base frequency threads quarantined =
     ''Your '' @ frequency @ '' Numaeel digest is ready. '' @ show_nat threads @ '' active conversations.'' @
     (if quarantined > 0 then '' '' @ show_nat quarantined @ '' emails awaiting review in quarantine.'' else []) @
     '' View your dashboard: '' @ base @ ''/a/''"

text \<open>The customer's own domain, once it may send\<close>

definition own_sender_domain :: "domain_rec list option \<Rightarrow> domain_rec option" where
  "own_sender_domain ds = Option.bind ds (List.find (\<lambda>d. do_senderSetupComplete d \<and> \<not> do_deleted d))"

definition digest_mail :: "'n digest_env \<Rightarrow> day_info \<Rightarrow> str \<Rightarrow> digest_config \<Rightarrow> forward_to \<Rightarrow> nat \<Rightarrow> nat \<Rightarrow> str \<Rightarrow> str \<Rightarrow>
    domain_rec list option \<Rightarrow> email_send_options" where
  "digest_mail e today a c t threads quarantined code html ds =
     \<lparr>eo_to = [fw_target t], eo_cc = [], eo_bcc = [], eo_subject = buildDigestSubject (dc_frequency c) today,
      eo_textBody = digest_text (kAppBaseUrl (dgCards e)) (dc_frequency c) threads quarantined, eo_htmlBody = Some html,
      eo_sendType = StDigest, eo_headers = buildUnsubscribeHeaders a (dgApiDomain e) code,
      eo_tags = buildEmailTags a (di_isoDate today) (dgInvocationId e) (''digest-'' @ a @ ''-'' @ di_isoDate today),
      eo_fromSender = Some (platformFromAddress PaDigest
        (case own_sender_domain ds of Some d \<Rightarrow> do_domain d | None \<Rightarrow> dgMailDomain e)),
      eo_accountId = (case own_sender_domain ds of Some d \<Rightarrow> a | None \<Rightarrow> dgPlatformTenant e)\<rparr>"

definition after_digest :: "email_error + str \<Rightarrow> digest_error + unit" where
  "after_digest r =
     (case r of
        Inr _ \<Rightarrow> Inr ()
      | Inl (email_error.PermanentSesError _ _ _) \<Rightarrow> Inr ()
      | Inl x \<Rightarrow> Inl (DgMail x))"

definition dg_get :: "'a dg_service \<Rightarrow> ('a option \<Rightarrow> digest_event) \<Rightarrow> ('a \<Rightarrow> (digest_error + unit) dg) \<Rightarrow> (digest_error + unit) dg" where
  "dg_get svc ev k = bind_ok DgDb (call svc (\<lambda>r. ev (answered r))) k"

definition card_for :: "'n digest_env \<Rightarrow> str \<Rightarrow> thread \<Rightarrow> digest_card dg" where
  "card_for e a t =
     bind (call (dgLatest e a (th_id t)) (\<lambda>_. DgLatest a (th_id t))) (\<lambda>r.
     bind (call (\<lambda>h. Done (dgNow e h)) (\<lambda>_. DgClock)) (\<lambda>now.
       ret (mapThreadToCard (dgCards e) now t (case r of Inl _ \<Rightarrow> None | Inr s \<Rightarrow> s))))"

definition mail_digest :: "'n digest_env \<Rightarrow> day_info \<Rightarrow> str \<Rightarrow> digest_config \<Rightarrow> forward_to \<Rightarrow> thread list \<Rightarrow> nat \<Rightarrow> (digest_error + unit) dg" where
  "mail_digest e today a c t threads quarantined =
     bind (for_map threads (card_for e a)) (\<lambda>cards.
     bind (call (dgToken e a) (\<lambda>_. DgToken a)) (\<lambda>code.
     bind (call (dgRender e cards quarantined code (buildDigestSubject (dc_frequency c) today)) (\<lambda>_. DgRendered)) (\<lambda>html.
     bind (call (dgDomains e a) (\<lambda>r. DgDomains a (answered r))) (\<lambda>r.
     let ds = (case r of Inl _ \<Rightarrow> None | Inr xs \<Rightarrow> Some xs);
         m = digest_mail e today a c t (length threads) quarantined code html ds
     in bind (call (dgSend e m) (\<lambda>x. DgSent m (case x of Done (Inr _) \<Rightarrow> True | _ \<Rightarrow> False))) (\<lambda>sent. ret (after_digest sent))))))"

definition process_digest :: "'n digest_env \<Rightarrow> day_info \<Rightarrow> str \<Rightarrow> (digest_error + unit) dg" where
  "process_digest e today a =
     dg_get (dgAccount e a) (DgAccount a) (\<lambda>acc.
       case Option.bind acc (\<lambda>x. x) of
         None \<Rightarrow> ret (Inr ())
       | Some c \<Rightarrow>
           if \<not> shouldDispatchDigest (dc_frequency c) today then ret (Inr ())
           else dg_get (dgTarget e a (dc_forwardingTargetId c)) (DgTarget a (dc_forwardingTargetId c)) (\<lambda>target.
             case target of
               None \<Rightarrow> ret (Inr ())
             | Some t \<Rightarrow>
                 if \<not> fw_verified t then ret (Inr ())
                 else dg_get (dgThreads e a 100) (DgThreads a) (\<lambda>threads.
                   dg_get (dgQuarantined e a 100) (DgQuarantined a) (\<lambda>items.
                     let quarantined = length (filter (\<lambda>s. s = SQuarantineVisible) items)
                     in if threads = [] \<and> quarantined = 0 then ret (Inr ())
                        else mail_digest e today a c t threads quarantined))))"

section \<open>What may be sent\<close>

text \<open>A digest: on a day of its frequency, to the verified target of the account's setting, with something to
  report, once, and from the customer's own domain only if that domain may send.\<close>

definition digest_due :: "day_info \<Rightarrow> str \<Rightarrow> digest_event list \<Rightarrow> email_send_options \<Rightarrow> bool" where
  "digest_due today a seen m \<longleftrightarrow>
     (\<exists>c t. DgAccount a (Some (Some (Some c))) \<in> set seen \<and> shouldDispatchDigest (dc_frequency c) today \<and>
       DgTarget a (dc_forwardingTargetId c) (Some (Some t)) \<in> set seen \<and> fw_verified t \<and>
       eo_to m = [fw_target t] \<and> eo_cc m = [] \<and> eo_bcc m = [])"

definition digest_worth :: "str \<Rightarrow> digest_event list \<Rightarrow> bool" where
  "digest_worth a seen \<longleftrightarrow>
     (\<exists>ts qs. DgThreads a (Some ts) \<in> set seen \<and> DgQuarantined a (Some qs) \<in> set seen \<and>
       (ts \<noteq> [] \<or> SQuarantineVisible \<in> set qs))"

definition digest_sender :: "'n digest_env \<Rightarrow> str \<Rightarrow> digest_event list \<Rightarrow> email_send_options \<Rightarrow> bool" where
  "digest_sender e a seen m \<longleftrightarrow>
     eo_accountId m = dgPlatformTenant e \<and> eo_fromSender m = Some (platformFromAddress PaDigest (dgMailDomain e)) \<or>
     (\<exists>ds. \<exists>d \<in> set ds. DgDomains a (Some ds) \<in> set seen \<and> do_senderSetupComplete d \<and> \<not> do_deleted d \<and>
       eo_accountId m = a \<and> eo_fromSender m = Some (platformFromAddress PaDigest (do_domain d)))"

fun digest_allowed :: "'n digest_env \<Rightarrow> day_info \<Rightarrow> str \<Rightarrow> digest_event list \<Rightarrow> digest_event \<Rightarrow> bool" where
  "digest_allowed e today a seen (DgSent m ok) \<longleftrightarrow>
     digest_due today a seen m \<and> digest_worth a seen \<and> digest_sender e a seen m \<and> (\<forall>m' b. DgSent m' b \<notin> set seen)"
| "digest_allowed e today a seen (DgMetas _) \<longleftrightarrow> False"
| "digest_allowed e today a seen (DgQueued _ _) \<longleftrightarrow> False"
| "digest_allowed e today a seen _ \<longleftrightarrow> True"

definition no_mail :: "digest_event list \<Rightarrow> bool" where
  "no_mail seen \<longleftrightarrow> (\<forall>m b. DgSent m b \<notin> set seen)"

lemma safe_dg_get:
  assumes "\<And>x. A seen (ev x)" "\<And>x. safe A (seen @ [ev (Some x)]) (k x)"
  shows "safe A seen (dg_get svc ev k)"
  unfolding dg_get_def bind_ok_def by (rule safe_event) (use assms in \<open>auto split: sum.split\<close>)

definition looks_up :: "str \<Rightarrow> digest_event \<Rightarrow> bool" where
  "looks_up a ev \<longleftrightarrow> ev = DgClock \<or> (\<exists>i. ev = DgLatest a i)"

lemma cards_look_up: "spec (for_map ts (card_for e a)) (\<lambda>r es. \<forall>ev \<in> set es. looks_up a ev)"
  unfolding emits_def [symmetric]
  by (intro emits_for_map) (auto simp: card_for_def looks_up_def intro!: trace_intros)

lemma guarded_all: "\<forall>ev \<in> set es. \<forall>before. A before ev \<Longrightarrow> guarded A seen es"
  by (induction es arbitrary: seen) auto

lemma digest_due_more: "digest_due today a seen m \<Longrightarrow> digest_due today a (seen @ es) m"
  by (auto simp: digest_due_def)

lemma digest_worth_more: "digest_worth a seen \<Longrightarrow> digest_worth a (seen @ es)"
  by (auto simp: digest_worth_def)

lemma digest_mail_sender:
  assumes "ds \<noteq> None \<Longrightarrow> DgDomains a ds \<in> set seen"
  shows "digest_sender e a seen (digest_mail e today a c t n q code html ds)"
proof (cases "own_sender_domain ds")
  case None
  then show ?thesis by (simp add: digest_sender_def digest_mail_def)
next
  case (Some d)
  then obtain xs where "ds = Some xs" "d \<in> set xs" "do_senderSetupComplete d" "\<not> do_deleted d"
    by (auto simp: own_sender_domain_def Option.bind_eq_Some_conv find_Some_iff)
  with assms Some show ?thesis by (auto simp: digest_sender_def digest_mail_def)
qed

lemma safe_mail_digest:
  assumes "DgAccount a (Some (Some (Some c))) \<in> set seen" "shouldDispatchDigest (dc_frequency c) today"
    and "DgTarget a (dc_forwardingTargetId c) (Some (Some t)) \<in> set seen" "fw_verified t"
    and worth: "digest_worth a seen" and fresh: "no_mail seen"
  shows "safe (digest_allowed e today a) seen (mail_digest e today a c t ts q)"
  unfolding mail_digest_def Let_def
proof (rule safe_bind_spec [where Q = "\<lambda>r es. \<forall>ev \<in> set es. looks_up a ev"])
  show "spec (for_map ts (card_for e a)) (\<lambda>r es. guarded (digest_allowed e today a) seen es \<and> (\<forall>ev\<in>set es. looks_up a ev))"
    by (rule spec_mono [OF cards_look_up]) (auto simp: looks_up_def intro!: guarded_all)
next
  fix cards es
  assume es: "\<forall>ev \<in> set es. looks_up a ev"
  have due: "digest_due today a seen (digest_mail e today a c t n q code html ds)" for n code html ds
    using assms(1-4) by (auto simp: digest_due_def digest_mail_def)
  have fresh': "no_mail (seen @ es)"
    using fresh es by (auto simp: no_mail_def looks_up_def)
  show "safe (digest_allowed e today a) (seen @ es)
    (bind (call (dgToken e a) (\<lambda>_. DgToken a)) (\<lambda>code.
     bind (call (dgRender e cards q code (buildDigestSubject (dc_frequency c) today)) (\<lambda>_. DgRendered)) (\<lambda>html.
     bind (call (dgDomains e a) (\<lambda>r. DgDomains a (answered r))) (\<lambda>r.
     bind (call (dgSend e (digest_mail e today a c t (length ts) q code html (case r of Inl _ \<Rightarrow> None | Inr xs \<Rightarrow> Some xs)))
        (\<lambda>x. DgSent (digest_mail e today a c t (length ts) q code html (case r of Inl _ \<Rightarrow> None | Inr xs \<Rightarrow> Some xs))
           (case x of Done (Inr _) \<Rightarrow> True | _ \<Rightarrow> False)))
        (\<lambda>sent. ret (after_digest sent))))))"
    by (intro safe_event safe_return)
       (use fresh' in \<open>auto simp: no_mail_def due digest_due_more digest_worth_more worth split: sum.split intro!: digest_mail_sender\<close>)
qed

text \<open>
  C21. Who gets a digest. Processing a digest message sends at most one mail, to the verified forwarding
  target of the account's current setting and nobody else, on a day of that setting's frequency, only when
  there is an active thread or a visible quarantined message, and from a domain of the customer only if that
  domain is set up for sending; it queues nothing.
\<close>

theorem digest_confined: "safe (digest_allowed e today a) [] (process_digest e today a)"
  unfolding process_digest_def Let_def
  by (intro safe_dg_get safe_intros safe_mail_digest)
     (auto simp: Option.bind_eq_Some_conv no_mail_def digest_worth_def filter_empty_conv)

section \<open>Dispatch in batches\<close>

lemma concat_chunk: "n > 0 \<Longrightarrow> concat (chunk n xs) = xs"
  by (induction n xs rule: chunk.induct) (simp add: chunk.simps)

lemma chunk_lengths: "b \<in> set (chunk n xs) \<Longrightarrow> b \<noteq> [] \<and> length b \<le> n"
proof (induction n xs rule: chunk.induct)
  case (1 n xs)
  then show ?case by (subst (asm) chunk.simps) (auto split: if_splits)
qed

text \<open>The batches handed over: all of them when the result is ok; otherwise the first ones, up to and with
  the one that failed.\<close>

definition batches_tried :: "str list list \<Rightarrow> (app_error + unit) outcome \<Rightarrow> digest_event list \<Rightarrow> bool" where
  "batches_tried bs r es \<longleftrightarrow>
     r = Done (Inr ()) \<and> es = map (\<lambda>b. DgQueued b True) bs \<or>
     (\<exists>k < length bs. r \<noteq> Done (Inr ()) \<and> es = map (\<lambda>b. DgQueued b True) (take k bs) @ [DgQueued (bs ! k) False])"

definition dispatched_to :: "day_info \<Rightarrow> (app_error + unit) outcome \<Rightarrow> digest_event list \<Rightarrow> bool" where
  "dispatched_to today r es \<longleftrightarrow>
     es = [DgMetas None] \<and> r \<noteq> Done (Inr ()) \<or>
     (\<exists>metas bs es'. es = DgMetas (Some metas) # es' \<and> concat bs = qualifying today metas \<and>
       list_all (\<lambda>b. b \<noteq> [] \<and> length b \<le> 10) bs \<and> batches_tried bs r es')"

lemma spec_batches:
  "spec (for_ok bs (queue_batch e) ()) (batches_tried bs)"
proof (induction bs)
  case Nil
  show ?case by (auto simp: batches_tried_def intro: spec_ret)
next
  case (Cons b bs)
  show ?case
    unfolding for_ok.simps bind_ok_def
  proof (rule spec_bind [where Q = "\<lambda>r es. es = [DgQueued b (answered r \<noteq> None)]"])
    show "spec (queue_batch e () b) (\<lambda>r es. es = [DgQueued b (answered r \<noteq> None)])"
      unfolding queue_batch_def by (rule spec_call) simp
  next
    fix x :: "app_error + unit" and es
    assume es: "es = [DgQueued b (answered (Done x) \<noteq> None)]"
    show "spec (case x of Inl e \<Rightarrow> ret (Inl e)
        | Inr y \<Rightarrow> for_ok bs (queue_batch e) y)
      (\<lambda>r es'. batches_tried (b # bs) r (es @ es'))"
    proof (cases x)
      case (Inl m)
      with es show ?thesis by (auto simp: batches_tried_def intro!: spec_ret exI [of _ 0])
    next
      case (Inr y)
      have "batches_tried (b # bs) r (DgQueued b True # es')" if "batches_tried bs r es'" for r es'
        using that unfolding batches_tried_def by (fastforce intro: exI [of _ "Suc _"])
      with Inr es Cons.IH show ?thesis by (auto intro: spec_mono)
    qed
  next
    fix m es
    assume "es = [DgQueued b (answered (Threw m :: (app_error + unit) outcome) \<noteq> None)]"
    then show "batches_tried (b # bs) (Threw m) es" by (auto simp: batches_tried_def intro!: exI [of _ 0])
  qed
qed

text \<open>
  C39. Dispatch. The accounts whose setting is due today are queued in order, each once, in batches of one to
  ten; the dispatch is ok exactly when every batch was taken. A batch that fails stops it, and the batches
  before it stay queued.
\<close>

theorem dispatch_batches: "spec (dispatch_digests e today) (dispatched_to today)"
  unfolding dispatch_digests_def bind_ok_def
proof (rule spec_bind [where Q = "\<lambda>r es. es = [DgMetas (answered r)]"])
  show "spec (call (dgMetas e) (\<lambda>r. DgMetas (answered r))) (\<lambda>r es. es = [DgMetas (answered r)])"
    by (rule spec_call) simp
next
  fix x :: "app_error + (str \<times> digest_config option) list" and es
  assume es: "es = [DgMetas (answered (Done x))]"
  show "spec (case x of Inl e \<Rightarrow> ret (Inl e)
      | Inr metas \<Rightarrow> for_ok (chunk 10 (qualifying today metas)) (queue_batch e) ())
    (\<lambda>r es'. dispatched_to today r (es @ es'))"
  proof (cases x)
    case (Inl m)
    with es show ?thesis by (auto simp: dispatched_to_def intro: spec_ret)
  next
    case (Inr metas)
    have "list_all (\<lambda>b. b \<noteq> [] \<and> length b \<le> 10) (chunk 10 (qualifying today metas))"
      by (auto simp: list_all_iff dest: chunk_lengths)
    moreover have "concat (chunk 10 (qualifying today metas)) = qualifying today metas"
      by (simp add: concat_chunk)
    ultimately have "dispatched_to today r (DgMetas (Some metas) # es')"
      if "batches_tried (chunk 10 (qualifying today metas)) r es'" for r es'
      using that unfolding dispatched_to_def by blast
    with Inr es show ?thesis by (auto intro: spec_mono [OF spec_batches])
  qed
next
  fix m es
  assume "es = [DgMetas (answered (Threw m :: (app_error + (str \<times> digest_config option) list) outcome))]"
  then show "dispatched_to today (Threw m) es" by (simp add: dispatched_to_def)
qed

end
