(* ===== verification/Spec2Isabelle.thy ===== *)
theory Spec2Isabelle
  imports
    Prelude Programs Types Policy Ids Mailbox Regex MailText MailBody Retention Services Store
    Rules Outcome Stats StatsJob Counters Resources Paging CalendarCollapse ThreadMatch Bounce
    Embed BuildSignal Samples Errors Phases Finish Inbound CalendarIngest Pipeline Delivery
    SampleRun Guarantees SideEffects Effects Reprocess Mime Ses ReplySend LoopGuard
    DraftSend DraftLive Registry Zones Coerce CoerceFacts
    Prompt Fence Classifier ClassifierFacts Quarantine
    Guards SignalTable ThreadsApi ThreadsFacts Undo ProxyUid
    DbRows DbFacts AccountTable AccountApi AccountFacts AliasFacts
    RsvpRelay Wakeups Access Digest
begin

text \<open>
  A model of the SES email adapter: the service that receives mail for user-owned aliases,
  classifies it, groups it into threads, runs the user's rules on it and keeps what the user
  sees. The model follows the TypeScript sources under \<open>src/src\<close>; names of functions, record
  fields (with a two-letter prefix) and error kinds are the source's.

  The parts of the program and the theories that model them:

  \<^item> \<open>Prelude\<close>: JavaScript's strings and lists as the code uses them (\<open>slice\<close>, \<open>split\<close>,
    \<open>indexOf\<close>, \<open>trim\<close>, case folding on ASCII, truthiness of optional strings, stable sorting,
    insertion-ordered maps by grouping). Strings are lists of characters below 256; where the
    source counts UTF-8 bytes, the byte length is written out.
  \<^item> \<open>Programs\<close>: programs over a log of events. A service answers from the log of the calls made
    before it; a result is a value or a thrown exception. The sequential operators, loops with
    early return and \<open>try/catch\<close> come with a specification calculus (\<open>spec\<close>, \<open>emits\<close>).
  \<^item> \<open>Types\<close>: the records of \<open>types/index.ts\<close> and \<open>types/calendar.ts\<close>.
  \<^item> \<open>Policy\<close>, \<open>Ids\<close>, \<open>Mailbox\<close>, \<open>Regex\<close>, \<open>MailText\<close>, \<open>MailBody\<close>, \<open>Retention\<close>, \<open>Embed\<close>: the pure
    functions of the processing code (\<open>filter.ts\<close>, \<open>priority.ts\<close>, \<open>grouping-key.ts\<close>, \<open>id.ts\<close>,
    \<open>address.ts\<close>, \<open>message-id.ts\<close>, the text helpers of \<open>incoming-email-processor.ts\<close>,
    \<open>retention.ts\<close>, \<open>retention-tier.ts\<close>, \<open>embed-text.ts\<close>).
  \<^item> \<open>Services\<close>, \<open>Store\<close>: what the processing code calls (tables, content store, sanitizer,
    classifier, embedder, senders), as parameters of an environment, and the calls themselves as
    programs, each of which leaves one event in the log.
  \<^item> \<open>Rules\<close>, \<open>Outcome\<close>: \<open>rule-evaluator.ts\<close>, \<open>interpret-rule-result.ts\<close>, \<open>applyRules\<close> and
    \<open>deriveOutcome\<close>.
  \<^item> \<open>BuildSignal\<close>: the stored form of a message.
  \<^item> \<open>Stats\<close>, \<open>StatsJob\<close>, \<open>Counters\<close>: the statistics rows, their monthly snapshots, and the
    idempotent counter write as a transition system of concurrent workers.
  \<^item> \<open>Resources\<close>: resources derived from messages, their collapse into cards, and the stored row.
  \<^item> \<open>Paging\<close>: the listings over a sorted index.
  \<^item> \<open>CalendarCollapse\<close>: events of one message, and the calendar signals of one thread.
  \<^item> \<open>ThreadMatch\<close>: the retry loop around the vector store and the lookup of a matching thread.
  \<^item> \<open>Bounce\<close>: bounces, complaints and the suppression list.
  \<^item> \<open>Errors\<close>: the constructors of \<open>errors.ts\<close>.
  \<^item> \<open>Inbound\<close>, \<open>CalendarIngest\<close>, \<open>Pipeline\<close>, \<open>Finish\<close>: \<open>processInbound\<close> of
    \<open>incoming-email-processor.ts\<close>, stage by stage and composed as the code composes it: intake
    (account, duplicates, spoofing, alias, sanitizing, bounces, blocked senders), classification and
    matching, rules and decision, the stored thread and signal, calendar attachments, and the last
    steps that a retry resumes.
  \<^item> \<open>Phases\<close>, \<open>Delivery\<close>, \<open>Guarantees\<close>: the abstract specification of a delivery, a state
    machine over its events with a small program logic; the refinement lemma of every stage; and
    what it means for the log of a delivery: order of writes, refused mail, retries.
  \<^item> \<open>SideEffects\<close>, \<open>Effects\<close>, \<open>Reprocess\<close>: what the queue does with an accepted message (forward,
    notify, answer a test, draft and send from templates, forward an invite), which of these can
    happen and when the message counts as dealt with; and the processing of a stored message anew.
  \<^item> \<open>Mime\<close>: \<open>mime-builder.ts\<close>, and the header block as a reader of the message sees it.
  \<^item> \<open>Ses\<close>, \<open>ReplySend\<close>, \<open>LoopGuard\<close>, \<open>DraftSend\<close>, \<open>DraftLive\<close>: outbound mail (\<open>email-service.ts\<close>,
    \<open>reply-sender.ts\<close>, \<open>draft-send-worker.ts\<close>, \<open>mx-validator.ts\<close>) over events that carry what each read
    returned: what reaches SES, which route a reply may take, why loops of answers end, when a queued
    draft is sent, parked or retried, and that a draft nothing stands against is sent.
  \<^item> \<open>Registry\<close>, \<open>Zones\<close>, \<open>Coerce\<close>, \<open>CoerceFacts\<close>: the field registry of the workflows, time zones
    and their abbreviations, and the coercion of the language model's answer to the declared field
    types (\<open>workflow-registry.ts\<close>, \<open>timezone-allowlist.ts\<close>, \<open>coerce-workflow-data.ts\<close>,
    \<open>display-to-instant.ts\<close>); date arithmetic is a parameter (\<open>luxon\<close>).
  \<^item> \<open>Prompt\<close>, \<open>Fence\<close>, \<open>Classifier\<close>, \<open>ClassifierFacts\<close>: the user message of the prompt and its fence
    around untrusted text, and the way from the model's response to a classification
    (\<open>prompt-builder.ts\<close>, \<open>classifier.ts\<close>, \<open>tags.ts\<close>).
  \<^item> \<open>Quarantine\<close>: the quarantine list and the handler of the user's decision on a held message
    (\<open>signalsApi.ts\<close>), with what that decision may write.
  \<^item> \<open>Guards\<close>, \<open>ThreadsApi\<close>, \<open>ThreadsFacts\<close>: the requests on threads, drafts and calendar events
    (\<open>threadsApi.ts\<close>, \<open>undo-window.ts\<close>, \<open>schedule-name.ts\<close>) as programs over the services they call, a
    calculus for what such a program may do given what it has read, and what the requests on drafts and
    followups may write.
  \<^item> \<open>SignalTable\<close>, \<open>Undo\<close>: the rows of the signals table (\<open>thread-database.ts\<close>), and the sending of a
    draft as a transition system of the user's requests, the table and the queue's worker.
  \<^item> \<open>ProxyUid\<close>: the signed identity of a forwarded invitation (\<open>proxy-uid.ts\<close>).
  \<^item> \<open>DbRows\<close>, \<open>DbFacts\<close>: rows of attribute maps, requests to them that may fail before or after their
    effect, other writers in between, and a Hoare calculus for programs over them.
  \<^item> \<open>AccountTable\<close>, \<open>AccountApi\<close>, \<open>AccountFacts\<close>, \<open>AliasFacts\<close>: the accounts table
    (\<open>account-database.ts\<close>, \<open>system-account-db.ts\<close>, \<open>system-rules.ts\<close>) and the requests on an account's
    configuration (\<open>aliasesApi.ts\<close>, \<open>domainsApi.ts\<close>, \<open>rulesApi.ts\<close>, \<open>labelsApi.ts\<close>, \<open>viewsApi.ts\<close>,
    \<open>templatesApi.ts\<close>, \<open>accountsApi.ts\<close>, \<open>userApi.ts\<close>); the invariant of the table that every sequence of
    requests keeps (verified targets, one owner of a domain), and what changes of an alias do to its mail.
  \<^item> \<open>RsvpRelay\<close>: the calendar proxy (\<open>calendar-forwarder.ts\<close>, \<open>ics-builder.ts\<close>,
    \<open>incoming-calendar-rsvp-processor.ts\<close>): an answer is relayed only for a signed identity and the stored event.
  \<^item> \<open>Wakeups\<close>: followups and reminders when they fire, and the client of the scheduler (\<open>src/src/scheduler\<close>).
  \<^item> \<open>Access\<close>: roles and permissions (\<open>authress-access.ts\<close>, \<open>authorization-middleware.ts\<close>,
    \<open>authorization-guard.ts\<close>) and the requests on the users of an account.
  \<^item> \<open>Digest\<close>: the dispatch of the digest mails, the mail and its cards (\<open>src/src/digest\<close>).
  \<^item> \<open>Samples\<close>, \<open>SampleRun\<close>: concrete environments and one complete delivery, for witnesses.

  Parameters. Code that is not in the repository is an argument: SHA-256, base64, the UUID
  translation, the public-suffix lookup, the URL parser, and every service. What a property
  needs of such a parameter is a hypothesis of that property, and the property has a witness that
  instantiates it.

  Loops. Every loop of the model is a structural recursion, a recursion on a list that gets shorter, or a
  recursion on an attempt budget that is the source's own bound (three or eight attempts in \<open>withRetry\<close>, one hundred history
  entries in the counters); no fuel is used.

  Not modelled: the other HTTP routes and their schemas, the adapters of external mail exchanges
  (network protocols on third-party libraries), the isolated sanitizer and user-code container
  (a separate process; here services), the fixed text of the system prompt, the ICS grammar (third-party
  library), delivery to devices, migrations, the DNS records of a domain's setup, wiring and logging. The lag of
  an index behind its table is part of \<open>Undo\<close>; the requests on the accounts table read an index that has
  caught up.
\<close>

end
